(* ===== verification/Prelude.thy ===== *)
theory Prelude
  imports Complex_Main "HOL-Library.Word" "HOL-Library.List_Lexorder" "HOL-Library.Char_ord"
begin

section \<open>Shared vocabulary\<close>

text \<open>
  What every component uses: JavaScript values and strings, results that may carry a
  thrown error, and the list lemmas behind the database tables.

  A JavaScript string is a \<^typ>\<open>string\<close>: one \<^typ>\<open>char\<close> per code unit, so code units up
  to 255 are represented (Latin-1); \<open>js_trim\<close> and \<open>utf8_length\<close> say what the language does
  for exactly those. A JSON value is a \<open>jsval\<close>; its numbers are rationals, which covers every
  finite IEEE double. An operation that may throw returns \<open>'e + 'a\<close>, with \<^const>\<open>Inl\<close> the
  thrown error.
\<close>

named_theorems tx_simps \<open>unfolding and inversion of the transaction monad\<close>
named_theorems row_simps \<open>rows, tables and their updates\<close>
named_theorems path_simps \<open>lexical path functions\<close>

subsection \<open>Strings\<close>

definition is_js_space :: "char \<Rightarrow> bool" where
  "is_js_space c =
     (let n = (of_char c :: nat) in (9 \<le> n \<and> n \<le> 13) \<or> n = 32 \<or> n = 160)"

definition js_trim :: "string \<Rightarrow> string" where
  "js_trim s = rev (dropWhile is_js_space (rev (dropWhile is_js_space s)))"

definition utf8_length :: "string \<Rightarrow> nat" where
  "utf8_length s = sum_list (map (\<lambda>c. if (of_char c :: nat) < 128 then 1 else 2) s)"

definition startsWith :: "string \<Rightarrow> string \<Rightarrow> bool" where
  "startsWith s p = (take (length p) s = p)"

definition is_lower :: "char \<Rightarrow> bool" where
  "is_lower c = (let n = (of_char c :: nat) in 97 \<le> n \<and> n \<le> 122)"

definition is_upper :: "char \<Rightarrow> bool" where
  "is_upper c = (let n = (of_char c :: nat) in 65 \<le> n \<and> n \<le> 90)"

definition is_digit :: "char \<Rightarrow> bool" where
  "is_digit c = (let n = (of_char c :: nat) in 48 \<le> n \<and> n \<le> 57)"

fun digits_value :: "nat \<Rightarrow> string \<Rightarrow> nat" where
  "digits_value acc [] = acc"
| "digits_value acc (c # cs) = digits_value (10 * acc + (of_char c - 48)) cs"

fun show_nat :: "nat \<Rightarrow> string" where
  "show_nat n =
     (if n < 10 then [char_of (48 + n)] else show_nat (n div 10) @ [char_of (48 + n mod 10)])"

declare show_nat.simps [simp del]

definition show_int :: "int \<Rightarrow> string" where
  "show_int n = (if n < 0 then CHR ''-'' # show_nat (nat (- n)) else show_nat (nat n))"

lemma js_trim_Nil [simp]: "js_trim [] = []"
  by (simp add: js_trim_def)

lemma dropWhile_idem [simp]: "dropWhile P (dropWhile P xs) = dropWhile P xs"
  by (induction xs) auto

lemma dropWhile_hd: "dropWhile P xs = [] \<or> \<not> P (hd (dropWhile P xs))"
  by (induction xs) auto

lemma dropWhile_fix: "xs = [] \<or> \<not> P (hd xs) \<Longrightarrow> dropWhile P xs = xs"
  by (cases xs) auto

lemma dropWhile_rev_dropWhile:
  assumes "xs = [] \<or> \<not> P (hd xs)"
  shows "dropWhile P (rev (dropWhile P (rev xs))) = rev (dropWhile P (rev xs))"
proof (cases "rev (dropWhile P (rev xs))")
  case Nil
  then show ?thesis by (simp only: dropWhile.simps)
next
  case (Cons y ys)
  have "xs = rev (dropWhile P (rev xs)) @ rev (takeWhile P (rev xs))"
    by (metis rev_append rev_rev_ident takeWhile_dropWhile_id)
  with Cons have "xs \<noteq> []" and "hd xs = y"
    by (metis append_Cons list.distinct(1)) (metis Cons append_Cons list.sel(1)
        \<open>xs = rev (dropWhile P (rev xs)) @ rev (takeWhile P (rev xs))\<close>)
  with assms Cons show ?thesis by simp
qed

lemma js_trim_idem [simp]: "js_trim (js_trim s) = js_trim s"
proof -
  let ?a = "dropWhile is_js_space s"
  have "?a = [] \<or> \<not> is_js_space (hd ?a)" by (rule dropWhile_hd)
  then have "dropWhile is_js_space (js_trim s) = js_trim s"
    unfolding js_trim_def by (rule dropWhile_rev_dropWhile)
  then show ?thesis
    unfolding js_trim_def by simp
qed

lemma length_js_trim_le: "length (js_trim s) \<le> length s"
  unfolding js_trim_def
  by (metis dual_order.trans length_dropWhile_le length_rev)

lemma utf8_length_ge: "length s \<le> utf8_length s"
  by (induction s) (auto simp: utf8_length_def)

subsection \<open>JSON values\<close>

datatype jsval =
    JUndefined
  | JNull
  | JBool bool
  | JNum rat
  | JStr string
  | JArr "jsval list"
  | JObj "(string \<times> jsval) list"

definition MAX_SAFE_INTEGER :: int where
  "MAX_SAFE_INTEGER = 9007199254740991"

definition isSafeInteger :: "int \<Rightarrow> bool" where
  "isSafeInteger n = (\<bar>n\<bar> \<le> MAX_SAFE_INTEGER)"

definition get_prop :: "(string \<times> jsval) list \<Rightarrow> string \<Rightarrow> jsval" where
  "get_prop fields key = (case map_of fields key of None \<Rightarrow> JUndefined | Some v \<Rightarrow> v)"

definition nullish :: "jsval \<Rightarrow> jsval \<Rightarrow> jsval" where
  "nullish a b = (if a = JUndefined \<or> a = JNull then b else a)"

fun the_str :: "jsval \<Rightarrow> string option" where
  "the_str (JStr s) = Some s"
| "the_str _ = None"

subsection \<open>Tables\<close>

text \<open>
  A table is the list of its rows. \<open>sql_update p f\<close> is \<open>UPDATE ... SET f WHERE p\<close>, and
  \<open>sql_returning p f\<close> the rows that its \<open>RETURNING\<close> clause yields.
\<close>

definition sql_update :: "('r \<Rightarrow> bool) \<Rightarrow> ('r \<Rightarrow> 'r) \<Rightarrow> 'r list \<Rightarrow> 'r list" where
  "sql_update p f t = map (\<lambda>r. if p r then f r else r) t"

definition sql_returning :: "('r \<Rightarrow> bool) \<Rightarrow> ('r \<Rightarrow> 'r) \<Rightarrow> 'r list \<Rightarrow> 'r list" where
  "sql_returning p f t = map f (filter p t)"

definition first_row :: "'r list \<Rightarrow> 'r option" where
  "first_row rows = (case rows of [] \<Rightarrow> None | r # _ \<Rightarrow> Some r)"

lemma first_row_Nil [simp]: "first_row [] = None"
  and first_row_Cons [simp]: "first_row (r # rs) = Some r"
  by (simp_all add: first_row_def)

lemma first_row_None [simp]: "first_row rows = None \<longleftrightarrow> rows = []"
  by (cases rows) auto

lemma first_row_Some_in: "first_row rows = Some r \<Longrightarrow> r \<in> set rows"
  by (cases rows) auto

lemma first_row_filter_Some:
  "first_row (filter p t) = Some r \<Longrightarrow> r \<in> set t \<and> p r"
  using first_row_Some_in by fastforce

lemma first_row_returning_Some:
  assumes "first_row (sql_returning p f t) = Some u"
  shows "\<exists>x \<in> set t. p x \<and> u = f x"
proof -
  have "u \<in> set (map f (filter p t))"
    using first_row_Some_in [OF assms] by (simp add: sql_returning_def)
  then show ?thesis by auto
qed

lemma length_sql_update [simp]: "length (sql_update p f t) = length t"
  by (simp add: sql_update_def)

lemma sql_update_Nil [simp]: "sql_update p f [] = []"
  and sql_update_Cons [simp]:
    "sql_update p f (r # t) = (if p r then f r else r) # sql_update p f t"
  by (simp_all add: sql_update_def)

lemma sql_update_none: "(\<And>r. r \<in> set t \<Longrightarrow> \<not> p r) \<Longrightarrow> sql_update p f t = t"
  by (induction t) auto

lemma map_sql_update:
  "(\<And>r. r \<in> set t \<Longrightarrow> p r \<Longrightarrow> k (f r) = k r) \<Longrightarrow> map k (sql_update p f t) = map k t"
  by (induction t) auto

lemma in_sql_update:
  "r' \<in> set (sql_update p f t) \<longleftrightarrow> (\<exists>r \<in> set t. r' = (if p r then f r else r))"
  by (auto simp: sql_update_def)

text \<open>With a key that is unique in the table, a \<open>WHERE key = k\<close> clause selects one row.\<close>

lemma filter_key_unique:
  assumes "distinct (map k t)" and "r \<in> set t"
  shows "filter (\<lambda>x. k x = k r) t = [r]"
  using assms
proof (induction t)
  case Nil
  then show ?case by simp
next
  case (Cons a t)
  have empty: "filter (\<lambda>x. k x = k a) t = []"
    using Cons.prems(1) by (simp add: filter_empty_conv image_iff) metis
  show ?case
  proof (cases "r = a")
    case True
    with empty show ?thesis by simp
  next
    case False
    with Cons.prems have "r \<in> set t" and "k a \<noteq> k r" by (auto simp: image_iff)
    with Cons show ?thesis by simp
  qed
qed

lemma distinct_key_eq:
  "distinct (map k t) \<Longrightarrow> a \<in> set t \<Longrightarrow> b \<in> set t \<Longrightarrow> k a = k b \<Longrightarrow> a = b"
  by (auto simp: distinct_map dest: inj_onD)

subsection \<open>Transactions\<close>

text \<open>
  \<open>('e, 's, 'a) tx\<close> is the body of a database transaction over state \<open>'s\<close>: it throws or
  returns a value with the next state. \<open>transaction\<close> commits the new state of a body that
  returns and restores the old one when the body throws.
\<close>

type_synonym ('e, 's, 'a) tx = "'s \<Rightarrow> 'e + ('a \<times> 's)"

definition tx_return :: "'a \<Rightarrow> ('e, 's, 'a) tx" where
  "tx_return a s = Inr (a, s)"

definition tx_throw :: "'e \<Rightarrow> ('e, 's, 'a) tx" where
  "tx_throw e s = Inl e"

definition tx_read :: "('s \<Rightarrow> 'a) \<Rightarrow> ('e, 's, 'a) tx" where
  "tx_read f s = Inr (f s, s)"

definition tx_bind :: "('e, 's, 'a) tx \<Rightarrow> ('a \<Rightarrow> ('e, 's, 'b) tx) \<Rightarrow> ('e, 's, 'b) tx" where
  "tx_bind m k s = (case m s of Inl e \<Rightarrow> Inl e | Inr (a, s') \<Rightarrow> k a s')"

definition tx_check :: "bool \<Rightarrow> 'e \<Rightarrow> ('e, 's, unit) tx" where
  "tx_check ok e s = (if ok then Inr ((), s) else Inl e)"

definition transaction :: "('e, 's, 'a) tx \<Rightarrow> 's \<Rightarrow> ('e + 'a) \<times> 's" where
  "transaction m s = (case m s of Inl e \<Rightarrow> (Inl e, s) | Inr (a, s') \<Rightarrow> (Inr a, s'))"

lemma tx_return_eq [tx_simps]: "tx_return a s = Inr (a, s)"
  by (simp add: tx_return_def)

lemma tx_throw_eq [tx_simps]: "tx_throw e s = Inl e"
  by (simp add: tx_throw_def)

lemma tx_read_eq [tx_simps]: "tx_read f s = Inr (f s, s)"
  by (simp add: tx_read_def)

lemma tx_check_Inr [tx_simps]: "tx_check ok e s = Inr (u, s') \<longleftrightarrow> ok \<and> s' = s"
  by (auto simp: tx_check_def)

lemma tx_check_Inl [tx_simps]: "tx_check ok e s = Inl e' \<longleftrightarrow> \<not> ok \<and> e' = e"
  by (auto simp: tx_check_def)

lemma tx_bind_Inr [tx_simps]:
  "tx_bind m k s = Inr r \<longleftrightarrow> (\<exists>a s'. m s = Inr (a, s') \<and> k a s' = Inr r)"
  by (auto simp: tx_bind_def split: sum.splits)

lemma tx_bind_Inl [tx_simps]:
  "tx_bind m k s = Inl e \<longleftrightarrow> m s = Inl e \<or> (\<exists>a s'. m s = Inr (a, s') \<and> k a s' = Inl e)"
  by (auto simp: tx_bind_def split: sum.splits)

lemma tx_bind_run [simp]: "m s = Inr (a, s') \<Longrightarrow> tx_bind m k s = k a s'"
  by (simp add: tx_bind_def)

lemma tx_bind_fail [simp]: "m s = Inl e \<Longrightarrow> tx_bind m k s = Inl e"
  by (simp add: tx_bind_def)

lemma transaction_Inr: "transaction m s = (Inr a, s') \<longleftrightarrow> m s = Inr (a, s')"
  by (auto simp: transaction_def split: sum.splits)

lemma transaction_Inl: "transaction m s = (Inl e, s') \<longleftrightarrow> m s = Inl e \<and> s' = s"
  by (auto simp: transaction_def split: sum.splits)

text \<open>An invariant kept by the body whenever it returns is kept by the transaction.\<close>

lemma transaction_keeps:
  assumes "I s" and "\<And>a s'. m s = Inr (a, s') \<Longrightarrow> I s'"
  shows "I (snd (transaction m s))"
  using assms by (auto simp: transaction_def split: sum.splits)

text \<open>
  The contract between a transaction body and a relation on the tables that is reflexive and
  transitive: a body \<open>keeps\<close> the relation when every run that returns ends in a related state, and a
  committed or rolled back transaction then relates the state before to the state after.
\<close>

locale tx_relation =
  fixes R :: "'s \<Rightarrow> 's \<Rightarrow> bool"
  assumes rel_refl: "R s s"
    and rel_trans: "R s t \<Longrightarrow> R t u \<Longrightarrow> R s u"
begin

definition keeps :: "('e, 's, 'a) tx \<Rightarrow> bool" where
  "keeps m = (\<forall>s a s'. m s = Inr (a, s') \<longrightarrow> R s s')"

lemma keepsD: "keeps m \<Longrightarrow> m s = Inr (a, s') \<Longrightarrow> R s s'"
  by (auto simp: keeps_def)

lemma keepsI: "(\<And>s a s'. m s = Inr (a, s') \<Longrightarrow> R s s') \<Longrightarrow> keeps m"
  by (auto simp: keeps_def)

lemma keeps_return: "keeps (tx_return a)"
  and keeps_throw: "keeps (tx_throw e)"
  and keeps_read: "keeps (tx_read f)"
  and keeps_check: "keeps (tx_check ok e)"
  by (auto simp: keeps_def tx_simps rel_refl split: if_splits)

lemma keeps_bind: "keeps m \<Longrightarrow> (\<And>a. keeps (k a)) \<Longrightarrow> keeps (tx_bind m k)"
  unfolding keeps_def tx_simps by (metis rel_trans)

lemma keeps_transaction: "keeps m \<Longrightarrow> R s (snd (transaction m s))"
  by (auto simp: transaction_def keeps_def rel_refl split: sum.splits)

lemma rel_transaction:
  "(\<And>a s'. m s = Inr (a, s') \<Longrightarrow> R s s') \<Longrightarrow> R s (snd (transaction m s))"
  by (auto simp: transaction_def rel_refl split: sum.splits)

end

end
