(* ===== verification/Job_Types.thy ===== *)
theory Job_Types
  imports Prelude
begin

section \<open>Job vocabulary and the job state machine\<close>

text \<open>
  \<open>packages/protocol/src/job.ts\<close> (statuses, identifiers, timestamps, bounded text),
  \<open>apps/control-plane/src/domain/job-state.ts\<close> (the transition table) and
  \<open>apps/control-plane/src/domain/errors.ts\<close> (public error codes). The table is also given as
  an \<open>inductive\<close> step relation, over which reachability and the terminal states are studied.
\<close>

subsection \<open>Statuses\<close>

datatype JobStatus =
    Queued | Dispatched | Running | Waiting_approval | Cancelling
  | Succeeded | Failed | Cancelled | Expired

fun status_string :: "JobStatus \<Rightarrow> string" where
  "status_string Queued = ''queued''"
| "status_string Dispatched = ''dispatched''"
| "status_string Running = ''running''"
| "status_string Waiting_approval = ''waiting_approval''"
| "status_string Cancelling = ''cancelling''"
| "status_string Succeeded = ''succeeded''"
| "status_string Failed = ''failed''"
| "status_string Cancelled = ''cancelled''"
| "status_string Expired = ''expired''"

datatype ConnectorHealth = Fresh | Stale | Offline

datatype JobMode = Normal | Read_only

fun mode_string :: "JobMode \<Rightarrow> string" where
  "mode_string Normal = ''normal''"
| "mode_string Read_only = ''read_only''"

subsection \<open>Identifiers\<close>

text \<open>\<open>/^[a-z0-9][a-z0-9-]{1,49}$/\<close> and \<open>/^QH-[A-Z0-9]{4}$/\<close>.\<close>

definition RepositoryIdSchema :: "string \<Rightarrow> bool" where
  "RepositoryIdSchema s =
     (case s of [] \<Rightarrow> False
      | c # cs \<Rightarrow> (is_lower c \<or> is_digit c)
          \<and> 1 \<le> length cs \<and> length cs \<le> 49
          \<and> list_all (\<lambda>d. is_lower d \<or> is_digit d \<or> d = CHR ''-'') cs)"

definition ShortJobIdSchema :: "string \<Rightarrow> bool" where
  "ShortJobIdSchema s =
     (length s = 7 \<and> startsWith s ''QH-''
      \<and> list_all (\<lambda>c. is_upper c \<or> is_digit c) (drop 3 s))"

subsection \<open>Timestamps\<close>

definition isLeapYear :: "nat \<Rightarrow> bool" where
  "isLeapYear year = (year mod 4 = 0 \<and> (year mod 100 \<noteq> 0 \<or> year mod 400 = 0))"

definition daysInMonth :: "nat \<Rightarrow> nat \<Rightarrow> nat" where
  "daysInMonth year month =
     (if month = 2 then (if isLeapYear year then 29 else 28)
      else if month \<in> set [4, 6, 9, 11] then 30 else 31)"

text \<open>
  \<open>RFC3339_TIMESTAMP_PATTERN\<close>, read from the left: each recogniser consumes its part and
  hands on the rest of the string.
\<close>

definition take_digits :: "nat \<Rightarrow> string \<Rightarrow> (nat \<times> string) option" where
  "take_digits n s =
     (if n \<le> length s \<and> list_all is_digit (take n s)
      then Some (digits_value 0 (take n s), drop n s) else None)"

definition take_lit :: "char \<Rightarrow> string \<Rightarrow> string option" where
  "take_lit c s = (case s of [] \<Rightarrow> None | d # ds \<Rightarrow> if d = c then Some ds else None)"

definition take_bounded :: "nat \<Rightarrow> string \<Rightarrow> string option" where
  "take_bounded hi s =
     (case take_digits 2 s of None \<Rightarrow> None
      | Some (v, rest) \<Rightarrow> if v \<le> hi then Some rest else None)"

text \<open>\<open>(?:\.\d+)?\<close> is greedy, and what follows it cannot start with a digit.\<close>

definition skip_fraction :: "string \<Rightarrow> string" where
  "skip_fraction s =
     (case s of
        c # d # ds \<Rightarrow>
          if c = CHR ''.'' \<and> is_digit d then dropWhile is_digit ds else s
      | _ \<Rightarrow> s)"

definition at_zone :: "string \<Rightarrow> bool" where
  "at_zone s =
     (s = ''Z'' \<or>
      (case s of [] \<Rightarrow> False
       | c # cs \<Rightarrow> (c = CHR ''+'' \<or> c = CHR ''-'')
           \<and> (Option.bind (take_bounded 23 cs)
                (\<lambda>r. Option.bind (take_lit CHR '':'' r) (take_bounded 59))) = Some []))"

definition match_rfc3339 :: "string \<Rightarrow> (nat \<times> nat \<times> nat) option" where
  "match_rfc3339 s =
     Option.bind (take_digits 4 s) (\<lambda>(y, r1).
     Option.bind (take_lit CHR ''-'' r1) (\<lambda>r2.
     Option.bind (take_digits 2 r2) (\<lambda>(m, r3).
     Option.bind (take_lit CHR ''-'' r3) (\<lambda>r4.
     Option.bind (take_digits 2 r4) (\<lambda>(d, r5).
     Option.bind (take_lit CHR ''T'' r5) (\<lambda>r6.
     Option.bind (take_bounded 23 r6) (\<lambda>r7.
     Option.bind (take_lit CHR '':'' r7) (\<lambda>r8.
     Option.bind (take_bounded 59 r8) (\<lambda>r9.
     Option.bind (take_lit CHR '':'' r9) (\<lambda>r10.
     Option.bind (take_bounded 59 r10) (\<lambda>r11.
       if at_zone (skip_fraction r11) then Some (y, m, d) else None)))))))))))"

definition isValidRfc3339Timestamp :: "string \<Rightarrow> bool" where
  "isValidRfc3339Timestamp value =
     (case match_rfc3339 value of
        None \<Rightarrow> False
      | Some (year, month, day) \<Rightarrow>
          month \<ge> 1 \<and> month \<le> 12 \<and> day \<ge> 1 \<and> day \<le> daysInMonth year month)"

subsection \<open>Bounded text and the submit input\<close>

text \<open>
  \<open>boundedUtf8Text(maxBytes)\<close> trims, refuses the empty string and bounds the UTF-8 length of
  what is left; a parse yields the trimmed string.
\<close>

definition boundedUtf8Text :: "nat \<Rightarrow> string \<Rightarrow> string option" where
  "boundedUtf8Text maxBytes s =
     (let v = js_trim s
      in if length v \<ge> 1 \<and> utf8_length v \<le> maxBytes then Some v else None)"

record SubmitTaskInput =
  client_request_id :: string
  repository_id :: string
  request :: string
  mode_in :: "JobMode option"

definition mode_of :: "jsval \<Rightarrow> JobMode option" where
  "mode_of v =
     (if v = JUndefined \<or> v = JStr ''normal'' then Some Normal
      else if v = JStr ''read_only'' then Some Read_only else None)"

text \<open>
  \<open>SubmitTaskInputSchema\<close> is strict: an object with any other key is refused. \<open>is_uuid\<close> stands
  for zod's \<open>z.string().uuid()\<close>.
\<close>

definition SubmitTaskInputSchema ::
  "(string \<Rightarrow> bool) \<Rightarrow> jsval \<Rightarrow> SubmitTaskInput option" where
  "SubmitTaskInputSchema is_uuid v =
     (case v of
        JObj fs \<Rightarrow>
          if set (map fst fs)
               \<subseteq> {''client_request_id'', ''repository_id'', ''request'', ''mode''}
          then
            Option.bind (the_str (get_prop fs ''client_request_id'')) (\<lambda>cid.
            Option.bind (the_str (get_prop fs ''repository_id'')) (\<lambda>rid.
            Option.bind (the_str (get_prop fs ''request'')) (\<lambda>req.
            Option.bind (boundedUtf8Text 4000 req) (\<lambda>text.
            Option.bind (mode_of (get_prop fs ''mode'')) (\<lambda>m.
              if is_uuid cid \<and> RepositoryIdSchema rid
              then Some \<lparr>client_request_id = cid, repository_id = rid,
                         request = text, mode_in = Some m\<rparr>
              else None)))))
          else None
      | _ \<Rightarrow> None)"

subsection \<open>The transition table\<close>

fun transitions :: "JobStatus \<Rightarrow> JobStatus list" where
  "transitions Queued = [Dispatched, Cancelled, Expired]"
| "transitions Dispatched = [Running, Cancelled, Expired]"
| "transitions Running = [Waiting_approval, Cancelling, Succeeded, Failed, Expired]"
| "transitions Waiting_approval = [Running, Cancelling, Failed, Expired]"
| "transitions Cancelling = [Cancelled, Succeeded, Failed, Expired]"
| "transitions Succeeded = []"
| "transitions Failed = []"
| "transitions Cancelled = []"
| "transitions Expired = []"

definition TERMINAL_JOB_STATES :: "JobStatus list" where
  "TERMINAL_JOB_STATES = [Succeeded, Failed, Cancelled, Expired]"

definition canTransition :: "JobStatus \<Rightarrow> JobStatus \<Rightarrow> bool" where
  "canTransition from to = (to \<in> set (transitions from))"

definition isTerminal :: "JobStatus \<Rightarrow> bool" where
  "isTerminal status = (status \<in> set TERMINAL_JOB_STATES)"

text \<open>\<open>assertTransition\<close> throws \<open>INVALID_JOB_TRANSITION:from:to\<close>; the message is its result.\<close>

definition assertTransition :: "JobStatus \<Rightarrow> JobStatus \<Rightarrow> string option" where
  "assertTransition from to =
     (if canTransition from to then None
      else Some (''INVALID_JOB_TRANSITION:'' @ status_string from @ '':'' @ status_string to))"

lemma terminal_iff_no_transition: "isTerminal s \<longleftrightarrow> transitions s = []"
  by (cases s) (auto simp: isTerminal_def TERMINAL_JOB_STATES_def)

lemma canTransition_irrefl: "\<not> canTransition s s"
  by (cases s) (auto simp: canTransition_def)

lemma canTransition_not_terminal: "canTransition s t \<Longrightarrow> \<not> isTerminal s"
  by (auto simp: canTransition_def terminal_iff_no_transition)

lemma canTransition_never_queued: "canTransition s t \<Longrightarrow> t \<noteq> Queued"
  by (cases s) (auto simp: canTransition_def)

subsection \<open>The state machine as a step relation\<close>

inductive job_step :: "JobStatus \<Rightarrow> JobStatus \<Rightarrow> bool" where
  edge: "canTransition s t \<Longrightarrow> job_step s t"

inductive_cases job_stepE: "job_step s t"

inductive job_reach :: "JobStatus \<Rightarrow> JobStatus \<Rightarrow> bool" where
  stay: "job_reach s s"
| move: "job_reach s t \<Longrightarrow> job_step t u \<Longrightarrow> job_reach s u"

lemma job_reach_trans: "job_reach t u \<Longrightarrow> job_reach s t \<Longrightarrow> job_reach s u"
  by (induction rule: job_reach.induct) (auto intro: job_reach.move)

lemma job_reach_edge: "canTransition s t \<Longrightarrow> job_reach s t"
  by (blast intro: job_reach.intros job_step.edge)

lemma terminal_absorbing: "job_reach s t \<Longrightarrow> isTerminal s \<Longrightarrow> t = s"
  by (induction rule: job_reach.induct)
     (auto elim!: job_stepE dest: canTransition_not_terminal)

lemma cancelling_reach:
  "job_reach s t \<Longrightarrow> s = Cancelling \<Longrightarrow> t = Cancelling \<or> isTerminal t"
  by (induction rule: job_reach.induct)
     (auto elim!: job_stepE dest: canTransition_not_terminal
       simp: canTransition_def isTerminal_def TERMINAL_JOB_STATES_def)

text \<open>How far a job has got. Every edge but \<open>waiting_approval \<rightarrow> running\<close> increases it.\<close>

fun progress :: "JobStatus \<Rightarrow> nat" where
  "progress Queued = 0"
| "progress Dispatched = 1"
| "progress Running = 2"
| "progress Waiting_approval = 3"
| "progress Cancelling = 4"
| "progress _ = 5"

lemma canTransition_progress:
  "canTransition s t \<Longrightarrow> progress s < progress t \<or> (s = Waiting_approval \<and> t = Running)"
  by (cases s; cases t) (auto simp: canTransition_def)

lemma canTransition_to_terminal: "\<not> isTerminal s \<Longrightarrow> canTransition s Expired"
  by (cases s) (auto simp: canTransition_def isTerminal_def TERMINAL_JOB_STATES_def)

subsection \<open>Public error codes\<close>

datatype DomainErrorCode =
    D_CONNECTOR_OFFLINE | D_REPOSITORY_NOT_ALLOWED | D_JOB_NOT_FOUND | D_JOB_NOT_MUTABLE
  | D_IDEMPOTENCY_CONFLICT | D_APPROVAL_EXPIRED | D_APPROVAL_MISMATCH | D_POLICY_DENIED
  | D_HARNESS_FAILED | D_TASK_TIMEOUT | D_CONNECTOR_LOST | D_RATE_LIMITED | D_INTERNAL
  | D_REVISION_CONFLICT | D_UNAUTHENTICATED

definition DOMAIN_ERROR_CODES :: "(string \<times> DomainErrorCode) list" where
  "DOMAIN_ERROR_CODES =
    [(''CONNECTOR_OFFLINE'', D_CONNECTOR_OFFLINE),
     (''REPOSITORY_NOT_ALLOWED'', D_REPOSITORY_NOT_ALLOWED),
     (''JOB_NOT_FOUND'', D_JOB_NOT_FOUND),
     (''JOB_NOT_MUTABLE'', D_JOB_NOT_MUTABLE),
     (''IDEMPOTENCY_CONFLICT'', D_IDEMPOTENCY_CONFLICT),
     (''APPROVAL_EXPIRED'', D_APPROVAL_EXPIRED),
     (''APPROVAL_MISMATCH'', D_APPROVAL_MISMATCH),
     (''POLICY_DENIED'', D_POLICY_DENIED),
     (''HARNESS_FAILED'', D_HARNESS_FAILED),
     (''TASK_TIMEOUT'', D_TASK_TIMEOUT),
     (''CONNECTOR_LOST'', D_CONNECTOR_LOST),
     (''RATE_LIMITED'', D_RATE_LIMITED),
     (''INTERNAL'', D_INTERNAL),
     (''REVISION_CONFLICT'', D_REVISION_CONFLICT),
     (''UNAUTHENTICATED'', D_UNAUTHENTICATED)]"

fun publicMessageFor :: "DomainErrorCode \<Rightarrow> string" where
  "publicMessageFor D_CONNECTOR_OFFLINE = ''The connector is offline.''"
| "publicMessageFor D_REPOSITORY_NOT_ALLOWED =
     ''The repository is not available for this owner.''"
| "publicMessageFor D_JOB_NOT_FOUND = ''The task was not found.''"
| "publicMessageFor D_JOB_NOT_MUTABLE = ''The task cannot be changed in its current state.''"
| "publicMessageFor D_IDEMPOTENCY_CONFLICT =
     ''The request key was already used for a different task.''"
| "publicMessageFor D_APPROVAL_EXPIRED = ''The approval has expired.''"
| "publicMessageFor D_APPROVAL_MISMATCH = ''The approval no longer matches the task.''"
| "publicMessageFor D_POLICY_DENIED = ''The repository policy denied this operation.''"
| "publicMessageFor D_HARNESS_FAILED = ''The task failed in the Harness runtime.''"
| "publicMessageFor D_TASK_TIMEOUT = ''The task exceeded its time limit.''"
| "publicMessageFor D_CONNECTOR_LOST = ''The connector connection was lost.''"
| "publicMessageFor D_RATE_LIMITED = ''Too many requests.''"
| "publicMessageFor D_INTERNAL = ''The control plane could not complete the request.''"
| "publicMessageFor D_REVISION_CONFLICT =
     ''The task was changed; refresh it and try again.''"
| "publicMessageFor D_UNAUTHENTICATED = ''Authentication is required.''"

definition isDomainErrorCode :: "string \<Rightarrow> bool" where
  "isDomainErrorCode value = (value \<in> set (map fst DOMAIN_ERROR_CODES))"

text \<open>
  \<open>new DomainError(code, _unsafeMessage)\<close> keeps the code and its public message, whatever the
  second argument was.
\<close>

record DomainError =
  err_code :: DomainErrorCode
  err_message :: string

definition new_DomainError :: "DomainErrorCode \<Rightarrow> string option \<Rightarrow> DomainError" where
  "new_DomainError code unsafeMessage = \<lparr>err_code = code, err_message = publicMessageFor code\<rparr>"

subsection \<open>Boundaries of the recognisers\<close>

lemma rfc3339_examples:
  "isValidRfc3339Timestamp ''2024-02-29T23:59:59.123Z''"
  "\<not> isValidRfc3339Timestamp ''2023-02-29T23:59:59Z''"
  "isValidRfc3339Timestamp ''2026-09-01T08:00:00+05:30''"
  "\<not> isValidRfc3339Timestamp ''2026-09-01T24:00:00Z''"
  "\<not> isValidRfc3339Timestamp ''2026-09-01T08:00:00.Z''"
  by code_simp+

lemma boundedUtf8Text_bounds:
  "boundedUtf8Text n s = Some v \<Longrightarrow>
     v = js_trim s \<and> v \<noteq> [] \<and> utf8_length v \<le> n \<and> length v \<le> n"
  using utf8_length_ge [of v] by (auto simp: boundedUtf8Text_def Let_def split: if_splits)

lemma boundedUtf8Text_idem:
  "boundedUtf8Text n s = Some v \<Longrightarrow> boundedUtf8Text n v = Some v"
  by (auto simp: boundedUtf8Text_def Let_def split: if_splits)

end
