(* ===== verification/Db_Schema.thy ===== *)
theory Db_Schema
  imports Job_Types
begin

section \<open>The control plane's tables\<close>

text \<open>
  \<open>apps/control-plane/src/db/schema.ts\<close>: one record per table, with the table's constraints as
  bool-valued functions. A database time is an \<^typ>\<open>int\<close> of microseconds since the epoch
  (\<open>timestamptz\<close>); a JavaScript \<open>Date\<close> holds milliseconds, so reading a column into a \<open>Date\<close>
  (\<open>js_date\<close>) drops the sub-millisecond part and writing one back (\<open>pg_time\<close>) multiplies by
  1000. \<open>integer\<close> columns hold 32-bit and \<open>bigint\<close> columns 64-bit values; a write outside the
  range is refused with the SQLSTATE PostgreSQL gives.
\<close>

subsection \<open>Times and integer ranges\<close>

definition js_date :: "int \<Rightarrow> int" where
  "js_date t = t div 1000"

definition pg_time :: "int \<Rightarrow> int" where
  "pg_time d = d * 1000"

abbreviation seconds :: "int \<Rightarrow> int" where
  "seconds n \<equiv> n * 1000000"

abbreviation hours :: "int \<Rightarrow> int" where
  "hours n \<equiv> n * 3600000000"

definition int4 :: "int \<Rightarrow> bool" where
  "int4 n = (- 2147483648 \<le> n \<and> n \<le> 2147483647)"

definition int8 :: "int \<Rightarrow> bool" where
  "int8 n = (- 9223372036854775808 \<le> n \<and> n \<le> 9223372036854775807)"

lemma js_date_pg_time [simp]: "js_date (pg_time d) = d"
  by (simp add: js_date_def pg_time_def)

lemma pg_time_js_date_le: "pg_time (js_date t) \<le> t"
  by (simp add: js_date_def pg_time_def)

lemma js_date_mono: "s \<le> t \<Longrightarrow> js_date s \<le> js_date t"
  by (simp add: js_date_def zdiv_mono1)

lemma js_date_less: "js_date s < js_date t \<Longrightarrow> s < t"
  using js_date_mono [of t s] by (meson linorder_not_le)

subsection \<open>Rows\<close>

datatype ApprovalDecision = Approve | Reject

datatype MessageDirection = Server | Client

fun decision_string :: "ApprovalDecision \<Rightarrow> string" where
  "decision_string Approve = ''approve''"
| "decision_string Reject = ''reject''"

record owner_row =
  o_id :: string
  o_displayName :: "string option"
  o_createdAt :: int
  o_updatedAt :: int

record connector_row =
  c_id :: string
  c_ownerId :: string
  c_credentialId :: string
  c_credentialHash :: string
  c_publicKey :: "string option"
  c_capabilities :: "string list"
  c_protocolVersion :: string
  c_health :: ConnectorHealth
  c_lastServerSequence :: int
  c_lastClientSequence :: int
  c_lastHeartbeatAt :: "int option"
  c_createdAt :: int
  c_updatedAt :: int

record policy_row =
  p_id :: string
  p_ownerId :: string
  p_displayName :: string
  p_canonicalPath :: string
  p_allowedActionClasses :: "string list"
  p_approvalTimeoutMinutes :: int
  p_runtimeTimeoutSeconds :: int
  p_maxConcurrency :: int
  p_enabled :: bool
  p_createdAt :: int
  p_updatedAt :: int

record job_row =
  j_id :: string
  j_shortId :: string
  j_ownerId :: string
  j_connectorId :: "string option"
  j_repositoryId :: string
  j_requestCiphertext :: "string option"
  j_requestDigest :: string
  j_mode :: JobMode
  j_status :: JobStatus
  j_currentStage :: string
  j_revision :: int
  j_cancelRevision :: "int option"
  j_attempt :: int
  j_leaseId :: "string option"
  j_leaseExpiresAt :: "int option"
  j_harnessAgentId :: "string option"
  j_harnessSessionId :: "string option"
  j_title :: "string option"
  j_summary :: jsval
  j_unreadTerminal :: bool
  j_acknowledgedAt :: "int option"
  j_acceptedAt :: int
  j_expiresAt :: int
  j_requestDeleteAt :: "int option"
  j_retentionDeleteAt :: int
  j_terminalAt :: "int option"
  j_createdAt :: int
  j_updatedAt :: int

record event_row =
  e_id :: string
  e_jobId :: string
  e_sequence :: int
  e_messageId :: string
  e_eventType :: string
  e_payload :: "(string \<times> jsval) list"
  e_source :: string
  e_correlationId :: string
  e_createdAt :: int

record approval_row =
  a_id :: string
  a_jobId :: string
  a_attempt :: int
  a_jobRevision :: int
  a_actionSummary :: string
  a_impactSummary :: string
  a_actionFingerprint :: string
  a_riskClass :: string
  a_expiresAt :: int
  a_decision :: "ApprovalDecision option"
  a_decidedAt :: "int option"
  a_createdAt :: int
  a_updatedAt :: int

record idempotency_row =
  i_id :: string
  i_ownerId :: string
  i_clientRequestId :: string
  i_requestDigest :: string
  i_jobId :: string
  i_expiresAt :: int
  i_createdAt :: int

record message_row =
  m_id :: string
  m_connectorId :: string
  m_direction :: MessageDirection
  m_sequence :: int
  m_messageId :: string
  m_type :: string
  m_payload :: "(string \<times> jsval) list"
  m_correlationId :: string
  m_expiresAt :: int
  m_acknowledgedAt :: "int option"
  m_createdAt :: int

record db =
  owners :: "owner_row list"
  connectors :: "connector_row list"
  repositoryPolicies :: "policy_row list"
  jobs :: "job_row list"
  jobEvents :: "event_row list"
  approvals :: "approval_row list"
  idempotencyRecords :: "idempotency_row list"
  connectorMessages :: "message_row list"

subsection \<open>Constraints\<close>

text \<open>
  The error of a rejected row, as its SQLSTATE: 22003 numeric value out of range, 22001 string
  too long, 23514 check violation, 23505 unique violation, 23503 foreign key violation.
\<close>

definition job_row_error :: "job_row \<Rightarrow> string option" where
  "job_row_error r =
     (if \<not> int4 (j_revision r) \<or> \<not> int4 (j_attempt r)
          \<or> (case j_cancelRevision r of None \<Rightarrow> False | Some c \<Rightarrow> \<not> int4 c)
      then Some ''22003''
      else if length (j_shortId r) > 7 \<or> length (j_currentStage r) > 128
          \<or> (case j_title r of None \<Rightarrow> False | Some t \<Rightarrow> length t > 40)
      then Some ''22001''
      else if j_revision r \<ge> 0
          \<and> (case j_cancelRevision r of None \<Rightarrow> True
             | Some c \<Rightarrow> c \<ge> 0 \<and> c \<le> j_revision r)
          \<and> j_attempt r \<ge> 0
          \<and> (j_requestDeleteAt r = None \<or> j_terminalAt r \<noteq> None)
      then None
      else Some ''23514'')"

definition event_row_error :: "db \<Rightarrow> event_row \<Rightarrow> string option" where
  "event_row_error d r =
     (if \<not> int8 (e_sequence r) then Some ''22003''
      else if length (e_eventType r) > 64 \<or> length (e_source r) > 32 then Some ''22001''
      else if \<not> e_sequence r > 0 then Some ''23514''
      else if \<exists>x \<in> set (jobEvents d). e_id x = e_id r
          \<or> (e_jobId x = e_jobId r \<and> e_sequence x = e_sequence r)
          \<or> (e_jobId x = e_jobId r \<and> e_messageId x = e_messageId r)
      then Some ''23505''
      else if e_jobId r \<notin> set (map j_id (jobs d)) then Some ''23503''
      else None)"

text \<open>\<open>~ '^sha256:[0-9a-f]{64}$'\<close>\<close>

definition is_fingerprint :: "string \<Rightarrow> bool" where
  "is_fingerprint s =
     (startsWith s ''sha256:'' \<and> length s = 71
      \<and> list_all (\<lambda>c. is_digit c \<or> c \<in> set ''abcdef'') (drop 7 s))"

definition approval_row_error :: "approval_row \<Rightarrow> string option" where
  "approval_row_error r =
     (if \<not> int4 (a_attempt r) \<or> \<not> int4 (a_jobRevision r) then Some ''22003''
      else if length (a_actionSummary r) > 400 \<or> length (a_impactSummary r) > 800
          \<or> length (a_actionFingerprint r) > 71 \<or> length (a_riskClass r) > 64
      then Some ''22001''
      else if a_attempt r > 0 \<and> a_jobRevision r \<ge> 0
          \<and> is_fingerprint (a_actionFingerprint r)
          \<and> ((a_decision r = None) = (a_decidedAt r = None))
      then None else Some ''23514'')"

definition connector_row_error :: "connector_row \<Rightarrow> string option" where
  "connector_row_error r =
     (if \<not> int8 (c_lastServerSequence r) \<or> \<not> int8 (c_lastClientSequence r)
      then Some ''22003''
      else if length (c_protocolVersion r) > 32 then Some ''22001''
      else if c_lastServerSequence r \<ge> 0 \<and> c_lastClientSequence r \<ge> 0
      then None else Some ''23514'')"

definition message_row_error :: "db \<Rightarrow> message_row \<Rightarrow> string option" where
  "message_row_error d r =
     (if \<not> int8 (m_sequence r) then Some ''22003''
      else if length (m_type r) > 64 then Some ''22001''
      else if \<not> m_sequence r > 0 then Some ''23514''
      else if \<exists>x \<in> set (connectorMessages d). m_id x = m_id r
          \<or> (m_connectorId x = m_connectorId r \<and> m_direction x = m_direction r
              \<and> m_sequence x = m_sequence r)
          \<or> (m_connectorId x = m_connectorId r \<and> m_messageId x = m_messageId r)
      then Some ''23505''
      else if m_connectorId r \<notin> set (map c_id (connectors d)) then Some ''23503''
      else None)"

definition policy_row_error :: "policy_row \<Rightarrow> string option" where
  "policy_row_error r =
     (if \<not> int4 (p_approvalTimeoutMinutes r) \<or> \<not> int4 (p_runtimeTimeoutSeconds r)
          \<or> \<not> int4 (p_maxConcurrency r)
      then Some ''22003''
      else if 1 \<le> p_approvalTimeoutMinutes r \<and> p_approvalTimeoutMinutes r \<le> 30
          \<and> p_runtimeTimeoutSeconds r > 0 \<and> p_maxConcurrency r > 0
      then None else Some ''23514'')"

text \<open>
  A new job: its primary key is new, its owner exists, and the owner has the repository. The
  unique short id is left out: the code asks for \<open>ON CONFLICT (short_id) DO NOTHING\<close>.
\<close>

definition new_job_error :: "db \<Rightarrow> job_row \<Rightarrow> string option" where
  "new_job_error d r =
     (case job_row_error r of
        Some e \<Rightarrow> Some e
      | None \<Rightarrow>
          if j_id r \<in> set (map j_id (jobs d)) then Some ''23505''
          else if j_ownerId r \<notin> set (map o_id (owners d))
              \<or> \<not> (\<exists>p \<in> set (repositoryPolicies d).
                     p_ownerId p = j_ownerId r \<and> p_id p = j_repositoryId r)
          then Some ''23503'' else None)"

definition new_idempotency_error :: "db \<Rightarrow> idempotency_row \<Rightarrow> string option" where
  "new_idempotency_error d r =
     (if i_id r \<in> set (map i_id (idempotencyRecords d)) then Some ''23505''
      else if i_ownerId r \<notin> set (map o_id (owners d)) \<or> i_jobId r \<notin> set (map j_id (jobs d))
      then Some ''23503'' else None)"

subsection \<open>What the constraints promise of a whole database\<close>

definition events_of :: "db \<Rightarrow> string \<Rightarrow> int list" where
  "events_of d jobId = map e_sequence (filter (\<lambda>e. e_jobId e = jobId) (jobEvents d))"

definition server_messages_of :: "db \<Rightarrow> string \<Rightarrow> int list" where
  "server_messages_of d cid =
     map m_sequence
       (filter (\<lambda>m. m_connectorId m = cid \<and> m_direction m = Server) (connectorMessages d))"

text \<open>
  The invariant of the whole database. Beside the declared constraints it says what no
  constraint does: each job's event sequence is \<open>1, 2, ..., n\<close> in insertion order, and each
  connector's server messages are strictly increasing and bounded by its last sequence.
\<close>

definition message_key :: "message_row \<Rightarrow> string \<times> string" where
  "message_key m = (m_connectorId m, m_messageId m)"

definition keys_ok :: "db \<Rightarrow> bool" where
  "keys_ok d =
     (distinct (map j_id (jobs d)) \<and> distinct (map j_shortId (jobs d))
      \<and> distinct (map c_id (connectors d)) \<and> distinct (map a_id (approvals d))
      \<and> distinct (map (\<lambda>i. (i_ownerId i, i_clientRequestId i)) (idempotencyRecords d))
      \<and> distinct (map m_id (connectorMessages d)) \<and> distinct (map message_key (connectorMessages d))
      \<and> distinct (map (\<lambda>m. (m_connectorId m, m_direction m, m_sequence m)) (connectorMessages d)))"

definition rows_ok :: "db \<Rightarrow> bool" where
  "rows_ok d =
     (list_all (\<lambda>r. job_row_error r = None) (jobs d)
      \<and> list_all (\<lambda>r. approval_row_error r = None) (approvals d)
      \<and> list_all (\<lambda>r. connector_row_error r = None) (connectors d))"

definition refs_ok :: "db \<Rightarrow> bool" where
  "refs_ok d =
     (set (map i_jobId (idempotencyRecords d)) \<subseteq> set (map j_id (jobs d))
      \<and> set (map e_jobId (jobEvents d)) \<subseteq> set (map j_id (jobs d)))"

definition event_log_ok :: "db \<Rightarrow> bool" where
  "event_log_ok d =
     (\<forall>j. events_of d j = map int [1..<Suc (length (events_of d j))])"

definition message_log_ok :: "db \<Rightarrow> bool" where
  "message_log_ok d =
     list_all (\<lambda>c. sorted_wrt (<) (server_messages_of d (c_id c))
        \<and> list_all (\<lambda>s. s \<le> c_lastServerSequence c) (server_messages_of d (c_id c)))
       (connectors d)"

definition db_inv :: "db \<Rightarrow> bool" where
  "db_inv d = (keys_ok d \<and> rows_ok d \<and> refs_ok d \<and> event_log_ok d \<and> message_log_ok d)"

lemma job_row_error_None:
  assumes "job_row_error r = None"
  shows "0 \<le> j_revision r" "j_revision r \<le> 2147483647" "0 \<le> j_attempt r"
    "j_cancelRevision r = Some c \<Longrightarrow> 0 \<le> c \<and> c \<le> j_revision r"
    "j_requestDeleteAt r = None \<or> j_terminalAt r \<noteq> None"
  using assms
  by (auto simp: job_row_error_def int4_def split: if_splits option.splits)

end
