(* ===== verification/Job_Repository.thy ===== *)
theory Job_Repository
  imports Db_Schema
begin

section \<open>The job repository\<close>

text \<open>
  \<open>apps/control-plane/src/db/job-repository.ts\<close>. Each method is a transaction over the tables
  of \<open>Db_Schema\<close>; row locks make concurrent transactions on one job run one after the other, so
  a transaction is one atomic step that commits or leaves the tables as they were. What a
  transaction reads from outside is an \<open>env\<close>: the transaction time \<open>now()\<close>, the successive
  readings of \<open>clock_timestamp()\<close>, the generated UUIDs and the random bytes. An integer-valued
  \<open>number\<close> is an \<^typ>\<open>int\<close>.
\<close>

subsection \<open>Errors and inputs\<close>

datatype JobRepositoryErrorCode =
    R_IDEMPOTENCY_CONFLICT | R_REVISION_CONFLICT | R_APPROVAL_ALREADY_DECIDED
  | R_APPROVAL_EXPIRED | R_APPROVAL_MISMATCH | R_CONNECTOR_OWNER_MISMATCH
  | R_INVALID_ATTEMPT | R_INVALID_EVENT | R_INVALID_LEASE_ID | R_INVALID_LIMIT
  | R_NOT_FOUND | R_SHORT_ID_EXHAUSTED

fun repository_code :: "JobRepositoryErrorCode \<Rightarrow> string" where
  "repository_code R_IDEMPOTENCY_CONFLICT = ''IDEMPOTENCY_CONFLICT''"
| "repository_code R_REVISION_CONFLICT = ''REVISION_CONFLICT''"
| "repository_code R_APPROVAL_ALREADY_DECIDED = ''APPROVAL_ALREADY_DECIDED''"
| "repository_code R_APPROVAL_EXPIRED = ''APPROVAL_EXPIRED''"
| "repository_code R_APPROVAL_MISMATCH = ''APPROVAL_MISMATCH''"
| "repository_code R_CONNECTOR_OWNER_MISMATCH = ''CONNECTOR_OWNER_MISMATCH''"
| "repository_code R_INVALID_ATTEMPT = ''INVALID_ATTEMPT''"
| "repository_code R_INVALID_EVENT = ''INVALID_EVENT''"
| "repository_code R_INVALID_LEASE_ID = ''INVALID_LEASE_ID''"
| "repository_code R_INVALID_LIMIT = ''INVALID_LIMIT''"
| "repository_code R_NOT_FOUND = ''NOT_FOUND''"
| "repository_code R_SHORT_ID_EXHAUSTED = ''SHORT_ID_EXHAUSTED''"

text \<open>What a method throws: its own error, a plain \<open>Error\<close>, or PostgreSQL's error by SQLSTATE.\<close>

datatype thrown =
    RepositoryError JobRepositoryErrorCode
  | PlainError string
  | PgError string

type_synonym 'a job_tx = "(thrown, db, 'a) tx"

record env =
  env_now :: int
  env_clock :: "nat \<Rightarrow> int"
  env_uuid :: "nat \<Rightarrow> string"
  env_bytes :: "nat \<Rightarrow> 8 word \<times> 8 word \<times> 8 word"

record CreateIdempotentInput =
  cr_ownerId :: string
  cr_clientRequestId :: string
  cr_repositoryId :: string
  cr_requestCiphertext :: string
  cr_requestDigest :: string
  cr_mode :: "JobMode option"

record JobRecord =
  r_jobId :: string
  r_shortId :: string
  r_ownerId :: string
  r_connectorId :: "string option"
  r_repositoryId :: string
  r_requestCiphertext :: "string option"
  r_requestDigest :: string
  r_mode :: JobMode
  r_status :: JobStatus
  r_currentStage :: string
  r_revision :: int
  r_attempt :: int
  r_leaseId :: "string option"
  r_leaseExpiresAt :: "int option"
  r_harnessAgentId :: "string option"
  r_harnessSessionId :: "string option"
  r_title :: "string option"
  r_summary :: jsval
  r_unreadTerminal :: bool
  r_acknowledgedAt :: "int option"
  r_acceptedAt :: int
  r_expiresAt :: int
  r_requestDeleteAt :: "int option"
  r_retentionDeleteAt :: int
  r_terminalAt :: "int option"
  r_createdAt :: int
  r_updatedAt :: int

record JobEventInput =
  ev_type :: string
  ev_payload :: "(string \<times> jsval) list"
  ev_source :: "string option"
  ev_messageId :: "string option"
  ev_correlationId :: "string option"

record JobEventRecord =
  er_eventId :: string
  er_jobId :: string
  er_sequence :: int
  er_messageId :: string
  er_type :: string
  er_payload :: "(string \<times> jsval) list"
  er_source :: string
  er_correlationId :: string
  er_createdAt :: int

record ListJobsInput =
  li_ownerId :: string
  li_limit :: "int option"
  li_status :: "JobStatus option"
  li_unreadOnly :: "bool option"

record CancelJobInput =
  ca_ownerId :: string
  ca_jobId :: string
  ca_expectedRevision :: int
  ca_reason :: "string option"

record ClaimOfferInput =
  cl_connectorId :: string
  cl_attempt :: int
  cl_leaseId :: string

record RecordApprovalDecisionInput =
  ad_approvalId :: string
  ad_decision :: ApprovalDecision
  ad_expectedJobRevision :: int
  ad_ownerId :: "string option"
  ad_actionFingerprint :: "string option"
  ad_expectedAttempt :: "int option"
  ad_now :: int

record ApprovalRecord =
  ar_approvalId :: string
  ar_jobId :: string
  ar_ownerId :: "string option"
  ar_jobShortId :: "string option"
  ar_attempt :: int
  ar_jobRevision :: int
  ar_actionSummary :: string
  ar_impactSummary :: string
  ar_actionFingerprint :: string
  ar_riskClass :: string
  ar_expiresAt :: int
  ar_decision :: "ApprovalDecision option"
  ar_decidedAt :: "int option"
  ar_createdAt :: int
  ar_updatedAt :: int

record RepositoryPolicyRecord =
  rp_id :: string
  rp_ownerId :: string
  rp_displayName :: string
  rp_canonicalPath :: string
  rp_allowedActionClasses :: "string list"
  rp_approvalTimeoutMinutes :: int
  rp_runtimeTimeoutSeconds :: int
  rp_maxConcurrency :: int
  rp_enabled :: bool

record JobArtifact =
  af_name :: string
  af_mediaType :: string
  af_url :: string

record JobResultRecord =
  jr_jobId :: string
  jr_summary :: string
  jr_changedFiles :: "string list"
  jr_testsPassed :: int
  jr_testsFailed :: int
  jr_testsSummary :: string
  jr_artifacts :: "JobArtifact list"
  jr_acknowledgedAt :: int

subsection \<open>Short ids\<close>

definition MAX_LIST_LIMIT :: int where
  "MAX_LIST_LIMIT = 5"

definition SHORT_ID_RETRIES :: nat where
  "SHORT_ID_RETRIES = 32"

definition CROCKFORD_BASE32_ALPHABET :: string where
  "CROCKFORD_BASE32_ALPHABET = ''0123456789ABCDEFGHJKMNPQRSTVWXYZ''"

unbundle bit_operations_syntax

definition random_bits :: "8 word \<times> 8 word \<times> 8 word \<Rightarrow> 32 word" where
  "random_bits bytes =
     (case bytes of (b0, b1, b2) \<Rightarrow>
        (push_bit 16 (ucast (b0 AND 15)) OR push_bit 8 (ucast b1)) OR ucast b2)"

definition newShortId :: "8 word \<times> 8 word \<times> 8 word \<Rightarrow> string" where
  "newShortId bytes =
     ''QH-'' @ map (\<lambda>shift. CROCKFORD_BASE32_ALPHABET !
                        unat (drop_bit shift (random_bits bytes) AND 31))
                 [15, 10, 5, 0]"

subsection \<open>Rows to records\<close>

definition toJobRecord :: "job_row \<Rightarrow> JobRecord" where
  "toJobRecord row =
     \<lparr>r_jobId = j_id row, r_shortId = j_shortId row, r_ownerId = j_ownerId row,
      r_connectorId = j_connectorId row, r_repositoryId = j_repositoryId row,
      r_requestCiphertext = j_requestCiphertext row,
      r_requestDigest = j_requestDigest row, r_mode = j_mode row, r_status = j_status row,
      r_currentStage = j_currentStage row, r_revision = j_revision row,
      r_attempt = j_attempt row, r_leaseId = j_leaseId row,
      r_leaseExpiresAt = map_option js_date (j_leaseExpiresAt row),
      r_harnessAgentId = j_harnessAgentId row,
      r_harnessSessionId = j_harnessSessionId row, r_title = j_title row,
      r_summary = j_summary row, r_unreadTerminal = j_unreadTerminal row,
      r_acknowledgedAt = map_option js_date (j_acknowledgedAt row),
      r_acceptedAt = js_date (j_acceptedAt row), r_expiresAt = js_date (j_expiresAt row),
      r_requestDeleteAt = map_option js_date (j_requestDeleteAt row),
      r_retentionDeleteAt = js_date (j_retentionDeleteAt row),
      r_terminalAt = map_option js_date (j_terminalAt row),
      r_createdAt = js_date (j_createdAt row), r_updatedAt = js_date (j_updatedAt row)\<rparr>"

definition toEventRecord :: "event_row \<Rightarrow> JobEventRecord" where
  "toEventRecord row =
     \<lparr>er_eventId = e_id row, er_jobId = e_jobId row, er_sequence = e_sequence row,
      er_messageId = e_messageId row, er_type = e_eventType row, er_payload = e_payload row,
      er_source = e_source row, er_correlationId = e_correlationId row,
      er_createdAt = js_date (e_createdAt row)\<rparr>"

definition toApprovalRecord ::
  "approval_row \<Rightarrow> string option \<Rightarrow> string option \<Rightarrow> ApprovalRecord" where
  "toApprovalRecord row ownerId jobShortId =
     \<lparr>ar_approvalId = a_id row, ar_jobId = a_jobId row, ar_ownerId = ownerId,
      ar_jobShortId = jobShortId, ar_attempt = a_attempt row,
      ar_jobRevision = a_jobRevision row, ar_actionSummary = a_actionSummary row,
      ar_impactSummary = a_impactSummary row,
      ar_actionFingerprint = a_actionFingerprint row, ar_riskClass = a_riskClass row,
      ar_expiresAt = js_date (a_expiresAt row), ar_decision = a_decision row,
      ar_decidedAt = map_option js_date (a_decidedAt row),
      ar_createdAt = js_date (a_createdAt row), ar_updatedAt = js_date (a_updatedAt row)\<rparr>"

definition toRepositoryPolicyRecord :: "policy_row \<Rightarrow> RepositoryPolicyRecord" where
  "toRepositoryPolicyRecord row =
     \<lparr>rp_id = p_id row, rp_ownerId = p_ownerId row, rp_displayName = p_displayName row,
      rp_canonicalPath = p_canonicalPath row,
      rp_allowedActionClasses = p_allowedActionClasses row,
      rp_approvalTimeoutMinutes = p_approvalTimeoutMinutes row,
      rp_runtimeTimeoutSeconds = p_runtimeTimeoutSeconds row,
      rp_maxConcurrency = p_maxConcurrency row, rp_enabled = p_enabled row\<rparr>"

definition asRecord :: "jsval \<Rightarrow> (string \<times> jsval) list option" where
  "asRecord v = (case v of JObj fs \<Rightarrow> Some fs | _ \<Rightarrow> None)"

definition asStringArray :: "jsval \<Rightarrow> string list" where
  "asStringArray v = (case v of JArr vs \<Rightarrow> List.map_filter the_str vs | _ \<Rightarrow> [])"

definition asNonNegativeInteger :: "jsval \<Rightarrow> int" where
  "asNonNegativeInteger v =
     (case v of
        JNum q \<Rightarrow>
          let (n, d) = quotient_of q in if d = 1 \<and> isSafeInteger n \<and> n \<ge> 0 then n else 0
      | _ \<Rightarrow> 0)"

definition toArtifact :: "jsval \<Rightarrow> JobArtifact option" where
  "toArtifact artifact =
     (case asRecord artifact of
        None \<Rightarrow> None
      | Some value \<Rightarrow>
          let mediaType =
                (case the_str (get_prop value ''mediaType'') of
                   Some m \<Rightarrow> Some m
                 | None \<Rightarrow> the_str (get_prop value ''media_type''))
          in (case (the_str (get_prop value ''name''), mediaType,
                    the_str (get_prop value ''url'')) of
                (Some n, Some m, Some u) \<Rightarrow>
                  Some \<lparr>af_name = n, af_mediaType = m, af_url = u\<rparr>
              | _ \<Rightarrow> None))"

text \<open>The result has a summary to show: an object whose \<open>summary\<close> is a non-blank string.\<close>

definition summary_text :: "jsval \<Rightarrow> string option" where
  "summary_text v =
     Option.bind (asRecord v) (\<lambda>fs.
     Option.bind (the_str (get_prop fs ''summary'')) (\<lambda>s.
       if js_trim s = [] then None else Some s))"

definition toJobResultRecord :: "job_row \<Rightarrow> JobResultRecord option" where
  "toJobResultRecord row =
     (case (asRecord (j_summary row), summary_text (j_summary row),
            map_option js_date (j_acknowledgedAt row)) of
        (Some fs, Some text, Some ackAt) \<Rightarrow>
          let tests = (case asRecord (get_prop fs ''tests'') of Some t \<Rightarrow> t | None \<Rightarrow> []) in
          Some \<lparr>jr_jobId = j_id row, jr_summary = text,
                jr_changedFiles =
                  asStringArray (nullish (get_prop fs ''changed_files'')
                                         (get_prop fs ''changedFiles'')),
                jr_testsPassed = asNonNegativeInteger (get_prop tests ''passed''),
                jr_testsFailed = asNonNegativeInteger (get_prop tests ''failed''),
                jr_testsSummary =
                  (case the_str (get_prop tests ''summary'') of Some s \<Rightarrow> s | None \<Rightarrow> []),
                jr_artifacts =
                  (case get_prop fs ''artifacts'' of
                     JArr xs \<Rightarrow> List.map_filter toArtifact xs
                   | _ \<Rightarrow> []),
                jr_acknowledgedAt = ackAt\<rparr>
      | _ \<Rightarrow> None)"

subsection \<open>Statements\<close>

definition select_job :: "(job_row \<Rightarrow> bool) \<Rightarrow> job_row option job_tx" where
  "select_job p = tx_read (\<lambda>d. first_row (filter p (jobs d)))"

definition readJob :: "string \<Rightarrow> string option \<Rightarrow> job_row option job_tx" where
  "readJob jobId ownerId =
     select_job (\<lambda>r. j_id r = jobId
       \<and> (case ownerId of None \<Rightarrow> True | Some w \<Rightarrow> j_ownerId r = w))"

definition pg_check :: "string option \<Rightarrow> unit job_tx" where
  "pg_check err = (case err of None \<Rightarrow> tx_return () | Some e \<Rightarrow> tx_throw (PgError e))"

definition first_error :: "('r \<Rightarrow> string option) \<Rightarrow> 'r list \<Rightarrow> string option" where
  "first_error f rows = first_row (List.map_filter f rows)"

definition update_jobs ::
  "(job_row \<Rightarrow> bool) \<Rightarrow> (job_row \<Rightarrow> job_row) \<Rightarrow> job_row option job_tx" where
  "update_jobs p f =
     tx_bind (tx_read (\<lambda>d. sql_returning p f (jobs d))) (\<lambda>rows.
     tx_bind (pg_check (first_error job_row_error rows)) (\<lambda>_. \<lambda>d.
       Inr (first_row rows, d\<lparr>jobs := sql_update p f (jobs d)\<rparr>)))"

definition update_approvals ::
  "(approval_row \<Rightarrow> bool) \<Rightarrow> (approval_row \<Rightarrow> approval_row) \<Rightarrow> approval_row option job_tx"
  where
  "update_approvals p f =
     tx_bind (tx_read (\<lambda>d. sql_returning p f (approvals d))) (\<lambda>rows.
     tx_bind (pg_check (first_error approval_row_error rows)) (\<lambda>_. \<lambda>d.
       Inr (first_row rows, d\<lparr>approvals := sql_update p f (approvals d)\<rparr>)))"

definition update_connectors ::
  "(connector_row \<Rightarrow> bool) \<Rightarrow> (connector_row \<Rightarrow> connector_row) \<Rightarrow> connector_row option job_tx"
  where
  "update_connectors p f =
     tx_bind (tx_read (\<lambda>d. sql_returning p f (connectors d))) (\<lambda>rows.
     tx_bind (pg_check (first_error connector_row_error rows)) (\<lambda>_. \<lambda>d.
       Inr (first_row rows, d\<lparr>connectors := sql_update p f (connectors d)\<rparr>)))"

definition insert_event :: "event_row \<Rightarrow> unit job_tx" where
  "insert_event r =
     tx_bind (tx_read (\<lambda>d. event_row_error d r)) (\<lambda>err.
     tx_bind (pg_check err) (\<lambda>_. \<lambda>d. Inr ((), d\<lparr>jobEvents := jobEvents d @ [r]\<rparr>)))"

definition insert_message :: "message_row \<Rightarrow> unit job_tx" where
  "insert_message r =
     tx_bind (tx_read (\<lambda>d. message_row_error d r)) (\<lambda>err.
     tx_bind (pg_check err) (\<lambda>_. \<lambda>d.
       Inr ((), d\<lparr>connectorMessages := connectorMessages d @ [r]\<rparr>)))"

text \<open>\<open>DELETE FROM jobs\<close> cascades to the tables that reference a job.\<close>

definition delete_job :: "string \<Rightarrow> unit job_tx" where
  "delete_job jobId d =
     Inr ((), d\<lparr>jobs := filter (\<lambda>r. j_id r \<noteq> jobId) (jobs d),
                 jobEvents := filter (\<lambda>r. e_jobId r \<noteq> jobId) (jobEvents d),
                 approvals := filter (\<lambda>r. a_jobId r \<noteq> jobId) (approvals d),
                 idempotencyRecords :=
                   filter (\<lambda>r. i_jobId r \<noteq> jobId) (idempotencyRecords d)\<rparr>)"

subsection \<open>Connector commands and the event log\<close>

definition commandExpiresAt :: "int \<Rightarrow> int \<Rightarrow> int" where
  "commandExpiresAt jobExpiresAt now = min jobExpiresAt (now + 60000)"

datatype ConnectorCommandType = Job_cancel | Approval_decision

fun command_type_string :: "ConnectorCommandType \<Rightarrow> string" where
  "command_type_string Job_cancel = ''job.cancel''"
| "command_type_string Approval_decision = ''approval.decision''"

definition expiryError :: "ConnectorCommandType \<Rightarrow> thrown" where
  "expiryError type =
     RepositoryError (if type = Approval_decision then R_APPROVAL_EXPIRED
                      else R_REVISION_CONFLICT)"

definition command_row ::
  "env \<Rightarrow> nat \<Rightarrow> string \<Rightarrow> ConnectorCommandType \<Rightarrow> (string \<times> jsval) list \<Rightarrow> int \<Rightarrow> int
     \<Rightarrow> message_row" where
  "command_row e u connectorId type payload sequence effectiveExpiresAt =
     \<lparr>m_id = env_uuid e u, m_connectorId = connectorId, m_direction = Server,
      m_sequence = sequence, m_messageId = env_uuid e (u + 1),
      m_type = command_type_string type, m_payload = payload,
      m_correlationId = env_uuid e (u + 2), m_expiresAt = pg_time effectiveExpiresAt,
      m_acknowledgedAt = None, m_createdAt = env_now e\<rparr>"

text \<open>
  \<open>enqueueServerCommand\<close> with \<open>expiresAt\<close> a \<open>Date\<close>. It reads the clock twice: reading \<open>k\<close> before the
  command is written and reading \<open>k + 1\<close> after; \<open>u\<close> numbers the UUIDs it generates.
\<close>

definition enqueueServerCommand ::
  "env \<Rightarrow> nat \<Rightarrow> nat \<Rightarrow> string \<Rightarrow> string \<Rightarrow> ConnectorCommandType
     \<Rightarrow> (string \<times> jsval) list \<Rightarrow> int \<Rightarrow> unit job_tx" where
  "enqueueServerCommand e k u ownerId connectorId type payload expiresAt =
     tx_bind (tx_read (\<lambda>d. first_row (filter (\<lambda>c. c_id c = connectorId) (connectors d))))
       (\<lambda>found. case found of
          None \<Rightarrow> tx_throw (RepositoryError R_CONNECTOR_OWNER_MISMATCH)
        | Some connector \<Rightarrow>
     tx_bind (tx_check (c_ownerId connector = ownerId)
                (RepositoryError R_CONNECTOR_OWNER_MISMATCH)) (\<lambda>_.
     let currentTime = js_date (env_clock e k) in
     tx_bind (tx_check (\<not> expiresAt \<le> currentTime) (expiryError type)) (\<lambda>_.
     let effectiveExpiresAt =
           (if type = Approval_decision then commandExpiresAt expiresAt currentTime
            else expiresAt);
         sequence = c_lastServerSequence connector + 1 in
     tx_bind (tx_check (isSafeInteger sequence \<and> \<not> sequence < 1)
                (RepositoryError R_INVALID_EVENT)) (\<lambda>_.
     tx_bind (update_connectors
                (\<lambda>c. c_id c = connectorId
                   \<and> c_lastServerSequence c = c_lastServerSequence connector)
                (\<lambda>c. c\<lparr>c_lastServerSequence := sequence, c_updatedAt := env_now e\<rparr>))
       (\<lambda>updated.
     tx_bind (tx_check (map_option c_lastServerSequence updated = Some sequence)
                (RepositoryError R_REVISION_CONFLICT)) (\<lambda>_.
     tx_bind (insert_message
                (command_row e u connectorId type payload sequence effectiveExpiresAt)) (\<lambda>_.
     tx_check (\<not> effectiveExpiresAt \<le> js_date (env_clock e (k + 1)))
       (expiryError type))))))))"

definition nextEventSequence :: "string \<Rightarrow> int job_tx" where
  "nextEventSequence jobId =
     tx_bind (tx_read (\<lambda>d. foldr max (events_of d jobId) 0)) (\<lambda>current.
     tx_bind (tx_check (isSafeInteger current \<and> \<not> current < 0)
                (PlainError (''INVALID_EVENT_SEQUENCE:'' @ show_int current))) (\<lambda>_.
     tx_return (current + 1)))"

definition event_row_of :: "env \<Rightarrow> nat \<Rightarrow> string \<Rightarrow> int \<Rightarrow> JobEventInput \<Rightarrow> event_row" where
  "event_row_of e u jobId sequence input =
     \<lparr>e_id = env_uuid e u, e_jobId = jobId, e_sequence = sequence,
      e_messageId = (case ev_messageId input of Some m \<Rightarrow> m | None \<Rightarrow> env_uuid e (u + 1)),
      e_eventType = ev_type input, e_payload = ev_payload input,
      e_source = (case ev_source input of Some s \<Rightarrow> s | None \<Rightarrow> ''control-plane''),
      e_correlationId =
        (case ev_correlationId input of Some c \<Rightarrow> c | None \<Rightarrow> env_uuid e (u + 2)),
      e_createdAt = env_now e\<rparr>"

definition appendEvent :: "env \<Rightarrow> nat \<Rightarrow> string \<Rightarrow> int \<Rightarrow> JobEventInput \<Rightarrow> unit job_tx" where
  "appendEvent e u jobId sequence input = insert_event (event_row_of e u jobId sequence input)"

definition append_next_event :: "env \<Rightarrow> nat \<Rightarrow> string \<Rightarrow> JobEventInput \<Rightarrow> unit job_tx" where
  "append_next_event e u jobId input =
     tx_bind (nextEventSequence jobId) (\<lambda>n. appendEvent e u jobId n input)"

definition validateEvent :: "JobEventInput \<Rightarrow> thrown option" where
  "validateEvent input =
     (if js_trim (ev_type input) = [] \<or> length (ev_type input) > 64
      then Some (RepositoryError R_INVALID_EVENT)
      else case ev_source input of
          None \<Rightarrow> None
        | Some s \<Rightarrow>
            if js_trim s = [] \<or> length s > 32
            then Some (RepositoryError R_INVALID_EVENT) else None)"

definition UUID_PATTERN :: "string \<Rightarrow> bool" where
  "UUID_PATTERN s =
     (length s = 36 \<and>
      list_all (\<lambda>i. let c = s ! i in
          if i \<in> set [8, 13, 18, 23] then c = CHR ''-''
          else if i = 14 then c \<in> set ''12345678''
          else if i = 19 then c \<in> set ''89abAB''
          else is_digit c \<or> c \<in> set ''abcdefABCDEF'') [0..<36])"

definition validateClaim :: "ClaimOfferInput \<Rightarrow> thrown option" where
  "validateClaim input =
     (if \<not> isSafeInteger (cl_attempt input) \<or> cl_attempt input < 1
      then Some (RepositoryError R_INVALID_ATTEMPT)
      else if \<not> UUID_PATTERN (cl_leaseId input)
      then Some (RepositoryError R_INVALID_LEASE_ID) else None)"

text \<open>A method that first validates its input and then runs its transaction.\<close>

definition guarded :: "thrown option \<Rightarrow> 'a job_tx \<Rightarrow> db \<Rightarrow> (thrown + 'a) \<times> db" where
  "guarded err body d = (case err of Some e \<Rightarrow> (Inl e, d) | None \<Rightarrow> transaction body d)"

subsection \<open>Reads\<close>

definition getRepositoryPolicy ::
  "string \<Rightarrow> string \<Rightarrow> db \<Rightarrow> RepositoryPolicyRecord option" where
  "getRepositoryPolicy ownerId repositoryId d =
     map_option toRepositoryPolicyRecord
       (first_row (filter (\<lambda>p. p_ownerId p = ownerId \<and> p_id p = repositoryId)
                     (repositoryPolicies d)))"

definition getConnectorHealth :: "string \<Rightarrow> db \<Rightarrow> ConnectorHealth" where
  "getConnectorHealth ownerId d =
     (let rows = map c_health (filter (\<lambda>c. c_ownerId c = ownerId) (connectors d))
      in if Fresh \<in> set rows then Fresh else if Stale \<in> set rows then Stale else Offline)"

definition get_job :: "string option \<Rightarrow> string \<Rightarrow> db \<Rightarrow> JobRecord option" where
  "get_job ownerId jobId d =
     (case readJob jobId ownerId d of
        Inr (Some row, _) \<Rightarrow> Some (toJobRecord row)
      | _ \<Rightarrow> None)"

definition limit_error :: "int \<Rightarrow> thrown option" where
  "limit_error limit =
     (if \<not> isSafeInteger limit \<or> limit < 1 \<or> limit > MAX_LIST_LIMIT
      then Some (RepositoryError R_INVALID_LIMIT) else None)"

definition list_jobs :: "ListJobsInput \<Rightarrow> db \<Rightarrow> thrown + JobRecord list" where
  "list_jobs input d =
     (let limit = (case li_limit input of Some n \<Rightarrow> n | None \<Rightarrow> MAX_LIST_LIMIT) in
      case limit_error limit of
        Some err \<Rightarrow> Inl err
      | None \<Rightarrow>
          let rows = filter (\<lambda>r. j_ownerId r = li_ownerId input
                \<and> (case li_status input of None \<Rightarrow> True | Some s \<Rightarrow> j_status r = s)
                \<and> (li_unreadOnly input = Some True \<longrightarrow> j_unreadTerminal r)) (jobs d)
          in Inr (map toJobRecord
               (take (nat limit)
                 (sort_key (\<lambda>r. - j_updatedAt r) (sort_key j_id rows)))))"

text \<open>
  \<open>events(jobId)\<close> is unbounded; \<open>events(ownerId, jobId, limit)\<close> is bounded by 5. Both join the
  events with their jobs, newest first, and return them oldest first.
\<close>

definition joined_events :: "string option \<Rightarrow> string \<Rightarrow> db \<Rightarrow> event_row list" where
  "joined_events ownerId jobId d =
     concat (map (\<lambda>ev. map (\<lambda>_. ev)
         (filter (\<lambda>j. j_id j = e_jobId ev
              \<and> (case ownerId of None \<Rightarrow> True | Some w \<Rightarrow> j_ownerId j = w)) (jobs d)))
       (filter (\<lambda>ev. e_jobId ev = jobId) (jobEvents d)))"

definition events_unbounded :: "string \<Rightarrow> db \<Rightarrow> JobEventRecord list" where
  "events_unbounded jobId d =
     rev (map toEventRecord (sort_key (\<lambda>ev. - e_sequence ev) (joined_events None jobId d)))"

definition events_bounded ::
  "string \<Rightarrow> string \<Rightarrow> int \<Rightarrow> db \<Rightarrow> thrown + JobEventRecord list" where
  "events_bounded ownerId jobId limit d =
     (case limit_error limit of
        Some err \<Rightarrow> Inl err
      | None \<Rightarrow> Inr (rev (map toEventRecord (take (nat limit)
            (sort_key (\<lambda>ev. - e_sequence ev) (joined_events (Some ownerId) jobId d))))))"

text \<open>
  The condition of a pending approval. \<open>clock_timestamp()\<close> is evaluated for each joined row:
  the \<open>i\<close>-th takes the readings \<open>2 * i\<close> and \<open>2 * i + 1\<close>.
\<close>

definition joined_approvals :: "db \<Rightarrow> (approval_row \<times> job_row) list" where
  "joined_approvals d =
     concat (map (\<lambda>a. map (Pair a) (filter (\<lambda>j. a_jobId a = j_id j) (jobs d))) (approvals d))"

definition pending_condition ::
  "string \<Rightarrow> int \<Rightarrow> int \<Rightarrow> approval_row \<times> job_row \<Rightarrow> bool" where
  "pending_condition ownerId t1 t2 aj =
     (case aj of (a, j) \<Rightarrow>
        j_ownerId j = ownerId \<and> j_status j = Waiting_approval
        \<and> a_attempt a = j_attempt j \<and> a_jobRevision a = j_revision j
        \<and> a_decision a = None \<and> a_expiresAt a > t1 \<and> j_expiresAt j > t2)"

definition pending_rows :: "env \<Rightarrow> string \<Rightarrow> db \<Rightarrow> (approval_row \<times> job_row) list" where
  "pending_rows e ownerId d =
     (let rows = joined_approvals d in
      map snd (filter (\<lambda>(i, aj). pending_condition ownerId
                 (env_clock e (2 * i)) (env_clock e (2 * i + 1)) aj)
          (zip [0..<length rows] rows)))"

definition present_approval :: "approval_row \<times> job_row \<Rightarrow> ApprovalRecord" where
  "present_approval aj =
     (case aj of (a, j) \<Rightarrow> toApprovalRecord a (Some (j_ownerId j)) (Some (j_shortId j)))"

definition listPendingApprovals ::
  "env \<Rightarrow> string \<Rightarrow> int \<Rightarrow> db \<Rightarrow> thrown + ApprovalRecord list" where
  "listPendingApprovals e ownerId limit d =
     (case limit_error limit of
        Some err \<Rightarrow> Inl err
      | None \<Rightarrow> Inr (map present_approval (take (nat limit)
          (sort_key (\<lambda>aj. a_expiresAt (fst aj))
            (sort_key (\<lambda>aj. a_createdAt (fst aj)) (pending_rows e ownerId d))))))"

definition getPendingApproval :: "env \<Rightarrow> string \<Rightarrow> string \<Rightarrow> db \<Rightarrow> ApprovalRecord option" where
  "getPendingApproval e ownerId jobId d =
     map_option present_approval
       (first_row (sort_key (\<lambda>aj. - a_createdAt (fst aj))
          (filter (\<lambda>aj. j_id (snd aj) = jobId) (pending_rows e ownerId d))))"

subsection \<open>Creating a job\<close>

definition new_job_row :: "env \<Rightarrow> nat \<Rightarrow> CreateIdempotentInput \<Rightarrow> job_row" where
  "new_job_row e i input =
     \<lparr>j_id = env_uuid e i, j_shortId = newShortId (env_bytes e i),
      j_ownerId = cr_ownerId input, j_connectorId = None,
      j_repositoryId = cr_repositoryId input,
      j_requestCiphertext = Some (cr_requestCiphertext input),
      j_requestDigest = cr_requestDigest input,
      j_mode = (case cr_mode input of Some m \<Rightarrow> m | None \<Rightarrow> Normal),
      j_status = Queued, j_currentStage = ''queued'', j_revision = 0,
      j_cancelRevision = None, j_attempt = 0, j_leaseId = None, j_leaseExpiresAt = None,
      j_harnessAgentId = None, j_harnessSessionId = None, j_title = None,
      j_summary = JNull, j_unreadTerminal = False, j_acknowledgedAt = None,
      j_acceptedAt = env_now e, j_expiresAt = env_now e + hours 24,
      j_requestDeleteAt = None, j_retentionDeleteAt = env_now e + hours (24 * 30),
      j_terminalAt = None, j_createdAt = env_now e, j_updatedAt = env_now e\<rparr>"

text \<open>\<open>INSERT INTO jobs ... ON CONFLICT (short_id) DO NOTHING RETURNING *\<close>\<close>

definition insert_job :: "job_row \<Rightarrow> job_row option job_tx" where
  "insert_job r =
     tx_bind (pg_check (job_row_error r)) (\<lambda>_.
     tx_bind (tx_read (\<lambda>d. j_shortId r \<in> set (map j_shortId (jobs d)))) (\<lambda>taken.
     if taken then tx_return None
     else
       tx_bind (tx_read (\<lambda>d. new_job_error d r)) (\<lambda>err.
       tx_bind (pg_check err) (\<lambda>_. \<lambda>d.
         Inr (Some r, d\<lparr>jobs := jobs d @ [r]\<rparr>)))))"

fun create_attempts ::
  "env \<Rightarrow> CreateIdempotentInput \<Rightarrow> nat list \<Rightarrow> job_row option job_tx" where
  "create_attempts e input [] = tx_return None"
| "create_attempts e input (i # is) =
     tx_bind (insert_job (new_job_row e i input)) (\<lambda>created.
       case created of
         Some row \<Rightarrow> tx_return (Some row)
       | None \<Rightarrow> create_attempts e input is)"

definition find_idempotency :: "CreateIdempotentInput \<Rightarrow> idempotency_row option job_tx" where
  "find_idempotency input =
     tx_read (\<lambda>d. first_row (filter (\<lambda>r. i_ownerId r = cr_ownerId input
        \<and> i_clientRequestId r = cr_clientRequestId input) (idempotencyRecords d)))"

text \<open>\<open>... ON CONFLICT (owner_id, client_request_id) DO NOTHING RETURNING *\<close>: was a row inserted?\<close>

definition insert_idempotency :: "idempotency_row \<Rightarrow> bool job_tx" where
  "insert_idempotency r =
     tx_bind (tx_read (\<lambda>d. \<exists>x \<in> set (idempotencyRecords d). i_ownerId x = i_ownerId r
        \<and> i_clientRequestId x = i_clientRequestId r)) (\<lambda>taken.
     if taken then tx_return False
     else
       tx_bind (tx_read (\<lambda>d. new_idempotency_error d r)) (\<lambda>err.
       tx_bind (pg_check err) (\<lambda>_. \<lambda>d.
         Inr (True, d\<lparr>idempotencyRecords := idempotencyRecords d @ [r]\<rparr>))))"

definition return_original :: "CreateIdempotentInput \<Rightarrow> idempotency_row \<Rightarrow> JobRecord job_tx" where
  "return_original input existing =
     tx_bind (tx_check (i_requestDigest existing = cr_requestDigest input)
                (RepositoryError R_IDEMPOTENCY_CONFLICT)) (\<lambda>_.
     tx_bind (readJob (i_jobId existing) None) (\<lambda>original.
       case original of
         None \<Rightarrow> tx_throw (RepositoryError R_NOT_FOUND)
       | Some row \<Rightarrow> tx_return (toJobRecord row)))"

definition idempotency_of :: "env \<Rightarrow> CreateIdempotentInput \<Rightarrow> job_row \<Rightarrow> idempotency_row" where
  "idempotency_of e input row =
     \<lparr>i_id = env_uuid e SHORT_ID_RETRIES, i_ownerId = cr_ownerId input,
      i_clientRequestId = cr_clientRequestId input,
      i_requestDigest = cr_requestDigest input, i_jobId = j_id row,
      i_expiresAt = env_now e + hours 24, i_createdAt = env_now e\<rparr>"

text \<open>Records the key of a created job; when another record won, the job is deleted again.\<close>

definition record_created :: "env \<Rightarrow> CreateIdempotentInput \<Rightarrow> job_row \<Rightarrow> JobRecord job_tx" where
  "record_created e input row =
     tx_bind (insert_idempotency (idempotency_of e input row)) (\<lambda>inserted.
       if inserted then tx_return (toJobRecord row)
       else
         tx_bind (delete_job (j_id row)) (\<lambda>_.
         tx_bind (find_idempotency input) (\<lambda>winner. case winner of
           None \<Rightarrow> tx_throw (RepositoryError R_NOT_FOUND)
         | Some w \<Rightarrow> return_original input w)))"

definition create_body :: "env \<Rightarrow> CreateIdempotentInput \<Rightarrow> JobRecord job_tx" where
  "create_body e input =
     tx_bind (find_idempotency input) (\<lambda>found. case found of
       Some existing \<Rightarrow> return_original input existing
     | None \<Rightarrow>
         tx_bind (create_attempts e input [0..<SHORT_ID_RETRIES]) (\<lambda>created.
         case created of
           None \<Rightarrow> tx_throw (RepositoryError R_SHORT_ID_EXHAUSTED)
         | Some row \<Rightarrow> record_created e input row))"

definition createIdempotent ::
  "env \<Rightarrow> CreateIdempotentInput \<Rightarrow> db \<Rightarrow> (thrown + JobRecord) \<times> db" where
  "createIdempotent e input d = transaction (create_body e input) d"

subsection \<open>Transitions\<close>

text \<open>The columns a terminal status sets, kept when they were set before.\<close>

definition mark_terminal :: "env \<Rightarrow> job_row \<Rightarrow> job_row" where
  "mark_terminal e r =
     r\<lparr>j_terminalAt :=
          (case j_terminalAt r of Some t \<Rightarrow> Some t | None \<Rightarrow> Some (env_now e)),
        j_requestDeleteAt :=
          (case j_requestDeleteAt r of Some t \<Rightarrow> Some t | None \<Rightarrow> Some (env_now e + hours 24)),
        j_unreadTerminal := True\<rparr>"

definition tx_assertTransition :: "JobStatus \<Rightarrow> JobStatus \<Rightarrow> unit job_tx" where
  "tx_assertTransition from to =
     (case assertTransition from to of
        None \<Rightarrow> tx_return ()
      | Some msg \<Rightarrow> tx_throw (PlainError msg))"

definition event_stage :: "JobEventInput \<Rightarrow> JobStatus \<Rightarrow> string" where
  "event_stage event status =
     (case the_str (nullish (get_prop (ev_payload event) ''stage'')
                            (get_prop (ev_payload event) ''current_stage'')) of
        Some s \<Rightarrow> if length s \<le> 128 then s else status_string status
      | None \<Rightarrow> status_string status)"

definition transition_update ::
  "env \<Rightarrow> JobEventInput \<Rightarrow> JobStatus \<Rightarrow> job_row \<Rightarrow> job_row" where
  "transition_update e event status r =
     (if status \<in> set TERMINAL_JOB_STATES then mark_terminal e r else r)
       \<lparr>j_status := status, j_currentStage := event_stage event status,
        j_revision := j_revision r + 1, j_updatedAt := env_now e\<rparr>"

definition transition_body ::
  "env \<Rightarrow> string \<Rightarrow> int \<Rightarrow> JobStatus \<Rightarrow> JobEventInput \<Rightarrow> JobRecord job_tx" where
  "transition_body e jobId expectedRevision status event =
     tx_bind (select_job (\<lambda>r. j_id r = jobId)) (\<lambda>locked. case locked of
       None \<Rightarrow> tx_throw (RepositoryError R_NOT_FOUND)
     | Some current \<Rightarrow>
     tx_bind (tx_check (j_revision current = expectedRevision)
                (RepositoryError R_REVISION_CONFLICT)) (\<lambda>_.
     tx_bind (tx_assertTransition (j_status current) status) (\<lambda>_.
     tx_bind (update_jobs
        (\<lambda>r. j_id r = jobId \<and> j_revision r = expectedRevision)
        (transition_update e event status)) (\<lambda>row.
     case row of
       None \<Rightarrow> tx_throw (RepositoryError R_REVISION_CONFLICT)
     | Some updated \<Rightarrow>
         tx_bind (append_next_event e 0 jobId event) (\<lambda>_.
         tx_return (toJobRecord updated))))))"

definition transitionAndAppend ::
  "env \<Rightarrow> string \<Rightarrow> int \<Rightarrow> JobStatus \<Rightarrow> JobEventInput \<Rightarrow> db \<Rightarrow> (thrown + JobRecord) \<times> db" where
  "transitionAndAppend e jobId expectedRevision status event d =
     guarded (validateEvent event)
       (transition_body e jobId expectedRevision status event) d"

subsection \<open>Cancellation\<close>

definition cancel_reason :: "string option \<Rightarrow> string" where
  "cancel_reason reason =
     (case map_option js_trim reason of
        None \<Rightarrow> ''user requested''
      | Some s \<Rightarrow> if s = [] then ''user requested'' else s)"

definition validateCancel :: "CancelJobInput \<Rightarrow> thrown option" where
  "validateCancel input =
     (if \<not> isSafeInteger (ca_expectedRevision input) \<or> ca_expectedRevision input < 0
      then Some (RepositoryError R_REVISION_CONFLICT)
      else if length (cancel_reason (ca_reason input)) > 400
      then Some (RepositoryError R_INVALID_EVENT) else None)"

definition event_input :: "string \<Rightarrow> (string \<times> jsval) list \<Rightarrow> JobEventInput" where
  "event_input type payload =
     \<lparr>ev_type = type, ev_payload = payload, ev_source = None, ev_messageId = None,
      ev_correlationId = None\<rparr>"

definition js_int :: "int \<Rightarrow> jsval" where
  "js_int n = JNum (of_int n)"

text \<open>The command that tells the connector of a running job; UUID 3 is its nonce.\<close>

definition enqueue_cancel ::
  "env \<Rightarrow> CancelJobInput \<Rightarrow> job_row \<Rightarrow> unit job_tx" where
  "enqueue_cancel e input updated =
     (case j_connectorId updated of
        None \<Rightarrow> tx_throw (RepositoryError R_CONNECTOR_OWNER_MISMATCH)
      | Some connectorId \<Rightarrow>
          enqueueServerCommand e 0 4 (ca_ownerId input) connectorId Job_cancel
            [(''job_id'', JStr (j_id updated)), (''attempt'', js_int (j_attempt updated)),
             (''job_revision'', js_int (j_revision updated)),
             (''reason'', JStr (cancel_reason (ca_reason input))),
             (''nonce'', JStr (env_uuid e 3))]
            (js_date (j_expiresAt updated)))"

definition cancel_update ::
  "env \<Rightarrow> bool \<Rightarrow> JobStatus \<Rightarrow> int \<Rightarrow> job_row \<Rightarrow> job_row" where
  "cancel_update e immediate nextStatus nextRevision r =
     (if immediate then mark_terminal e r else r\<lparr>j_cancelRevision := Some nextRevision\<rparr>)
       \<lparr>j_status := nextStatus, j_currentStage := status_string nextStatus,
        j_revision := nextRevision, j_updatedAt := env_now e\<rparr>"

definition cancel_where :: "CancelJobInput \<Rightarrow> job_row \<Rightarrow> bool" where
  "cancel_where input r =
     (j_id r = ca_jobId input \<and> j_ownerId r = ca_ownerId input
      \<and> j_revision r = ca_expectedRevision input)"

definition cancel_event :: "CancelJobInput \<Rightarrow> bool \<Rightarrow> job_row \<Rightarrow> JobEventInput" where
  "cancel_event input immediate updated =
     event_input (if immediate then ''job.cancelled'' else ''job.cancelling'')
       [(''job_id'', JStr (ca_jobId input)),
        (''reason'', JStr (cancel_reason (ca_reason input))),
        (''revision'', js_int (j_revision updated))]"

definition cancel_move :: "env \<Rightarrow> CancelJobInput \<Rightarrow> job_row \<Rightarrow> JobRecord job_tx" where
  "cancel_move e input current =
     tx_bind (tx_check (j_revision current = ca_expectedRevision input)
                (RepositoryError R_REVISION_CONFLICT)) (\<lambda>_.
     tx_bind (tx_check (j_revision current \<noteq> 2147483647)
                (RepositoryError R_REVISION_CONFLICT)) (\<lambda>_.
     let nextRevision = j_revision current + 1;
         immediate = (j_status current = Queued \<or> j_status current = Dispatched);
         nextStatus = (if immediate then Cancelled else Cancelling) in
     tx_bind (tx_assertTransition (j_status current) nextStatus) (\<lambda>_.
     tx_bind (update_jobs (cancel_where input)
        (cancel_update e immediate nextStatus nextRevision)) (\<lambda>row.
     case row of
       None \<Rightarrow> tx_throw (RepositoryError R_REVISION_CONFLICT)
     | Some updated \<Rightarrow>
     tx_bind (append_next_event e 0 (ca_jobId input) (cancel_event input immediate updated)) (\<lambda>_.
     tx_bind (if immediate then tx_return () else enqueue_cancel e input updated) (\<lambda>_.
     tx_return (toJobRecord updated)))))))"

definition cancel_body :: "env \<Rightarrow> CancelJobInput \<Rightarrow> JobRecord job_tx" where
  "cancel_body e input =
     tx_bind (select_job (\<lambda>r. j_id r = ca_jobId input \<and> j_ownerId r = ca_ownerId input))
       (\<lambda>locked. case locked of
       None \<Rightarrow> tx_throw (RepositoryError R_NOT_FOUND)
     | Some current \<Rightarrow>
         if j_status current = Cancelling \<or> j_status current = Cancelled
         then tx_return (toJobRecord current)
         else if isTerminal (j_status current) then tx_return (toJobRecord current)
         else cancel_move e input current)"

definition cancelAtomically ::
  "env \<Rightarrow> CancelJobInput \<Rightarrow> db \<Rightarrow> (thrown + JobRecord) \<times> db" where
  "cancelAtomically e input d = guarded (validateCancel input) (cancel_body e input) d"

subsection \<open>Claiming an offer\<close>

text \<open>
  Clock readings of \<open>claimOffer\<close>: 0 the explicit check, 1 and 2 the conditions of the update,
  3 the new lease.
\<close>

definition offer_current :: "ClaimOfferInput \<Rightarrow> job_row \<Rightarrow> bool" where
  "offer_current input current =
     (j_status current = Dispatched
      \<and> j_connectorId current = Some (cl_connectorId input)
      \<and> j_leaseId current = Some (cl_leaseId input)
      \<and> j_leaseExpiresAt current \<noteq> None
      \<and> cl_attempt input = j_attempt current + 1)"

definition offer_unexpired :: "int \<Rightarrow> job_row \<Rightarrow> bool" where
  "offer_unexpired currentTime current =
     (\<not> (case j_leaseExpiresAt current of
            None \<Rightarrow> True | Some t \<Rightarrow> js_date t \<le> currentTime)
      \<and> \<not> js_date (j_expiresAt current) \<le> currentTime)"

definition claim_where :: "env \<Rightarrow> string \<Rightarrow> ClaimOfferInput \<Rightarrow> int \<Rightarrow> job_row \<Rightarrow> bool" where
  "claim_where e jobId input revision r =
     (j_id r = jobId \<and> j_status r = Dispatched \<and> j_revision r = revision
      \<and> j_attempt r = cl_attempt input - 1
      \<and> j_connectorId r = Some (cl_connectorId input)
      \<and> j_leaseId r = Some (cl_leaseId input)
      \<and> (case j_leaseExpiresAt r of None \<Rightarrow> False | Some t \<Rightarrow> t > env_clock e 1)
      \<and> j_expiresAt r > env_clock e 2)"

definition claim_update :: "env \<Rightarrow> ClaimOfferInput \<Rightarrow> job_row \<Rightarrow> job_row" where
  "claim_update e input r =
     r\<lparr>j_status := Running, j_currentStage := ''running'',
       j_connectorId := Some (cl_connectorId input),
       j_attempt := cl_attempt input, j_leaseId := Some (cl_leaseId input),
       j_leaseExpiresAt := Some (min (env_clock e 3 + seconds 30) (j_expiresAt r)),
       j_revision := j_revision r + 1, j_updatedAt := env_now e\<rparr>"

definition claim_body :: "env \<Rightarrow> string \<Rightarrow> ClaimOfferInput \<Rightarrow> JobRecord option job_tx" where
  "claim_body e jobId input =
     tx_bind (select_job (\<lambda>r. j_id r = jobId)) (\<lambda>locked. case locked of
       None \<Rightarrow> tx_return None
     | Some current \<Rightarrow>
     if \<not> offer_current input current then tx_return None
     else
     tx_bind (tx_read (\<lambda>d.
         first_row (filter (\<lambda>c. c_id c = cl_connectorId input) (connectors d)))) (\<lambda>found.
     if map_option c_ownerId found \<noteq> Some (j_ownerId current) then tx_return None
     else if \<not> offer_unexpired (js_date (env_clock e 0)) current then tx_return None
     else
     tx_bind (update_jobs
        (claim_where e jobId input (j_revision current))
        (claim_update e input)) (\<lambda>row.
     case row of
       None \<Rightarrow> tx_return None
     | Some updated \<Rightarrow>
         tx_bind (append_next_event e 0 jobId
            (event_input ''job.claimed''
               [(''connector_id'', JStr (cl_connectorId input)),
                (''attempt'', js_int (cl_attempt input))])) (\<lambda>_.
         tx_return (Some (toJobRecord updated))))))"

definition claimOffer ::
  "env \<Rightarrow> string \<Rightarrow> ClaimOfferInput \<Rightarrow> db \<Rightarrow> (thrown + JobRecord option) \<times> db" where
  "claimOffer e jobId input d = guarded (validateClaim input) (claim_body e jobId input) d"

subsection \<open>Approval decisions\<close>

text \<open>
  \<open>recordApprovalDecision\<close>. The form with an owner (\<open>task4\<close>) takes its time from the database
  (reading 0), the legacy form from its caller. \<open>decision_checks\<close> is everything between the
  locked reads and the update: it replays a decision already taken, refuses, or goes on with
  the knowledge whether the approval has expired.
\<close>

datatype decision_check = Replay | Refuse JobRepositoryErrorCode | Proceed bool

definition current_binding ::
  "RecordApprovalDecisionInput \<Rightarrow> job_row \<Rightarrow> approval_row \<Rightarrow> bool" where
  "current_binding input job approval =
     (j_status job = Waiting_approval \<and> j_revision job = a_jobRevision approval
      \<and> j_attempt job = a_attempt approval
      \<and> (ad_expectedAttempt input = None
          \<or> ad_expectedAttempt input = Some (a_attempt approval)))"

definition same_fingerprint :: "RecordApprovalDecisionInput \<Rightarrow> approval_row \<Rightarrow> bool" where
  "same_fingerprint input approval =
     (ad_actionFingerprint input = None
      \<or> ad_actionFingerprint input = Some (a_actionFingerprint approval))"

definition decision_checks ::
  "RecordApprovalDecisionInput \<Rightarrow> int \<Rightarrow> job_row \<Rightarrow> approval_row \<Rightarrow> decision_check" where
  "decision_checks input currentTime job approval =
     (let task4 = (ad_ownerId input \<noteq> None) in
      if task4 \<and> js_date (j_expiresAt job) \<le> currentTime then Refuse R_APPROVAL_EXPIRED
      else case a_decision approval of
        Some decided \<Rightarrow>
          if task4 \<and> decided = ad_decision input \<and> same_fingerprint input approval
             \<and> current_binding input job approval
             \<and> a_jobRevision approval = ad_expectedJobRevision input
          then Replay
          else if task4 then Refuse R_APPROVAL_MISMATCH
          else Refuse R_APPROVAL_ALREADY_DECIDED
      | None \<Rightarrow>
          if a_jobRevision approval \<noteq> ad_expectedJobRevision input
             \<or> j_revision job \<noteq> ad_expectedJobRevision input
             \<or> (task4 \<and> j_status job \<noteq> Waiting_approval)
             \<or> (task4 \<and> j_attempt job \<noteq> a_attempt approval)
             \<or> (task4 \<and> ad_expectedAttempt input \<noteq> None
                 \<and> ad_expectedAttempt input \<noteq> Some (a_attempt approval))
             \<or> (task4 \<and> ad_actionFingerprint input \<noteq> None
                 \<and> ad_actionFingerprint input \<noteq> Some (a_actionFingerprint approval))
          then Refuse R_APPROVAL_MISMATCH
          else
            let expired = js_date (a_expiresAt approval) \<le> currentTime in
            if expired \<and> \<not> task4 then Refuse R_APPROVAL_EXPIRED else Proceed expired)"

text \<open>Readings 1 and 2 are the conditions of \<open>recordDecision\<close>, 3 and 4 what it sets.\<close>

definition decision_where ::
  "env \<Rightarrow> RecordApprovalDecisionInput \<Rightarrow> int \<Rightarrow> job_row \<Rightarrow> approval_row \<Rightarrow> bool" where
  "decision_where e input currentTime job a =
     (a_id a = ad_approvalId input \<and> a_decision a = None
      \<and> a_jobRevision a = ad_expectedJobRevision input
      \<and> (if ad_ownerId input \<noteq> None then a_expiresAt a > env_clock e 1
         else a_expiresAt a > pg_time currentTime)
      \<and> (ad_ownerId input \<noteq> None \<longrightarrow>
           pg_time (js_date (j_expiresAt job)) > env_clock e 2))"

definition set_decision :: "ApprovalDecision \<Rightarrow> int \<Rightarrow> int \<Rightarrow> approval_row \<Rightarrow> approval_row" where
  "set_decision decision decidedAt updatedAt a =
     a\<lparr>a_decision := Some decision, a_decidedAt := Some decidedAt, a_updatedAt := updatedAt\<rparr>"

definition recordDecision ::
  "env \<Rightarrow> RecordApprovalDecisionInput \<Rightarrow> int \<Rightarrow> job_row \<Rightarrow> approval_row option job_tx" where
  "recordDecision e input currentTime job =
     update_approvals (decision_where e input currentTime job)
       (set_decision (ad_decision input) (env_clock e 3) (env_clock e 4))"

text \<open>Readings 5 and 6 are the conditions of \<open>recordExpired\<close>, 7 and 8 what it sets.\<close>

definition expired_where ::
  "env \<Rightarrow> RecordApprovalDecisionInput \<Rightarrow> job_row \<Rightarrow> approval_row \<Rightarrow> bool" where
  "expired_where e input job a =
     (a_id a = ad_approvalId input \<and> a_decision a = None
      \<and> a_jobRevision a = ad_expectedJobRevision input
      \<and> a_expiresAt a \<le> env_clock e 5
      \<and> (ad_ownerId input \<noteq> None \<longrightarrow>
           pg_time (js_date (j_expiresAt job)) > env_clock e 6))"

definition recordExpired ::
  "env \<Rightarrow> RecordApprovalDecisionInput \<Rightarrow> job_row \<Rightarrow> approval_row option job_tx" where
  "recordExpired e input job =
     update_approvals (expired_where e input job)
       (set_decision Reject (env_clock e 7) (env_clock e 8))"

text \<open>The row written, and whether it was written as an expiry.\<close>

definition write_decision ::
  "env \<Rightarrow> RecordApprovalDecisionInput \<Rightarrow> int \<Rightarrow> job_row \<Rightarrow> bool
     \<Rightarrow> (approval_row \<times> bool) job_tx" where
  "write_decision e input currentTime job expired =
     (if expired
      then tx_bind (recordExpired e input job) (\<lambda>updated. case updated of
             None \<Rightarrow> tx_throw (RepositoryError R_APPROVAL_EXPIRED)
           | Some row \<Rightarrow> tx_return (row, True))
      else tx_bind (recordDecision e input currentTime job) (\<lambda>updated. case updated of
             Some row \<Rightarrow> tx_return (row, False)
           | None \<Rightarrow>
               if ad_ownerId input \<noteq> None
               then tx_bind (recordExpired e input job) (\<lambda>late. case late of
                      None \<Rightarrow> tx_throw (RepositoryError R_APPROVAL_EXPIRED)
                    | Some row \<Rightarrow> tx_return (row, True))
               else tx_throw (RepositoryError R_APPROVAL_EXPIRED)))"

definition js_decision :: "ApprovalDecision option \<Rightarrow> jsval" where
  "js_decision x = (case x of None \<Rightarrow> JNull | Some y \<Rightarrow> JStr (decision_string y))"

text \<open>The owner-bearing form also logs the decision and sends it to the job's connector.\<close>

definition publish_decision ::
  "env \<Rightarrow> RecordApprovalDecisionInput \<Rightarrow> job_row \<Rightarrow> approval_row \<Rightarrow> unit job_tx" where
  "publish_decision e input job updated =
     (case ad_ownerId input of
        None \<Rightarrow> tx_return ()
      | Some ownerId \<Rightarrow>
          (case j_connectorId job of
             None \<Rightarrow> tx_throw (RepositoryError R_CONNECTOR_OWNER_MISMATCH)
           | Some connectorId \<Rightarrow>
               tx_bind (append_next_event e 0 (j_id job)
                 (event_input ''approval.decided''
                   [(''approval_id'', JStr (a_id updated)),
                    (''decision'', js_decision (a_decision updated)),
                    (''attempt'', js_int (a_attempt updated)),
                    (''job_revision'', js_int (a_jobRevision updated))])) (\<lambda>_.
               enqueueServerCommand e 9 3 ownerId connectorId Approval_decision
                 [(''approval_id'', JStr (a_id updated)), (''job_id'', JStr (j_id job)),
                  (''attempt'', js_int (a_attempt updated)),
                  (''job_revision'', js_int (a_jobRevision updated)),
                  (''action_fingerprint'', JStr (a_actionFingerprint updated)),
                  (''decision'', js_decision (a_decision updated))]
                 (js_date (j_expiresAt job)))))"

definition decision_body ::
  "env \<Rightarrow> RecordApprovalDecisionInput \<Rightarrow> (ApprovalRecord \<times> bool) job_tx" where
  "decision_body e input =
     tx_bind (tx_read (\<lambda>d.
       first_row (filter (\<lambda>a. a_id a = ad_approvalId input) (approvals d)))) (\<lambda>identity.
     case identity of
       None \<Rightarrow> tx_throw (RepositoryError R_NOT_FOUND)
     | Some ident \<Rightarrow>
     tx_bind (select_job (\<lambda>r. j_id r = a_jobId ident)) (\<lambda>locked.
     case locked of
       None \<Rightarrow> tx_throw (RepositoryError R_NOT_FOUND)
     | Some job \<Rightarrow>
     tx_bind (tx_check (case ad_ownerId input of None \<Rightarrow> True | Some w \<Rightarrow> j_ownerId job = w)
                (RepositoryError R_NOT_FOUND)) (\<lambda>_.
     tx_bind (tx_read (\<lambda>d. first_row (filter (\<lambda>a. a_id a = ad_approvalId input
                \<and> a_jobId a = j_id job) (approvals d)))) (\<lambda>found.
     case found of
       None \<Rightarrow> tx_throw (RepositoryError R_NOT_FOUND)
     | Some approval \<Rightarrow>
     let currentTime =
           (if ad_ownerId input \<noteq> None then js_date (env_clock e 0) else ad_now input) in
     (case decision_checks input currentTime job approval of
        Refuse code \<Rightarrow> tx_throw (RepositoryError code)
      | Replay \<Rightarrow>
          tx_return (toApprovalRecord approval (Some (j_ownerId job)) (Some (j_shortId job)),
                     False)
      | Proceed expired0 \<Rightarrow>
          tx_bind (write_decision e input currentTime job expired0) (\<lambda>(updated, expired).
          tx_bind (publish_decision e input job updated) (\<lambda>_.
          tx_return (toApprovalRecord updated (Some (j_ownerId job)) (Some (j_shortId job)),
                     expired))))))))"

text \<open>
  An expiry is written and committed as a rejection, and only then reported as an error.
\<close>

definition recordApprovalDecision ::
  "env \<Rightarrow> RecordApprovalDecisionInput \<Rightarrow> db \<Rightarrow> (thrown + ApprovalRecord) \<times> db" where
  "recordApprovalDecision e input d =
     (case transaction (decision_body e input) d of
        (Inl err, d') \<Rightarrow> (Inl err, d')
      | (Inr (approval, expired), d') \<Rightarrow>
          (if expired then Inl (RepositoryError R_APPROVAL_EXPIRED) else Inr approval, d'))"

subsection \<open>Acknowledging a result\<close>

definition acknowledge_body ::
  "env \<Rightarrow> string \<Rightarrow> string \<Rightarrow> JobResultRecord option job_tx" where
  "acknowledge_body e ownerId jobId =
     tx_bind (select_job (\<lambda>r. j_id r = jobId \<and> j_ownerId r = ownerId)) (\<lambda>locked.
     case locked of
       None \<Rightarrow> tx_return None
     | Some current \<Rightarrow>
         if \<not> isTerminal (j_status current) \<or> summary_text (j_summary current) = None
         then tx_return None
         else if j_acknowledgedAt current = None
         then tx_bind (update_jobs (\<lambda>r. j_id r = jobId \<and> j_acknowledgedAt r = None)
                (\<lambda>r. r\<lparr>j_acknowledgedAt := Some (env_clock e 0),
                       j_unreadTerminal := False\<rparr>)) (\<lambda>row.
              tx_return (toJobResultRecord
                (case row of Some r \<Rightarrow> r | None \<Rightarrow> current)))
         else tx_return (toJobResultRecord current))"

definition acknowledgeResult ::
  "env \<Rightarrow> string \<Rightarrow> string \<Rightarrow> db \<Rightarrow> (thrown + JobResultRecord option) \<times> db" where
  "acknowledgeResult e ownerId jobId d = transaction (acknowledge_body e ownerId jobId) d"

end
