(* ===== verification/Repository_Invariants.thy ===== *)
theory Repository_Invariants
  imports Job_Repository
begin

section \<open>What every repository transaction keeps\<close>

text \<open>
  The locale \<open>tx_relation\<close> of \<open>Prelude\<close> is interpreted on \<open>good\<close> (the invariant of \<open>Db_Schema\<close> is
  kept and rows only evolve as the code allows) and, in \<open>Owner_Isolation\<close>, on \<open>kept_apart\<close> (rows of
  other owners are untouched).
\<close>

subsection \<open>Runs of the statements\<close>

lemma map_filter_Nil_iff: "List.map_filter f xs = [] \<longleftrightarrow> (\<forall>x \<in> set xs. f x = None)"
  by (induction xs) (auto split: option.splits)

lemma first_error_None [tx_simps]: "first_error f rows = None \<longleftrightarrow> (\<forall>r \<in> set rows. f r = None)"
  by (simp add: first_error_def map_filter_Nil_iff)

lemma select_job_eq [tx_simps]: "select_job p d = Inr (first_row (filter p (jobs d)), d)"
  by (simp add: select_job_def tx_simps)

lemma pg_check_Inr [tx_simps]: "pg_check err d = Inr (u, d') \<longleftrightarrow> err = None \<and> d' = d"
  by (auto simp: pg_check_def tx_simps split: option.splits)

lemma pg_check_Inl [tx_simps]: "pg_check err d = Inl x \<longleftrightarrow> (\<exists>s. err = Some s \<and> x = PgError s)"
  by (auto simp: pg_check_def tx_simps split: option.splits)

lemma update_jobs_Inr [tx_simps]:
  "update_jobs p f d = Inr (r, d') \<longleftrightarrow>
     (\<forall>x \<in> set (sql_returning p f (jobs d)). job_row_error x = None)
     \<and> r = first_row (sql_returning p f (jobs d))
     \<and> d' = d\<lparr>jobs := sql_update p f (jobs d)\<rparr>"
  by (auto simp: update_jobs_def tx_simps)

lemma update_approvals_Inr [tx_simps]:
  "update_approvals p f d = Inr (r, d') \<longleftrightarrow>
     (\<forall>x \<in> set (sql_returning p f (approvals d)). approval_row_error x = None)
     \<and> r = first_row (sql_returning p f (approvals d))
     \<and> d' = d\<lparr>approvals := sql_update p f (approvals d)\<rparr>"
  by (auto simp: update_approvals_def tx_simps)

lemma update_connectors_Inr [tx_simps]:
  "update_connectors p f d = Inr (r, d') \<longleftrightarrow>
     (\<forall>x \<in> set (sql_returning p f (connectors d)). connector_row_error x = None)
     \<and> r = first_row (sql_returning p f (connectors d))
     \<and> d' = d\<lparr>connectors := sql_update p f (connectors d)\<rparr>"
  by (auto simp: update_connectors_def tx_simps)

lemma insert_event_Inr [tx_simps]:
  "insert_event r d = Inr (u, d') \<longleftrightarrow>
     event_row_error d r = None \<and> d' = d\<lparr>jobEvents := jobEvents d @ [r]\<rparr>"
  by (auto simp: insert_event_def tx_simps)

lemma insert_message_Inr [tx_simps]:
  "insert_message r d = Inr (u, d') \<longleftrightarrow>
     message_row_error d r = None
     \<and> d' = d\<lparr>connectorMessages := connectorMessages d @ [r]\<rparr>"
  by (auto simp: insert_message_def tx_simps)

lemma tx_assertTransition_Inr [tx_simps]:
  "tx_assertTransition s t d = Inr (u, d') \<longleftrightarrow> canTransition s t \<and> d' = d"
  by (auto simp: tx_assertTransition_def assertTransition_def tx_simps split: if_splits)

lemmas tx_core = tx_bind_Inr tx_check_Inr tx_return_eq tx_throw_eq tx_read_eq select_job_eq
  tx_assertTransition_Inr

lemma guarded_keeps:
  assumes "tx_relation R" and "\<And>a d'. body d = Inr (a, d') \<Longrightarrow> R d d'"
  shows "R d (snd (guarded err body d))"
  using assms tx_relation.rel_transaction [OF assms(1), of body d]
  by (auto simp: guarded_def tx_relation.rel_refl split: option.splits)

lemma filter_sql_update:
  "(\<And>r. r \<in> set t \<Longrightarrow> p r \<Longrightarrow> \<not> q r \<and> \<not> q (f r)) \<Longrightarrow>
   filter q (sql_update p f t) = filter q t"
  by (induction t) auto

subsection \<open>How rows evolve\<close>

definition job_evolves :: "job_row \<Rightarrow> job_row \<Rightarrow> bool" where
  "job_evolves r r' =
     (j_id r' = j_id r \<and> j_shortId r' = j_shortId r \<and> j_ownerId r' = j_ownerId r
      \<and> j_repositoryId r' = j_repositoryId r \<and> j_requestDigest r' = j_requestDigest r
      \<and> j_mode r' = j_mode r \<and> j_expiresAt r' = j_expiresAt r
      \<and> j_acceptedAt r' = j_acceptedAt r \<and> j_summary r' = j_summary r
      \<and> j_revision r \<le> j_revision r' \<and> j_attempt r \<le> j_attempt r'
      \<and> job_reach (j_status r) (j_status r')
      \<and> (j_revision r' = j_revision r \<longrightarrow> j_status r' = j_status r)
      \<and> (j_terminalAt r \<noteq> None \<longrightarrow> j_terminalAt r' = j_terminalAt r)
      \<and> (j_acknowledgedAt r \<noteq> None \<longrightarrow> j_acknowledgedAt r' = j_acknowledgedAt r))"

definition approval_evolves :: "approval_row \<Rightarrow> approval_row \<Rightarrow> bool" where
  "approval_evolves a a' =
     (a_id a' = a_id a \<and> a_jobId a' = a_jobId a \<and> a_attempt a' = a_attempt a
      \<and> a_jobRevision a' = a_jobRevision a
      \<and> a_actionFingerprint a' = a_actionFingerprint a \<and> a_expiresAt a' = a_expiresAt a
      \<and> (a_decision a \<noteq> None \<longrightarrow> a' = a))"

definition connector_evolves :: "connector_row \<Rightarrow> connector_row \<Rightarrow> bool" where
  "connector_evolves c c' =
     (c_id c' = c_id c \<and> c_ownerId c' = c_ownerId c
      \<and> c_lastServerSequence c \<le> c_lastServerSequence c'
      \<and> c_lastClientSequence c' = c_lastClientSequence c)"

definition rows_evolve :: "('r \<Rightarrow> 'r \<Rightarrow> bool) \<Rightarrow> 'r list \<Rightarrow> 'r list \<Rightarrow> bool" where
  "rows_evolve ev t t' = (\<forall>r \<in> set t. \<exists>r' \<in> set t'. ev r r')"

definition extends :: "'r list \<Rightarrow> 'r list \<Rightarrow> bool" where
  "extends t t' = (\<exists>new. t' = t @ new)"

definition evolves :: "db \<Rightarrow> db \<Rightarrow> bool" where
  "evolves d d' =
     (rows_evolve job_evolves (jobs d) (jobs d')
      \<and> rows_evolve approval_evolves (approvals d) (approvals d')
      \<and> rows_evolve connector_evolves (connectors d) (connectors d')
      \<and> extends (jobEvents d) (jobEvents d')
      \<and> extends (connectorMessages d) (connectorMessages d')
      \<and> extends (idempotencyRecords d) (idempotencyRecords d')
      \<and> repositoryPolicies d' = repositoryPolicies d \<and> owners d' = owners d)"

definition good :: "db \<Rightarrow> db \<Rightarrow> bool" where
  "good d d' = (db_inv d \<longrightarrow> db_inv d' \<and> evolves d d')"

lemma job_evolves_refl [simp]: "job_evolves r r"
  by (simp add: job_evolves_def job_reach.stay)

lemma job_evolves_trans: "job_evolves r s \<Longrightarrow> job_evolves s t \<Longrightarrow> job_evolves r t"
  unfolding job_evolves_def using job_reach_trans by (smt (verit) order_antisym order_trans)

lemma approval_evolves_refl [simp]: "approval_evolves a a"
  by (simp add: approval_evolves_def)

lemma approval_evolves_trans:
  "approval_evolves a b \<Longrightarrow> approval_evolves b c \<Longrightarrow> approval_evolves a c"
  by (auto simp: approval_evolves_def)

lemma connector_evolves_refl [simp]: "connector_evolves c c"
  by (simp add: connector_evolves_def)

lemma connector_evolves_trans:
  "connector_evolves a b \<Longrightarrow> connector_evolves b c \<Longrightarrow> connector_evolves a c"
  by (auto simp: connector_evolves_def)

lemma rows_evolve_refl: "(\<And>r. ev r r) \<Longrightarrow> rows_evolve ev t t"
  by (auto simp: rows_evolve_def)

lemma rows_evolve_trans:
  "(\<And>r s u. ev r s \<Longrightarrow> ev s u \<Longrightarrow> ev r u) \<Longrightarrow>
   rows_evolve ev t t' \<Longrightarrow> rows_evolve ev t' t'' \<Longrightarrow> rows_evolve ev t t''"
  unfolding rows_evolve_def by meson

lemma rows_evolve_append: "(\<And>r. ev r r) \<Longrightarrow> rows_evolve ev t (t @ new)"
  by (auto simp: rows_evolve_def)

lemma rows_evolve_update:
  "(\<And>r. ev r r) \<Longrightarrow> (\<And>r. r \<in> set t \<Longrightarrow> p r \<Longrightarrow> ev r (f r)) \<Longrightarrow>
   rows_evolve ev t (sql_update p f t)"
proof -
  assume refl: "\<And>r. ev r r" and upd: "\<And>r. r \<in> set t \<Longrightarrow> p r \<Longrightarrow> ev r (f r)"
  show ?thesis
    unfolding rows_evolve_def
  proof
    fix r assume r: "r \<in> set t"
    then have "(if p r then f r else r) \<in> set (sql_update p f t)"
      by (auto simp: sql_update_def)
    moreover have "ev r (if p r then f r else r)" using refl upd r by simp
    ultimately show "\<exists>r' \<in> set (sql_update p f t). ev r r'" by blast
  qed
qed

lemma extends_refl [simp]: "extends t t"
  by (simp add: extends_def)

lemma extends_append [simp]: "extends t (t @ new)"
  by (simp add: extends_def)

lemma extends_trans: "extends t u \<Longrightarrow> extends u v \<Longrightarrow> extends t v"
  by (auto simp: extends_def)

lemma evolves_refl [simp]: "evolves d d"
  by (simp add: evolves_def rows_evolve_refl)

lemma evolves_trans: "evolves d e \<Longrightarrow> evolves e f \<Longrightarrow> evolves d f"
  unfolding evolves_def
  by (auto intro: rows_evolve_trans [OF job_evolves_trans]
      rows_evolve_trans [OF approval_evolves_trans]
      rows_evolve_trans [OF connector_evolves_trans] extends_trans)

interpretation gd: tx_relation good
  by unfold_locales (auto simp: good_def intro: evolves_trans)

lemmas good_trans [trans] = gd.rel_trans


subsection \<open>The statements keep the invariant\<close>

lemmas inv_defs = db_inv_def keys_ok_def rows_ok_def refs_ok_def

lemma logs_job_update [simp]:
  "events_of (d\<lparr>jobs := js\<rparr>) = events_of d"
  "server_messages_of (d\<lparr>jobs := js\<rparr>) = server_messages_of d"
  "events_of (d\<lparr>approvals := as\<rparr>) = events_of d"
  "server_messages_of (d\<lparr>approvals := as\<rparr>) = server_messages_of d"
  "events_of (d\<lparr>connectors := cs\<rparr>) = events_of d"
  "server_messages_of (d\<lparr>connectors := cs\<rparr>) = server_messages_of d"
  "server_messages_of (d\<lparr>jobEvents := es\<rparr>) = server_messages_of d"
  "events_of (d\<lparr>connectorMessages := ms\<rparr>) = events_of d"
  "events_of (d\<lparr>idempotencyRecords := is\<rparr>) = events_of d"
  "server_messages_of (d\<lparr>idempotencyRecords := is\<rparr>) = server_messages_of d"
  by (auto simp: events_of_def server_messages_of_def fun_eq_iff)

lemma list_all_sql_update:
  "list_all P t \<Longrightarrow> (\<And>x. x \<in> set (sql_returning p f t) \<Longrightarrow> P x) \<Longrightarrow>
   list_all P (sql_update p f t)"
  by (induction t) (auto simp: sql_returning_def)

lemma good_update_jobs:
  assumes err: "\<forall>x \<in> set (sql_returning p f (jobs d)). job_row_error x = None"
    and ev: "\<And>r. r \<in> set (jobs d) \<Longrightarrow> p r \<Longrightarrow> job_evolves r (f r)"
  shows "good d (d\<lparr>jobs := sql_update p f (jobs d)\<rparr>)"
proof -
  have ids: "map j_id (sql_update p f (jobs d)) = map j_id (jobs d)"
    and sids: "map j_shortId (sql_update p f (jobs d)) = map j_shortId (jobs d)"
    using ev by (auto simp: job_evolves_def intro!: map_sql_update)
  have rows: "list_all (\<lambda>r. job_row_error r = None) (jobs d) \<Longrightarrow>
      list_all (\<lambda>r. job_row_error r = None) (sql_update p f (jobs d))"
    using err by (auto intro: list_all_sql_update)
  have set_ids: "j_id ` set (sql_update p f (jobs d)) = j_id ` set (jobs d)"
    using ids by (metis list.set_map)
  have "rows_evolve job_evolves (jobs d) (sql_update p f (jobs d))"
    using ev by (intro rows_evolve_update) auto
  then show ?thesis
    by (simp add: good_def inv_defs ids sids rows set_ids evolves_def rows_evolve_refl
        event_log_ok_def message_log_ok_def)
qed

lemma good_update_approvals:
  assumes err: "\<forall>x \<in> set (sql_returning p f (approvals d)). approval_row_error x = None"
    and ev: "\<And>r. r \<in> set (approvals d) \<Longrightarrow> p r \<Longrightarrow> approval_evolves r (f r)"
  shows "good d (d\<lparr>approvals := sql_update p f (approvals d)\<rparr>)"
proof -
  have ids: "map a_id (sql_update p f (approvals d)) = map a_id (approvals d)"
    using ev by (auto simp: approval_evolves_def intro!: map_sql_update)
  have rows: "list_all (\<lambda>r. approval_row_error r = None) (approvals d) \<Longrightarrow>
      list_all (\<lambda>r. approval_row_error r = None) (sql_update p f (approvals d))"
    using err by (auto intro: list_all_sql_update)
  have "rows_evolve approval_evolves (approvals d) (sql_update p f (approvals d))"
    using ev by (intro rows_evolve_update) auto
  then show ?thesis
    by (simp add: good_def inv_defs ids rows evolves_def rows_evolve_refl
        event_log_ok_def message_log_ok_def)
qed

lemma foldr_max_upto: "foldr max (map int [1..<Suc n]) m = max m (int n)" if "0 \<le> m"
  using that by (induction n arbitrary: m) auto

lemma event_row_of_sel [simp]:
  "e_jobId (event_row_of e u jobId n input) = jobId"
  "e_sequence (event_row_of e u jobId n input) = n"
  "e_eventType (event_row_of e u jobId n input) = ev_type input"
  "e_payload (event_row_of e u jobId n input) = ev_payload input"
  by (simp_all add: event_row_of_def)

lemma append_next_event_Inr:
  "append_next_event e u jobId input d = Inr (v, d') \<longleftrightarrow>
     (let n = foldr max (events_of d jobId) 0; r = event_row_of e u jobId (n + 1) input
      in isSafeInteger n \<and> 0 \<le> n \<and> event_row_error d r = None
         \<and> d' = d\<lparr>jobEvents := jobEvents d @ [r]\<rparr>)"
  by (auto simp: append_next_event_def nextEventSequence_def appendEvent_def tx_simps Let_def)

lemma events_of_append:
  "events_of (d\<lparr>jobEvents := jobEvents d @ [r]\<rparr>) j =
     events_of d j @ (if e_jobId r = j then [e_sequence r] else [])"
  by (simp add: events_of_def)

lemma good_append_next_event:
  assumes "append_next_event e u jobId input d = Inr (v, d')"
  shows "good d d'"
proof -
  define r where "r = event_row_of e u jobId (foldr max (events_of d jobId) 0 + 1) input"
  have r: "e_jobId r = jobId" "e_sequence r = foldr max (events_of d jobId) 0 + 1"
    "event_row_error d r = None" and d': "d' = d\<lparr>jobEvents := jobEvents d @ [r]\<rparr>"
    using assms by (simp_all add: append_next_event_Inr Let_def r_def)
  have fk: "jobId \<in> j_id ` set (jobs d)"
    using r by (auto simp: event_row_error_def split: if_splits)
  have "event_log_ok d'" if log: "event_log_ok d"
    unfolding event_log_ok_def
  proof
    fix j
    let ?n = "length (events_of d j)"
    have old: "events_of d j = map int [1..<Suc ?n]"
      using log by (simp add: event_log_ok_def)
    show "events_of d' j = map int [1..<Suc (length (events_of d' j))]"
    proof (cases "jobId = j")
      case True
      then have "e_sequence r = int ?n + 1"
        using r(2) old foldr_max_upto [of 0 ?n] by simp
      with True r(1) old show ?thesis by (simp add: d' events_of_append)
    next
      case False
      with r(1) old show ?thesis by (simp add: d' events_of_append)
    qed
  qed
  then show ?thesis
    using fk r(1) by (auto simp: good_def inv_defs d' evolves_def rows_evolve_refl
        message_log_ok_def)
qed

lemma command_row_sel [simp]:
  "m_connectorId (command_row e u c type payload n t) = c"
  "m_direction (command_row e u c type payload n t) = Server"
  "m_sequence (command_row e u c type payload n t) = n"
  "m_type (command_row e u c type payload n t) = command_type_string type"
  "m_payload (command_row e u c type payload n t) = payload"
  "m_expiresAt (command_row e u c type payload n t) = pg_time t"
  by (simp_all add: command_row_def)

definition bump_sequence :: "env \<Rightarrow> int \<Rightarrow> connector_row \<Rightarrow> connector_row" where
  "bump_sequence e n c = c\<lparr>c_lastServerSequence := n, c_updatedAt := env_now e\<rparr>"

text \<open>A run of \<open>enqueueServerCommand\<close> that returns numbers and appends one command.\<close>

lemma enqueueServerCommand_Inr:
  assumes "enqueueServerCommand e k u ownerId connectorId type payload expiresAt d = Inr (v, d')"
  obtains c n t where
    "c \<in> set (connectors d)" "c_id c = connectorId" "c_ownerId c = ownerId"
    "n = c_lastServerSequence c + 1" "1 \<le> n"
    "js_date (env_clock e k) < expiresAt" "js_date (env_clock e (k + 1)) < t" "t \<le> expiresAt"
    "message_row_error (d\<lparr>connectors := sql_update (\<lambda>x. c_id x = connectorId
        \<and> c_lastServerSequence x = c_lastServerSequence c) (bump_sequence e n) (connectors d)\<rparr>)
       (command_row e u connectorId type payload n t) = None"
    "\<forall>x \<in> set (sql_returning (\<lambda>x. c_id x = connectorId
        \<and> c_lastServerSequence x = c_lastServerSequence c) (bump_sequence e n) (connectors d)).
        connector_row_error x = None"
    "d' = d\<lparr>connectors := sql_update (\<lambda>x. c_id x = connectorId
        \<and> c_lastServerSequence x = c_lastServerSequence c) (bump_sequence e n) (connectors d),
      connectorMessages := connectorMessages d @ [command_row e u connectorId type payload n t]\<rparr>"
proof -
  obtain c where c: "first_row (filter (\<lambda>c. c_id c = connectorId) (connectors d)) = Some c"
    using assms by (auto simp: enqueueServerCommand_def tx_simps Let_def split: option.splits)
  define t where "t = (if type = Approval_decision
     then commandExpiresAt expiresAt (js_date (env_clock e k)) else expiresAt)"
  have "t \<le> expiresAt" by (simp add: t_def commandExpiresAt_def)
  moreover note first_row_filter_Some [OF c]
  ultimately show thesis
    using assms c that [of c "c_lastServerSequence c + 1" t]
    by (auto simp: enqueueServerCommand_def tx_simps Let_def bump_sequence_def [abs_def] t_def)
qed

lemma server_messages_append:
  "server_messages_of (d\<lparr>connectorMessages := connectorMessages d @ [r]\<rparr>) c =
     server_messages_of d c
       @ (if m_connectorId r = c \<and> m_direction r = Server then [m_sequence r] else [])"
  by (simp add: server_messages_of_def)

lemma message_log_append:
  assumes log: "message_log_ok d" and keys: "distinct (map c_id (connectors d))"
    and c: "c \<in> set (connectors d)" and n: "n = c_lastServerSequence c + 1"
    and r: "m_connectorId r = c_id c" "m_direction r = Server" "m_sequence r = n"
  shows "message_log_ok (d\<lparr>connectors := sql_update (\<lambda>x. c_id x = c_id c
        \<and> c_lastServerSequence x = c_lastServerSequence c) (bump_sequence e n) (connectors d),
      connectorMessages := connectorMessages d @ [r]\<rparr>)" (is "message_log_ok ?d'")
  unfolding message_log_ok_def list_all_iff
proof
  fix x' assume "x' \<in> set (connectors ?d')"
  then obtain x where x: "x \<in> set (connectors d)"
    and x': "x' = (if c_id x = c_id c \<and> c_lastServerSequence x = c_lastServerSequence c
                   then bump_sequence e n x else x)"
    by (auto simp: in_sql_update)
  have idx: "c_id x' = c_id x" unfolding x' by (simp add: bump_sequence_def)
  have msgs: "server_messages_of ?d' (c_id x') = server_messages_of d (c_id x)
      @ (if c_id c = c_id x then [n] else [])"
    unfolding idx by (simp add: server_messages_of_def r)
  have old: "sorted_wrt (<) (server_messages_of d (c_id x))"
    "\<forall>s \<in> set (server_messages_of d (c_id x)). s \<le> c_lastServerSequence x"
    using log x by (auto simp: message_log_ok_def list_all_iff)
  show "sorted_wrt (<) (server_messages_of ?d' (c_id x'))
      \<and> (\<forall>s \<in> set (server_messages_of ?d' (c_id x')). s \<le> c_lastServerSequence x')"
  proof (cases "c_id c = c_id x")
    case True
    then have "x = c" using distinct_key_eq [OF keys c x True] by simp
    then have "c_lastServerSequence x' = n" using x' by (simp add: bump_sequence_def)
    moreover have "\<forall>s \<in> set (server_messages_of d (c_id x)). s < n"
      using old(2) n \<open>x = c\<close> by auto
    ultimately show ?thesis
      unfolding msgs using old(1) True by (auto simp: sorted_wrt_append)
  next
    case False
    then have "x' = x" using x' by auto
    then show ?thesis unfolding msgs using old False by simp
  qed
qed

lemma new_message_keys:
  assumes "message_row_error d r = None"
  shows "distinct (map m_id (connectorMessages d)) \<Longrightarrow> distinct (map m_id (connectorMessages d @ [r]))"
    "distinct (map message_key (connectorMessages d))
       \<Longrightarrow> distinct (map message_key (connectorMessages d @ [r]))"
    "distinct (map (\<lambda>m. (m_connectorId m, m_direction m, m_sequence m)) (connectorMessages d))
       \<Longrightarrow> distinct (map (\<lambda>m. (m_connectorId m, m_direction m, m_sequence m)) (connectorMessages d @ [r]))"
  using assms by (auto simp: message_row_error_def message_key_def split: if_splits)

lemma good_enqueueServerCommand:
  assumes "enqueueServerCommand e k u ownerId connectorId type payload expiresAt d = Inr (v, d')"
  shows "good d d'"
  using assms
proof (rule enqueueServerCommand_Inr)
  fix c :: connector_row and n t
  let ?p = "\<lambda>x. c_id x = connectorId \<and> c_lastServerSequence x = c_lastServerSequence c"
  let ?cs = "sql_update ?p (bump_sequence e n) (connectors d)"
  let ?r = "command_row e u connectorId type payload n t"
  assume c: "c \<in> set (connectors d)" "c_id c = connectorId" and n: "n = c_lastServerSequence c + 1"
    and ok: "\<forall>x \<in> set (sql_returning ?p (bump_sequence e n) (connectors d)).
        connector_row_error x = None"
    and d': "d' = d\<lparr>connectors := ?cs, connectorMessages := connectorMessages d @ [?r]\<rparr>"
    and fits: "message_row_error (d\<lparr>connectors := ?cs\<rparr>) ?r = None"
  note fresh = new_message_keys [OF fits, simplified]
  have ids: "map c_id ?cs = map c_id (connectors d)"
    by (rule map_sql_update) (simp add: bump_sequence_def)
  have ev: "rows_evolve connector_evolves (connectors d) ?cs"
    by (rule rows_evolve_update) (use n in \<open>auto simp: connector_evolves_def bump_sequence_def\<close>)
  have log: "message_log_ok d'" if "message_log_ok d" "distinct (map c_id (connectors d))"
    unfolding d' using message_log_append [OF that c(1) n, of ?r e] c(2) by simp
  have rows: "list_all (\<lambda>x. connector_row_error x = None) ?cs"
    if "list_all (\<lambda>x. connector_row_error x = None) (connectors d)"
    using list_all_sql_update [OF that] ok by blast
  show "good d d'"
    unfolding good_def
  proof
    assume inv: "db_inv d"
    then have "message_log_ok d'" and "list_all (\<lambda>x. connector_row_error x = None) ?cs"
      using log rows by (auto simp: inv_defs)
    with inv ev fresh show "db_inv d' \<and> evolves d d'"
      by (auto simp: d' inv_defs ids evolves_def rows_evolve_refl event_log_ok_def)
  qed
qed

end
