(* ===== verification/Repository_Steps.thy ===== *)
theory Repository_Steps
  imports Repository_Invariants
begin

section \<open>Every repository method keeps the invariant\<close>

text \<open>
  One lemma per method of \<open>JobRepository\<close>: the tables before and after a call, committed or
  rolled back, are related by \<open>good\<close>. The methods are then the steps of a transition system
  (\<open>repo_step\<close>, \<open>repo_run\<close>) over which the history properties are proved.
\<close>

lemma job_id_unique:
  "db_inv d \<Longrightarrow> r \<in> set (jobs d) \<Longrightarrow> s \<in> set (jobs d) \<Longrightarrow> j_id r = j_id s \<Longrightarrow> r = s"
  by (auto simp: inv_defs dest: distinct_key_eq)

lemma good_update_jobs_inv:
  assumes "\<forall>x \<in> set (sql_returning p f (jobs d)). job_row_error x = None"
    and "\<And>r. db_inv d \<Longrightarrow> r \<in> set (jobs d) \<Longrightarrow> p r \<Longrightarrow> job_evolves r (f r)"
  shows "good d (d\<lparr>jobs := sql_update p f (jobs d)\<rparr>)"
proof (cases "db_inv d")
  case True
  with assms show ?thesis by (intro good_update_jobs) auto
next
  case False
  then show ?thesis by (simp add: good_def)
qed

lemma mark_terminal_sel [simp]:
  "j_id (mark_terminal e r) = j_id r" "j_shortId (mark_terminal e r) = j_shortId r"
  "j_ownerId (mark_terminal e r) = j_ownerId r" "j_status (mark_terminal e r) = j_status r"
  "j_repositoryId (mark_terminal e r) = j_repositoryId r"
  "j_requestDigest (mark_terminal e r) = j_requestDigest r"
  "j_mode (mark_terminal e r) = j_mode r" "j_expiresAt (mark_terminal e r) = j_expiresAt r"
  "j_acceptedAt (mark_terminal e r) = j_acceptedAt r"
  "j_revision (mark_terminal e r) = j_revision r"
  "j_attempt (mark_terminal e r) = j_attempt r"
  "j_acknowledgedAt (mark_terminal e r) = j_acknowledgedAt r"
  "j_connectorId (mark_terminal e r) = j_connectorId r"
  "j_summary (mark_terminal e r) = j_summary r"
  "j_terminalAt r \<noteq> None \<Longrightarrow> j_terminalAt (mark_terminal e r) = j_terminalAt r"
  "j_terminalAt (mark_terminal e r) \<noteq> None"
  "j_unreadTerminal (mark_terminal e r)"
  by (auto simp: mark_terminal_def split: option.splits)

lemma edge_neq: "canTransition s t \<Longrightarrow> s \<noteq> t"
  using canTransition_irrefl by blast

lemma transition_update_evolves:
  "canTransition (j_status r) status \<Longrightarrow> job_evolves r (transition_update e event status r)"
  by (auto simp: job_evolves_def transition_update_def intro: job_reach_edge)

text \<open>A transition that returns has found the row, and only its row changes.\<close>

lemma transition_body_Inr:
  assumes "transition_body e jobId expectedRevision status event d = Inr (a, d')"
  obtains current where
    "first_row (filter (\<lambda>r. j_id r = jobId) (jobs d)) = Some current"
    "j_revision current = expectedRevision" "canTransition (j_status current) status"
    "\<forall>x \<in> set (sql_returning (\<lambda>r. j_id r = jobId \<and> j_revision r = expectedRevision)
        (transition_update e event status) (jobs d)). job_row_error x = None"
    "append_next_event e 0 jobId event
       (d\<lparr>jobs := sql_update (\<lambda>r. j_id r = jobId \<and> j_revision r = expectedRevision)
          (transition_update e event status) (jobs d)\<rparr>) = Inr ((), d')"
    "first_row (sql_returning (\<lambda>r. j_id r = jobId \<and> j_revision r = expectedRevision)
        (transition_update e event status) (jobs d)) \<noteq> None"
    "a = toJobRecord (the (first_row
        (sql_returning (\<lambda>r. j_id r = jobId \<and> j_revision r = expectedRevision)
          (transition_update e event status) (jobs d))))"
  using assms
  by (fastforce simp: transition_body_def tx_simps 
      split: option.splits)

lemma good_transition_body:
  assumes "transition_body e jobId expectedRevision status event d = Inr (a, d')"
  shows "good d d'"
  using assms
proof (rule transition_body_Inr)
  fix current
  let ?p = "\<lambda>r. j_id r = jobId \<and> j_revision r = expectedRevision"
  let ?f = "transition_update e event status"
  assume cur: "first_row (filter (\<lambda>r. j_id r = jobId) (jobs d)) = Some current"
    and edge: "canTransition (j_status current) status"
    and err: "\<forall>x \<in> set (sql_returning ?p ?f (jobs d)). job_row_error x = None"
    and app: "append_next_event e 0 jobId event
        (d\<lparr>jobs := sql_update ?p ?f (jobs d)\<rparr>) = Inr ((), d')"
  have "good d (d\<lparr>jobs := sql_update ?p ?f (jobs d)\<rparr>)"
    using err
  proof (rule good_update_jobs_inv)
    fix r assume "db_inv d" "r \<in> set (jobs d)" "?p r"
    then have "r = current"
      using first_row_filter_Some [OF cur] by (auto intro: job_id_unique)
    with edge show "job_evolves r (?f r)" by (simp add: transition_update_evolves)
  qed
  then show "good d d'" using good_append_next_event [OF app] by (rule gd.rel_trans)
qed

lemma good_transitionAndAppend:
  "good d (snd (transitionAndAppend e jobId revision status event d))"
  unfolding transitionAndAppend_def
  by (rule guarded_keeps [OF gd.tx_relation_axioms good_transition_body])


subsection \<open>Cancellation\<close>

lemma cancel_update_evolves:
  assumes "canTransition (j_status r) s" "n = j_revision r + 1"
  shows "job_evolves r (cancel_update e immediate s n r)"
  using assms by (auto simp: job_evolves_def cancel_update_def intro: job_reach_edge)

lemma cancel_move_Inr:
  assumes "cancel_move e input current d = Inr (a, d')"
  obtains immediate nextStatus updated d1 d2 where
      "j_revision current = ca_expectedRevision input"
      "immediate = (j_status current = Queued \<or> j_status current = Dispatched)"
      "nextStatus = (if immediate then Cancelled else Cancelling)"
      "canTransition (j_status current) nextStatus"
      "update_jobs (cancel_where input)
         (cancel_update e immediate nextStatus (j_revision current + 1)) d
         = Inr (Some updated, d1)"
      "append_next_event e 0 (ca_jobId input) (cancel_event input immediate updated) d1
         = Inr ((), d2)"
      "(if immediate then tx_return () else enqueue_cancel e input updated) d2 = Inr ((), d')"
      "a = toJobRecord updated"
  using assms by (auto simp: cancel_move_def tx_core Let_def split: option.splits)

lemma good_enqueue_cancel: "enqueue_cancel e input r d = Inr (v, d') \<Longrightarrow> good d d'"
  by (auto simp: enqueue_cancel_def tx_core split: option.splits
      dest: good_enqueueServerCommand)

lemma good_cancel_move:
  assumes run: "cancel_move e input current d = Inr (a, d')"
    and cur: "current \<in> set (jobs d)" "j_id current = ca_jobId input"
  shows "good d d'"
  using run
proof (rule cancel_move_Inr)
  fix immediate nextStatus updated d1 d2
  let ?f = "cancel_update e immediate nextStatus (j_revision current + 1)"
  assume edge: "canTransition (j_status current) nextStatus"
    and upd: "update_jobs (cancel_where input) ?f d = Inr (Some updated, d1)"
    and app: "append_next_event e 0 (ca_jobId input) (cancel_event input immediate updated) d1
         = Inr ((), d2)"
    and enq: "(if immediate then tx_return () else enqueue_cancel e input updated) d2
         = Inr ((), d')"
  have d1: "d1 = d\<lparr>jobs := sql_update (cancel_where input) ?f (jobs d)\<rparr>"
    and err: "\<forall>x \<in> set (sql_returning (cancel_where input) ?f (jobs d)). job_row_error x = None"
    using upd by (auto simp: update_jobs_Inr)
  have "good d d1"
    unfolding d1 using err
  proof (rule good_update_jobs_inv)
    fix r assume "db_inv d" "r \<in> set (jobs d)" "cancel_where input r"
    then have "r = current"
      using cur by (auto simp: cancel_where_def intro: job_id_unique)
    with edge show "job_evolves r (?f r)" by (simp add: cancel_update_evolves)
  qed
  also have "good d1 d2" by (rule good_append_next_event [OF app])
  also have "good d2 d'"
    using enq by (auto simp: tx_core gd.rel_refl dest: good_enqueue_cancel split: if_splits)
  finally show "good d d'" .
qed

lemma good_cancel_body:
  assumes "cancel_body e input d = Inr (a, d')"
  shows "good d d'"
  using assms
  by (auto simp: cancel_body_def tx_core gd.rel_refl split: option.splits if_splits
      dest!: first_row_filter_Some intro: good_cancel_move)

lemma good_cancelAtomically: "good d (snd (cancelAtomically e input d))"
  unfolding cancelAtomically_def
  by (rule guarded_keeps [OF gd.tx_relation_axioms good_cancel_body])

subsection \<open>Claims\<close>

lemma claim_update_evolves:
  assumes "claim_where e jobId input n r"
  shows "job_evolves r (claim_update e input r)"
proof -
  have "job_reach Dispatched Running" by (rule job_reach_edge) (simp add: canTransition_def)
  with assms show ?thesis by (auto simp: job_evolves_def claim_where_def claim_update_def)
qed

lemma good_claim_body:
  assumes "claim_body e jobId input d = Inr (a, d')"
  shows "good d d'"
proof -
  have "good d d1" if "update_jobs (claim_where e jobId input n) (claim_update e input) d
      = Inr (row, d1)" for n row d1
    using that by (auto simp: update_jobs_Inr intro: good_update_jobs claim_update_evolves)
  with assms show ?thesis
    by (auto simp: claim_body_def tx_core gd.rel_refl split: option.splits if_splits
        dest!: good_append_next_event) (meson good_trans)
qed

lemma good_claimOffer: "good d (snd (claimOffer e jobId input d))"
  unfolding claimOffer_def
  by (rule guarded_keeps [OF gd.tx_relation_axioms good_claim_body])


subsection \<open>Approval decisions\<close>

lemma good_set_decision:
  assumes "update_approvals p (set_decision x t u) d = Inr (row, d')"
    and "\<And>a. p a \<Longrightarrow> a_decision a = None"
  shows "good d d'"
  using assms
  by (auto simp: update_approvals_Inr approval_evolves_def set_decision_def
      intro!: good_update_approvals)

lemma good_recordDecision: "recordDecision e input t job d = Inr (row, d') \<Longrightarrow> good d d'"
  unfolding recordDecision_def by (erule good_set_decision) (simp add: decision_where_def)

lemma good_recordExpired: "recordExpired e input job d = Inr (row, d') \<Longrightarrow> good d d'"
  unfolding recordExpired_def by (erule good_set_decision) (simp add: expired_where_def)

lemma good_write_decision: "write_decision e input t job expired d = Inr (r, d') \<Longrightarrow> good d d'"
  by (auto simp: write_decision_def tx_core split: option.splits if_splits
      dest: good_recordDecision good_recordExpired
      intro: good_trans [OF good_recordDecision good_recordExpired])

lemma good_publish_decision: "publish_decision e input job r d = Inr (v, d') \<Longrightarrow> good d d'"
  by (auto simp: publish_decision_def tx_core gd.rel_refl split: option.splits
      intro: good_trans [OF good_append_next_event good_enqueueServerCommand])

lemma good_decision_body: "decision_body e input d = Inr (r, d') \<Longrightarrow> good d d'"
  by (auto simp: decision_body_def tx_core gd.rel_refl Let_def
      split: option.splits decision_check.splits
      intro: good_trans [OF good_write_decision good_publish_decision])

lemma snd_recordApprovalDecision:
  "snd (recordApprovalDecision e input d) = snd (transaction (decision_body e input) d)"
  by (auto simp: recordApprovalDecision_def split: prod.splits sum.splits)

lemma good_recordApprovalDecision: "good d (snd (recordApprovalDecision e input d))"
  unfolding snd_recordApprovalDecision by (rule gd.rel_transaction) (rule good_decision_body)

subsection \<open>Acknowledgement\<close>

lemma good_acknowledge_body:
  assumes "acknowledge_body e ownerId jobId d = Inr (a, d')"
  shows "good d d'"
  using assms
  by (auto simp: acknowledge_body_def tx_core update_jobs_Inr gd.rel_refl job_evolves_def
      job_reach.stay split: option.splits if_splits intro!: good_update_jobs)

lemma good_acknowledgeResult: "good d (snd (acknowledgeResult e ownerId jobId d))"
  unfolding acknowledgeResult_def by (rule gd.rel_transaction) (rule good_acknowledge_body)

subsection \<open>Creation\<close>

lemma insert_job_Inr:
  "insert_job r d = Inr (x, d') \<longleftrightarrow>
     job_row_error r = None \<and>
     (if j_shortId r \<in> j_shortId ` set (jobs d) then x = None \<and> d' = d
      else new_job_error d r = None \<and> x = Some r \<and> d' = d\<lparr>jobs := jobs d @ [r]\<rparr>)"
  by (auto simp: insert_job_def tx_core pg_check_Inr split: if_splits)

lemma good_insert_job: "insert_job r d = Inr (x, d') \<Longrightarrow> good d d'"
  by (auto simp: insert_job_Inr gd.rel_refl good_def inv_defs evolves_def rows_evolve_append
      rows_evolve_refl new_job_error_def event_log_ok_def message_log_ok_def
      split: if_splits option.splits)

lemma insert_job_frame:
  "insert_job r d = Inr (x, d') \<Longrightarrow> idempotencyRecords d' = idempotencyRecords d"
  by (auto simp: insert_job_Inr split: if_splits)

lemma create_attempts_Inr:
  assumes "create_attempts e input is d = Inr (x, d')"
  shows "good d d' \<and> idempotencyRecords d' = idempotencyRecords d"
  using assms
proof (induction "is" arbitrary: d)
  case Nil
  then show ?case by (simp add: tx_core gd.rel_refl)
next
  case (Cons i "is")
  then obtain y d1 where ins: "insert_job (new_job_row e i input) d = Inr (y, d1)"
    and rest: "(case y of Some row \<Rightarrow> tx_return (Some row)
                 | None \<Rightarrow> create_attempts e input is) d1 = Inr (x, d')"
    by (auto simp: tx_bind_Inr)
  from rest have "good d1 d' \<and> idempotencyRecords d' = idempotencyRecords d1"
    using Cons.IH by (cases y) (auto simp: tx_core gd.rel_refl)
  with good_insert_job [OF ins] insert_job_frame [OF ins] show ?case
    by (auto intro: good_trans)
qed


definition same_request :: "CreateIdempotentInput \<Rightarrow> idempotency_row \<Rightarrow> bool" where
  "same_request input r =
     (i_ownerId r = cr_ownerId input \<and> i_clientRequestId r = cr_clientRequestId input)"

lemma find_idempotency_eq:
  "find_idempotency input d = Inr (first_row (filter (same_request input) (idempotencyRecords d)), d)"
  by (simp add: find_idempotency_def tx_read_eq same_request_def [abs_def])

lemma insert_idempotency_Inr:
  assumes "insert_idempotency r d = Inr (x, d')"
    and "\<forall>s \<in> set (idempotencyRecords d). \<not> (i_ownerId s = i_ownerId r
           \<and> i_clientRequestId s = i_clientRequestId r)"
  shows "x" "new_idempotency_error d r = None"
    "d' = d\<lparr>idempotencyRecords := idempotencyRecords d @ [r]\<rparr>"
  using assms by (auto simp: insert_idempotency_def tx_core pg_check_Inr split: if_splits)

lemma good_insert_idempotency:
  assumes "\<forall>s \<in> set (idempotencyRecords d). \<not> (i_ownerId s = i_ownerId r
           \<and> i_clientRequestId s = i_clientRequestId r)"
    and "new_idempotency_error d r = None"
  shows "good d (d\<lparr>idempotencyRecords := idempotencyRecords d @ [r]\<rparr>)"
  using assms
  by (auto simp: good_def inv_defs evolves_def rows_evolve_refl new_idempotency_error_def
      event_log_ok_def message_log_ok_def split: if_splits)

lemma readJob_eq:
  "readJob jobId ownerId d = Inr (first_row (filter (\<lambda>r. j_id r = jobId
       \<and> (case ownerId of None \<Rightarrow> True | Some w \<Rightarrow> j_ownerId r = w)) (jobs d)), d)"
  by (simp add: readJob_def select_job_eq)

text \<open>
  A creation that returns either found the key and returned the job it names, or created one
  job and one idempotency record. The third branch of the code, in which the record appeared
  between the look-up and the insert, cannot be taken by an atomic transaction.
\<close>

lemma create_body_Inr:
  assumes "create_body e input d = Inr (a, d')"
  obtains
    (existing) r original where
      "first_row (filter (same_request input) (idempotencyRecords d)) = Some r"
      "i_requestDigest r = cr_requestDigest input"
      "first_row (filter (\<lambda>j. j_id j = i_jobId r) (jobs d)) = Some original"
      "a = toJobRecord original" "d' = d"
  | (created) row d1 where
      "filter (same_request input) (idempotencyRecords d) = []"
      "create_attempts e input [0..<SHORT_ID_RETRIES] d = Inr (Some row, d1)"
      "new_idempotency_error d1 (idempotency_of e input row) = None"
      "d' = d1\<lparr>idempotencyRecords := idempotencyRecords d1 @ [idempotency_of e input row]\<rparr>"
      "a = toJobRecord row"
proof (cases "first_row (filter (same_request input) (idempotencyRecords d))")
  case (Some r)
  with assms have "return_original input r d = Inr (a, d')"
    by (simp add: create_body_def tx_bind_Inr find_idempotency_eq)
  with Some show ?thesis
    by (auto simp: return_original_def tx_core readJob_eq split: option.splits intro: existing)
next
  case None
  with assms obtain row d1 where
    att: "create_attempts e input [0..<SHORT_ID_RETRIES] d = Inr (Some row, d1)"
    and rest: "record_created e input row d1 = Inr (a, d')"
    by (auto simp: create_body_def tx_core find_idempotency_eq split: option.splits)
  have "idempotencyRecords d1 = idempotencyRecords d" using create_attempts_Inr [OF att] by simp
  with None have fresh: "\<forall>s \<in> set (idempotencyRecords d1).
      \<not> (i_ownerId s = i_ownerId (idempotency_of e input row)
         \<and> i_clientRequestId s = i_clientRequestId (idempotency_of e input row))"
    by (auto simp: filter_empty_conv same_request_def idempotency_of_def)
  from rest obtain x d2 where
    ins: "insert_idempotency (idempotency_of e input row) d1 = Inr (x, d2)"
    by (auto simp: record_created_def tx_bind_Inr)
  note facts = insert_idempotency_Inr [OF ins fresh]
  with rest ins have "a = toJobRecord row" "d' = d2"
    by (auto simp: record_created_def tx_return_eq)
  with facts None att show ?thesis by (auto intro: created)
qed

lemma good_create_body:
  assumes "create_body e input d = Inr (a, d')"
  shows "good d d'"
  using assms
proof (cases rule: create_body_Inr)
  case existing
  then show ?thesis by (simp add: gd.rel_refl)
next
  case (created row d1)
  note att = create_attempts_Inr [OF created(2)]
  have "\<forall>s \<in> set (idempotencyRecords d1).
      \<not> (i_ownerId s = i_ownerId (idempotency_of e input row)
         \<and> i_clientRequestId s = i_clientRequestId (idempotency_of e input row))"
    using att created(1) by (auto simp: filter_empty_conv same_request_def idempotency_of_def)
  from good_insert_idempotency [OF this created(3)] att created(4) show ?thesis
    by (auto intro: good_trans)
qed

lemma good_createIdempotent: "good d (snd (createIdempotent e input d))"
  unfolding createIdempotent_def by (rule gd.rel_transaction) (rule good_create_body)

subsection \<open>The repository as a transition system\<close>

inductive repo_step :: "db \<Rightarrow> db \<Rightarrow> bool" where
  create: "repo_step d (snd (createIdempotent e input d))"
| transition: "repo_step d (snd (transitionAndAppend e jobId revision status event d))"
| cancel: "repo_step d (snd (cancelAtomically e cancellation d))"
| claim: "repo_step d (snd (claimOffer e jobId offer d))"
| decide: "repo_step d (snd (recordApprovalDecision e decision d))"
| acknowledge: "repo_step d (snd (acknowledgeResult e ownerId jobId d))"

inductive_cases repo_stepE: "repo_step d d'"

inductive repo_run :: "db \<Rightarrow> db \<Rightarrow> bool" where
  none: "repo_run d d"
| more: "repo_run d d' \<Longrightarrow> repo_step d' d'' \<Longrightarrow> repo_run d d''"

lemmas repository_good = good_createIdempotent good_transitionAndAppend good_cancelAtomically
  good_claimOffer good_recordApprovalDecision good_acknowledgeResult

lemma repo_step_good: "repo_step d d' \<Longrightarrow> good d d'"
  by (erule repo_stepE) (auto intro: repository_good)

lemma repo_run_good: "repo_run d d' \<Longrightarrow> good d d'"
proof (induction rule: repo_run.induct)
  case (none d)
  show ?case by (rule gd.rel_refl)
next
  case (more d d' d'')
  then show ?case by (blast intro: good_trans repo_step_good)
qed

end
