(* ===== verification/Connector_Time.thy ===== *)
theory Connector_Time
  imports Job_Types
begin

section \<open>Instants of the connector protocol\<close>

text \<open>
  The time stamps of \<open>packages/protocol/src/connector.ts\<close>: parsed into whole seconds since the
  Unix epoch and an exact decimal fraction of any length, printed as a key and compared. The
  day number is checked against the calendar, the comparison against the rational value.
\<close>

subsection \<open>Parsing\<close>

definition take_clock :: "nat \<Rightarrow> string \<Rightarrow> (nat \<times> string) option" where
  "take_clock hi s =
     (case take_digits 2 s of
        None \<Rightarrow> None
      | Some (v, rest) \<Rightarrow> if v \<le> hi then Some (v, rest) else None)"

text \<open>\<open>(?:\.(\d+))?\<close>, the captured digits and the rest.\<close>

definition take_fraction :: "string \<Rightarrow> string \<times> string" where
  "take_fraction s =
     (case s of
        c # d # ds \<Rightarrow>
          if c = CHR ''.'' \<and> is_digit d then (takeWhile is_digit (d # ds), dropWhile is_digit (d # ds))
          else ([], s)
      | _ \<Rightarrow> ([], s))"

text \<open>\<open>(Z|[+-](?:[01]\d|2[0-3]):[0-5]\d)$\<close>, as the offset in seconds.\<close>

definition take_zone :: "string \<Rightarrow> int option" where
  "take_zone s =
     (if s = ''Z'' then Some 0
      else case s of
          [] \<Rightarrow> None
        | c # cs \<Rightarrow>
            if c \<noteq> CHR ''+'' \<and> c \<noteq> CHR ''-'' then None
            else
              Option.bind (take_clock 23 cs) (\<lambda>(h, r1).
              Option.bind (take_lit CHR '':'' r1) (\<lambda>r2.
              Option.bind (take_clock 59 r2) (\<lambda>(m, r3).
                if r3 = []
                then Some ((if c = CHR ''+'' then 1 else - 1) * (int h * 3600 + int m * 60))
                else None))))"

record Rfc3339_match =
  rm_year :: nat
  rm_month :: nat
  rm_day :: nat
  rm_hour :: nat
  rm_minute :: nat
  rm_second :: nat
  rm_fraction :: string
  rm_offset :: int

definition match_instant :: "string \<Rightarrow> Rfc3339_match option" where
  "match_instant s =
     Option.bind (take_digits 4 s) (\<lambda>(y, r1).
     Option.bind (take_lit CHR ''-'' r1) (\<lambda>r2.
     Option.bind (take_digits 2 r2) (\<lambda>(mo, r3).
     Option.bind (take_lit CHR ''-'' r3) (\<lambda>r4.
     Option.bind (take_digits 2 r4) (\<lambda>(d, r5).
     Option.bind (take_lit CHR ''T'' r5) (\<lambda>r6.
     Option.bind (take_clock 23 r6) (\<lambda>(h, r7).
     Option.bind (take_lit CHR '':'' r7) (\<lambda>r8.
     Option.bind (take_clock 59 r8) (\<lambda>(mi, r9).
     Option.bind (take_lit CHR '':'' r9) (\<lambda>r10.
     Option.bind (take_clock 59 r10) (\<lambda>(se, r11).
     let (fraction, r12) = take_fraction r11 in
     map_option (\<lambda>offset.
       \<lparr>rm_year = y, rm_month = mo, rm_day = d, rm_hour = h, rm_minute = mi, rm_second = se,
        rm_fraction = fraction, rm_offset = offset\<rparr>) (take_zone r12))))))))))))"

definition calendar_date :: "nat \<Rightarrow> nat \<Rightarrow> nat \<Rightarrow> bool" where
  "calendar_date year month day =
     (month \<ge> 1 \<and> month \<le> 12 \<and> day \<ge> 1 \<and> day \<le> daysInMonth year month)"

definition Rfc3339TimestampSchema :: "string \<Rightarrow> bool" where
  "Rfc3339TimestampSchema s =
     (case match_instant s of
        None \<Rightarrow> False
      | Some m \<Rightarrow> calendar_date (rm_year m) (rm_month m) (rm_day m))"

record ParsedRfc3339Instant =
  wholeSeconds :: int
  fraction :: string

definition daysFromUnixEpoch :: "int \<Rightarrow> int \<Rightarrow> int \<Rightarrow> int" where
  "daysFromUnixEpoch year month day =
     (let adjustedYear = year - (if month \<le> 2 then 1 else 0);
          era = adjustedYear div 400;
          yearOfEra = adjustedYear - era * 400;
          monthOfYear = month + (if month > 2 then - 3 else 9);
          dayOfYear = (153 * monthOfYear + 2) div 5 + day - 1;
          dayOfEra = yearOfEra * 365 + yearOfEra div 4 - yearOfEra div 100 + dayOfYear in
      era * 146097 + dayOfEra - 719468)"

definition parseRfc3339Instant :: "string \<Rightarrow> ParsedRfc3339Instant option" where
  "parseRfc3339Instant s =
     (case match_instant s of
        None \<Rightarrow> None
      | Some m \<Rightarrow>
          if \<not> calendar_date (rm_year m) (rm_month m) (rm_day m) then None
          else
            Some \<lparr>wholeSeconds =
                    daysFromUnixEpoch (int (rm_year m)) (int (rm_month m)) (int (rm_day m)) * 86400
                    + int (rm_hour m) * 3600 + int (rm_minute m) * 60 + int (rm_second m)
                    - rm_offset m,
                  fraction = rm_fraction m\<rparr>)"

text \<open>\<open>fraction.replace(/0+$/, "")\<close>\<close>

definition strip_zeros :: "string \<Rightarrow> string" where
  "strip_zeros s = rev (dropWhile (\<lambda>c. c = CHR ''0'') (rev s))"

definition rfc3339InstantKey :: "string \<Rightarrow> string option" where
  "rfc3339InstantKey s =
     (case parseRfc3339Instant s of
        None \<Rightarrow> None
      | Some i \<Rightarrow> Some (show_int (wholeSeconds i) @ ''.'' @ strip_zeros (fraction i)))"

definition padEnd :: "nat \<Rightarrow> string \<Rightarrow> string" where
  "padEnd n s = s @ replicate (n - length s) (CHR ''0'')"

definition compareRfc3339Instants :: "string \<Rightarrow> string \<Rightarrow> int option" where
  "compareRfc3339Instants left right =
     (case (parseRfc3339Instant left, parseRfc3339Instant right) of
        (Some leftInstant, Some rightInstant) \<Rightarrow>
          Some
            (if wholeSeconds leftInstant \<noteq> wholeSeconds rightInstant
             then if wholeSeconds leftInstant < wholeSeconds rightInstant then - 1 else 1
             else
               let n = max (length (fraction leftInstant)) (length (fraction rightInstant));
                   leftFraction = padEnd n (fraction leftInstant);
                   rightFraction = padEnd n (fraction rightInstant) in
               if leftFraction = rightFraction then 0
               else if leftFraction < rightFraction then - 1 else 1)
      | _ \<Rightarrow> None)"

lemma connector_time_examples:
  "parseRfc3339Instant ''1970-01-01T00:00:00.250Z'' = Some \<lparr>wholeSeconds = 0, fraction = ''250''\<rparr>"
  "parseRfc3339Instant ''2000-03-01T01:00:00+01:00''
     = Some \<lparr>wholeSeconds = 951868800, fraction = []\<rparr>"
  "rfc3339InstantKey ''1969-12-31T23:59:59.500Z'' = Some ''-1.5''"
  "compareRfc3339Instants ''2024-02-29T00:00:00.10Z'' ''2024-02-29T00:00:00.1Z'' = Some 0"
  "parseRfc3339Instant ''2023-02-29T00:00:00Z'' = None"
  by code_simp+

subsection \<open>The day number follows the calendar\<close>

definition next_date :: "nat \<times> nat \<times> nat \<Rightarrow> nat \<times> nat \<times> nat" where
  "next_date date =
     (case date of (year, month, day) \<Rightarrow>
        if day < daysInMonth year month then (year, month, Suc day)
        else if month < 12 then (year, Suc month, 1)
        else (Suc year, 1, 1))"

definition day_number :: "nat \<times> nat \<times> nat \<Rightarrow> int" where
  "day_number date =
     (case date of (year, month, day) \<Rightarrow> daysFromUnixEpoch (int year) (int month) (int day))"

lemma leap_int:
  "isLeapYear y \<longleftrightarrow> int y mod 4 = 0 \<and> (int y mod 100 \<noteq> 0 \<or> int y mod 400 = 0)"
  unfolding isLeapYear_def by presburger

definition years_days :: "int \<Rightarrow> int" where
  "years_days a = a div 400 * 146097 + a mod 400 * 365 + a mod 400 div 4 - a mod 400 div 100"

lemma div_step:
  fixes r :: int
  assumes "0 < r" and "0 < n"
  shows "r div n - (r - 1) div n = (if r mod n = 0 then 1 else 0)"
proof -
  obtain k where r: "r = int (Suc k)" using assms(1) by (metis gr0_implies_Suc zero_less_imp_eq_int)
  obtain l where n: "n = int l" using assms(2) by (metis zero_less_imp_eq_int)
  have div: "Suc k div l = k div l + (if Suc k mod l = 0 then 1 else 0)" by (simp add: div_Suc)
  have "r div n = int (Suc k div l)" "(r - 1) div n = int (k div l)" "r mod n = int (Suc k mod l)"
    by (simp_all only: r n zdiv_int zmod_int) simp
  then show ?thesis by (simp only: div) simp
qed

lemma years_days_step:
  "years_days a - years_days (a - 1) =
     365 + (if a mod 4 = 0 \<and> (a mod 100 \<noteq> 0 \<or> a mod 400 = 0) then 1 else 0)"
proof (cases "a mod 400 = 0")
  case True
  then obtain q where a: "a = 400 * q" by auto
  have "a - 1 = 399 + 400 * (q - 1)" by (simp add: a)
  then have "(a - 1) div 400 = q - 1" "(a - 1) mod 400 = 399"
    by (simp_all only: div_mult_self2 mod_mult_self2) simp_all
  then show ?thesis by (simp add: years_days_def a)
next
  case False
  define r where "r = a mod 400"
  have r: "0 < r" "r < 400"
    using False pos_mod_sign [of 400 a] pos_mod_bound [of 400 a] unfolding r_def by linarith+
  have "a - 1 = (r - 1) + 400 * (a div 400)"
    using mult_div_mod_eq [of 400 a] unfolding r_def by linarith
  then have prev: "(a - 1) div 400 = a div 400" "(a - 1) mod 400 = r - 1"
    by (simp_all only: div_mult_self2 mod_mult_self2) (use r in simp_all)
  have "a mod 4 = r mod 4" "a mod 100 = r mod 100"
    unfolding r_def by (simp_all add: mod_mod_cancel)
  moreover have d: "r div 4 - (r - 1) div 4 = (if r mod 4 = 0 then 1 else 0)"
    "r div 100 - (r - 1) div 100 = (if r mod 100 = 0 then 1 else 0)"
    by (rule div_step [OF r(1)], simp)+
  have split: "x * 146097 + r * 365 + u - v - (x * 146097 + (r - 1) * 365 + u' - v')
      = 365 + (u - u') - (v - v')" for x u v u' v' :: int
    by (simp add: algebra_simps)
  moreover have "years_days a - years_days (a - 1)
      = 365 + (if r mod 4 = 0 then 1 else 0) - (if r mod 100 = 0 then 1 else 0)"
    unfolding years_days_def prev r_def [symmetric] split d by (rule refl)
  moreover have "r mod 100 = 0 \<longrightarrow> r mod 4 = 0"
    using dvd_trans [of 4 100 r] by (auto simp: mod_eq_0_iff_dvd)
  ultimately show ?thesis using False by (auto split: if_splits)
qed

lemma daysFromUnixEpoch_years:
  "daysFromUnixEpoch y m d =
     (if m \<le> 2 then years_days (y - 1) + (153 * (m + 9) + 2) div 5
      else years_days y + (153 * (m - 3) + 2) div 5) + d - 1 - 719468"
  unfolding daysFromUnixEpoch_def years_days_def Let_def minus_div_mult_eq_mod by simp

lemma month_cases:
  fixes m :: nat
  assumes "1 \<le> m" "m \<le> 12"
  shows "m = 1 \<or> m = 2 \<or> m = 3 \<or> m = 4 \<or> m = 5 \<or> m = 6 \<or> m = 7 \<or> m = 8 \<or> m = 9
    \<or> m = 10 \<or> m = 11 \<or> m = 12"
  using assms by presburger

lemma day_number_next:
  assumes "calendar_date y m d"
  shows "day_number (next_date (y, m, d)) = day_number (y, m, d) + 1"
proof (cases "d < daysInMonth y m")
  case True
  then show ?thesis by (simp add: next_date_def day_number_def daysFromUnixEpoch_years)
next
  case False
  then have d: "d = daysInMonth y m" and m: "1 \<le> m" "m \<le> 12"
    using assms by (auto simp: calendar_date_def)
  show ?thesis
    using month_cases [OF m] years_days_step [of "int y"] d
    by (elim disjE)
       (auto simp: next_date_def day_number_def daysFromUnixEpoch_years daysInMonth_def leap_int)
qed

lemma calendar_date_next:
  assumes "calendar_date y m d" and "next_date (y, m, d) = (y', m', d')"
  shows "calendar_date y' m' d'"
  using assms by (auto simp: calendar_date_def next_date_def daysInMonth_def split: if_splits)


text \<open>
  The day number is the calendar's: the first of January 1970 is day 0, and the day after
  any date of the proleptic Gregorian calendar has the next number, across the ends of months,
  leap days and centuries, before and after the epoch.
\<close>

theorem day_numbers_follow_calendar:
  assumes "calendar_date y m d"
  shows "day_number (1970, 1, 1) = 0 \<and> day_number (next_date (y, m, d)) = day_number (y, m, d) + 1"
proof -
  have "day_number (1970, 1, 1) = 0" by code_simp
  then show ?thesis using day_number_next [OF assms] by simp
qed

theorem day_numbers_follow_calendar_witness:
  "day_number (next_date (2024, 2, 28)) = day_number (2024, 2, 28) + 1"
proof -
  have "calendar_date 2024 2 28" by code_simp
  from day_numbers_follow_calendar [OF this] show ?thesis by simp
qed

subsection \<open>The comparison is the order of instants\<close>

definition fraction_value :: "string \<Rightarrow> rat" where
  "fraction_value s = of_nat (digits_value 0 s) / 10 ^ length s"

definition instant_value :: "ParsedRfc3339Instant \<Rightarrow> rat" where
  "instant_value i = of_int (wholeSeconds i) + fraction_value (fraction i)"

definition digit_of :: "char \<Rightarrow> nat" where
  "digit_of c = of_char c - 48"

lemma digits_value_acc: "digits_value acc s = acc * 10 ^ length s + digits_value 0 s"
proof (induction s arbitrary: acc)
  case (Cons c s)
  show ?case
    using Cons [of "10 * acc + digit_of c"] Cons [of "digit_of c"]
    by (simp add: digit_of_def algebra_simps)
qed simp

lemma digits_value_Cons [simp]:
  "digits_value 0 (c # s) = digit_of c * 10 ^ length s + digits_value 0 s"
  using digits_value_acc [of "digit_of c" s] by (simp add: digit_of_def)

declare digits_value.simps(2) [simp del]

lemma digits_value_append:
  "digits_value 0 (s @ t) = digits_value 0 s * 10 ^ length t + digits_value 0 t"
  by (induction s) (simp_all add: power_add algebra_simps)

lemma digit_of_le: "is_digit c \<Longrightarrow> digit_of c \<le> 9"
  by (auto simp: is_digit_def digit_of_def Let_def)

lemma digits_value_bound: "list_all is_digit s \<Longrightarrow> digits_value 0 s < 10 ^ length s"
proof (induction s)
  case (Cons c s)
  then have "digit_of c * 10 ^ length s \<le> 9 * 10 ^ length s"
    by (intro mult_le_mono1 digit_of_le) simp
  moreover have "digits_value 0 s < 10 ^ length s" using Cons by simp
  ultimately have "digit_of c * 10 ^ length s + digits_value 0 s < 10 * 10 ^ length s"
    by linarith
  then show ?case by simp
qed simp

lemma digits_value_zeros: "digits_value 0 (replicate n (CHR ''0'')) = 0"
  by (induction n) (simp_all add: digit_of_def)

lemma digit_less_iff: "is_digit c \<Longrightarrow> is_digit d \<Longrightarrow> c < d \<longleftrightarrow> digit_of c < digit_of d"
  by (auto simp: less_char_def is_digit_def digit_of_def Let_def)

lemma digit_eq_iff: "is_digit c \<Longrightarrow> is_digit d \<Longrightarrow> c = d \<longleftrightarrow> digit_of c = digit_of d"
  by (auto simp: is_digit_def digit_of_def Let_def)
     (metis diff_diff_cancel le_add_diff_inverse of_char_eq_iff)

lemma base_less:
  fixes a b u v p :: nat
  assumes "u < p" "v < p"
  shows "a * p + u < b * p + v \<longleftrightarrow> a < b \<or> (a = b \<and> u < v)"
proof -
  have less: "a * p + u < b * p + v" if "a < b" "u < p" for a b u v :: nat
  proof -
    have "a * p + u < Suc a * p" using that by simp
    also have "\<dots> \<le> b * p" using that by (intro mult_le_mono1) simp
    finally show ?thesis by simp
  qed
  show ?thesis
    using less [of a b u v] less [of b a v u] assms by (cases a b rule: linorder_cases) auto
qed

lemma digits_less_iff:
  assumes "length s = length t" "list_all is_digit s" "list_all is_digit t"
  shows "s < t \<longleftrightarrow> digits_value 0 s < digits_value 0 t"
  using assms
proof (induction s t rule: list_induct2)
  case (Cons c s d t)
  have b: "digits_value 0 s < 10 ^ length t" "digits_value 0 t < 10 ^ length t"
    using Cons digits_value_bound [of s] digits_value_bound [of t] by simp_all
  show ?case
    using Cons base_less [OF b] digit_less_iff [of c d] digit_eq_iff [of c d] by auto
qed simp

lemma digits_inj:
  assumes "length s = length t" "list_all is_digit s" "list_all is_digit t"
    and "digits_value 0 s = digits_value 0 t"
  shows "s = t"
  using assms digits_less_iff [of s t] digits_less_iff [of t s] by (metis length_rev less_linear less_irrefl)

lemma fraction_value_pad:
  assumes "length s \<le> n"
  shows "fraction_value s = of_nat (digits_value 0 (padEnd n s)) / 10 ^ n"
proof -
  have "(10 :: rat) ^ n = 10 ^ length s * 10 ^ (n - length s)"
    using assms by (simp flip: power_add)
  then show ?thesis
    by (simp add: fraction_value_def padEnd_def digits_value_append digits_value_zeros)
qed

lemma fraction_value_bounds:
  assumes "list_all is_digit s"
  shows "0 \<le> fraction_value s" "fraction_value s < 1"
proof -
  have "(of_nat (digits_value 0 s) :: rat) < of_nat (10 ^ length s)"
    using digits_value_bound [OF assms] by (simp only: of_nat_less_iff)
  then show "fraction_value s < 1" by (simp add: fraction_value_def divide_less_eq)
  show "0 \<le> fraction_value s" by (simp add: fraction_value_def)
qed

lemma take_fraction_digits: "take_fraction s = (f, r) \<Longrightarrow> list_all is_digit f"
  by (auto simp: take_fraction_def list_all_iff dest: set_takeWhileD split: list.splits if_splits)

lemma match_instant_fraction:
  "match_instant s = Some m \<Longrightarrow> list_all is_digit (rm_fraction m)"
  by (auto simp: match_instant_def Let_def dest!: take_fraction_digits
      split: Option.bind_splits prod.splits)

lemma parse_fraction:
  "parseRfc3339Instant s = Some i \<Longrightarrow> list_all is_digit (fraction i)"
  by (auto simp: parseRfc3339Instant_def match_instant_fraction split: option.splits if_splits)


lemma padded_order:
  assumes "list_all is_digit s" "list_all is_digit t" and n: "n = max (length s) (length t)"
  shows "padEnd n s < padEnd n t \<longleftrightarrow> fraction_value s < fraction_value t"
    "padEnd n s = padEnd n t \<longleftrightarrow> fraction_value s = fraction_value t"
proof -
  have len: "length (padEnd n s) = n" "length (padEnd n t) = n" using n by (simp_all add: padEnd_def)
  have dig: "list_all is_digit (padEnd n s)" "list_all is_digit (padEnd n t)"
    using assms by (auto simp: padEnd_def list_all_iff is_digit_def)
  note v = fraction_value_pad [of s n] fraction_value_pad [of t n]
  show "padEnd n s < padEnd n t \<longleftrightarrow> fraction_value s < fraction_value t"
    using digits_less_iff [OF _ dig] len n v by (simp add: divide_less_cancel)
  show "padEnd n s = padEnd n t \<longleftrightarrow> fraction_value s = fraction_value t"
    using digits_inj [OF _ dig] len n v by auto
qed

text \<open>
  C37. Comparing two time stamps is comparing the instants they denote, as exact rationals:
  whatever their offsets and however many digits their fractions have.
\<close>

theorem comparison_is_instant_order:
  assumes l: "parseRfc3339Instant l = Some i" and r: "parseRfc3339Instant r = Some j"
  shows "compareRfc3339Instants l r =
     Some (if instant_value i < instant_value j then - 1
           else if instant_value i = instant_value j then 0 else 1)"
proof (cases "wholeSeconds i = wholeSeconds j")
  case True
  note digits = parse_fraction [OF l] parse_fraction [OF r]
  show ?thesis
    using True padded_order [OF digits refl]
    by (simp add: compareRfc3339Instants_def l r Let_def instant_value_def)
next
  case False
  note b = fraction_value_bounds [OF parse_fraction [OF l]] fraction_value_bounds [OF parse_fraction [OF r]]
  consider "wholeSeconds i + 1 \<le> wholeSeconds j" | "wholeSeconds j + 1 \<le> wholeSeconds i"
    using False by linarith
  then show ?thesis
  proof cases
    case 1
    then have "(of_int (wholeSeconds i) :: rat) + 1 \<le> of_int (wholeSeconds j)"
      by (metis of_int_1 of_int_add of_int_le_iff)
    then show ?thesis
      using 1 b by (simp add: compareRfc3339Instants_def l r instant_value_def)
  next
    case 2
    then have "(of_int (wholeSeconds j) :: rat) + 1 \<le> of_int (wholeSeconds i)"
      by (metis of_int_1 of_int_add of_int_le_iff)
    then show ?thesis
      using 2 b by (simp add: compareRfc3339Instants_def l r instant_value_def)
  qed
qed

theorem comparison_is_instant_order_witness:
  "compareRfc3339Instants ''2024-01-01T00:00:00.1+01:00'' ''2023-12-31T23:00:00.10Z'' = Some 0"
proof -
  have "parseRfc3339Instant ''2024-01-01T00:00:00.1+01:00''
      = Some \<lparr>wholeSeconds = 1704063600, fraction = ''1''\<rparr>"
    "parseRfc3339Instant ''2023-12-31T23:00:00.10Z''
      = Some \<lparr>wholeSeconds = 1704063600, fraction = ''10''\<rparr>"
    by code_simp+
  from comparison_is_instant_order [OF this] show ?thesis
    by (simp add: instant_value_def fraction_value_def digit_of_def)
qed

subsection \<open>The key of an instant\<close>

text \<open>Reading a decimal integer back, as \<open>BigInt(text)\<close> does.\<close>

definition bigint_of :: "string \<Rightarrow> int" where
  "bigint_of s =
     (case s of
        c # cs \<Rightarrow> if c = CHR ''-'' then - int (digits_value 0 cs) else int (digits_value 0 s)
      | [] \<Rightarrow> 0)"

lemma show_nat_digits: "list_all is_digit (show_nat n) \<and> show_nat n \<noteq> []"
proof (induction n rule: show_nat.induct)
  case (1 n)
  have d: "is_digit (char_of (48 + k))" if "k < 10" for k :: nat
    using that by (simp add: is_digit_def Let_def)
  show ?case using 1 d by (subst (1 2) show_nat.simps) (auto simp: list_all_iff)
qed

lemma digits_value_show_nat: "digits_value 0 (show_nat n) = n"
proof (induction n rule: show_nat.induct)
  case (1 n)
  have d: "digit_of (char_of (48 + k)) = k" if "k < 10" for k :: nat
    using that by (simp add: digit_of_def)
  show ?case using 1 d by (subst show_nat.simps) (auto simp: digits_value_append)
qed

lemma bigint_of_show_int: "bigint_of (show_int n) = n"
proof (cases "n < 0")
  case True
  then show ?thesis by (simp add: show_int_def bigint_of_def digits_value_show_nat)
next
  case False
  then have s: "show_int n = show_nat (nat n)" by (simp add: show_int_def)
  obtain c cs where c: "show_nat (nat n) = c # cs" "is_digit c"
    using show_nat_digits [of "nat n"] by (cases "show_nat (nat n)") auto
  then have "c \<noteq> CHR ''-''" by (auto simp: is_digit_def)
  then show ?thesis
    using False digits_value_show_nat [of "nat n"] by (simp add: s c bigint_of_def)
qed

lemma strip_zeros_split: "\<exists>n. s = strip_zeros s @ replicate n (CHR ''0'')"
proof -
  let ?p = "\<lambda>c. c = CHR ''0''"
  let ?n = "length (takeWhile ?p (rev s))"
  have "takeWhile ?p (rev s) = replicate ?n (CHR ''0'')"
    by (rule replicate_eqI) (auto dest: set_takeWhileD)
  then have "rev (takeWhile ?p (rev s)) = replicate ?n (CHR ''0'')" by (metis rev_replicate)
  moreover have "s = rev (dropWhile ?p (rev s)) @ rev (takeWhile ?p (rev s))"
    by (simp flip: rev_append)
  ultimately show ?thesis unfolding strip_zeros_def by metis
qed

lemma strip_zeros_value: "fraction_value (strip_zeros s) = fraction_value s"
proof -
  obtain n where n: "s = strip_zeros s @ replicate n (CHR ''0'')" using strip_zeros_split by blast
  have len: "length s = length (strip_zeros s) + n" using arg_cong [OF n, of length] by simp
  then have "padEnd (length s) (strip_zeros s) = s" using n by (simp add: padEnd_def)
  then show ?thesis
    using fraction_value_pad [of "strip_zeros s" "length s"] len by (simp add: fraction_value_def)
qed

lemma strip_zeros_digits: "list_all is_digit s \<Longrightarrow> list_all is_digit (strip_zeros s)"
  by (auto simp: strip_zeros_def list_all_iff dest: set_dropWhileD)

lemma show_int_no_dot: "CHR ''.'' \<notin> set (show_int n)"
proof -
  have "CHR ''.'' \<notin> set (show_nat k)" for k
    using show_nat_digits [of k] by (auto simp: list_all_iff is_digit_def)
  then show ?thesis by (simp add: show_int_def)
qed

end
