(* ===== verification/Js_Text.thy ===== *)
theory Js_Text
  imports Prelude
begin

section \<open>Regular expressions and JSON text\<close>

text \<open>
  What the sources use of \<open>RegExp.prototype.test\<close> with anchored patterns and of
  \<open>JSON.stringify\<close>. A pattern is an \<open>rx\<close>; it is matched by derivatives, which \<open>rx_match_lang\<close>
  shows to decide its language. JSON strings are printed with JavaScript's escapes; reading
  them back is the inverse, so the printed text determines the value.
\<close>

subsection \<open>Lower case\<close>

text \<open>\<open>toLowerCase\<close> on code units up to 255.\<close>

definition js_lower_char :: "char \<Rightarrow> char" where
  "js_lower_char c =
     (let n = (of_char c :: nat) in
      if (65 \<le> n \<and> n \<le> 90) \<or> (192 \<le> n \<and> n \<le> 222 \<and> n \<noteq> 215) then char_of (n + 32) else c)"

definition toLowerCase :: "string \<Rightarrow> string" where
  "toLowerCase s = map js_lower_char s"

fun endsWith :: "string \<Rightarrow> string \<Rightarrow> bool" where
  "endsWith s p = startsWith (rev s) (rev p)"

fun includes_text :: "string \<Rightarrow> string \<Rightarrow> bool" where
  "includes_text [] p = (p = [])"
| "includes_text (c # cs) p = (startsWith (c # cs) p \<or> includes_text cs p)"

text \<open>\<open>[...new Set(xs)]\<close> keeps the first occurrence of each element.\<close>

definition js_uniq :: "'a list \<Rightarrow> 'a list" where
  "js_uniq xs = rev (remdups (rev xs))"

lemma set_js_uniq [simp]: "set (js_uniq xs) = set xs"
  by (simp add: js_uniq_def)

lemma distinct_js_uniq [simp]: "distinct (js_uniq xs)"
  by (simp add: js_uniq_def)

subsection \<open>Patterns\<close>

datatype rx =
    Nul
  | Eps
  | Cls "char \<Rightarrow> bool"
  | Seq rx rx
  | Alt rx rx
  | Star rx

definition Opt :: "rx \<Rightarrow> rx" where "Opt r = Alt r Eps"

definition Plus :: "rx \<Rightarrow> rx" where "Plus r = Seq r (Star r)"

fun Lit :: "string \<Rightarrow> rx" where
  "Lit [] = Eps"
| "Lit (c # cs) = Seq (Cls (\<lambda>x. x = c)) (Lit cs)"

fun Seqs :: "rx list \<Rightarrow> rx" where
  "Seqs [] = Eps"
| "Seqs (r # rs) = Seq r (Seqs rs)"

fun Alts :: "rx list \<Rightarrow> rx" where
  "Alts [] = Nul"
| "Alts (r # rs) = Alt r (Alts rs)"

definition one_of :: "string \<Rightarrow> char \<Rightarrow> bool" where
  "one_of s c = (c \<in> set s)"

fun nullable :: "rx \<Rightarrow> bool" where
  "nullable Nul = False"
| "nullable Eps = True"
| "nullable (Cls p) = False"
| "nullable (Seq r s) = (nullable r \<and> nullable s)"
| "nullable (Alt r s) = (nullable r \<or> nullable s)"
| "nullable (Star r) = True"

fun deriv :: "char \<Rightarrow> rx \<Rightarrow> rx" where
  "deriv c Nul = Nul"
| "deriv c Eps = Nul"
| "deriv c (Cls p) = (if p c then Eps else Nul)"
| "deriv c (Seq r s) =
     (if nullable r then Alt (Seq (deriv c r) s) (deriv c s) else Seq (deriv c r) s)"
| "deriv c (Alt r s) = Alt (deriv c r) (deriv c s)"
| "deriv c (Star r) = Seq (deriv c r) (Star r)"

fun rx_match :: "rx \<Rightarrow> string \<Rightarrow> bool" where
  "rx_match r [] = nullable r"
| "rx_match r (c # cs) = rx_match (deriv c r) cs"

subsection \<open>The language of a pattern\<close>

inductive in_lang :: "rx \<Rightarrow> string \<Rightarrow> bool" where
  eps: "in_lang Eps []"
| cls: "p c \<Longrightarrow> in_lang (Cls p) [c]"
| seq: "in_lang r u \<Longrightarrow> in_lang s v \<Longrightarrow> in_lang (Seq r s) (u @ v)"
| left: "in_lang r u \<Longrightarrow> in_lang (Alt r s) u"
| right: "in_lang s u \<Longrightarrow> in_lang (Alt r s) u"
| stop: "in_lang (Star r) []"
| loop: "in_lang r (c # u) \<Longrightarrow> in_lang (Star r) v \<Longrightarrow> in_lang (Star r) ((c # u) @ v)"

inductive_cases in_lang_NulE: "in_lang Nul w"
inductive_cases in_lang_EpsE: "in_lang Eps w"
inductive_cases in_lang_ClsE: "in_lang (Cls p) w"
inductive_cases in_lang_SeqE: "in_lang (Seq r s) w"
inductive_cases in_lang_AltE: "in_lang (Alt r s) w"
inductive_cases in_lang_StarE: "in_lang (Star r) w"

lemmas in_lang_elims = in_lang_NulE in_lang_EpsE in_lang_ClsE in_lang_SeqE in_lang_AltE

lemma nullable_lang: "nullable r \<longleftrightarrow> in_lang r []"
proof (induction r)
  case (Seq r s)
  then show ?case
    by (auto elim: in_lang_SeqE intro: in_lang.seq [of r "[]" s "[]", simplified])
qed (auto intro: in_lang.intros elim: in_lang_elims)

lemma deriv_sound: "in_lang (deriv c r) w \<Longrightarrow> in_lang r (c # w)"
proof (induction r arbitrary: w)
  case (Cls p)
  then show ?case by (auto split: if_splits elim: in_lang_elims intro: in_lang.cls)
next
  case (Seq r s)
  have first: "in_lang (Seq r s) (c # w)" if seq: "in_lang (Seq (deriv c r) s) w"
  proof -
    from seq obtain u v where "w = u @ v" "in_lang (deriv c r) u" "in_lang s v"
      by (auto elim: in_lang_SeqE)
    with Seq.IH(1) in_lang.seq [of r "c # u" s v] show ?thesis by simp
  qed
  have second: "in_lang (Seq r s) (c # w)" if "nullable r" "in_lang (deriv c s) w"
    using that Seq.IH(2) in_lang.seq [of r "[]" s "c # w"] by (simp add: nullable_lang)
  show ?case
    using Seq.prems first second by (auto split: if_splits elim: in_lang_AltE)
next
  case (Star r)
  then obtain u v where "w = u @ v" "in_lang (deriv c r) u" "in_lang (Star r) v"
    by (auto elim: in_lang_SeqE)
  with Star.IH in_lang.loop [of r c u v] show ?case by simp
qed (auto intro: in_lang.left in_lang.right elim: in_lang_elims)

lemma deriv_complete: "in_lang r w \<Longrightarrow> w = c # v \<Longrightarrow> in_lang (deriv c r) v"
proof (induction arbitrary: c v rule: in_lang.induct)
  case (seq r u s w)
  show ?case
  proof (cases u)
    case Nil
    with seq show ?thesis by (auto simp: nullable_lang intro: in_lang.right)
  next
    case (Cons d u')
    with seq have "in_lang (Seq (deriv c r) s) v"
      by (auto intro: in_lang.seq)
    then show ?thesis by (auto intro: in_lang.left)
  qed
next
  case (loop r d u w)
  then show ?case by (auto intro: in_lang.seq)
qed (auto intro: in_lang.intros)

lemma rx_match_lang: "rx_match r w \<longleftrightarrow> in_lang r w"
  by (induction w arbitrary: r)
     (auto simp: nullable_lang intro: deriv_sound deriv_complete)

subsection \<open>JSON strings\<close>

definition hex_digit :: "nat \<Rightarrow> char" where
  "hex_digit n = ''0123456789abcdef'' ! n"

definition json_escape :: "char \<Rightarrow> string" where
  "json_escape c =
     (let n = (of_char c :: nat) in
      if n = 34 then [CHR 92, CHR 34]
      else if n = 92 then [CHR 92, CHR 92]
      else if n = 8 then [CHR 92, CHR ''b'']
      else if n = 9 then [CHR 92, CHR ''t'']
      else if n = 10 then [CHR 92, CHR ''n'']
      else if n = 12 then [CHR 92, CHR ''f'']
      else if n = 13 then [CHR 92, CHR ''r'']
      else if n < 32
      then [CHR 92, CHR ''u'', CHR ''0'', CHR ''0'', hex_digit (n div 16), hex_digit (n mod 16)]
      else [c])"

definition json_string :: "string \<Rightarrow> string" where
  "json_string s = CHR 34 # concat (map json_escape s) @ [CHR 34]"


definition hex_value :: "char \<Rightarrow> nat" where
  "hex_value c = (let n = of_char c in if n < 58 then n - 48 else n - 87)"

definition unescape_char :: "char \<Rightarrow> char" where
  "unescape_char e =
     (if e = CHR ''b'' then CHR 8 else if e = CHR ''t'' then CHR 9
      else if e = CHR ''n'' then CHR 10 else if e = CHR ''f'' then CHR 12
      else if e = CHR ''r'' then CHR 13 else e)"

text \<open>The body of a JSON string up to its closing quote, and what follows it.\<close>

fun json_read :: "string \<Rightarrow> (string \<times> string) option" where
  "json_read [] = None"
| "json_read (c # r) =
     (if c = CHR 34 then Some ([], r)
      else if c = CHR 92 then
        (case r of
           [] \<Rightarrow> None
         | e # r2 \<Rightarrow>
             if e = CHR ''u'' then
               (case r2 of
                  a # b # h # l # r3 \<Rightarrow>
                    map_option (\<lambda>(s, t). (char_of (16 * hex_value h + hex_value l) # s, t))
                      (json_read r3)
                | _ \<Rightarrow> None)
             else map_option (\<lambda>(s, t). (unescape_char e # s, t)) (json_read r2))
      else map_option (\<lambda>(s, t). (c # s, t)) (json_read r))"

lemma hex_value_digit: "n < 16 \<Longrightarrow> hex_value (hex_digit n) = n"
proof -
  have "\<forall>n \<in> set [0..<16]. hex_value (hex_digit n) = n" by code_simp
  then show "n < 16 \<Longrightarrow> hex_value (hex_digit n) = n" by simp
qed

lemma of_char_const: "(of_char c :: nat) = n \<Longrightarrow> c = char_of n"
  by (metis char_of_char)

lemma char_of_consts:
  "char_of (34 :: nat) = CHR 34" "char_of (92 :: nat) = CHR 92" "char_of (8 :: nat) = CHR 8"
  "char_of (9 :: nat) = CHR 9" "char_of (10 :: nat) = CHR 10" "char_of (12 :: nat) = CHR 12"
  "char_of (13 :: nat) = CHR 13"
  by code_simp+

lemma json_read_escape:
  "json_read (json_escape c @ x) = map_option (\<lambda>(s, t). (c # s, t)) (json_read x)"
proof -
  let ?n = "of_char c :: nat"
  have plain: "c \<noteq> CHR 34" "c \<noteq> CHR 92" if "?n \<noteq> 34" "?n \<noteq> 92"
    using that by auto
  have hex: "char_of (16 * hex_value (hex_digit (?n div 16)) + hex_value (hex_digit (?n mod 16))) = c"
    if "?n < 32"
    using that by (simp add: hex_value_digit)
  consider "?n = 34" | "?n = 92" | "?n = 8" | "?n = 9" | "?n = 10" | "?n = 12" | "?n = 13"
    | "?n < 32" "?n \<notin> {8, 9, 10, 12, 13}" | "32 \<le> ?n" "?n \<noteq> 34" "?n \<noteq> 92"
    by fastforce
  then show ?thesis
  proof cases
    case 8
    then show ?thesis using hex by (simp add: json_escape_def Let_def)
  next
    case 9
    then show ?thesis using plain by (simp add: json_escape_def Let_def)
  qed (auto simp: json_escape_def Let_def unescape_char_def char_of_consts
      dest!: of_char_const)
qed

lemma json_read_string: "json_read (tl (json_string s @ r)) = Some (s, r)"
proof -
  have "json_read (concat (map json_escape s) @ CHR 34 # r) = Some (s, r)"
  proof (induction s)
    case Nil
    show ?case by simp
  next
    case (Cons c s)
    then show ?case by (simp add: json_read_escape del: json_read.simps)
  qed
  then show ?thesis by (simp add: json_string_def)
qed

text \<open>A printed string determines the string and what follows it.\<close>

lemma json_string_prefix:
  assumes "json_string s @ r = json_string t @ q"
  shows "s = t \<and> r = q"
  using json_read_string [of s r] json_read_string [of t q] unfolding assms
  by (metis option.inject prod.inject)

lemma json_string_inj [simp]: "json_string s = json_string t \<longleftrightarrow> s = t"
  by (metis append_Nil2 json_string_prefix)

subsection \<open>Lists of JSON strings\<close>

fun join_with :: "string \<Rightarrow> string list \<Rightarrow> string" where
  "join_with sep [] = []"
| "join_with sep [x] = x"
| "join_with sep (x # y # xs) = x @ sep @ join_with sep (y # xs)"

definition json_strings :: "string list \<Rightarrow> string" where
  "json_strings xs = ''['' @ join_with '','' (map json_string xs) @ '']''"

lemma join_with_Cons: "xs \<noteq> [] \<Longrightarrow> join_with sep (x # xs) = x @ sep @ join_with sep xs"
  by (cases xs) auto

lemma json_string_not_close: "json_string s @ r \<noteq> CHR '']'' # q"
  by (simp add: json_string_def)

lemma json_items_prefix:
  "join_with '','' (map json_string xs) @ '']'' @ r = join_with '','' (map json_string ys) @ '']'' @ q
     \<Longrightarrow> xs = ys \<and> r = q"
proof (induction xs arbitrary: ys)
  case Nil
  then show ?case
    using json_string_not_close
    by (cases ys rule: remdups_adj.cases) (auto simp: json_string_def)
next
  case (Cons x xs)
  note eq = Cons.prems
  show ?case
  proof (cases ys)
    case Nil
    with eq show ?thesis by (cases xs) (auto simp: json_string_def)
  next
    case (Cons y zs)
    define a where "a = (if xs = [] then '']'' @ r else '','' @ join_with '','' (map json_string xs) @ '']'' @ r)"
    define b where "b = (if zs = [] then '']'' @ q else '','' @ join_with '','' (map json_string zs) @ '']'' @ q)"
    have "json_string x @ a = json_string y @ b"
      using eq Cons by (cases "xs = []"; cases "zs = []") (auto simp: a_def b_def join_with_Cons)
    then have "x = y" and ab: "a = b" using json_string_prefix by blast+
    then show ?thesis
      using Cons.IH [of zs] Cons by (auto simp: a_def b_def split: if_splits)
  qed
qed

lemma json_strings_prefix: "json_strings xs @ r = json_strings ys @ q \<Longrightarrow> xs = ys \<and> r = q"
  using json_items_prefix [of xs r ys q] by (simp add: json_strings_def)

end
