(* ===== verification/Connector_Protocol.thy ===== *)
theory Connector_Protocol
  imports Connector_Time Js_Text
begin

section \<open>Messages of the connector protocol\<close>

text \<open>
  \<open>packages/protocol/src/connector.ts\<close>: the sequence cursor, the payload schemas and the
  envelope of the messages a connector and the control plane exchange. A schema is a function
  from an unknown value to the value it parses to; a strict object refuses every key it does
  not declare. \<open>is_uuid\<close> stands for zod's \<open>z.string().uuid()\<close>. The messages of a connector, with the
  payload of \<open>job.event\<close>, are in \<open>Client_Schema\<close>.
\<close>

subsection \<open>The sequence cursor\<close>

datatype SequenceCursorResult = Accepted | Duplicate

datatype sequence_error = INVALID_SEQUENCE int | INVALID_SEQUENCE_ORDER int int

definition new_SequenceCursor :: "int \<Rightarrow> sequence_error + int" where
  "new_SequenceCursor initialSequence =
     (if \<not> isSafeInteger initialSequence \<or> initialSequence < 0
      then Inl (INVALID_SEQUENCE initialSequence) else Inr initialSequence)"

definition accept_sequence :: "int \<Rightarrow> int \<Rightarrow> (sequence_error + SequenceCursorResult) \<times> int" where
  "accept_sequence lastSequence sequence =
     (if \<not> isSafeInteger sequence \<or> sequence < 1 then (Inl (INVALID_SEQUENCE sequence), lastSequence)
      else if sequence = lastSequence then (Inr Duplicate, lastSequence)
      else if sequence < lastSequence
      then (Inl (INVALID_SEQUENCE_ORDER lastSequence sequence), lastSequence)
      else (Inr Accepted, sequence))"

fun accept_all :: "int \<Rightarrow> int list \<Rightarrow> int list \<times> int" where
  "accept_all lastSequence [] = ([], lastSequence)"
| "accept_all lastSequence (s # ss) =
     (case accept_sequence lastSequence s of
        (r, next) \<Rightarrow>
          (case accept_all next ss of
             (accepted, final) \<Rightarrow>
               (if r = Inr Accepted then (s # accepted, final) else (accepted, final))))"

lemma accept_all_sorted:
  "accept_all l ss = (accepted, final) \<Longrightarrow>
     sorted_wrt (<) (l # accepted) \<and> l \<le> final \<and> (\<forall>s \<in> set accepted. s \<le> final)
     \<and> set accepted \<subseteq> set ss"
proof (induction l ss arbitrary: accepted final rule: accept_all.induct)
  case (2 l s ss)
  obtain r nxt where a: "accept_sequence l s = (r, nxt)" by force
  obtain acc fin where b: "accept_all nxt ss = (acc, fin)" by force
  note IH = "2.IH" [OF a [symmetric] b]
  have e: "accept_all l (s # ss) = (if r = Inr Accepted then (s # acc, fin) else (acc, fin))"
    by (simp add: a b)
  show ?case
  proof (cases "r = Inr Accepted")
    case True
    then have "l < s \<and> nxt = s" using a by (auto simp: accept_sequence_def split: if_splits)
    then show ?thesis using 2(2) IH True e by auto
  next
    case False
    then have "nxt = l" using a by (auto simp: accept_sequence_def split: if_splits)
    then show ?thesis using 2(2) IH False e by auto
  qed
qed simp

text \<open>
  A cursor accepts each sequence number at most once and in increasing order: whatever numbers
  arrive, those it accepts are among them, lie strictly above its start and up to where it ends,
  and are strictly increasing; it never moves back.
\<close>

theorem cursor_accepts_increasing:
  "sorted_wrt (<) (fst (accept_all l ss))
   \<and> set (fst (accept_all l ss)) \<subseteq> set ss \<inter> {l <.. snd (accept_all l ss)}
   \<and> l \<le> snd (accept_all l ss)"
  using accept_all_sorted [of l ss "fst (accept_all l ss)" "snd (accept_all l ss)"] by auto

subsection \<open>Field schemas\<close>

definition whole_number :: "jsval \<Rightarrow> int option" where
  "whole_number v = (case v of JNum q \<Rightarrow> if of_int \<lfloor>q\<rfloor> = q then Some \<lfloor>q\<rfloor> else None | _ \<Rightarrow> None)"

definition bounded_int :: "int \<Rightarrow> int \<Rightarrow> jsval \<Rightarrow> int option" where
  "bounded_int lo hi v =
     (case whole_number v of Some n \<Rightarrow> if lo \<le> n \<and> n \<le> hi then Some n else None | None \<Rightarrow> None)"

definition PositiveIntegerSchema :: "jsval \<Rightarrow> int option" where
  "PositiveIntegerSchema = bounded_int 1 MAX_SAFE_INTEGER"

definition NonNegativeIntegerSchema :: "jsval \<Rightarrow> int option" where
  "NonNegativeIntegerSchema = bounded_int 0 MAX_SAFE_INTEGER"

definition CoordinationAttemptSchema :: "jsval \<Rightarrow> int option" where
  "CoordinationAttemptSchema = bounded_int 1 2147483647"

definition CoordinationRevisionSchema :: "jsval \<Rightarrow> int option" where
  "CoordinationRevisionSchema = bounded_int 0 2147483647"

definition UuidSchema :: "(string \<Rightarrow> bool) \<Rightarrow> jsval \<Rightarrow> string option" where
  "UuidSchema is_uuid v =
     (case the_str v of Some s \<Rightarrow> if is_uuid s then Some (toLowerCase s) else None | None \<Rightarrow> None)"

definition TimestampSchema :: "jsval \<Rightarrow> string option" where
  "TimestampSchema v =
     (case the_str v of Some s \<Rightarrow> if Rfc3339TimestampSchema s then Some s else None | None \<Rightarrow> None)"

definition TextSchema :: "nat \<Rightarrow> jsval \<Rightarrow> string option" where
  "TextSchema maxBytes v = Option.bind (the_str v) (boundedUtf8Text maxBytes)"

definition nullable_field :: "(jsval \<Rightarrow> 'a option) \<Rightarrow> jsval \<Rightarrow> 'a option option" where
  "nullable_field schema v = (if v = JNull then Some None else map_option Some (schema v))"

definition optional_field :: "(jsval \<Rightarrow> 'a option) \<Rightarrow> jsval \<Rightarrow> 'a option option" where
  "optional_field schema v = (if v = JUndefined then Some None else map_option Some (schema v))"

definition strict_object :: "string list \<Rightarrow> jsval \<Rightarrow> (string \<times> jsval) list option" where
  "strict_object keys v =
     (case v of JObj fs \<Rightarrow> if list_all (\<lambda>f. fst f \<in> set keys) fs then Some fs else None | _ \<Rightarrow> None)"

definition status_of :: "jsval \<Rightarrow> JobStatus option" where
  "status_of v =
     (case the_str v of
        None \<Rightarrow> None
      | Some s \<Rightarrow> map_of (map (\<lambda>st. (status_string st, st))
          [Queued, Dispatched, Running, Waiting_approval, Cancelling, Succeeded, Failed, Cancelled,
           Expired]) s)"

definition mode_enum :: "jsval \<Rightarrow> JobMode option" where
  "mode_enum v =
     (if v = JStr ''normal'' then Some Normal
      else if v = JStr ''read_only'' then Some Read_only else None)"

definition is_lower_hex :: "char \<Rightarrow> bool" where
  "is_lower_hex c = (is_digit c \<or> (let n = (of_char c :: nat) in 97 \<le> n \<and> n \<le> 102))"

definition ActionFingerprintSchema :: "jsval \<Rightarrow> string option" where
  "ActionFingerprintSchema v =
     (case the_str v of
        Some s \<Rightarrow>
          if length s = 71 \<and> startsWith s ''sha256:'' \<and> list_all is_lower_hex (drop 7 s)
          then Some s else None
      | None \<Rightarrow> None)"

subsection \<open>Payloads\<close>

record JobSyncPayload =
  sy_job_id :: string
  sy_attempt :: int
  sy_nonce :: string

definition JobSyncPayloadSchema :: "(string \<Rightarrow> bool) \<Rightarrow> jsval \<Rightarrow> JobSyncPayload option" where
  "JobSyncPayloadSchema is_uuid v =
     Option.bind (strict_object [''job_id'', ''attempt'', ''nonce''] v) (\<lambda>fs.
     Option.bind (UuidSchema is_uuid (get_prop fs ''job_id'')) (\<lambda>job_id.
     Option.bind (CoordinationAttemptSchema (get_prop fs ''attempt'')) (\<lambda>attempt.
     Option.bind (UuidSchema is_uuid (get_prop fs ''nonce'')) (\<lambda>nonce.
     Some \<lparr>sy_job_id = job_id, sy_attempt = attempt, sy_nonce = nonce\<rparr>))))"

record JobStatePayload =
  js_job_id :: string
  js_repository_id :: string
  js_mode :: JobMode
  js_requested_attempt :: int
  js_current_attempt :: int
  js_status :: JobStatus
  js_job_revision :: int
  js_cancel_revision :: "int option"
  js_lease_id :: "string option"
  js_lease_expires_at :: "string option"
  js_expires_at :: string
  js_observed_at :: string
  js_state_valid_until :: string
  js_request_message_id :: string
  js_request_sequence :: int
  js_nonce :: string

definition state_refined :: "JobStatePayload \<Rightarrow> bool" where
  "state_refined p =
     ((case js_cancel_revision p of None \<Rightarrow> True | Some c \<Rightarrow> c \<le> js_job_revision p)
      \<and> (js_lease_id p = None) = (js_lease_expires_at p = None)
      \<and> (case (parseRfc3339Instant (js_observed_at p), parseRfc3339Instant (js_state_valid_until p)) of
           (Some observed, Some validUntil) \<Rightarrow>
             wholeSeconds validUntil - wholeSeconds observed = 2
             \<and> strip_zeros (fraction validUntil) = strip_zeros (fraction observed)
         | _ \<Rightarrow> True))"

definition RepositoryId_field :: "jsval \<Rightarrow> string option" where
  "RepositoryId_field v =
     (case the_str v of Some s \<Rightarrow> if RepositoryIdSchema s then Some s else None | None \<Rightarrow> None)"

definition JobStatePayloadSchema :: "(string \<Rightarrow> bool) \<Rightarrow> jsval \<Rightarrow> JobStatePayload option" where
  "JobStatePayloadSchema is_uuid v =
     Option.bind (strict_object
       [''job_id'', ''repository_id'', ''mode'', ''requested_attempt'', ''current_attempt'', ''status'',
        ''job_revision'', ''cancel_revision'', ''lease_id'', ''lease_expires_at'', ''expires_at'',
        ''observed_at'', ''state_valid_until'', ''request_message_id'', ''request_sequence'',
        ''nonce''] v) (\<lambda>fs.
     Option.bind (UuidSchema is_uuid (get_prop fs ''job_id'')) (\<lambda>job_id.
     Option.bind (RepositoryId_field (get_prop fs ''repository_id'')) (\<lambda>repository_id.
     Option.bind (mode_enum (get_prop fs ''mode'')) (\<lambda>mode.
     Option.bind (CoordinationAttemptSchema (get_prop fs ''requested_attempt'')) (\<lambda>requested.
     Option.bind (CoordinationRevisionSchema (get_prop fs ''current_attempt'')) (\<lambda>current.
     Option.bind (status_of (get_prop fs ''status'')) (\<lambda>status.
     Option.bind (CoordinationRevisionSchema (get_prop fs ''job_revision'')) (\<lambda>job_revision.
     Option.bind (nullable_field CoordinationRevisionSchema (get_prop fs ''cancel_revision'')) (\<lambda>cancel.
     Option.bind (nullable_field (UuidSchema is_uuid) (get_prop fs ''lease_id'')) (\<lambda>lease_id.
     Option.bind (nullable_field TimestampSchema (get_prop fs ''lease_expires_at'')) (\<lambda>lease_at.
     Option.bind (TimestampSchema (get_prop fs ''expires_at'')) (\<lambda>expires_at.
     Option.bind (TimestampSchema (get_prop fs ''observed_at'')) (\<lambda>observed_at.
     Option.bind (TimestampSchema (get_prop fs ''state_valid_until'')) (\<lambda>valid_until.
     Option.bind (UuidSchema is_uuid (get_prop fs ''request_message_id'')) (\<lambda>message_id.
     Option.bind (PositiveIntegerSchema (get_prop fs ''request_sequence'')) (\<lambda>request_sequence.
     Option.bind (UuidSchema is_uuid (get_prop fs ''nonce'')) (\<lambda>nonce.
     let p = \<lparr>js_job_id = job_id, js_repository_id = repository_id, js_mode = mode,
       js_requested_attempt = requested, js_current_attempt = current, js_status = status,
       js_job_revision = job_revision, js_cancel_revision = cancel, js_lease_id = lease_id,
       js_lease_expires_at = lease_at, js_expires_at = expires_at, js_observed_at = observed_at,
       js_state_valid_until = valid_until, js_request_message_id = message_id,
       js_request_sequence = request_sequence, js_nonce = nonce\<rparr> in
     if state_refined p then Some p else None)))))))))))))))))"

record ApprovalRequestedPayload =
  arp_approval_id :: string
  arp_job_id :: string
  arp_attempt :: int
  arp_job_revision :: int
  arp_action_summary :: string
  arp_impact_summary :: string
  arp_risk_class :: string
  arp_action_fingerprint :: string
  arp_expires_at :: string

definition ApprovalRequestedPayloadSchema ::
  "(string \<Rightarrow> bool) \<Rightarrow> jsval \<Rightarrow> ApprovalRequestedPayload option" where
  "ApprovalRequestedPayloadSchema is_uuid v =
     Option.bind (strict_object
       [''approval_id'', ''job_id'', ''attempt'', ''job_revision'', ''action_summary'',
        ''impact_summary'', ''risk_class'', ''action_fingerprint'', ''expires_at''] v) (\<lambda>fs.
     Option.bind (UuidSchema is_uuid (get_prop fs ''approval_id'')) (\<lambda>approval_id.
     Option.bind (UuidSchema is_uuid (get_prop fs ''job_id'')) (\<lambda>job_id.
     Option.bind (PositiveIntegerSchema (get_prop fs ''attempt'')) (\<lambda>attempt.
     Option.bind (NonNegativeIntegerSchema (get_prop fs ''job_revision'')) (\<lambda>job_revision.
     Option.bind (TextSchema 400 (get_prop fs ''action_summary'')) (\<lambda>action_summary.
     Option.bind (TextSchema 800 (get_prop fs ''impact_summary'')) (\<lambda>impact_summary.
     Option.bind (TextSchema 64 (get_prop fs ''risk_class'')) (\<lambda>risk_class.
     Option.bind (ActionFingerprintSchema (get_prop fs ''action_fingerprint'')) (\<lambda>fingerprint.
     Option.bind (TimestampSchema (get_prop fs ''expires_at'')) (\<lambda>expires_at.
     Some \<lparr>arp_approval_id = approval_id, arp_job_id = job_id, arp_attempt = attempt,
       arp_job_revision = job_revision, arp_action_summary = action_summary,
       arp_impact_summary = impact_summary, arp_risk_class = risk_class,
       arp_action_fingerprint = fingerprint, arp_expires_at = expires_at\<rparr>))))))))))"

record ConnectorWelcomePayload =
  cw_connector_id :: string
  cw_capabilities :: "string list option"
  cw_server_sequence :: int
  cw_replay_from :: int

fun each_item :: "(jsval \<Rightarrow> 'a option) \<Rightarrow> jsval list \<Rightarrow> 'a list option" where
  "each_item schema [] = Some []"
| "each_item schema (v # vs) =
     (case (schema v, each_item schema vs) of (Some a, Some as) \<Rightarrow> Some (a # as) | _ \<Rightarrow> None)"

definition capabilities_field :: "jsval \<Rightarrow> string list option" where
  "capabilities_field v =
     (case v of JArr vs \<Rightarrow> if length vs \<le> 32 then each_item (TextSchema 64) vs else None | _ \<Rightarrow> None)"

definition ConnectorWelcomePayloadSchema ::
  "(string \<Rightarrow> bool) \<Rightarrow> jsval \<Rightarrow> ConnectorWelcomePayload option" where
  "ConnectorWelcomePayloadSchema is_uuid v =
     Option.bind (strict_object
       [''connector_id'', ''capabilities'', ''server_sequence'', ''replay_from''] v) (\<lambda>fs.
     Option.bind (UuidSchema is_uuid (get_prop fs ''connector_id'')) (\<lambda>connector_id.
     Option.bind (optional_field capabilities_field (get_prop fs ''capabilities'')) (\<lambda>capabilities.
     Option.bind (NonNegativeIntegerSchema (get_prop fs ''server_sequence'')) (\<lambda>server_sequence.
     Option.bind (NonNegativeIntegerSchema (get_prop fs ''replay_from'')) (\<lambda>replay_from.
     Some \<lparr>cw_connector_id = connector_id, cw_capabilities = capabilities,
       cw_server_sequence = server_sequence, cw_replay_from = replay_from\<rparr>)))))"

record JobOfferPayload =
  jo_job_id :: string
  jo_attempt :: int
  jo_lease_id :: string
  jo_repository_id :: string
  jo_request :: string

definition JobOfferPayloadSchema :: "(string \<Rightarrow> bool) \<Rightarrow> jsval \<Rightarrow> JobOfferPayload option" where
  "JobOfferPayloadSchema is_uuid v =
     Option.bind (strict_object
       [''job_id'', ''attempt'', ''lease_id'', ''repository_id'', ''request''] v) (\<lambda>fs.
     Option.bind (UuidSchema is_uuid (get_prop fs ''job_id'')) (\<lambda>job_id.
     Option.bind (PositiveIntegerSchema (get_prop fs ''attempt'')) (\<lambda>attempt.
     Option.bind (UuidSchema is_uuid (get_prop fs ''lease_id'')) (\<lambda>lease_id.
     Option.bind (RepositoryId_field (get_prop fs ''repository_id'')) (\<lambda>repository_id.
     Option.bind (TextSchema 4000 (get_prop fs ''request'')) (\<lambda>request.
     Some \<lparr>jo_job_id = job_id, jo_attempt = attempt, jo_lease_id = lease_id,
       jo_repository_id = repository_id, jo_request = request\<rparr>))))))"

record JobCancelPayload =
  jc_job_id :: string
  jc_attempt :: int
  jc_job_revision :: int
  jc_reason :: string
  jc_nonce :: string

definition JobCancelPayloadSchema :: "(string \<Rightarrow> bool) \<Rightarrow> jsval \<Rightarrow> JobCancelPayload option" where
  "JobCancelPayloadSchema is_uuid v =
     Option.bind (strict_object [''job_id'', ''attempt'', ''job_revision'', ''reason'', ''nonce''] v) (\<lambda>fs.
     Option.bind (UuidSchema is_uuid (get_prop fs ''job_id'')) (\<lambda>job_id.
     Option.bind (PositiveIntegerSchema (get_prop fs ''attempt'')) (\<lambda>attempt.
     Option.bind (NonNegativeIntegerSchema (get_prop fs ''job_revision'')) (\<lambda>job_revision.
     Option.bind (TextSchema 400 (get_prop fs ''reason'')) (\<lambda>reason.
     Option.bind (UuidSchema is_uuid (get_prop fs ''nonce'')) (\<lambda>nonce.
     Some \<lparr>jc_job_id = job_id, jc_attempt = attempt, jc_job_revision = job_revision,
       jc_reason = reason, jc_nonce = nonce\<rparr>))))))"

datatype wire_decision = Approve | Reject

record ApprovalDecisionPayload =
  adp_approval_id :: string
  adp_job_id :: string
  adp_attempt :: int
  adp_job_revision :: int
  adp_action_fingerprint :: string
  adp_decision :: wire_decision

definition decision_enum :: "jsval \<Rightarrow> wire_decision option" where
  "decision_enum v =
     (if v = JStr ''approve'' then Some Approve
      else if v = JStr ''reject'' then Some Reject else None)"

definition ApprovalDecisionPayloadSchema ::
  "(string \<Rightarrow> bool) \<Rightarrow> jsval \<Rightarrow> ApprovalDecisionPayload option" where
  "ApprovalDecisionPayloadSchema is_uuid v =
     Option.bind (strict_object
       [''approval_id'', ''job_id'', ''attempt'', ''job_revision'', ''action_fingerprint'',
        ''decision''] v) (\<lambda>fs.
     Option.bind (UuidSchema is_uuid (get_prop fs ''approval_id'')) (\<lambda>approval_id.
     Option.bind (UuidSchema is_uuid (get_prop fs ''job_id'')) (\<lambda>job_id.
     Option.bind (PositiveIntegerSchema (get_prop fs ''attempt'')) (\<lambda>attempt.
     Option.bind (NonNegativeIntegerSchema (get_prop fs ''job_revision'')) (\<lambda>job_revision.
     Option.bind (ActionFingerprintSchema (get_prop fs ''action_fingerprint'')) (\<lambda>fingerprint.
     Option.bind (decision_enum (get_prop fs ''decision'')) (\<lambda>decision.
     Some \<lparr>adp_approval_id = approval_id, adp_job_id = job_id, adp_attempt = attempt,
       adp_job_revision = job_revision, adp_action_fingerprint = fingerprint,
       adp_decision = decision\<rparr>)))))))"

definition AckPayloadSchema :: "jsval \<Rightarrow> int option" where
  "AckPayloadSchema v =
     Option.bind (strict_object [''sequence''] v) (\<lambda>fs.
     PositiveIntegerSchema (get_prop fs ''sequence''))"

definition ProtocolErrorPayloadSchema :: "jsval \<Rightarrow> (string \<times> string) option" where
  "ProtocolErrorPayloadSchema v =
     Option.bind (strict_object [''code'', ''message''] v) (\<lambda>fs.
     Option.bind (TextSchema 64 (get_prop fs ''code'')) (\<lambda>code.
     Option.bind (TextSchema 400 (get_prop fs ''message'')) (\<lambda>message.
     Some (code, message))))"

subsection \<open>The envelope\<close>

datatype server_payload =
    Welcome ConnectorWelcomePayload
  | State JobStatePayload
  | Offer JobOfferPayload
  | Cancel JobCancelPayload
  | Decision ApprovalDecisionPayload
  | Ack int
  | ProtocolError string string

record ConnectorServerMessage =
  sm_message_id :: string
  sm_sequence :: int
  sm_sent_at :: string
  sm_expires_at :: string
  sm_correlation_id :: string
  sm_payload :: server_payload

definition server_payload_of :: "(string \<Rightarrow> bool) \<Rightarrow> jsval \<Rightarrow> jsval \<Rightarrow> server_payload option" where
  "server_payload_of is_uuid type payload =
     (if type = JStr ''connector.welcome''
      then map_option Welcome (ConnectorWelcomePayloadSchema is_uuid payload)
      else if type = JStr ''job.state'' then map_option State (JobStatePayloadSchema is_uuid payload)
      else if type = JStr ''job.offer'' then map_option Offer (JobOfferPayloadSchema is_uuid payload)
      else if type = JStr ''job.cancel'' then map_option Cancel (JobCancelPayloadSchema is_uuid payload)
      else if type = JStr ''approval.decision''
      then map_option Decision (ApprovalDecisionPayloadSchema is_uuid payload)
      else if type = JStr ''ack'' then map_option Ack (AckPayloadSchema payload)
      else if type = JStr ''protocol.error''
      then map_option (\<lambda>(c, m). ProtocolError c m) (ProtocolErrorPayloadSchema payload)
      else None)"

definition enforceExpiry :: "string \<Rightarrow> string \<Rightarrow> bool" where
  "enforceExpiry expires_at sent_at = (compareRfc3339Instants expires_at sent_at = Some 1)"

definition ConnectorServerMessageSchema ::
  "(string \<Rightarrow> bool) \<Rightarrow> jsval \<Rightarrow> ConnectorServerMessage option" where
  "ConnectorServerMessageSchema is_uuid v =
     Option.bind (strict_object
       [''protocol_version'', ''message_id'', ''sequence'', ''sent_at'', ''expires_at'',
        ''correlation_id'', ''type'', ''payload''] v) (\<lambda>fs.
     if get_prop fs ''protocol_version'' \<noteq> JStr ''1.0'' then None else
     Option.bind (UuidSchema is_uuid (get_prop fs ''message_id'')) (\<lambda>message_id.
     Option.bind (PositiveIntegerSchema (get_prop fs ''sequence'')) (\<lambda>sequence.
     Option.bind (TimestampSchema (get_prop fs ''sent_at'')) (\<lambda>sent_at.
     Option.bind (TimestampSchema (get_prop fs ''expires_at'')) (\<lambda>expires_at.
     Option.bind (UuidSchema is_uuid (get_prop fs ''correlation_id'')) (\<lambda>correlation_id.
     Option.bind (server_payload_of is_uuid (get_prop fs ''type'') (get_prop fs ''payload'')) (\<lambda>payload.
     if enforceExpiry expires_at sent_at
     then Some \<lparr>sm_message_id = message_id, sm_sequence = sequence, sm_sent_at = sent_at,
       sm_expires_at = expires_at, sm_correlation_id = correlation_id, sm_payload = payload\<rparr>
     else None)))))))"

end
