(* ===== verification/Js_Unicode.thy ===== *)
theory Js_Unicode
  imports Prelude "HOL-Library.Sublist"
begin

section \<open>Texts as lists of numbers\<close>

text \<open>
  Where the program handles text of any script, a text is a list of integers: UTF-16 code units or
  Unicode code points. White space is the class \<open>\s\<close>, which is also what \<open>trim\<close> removes.
\<close>

definition is_space :: "int \<Rightarrow> bool" where
  "is_space c \<longleftrightarrow> 9 \<le> c \<and> c \<le> 13 \<or> 8192 \<le> c \<and> c \<le> 8202
     \<or> c \<in> {32, 160, 5760, 8232, 8233, 8239, 8287, 12288, 65279}"

definition trim_text :: "int list \<Rightarrow> int list" where
  "trim_text s = rev (dropWhile is_space (rev (dropWhile is_space s)))"

lemma trim_text_split:
  obtains a b where "s = a @ trim_text s @ b" "a = [] \<or> is_space (last a)"
proof -
  define u where "u = dropWhile is_space s"
  define a where "a = takeWhile is_space s"
  have 1: "s = a @ u" by (simp add: a_def u_def)
  have 2: "u = trim_text s @ rev (takeWhile is_space (rev u))"
    unfolding trim_text_def u_def [symmetric]
    by (metis rev_append rev_rev_ident takeWhile_dropWhile_id)
  have 3: "a = [] \<or> is_space (last a)"
    unfolding a_def by (metis last_in_set set_takeWhileD)
  show thesis
    by (rule that [of a "rev (takeWhile is_space (rev u))"]) (use 1 2 3 in simp_all)
qed

end
