(* ===== verification/Js_Regex.thy ===== *)
theory Js_Regex
  imports Js_Unicode Js_Text
begin

section \<open>Regular expressions with captures\<close>

text \<open>
  The matcher of ECMAScript for the constructs the sources use: classes, sequences, ordered
  alternatives, greedy repetition, capture groups, back references, \<open>\b\<close>, \<open>^\<close> and \<open>$\<close>. A matcher takes a
  continuation, as in the language's specification: alternatives are tried in order and the first
  success is the result. A repetition is entered again only after an iteration that consumed
  input, so the length of the rest bounds the number of iterations. No pattern of the sources has
  a capture group under a repetition, so iterations do not reset captures here.

  A text is a list of UTF-16 code units. Reading units where the flag \<open>u\<close> reads code points gives
  the same matches for these patterns: their positive classes hold no surrogates, and their
  negated classes are repeated without a bound, so that they take both halves of a pair. The flags
  \<open>iu\<close> are \<open>fold_case\<close>: beside the ASCII letters, U+017F equals \<open>s\<close> and U+212A equals \<open>k\<close>. The flag
  \<open>i\<close> alone is \<open>fold_ascii\<close>, where no other unit equals an ASCII letter.

  \<open>run_reaches\<close> relates the matcher to a declarative relation, and \<open>rx_test_iff\<close> says that \<open>test\<close>
  answers whether any position of the text starts a match.
\<close>

datatype pat =
    PEps
  | PChar "int \<Rightarrow> bool"
  | PSeq pat pat
  | PAlt pat pat
  | PStar pat
  | PGroup nat pat
  | PBack nat
  | PBound "int \<Rightarrow> bool"
  | PStart
  | PEnd

record mstate =
  mt_before :: "int option"
  mt_rest :: "int list"
  mt_groups :: "(nat \<times> int list) list"

definition units :: "string \<Rightarrow> int list" where
  "units s = map of_char s"

definition between :: "int \<Rightarrow> int \<Rightarrow> int \<Rightarrow> bool" where
  "between lo hi c = (lo \<le> c \<and> c \<le> hi)"

definition is_alpha :: "int \<Rightarrow> bool" where
  "is_alpha c = (between 97 122 c \<or> between 65 90 c)"

definition is_dec :: "int \<Rightarrow> bool" where
  "is_dec = between 48 57"

definition is_alnum :: "int \<Rightarrow> bool" where
  "is_alnum c = (is_alpha c \<or> is_dec c)"

definition is_word_char :: "int \<Rightarrow> bool" where
  "is_word_char c = (is_alnum c \<or> c = 95)"

definition fold_case :: "int \<Rightarrow> int" where
  "fold_case c = (if between 65 90 c then c + 32 else if c = 383 then 115 else if c = 8490 then 107 else c)"

text \<open>A class of ASCII characters under the flag \<open>i\<close>.\<close>

definition ignoring_case :: "(int \<Rightarrow> bool) \<Rightarrow> int \<Rightarrow> bool" where
  "ignoring_case p c =
     (let d = fold_case c in p d \<or> between 97 122 d \<and> p (d - 32))"

definition at_boundary :: "(int \<Rightarrow> bool) \<Rightarrow> mstate \<Rightarrow> bool" where
  "at_boundary w st =
     ((case mt_before st of None \<Rightarrow> False | Some c \<Rightarrow> w c)
      \<noteq> (case mt_rest st of [] \<Rightarrow> False | c # _ \<Rightarrow> w c))"

definition advance :: "nat \<Rightarrow> mstate \<Rightarrow> mstate" where
  "advance n st =
     (if n = 0 then st
      else st\<lparr>mt_before := Some (mt_rest st ! (n - 1)), mt_rest := drop n (mt_rest st)\<rparr>)"

definition consumed :: "mstate \<Rightarrow> mstate \<Rightarrow> int list" where
  "consumed st st' = take (length (mt_rest st) - length (mt_rest st')) (mt_rest st)"

definition group_text :: "nat \<Rightarrow> mstate \<Rightarrow> int list" where
  "group_text n st = (case map_of (mt_groups st) n of None \<Rightarrow> [] | Some s \<Rightarrow> s)"

primrec star_loop ::
  "((mstate \<Rightarrow> 'a option) \<Rightarrow> mstate \<Rightarrow> 'a option) \<Rightarrow> (mstate \<Rightarrow> 'a option) \<Rightarrow> nat \<Rightarrow> mstate
     \<Rightarrow> 'a option" where
  "star_loop f k 0 st = k st"
| "star_loop f k (Suc n) st =
     (case f (\<lambda>st'. if length (mt_rest st') < length (mt_rest st) then star_loop f k n st' else None) st
      of Some x \<Rightarrow> Some x | None \<Rightarrow> k st)"

primrec run :: "pat \<Rightarrow> (mstate \<Rightarrow> 'a option) \<Rightarrow> mstate \<Rightarrow> 'a option" where
  "run PEps k st = k st"
| "run (PChar p) k st =
     (case mt_rest st of
        [] \<Rightarrow> None
      | c # cs \<Rightarrow> if p c then k (st\<lparr>mt_before := Some c, mt_rest := cs\<rparr>) else None)"
| "run (PSeq r s) k st = run r (run s k) st"
| "run (PAlt r s) k st = (case run r k st of Some x \<Rightarrow> Some x | None \<Rightarrow> run s k st)"
| "run (PStar r) k st = star_loop (run r) k (length (mt_rest st)) st"
| "run (PGroup n r) k st =
     run r (\<lambda>st'. k (st'\<lparr>mt_groups := (n, consumed st st') # mt_groups st'\<rparr>)) st"
| "run (PBack n) k st =
     (let t = group_text n st in
      if take (length t) (mt_rest st) = t then k (advance (length t) st) else None)"
| "run (PBound w) k st = (if at_boundary w st then k st else None)"
| "run PStart k st = (if mt_before st = None then k st else None)"
| "run PEnd k st = (if mt_rest st = [] then k st else None)"

subsection \<open>Building patterns\<close>

definition POpt :: "pat \<Rightarrow> pat" where
  "POpt r = PAlt r PEps"

definition PPlus :: "pat \<Rightarrow> pat" where
  "PPlus r = PSeq r (PStar r)"

fun PSeqs :: "pat list \<Rightarrow> pat" where
  "PSeqs [] = PEps"
| "PSeqs [r] = r"
| "PSeqs (r # rs) = PSeq r (PSeqs rs)"

fun PAlts :: "pat list \<Rightarrow> pat" where
  "PAlts [] = PChar (\<lambda>c. False)"
| "PAlts [r] = r"
| "PAlts (r # rs) = PAlt r (PAlts rs)"

definition PLit :: "string \<Rightarrow> pat" where
  "PLit s = PSeqs (map (\<lambda>c. PChar (\<lambda>x. x = c)) (units s))"

definition PLitI :: "string \<Rightarrow> pat" where
  "PLitI s = PSeqs (map (\<lambda>c. PChar (\<lambda>x. fold_case x = fold_case c)) (units s))"

definition fold_ascii :: "int \<Rightarrow> int" where
  "fold_ascii c = (if between 65 90 c then c + 32 else c)"

definition PLitA :: "string \<Rightarrow> pat" where
  "PLitA s = PSeqs (map (\<lambda>c. PChar (\<lambda>x. fold_ascii x = fold_ascii c)) (units s))"

definition PMin :: "nat \<Rightarrow> pat \<Rightarrow> pat" where
  "PMin n r = PSeqs (replicate n r @ [PStar r])"

definition PTimes :: "nat \<Rightarrow> pat \<Rightarrow> pat" where
  "PTimes n r = PSeqs (replicate n r)"

definition POneOf :: "string \<Rightarrow> pat" where
  "POneOf s = PChar (\<lambda>c. c \<in> set (units s))"

definition PNoneOf :: "string \<Rightarrow> pat" where
  "PNoneOf s = PChar (\<lambda>c. c \<notin> set (units s))"

text \<open>\<open>[^\s...]\<close>\<close>

definition PSolid :: "string \<Rightarrow> pat" where
  "PSolid s = PChar (\<lambda>c. \<not> is_space c \<and> c \<notin> set (units s))"

definition PSpaces :: pat where
  "PSpaces = PStar (PChar is_space)"

definition PSpaces1 :: pat where
  "PSpaces1 = PPlus (PChar is_space)"

text \<open>\<open>[A-Za-z0-9...]\<close> and \<open>[A-Za-z...]\<close>, as written and under the flag \<open>i\<close>.\<close>

definition alnum_or :: "string \<Rightarrow> int \<Rightarrow> bool" where
  "alnum_or s c = (is_alnum c \<or> c \<in> set (units s))"

definition alpha_or :: "string \<Rightarrow> int \<Rightarrow> bool" where
  "alpha_or s c = (is_alpha c \<or> c \<in> set (units s))"

definition PAlnumI :: "string \<Rightarrow> pat" where
  "PAlnumI s = PChar (ignoring_case (alnum_or s))"

definition PB :: pat where
  "PB = PBound is_word_char"

definition PBI :: pat where
  "PBI = PBound (ignoring_case is_word_char)"

subsection \<open>Searching and replacing\<close>

definition at_position :: "int option \<Rightarrow> int list \<Rightarrow> mstate" where
  "at_position prev rest = \<lparr>mt_before = prev, mt_rest = rest, mt_groups = []\<rparr>"

fun find_from :: "pat \<Rightarrow> int option \<Rightarrow> int list \<Rightarrow> (mstate \<times> mstate) option" where
  "find_from r prev [] =
     (case run r Some (at_position prev []) of
        Some st \<Rightarrow> Some (at_position prev [], st) | None \<Rightarrow> None)"
| "find_from r prev (c # cs) =
     (case run r Some (at_position prev (c # cs)) of
        Some st \<Rightarrow> Some (at_position prev (c # cs), st)
      | None \<Rightarrow> find_from r (Some c) cs)"

definition rx_test :: "pat \<Rightarrow> int list \<Rightarrow> bool" where
  "rx_test r s = (find_from r None s \<noteq> None)"

text \<open>
  \<open>String.prototype.replace\<close> with the flag \<open>g\<close>: \<open>f\<close> receives the match's text and its final state.
  After an empty match the search goes on one unit further.
\<close>

function replace_from :: 
  "pat \<Rightarrow> (int list \<Rightarrow> mstate \<Rightarrow> int list) \<Rightarrow> int option \<Rightarrow> int list \<Rightarrow> int list" where
  "replace_from r f prev s =
     (case run r Some (at_position prev s) of
        Some st \<Rightarrow>
          if length (mt_rest st) < length s
          then f (consumed (at_position prev s) st) st @ replace_from r f (mt_before st) (mt_rest st)
          else f [] st @ (case s of [] \<Rightarrow> [] | c # cs \<Rightarrow> c # replace_from r f (Some c) cs)
      | None \<Rightarrow> (case s of [] \<Rightarrow> [] | c # cs \<Rightarrow> c # replace_from r f (Some c) cs))"
  by pat_completeness auto
termination
  by (relation "measure (\<lambda>(r, f, prev, s). length s)") auto

declare replace_from.simps [simp del]

definition rx_replace :: "pat \<Rightarrow> (int list \<Rightarrow> mstate \<Rightarrow> int list) \<Rightarrow> int list \<Rightarrow> int list" where
  "rx_replace r f s = replace_from r f None s"

subsection \<open>The matches of a pattern\<close>

inductive reaches :: "pat \<Rightarrow> mstate \<Rightarrow> mstate \<Rightarrow> bool" where
  eps: "reaches PEps st st"
| chr: "mt_rest st = c # cs \<Longrightarrow> p c \<Longrightarrow> reaches (PChar p) st (st\<lparr>mt_before := Some c, mt_rest := cs\<rparr>)"
| seq: "reaches r st st' \<Longrightarrow> reaches s st' st'' \<Longrightarrow> reaches (PSeq r s) st st''"
| left_alt: "reaches r st st' \<Longrightarrow> reaches (PAlt r s) st st'"
| right_alt: "reaches s st st' \<Longrightarrow> reaches (PAlt r s) st st'"
| star_stop: "reaches (PStar r) st st"
| star_again: "reaches r st st' \<Longrightarrow> length (mt_rest st') < length (mt_rest st)
    \<Longrightarrow> reaches (PStar r) st' st'' \<Longrightarrow> reaches (PStar r) st st''"
| grp: "reaches r st st'
    \<Longrightarrow> reaches (PGroup n r) st (st'\<lparr>mt_groups := (n, consumed st st') # mt_groups st'\<rparr>)"
| back_ref: "take (length (group_text n st)) (mt_rest st) = group_text n st
    \<Longrightarrow> reaches (PBack n) st (advance (length (group_text n st)) st)"
| bound: "at_boundary w st \<Longrightarrow> reaches (PBound w) st st"
| at_start: "mt_before st = None \<Longrightarrow> reaches PStart st st"
| at_end: "mt_rest st = [] \<Longrightarrow> reaches PEnd st st"

inductive_simps reaches_simps [simp]:
  "reaches PEps st st'"
  "reaches (PChar p) st st'"
  "reaches (PSeq r s) st st'"
  "reaches (PAlt r s) st st'"
  "reaches (PGroup n r) st st'"
  "reaches (PBack n) st st'"
  "reaches (PBound w) st st'"
  "reaches PStart st st'"
  "reaches PEnd st st'"

inductive_simps reaches_star: "reaches (PStar r) st st'"

definition picks :: "(mstate \<Rightarrow> 'a option) \<Rightarrow> (mstate \<Rightarrow> bool) \<Rightarrow> 'a option \<Rightarrow> bool" where
  "picks k ends res =
     (case res of None \<Rightarrow> \<forall>st. ends st \<longrightarrow> k st = None | Some x \<Rightarrow> \<exists>st. ends st \<and> k st = Some x)"

text \<open>A continuation that fails wherever \<open>g\<close> does, and succeeds with one of \<open>g\<close>'s values.\<close>

lemma picks_mono:
  assumes "picks k1 ends1 res"
    and "\<And>st. ends1 st \<Longrightarrow> picks k (ends st) (k1 st)"
  shows "picks k (\<lambda>u. \<exists>st. ends1 st \<and> ends st u) res"
proof (cases res)
  case None
  have "k u = None" if "ends1 st" "ends st u" for st u
    using assms(1) assms(2) [OF that(1)] that None by (auto simp: picks_def)
  then show ?thesis using None by (auto simp: picks_def)
next
  case (Some x)
  then obtain st where "ends1 st" "k1 st = Some x" using assms(1) by (auto simp: picks_def)
  with assms(2) [of st] Some show ?thesis by (auto simp: picks_def)
qed

lemma star_loop_picks:
  assumes "\<And>(k :: mstate \<Rightarrow> 'a option) st. picks k (reaches r st) (run r k st)"
  shows "length (mt_rest st) \<le> n \<Longrightarrow>
    picks (k :: mstate \<Rightarrow> 'a option) (reaches (PStar r) st) (star_loop (run r) k n st)"
proof (induction n arbitrary: st)
  case 0
  then have "reaches (PStar r) st u \<longleftrightarrow> u = st" for u by (subst reaches_star) auto
  then show ?case by (simp add: picks_def split: option.split)
next
  case (Suc n)
  let ?k = "\<lambda>st'. if length (mt_rest st') < length (mt_rest st) then star_loop (run r) k n st' else None"
  let ?e = "\<lambda>st' st''. length (mt_rest st') < length (mt_rest st) \<and> reaches (PStar r) st' st''"
  have "picks k (?e st') (?k st')" for st'
    using Suc.IH [of st'] Suc.prems by (auto simp: picks_def split: option.splits)
  from picks_mono [OF assms [of ?k st] this]
  have once: "picks k (\<lambda>u. \<exists>st'. reaches r st st' \<and> ?e st' u) (run r ?k st)" .
  have ends: "reaches (PStar r) st u \<longleftrightarrow> u = st \<or> (\<exists>st'. reaches r st st' \<and> ?e st' u)" for u
    by (subst reaches_star) auto
  show ?case
    using once by (auto simp: picks_def ends split: option.splits)
qed

lemma run_reaches: "picks (k :: mstate \<Rightarrow> 'a option) (reaches r st) (run r k st)"
proof (induction r arbitrary: k st)
  case (PSeq r s)
  from picks_mono [OF PSeq.IH(1) [of "run s k" st] PSeq.IH(2)]
  show ?case by (simp add: picks_def split: option.splits)
next
  case (PAlt r s)
  from PAlt.IH(1) [of k st] PAlt.IH(2) [of k st]
  show ?case by (auto simp: picks_def split: option.splits)
next
  case (PStar r)
  from star_loop_picks [of r, OF PStar.IH] show ?case by simp
next
  case (PGroup n r)
  from PGroup.IH [of "\<lambda>st'. k (st'\<lparr>mt_groups := (n, consumed st st') # mt_groups st'\<rparr>)" st]
  show ?case by (auto simp: picks_def split: option.splits)
qed (auto simp: picks_def Let_def split: list.splits option.splits)

lemma run_None: "run r k st = None \<longleftrightarrow> (\<forall>st'. reaches r st st' \<longrightarrow> k st' = None)"
  using run_reaches [of k r st] by (auto simp: picks_def split: option.splits)

lemma run_Some: "run r k st = Some x \<Longrightarrow> \<exists>st'. reaches r st st' \<and> k st' = Some x"
  using run_reaches [of k r st] by (auto simp: picks_def)

lemma run_Some_None [simp]: "run r Some st = None \<longleftrightarrow> (\<forall>st'. \<not> reaches r st st')"
  by (simp add: run_None)

lemma find_from_None:
  "find_from r b s = None \<longleftrightarrow>
     (\<forall>u v st'. s = u @ v \<longrightarrow> \<not> reaches r (at_position (if u = [] then b else Some (last u)) v) st')"
proof (induction s arbitrary: b)
  case Nil
  then show ?case by (auto split: option.split dest: run_Some)
next
  case (Cons c cs)
  have split: "(\<forall>u v. c # cs = u @ v \<longrightarrow> P u v) \<longleftrightarrow> P [] (c # cs) \<and> (\<forall>u v. cs = u @ v \<longrightarrow> P (c # u) v)" for P
    by (auto simp: Cons_eq_append_conv)
  have "find_from r b (c # cs) = None \<longleftrightarrow>
      (\<forall>st'. \<not> reaches r (at_position b (c # cs)) st') \<and> find_from r (Some c) cs = None"
    by (auto split: option.split dest: run_Some)
  also have "\<dots> \<longleftrightarrow> (\<forall>u v. c # cs = u @ v \<longrightarrow>
      (\<forall>st'. \<not> reaches r (at_position (if u = [] then b else Some (last u)) v) st'))"
    unfolding split Cons.IH by (simp add: last.simps)
  finally show ?case by blast
qed

text \<open>\<open>test\<close> answers whether some position of the text starts a match.\<close>

lemma rx_test_iff:
  "rx_test r s \<longleftrightarrow>
     (\<exists>u v st'. s = u @ v \<and> reaches r (at_position (if u = [] then None else Some (last u)) v) st')"
  unfolding rx_test_def find_from_None by (simp only: not_all not_imp not_not)

end
