(* ===== verification/Js_Json.thy ===== *)
theory Js_Json
  imports Js_Regex
begin

section \<open>Numbers and JSON text\<close>

text \<open>
  What the language does with JSON text, on lists of UTF-16 code units: \<open>JSON.parse\<close> with the
  rounding of decimal numbers to IEEE doubles, the order of an object's keys, and
  \<open>JSON.stringify\<close> with the shortest decimal of a double. A parsed value is a \<open>uval\<close>; \<open>UHuge\<close> is the
  infinite number that a decimal beyond the range of doubles reads as. The parser carries fuel;
  \<open>json_fuel\<close> shows that twice the length of the text is enough, so \<open>json_parse\<close> never fails for
  lack of it.
\<close>

subsection \<open>Doubles\<close>

function int_power :: "rat \<Rightarrow> int \<Rightarrow> rat" where
  "int_power b z =
     (if z \<le> 0 then 1
      else if even z then int_power (b * b) (z div 2) else b * int_power (b * b) (z div 2))"
  by pat_completeness auto
termination
  by (relation "measure (\<lambda>(b, z). nat z)") auto

definition power_of :: "rat \<Rightarrow> int \<Rightarrow> rat" where
  "power_of b z = (if z \<ge> 0 then int_power b z else 1 / int_power b (- z))"

function int_log :: "int \<Rightarrow> int \<Rightarrow> int" where
  "int_log b n = (if b \<le> 1 \<or> n < b then 0 else 1 + int_log b (n div b))"
  by pat_completeness auto
termination
  by (relation "measure (\<lambda>(b, n). nat n)") (auto intro: int_div_less_self)

declare int_power.simps [simp del] int_log.simps [simp del]

definition round_even :: "rat \<Rightarrow> int" where
  "round_even q =
     (let f = \<lfloor>q\<rfloor>; d = q - of_int f in
      if d < 1 / 2 then f else if d > 1 / 2 then f + 1 else if even f then f else f + 1)"

text \<open>The largest \<open>e\<close> with \<open>b\<^sup>e \<le> q\<close>, for a positive \<open>q\<close>.\<close>

definition log_floor :: "int \<Rightarrow> rat \<Rightarrow> int" where
  "log_floor b q =
     (case quotient_of q of (n, d) \<Rightarrow>
        let e = int_log b n - int_log b d in
        if q < power_of (of_int b) e then e - 1 else e)"

definition round_positive :: "rat \<Rightarrow> rat option" where
  "round_positive q =
     (let ulp = max (log_floor 2 q - 52) (- 1074);
          m = round_even (q / power_of 2 ulp) in
      if ulp > 971 \<or> ulp = 971 \<and> m \<ge> 9007199254740992 then None
      else Some (of_int m * power_of 2 ulp))"

definition to_double :: "rat \<Rightarrow> rat option" where
  "to_double q =
     (if q = 0 then Some 0
      else if q > 0 then round_positive q
      else map_option uminus (round_positive (- q)))"

text \<open>
  \<open>Number::toString\<close>: the shortest decimal that reads back as the number, the closest of those of
  that length. \<open>n\<close> is the position of the point after the first digit's place, \<open>k\<close> the number of
  digits.
\<close>

definition candidates :: "rat \<Rightarrow> int \<Rightarrow> nat \<Rightarrow> int list" where
  "candidates x n k =
     (let y = x / power_of 10 (n - int k) in
      filter (\<lambda>s. to_double (rat_of_int s * power_of 10 (n - int k)) = Some x)
        (if y - of_int \<lfloor>y\<rfloor> \<le> of_int \<lceil>y\<rceil> - y then [\<lfloor>y\<rfloor>, \<lceil>y\<rceil>] else [\<lceil>y\<rceil>, \<lfloor>y\<rfloor>]))"

fun shortest :: "rat \<Rightarrow> int \<Rightarrow> nat list \<Rightarrow> int \<times> nat" where
  "shortest x n [] = (0, 1)"
| "shortest x n (k # ks) =
     (case candidates x n k of s # _ \<Rightarrow> (s, k) | [] \<Rightarrow> shortest x n ks)"

function digit_units :: "int \<Rightarrow> int list" where
  "digit_units n = (if n < 10 then [48 + n] else digit_units (n div 10) @ [48 + n mod 10])"
  by pat_completeness auto
termination
  by (relation "measure nat") auto

declare digit_units.simps [simp del]

definition decimal_text :: "int list \<Rightarrow> int \<Rightarrow> int list" where
  "decimal_text digits n =
     (let k = int (length digits);
          mantissa = (case digits of [] \<Rightarrow> [] | [d] \<Rightarrow> [d] | d # ds \<Rightarrow> d # 46 # ds) in
      if k \<le> n \<and> n \<le> 21 then digits @ replicate (nat (n - k)) 48
      else if 0 < n \<and> n \<le> 21 then take (nat n) digits @ [46] @ drop (nat n) digits
      else if - 6 < n \<and> n \<le> 0 then [48, 46] @ replicate (nat (- n)) 48 @ digits
      else mantissa @ [101, if n - 1 \<ge> 0 then 43 else 45] @ digit_units \<bar>n - 1\<bar>)"

definition positive_text :: "rat \<Rightarrow> int list" where
  "positive_text x =
     (let n = log_floor 10 x + 1 in
      case shortest x n (map Suc [0..<17]) of (s, k) \<Rightarrow>
        if s = 10 ^ k then decimal_text [49] (n + 1) else decimal_text (digit_units s) n)"

definition number_text :: "rat \<Rightarrow> int list" where
  "number_text x =
     (if x = 0 then [48] else if x < 0 then 45 # positive_text (- x) else positive_text x)"

lemma number_text_examples:
  "map number_text [0, 7, 100, 1 / 2, - 3 / 4] =
     map units [''0'', ''7'', ''100'', ''0.5'', ''-0.75'']"
  "map_option number_text (to_double (1 / 10)) = Some (units ''0.1'')"
  "map_option number_text (to_double 100000000000000000000000) = Some (units ''1e+23'')"
  "map_option number_text (to_double (1 / 10000000)) = Some (units ''1e-7'')"
  by code_simp+

subsection \<open>Values\<close>

datatype uval =
    UNull
  | UBool bool
  | UNum rat
  | UHuge
  | UStr "int list"
  | UArr "uval list"
  | UObj "(int list \<times> uval) list"

definition dec_value :: "int list \<Rightarrow> int" where
  "dec_value ds = fold (\<lambda>d acc. 10 * acc + (d - 48)) ds 0"

text \<open>Keys that are array indices come first, in numeric order; a repeated key keeps its place.\<close>

definition is_index :: "int list \<Rightarrow> bool" where
  "is_index key =
     (key \<noteq> [] \<and> list_all is_dec key \<and> (hd key = 48 \<longrightarrow> length key = 1)
      \<and> dec_value key \<le> 4294967294)"

fun put_key :: "'k \<Rightarrow> 'v \<Rightarrow> ('k \<times> 'v) list \<Rightarrow> ('k \<times> 'v) list" where
  "put_key k v [] = [(k, v)]"
| "put_key k v ((k', v') # fs) = (if k' = k then (k, v) # fs else (k', v') # put_key k v fs)"

definition js_object :: "(int list \<times> uval) list \<Rightarrow> (int list \<times> uval) list" where
  "js_object members =
     (let fs = fold (\<lambda>(k, v). put_key k v) members [] in
      sort_key (\<lambda>(k, v). dec_value k) (filter (\<lambda>(k, v). is_index k) fs)
        @ filter (\<lambda>(k, v). \<not> is_index k) fs)"

subsection \<open>Writing\<close>

definition hex_unit :: "int \<Rightarrow> int" where
  "hex_unit n = (if n < 10 then 48 + n else 87 + n)"

definition u_escape :: "int \<Rightarrow> int list" where
  "u_escape c =
     [92, 117, hex_unit (c div 4096), hex_unit (c div 256 mod 16), hex_unit (c div 16 mod 16),
      hex_unit (c mod 16)]"

definition quoted_unit :: "int \<Rightarrow> int list" where
  "quoted_unit c =
     (if c = 34 then [92, 34] else if c = 92 then [92, 92] else if c = 8 then [92, 98]
      else if c = 12 then [92, 102] else if c = 10 then [92, 110] else if c = 13 then [92, 114]
      else if c = 9 then [92, 116] else if c < 32 then u_escape c else [c])"

fun quote_units :: "int list \<Rightarrow> int list" where
  "quote_units [] = []"
| "quote_units (c # s) =
     (if between 55296 56319 c then
        (case s of
           d # s' \<Rightarrow>
             if between 56320 57343 d then c # d # quote_units s' else u_escape c @ quote_units s
         | [] \<Rightarrow> u_escape c)
      else if between 56320 57343 c then u_escape c @ quote_units s
      else quoted_unit c @ quote_units s)"

definition json_quote :: "int list \<Rightarrow> int list" where
  "json_quote s = [34] @ quote_units s @ [34]"

fun comma_join :: "int list list \<Rightarrow> int list" where
  "comma_join [] = []"
| "comma_join [x] = x"
| "comma_join (x # y # zs) = x @ [44] @ comma_join (y # zs)"

fun json_stringify :: "uval \<Rightarrow> int list" where
  "json_stringify UNull = units ''null''"
| "json_stringify (UBool b) = units (if b then ''true'' else ''false'')"
| "json_stringify (UNum q) = number_text q"
| "json_stringify UHuge = units ''null''"
| "json_stringify (UStr s) = json_quote s"
| "json_stringify (UArr vs) = [91] @ comma_join (map json_stringify vs) @ [93]"
| "json_stringify (UObj fs) =
     [123] @ comma_join (map (\<lambda>(k, v). json_quote k @ [58] @ json_stringify v) fs) @ [125]"

subsection \<open>Reading\<close>

definition json_space :: "int \<Rightarrow> bool" where
  "json_space c = (c \<in> {9, 10, 13, 32})"

definition skip_ws :: "int list \<Rightarrow> int list" where
  "skip_ws = dropWhile json_space"

definition hex_digit_value :: "int \<Rightarrow> int option" where
  "hex_digit_value c =
     (if between 48 57 c then Some (c - 48) else if between 97 102 c then Some (c - 87)
      else if between 65 70 c then Some (c - 55) else None)"

definition hex4 :: "int \<Rightarrow> int \<Rightarrow> int \<Rightarrow> int \<Rightarrow> int option" where
  "hex4 a b c d =
     (case (hex_digit_value a, hex_digit_value b, hex_digit_value c, hex_digit_value d) of
        (Some a', Some b', Some c', Some d') \<Rightarrow> Some (4096 * a' + 256 * b' + 16 * c' + d')
      | _ \<Rightarrow> None)"

definition plain_escapes :: "(int \<times> int) list" where
  "plain_escapes = [(34, 34), (92, 92), (47, 47), (98, 8), (102, 12), (110, 10), (114, 13), (116, 9)]"

definition cons_read :: "'a \<Rightarrow> ('a list \<times> 's) option \<Rightarrow> ('a list \<times> 's) option" where
  "cons_read x = map_option (\<lambda>(xs, s). (x # xs, s))"

fun read_string :: "int list \<Rightarrow> (int list \<times> int list) option" where
  "read_string [] = None"
| "read_string (c # s) =
     (if c = 34 then Some ([], s)
      else if c = 92 then
        (case s of
           [] \<Rightarrow> None
         | d # t \<Rightarrow>
             if d = 117 then
               (case t of
                  h1 # h2 # h3 # h4 # t' \<Rightarrow>
                    (case hex4 h1 h2 h3 h4 of Some u \<Rightarrow> cons_read u (read_string t') | None \<Rightarrow> None)
                | _ \<Rightarrow> None)
             else (case map_of plain_escapes d of Some u \<Rightarrow> cons_read u (read_string t) | None \<Rightarrow> None))
      else if c < 32 then None
      else cons_read c (read_string s))"

definition read_digits :: "int list \<Rightarrow> int list \<times> int list" where
  "read_digits s = (takeWhile is_dec s, dropWhile is_dec s)"

definition read_fraction :: "int list \<Rightarrow> (int list \<times> int list) option" where
  "read_fraction s =
     (if take 1 s = [46] then
        (case read_digits (tl s) of (ds, r) \<Rightarrow> if ds = [] then None else Some (ds, r))
      else Some ([], s))"

definition read_exponent :: "int list \<Rightarrow> (int \<times> int list) option" where
  "read_exponent s =
     (if take 1 s = [101] \<or> take 1 s = [69] then
        (let t = tl s; signed = take 1 t = [43] \<or> take 1 t = [45] in
         case read_digits (if signed then tl t else t) of
           (ds, r) \<Rightarrow>
             if ds = [] then None
             else Some (if take 1 t = [45] then - dec_value ds else dec_value ds, r))
      else Some (0, s))"

definition read_number :: "int list \<Rightarrow> (uval \<times> int list) option" where
  "read_number s =
     (let negative = take 1 s = [45] in
      case read_digits (if negative then tl s else s) of
        (whole, r) \<Rightarrow>
          if whole = [] \<or> hd whole = 48 \<and> length whole > 1 then None
          else Option.bind (read_fraction r) (\<lambda>(frac, r').
            Option.bind (read_exponent r') (\<lambda>(e, r'').
              let q = of_int (dec_value (whole @ frac)) * power_of 10 (e - int (length frac)) in
              case to_double (if negative then - q else q) of
                Some x \<Rightarrow> Some (UNum x, r'')
              | None \<Rightarrow> Some (UHuge, r''))))"

definition read_word :: "string \<Rightarrow> uval \<Rightarrow> int list \<Rightarrow> (uval \<times> int list) option" where
  "read_word w v s = (if take (length w) s = units w then Some (v, drop (length w) s) else None)"

fun jvalue :: "nat \<Rightarrow> int list \<Rightarrow> (uval \<times> int list) option"
  and jitems :: "nat \<Rightarrow> int list \<Rightarrow> (uval list \<times> int list) option"
  and jmembers :: "nat \<Rightarrow> int list \<Rightarrow> ((int list \<times> uval) list \<times> int list) option" where
  "jvalue 0 s = None"
| "jvalue (Suc n) s =
     (case skip_ws s of
        [] \<Rightarrow> None
      | c # t \<Rightarrow>
          if c = 123 then
            (if take 1 (skip_ws t) = [125] then Some (UObj [], tl (skip_ws t))
             else map_option (\<lambda>(ms, r). (UObj (js_object ms), r)) (jmembers n t))
          else if c = 91 then
            (if take 1 (skip_ws t) = [93] then Some (UArr [], tl (skip_ws t))
             else map_option (\<lambda>(vs, r). (UArr vs, r)) (jitems n t))
          else if c = 34 then map_option (\<lambda>(u, r). (UStr u, r)) (read_string t)
          else if c = 116 then read_word ''true'' (UBool True) (c # t)
          else if c = 102 then read_word ''false'' (UBool False) (c # t)
          else if c = 110 then read_word ''null'' UNull (c # t)
          else read_number (c # t))"
| "jitems 0 s = None"
| "jitems (Suc n) s =
     (case jvalue n s of
        None \<Rightarrow> None
      | Some (v, r) \<Rightarrow>
          (case skip_ws r of
             [] \<Rightarrow> None
           | c # t \<Rightarrow>
               if c = 44 then cons_read v (jitems n t)
               else if c = 93 then Some ([v], t) else None))"
| "jmembers 0 s = None"
| "jmembers (Suc n) s =
     (case skip_ws s of
        [] \<Rightarrow> None
      | q # t \<Rightarrow>
          if q \<noteq> 34 then None
          else case read_string t of
              None \<Rightarrow> None
            | Some (k, r) \<Rightarrow>
                if take 1 (skip_ws r) \<noteq> [58] then None
                else case jvalue n (tl (skip_ws r)) of
                    None \<Rightarrow> None
                  | Some (v, r') \<Rightarrow>
                      (case skip_ws r' of
                         [] \<Rightarrow> None
                       | c # t' \<Rightarrow>
                           if c = 44 then cons_read (k, v) (jmembers n t')
                           else if c = 125 then Some ([(k, v)], t') else None))"

definition json_parse :: "int list \<Rightarrow> uval option" where
  "json_parse s =
     (case jvalue (2 * length s + 2) s of
        Some (v, r) \<Rightarrow> if skip_ws r = [] then Some v else None
      | None \<Rightarrow> None)"

subsection \<open>The fuel is enough\<close>

lemma skip_ws_length: "length (skip_ws s) \<le> length s"
  by (simp add: skip_ws_def length_dropWhile_le)

lemma skip_ws_Cons: "skip_ws s = c # t \<Longrightarrow> length t < length s"
  using skip_ws_length [of s] by simp

lemma skip_ws_tl: "skip_ws s \<noteq> [] \<Longrightarrow> length (tl (skip_ws s)) < length s"
  using skip_ws_length [of s] by (cases "skip_ws s") auto

lemma cons_read_Some: "cons_read x m = Some (ys, s) \<longleftrightarrow> (\<exists>xs. m = Some (xs, s) \<and> ys = x # xs)"
  by (auto simp: cons_read_def)

lemma read_string_length: "read_string s = Some (u, r) \<Longrightarrow> length r < length s"
proof (induction s arbitrary: u rule: measure_induct_rule [of length])
  case (less s)
  then show ?case
  proof (cases s)
    case (Cons c t)
    have shorter: "length r < length y"
      if "read_string y = Some (xs, r)" "length y < Suc (length t)" for y xs
      using less.IH that Cons by simp
    show ?thesis
      using less.prems unfolding Cons
      by (auto simp: cons_read_Some split: if_splits list.splits option.splits
          intro: less_trans [OF shorter])
  qed simp
qed

lemma read_digits_length: "read_digits s = (ds, r) \<Longrightarrow> length r + length ds = length s"
  by (auto simp: read_digits_def) (metis length_append takeWhile_dropWhile_id add.commute)

lemma read_fraction_length: "read_fraction s = Some (ds, r) \<Longrightarrow> length r \<le> length s"
  by (auto simp: read_fraction_def split: if_splits prod.splits dest!: read_digits_length)

lemma read_exponent_length: "read_exponent s = Some (e, r) \<Longrightarrow> length r \<le> length s"
  by (auto simp: read_exponent_def Let_def split: if_splits prod.splits dest!: read_digits_length)

lemma read_number_length:
  assumes "read_number s = Some (v, r)"
  shows "length r < length s"
proof -
  obtain whole t where d: "read_digits (if take 1 s = [45] then tl s else s) = (whole, t)" by force
  from assms obtain frac t' e where "whole \<noteq> []" "read_fraction t = Some (frac, t')"
      "read_exponent t' = Some (e, r)"
    unfolding read_number_def d Let_def prod.case
    by (auto split: if_splits option.splits bind_splits simp: Option.bind_eq_Some_conv)
  with read_digits_length [OF d] show ?thesis
    using read_fraction_length [of t frac t'] read_exponent_length [of t' e r]
    by (cases whole) (auto split: if_splits)
qed

lemma read_word_length: "read_word w v s = Some (x, r) \<Longrightarrow> w \<noteq> [] \<Longrightarrow> s \<noteq> [] \<Longrightarrow> length r < length s"
  by (cases w; cases s) (auto simp: read_word_def split: if_splits)

lemma take_1_Cons: "take (Suc 0) s = [c] \<longleftrightarrow> (\<exists>t. s = c # t)"
  by (cases s) auto

lemma json_shorter:
  "jvalue n s = Some (v, r) \<Longrightarrow> length r < length s"
  "jitems n s = Some (vs, r) \<Longrightarrow> length r < length s"
  "jmembers n s = Some (ms, r) \<Longrightarrow> length r < length s"
proof (induction n arbitrary: s v vs ms r)
  case (Suc n)
  {
    case 1
    then obtain c t where ct: "skip_ws s = c # t" by (auto split: list.splits)
    have t: "length t < length s" by (rule skip_ws_Cons [OF ct])
    have "length r < length (c # t)"
      using 1 Suc.IH(2) [of t _ r] Suc.IH(3) [of t _ r] skip_ws_length [of t]
      by (auto simp: ct take_1_Cons split: if_splits dest!: read_string_length read_word_length
          read_number_length)
    with t show ?case by simp
  next
    case 2
    then obtain w t where w: "jvalue n s = Some (w, t)" by (auto split: option.splits)
    obtain c t' where ct: "skip_ws t = c # t'" using 2 w by (auto split: list.splits)
    have "length t < length s" "length t' < length t"
      using Suc.IH(1) [OF w] skip_ws_Cons [OF ct] by auto
    moreover have "length r \<le> length t'"
      using 2 w ct Suc.IH(2) [of t' _ r] by (auto simp: cons_read_Some split: if_splits)
    ultimately show ?case by simp
  next
    case 3
    then obtain t where t: "skip_ws s = 34 # t" by (auto split: list.splits if_splits)
    obtain k u where k: "read_string t = Some (k, u)" using 3 t by (auto split: option.splits)
    obtain u' where u': "skip_ws u = 58 # u'" using 3 t k by (auto simp: take_1_Cons split: if_splits)
    obtain w x where w: "jvalue n u' = Some (w, x)" using 3 t k u' by (auto split: option.splits)
    obtain c y where y: "skip_ws x = c # y" using 3 t k u' w by (auto split: list.splits)
    have "length y < length s"
      using skip_ws_Cons [OF t] read_string_length [OF k] skip_ws_Cons [OF u'] Suc.IH(1) [OF w]
        skip_ws_Cons [OF y] by simp
    moreover have "length r \<le> length y"
      using 3 t k u' w y Suc.IH(3) [of y _ r] by (auto simp: cons_read_Some split: if_splits)
    ultimately show ?case by simp
  }
qed simp_all

text \<open>More fuel than the text can use changes nothing.\<close>

lemma json_fuel:
  "2 * length s + 1 \<le> n \<Longrightarrow> 2 * length s + 1 \<le> m \<Longrightarrow> jvalue n s = jvalue m s"
  "2 * length s + 2 \<le> n \<Longrightarrow> 2 * length s + 2 \<le> m \<Longrightarrow> jitems n s = jitems m s"
  "2 * length s + 1 \<le> n \<Longrightarrow> 2 * length s + 1 \<le> m \<Longrightarrow> jmembers n s = jmembers m s"
proof (induction n arbitrary: s m)
  case (Suc n)
  {
    case 1
    then obtain k where m: "m = Suc k" by (cases m) auto
    have "jmembers n t = jmembers k t \<and> jitems n t = jitems k t" if "skip_ws s = c # t" for c t
      using skip_ws_Cons [OF that] 1 m by (intro conjI Suc.IH) auto
    then show ?case by (auto simp: m split: list.split)
  next
    case 2
    then obtain k where m: "m = Suc k" by (cases m) auto
    have v: "jvalue n s = jvalue k s" using 2 m by (intro Suc.IH) auto
    have "jitems n t = jitems k t" if "jvalue k s = Some (v, r)" "skip_ws r = c # t" for v r c t
      using skip_ws_Cons [OF that(2)] json_shorter(1) [OF that(1)] 2 m by (intro Suc.IH) auto
    then show ?case by (auto simp: m v split: list.split option.split)
  next
    case 3
    then obtain k where m: "m = Suc k" by (cases m) auto
    have v: "jvalue n (tl (skip_ws r)) = jvalue k (tl (skip_ws r))"
      if "skip_ws s = q # t" "read_string t = Some (u, r)" for q t u r
      using skip_ws_Cons [OF that(1)] read_string_length [OF that(2)] skip_ws_length [of r] 3 m
      by (intro Suc.IH) auto
    have ms: "jmembers n t' = jmembers k t'"
      if "skip_ws s = q # t" "read_string t = Some (u, r)" "jvalue k (tl (skip_ws r)) = Some (w, x)"
        "skip_ws x = c # t'" for q t u r w x c t'
      using skip_ws_Cons [OF that(1)] read_string_length [OF that(2)] skip_ws_length [of r]
        json_shorter(1) [OF that(3)] skip_ws_Cons [OF that(4)] 3 m
      by (intro Suc.IH) auto
    show ?case by (auto simp: m v ms split: list.split option.split)
  }
qed simp_all

lemma json_examples:
  \<open>json_parse (units ''{"b": [1, true, null], "2": {}, "a": "x'' @ [92] @ units ''u0041"}'') =
     Some (UObj [(units ''2'', UObj []), (units ''b'', UArr [UNum 1, UBool True, UNull]),
        (units ''a'', UStr (units ''xA''))])\<close>
  \<open>map_option json_stringify (json_parse (units ''[1.50, {"k" : 25e-1}]'')) =
     Some (units ''[1.5,{"k":2.5}]'')\<close>
  by code_simp+

end
