(* ===== verification/Public_Text.thy ===== *)
theory Public_Text
  imports Js_Unicode
begin

section \<open>Public text\<close>

text \<open>
  The text functions of \<open>apps/control-plane/src/domain/presenters.ts\<close> that bound what is shown and
  remove absolute paths. A text is a list of UTF-16 code units. Whether a code point has the
  Unicode property \<open>P\<close> or \<open>S\<close> is the argument \<open>punct\<close>. The redaction of secrets by patterns and
  inside JSON, which runs before, is in \<open>Redaction\<close>; what is shown here holds for any text.
\<close>

definition is_high :: "int \<Rightarrow> bool" where
  "is_high u \<longleftrightarrow> 55296 \<le> u \<and> u \<le> 56319"

definition is_low :: "int \<Rightarrow> bool" where
  "is_low u \<longleftrightarrow> 56320 \<le> u \<and> u \<le> 57343"

text \<open>\<open>Array.from\<close>, \<open>for ... of\<close>: the code points, each as its code units.\<close>

fun code_points :: "int list \<Rightarrow> int list list" where
  "code_points [] = []"
| "code_points [u] = [[u]]"
| "code_points (u # v # s) =
     (if is_high u \<and> is_low v then [u, v] # code_points s else [u] # code_points (v # s))"

definition truncateUnicode :: "int list \<Rightarrow> int \<Rightarrow> int list" where
  "truncateUnicode s maxCodePoints =
     (if maxCodePoints \<le> 0 then [] else concat (take (nat maxCodePoints) (code_points s)))"

text \<open>The bytes of one code point in UTF-8; a lone surrogate is replaced by U+FFFD.\<close>

definition utf8_size :: "int list \<Rightarrow> int" where
  "utf8_size c =
     (case c of
        [u] \<Rightarrow> if u < 128 then 1 else if u < 2048 then 2 else 3
      | _ \<Rightarrow> 4)"

fun take_sized :: "(int list \<Rightarrow> int) \<Rightarrow> int \<Rightarrow> int list list \<Rightarrow> int list" where
  "take_sized units left [] = []"
| "take_sized units left (c # cs) =
     (if units c > left then [] else c @ take_sized units (left - units c) cs)"

definition truncateUtf8 :: "int list \<Rightarrow> int \<Rightarrow> int list" where
  "truncateUtf8 s maxBytes = (if maxBytes \<le> 0 then [] else take_sized utf8_size maxBytes (code_points s))"

definition truncateUtf16 :: "int list \<Rightarrow> int \<Rightarrow> int list" where
  "truncateUtf16 s maxCodeUnits =
     (if maxCodeUnits \<le> 0 then []
      else take_sized (\<lambda>c. int (length c)) maxCodeUnits (code_points s))"

definition boundedText :: "int list option \<Rightarrow> int \<Rightarrow> int option \<Rightarrow> int option \<Rightarrow> int list" where
  "boundedText s maxCodePoints maxBytes maxUtf16CodeUnits =
     (let byCodePoint = truncateUnicode (case s of None \<Rightarrow> [] | Some t \<Rightarrow> trim_text t) maxCodePoints;
          byUtf8 = (case maxBytes of None \<Rightarrow> byCodePoint | Some n \<Rightarrow> truncateUtf8 byCodePoint n) in
      truncateUtf16 byUtf8 (case maxUtf16CodeUnits of None \<Rightarrow> maxCodePoints | Some n \<Rightarrow> n))"

subsection \<open>Absolute paths\<close>

definition quotePairs :: "(int \<times> int) list" where
  "quotePairs = [(34, 34), (39, 39), (8220, 8221), (8216, 8217)]"

definition PATH_BOUNDARIES :: "int list" where
  "PATH_BOUNDARIES =
     [40, 34, 39, 96, 91, 93, 123, 125, 8220, 8221, 8216, 8217, 65288, 12304, 61, 58, 44, 59, 124,
      41, 60, 62, 65292, 65307, 65372, 12289]"

definition codePointBefore :: "int list \<Rightarrow> nat \<Rightarrow> int list option" where
  "codePointBefore s i =
     (if i = 0 then None
      else if is_low (s ! (i - 1)) \<and> i \<ge> 2 \<and> is_high (s ! (i - 2))
      then Some [s ! (i - 2), s ! (i - 1)]
      else Some [s ! (i - 1)])"

definition isPathBoundary :: "(int list \<Rightarrow> bool) \<Rightarrow> int list option \<Rightarrow> bool \<Rightarrow> bool" where
  "isPathBoundary punct c allowPathSeparators =
     (case c of
        None \<Rightarrow> True
      | Some u \<Rightarrow>
          list_ex is_space u \<or> u \<in> set (map (\<lambda>b. [b]) PATH_BOUNDARIES)
          \<or> (allowPathSeparators \<or> u \<noteq> [47] \<and> u \<noteq> [92]) \<and> punct u)"

text \<open>
  \<open>/https?:\/?$/iu\<close> on the nine units before; ignoring case, \<open>s\<close> also stands for U+017F. A unit
  matches a list of units.
\<close>

definition web_schemes :: "int list list list" where
  "web_schemes =
     (let http = [[104, 72], [116, 84], [116, 84], [112, 80]]; s = [[115, 83, 383]];
          colon = [[58]]; slash = [[47]] in
      [http @ colon, http @ colon @ slash, http @ s @ colon, http @ s @ colon @ slash])"

definition ends_with :: "int list list \<Rightarrow> int list \<Rightarrow> bool" where
  "ends_with pat s \<longleftrightarrow> length pat \<le> length s
     \<and> list_all2 (\<lambda>cs c. c \<in> set cs) pat (drop (length s - length pat) s)"

definition hasWebSchemeBefore :: "int list \<Rightarrow> nat \<Rightarrow> bool" where
  "hasWebSchemeBefore s i = list_ex (\<lambda>pat. ends_with pat (drop (i - 9) (take i s))) web_schemes"

definition is_letter :: "int \<Rightarrow> bool" where
  "is_letter c \<longleftrightarrow> 65 \<le> c \<and> c \<le> 90 \<or> 97 \<le> c \<and> c \<le> 122"

definition unit_at :: "int list \<Rightarrow> nat \<Rightarrow> int option" where
  "unit_at s i = (if i < length s then Some (s ! i) else None)"

definition absolutePathStart :: "(int list \<Rightarrow> bool) \<Rightarrow> int list \<Rightarrow> nat \<Rightarrow> bool" where
  "absolutePathStart punct s i =
     (let current = unit_at s i; following = unit_at s (i + 1); afterNext = unit_at s (i + 2);
          boundary = isPathBoundary punct (codePointBefore s i) True in
      if current = Some 47 then boundary \<and> \<not> hasWebSchemeBefore s i
      else if current = Some 92 \<and> following = Some 92 then boundary
      else (case current of None \<Rightarrow> False | Some c \<Rightarrow> is_letter c) \<and> following = Some 58
         \<and> (afterNext = Some 47 \<or> afterNext = Some 92) \<and> boundary)"

text \<open>\<open>value.indexOf(c, from)\<close>, or the end.\<close>

definition index_from :: "int list \<Rightarrow> int \<Rightarrow> nat \<Rightarrow> nat" where
  "index_from s c i = i + length (takeWhile (\<lambda>x. x \<noteq> c) (drop i s))"

definition redacted_path :: "int list" where
  "redacted_path = map of_char ''[redacted path]''"

definition skip_path :: "int list \<Rightarrow> nat \<Rightarrow> nat" where
  "skip_path s cursor =
     (case if cursor = 0 then None else map_of quotePairs (s ! (cursor - 1)) of
        Some closingQuote \<Rightarrow> index_from s closingQuote cursor
      | None \<Rightarrow> index_from s 10 cursor)"

lemma start_unit:
  assumes "absolutePathStart punct s i"
  shows "i < length s" "s ! i = 47 \<or> s ! i = 92 \<or> is_letter (s ! i)"
  using assms by (auto simp: absolutePathStart_def unit_at_def Let_def split: if_splits)

definition landing :: "int list" where
  "landing = 10 # map snd quotePairs"

lemma landing_unit: "c \<in> set landing \<Longrightarrow> c \<noteq> 47 \<and> c \<noteq> 92 \<and> \<not> is_letter c \<and> \<not> is_low c"
  by (auto simp: landing_def quotePairs_def is_letter_def is_low_def)

lemma skip_path_index: "\<exists>c \<in> set landing. skip_path s i = index_from s c i"
  by (auto simp: skip_path_def landing_def split: option.splits dest!: map_of_SomeD
      intro!: bexI image_eqI)

lemma index_from_bounds:
  assumes "i \<le> length s"
  shows "i \<le> index_from s c i" "index_from s c i \<le> length s"
    "index_from s c i < length s \<Longrightarrow> s ! index_from s c i = c"
    "i < length s \<Longrightarrow> s ! i \<noteq> c \<Longrightarrow> i < index_from s c i"
proof -
  let ?n = "length (takeWhile (\<lambda>x. x \<noteq> c) (drop i s))"
  show "i \<le> index_from s c i" by (simp add: index_from_def)
  show "index_from s c i \<le> length s"
    using length_takeWhile_le [of "\<lambda>x. x \<noteq> c" "drop i s"] assms by (simp add: index_from_def)
  show "s ! index_from s c i = c" if "index_from s c i < length s"
    using nth_length_takeWhile [of "\<lambda>x. x \<noteq> c" "drop i s"] that assms by (simp add: index_from_def)
  show "i < index_from s c i" if "i < length s" "s ! i \<noteq> c"
    using that by (auto simp: index_from_def Cons_nth_drop_Suc [symmetric])
qed

lemma skip_path_bounds:
  assumes "i < length s" "s ! i \<notin> set landing"
  shows "i < skip_path s i" "skip_path s i \<le> length s"
    "skip_path s i < length s \<Longrightarrow> s ! skip_path s i \<in> set landing"
proof -
  obtain c where c: "c \<in> set landing" "skip_path s i = index_from s c i" using skip_path_index by blast
  have ne: "s ! i \<noteq> c" using c(1) assms(2) by blast
  from index_from_bounds [of i s c] assms(1) ne c
  show "i < skip_path s i" "skip_path s i \<le> length s"
    "skip_path s i < length s \<Longrightarrow> s ! skip_path s i \<in> set landing" by auto
qed

lemma start_not_landing: "absolutePathStart punct s i \<Longrightarrow> s ! i \<notin> set landing"
  using start_unit landing_unit by blast

text \<open>The loop from a cursor on: what it appends to the output.\<close>

function redact_from :: "(int list \<Rightarrow> bool) \<Rightarrow> int list \<Rightarrow> nat \<Rightarrow> int list" where
  "redact_from punct s cursor =
     (if cursor < length s then
        if \<not> absolutePathStart punct s cursor then s ! cursor # redact_from punct s (cursor + 1)
        else redacted_path @ redact_from punct s (skip_path s cursor)
      else [])"
  by pat_completeness auto
termination
proof (relation "measure (\<lambda>(punct, s, cursor). length s - cursor)", goal_cases)
  case (3 punct s cursor)
  then have "cursor < skip_path s cursor" by (intro skip_path_bounds(1) start_not_landing) auto
  with 3 show ?case by simp
qed auto

declare redact_from.simps [simp del]

definition redactAbsolutePathText :: "(int list \<Rightarrow> bool) \<Rightarrow> int list \<Rightarrow> int list" where
  "redactAbsolutePathText punct s = redact_from punct s 0"


subsection \<open>What is before an index\<close>

definition before_rev :: "int list \<Rightarrow> int list option" where
  "before_rev r =
     (case r of
        [] \<Rightarrow> None
      | [a] \<Rightarrow> Some [a]
      | a # b # _ \<Rightarrow> if is_low a \<and> is_high b then Some [b, a] else Some [a])"

lemma codePointBefore_prefix:
  assumes "i \<le> length s"
  shows "codePointBefore s i = before_rev (rev (take i s))"
proof (cases i)
  case (Suc j)
  then have 1: "rev (take i s) = s ! j # rev (take j s)" using assms by (simp add: take_Suc_conv_app_nth)
  show ?thesis
  proof (cases j)
    case 0
    with 1 Suc show ?thesis by (simp add: codePointBefore_def before_rev_def)
  next
    case (Suc k)
    then have "rev (take j s) = s ! k # rev (take k s)"
      using assms \<open>i = Suc j\<close> by (simp add: take_Suc_conv_app_nth)
    with 1 Suc \<open>i = Suc j\<close> show ?thesis by (simp add: codePointBefore_def before_rev_def)
  qed
qed (simp add: codePointBefore_def before_rev_def)

definition web_before :: "int list \<Rightarrow> bool" where
  "web_before p = list_ex (\<lambda>pat. ends_with pat p) web_schemes"

lemma web_schemes_length: "pat \<in> set web_schemes \<Longrightarrow> length pat \<le> 7"
  by (auto simp: web_schemes_def Let_def)

lemma ends_with_drop:
  assumes "length pat \<le> 9"
  shows "ends_with pat (drop (length p - 9) p) = ends_with pat p"
proof (cases "length pat \<le> length p")
  case True
  then have "drop (length (drop (length p - 9) p) - length pat) (drop (length p - 9) p) = drop (length p - length pat) p"
    using assms by (auto simp: drop_drop)
  with True assms show ?thesis by (auto simp: ends_with_def)
qed (auto simp: ends_with_def)

lemma hasWebSchemeBefore_prefix:
  assumes "i \<le> length s"
  shows "hasWebSchemeBefore s i = web_before (take i s)"
proof -
  have "ends_with pat (drop (i - 9) (take i s)) = ends_with pat (take i s)" if "pat \<in> set web_schemes" for pat
    using ends_with_drop [of pat "take i s"] web_schemes_length [OF that] assms
    by (simp add: min_absorb2)
  then show ?thesis by (auto simp: hasWebSchemeBefore_def web_before_def list_ex_iff)
qed

definition inert :: "int \<Rightarrow> bool" where
  "inert c \<longleftrightarrow> \<not> is_high c \<and> \<not> is_low c \<and> c \<notin> set (concat (concat web_schemes))"

lemma scheme_units: "set (concat (concat web_schemes)) = {104, 72, 116, 84, 112, 80, 115, 83, 383, 58, 47}"
  by (simp add: web_schemes_def Let_def) blast

lemma inert_consts: "is_space c \<or> c \<in> set landing \<or> c = 93 \<Longrightarrow> inert c"
  unfolding inert_def scheme_units
  by (auto simp: is_space_def landing_def quotePairs_def is_high_def is_low_def)

text \<open>No code point and no scheme reaches from \<open>w\<close> into \<open>p\<close>.\<close>

definition blocked :: "int list \<Rightarrow> int list \<Rightarrow> bool" where
  "blocked p w \<longleftrightarrow> p = [] \<or> inert (last p) \<or> w \<noteq> [] \<and> inert (hd w)"

lemma blocked_append: "blocked p w \<Longrightarrow> blocked p (w @ u) \<or> w = []"
  by (auto simp: blocked_def)

lemma before_rev_blocked:
  assumes "blocked p w" "w \<noteq> []"
  shows "before_rev (rev (p @ w)) = before_rev (rev w)"
proof -
  obtain v a where w: "w = v @ [a]" using assms(2) by (cases w rule: rev_cases) auto
  show ?thesis
  proof (cases "v = []")
    case True
    with assms w show ?thesis
      by (cases p rule: rev_cases) (auto simp: before_rev_def blocked_def inert_def)
  next
    case False
    then show ?thesis by (cases v rule: rev_cases) (auto simp: w before_rev_def)
  qed
qed

lemma matched_units:
  "list_all2 (\<lambda>cs c. c \<in> set cs) pat s \<Longrightarrow> c \<in> set s \<Longrightarrow> c \<in> set (concat pat)"
  by (induction rule: list_all2_induct) auto

lemma ends_with_blocked:
  assumes "blocked p w" "pat \<in> set web_schemes"
  shows "ends_with pat (p @ w) = ends_with pat w"
proof (cases "length pat \<le> length w")
  case True
  then show ?thesis by (auto simp: ends_with_def)
next
  case False
  have "\<not> ends_with pat (p @ w)"
  proof
    assume "ends_with pat (p @ w)"
    then have len: "length pat \<le> length p + length w"
      and m: "list_all2 (\<lambda>cs c. c \<in> set cs) pat (drop (length p + length w - length pat) (p @ w))"
      by (auto simp: ends_with_def)
    note units = matched_units [OF m]
    have "length p + length w - length pat < length p" using False len by simp
    then have "drop (length p + length w - length pat) (p @ w) = drop (length p + length w - length pat) p @ w"
      "drop (length p + length w - length pat) p \<noteq> []" by auto
    moreover from this have "last p \<in> set (drop (length p + length w - length pat) p)"
      by (metis drop_eq_Nil last_drop last_in_set leI)
    ultimately have "last p \<in> set (concat pat)" "w \<noteq> [] \<Longrightarrow> hd w \<in> set (concat pat)" "p \<noteq> []"
      using units by auto
    with assms show False by (auto simp: blocked_def inert_def)
  qed
  with False show ?thesis by (auto simp: ends_with_def)
qed

lemma web_before_blocked: "blocked p w \<Longrightarrow> web_before (p @ w) = web_before w"
  by (auto simp: web_before_def list_ex_iff ends_with_blocked)


subsection \<open>Redaction removes every absolute path\<close>

definition context_ok :: "int list \<Rightarrow> int list \<Rightarrow> nat \<Rightarrow> bool" where
  "context_ok out s c \<longleftrightarrow> (\<exists>p v w. out = p @ w \<and> take c s = v @ w \<and> blocked p w \<and> blocked v w
     \<and> (w = [] \<longrightarrow> p = [] \<and> v = []))"

lemma same_context:
  assumes "context_ok out s c" "c \<le> length s"
  shows "codePointBefore (out @ r) (length out) = codePointBefore s c"
    "hasWebSchemeBefore (out @ r) (length out) = hasWebSchemeBefore s c"
proof -
  obtain p v w where c: "out = p @ w" "take c s = v @ w" "blocked p w" "blocked v w"
    "w = [] \<longrightarrow> p = [] \<and> v = []" using assms(1) unfolding context_ok_def by blast
  have "before_rev (rev out) = before_rev (rev (take c s))"
    using before_rev_blocked [OF c(3)] before_rev_blocked [OF c(4)] c(1,2,5) by (cases "w = []") auto
  then show "codePointBefore (out @ r) (length out) = codePointBefore s c"
    using assms(2) by (simp add: codePointBefore_prefix)
  show "hasWebSchemeBefore (out @ r) (length out) = hasWebSchemeBefore s c"
    using web_before_blocked [OF c(3)] web_before_blocked [OF c(4)] c(1,2) assms(2)
    by (simp add: hasWebSchemeBefore_prefix)
qed

lemma context_step:
  assumes "context_ok out s c \<or> s ! c \<in> set landing" "c < length s"
  shows "context_ok (out @ [s ! c]) s (Suc c)"
proof (cases "s ! c \<in> set landing")
  case True
  then have "inert (s ! c)" by (simp add: inert_consts)
  with assms(2) show ?thesis unfolding context_ok_def
    by (intro exI [of _ out] exI [of _ "take c s"] exI [of _ "[s ! c]"])
      (simp add: take_Suc_conv_app_nth blocked_def)
next
  case False
  then obtain p v w where c: "out = p @ w" "take c s = v @ w" "blocked p w" "blocked v w"
    "w = [] \<longrightarrow> p = [] \<and> v = []" using assms(1) unfolding context_ok_def by blast
  then have "blocked p (w @ [s ! c])" "blocked v (w @ [s ! c])"
    by (auto simp: blocked_def)
  with c assms(2) show ?thesis unfolding context_ok_def
    by (intro exI [of _ p] exI [of _ v] exI [of _ "w @ [s ! c]"])
      (simp add: take_Suc_conv_app_nth)
qed

text \<open>The loop either copies the unit at the cursor or appends the marker.\<close>

lemma redact_from_head:
  "unit_at (redact_from punct s c) 0 = Some x \<Longrightarrow> x \<noteq> 91 \<Longrightarrow>
     unit_at s c = Some x \<and> redact_from punct s c = x # redact_from punct s (Suc c)"
  by (subst (asm) (1) redact_from.simps, subst redact_from.simps)
    (auto simp: unit_at_def redacted_path_def split: if_splits)

lemma unit_at_append: "unit_at (out @ r) (length out + i) = unit_at r i"
  by (simp add: unit_at_def nth_append)

lemma unit_at_Cons [simp]: "unit_at (x # r) (Suc i) = unit_at r i"
  by (simp add: unit_at_def)

definition start_units :: "int option \<Rightarrow> int option \<Rightarrow> int option \<Rightarrow> bool \<Rightarrow> bool \<Rightarrow> bool" where
  "start_units current following afterNext boundary web =
     (if current = Some 47 then boundary \<and> \<not> web
      else if current = Some 92 \<and> following = Some 92 then boundary
      else (case current of None \<Rightarrow> False | Some c \<Rightarrow> is_letter c) \<and> following = Some 58
         \<and> (afterNext = Some 47 \<or> afterNext = Some 92) \<and> boundary)"

lemma absolutePathStart_units:
  "absolutePathStart punct s i = start_units (unit_at s i) (unit_at s (i + 1)) (unit_at s (i + 2))
     (isPathBoundary punct (codePointBefore s i) True) (hasWebSchemeBefore s i)"
  by (simp add: absolutePathStart_def start_units_def Let_def)

lemma start_units_mono:
  assumes "start_units a b1 b2 boundary web"
    and "b1 = Some 58 \<longrightarrow> c1 = Some 58" "b1 = Some 92 \<longrightarrow> c1 = Some 92"
      "b1 = Some 58 \<and> b2 = Some 47 \<longrightarrow> c2 = Some 47" "b1 = Some 58 \<and> b2 = Some 92 \<longrightarrow> c2 = Some 92"
  shows "start_units a c1 c2 boundary web"
  using assms unfolding start_units_def by argo

lemma start_units_boundary:
  "start_units a b c boundary web \<Longrightarrow> boundary \<longrightarrow> boundary' \<Longrightarrow> start_units a b c boundary' web"
  unfolding start_units_def by argo

lemma copied_start:
  assumes c: "context_ok out s c" "c < length s"
    and start: "absolutePathStart punct (out @ s ! c # redact_from punct s (Suc c)) (length out)"
  shows "absolutePathStart punct s c"
proof -
  let ?out = "out @ s ! c # redact_from punct s (Suc c)"
  have 0: "unit_at ?out (length out) = unit_at s c"
    using c(2) unit_at_append [of out _ 0] by (simp add: unit_at_def)
  have tl: "unit_at ?out (length out + Suc j) = unit_at (redact_from punct s (Suc c)) j" for j
    using unit_at_append [of out "s ! c # redact_from punct s (Suc c)" "Suc j"] by simp
  have 1: "unit_at s (c + 1) = Some x" if "unit_at ?out (length out + 1) = Some x" "x \<noteq> 91" for x
    using that redact_from_head [of punct s "Suc c" x] tl [of 0] by simp
  have 2: "unit_at s (c + 2) = Some y"
    if "unit_at ?out (length out + 1) = Some x" "x \<noteq> 91" "unit_at ?out (length out + 2) = Some y" "y \<noteq> 91" for x y
  proof -
    have "redact_from punct s (Suc c) = x # redact_from punct s (Suc (Suc c))"
      using that(1,2) redact_from_head [of punct s "Suc c" x] tl [of 0] by simp
    then have "unit_at (redact_from punct s (Suc (Suc c))) 0 = Some y"
      using that(3) tl [of 1] by simp
    then show ?thesis using redact_from_head [of punct s "Suc (Suc c)" y] that(4) by simp
  qed
  note same = same_context [OF c(1) less_imp_le [OF c(2)], of "s ! c # redact_from punct s (Suc c)"]
  show ?thesis
  proof -
    define b1 b2 where "b1 = unit_at ?out (length out + 1)" and "b2 = unit_at ?out (length out + 2)"
    have "b1 = Some 58 \<longrightarrow> unit_at s (c + 1) = Some 58" "b1 = Some 92 \<longrightarrow> unit_at s (c + 1) = Some 92"
      "b1 = Some 58 \<and> b2 = Some 47 \<longrightarrow> unit_at s (c + 2) = Some 47"
      "b1 = Some 58 \<and> b2 = Some 92 \<longrightarrow> unit_at s (c + 2) = Some 92"
      using 1 [of 58] 1 [of 92] 2 [of 58 47] 2 [of 58 92] by (simp_all add: b1_def b2_def)
    from start_units_mono [OF start [unfolded absolutePathStart_units same 0, folded b1_def b2_def] this]
    show ?thesis by (simp only: absolutePathStart_units)
  qed
qed

lemma marker_no_start:
  assumes "k < length redacted_path"
  shows "\<not> absolutePathStart punct (out @ redacted_path @ r) (length out + k)"
proof -
  have "k < 15" using assms by (simp add: redacted_path_def)
  then have "k \<in> set [0..<15]" by simp
  then have "redacted_path ! k \<noteq> 47 \<and> redacted_path ! k \<noteq> 92
      \<and> (is_letter (redacted_path ! k) \<longrightarrow> Suc k < length redacted_path \<and> redacted_path ! Suc k \<noteq> 58)"
    by (auto simp: redacted_path_def is_letter_def upt_rec)
  with assms show ?thesis
    by (auto simp: absolutePathStart_def Let_def unit_at_def nth_append)
qed

lemma redact_from_clean:
  assumes "length s \<le> c \<or> s ! c \<in> set landing \<or> context_ok out s c"
  shows "\<not> absolutePathStart punct (out @ redact_from punct s c) (length out + i)"
  using assms
proof (induction punct s c arbitrary: out i rule: redact_from.induct)
  case (1 punct s c)
  show ?case
  proof (cases "c < length s")
    case False
    then show ?thesis using start_unit(1) by (fastforce simp: redact_from.simps)
  next
    case in_range: True
    show ?thesis
    proof (cases "absolutePathStart punct s c")
      case True
      let ?n = "skip_path s c"
      have out: "out @ redact_from punct s c = (out @ redacted_path) @ redact_from punct s ?n"
        using in_range True by (subst redact_from.simps) simp
      have "length s \<le> ?n \<or> s ! ?n \<in> set landing"
        using skip_path_bounds(3) [OF in_range start_not_landing [OF True]] by (meson not_le)
      then have later: "\<not> absolutePathStart punct (out @ redact_from punct s c)
          (length (out @ redacted_path) + j)" for j
        using "1.IH"(2) in_range True unfolding out by blast
      show ?thesis
      proof (cases "i < length redacted_path")
        case True
        from marker_no_start [OF this] show ?thesis unfolding out by simp
      next
        case False
        with later [of "i - length redacted_path"] show ?thesis by simp
      qed
    next
      case False
      have out: "redact_from punct s c = s ! c # redact_from punct s (Suc c)"
        using in_range False by (subst redact_from.simps) simp
      have "context_ok (out @ [s ! c]) s (Suc c)"
        using "1.prems" in_range by (intro context_step) auto
      then have later: "\<not> absolutePathStart punct (out @ redact_from punct s c) (length out + Suc j)" for j
        using "1.IH"(1) [OF in_range False, of "out @ [s ! c]" j] by (simp add: out)
      show ?thesis
      proof (cases i)
        case 0
        show ?thesis
        proof
          assume start: "absolutePathStart punct (out @ redact_from punct s c) (length out + i)"
          then have "s ! c \<notin> set landing"
            using start_not_landing [OF start] by (simp add: out 0)
          with "1.prems" in_range start False 0 copied_start [of out s c punct] show False
            by (simp add: out)
        qed
      qed (use later in simp)
    qed
  qed
qed

lemma redaction_clean: "\<not> absolutePathStart punct (redactAbsolutePathText punct s) i"
  using redact_from_clean [of s 0 "[]" punct i]
  by (simp add: redactAbsolutePathText_def context_ok_def blocked_def)


subsection \<open>Trimming and truncation keep it so\<close>

lemma start_take:
  assumes "absolutePathStart punct (take k s) i"
  shows "absolutePathStart punct s i"
proof -
  have i: "i < k" "i < length s" using start_unit(1) [OF assms] by auto
  have up: "unit_at (take k s) j = Some x \<longrightarrow> unit_at s j = Some x" for j x
    by (simp add: unit_at_def)
  have "take i (take k s) = take i s" using i by simp
  then have "codePointBefore (take k s) i = codePointBefore s i"
    "hasWebSchemeBefore (take k s) i = hasWebSchemeBefore s i"
    using i by (simp_all add: codePointBefore_prefix hasWebSchemeBefore_prefix)
  moreover have "unit_at (take k s) i = unit_at s i" using i by (simp add: unit_at_def)
  ultimately have "start_units (unit_at s i) (unit_at (take k s) (i + 1)) (unit_at (take k s) (i + 2))
     (isPathBoundary punct (codePointBefore s i) True) (hasWebSchemeBefore s i)"
    using assms by (simp only: absolutePathStart_units)
  from start_units_mono [OF this up up] up show ?thesis unfolding absolutePathStart_units by blast
qed

lemma web_before_Nil: "\<not> web_before []"
  by (simp add: web_before_def web_schemes_def Let_def ends_with_def)

lemma start_suffix:
  assumes start: "absolutePathStart punct t i" and u: "u = [] \<or> is_space (last u)"
  shows "absolutePathStart punct (u @ t) (length u + i)"
proof -
  let ?s = "u @ t"
  have i: "i \<le> length t" using start_unit(1) [OF start] by simp
  have b: "blocked u w" for w using u inert_consts by (auto simp: blocked_def)
  have web: "hasWebSchemeBefore ?s (length u + i) = hasWebSchemeBefore t i"
    using web_before_blocked [OF b, of "take i t"] i by (simp add: hasWebSchemeBefore_prefix)
  have "isPathBoundary punct (codePointBefore t i) True \<longrightarrow>
      isPathBoundary punct (codePointBefore ?s (length u + i)) True"
  proof (cases "i = 0")
    case False
    then have "take i t \<noteq> []" using i start_unit(1) [OF start] by auto
    from before_rev_blocked [OF b this] i show ?thesis by (simp add: codePointBefore_prefix)
  next
    case True
    have "before_rev (rev u) = Some [last u]" if "u \<noteq> []"
    proof -
      have "\<not> is_low (last u)" using u that inert_consts by (auto simp: inert_def)
      then show ?thesis using that
        by (cases u rule: rev_cases) (auto simp: before_rev_def split: list.split)
    qed
    then have "isPathBoundary punct (before_rev (rev u)) True"
      using u by (cases "u = []") (simp_all add: isPathBoundary_def before_rev_def)
    with True show ?thesis by (simp add: codePointBefore_prefix)
  qed
  moreover have "unit_at ?s (length u + i + j) = unit_at t (i + j)" for j
    by (simp add: unit_at_def nth_append)
  from this [of 0] this [of 1] this [of 2]
  have "unit_at ?s (length u + i) = unit_at t i" "unit_at ?s (length u + i + 1) = unit_at t (i + 1)"
    "unit_at ?s (length u + i + 2) = unit_at t (i + 2)" by simp_all
  ultimately show ?thesis using start unfolding absolutePathStart_units web
    by (metis start_units_boundary)
qed

lemma concat_code_points: "concat (code_points s) = s"
  by (induction s rule: code_points.induct) auto

lemma take_sized_prefix: "prefix (take_sized units left cs) (concat cs)"
  by (induction cs arbitrary: left) auto

lemma truncate_prefix:
  "prefix (truncateUnicode s n) s" "prefix (truncateUtf8 s n) s" "prefix (truncateUtf16 s n) s"
proof -
  have "prefix (concat (take k cs)) (concat cs)" for k and cs :: "int list list"
    by (metis append_take_drop_id concat_append prefixI)
  from this [of _ "code_points s"] show "prefix (truncateUnicode s n) s"
    by (simp add: truncateUnicode_def concat_code_points)
  show "prefix (truncateUtf8 s n) s" "prefix (truncateUtf16 s n) s"
    using take_sized_prefix [of _ _ "code_points s"]
    by (simp_all add: truncateUtf8_def truncateUtf16_def concat_code_points)
qed

lemma take_sized_length:
  "0 \<le> left \<Longrightarrow> int (length (take_sized (\<lambda>c. int (length c)) left cs)) \<le> left"
proof (induction cs arbitrary: left)
  case (Cons c cs)
  from Cons.IH [of "left - int (length c)"] Cons.prems show ?case by auto
qed simp

lemma boundedText_prefix: "prefix (boundedText (Some s) n b u) (trim_text s)"
proof -
  let ?c = "truncateUnicode (trim_text s) n"
  have "prefix (case b of None \<Rightarrow> ?c | Some k \<Rightarrow> truncateUtf8 ?c k) ?c"
    using truncate_prefix(2) by (cases b) simp_all
  then show ?thesis
    unfolding boundedText_def Let_def option.case
    using truncate_prefix(1) [of "trim_text s" n] truncate_prefix(3) by (metis prefix_order.trans)
qed

text \<open>
  Public text shows no absolute path and is bounded. Whatever text the redaction of paths is
  given, after the trimming and truncation that follow it no index of the result starts an
  absolute path (POSIX, UNC or with a drive letter) in the sense of the code's own detector, and
  the result has at most the allowed number of UTF-16 units.
\<close>

theorem public_text_shows_no_path:
  "\<not> absolutePathStart punct (boundedText (Some (redactAbsolutePathText punct s)) n b u) i
   \<and> int (length (boundedText (Some (redactAbsolutePathText punct s)) n b u))
       \<le> max 0 (case u of None \<Rightarrow> n | Some m \<Rightarrow> m)"
proof
  let ?r = "redactAbsolutePathText punct s"
  let ?b = "boundedText (Some ?r) n b u"
  obtain p q where r: "?r = p @ trim_text ?r @ q" "p = [] \<or> is_space (last p)"
    using trim_text_split [of ?r] .
  obtain k where k: "?b = take k (trim_text ?r)"
    using boundedText_prefix [of ?r n b u] by (metis append_eq_conv_conj prefixE)
  show "\<not> absolutePathStart punct ?b i"
  proof
    assume "absolutePathStart punct ?b i"
    then have "absolutePathStart punct (p @ trim_text ?r) (length p + i)"
      unfolding k by (intro start_suffix r(2)) (rule start_take)
    moreover have "p @ trim_text ?r = take (length (p @ trim_text ?r)) ?r"
      by (subst (3) r(1)) simp
    ultimately have "absolutePathStart punct ?r (length p + i)" by (metis start_take)
    with redaction_clean show False by blast
  qed
  show "int (length ?b) \<le> max 0 (case u of None \<Rightarrow> n | Some m \<Rightarrow> m)"
    unfolding boundedText_def Let_def truncateUtf16_def
    using take_sized_length by (auto split: option.split)
qed


subsection \<open>Paths of changed files\<close>

definition isAbsolutePath :: "int list \<Rightarrow> bool" where
  "isAbsolutePath s \<longleftrightarrow> take 1 s = [47]
     \<or> (case s of a # b # c # _ \<Rightarrow> is_letter a \<and> b = 58 \<and> (c = 92 \<or> c = 47) | _ \<Rightarrow> False)"

definition normalizePath :: "int list \<Rightarrow> int list" where
  "normalizePath s =
     (let t = map (\<lambda>c. if c = 92 then 47 else c) s in if take 2 t = [46, 47] then drop 2 t else t)"

fun split_slash :: "int list \<Rightarrow> int list list" where
  "split_slash [] = [[]]"
| "split_slash (c # s) =
     (if c = 47 then [] # split_slash s
      else case split_slash s of [] \<Rightarrow> [[c]] | g # gs \<Rightarrow> (c # g) # gs)"

definition safeRepositoryRelativePath :: "int list \<Rightarrow> int list option" where
  "safeRepositoryRelativePath s =
     (if length s > 0 \<and> take 1 s \<noteq> [47]
         \<and> list_all (\<lambda>g. length g > 0 \<and> g \<noteq> [46] \<and> g \<noteq> [46, 46]) (split_slash s)
      then Some s else None)"

definition relativeRepositoryPath :: "int list \<Rightarrow> int list option \<Rightarrow> int list option" where
  "relativeRepositoryPath s canonicalPath =
     (let normalized = normalizePath (trim_text s);
          base = normalizePath (case canonicalPath of None \<Rightarrow> [] | Some c \<Rightarrow> trim_text c);
          canonical = (if base \<noteq> [] \<and> last base = 47 then butlast base else base) in
      if isAbsolutePath normalized then
        if canonical = [] \<or> normalized \<noteq> canonical \<and> \<not> prefix (canonical @ [47]) normalized
        then None
        else safeRepositoryRelativePath (dropWhile (\<lambda>c. c = 47) (drop (length canonical) normalized))
      else safeRepositoryRelativePath normalized)"

lemma safe_path_Some:
  "safeRepositoryRelativePath s = Some r \<longleftrightarrow>
     r = s \<and> s \<noteq> [] \<and> take 1 s \<noteq> [47] \<and> list_all (\<lambda>g. g \<noteq> [] \<and> g \<noteq> [46] \<and> g \<noteq> [46, 46]) (split_slash s)"
  by (auto simp: safeRepositoryRelativePath_def)

text \<open>
  A changed file that is shown is a relative path without empty, \<open>.\<close> or \<open>..\<close> segments; when the
  code was given an absolute path, that path is the shown one below the repository's root.
\<close>

lemma changed_file_is_inside:
  assumes "relativeRepositoryPath s base = Some r"
  shows "r \<noteq> [] \<and> take 1 r \<noteq> [47] \<and> list_all (\<lambda>g. g \<noteq> [] \<and> g \<noteq> [46] \<and> g \<noteq> [46, 46]) (split_slash r)
    \<and> (normalizePath (trim_text s) = r
       \<or> (\<exists>canonical slashes. normalizePath (trim_text s) = canonical @ slashes @ r
            \<and> canonical \<noteq> [] \<and> set slashes = {47} \<and> prefix canonical
              (normalizePath (case base of None \<Rightarrow> [] | Some c \<Rightarrow> trim_text c))))"
proof -
  define n where "n = normalizePath (trim_text s)"
  define q where "q = normalizePath (case base of None \<Rightarrow> [] | Some c \<Rightarrow> trim_text c)"
  define c where "c = (if q \<noteq> [] \<and> last q = 47 then butlast q else q)"
  have qc: "prefix c q" by (simp add: c_def prefixeq_butlast)
  have r: "if isAbsolutePath n then c \<noteq> [] \<and> (n = c \<or> prefix (c @ [47]) n)
        \<and> safeRepositoryRelativePath (dropWhile (\<lambda>c. c = 47) (drop (length c) n)) = Some r
      else safeRepositoryRelativePath n = Some r"
    using assms
    by (auto simp: relativeRepositoryPath_def Let_def n_def [symmetric] q_def [symmetric]
        c_def [symmetric] split: if_splits)
  show ?thesis
  proof (cases "isAbsolutePath n")
    case False
    with r show ?thesis by (simp add: safe_path_Some n_def)
  next
    case True
    let ?t = "drop (length c) n"
    have safe: "safeRepositoryRelativePath (dropWhile (\<lambda>c. c = 47) ?t) = Some r" "c \<noteq> []"
      and below: "n = c \<or> prefix (c @ [47]) n" using r True by auto
    have "r \<noteq> []" and rt: "r = dropWhile (\<lambda>c. c = 47) ?t" using safe(1) by (auto simp: safe_path_Some)
    then have "n \<noteq> c" by auto
    with below obtain z where z: "n = c @ 47 # z" by (auto simp: prefix_def)
    have "n = c @ takeWhile (\<lambda>c. c = 47) ?t @ r" unfolding rt by (simp add: z)
    moreover have "set (takeWhile (\<lambda>c. c = 47) ?t) = {47}" by (auto simp: z dest: set_takeWhileD)
    ultimately have "\<exists>canonical slashes. n = canonical @ slashes @ r \<and> canonical \<noteq> []
        \<and> set slashes = {47} \<and> prefix canonical q" using safe(2) qc by blast
    then show ?thesis using safe(1) unfolding n_def [symmetric] q_def [symmetric] rt
      by (simp only: safe_path_Some) blast
  qed
qed

end
