(* ===== verification/Client_Messages.thy ===== *)
theory Client_Messages
  imports Connector_Protocol Redaction
begin

section \<open>Messages of a connector\<close>

text \<open>
  The messages a connector sends (\<open>packages/protocol/src/connector.ts\<close>), and what the control plane
  does with their values before storing them (\<open>apps/control-plane/src/connector/outbox.ts\<close>):
  canonical JSON, instants and dates. An event's payload is a list of members with \<open>uval\<close>s; every
  other text is a \<^typ>\<open>string\<close> (see \<open>Prelude\<close>). \<open>text_of\<close> turns code units into such a string, where a
  unit over 255 shows as the last character, 255.
\<close>

subsection \<open>Values\<close>

definition text_of :: "int list \<Rightarrow> string" where
  "text_of s = map (\<lambda>c. char_of (min c 255)) s"

fun jsval_of :: "uval \<Rightarrow> jsval" where
  "jsval_of UNull = JNull"
| "jsval_of (UBool b) = JBool b"
| "jsval_of (UNum q) = JNum q"
| "jsval_of UHuge = JNull"
| "jsval_of (UStr s) = JStr (text_of s)"
| "jsval_of (UArr vs) = JArr (map jsval_of vs)"
| "jsval_of (UObj fs) = JObj (map (\<lambda>(k, v). (text_of k, jsval_of v)) fs)"

text \<open>Members without a value are not written to JSON.\<close>

fun uval_of :: "jsval \<Rightarrow> uval" where
  "uval_of JUndefined = UNull"
| "uval_of JNull = UNull"
| "uval_of (JBool b) = UBool b"
| "uval_of (JNum q) = UNum q"
| "uval_of (JStr s) = UStr (units s)"
| "uval_of (JArr vs) = UArr (map uval_of vs)"
| "uval_of (JObj fs) =
     UObj (map (\<lambda>(k, v). (units k, uval_of v)) (filter (\<lambda>(k, v). v \<noteq> JUndefined) fs))"

abbreviation int_value :: "int \<Rightarrow> jsval" where
  "int_value n \<equiv> JNum (of_int n)"

subsection \<open>Canonical JSON\<close>

fun canonicalize :: "uval \<Rightarrow> uval" where
  "canonicalize (UArr vs) = UArr (map canonicalize vs)"
| "canonicalize (UObj fs) =
     UObj (js_object (sort_key fst (map (\<lambda>(k, v). (k, canonicalize v)) fs)))"
| "canonicalize v = v"

definition canonicalJson :: "uval \<Rightarrow> int list" where
  "canonicalJson v = json_stringify (canonicalize v)"

subsection \<open>Dates\<close>

text \<open>\<open>Date.parse\<close> of a timestamp the schema accepts, in milliseconds; \<open>None\<close> is \<open>NaN\<close>.\<close>

definition Date_parse :: "string \<Rightarrow> int option" where
  "Date_parse s =
     map_option (\<lambda>t. wholeSeconds t * 1000 + int (digits_value 0 (take 3 (padEnd 3 (fraction t)))))
       (parseRfc3339Instant s)"

text \<open>
  \<open>toISOString\<close> for the years 0 to 9999: the year whose first day is the last one not after the
  day, and its month likewise.
\<close>

definition year_of_day :: "int \<Rightarrow> int" where
  "year_of_day n =
     (let y = 1970 + n * 400 div 146097 in
      if daysFromUnixEpoch (y + 1) 1 1 \<le> n then y + 1
      else if daysFromUnixEpoch y 1 1 \<le> n then y else y - 1)"

definition month_of_day :: "int \<Rightarrow> int \<Rightarrow> int" where
  "month_of_day y n = last (filter (\<lambda>m. daysFromUnixEpoch y m 1 \<le> n) [1..12])"

definition date_of_day :: "int \<Rightarrow> int \<times> int \<times> int" where
  "date_of_day n =
     (let y = year_of_day n; m = month_of_day y n in (y, m, n - daysFromUnixEpoch y m 1 + 1))"

definition digit_char :: "int \<Rightarrow> char" where
  "digit_char n = char_of (48 + n)"

definition padded :: "nat \<Rightarrow> int \<Rightarrow> string" where
  "padded k n = map (\<lambda>i. digit_char (n div 10 ^ i mod 10)) (rev [0..<k])"

definition toISOString :: "int \<Rightarrow> string" where
  "toISOString t =
     (let ms = t mod 86400000 in
      case date_of_day (t div 86400000) of (y, m, d) \<Rightarrow>
        padded 4 y @ ''-'' @ padded 2 m @ ''-'' @ padded 2 d @ ''T''
        @ padded 2 (ms div 3600000) @ '':'' @ padded 2 (ms div 60000 mod 60) @ '':''
        @ padded 2 (ms div 1000 mod 60) @ ''.'' @ padded 3 (ms mod 1000) @ ''Z'')"

lemma date_examples:
  "toISOString 0 = ''1970-01-01T00:00:00.000Z''"
  "toISOString 1709210096789 = ''2024-02-29T12:34:56.789Z''"
  "Date_parse ''2024-02-29T13:34:56.7891+01:00'' = Some 1709210096789"
  by code_simp+

subsection \<open>Payloads and the envelope\<close>

record ConnectorHelloPayload =
  he_connector_id :: string
  he_connector_version :: "string option"
  he_capabilities :: "string list option"
  he_last_server_sequence :: int
  he_last_client_sequence :: "int option"

record JobClaimPayload =
  jl_job_id :: string
  jl_attempt :: int
  jl_lease_id :: string

record JobEventPayload =
  je_job_id :: string
  je_attempt :: int
  je_event_type :: string
  je_payload :: "(int list \<times> uval) list"
  je_source :: string

record JobCancelledPayload =
  jx_job_id :: string
  jx_attempt :: int
  jx_reason :: string

datatype client_payload =
    Hello ConnectorHelloPayload
  | Heartbeat
  | Claim JobClaimPayload
  | Sync JobSyncPayload
  | Event JobEventPayload
  | Requested ApprovalRequestedPayload
  | WasCancelled JobCancelledPayload
  | Acknowledge int

record ConnectorClientMessage =
  cm_message_id :: string
  cm_sequence :: int
  cm_sent_at :: string
  cm_expires_at :: string
  cm_correlation_id :: string
  cm_payload :: client_payload

definition client_type :: "client_payload \<Rightarrow> string" where
  "client_type p =
     (case p of
        Hello h \<Rightarrow> ''connector.hello'' | Heartbeat \<Rightarrow> ''connector.heartbeat''
      | Claim c \<Rightarrow> ''job.claim'' | Sync s \<Rightarrow> ''job.sync'' | Event e \<Rightarrow> ''job.event''
      | Requested a \<Rightarrow> ''approval.requested'' | WasCancelled c \<Rightarrow> ''job.cancelled''
      | Acknowledge n \<Rightarrow> ''ack'')"

definition optional_member :: "string \<Rightarrow> jsval option \<Rightarrow> (string \<times> jsval) list" where
  "optional_member key v = (case v of None \<Rightarrow> [] | Some x \<Rightarrow> [(key, x)])"

text \<open>The payload as the object it is in the code; an event's payload apart.\<close>

definition client_members :: "client_payload \<Rightarrow> (string \<times> jsval) list" where
  "client_members p =
     (case p of
        Hello h \<Rightarrow>
          [(''connector_id'', JStr (he_connector_id h))]
          @ optional_member ''connector_version'' (map_option JStr (he_connector_version h))
          @ optional_member ''capabilities'' (map_option (\<lambda>cs. JArr (map JStr cs)) (he_capabilities h))
          @ [(''last_server_sequence'', int_value (he_last_server_sequence h))]
          @ optional_member ''last_client_sequence'' (map_option int_value (he_last_client_sequence h))
      | Heartbeat \<Rightarrow> []
      | Claim c \<Rightarrow>
          [(''job_id'', JStr (jl_job_id c)), (''attempt'', int_value (jl_attempt c)),
           (''lease_id'', JStr (jl_lease_id c))]
      | Sync s \<Rightarrow>
          [(''job_id'', JStr (sy_job_id s)), (''attempt'', int_value (sy_attempt s)),
           (''nonce'', JStr (sy_nonce s))]
      | Event v \<Rightarrow>
          [(''job_id'', JStr (je_job_id v)), (''attempt'', int_value (je_attempt v)),
           (''event_type'', JStr (je_event_type v)), (''source'', JStr (je_source v))]
      | Requested a \<Rightarrow>
          [(''approval_id'', JStr (arp_approval_id a)), (''job_id'', JStr (arp_job_id a)),
           (''attempt'', int_value (arp_attempt a)), (''job_revision'', int_value (arp_job_revision a)),
           (''action_summary'', JStr (arp_action_summary a)),
           (''impact_summary'', JStr (arp_impact_summary a)), (''risk_class'', JStr (arp_risk_class a)),
           (''action_fingerprint'', JStr (arp_action_fingerprint a)),
           (''expires_at'', JStr (arp_expires_at a))]
      | WasCancelled c \<Rightarrow>
          [(''job_id'', JStr (jx_job_id c)), (''attempt'', int_value (jx_attempt c)),
           (''reason'', JStr (jx_reason c))]
      | Acknowledge n \<Rightarrow> [(''sequence'', int_value n)])"

definition client_value :: "client_payload \<Rightarrow> uval" where
  "client_value p =
     (case (uval_of (JObj (client_members p)), p) of
        (UObj fs, Event v) \<Rightarrow> UObj (fs @ [(units ''payload'', UObj (je_payload v))])
      | (v, _) \<Rightarrow> v)"

end
