(* ===== verification/Outbox.thy ===== *)
theory Outbox
  imports Repository_Invariants Client_Messages
begin

section \<open>The connector store\<close>

text \<open>
  \<open>apps/control-plane/src/connector/outbox.ts\<close>: \<open>PostgresConnectorStore\<close>, the durable side of the
  connector protocol. Each method is a transaction over the tables of \<open>Db_Schema\<close>, one atomic step
  as in \<open>Job_Repository\<close>. What it reads from outside is an \<open>env\<close>; the successive readings of
  \<open>clock_timestamp()\<close> and the generated UUIDs have fixed numbers, in the order of the code. \<open>deps\<close>
  holds what is not part of the repository: SHA-256 of a text in hexadecimal, zod's test for UUIDs
  and the Unicode classes \<open>P\<close> and \<open>S\<close>.
\<close>

subsection \<open>Constants, errors and records\<close>

definition HEARTBEAT_INTERVAL_MS :: int where "HEARTBEAT_INTERVAL_MS = 10000"
definition CONNECTOR_STALE_AFTER_MS :: int where "CONNECTOR_STALE_AFTER_MS = 20000"
definition CONNECTOR_OFFLINE_AFTER_MS :: int where "CONNECTOR_OFFLINE_AFTER_MS = 30000"
definition OFFER_LEASE_MS :: int where "OFFER_LEASE_MS = 30000"
definition SERVER_REPLAY_BATCH_SIZE :: nat where "SERVER_REPLAY_BATCH_SIZE = 100"
definition REPLAY_TOMBSTONE_RETENTION_MS :: int where "REPLAY_TOMBSTONE_RETENTION_MS = 2592000000"

definition CLAIMED_JOB_STATES :: "JobStatus list" where
  "CLAIMED_JOB_STATES = [Running, Waiting_approval, Cancelling]"

definition STORED_RESPONSE_KEY :: string where "STORED_RESPONSE_KEY = ''__qhb_original_response''"
definition RECEIPT_PROFILE_KEY :: string where "RECEIPT_PROFILE_KEY = ''__qhb_receipt_profile''"
definition COORDINATION_PROFILE_KEY :: string where
  "COORDINATION_PROFILE_KEY = ''__qhb_coordination_profile''"
definition RECEIPT_ACK_KEY :: string where "RECEIPT_ACK_KEY = ''__qhb_receipt_ack''"
definition DURABLE_RECEIPTS :: string where "DURABLE_RECEIPTS = ''durable-receipts-v1''"
definition JOB_COORDINATION_CAPABILITY :: string where
  "JOB_COORDINATION_CAPABILITY = ''job-coordination-v1''"
definition BUSINESS_EXPIRED_MESSAGE :: string where
  "BUSINESS_EXPIRED_MESSAGE = ''The business deadline has expired.''"
definition AUTHORITY_CHANGED_MESSAGE :: string where
  "AUTHORITY_CHANGED_MESSAGE = ''The job authority has changed.''"
definition BUSINESS_LIMIT_MESSAGE :: string where
  "BUSINESS_LIMIT_MESSAGE = ''The job business limit has been reached.''"
definition AUTHORITY_UNAVAILABLE_MESSAGE :: string where
  "AUTHORITY_UNAVAILABLE_MESSAGE = ''The job authority is unavailable.''"
definition CLAIM_REJECTED_MESSAGE :: string where
  "CLAIM_REJECTED_MESSAGE = ''The offered job was cancelled before it was claimed.''"

datatype ConnectorStoreErrorCode =
    AUTHORIZATION_FAILED | CLIENT_SEQUENCE_GAP | CLIENT_REPLAY_MISMATCH | CLAIM_REJECTED
  | EVENT_REJECTED | JOB_AUTHORITY_UNAVAILABLE | MESSAGE_EXPIRED | INTERNAL

fun store_code :: "ConnectorStoreErrorCode \<Rightarrow> string" where
  "store_code AUTHORIZATION_FAILED = ''AUTHORIZATION_FAILED''"
| "store_code CLIENT_SEQUENCE_GAP = ''CLIENT_SEQUENCE_GAP''"
| "store_code CLIENT_REPLAY_MISMATCH = ''CLIENT_REPLAY_MISMATCH''"
| "store_code CLAIM_REJECTED = ''CLAIM_REJECTED''"
| "store_code EVENT_REJECTED = ''EVENT_REJECTED''"
| "store_code JOB_AUTHORITY_UNAVAILABLE = ''JOB_AUTHORITY_UNAVAILABLE''"
| "store_code MESSAGE_EXPIRED = ''MESSAGE_EXPIRED''"
| "store_code INTERNAL = ''INTERNAL''"

text \<open>
  What a method throws: a \<open>ConnectorStoreError\<close> with its code and message, one of its two
  subclasses, an error of the database or of the job state machine, or a schema's error.
\<close>

datatype store_thrown =
    ConnectorStoreError ConnectorStoreErrorCode string
  | BusinessDeadlineExpired ConnectorStoreErrorCode
  | BusinessConflict ConnectorStoreErrorCode string
  | DatabaseError thrown
  | ZodError

type_synonym 'a store_tx = "(store_thrown, db, 'a) tx"

record deps =
  dp_sha256 :: "int list \<Rightarrow> string"
  dp_is_uuid :: "string \<Rightarrow> bool"
  dp_punct :: "int list \<Rightarrow> bool"

record ConnectorIdentity =
  ci_ownerId :: string
  ci_connectorId :: string
  ci_protocolVersion :: string

record StoredServerMessage =
  ss_connectorId :: string
  ss_sequence :: int
  ss_messageId :: string
  ss_type :: string
  ss_payload :: "(string \<times> jsval) list"
  ss_correlationId :: string
  ss_expiresAt :: int
  ss_createdAt :: int

record ClientMessageAcceptance =
  ac_duplicate :: bool
  ac_replay :: "StoredServerMessage list"
  ac_response :: "StoredServerMessage option"

record OriginalResponse =
  or_row :: message_row
  or_type :: string
  or_payload :: "(string \<times> jsval) list"

definition store_error :: "ConnectorStoreErrorCode \<Rightarrow> 'a store_tx" where
  "store_error code = tx_throw (ConnectorStoreError code (store_code code))"

definition internal_error :: "string \<Rightarrow> store_thrown" where
  "internal_error text = ConnectorStoreError INTERNAL text"

definition on_db :: "'a job_tx \<Rightarrow> 'a store_tx" where
  "on_db m d = (case m d of Inl e \<Rightarrow> Inl (DatabaseError e) | Inr r \<Rightarrow> Inr r)"

definition rejectConflict :: "bool \<Rightarrow> ConnectorStoreErrorCode \<Rightarrow> store_thrown" where
  "rejectConflict coordination code =
     (if coordination then BusinessConflict code AUTHORITY_CHANGED_MESSAGE
      else ConnectorStoreError code (store_code code))"

definition checkedJobIncrement ::
  "int \<Rightarrow> bool \<Rightarrow> ConnectorStoreErrorCode \<Rightarrow> int store_tx" where
  "checkedJobIncrement n coordination code =
     (if n < 0 \<or> n > 2147483647 then tx_throw (internal_error ''Invalid job business value'')
      else if n = 2147483647 then
        tx_throw (if coordination then BusinessConflict code BUSINESS_LIMIT_MESSAGE
                  else ConnectorStoreError code BUSINESS_LIMIT_MESSAGE)
      else tx_return (n + 1))"

definition assertSafeSequence :: "int \<Rightarrow> unit store_tx" where
  "assertSafeSequence n =
     tx_check (isSafeInteger n \<and> \<not> n < 0) (internal_error ''Invalid Connector sequence'')"

definition clock_ms :: "env \<Rightarrow> nat \<Rightarrow> int" where
  "clock_ms e k = js_date (env_clock e k)"

subsection \<open>Statements on the message table\<close>

definition update_messages ::
  "(message_row \<Rightarrow> bool) \<Rightarrow> (message_row \<Rightarrow> message_row) \<Rightarrow> message_row list store_tx" where
  "update_messages p f d =
     (let rows = sql_returning p f (connectorMessages d); table = sql_update p f (connectorMessages d) in
      if list_ex (\<lambda>m. length (m_type m) > 64) rows then Inl (DatabaseError (PgError ''22001''))
      else if \<not> distinct (map message_key table) then Inl (DatabaseError (PgError ''23505''))
      else Inr (rows, d\<lparr>connectorMessages := table\<rparr>))"

definition select_message :: "(message_row \<Rightarrow> bool) \<Rightarrow> message_row option store_tx" where
  "select_message p = tx_read (\<lambda>d. first_row (filter p (connectorMessages d)))"

definition server_row :: "string \<Rightarrow> message_row \<Rightarrow> bool" where
  "server_row cid m = (m_connectorId m = cid \<and> m_direction m = Server)"

definition insert_approval :: "approval_row \<Rightarrow> unit job_tx" where
  "insert_approval r =
     tx_bind (pg_check (approval_row_error r)) (\<lambda>_.
     tx_bind (tx_read (\<lambda>d.
        if a_id r \<in> set (map a_id (approvals d)) then Some ''23505''
        else if a_jobId r \<notin> set (map j_id (jobs d)) then Some ''23503'' else None)) (\<lambda>err.
     tx_bind (pg_check err) (\<lambda>_. \<lambda>d. Inr ((), d\<lparr>approvals := approvals d @ [r]\<rparr>))))"

text \<open>\<open>payload->>'key'\<close>: the text of a member. An object or a list is never compared equal to one.\<close>

definition json_text :: "jsval \<Rightarrow> string option" where
  "json_text v =
     (case v of
        JStr s \<Rightarrow> Some s
      | JNum q \<Rightarrow> Some (text_of (number_text q))
      | JBool b \<Rightarrow> Some (if b then ''true'' else ''false'')
      | _ \<Rightarrow> None)"

definition payload_text :: "(string \<times> jsval) list \<Rightarrow> string \<Rightarrow> string option" where
  "payload_text fs key = json_text (get_prop fs key)"

subsection \<open>Stored client messages\<close>

definition clean_text :: "deps \<Rightarrow> int \<Rightarrow> string \<Rightarrow> string" where
  "clean_text dp maxLength s = text_of (sanitizeConnectorText (dp_punct dp) maxLength (units s))"

definition clean_event_payload :: "deps \<Rightarrow> (int list \<times> uval) list \<Rightarrow> (string \<times> jsval) list" where
  "clean_event_payload dp fs =
     (case jsval_of (UObj (sanitizeConnectorEventPayload (dp_punct dp) fs)) of JObj gs \<Rightarrow> gs | _ \<Rightarrow> [])"

definition stored_payload_value :: "deps \<Rightarrow> client_payload \<Rightarrow> jsval" where
  "stored_payload_value dp p =
     (case p of
        Event v \<Rightarrow>
          JObj [(''job_id'', JStr (je_job_id v)), (''attempt'', int_value (je_attempt v)),
                (''event_type'', JStr (clean_text dp 64 (je_event_type v))),
                (''payload'', JObj (clean_event_payload dp (je_payload v))),
                (''source'', JStr (clean_text dp 32 (je_source v)))]
      | _ \<Rightarrow> jsval_of (sanitizeDurableClientValue (dp_punct dp) (client_value p)))"

definition storedClientPayload ::
  "deps \<Rightarrow> ConnectorClientMessage \<Rightarrow> store_thrown + (string \<times> jsval) list" where
  "storedClientPayload dp message =
     (case (rfc3339InstantKey (cm_sent_at message), rfc3339InstantKey (cm_expires_at message)) of
        (Some sentAt, Some expiresAt) \<Rightarrow>
          Inr [(''payload'', stored_payload_value dp (cm_payload message)),
               (''payload_digest'',
                 JStr (''sha256:'' @ dp_sha256 dp (canonicalJson (client_value (cm_payload message))))),
               (''sent_at_instant'', JStr sentAt), (''expires_at_instant'', JStr expiresAt)]
      | _ \<Rightarrow> Inl (internal_error ''Invalid Connector timestamp''))"

definition durable_receipt :: "(string \<times> jsval) list \<Rightarrow> bool" where
  "durable_receipt fs = (get_prop fs RECEIPT_PROFILE_KEY = JStr DURABLE_RECEIPTS)"

definition coordination_receipt :: "(string \<times> jsval) list \<Rightarrow> bool" where
  "coordination_receipt fs =
     (get_prop fs COORDINATION_PROFILE_KEY = JStr JOB_COORDINATION_CAPABILITY)"

definition same_json :: "(string \<times> jsval) list \<Rightarrow> (string \<times> jsval) list \<Rightarrow> bool" where
  "same_json fs gs = (canonicalJson (uval_of (JObj fs)) = canonicalJson (uval_of (JObj gs)))"

definition isExactDuplicate ::
  "deps \<Rightarrow> message_row \<Rightarrow> ConnectorClientMessage \<Rightarrow> store_thrown + bool" where
  "isExactDuplicate dp row message =
     (let durable = durable_receipt (m_payload row) in
      if m_direction row \<noteq> Client \<or> m_sequence row \<noteq> cm_sequence message
         \<or> m_type row \<noteq> client_type (cm_payload message)
         \<or> m_correlationId row \<noteq> cm_correlation_id message
         \<or> \<not> durable \<and> Some (js_date (m_expiresAt row)) \<noteq> Date_parse (cm_expires_at message)
      then Inr False
      else case storedClientPayload dp message of
          Inl err \<Rightarrow> Inl err
        | Inr stored \<Rightarrow>
            Inr (same_json
              (filter (\<lambda>(key, v). key \<noteq> STORED_RESPONSE_KEY \<and> key \<noteq> RECEIPT_PROFILE_KEY
                 \<and> key \<noteq> COORDINATION_PROFILE_KEY \<and> key \<noteq> RECEIPT_ACK_KEY
                 \<and> (\<not> durable \<or> key \<noteq> ''expires_at_instant'')) (m_payload row))
              (filter (\<lambda>(key, v). \<not> durable \<or> key \<noteq> ''expires_at_instant'') stored)))"

definition toStoredServerMessage :: "message_row \<Rightarrow> StoredServerMessage store_tx" where
  "toStoredServerMessage row =
     tx_bind (assertSafeSequence (m_sequence row)) (\<lambda>_.
     tx_return \<lparr>ss_connectorId = m_connectorId row, ss_sequence = m_sequence row,
       ss_messageId = m_messageId row, ss_type = m_type row, ss_payload = m_payload row,
       ss_correlationId = m_correlationId row, ss_expiresAt = js_date (m_expiresAt row),
       ss_createdAt = js_date (m_createdAt row)\<rparr>)"

fun each_tx :: "('a \<Rightarrow> ('e, 's, 'b) tx) \<Rightarrow> 'a list \<Rightarrow> ('e, 's, 'b list) tx" where
  "each_tx f [] = tx_return []"
| "each_tx f (x # xs) = tx_bind (f x) (\<lambda>y. tx_bind (each_tx f xs) (\<lambda>ys. tx_return (y # ys)))"

subsection \<open>Replaying an original response\<close>

definition expiredTombstonePayload :: "(string \<times> jsval) list" where
  "expiredTombstonePayload =
     [(''code'', JStr ''MESSAGE_EXPIRED''),
      (''message'', JStr ''A Connector message expired before delivery.'')]"

definition cancelledTombstonePayload :: "(string \<times> jsval) list" where
  "cancelledTombstonePayload =
     [(''code'', JStr ''JOB_CANCELLED''),
      (''message'', JStr ''The offered job was cancelled before it was claimed.'')]"

text \<open>The payload of a parsed server message, as the object it is in the code.\<close>

definition nullable_value :: "('a \<Rightarrow> jsval) \<Rightarrow> 'a option \<Rightarrow> jsval" where
  "nullable_value f v = (case v of None \<Rightarrow> JNull | Some x \<Rightarrow> f x)"

definition state_members :: "JobStatePayload \<Rightarrow> (string \<times> jsval) list" where
  "state_members p =
     [(''job_id'', JStr (js_job_id p)), (''repository_id'', JStr (js_repository_id p)),
      (''mode'', JStr (mode_string (js_mode p))),
      (''requested_attempt'', int_value (js_requested_attempt p)),
      (''current_attempt'', int_value (js_current_attempt p)),
      (''status'', JStr (status_string (js_status p))),
      (''job_revision'', int_value (js_job_revision p)),
      (''cancel_revision'', nullable_value int_value (js_cancel_revision p)),
      (''lease_id'', nullable_value JStr (js_lease_id p)),
      (''lease_expires_at'', nullable_value JStr (js_lease_expires_at p)),
      (''expires_at'', JStr (js_expires_at p)), (''observed_at'', JStr (js_observed_at p)),
      (''state_valid_until'', JStr (js_state_valid_until p)),
      (''request_message_id'', JStr (js_request_message_id p)),
      (''request_sequence'', int_value (js_request_sequence p)), (''nonce'', JStr (js_nonce p))]"

definition server_members :: "server_payload \<Rightarrow> (string \<times> jsval) list" where
  "server_members p =
     (case p of
        Welcome w \<Rightarrow>
          [(''connector_id'', JStr (cw_connector_id w))]
          @ optional_member ''capabilities'' (map_option (\<lambda>cs. JArr (map JStr cs)) (cw_capabilities w))
          @ [(''server_sequence'', int_value (cw_server_sequence w)),
             (''replay_from'', int_value (cw_replay_from w))]
      | State s \<Rightarrow> state_members s
      | Ack n \<Rightarrow> [(''sequence'', int_value n)]
      | ProtocolError code text \<Rightarrow> [(''code'', JStr code), (''message'', JStr text)]
      | _ \<Rightarrow> [])"

definition business_message :: "client_payload \<Rightarrow> bool" where
  "business_message p =
     (client_type p \<in> set [''job.claim'', ''job.event'', ''approval.requested'', ''job.cancelled''])"

definition is_claim :: "client_payload \<Rightarrow> bool" where
  "is_claim p = (client_type p = ''job.claim'')"

text \<open>
  The checks of \<open>validateResponse\<close> on a response whose envelope has parsed: it answers the message.
  A welcome, a state and an acknowledgement repeat fields of the message; a rejection is one the
  message's kind and receipt profile can have had.
\<close>

definition rejection_fits :: "bool \<Rightarrow> bool \<Rightarrow> client_payload \<Rightarrow> string \<Rightarrow> string \<Rightarrow> bool" where
  "rejection_fits durable coordination p code text =
     (if durable \<and> business_message p
         \<and> code = (if is_claim p then ''CLAIM_REJECTED'' else ''EVENT_REJECTED'')
         \<and> (text = BUSINESS_EXPIRED_MESSAGE
            \<or> coordination \<and> text \<in> set [AUTHORITY_CHANGED_MESSAGE, BUSINESS_LIMIT_MESSAGE]
            \<or> is_claim p \<and> text = CLAIM_REJECTED_MESSAGE)
      then True
      else is_claim p \<and> code = ''CLAIM_REJECTED'' \<and> text = CLAIM_REJECTED_MESSAGE)"

definition response_fits ::
  "bool \<Rightarrow> bool \<Rightarrow> string \<Rightarrow> string \<Rightarrow> int \<Rightarrow> ConnectorClientMessage \<Rightarrow> server_payload \<Rightarrow> bool" where
  "response_fits durable coordination responseKey connectorId rowSequence message response =
     (let ordinary =
        (case response of
           Ack n \<Rightarrow> n = cm_sequence message
         | ProtocolError code text \<Rightarrow>
             rejection_fits durable coordination (cm_payload message) code text
         | _ \<Rightarrow> False) in
      case cm_payload message of
        Hello h \<Rightarrow>
          (case response of
             Welcome w \<Rightarrow> cw_connector_id w = connectorId \<and> cw_server_sequence w = rowSequence
               \<and> cw_replay_from w = he_last_server_sequence h + 1
           | _ \<Rightarrow> False)
      | Sync s \<Rightarrow>
          if responseKey = STORED_RESPONSE_KEY then
            (case response of
               ProtocolError code text \<Rightarrow>
                 coordination \<and> code = ''JOB_AUTHORITY_UNAVAILABLE'' \<and> text = AUTHORITY_UNAVAILABLE_MESSAGE
             | State p \<Rightarrow>
                 coordination \<and> js_job_id p = sy_job_id s \<and> js_requested_attempt p = sy_attempt s
                 \<and> js_request_message_id p = cm_message_id message
                 \<and> js_request_sequence p = cm_sequence message \<and> js_nonce p = sy_nonce s
             | _ \<Rightarrow> False)
          else ordinary
      | _ \<Rightarrow> ordinary)"

definition response_envelope :: "message_row \<Rightarrow> jsval \<Rightarrow> jsval \<Rightarrow> jsval \<Rightarrow> jsval" where
  "response_envelope row type payload sequence =
     (let createdAtMs = js_date (m_createdAt row); expiresAtMs = js_date (m_expiresAt row) in
      JObj [(''protocol_version'', JStr ''1.0''), (''message_id'', JStr (m_messageId row)),
        (''sequence'', sequence), (''sent_at'', JStr (toISOString createdAtMs)),
        (''expires_at'', JStr (toISOString (max expiresAtMs (createdAtMs + 1)))),
        (''correlation_id'', JStr (m_correlationId row)), (''type'', type), (''payload'', payload)])"

definition safe_positive :: "jsval \<Rightarrow> int option" where
  "safe_positive v = bounded_int 1 MAX_SAFE_INTEGER v"

definition validateResponse ::
  "deps \<Rightarrow> bool \<Rightarrow> bool \<Rightarrow> string \<Rightarrow> string \<Rightarrow> ConnectorClientMessage \<Rightarrow> message_row \<Rightarrow> jsval \<Rightarrow> jsval
     \<Rightarrow> jsval \<Rightarrow> jsval \<Rightarrow> OriginalResponse option" where
  "validateResponse dp durable coordination responseKey connectorId message candidate type payload
     sequence correlationId =
     (if \<not> server_row connectorId candidate \<or> m_correlationId candidate \<noteq> cm_correlation_id message
         \<or> correlationId \<noteq> JStr (cm_correlation_id message)
         \<or> safe_positive sequence \<noteq> Some (m_sequence candidate)
      then None
      else case ConnectorServerMessageSchema (dp_is_uuid dp)
          (response_envelope candidate type payload sequence) of
        None \<Rightarrow> None
      | Some response \<Rightarrow>
          if response_fits durable coordination responseKey connectorId (m_sequence candidate) message
            (sm_payload response)
          then Some \<lparr>or_row = candidate,
            or_type = (case the_str type of Some t \<Rightarrow> t | None \<Rightarrow> []),
            or_payload = server_members (sm_payload response)\<rparr>
          else None)"

definition expired_row :: "message_row \<Rightarrow> bool" where
  "expired_row row =
     (m_type row = ''protocol.error'' \<and> get_prop (m_payload row) ''code'' = JStr ''MESSAGE_EXPIRED'')"

definition findOriginalResponse ::
  "deps \<Rightarrow> string \<Rightarrow> ConnectorClientMessage \<Rightarrow> message_row \<Rightarrow> string \<Rightarrow> OriginalResponse option store_tx"
  where
  "findOriginalResponse dp connectorId message clientMessage responseKey =
     (let stored = m_payload clientMessage;
          durable = durable_receipt stored;
          coordination = durable \<and> coordination_receipt stored;
          missing = internal_error ''Original response is missing'';
          invalid = internal_error ''Original response is invalid'' in
      if client_type (cm_payload message) = ''ack'' \<and> \<not> durable then tx_return None
      else
        tx_bind (tx_check
          (\<not> (get_prop stored COORDINATION_PROFILE_KEY \<noteq> JUndefined \<and> \<not> coordination
              \<or> client_type (cm_payload message) = ''job.sync'' \<and> \<not> coordination))
          (internal_error ''Original coordination profile is invalid'')) (\<lambda>_.
        case asRecord (get_prop stored responseKey) of
          None \<Rightarrow> tx_throw missing
        | Some response \<Rightarrow>
        (case (the_str (get_prop response ''type''), safe_positive (get_prop response ''sequence'')) of
           (Some type, Some sequence) \<Rightarrow>
        tx_bind (tx_check
          (\<not> (coordination
              \<and> get_prop response ''correlation_id'' \<noteq> JStr (cm_correlation_id message))) missing) (\<lambda>_.
        tx_bind (tx_read (\<lambda>d. take 2 (filter (\<lambda>m. server_row connectorId m \<and> m_sequence m = sequence)
          (connectorMessages d)))) (\<lambda>rows.
        case rows of
          [row] \<Rightarrow>
            let storedCorrelationId =
              (if ''correlation_id'' \<in> set (map fst response) then get_prop response ''correlation_id''
               else JStr (m_correlationId row)) in
            tx_bind (tx_check
              (\<not> (coordination \<and> expired_row row
                  \<and> \<not> same_json (m_payload row) expiredTombstonePayload)) invalid) (\<lambda>_.
            tx_bind (tx_check
              (storedCorrelationId = JStr (m_correlationId row)
               \<and> (m_type row = type \<or> expired_row row)) invalid) (\<lambda>_.
            tx_bind (tx_check
              (expired_row row
               \<or> m_type row = type
                 \<and> canonicalJson (uval_of (JObj (m_payload row)))
                   = canonicalJson (uval_of (get_prop response ''payload''))) invalid) (\<lambda>_.
            case validateResponse dp durable coordination responseKey connectorId message row
              (JStr type) (get_prop response ''payload'') (get_prop response ''sequence'')
              storedCorrelationId of
              None \<Rightarrow> tx_throw invalid
            | Some original \<Rightarrow> tx_return (Some original))))
        | _ \<Rightarrow> tx_throw missing))
         | _ \<Rightarrow> tx_throw missing)))"

definition refreshServerMessage ::
  "env \<Rightarrow> nat \<Rightarrow> OriginalResponse \<Rightarrow> int \<Rightarrow> StoredServerMessage store_tx" where
  "refreshServerMessage e u original now =
     tx_bind (update_messages
       (\<lambda>m. m_id m = m_id (or_row original) \<and> m_messageId m = m_messageId (or_row original)
          \<and> m_direction m = Server)
       (\<lambda>m. m\<lparr>m_messageId := env_uuid e u, m_type := or_type original,
          m_payload := or_payload original, m_expiresAt := pg_time (now + 60000),
          m_createdAt := pg_time now\<rparr>)) (\<lambda>refreshed.
     case first_row refreshed of
       None \<Rightarrow> tx_throw (internal_error ''Original response changed'')
     | Some row \<Rightarrow> toStoredServerMessage row)"

text \<open>\<open>payload || {key: ...}\<close>\<close>

definition response_value :: "StoredServerMessage \<Rightarrow> jsval" where
  "response_value r =
     JObj [(''type'', JStr (ss_type r)), (''payload'', JObj (ss_payload r)),
           (''sequence'', int_value (ss_sequence r)), (''correlation_id'', JStr (ss_correlationId r))]"

definition rememberOriginalResponse ::
  "string \<Rightarrow> ConnectorClientMessage \<Rightarrow> StoredServerMessage \<Rightarrow> string \<Rightarrow> unit store_tx" where
  "rememberOriginalResponse connectorId message response responseKey =
     tx_bind (update_messages
       (\<lambda>m. m_connectorId m = connectorId \<and> m_direction m = Client
          \<and> m_messageId m = cm_message_id message)
       (\<lambda>m. m\<lparr>m_payload := put_key responseKey (response_value response) (m_payload m)\<rparr>)) (\<lambda>updated.
     tx_check (length updated = 1) (internal_error ''Client message changed''))"

subsection \<open>Tombstones\<close>

definition replaceServerMessage ::
  "env \<Rightarrow> nat \<Rightarrow> message_row \<Rightarrow> int \<Rightarrow> (string \<times> jsval) list \<Rightarrow> string option \<Rightarrow> bool \<Rightarrow> unit store_tx" where
  "replaceServerMessage e u row now payload expectedType expired =
     tx_bind (update_messages
       (\<lambda>m. m_id m = m_id row \<and> m_messageId m = m_messageId row \<and> m_direction m = Server
          \<and> (case expectedType of None \<Rightarrow> True | Some t \<Rightarrow> m_type m = t)
          \<and> (expired \<longrightarrow> m_expiresAt m \<le> pg_time now))
       (\<lambda>m. m\<lparr>m_messageId := env_uuid e u, m_type := ''protocol.error'', m_payload := payload,
          m_expiresAt := pg_time (now + REPLAY_TOMBSTONE_RETENTION_MS)\<rparr>)) (\<lambda>_.
     tx_return ())"

definition joined_job :: "db \<Rightarrow> message_row \<Rightarrow> (message_row \<times> job_row option) list" where
  "joined_job d m =
     (case filter (\<lambda>j. payload_text (m_payload m) ''job_id'' = Some (j_id j)) (jobs d) of
        [] \<Rightarrow> [(m, None)]
      | js \<Rightarrow> map (\<lambda>j. (m, Some j)) js)"

definition needs_tombstone :: "string \<Rightarrow> int \<Rightarrow> int \<Rightarrow> message_row \<times> job_row option \<Rightarrow> bool" where
  "needs_tombstone connectorId afterSequence now mj =
     (case mj of (m, j) \<Rightarrow>
        server_row connectorId m \<and> m_sequence m > afterSequence
        \<and> (m_expiresAt m \<le> pg_time now
           \<or> m_type m = ''job.offer''
             \<and> (case j of None \<Rightarrow> False
                | Some job \<Rightarrow> j_status job \<in> set [Cancelled, Expired, Failed, Succeeded])))"

definition tombstone_candidates ::
  "string \<Rightarrow> int \<Rightarrow> int \<Rightarrow> db \<Rightarrow> (message_row \<times> job_row option) list" where
  "tombstone_candidates connectorId afterSequence now d =
     take SERVER_REPLAY_BATCH_SIZE
       (sort_key (\<lambda>mj. m_sequence (fst mj))
         (filter (needs_tombstone connectorId afterSequence now)
           (concat (map (joined_job d) (connectorMessages d)))))"

definition tombstone_one :: "env \<Rightarrow> int \<Rightarrow> nat \<times> message_row \<times> job_row option \<Rightarrow> unit store_tx" where
  "tombstone_one e now imj =
     (case imj of (i, m, job) \<Rightarrow>
        let inactiveOffer = m_type m = ''job.offer'' \<and> job \<noteq> None in
        replaceServerMessage e (100 + i) m now
          (if inactiveOffer \<and> map_option j_status job = Some Cancelled
           then cancelledTombstonePayload else expiredTombstonePayload)
          (if inactiveOffer then Some ''job.offer'' else None)
          (\<not> inactiveOffer \<or> js_date (m_expiresAt m) \<le> now))"

definition tombstoneReplayBatch :: "env \<Rightarrow> string \<Rightarrow> int \<Rightarrow> int \<Rightarrow> unit store_tx" where
  "tombstoneReplayBatch e connectorId afterSequence now =
     tx_bind (tx_read (tombstone_candidates connectorId afterSequence now)) (\<lambda>candidates.
     tx_bind (each_tx (tombstone_one e now) (zip [0..<length candidates] candidates)) (\<lambda>_.
     tx_return ()))"

definition replay_rows :: "string \<Rightarrow> int \<Rightarrow> db \<Rightarrow> message_row list" where
  "replay_rows connectorId afterSequence d =
     take SERVER_REPLAY_BATCH_SIZE
       (sort_key m_sequence
         (filter (\<lambda>m. server_row connectorId m \<and> m_sequence m > afterSequence) (connectorMessages d)))"

subsection \<open>Connectors and jobs of a client\<close>

definition validateConnector ::
  "connector_row option \<Rightarrow> ConnectorIdentity \<Rightarrow> connector_row store_tx" where
  "validateConnector row identity =
     (case row of
        None \<Rightarrow> store_error AUTHORIZATION_FAILED
      | Some c \<Rightarrow>
          if c_ownerId c \<noteq> ci_ownerId identity \<or> c_protocolVersion c \<noteq> ci_protocolVersion identity
             \<or> ci_protocolVersion identity \<noteq> ''1.0''
          then store_error AUTHORIZATION_FAILED
          else tx_bind (assertSafeSequence (c_lastClientSequence c)) (\<lambda>_.
               tx_bind (assertSafeSequence (c_lastServerSequence c)) (\<lambda>_. tx_return c)))"

definition readConnector :: "ConnectorIdentity \<Rightarrow> connector_row store_tx" where
  "readConnector identity =
     tx_bind (tx_read (\<lambda>d. first_row (filter (\<lambda>c. c_id c = ci_connectorId identity) (connectors d))))
       (\<lambda>row. validateConnector row identity)"

definition lockConnector :: "ConnectorIdentity \<Rightarrow> connector_row store_tx" where
  "lockConnector identity =
     tx_bind (tx_read (\<lambda>d. first_row (filter (\<lambda>c. c_id c = ci_connectorId identity) (connectors d))))
       (\<lambda>row. validateConnector row identity)"

definition lockClientJob :: "ConnectorIdentity \<Rightarrow> string \<Rightarrow> job_row option store_tx" where
  "lockClientJob identity jobId =
     on_db (select_job (\<lambda>j. j_id j = jobId \<and> j_ownerId j = ci_ownerId identity
       \<and> j_connectorId j = Some (ci_connectorId identity)))"

text \<open>The dispatch audits of a job that its owner still has, with the job.\<close>

definition dispatch_audits ::
  "ConnectorIdentity \<Rightarrow> string \<Rightarrow> db \<Rightarrow> (event_row \<times> job_row) list" where
  "dispatch_audits identity jobId d =
     concat (map (\<lambda>ev. map (\<lambda>j. (ev, j))
         (filter (\<lambda>j. j_id j = e_jobId ev \<and> j_ownerId j = ci_ownerId identity) (jobs d)))
       (filter (\<lambda>ev. e_jobId ev = jobId \<and> e_source ev = ''control-plane''
          \<and> e_eventType ev \<in> set [''job.dispatched'', ''job.redispatched'']) (jobEvents d)))"

text \<open>The audit's deadline, when it is a canonical time stamp.\<close>

definition proof_deadline :: "jsval \<Rightarrow> int option" where
  "proof_deadline v =
     Option.bind (the_str v) (\<lambda>s. Option.bind (Date_parse s) (\<lambda>t.
       if toISOString t = s then Some t else None))"

definition hasExpiredOriginalOffer ::
  "ConnectorIdentity \<Rightarrow> JobClaimPayload \<Rightarrow> int \<Rightarrow> db \<Rightarrow> bool" where
  "hasExpiredOriginalOffer identity claim now d =
     (case filter (\<lambda>(ev, j). payload_text (e_payload ev) ''lease_id'' = Some (jl_lease_id claim))
         (dispatch_audits identity (jl_job_id claim) d) of
        [(ev, j)] \<Rightarrow>
          j_leaseId j \<noteq> Some (jl_lease_id claim)
          \<and> get_prop (e_payload ev) ''owner_id'' = JStr (ci_ownerId identity)
          \<and> get_prop (e_payload ev) ''connector_id'' = JStr (ci_connectorId identity)
          \<and> get_prop (e_payload ev) ''repository_id'' = JStr (j_repositoryId j)
          \<and> get_prop (e_payload ev) ''attempt'' = int_value (jl_attempt claim)
          \<and> get_prop (e_payload ev) ''lease_id'' = JStr (jl_lease_id claim)
          \<and> (case proof_deadline (get_prop (e_payload ev) ''lease_expires_at'') of
               None \<Rightarrow> False | Some deadline \<Rightarrow> deadline \<le> now)
      | _ \<Rightarrow> False)"

text \<open>\<open>leaseId\<close> is the claim's lease, and \<open>None\<close> for a synchronisation.\<close>

definition hasOriginalOffer ::
  "deps \<Rightarrow> ConnectorIdentity \<Rightarrow> string \<Rightarrow> int \<Rightarrow> string option \<Rightarrow> db \<Rightarrow> bool" where
  "hasOriginalOffer dp identity jobId attempt leaseId d =
     (case filter (\<lambda>(ev, j). payload_text (e_payload ev) ''connector_id'' = Some (ci_connectorId identity)
           \<and> payload_text (e_payload ev) ''attempt'' = Some (text_of (number_text (of_int attempt)))
           \<and> (case leaseId of None \<Rightarrow> True
              | Some l \<Rightarrow> payload_text (e_payload ev) ''lease_id'' = Some l))
         (dispatch_audits identity jobId d) of
        [(ev, j)] \<Rightarrow>
          get_prop (e_payload ev) ''owner_id'' = JStr (ci_ownerId identity)
          \<and> get_prop (e_payload ev) ''connector_id'' = JStr (ci_connectorId identity)
          \<and> get_prop (e_payload ev) ''repository_id'' = JStr (j_repositoryId j)
          \<and> get_prop (e_payload ev) ''attempt'' = int_value attempt
          \<and> dp_is_uuid dp jobId
          \<and> (case the_str (get_prop (e_payload ev) ''lease_id'') of None \<Rightarrow> False | Some l \<Rightarrow> dp_is_uuid dp l)
          \<and> 1 \<le> attempt \<and> attempt \<le> MAX_SAFE_INTEGER
          \<and> proof_deadline (get_prop (e_payload ev) ''lease_expires_at'') \<noteq> None
      | _ \<Rightarrow> False)"

definition assertDeadlinesAfterWrite :: "env \<Rightarrow> nat \<Rightarrow> int list \<Rightarrow> unit store_tx" where
  "assertDeadlinesAfterWrite e k deadlines =
     (let currentTime = clock_ms e k in
      if list_ex (\<lambda>t. t \<le> currentTime) (drop 1 deadlines)
      then tx_throw (BusinessDeadlineExpired EVENT_REJECTED)
      else if list_ex (\<lambda>t. t \<le> currentTime) deadlines then store_error EVENT_REJECTED
      else tx_return ())"

subsection \<open>Server messages and job events\<close>

definition server_message_row ::
  "env \<Rightarrow> nat \<Rightarrow> string \<Rightarrow> string \<Rightarrow> (string \<times> jsval) list \<Rightarrow> int \<Rightarrow> string option \<Rightarrow> int \<Rightarrow> message_row" where
  "server_message_row e u connectorId type payload expiresAt correlationId sequence =
     \<lparr>m_id = env_uuid e u, m_connectorId = connectorId, m_direction = Server, m_sequence = sequence,
      m_messageId = env_uuid e (u + 1), m_type = type, m_payload = payload,
      m_correlationId = (case correlationId of Some c \<Rightarrow> c | None \<Rightarrow> env_uuid e (u + 2)),
      m_expiresAt = pg_time expiresAt, m_acknowledgedAt = None, m_createdAt = env_now e\<rparr>"

text \<open>The connector's row is returned with its new sequence, which the code assigns to it.\<close>

definition enqueueServerMessage ::
  "env \<Rightarrow> nat \<Rightarrow> nat \<Rightarrow> connector_row \<Rightarrow> string \<Rightarrow> (string \<times> jsval) list \<Rightarrow> int option \<Rightarrow> string option
     \<Rightarrow> (StoredServerMessage \<times> connector_row) store_tx" where
  "enqueueServerMessage e k u connector type payload expiresAt correlationId =
     (let effectiveExpiresAt = (case expiresAt of Some t \<Rightarrow> t | None \<Rightarrow> clock_ms e k + 60000);
          sequence = c_lastServerSequence connector + 1;
          row = server_message_row e u (c_id connector) type payload effectiveExpiresAt correlationId
            sequence in
      tx_bind (tx_check (isSafeInteger sequence \<and> \<not> sequence < 1)
        (internal_error ''Server sequence exhausted'')) (\<lambda>_.
      tx_bind (on_db (update_connectors
        (\<lambda>c. c_id c = c_id connector \<and> c_lastServerSequence c = c_lastServerSequence connector)
        (\<lambda>c. c\<lparr>c_lastServerSequence := sequence, c_updatedAt := env_now e\<rparr>))) (\<lambda>updated.
      tx_bind (tx_check (map_option c_lastServerSequence updated = Some sequence)
        (internal_error ''Server sequence conflict'')) (\<lambda>_.
      tx_bind (on_db (insert_message row)) (\<lambda>_.
      tx_bind (toStoredServerMessage row) (\<lambda>stored.
      tx_return (stored, connector\<lparr>c_lastServerSequence := sequence\<rparr>)))))))"

definition nextJobEventSequence :: "string \<Rightarrow> int store_tx" where
  "nextJobEventSequence jobId =
     tx_bind (tx_read (\<lambda>d. foldr max (events_of d jobId) 0)) (\<lambda>current.
     tx_bind (tx_check (isSafeInteger current \<and> \<not> current < 0)
       (internal_error ''Invalid job event sequence'')) (\<lambda>_.
     tx_bind (tx_check (isSafeInteger (current + 1))
       (internal_error ''Job event sequence exhausted'')) (\<lambda>_.
     tx_return (current + 1))))"

definition appendJobEvent :: "env \<Rightarrow> nat \<Rightarrow> string \<Rightarrow> JobEventInput \<Rightarrow> unit store_tx" where
  "appendJobEvent e u jobId input =
     tx_bind (nextJobEventSequence jobId) (\<lambda>sequence.
       on_db (insert_event (event_row_of e u jobId sequence input)))"

definition connector_event ::
  "string \<Rightarrow> (string \<times> jsval) list \<Rightarrow> string \<Rightarrow> ConnectorClientMessage \<Rightarrow> JobEventInput" where
  "connector_event type payload source message =
     \<lparr>ev_type = type, ev_payload = payload, ev_source = Some source,
      ev_messageId = Some (cm_message_id message), ev_correlationId = Some (cm_correlation_id message)\<rparr>"

definition control_plane_event :: "string \<Rightarrow> (string \<times> jsval) list \<Rightarrow> JobEventInput" where
  "control_plane_event type payload =
     \<lparr>ev_type = type, ev_payload = payload, ev_source = Some ''control-plane'',
      ev_messageId = None, ev_correlationId = None\<rparr>"

definition hasUsableTerminalSummary :: "(string \<times> jsval) list \<Rightarrow> bool" where
  "hasUsableTerminalSummary payload =
     (case get_prop payload ''summary'' of
        JStr s \<Rightarrow> js_trim s \<noteq> []
      | JObj fs \<Rightarrow> fs \<noteq> []
      | _ \<Rightarrow> False)"

text \<open>The message's expiry as the number the code compares; the schema has accepted the text.\<close>

definition message_expiry :: "ConnectorClientMessage \<Rightarrow> int" where
  "message_expiry message = (case Date_parse (cm_expires_at message) of Some t \<Rightarrow> t | None \<Rightarrow> 0)"

subsection \<open>What a client message does to its job\<close>

definition request_expiry :: "ApprovalRequestedPayload \<Rightarrow> int" where
  "request_expiry p = (case Date_parse (arp_expires_at p) of Some t \<Rightarrow> t | None \<Rightarrow> 0)"

definition requested_approval ::
  "env \<Rightarrow> string \<Rightarrow> ApprovalRequestedPayload \<Rightarrow> string \<Rightarrow> string \<Rightarrow> string \<Rightarrow> approval_row" where
  "requested_approval e jobId p actionSummary impactSummary riskClass =
     \<lparr>a_id = arp_approval_id p, a_jobId = jobId, a_attempt = arp_attempt p,
      a_jobRevision = arp_job_revision p, a_actionSummary = actionSummary,
      a_impactSummary = impactSummary, a_actionFingerprint = arp_action_fingerprint p,
      a_riskClass = riskClass, a_expiresAt = pg_time (request_expiry p), a_decision = None,
      a_decidedAt = None, a_createdAt = env_now e, a_updatedAt = env_now e\<rparr>"

text \<open>A duplicate key of the approval is a rejected event, any other database error stays.\<close>

definition insert_requested_approval :: "approval_row \<Rightarrow> unit store_tx" where
  "insert_requested_approval row d =
     (case insert_approval row d of
        Inl (PgError code) \<Rightarrow>
          if code = ''23505'' then store_error EVENT_REJECTED d else Inl (DatabaseError (PgError code))
      | Inl err \<Rightarrow> Inl (DatabaseError err)
      | Inr r \<Rightarrow> Inr r)"

definition ingestApprovalRequested ::
  "deps \<Rightarrow> env \<Rightarrow> ConnectorClientMessage \<Rightarrow> ApprovalRequestedPayload \<Rightarrow> job_row option \<Rightarrow> int \<Rightarrow> bool
     \<Rightarrow> unit store_tx" where
  "ingestApprovalRequested dp e message p found now coordination =
     (case found of
        None \<Rightarrow> store_error EVENT_REJECTED
      | Some job \<Rightarrow>
      tx_bind (tx_check (j_status job \<in> set [Running, Waiting_approval] \<and> j_attempt job = arp_attempt p)
        (rejectConflict coordination EVENT_REJECTED)) (\<lambda>_.
      tx_bind (checkedJobIncrement (j_revision job) coordination EVENT_REJECTED) (\<lambda>next_revision.
      tx_bind (tx_check (arp_job_revision p = next_revision)
        (rejectConflict coordination EVENT_REJECTED)) (\<lambda>_.
      tx_bind (tx_check (\<not> (js_date (j_expiresAt job) \<le> now \<or> request_expiry p \<le> now))
        (BusinessDeadlineExpired EVENT_REJECTED)) (\<lambda>_.
      let actionSummary = clean_text dp 400 (arp_action_summary p);
          impactSummary = clean_text dp 800 (arp_impact_summary p);
          riskClass = clean_text dp 64 (arp_risk_class p);
          deadlines = [message_expiry message, js_date (j_expiresAt job), request_expiry p] in
      tx_bind (on_db (update_jobs
        (\<lambda>j. j_id j = j_id job \<and> j_revision j = j_revision job \<and> j_attempt j = arp_attempt p
           \<and> j_expiresAt j > env_clock e 10 \<and> pg_time (request_expiry p) > env_clock e 11
           \<and> pg_time (message_expiry message) > env_clock e 12)
        (\<lambda>j. j\<lparr>j_status := Waiting_approval, j_currentStage := ''waiting_approval'',
           j_revision := j_revision j + 1, j_updatedAt := pg_time now\<rparr>))) (\<lambda>updated.
      case updated of
        None \<Rightarrow>
          tx_bind (assertDeadlinesAfterWrite e 13 deadlines) (\<lambda>_. store_error EVENT_REJECTED)
      | Some _ \<Rightarrow>
      tx_bind (insert_requested_approval
        (requested_approval e (j_id job) p actionSummary impactSummary riskClass)) (\<lambda>_.
      tx_bind (appendJobEvent e 1 (j_id job) (connector_event ''approval.requested''
        [(''approval_id'', JStr (arp_approval_id p)), (''attempt'', int_value (arp_attempt p)),
         (''job_revision'', int_value (arp_job_revision p)), (''action_summary'', JStr actionSummary),
         (''impact_summary'', JStr impactSummary), (''risk_class'', JStr riskClass),
         (''action_fingerprint'', JStr (arp_action_fingerprint p)),
         (''expires_at'', JStr (arp_expires_at p))] ''connector'' message)) (\<lambda>_.
      assertDeadlinesAfterWrite e 14 deadlines))))))))"

definition mark_cancelled :: "env \<Rightarrow> int \<Rightarrow> job_row \<Rightarrow> job_row" where
  "mark_cancelled e now j =
     j\<lparr>j_status := Cancelled, j_currentStage := ''cancelled'', j_revision := j_revision j + 1,
       j_terminalAt := (case j_terminalAt j of Some t \<Rightarrow> Some t | None \<Rightarrow> Some (env_clock e 10)),
       j_requestDeleteAt :=
         (case j_requestDeleteAt j of Some t \<Rightarrow> Some t | None \<Rightarrow> Some (env_clock e 11 + hours 24)),
       j_unreadTerminal := True, j_updatedAt := pg_time now\<rparr>"

definition ingestJobCancelled ::
  "deps \<Rightarrow> env \<Rightarrow> ConnectorClientMessage \<Rightarrow> JobCancelledPayload \<Rightarrow> job_row option \<Rightarrow> int \<Rightarrow> bool
     \<Rightarrow> unit store_tx" where
  "ingestJobCancelled dp e message p found now coordination =
     (case found of
        None \<Rightarrow> store_error EVENT_REJECTED
      | Some job \<Rightarrow>
      tx_bind (tx_check (j_attempt job = jx_attempt p) (rejectConflict coordination EVENT_REJECTED)) (\<lambda>_.
      let reason = clean_text dp 400 (jx_reason p); active = j_status job = Cancelling in
      tx_bind
        (if active then
           tx_bind (tx_check (\<not> js_date (j_expiresAt job) \<le> now)
             (BusinessDeadlineExpired EVENT_REJECTED)) (\<lambda>_.
           tx_bind (checkedJobIncrement (j_revision job) coordination EVENT_REJECTED) (\<lambda>_.
           tx_bind (on_db (update_jobs
             (\<lambda>j. j_id j = j_id job \<and> j_status j = Cancelling \<and> j_attempt j = jx_attempt p
                \<and> j_expiresAt j > env_clock e 12 \<and> pg_time (message_expiry message) > env_clock e 13)
             (mark_cancelled e now))) (\<lambda>updated.
           case updated of
             None \<Rightarrow>
               tx_bind (assertDeadlinesAfterWrite e 14 [message_expiry message, js_date (j_expiresAt job)])
                 (\<lambda>_. store_error EVENT_REJECTED)
           | Some _ \<Rightarrow> tx_return ())))
         else tx_check (isTerminal (j_status job)) (rejectConflict coordination EVENT_REJECTED)) (\<lambda>_.
      tx_bind (appendJobEvent e 1 (j_id job) (connector_event ''job.cancelled''
        [(''job_id'', JStr (jx_job_id p)), (''attempt'', int_value (jx_attempt p)),
         (''reason'', JStr reason)] ''connector'' message)) (\<lambda>_.
      assertDeadlinesAfterWrite e 15
        (if active then [message_expiry message, js_date (j_expiresAt job)]
         else [message_expiry message])))))"

definition withdrawCancelledOffer ::
  "env \<Rightarrow> string \<Rightarrow> string \<Rightarrow> string \<Rightarrow> int \<Rightarrow> unit store_tx" where
  "withdrawCancelledOffer e connectorId jobId leaseId now =
     tx_bind (select_message (\<lambda>m. server_row connectorId m \<and> m_type m = ''job.offer''
       \<and> payload_text (m_payload m) ''job_id'' = Some jobId
       \<and> payload_text (m_payload m) ''lease_id'' = Some leaseId)) (\<lambda>offer.
     case offer of
       None \<Rightarrow> tx_return ()
     | Some row \<Rightarrow> replaceServerMessage e 12 row now cancelledTombstonePayload (Some ''job.offer'') False)"

datatype claim_result = Claimed | Withdrawn

definition offered_attempt :: "job_row \<Rightarrow> int" where
  "offered_attempt job = (if j_attempt job = 2147483647 then 2147483648 else j_attempt job + 1)"

definition offered_claim_where ::
  "env \<Rightarrow> ConnectorClientMessage \<Rightarrow> JobClaimPayload \<Rightarrow> job_row \<Rightarrow> job_row \<Rightarrow> bool" where
  "offered_claim_where e message p job j =
     (j_id j = j_id job \<and> j_status j = Dispatched \<and> j_revision j = j_revision job
      \<and> j_leaseId j = Some (jl_lease_id p)
      \<and> (case j_leaseExpiresAt j of None \<Rightarrow> False | Some t \<Rightarrow> t > env_clock e 10)
      \<and> j_expiresAt j > env_clock e 11 \<and> pg_time (message_expiry message) > env_clock e 12)"

definition offered_claim_update :: "JobClaimPayload \<Rightarrow> int \<Rightarrow> job_row \<Rightarrow> job_row" where
  "offered_claim_update p now j =
     j\<lparr>j_status := Running, j_currentStage := ''running'', j_attempt := jl_attempt p,
       j_revision := j_revision j + 1, j_updatedAt := pg_time now\<rparr>"

definition claimOfferedJob ::
  "deps \<Rightarrow> env \<Rightarrow> ConnectorIdentity \<Rightarrow> ConnectorClientMessage \<Rightarrow> JobClaimPayload \<Rightarrow> job_row option \<Rightarrow> int
     \<Rightarrow> bool \<Rightarrow> bool \<Rightarrow> claim_result store_tx" where
  "claimOfferedJob dp e identity message p found now durable coordination =
     (case found of
        None \<Rightarrow> store_error CLAIM_REJECTED
      | Some job \<Rightarrow>
      if j_status job = Cancelled \<and> js_date (j_expiresAt job) > now
         \<and> j_leaseId job = Some (jl_lease_id p) \<and> jl_attempt p = offered_attempt job
      then
        tx_bind (withdrawCancelledOffer e (ci_connectorId identity) (j_id job) (jl_lease_id p) now)
          (\<lambda>_. tx_return Withdrawn)
      else
      tx_bind (tx_read (hasOriginalOffer dp identity (jl_job_id p) (jl_attempt p) (Some (jl_lease_id p))))
        (\<lambda>offered.
      (case j_leaseExpiresAt job of
         None \<Rightarrow>
           tx_throw (if coordination \<and> offered then BusinessConflict CLAIM_REJECTED AUTHORITY_CHANGED_MESSAGE
                     else ConnectorStoreError CLAIM_REJECTED (store_code CLAIM_REJECTED))
       | Some leaseExpiresAt \<Rightarrow>
      tx_bind (tx_check
        (j_status job = Dispatched \<and> j_leaseId job = Some (jl_lease_id p)
         \<and> jl_attempt p = offered_attempt job)
        (if coordination \<and> offered then BusinessConflict CLAIM_REJECTED AUTHORITY_CHANGED_MESSAGE
         else ConnectorStoreError CLAIM_REJECTED (store_code CLAIM_REJECTED))) (\<lambda>_.
      let expired = (\<lambda>t. js_date leaseExpiresAt \<le> t \<or> js_date (j_expiresAt job) \<le> t);
          provenLimit = coordination
            \<and> (j_revision job = 2147483647 \<or> j_attempt job = 2147483647) \<and> offered in
      tx_bind (tx_check (\<not> expired now) (BusinessDeadlineExpired CLAIM_REJECTED)) (\<lambda>_.
      tx_bind (checkedJobIncrement (j_attempt job) provenLimit CLAIM_REJECTED) (\<lambda>_.
      tx_bind (checkedJobIncrement (j_revision job) provenLimit CLAIM_REJECTED) (\<lambda>_.
      tx_bind (on_db (update_jobs (offered_claim_where e message p job) (offered_claim_update p now))) (\<lambda>updated.
      case updated of
        None \<Rightarrow>
          if expired (clock_ms e 13) then tx_throw (BusinessDeadlineExpired CLAIM_REJECTED)
          else store_error CLAIM_REJECTED
      | Some _ \<Rightarrow>
      tx_bind (appendJobEvent e 1 (j_id job) (connector_event ''job.claimed''
        [(''connector_id'', JStr (ci_connectorId identity)), (''attempt'', int_value (jl_attempt p))]
        ''connector'' message)) (\<lambda>_.
      tx_bind (tx_check (\<not> (durable \<and> expired (clock_ms e 14)))
        (BusinessDeadlineExpired CLAIM_REJECTED)) (\<lambda>_.
      tx_return Claimed))))))))))"

definition event_candidate :: "string \<Rightarrow> (string \<times> jsval) list \<Rightarrow> string" where
  "event_candidate eventType payload =
     (case the_str (get_prop payload ''status'') of Some s \<Rightarrow> s | None \<Rightarrow> toLowerCase eventType)"

definition terminalStatusForEvent :: "string \<Rightarrow> (string \<times> jsval) list \<Rightarrow> JobStatus option" where
  "terminalStatusForEvent eventType payload =
     (let candidate = event_candidate eventType payload in
      if candidate \<in> set [''succeeded'', ''success'', ''completed'', ''job.succeeded''] then Some Succeeded
      else if candidate \<in> set [''failed'', ''failure'', ''job.failed''] then Some Failed
      else if candidate \<in> set [''cancelled'', ''canceled'', ''job.cancelled''] then Some Cancelled
      else None)"

definition statusForEvent :: "JobStatus \<Rightarrow> string \<Rightarrow> (string \<times> jsval) list \<Rightarrow> JobStatus" where
  "statusForEvent current eventType payload =
     (case terminalStatusForEvent eventType payload of
        Some t \<Rightarrow> t
      | None \<Rightarrow>
          let candidate = event_candidate eventType payload in
          if candidate = ''waiting_approval'' then Waiting_approval
          else if candidate = ''running'' \<or> candidate = ''resumed'' then Running
          else current)"

definition resumeDeliveredApproval :: "env \<Rightarrow> message_row \<Rightarrow> int \<Rightarrow> unit store_tx" where
  "resumeDeliveredApproval e serverMessage now =
     (let payload = m_payload serverMessage in
      if m_type serverMessage \<noteq> ''approval.decision'' \<or> get_prop payload ''decision'' \<noteq> JStr ''approve''
      then tx_return ()
      else case (the_str (get_prop payload ''job_id''),
                 bounded_int (- MAX_SAFE_INTEGER) MAX_SAFE_INTEGER (get_prop payload ''attempt''),
                 bounded_int (- MAX_SAFE_INTEGER) MAX_SAFE_INTEGER (get_prop payload ''job_revision'')) of
        (Some jobId, Some attempt, Some jobRevision) \<Rightarrow>
          tx_bind (on_db (select_job (\<lambda>j. j_id j = jobId))) (\<lambda>found.
          case found of
            None \<Rightarrow> tx_return ()
          | Some job \<Rightarrow>
              if j_status job \<noteq> Waiting_approval \<or> j_attempt job \<noteq> attempt
                 \<or> j_revision job \<noteq> jobRevision \<or> js_date (j_expiresAt job) \<le> now
                 \<or> assertTransition (j_status job) Running \<noteq> None
              then tx_return ()
              else
                tx_bind (on_db (update_jobs
                  (\<lambda>j. j_id j = j_id job \<and> j_status j = Waiting_approval \<and> j_attempt j = attempt
                     \<and> j_revision j = j_revision job \<and> j_expiresAt j > env_clock e 10)
                  (\<lambda>j. j\<lparr>j_status := Running, j_currentStage := ''running'',
                     j_revision := j_revision j + 1, j_updatedAt := pg_time now\<rparr>))) (\<lambda>updated.
                case updated of
                  None \<Rightarrow> tx_return ()
                | Some _ \<Rightarrow>
                    appendJobEvent e 1 (j_id job) (control_plane_event ''job.resumed''
                      [(''approval_id'', get_prop payload ''approval_id''),
                       (''decision'', JStr ''approve''), (''attempt'', int_value attempt),
                       (''job_revision'', int_value jobRevision)])))
      | _ \<Rightarrow> tx_return ())"

definition job_event_stage :: "(string \<times> jsval) list \<Rightarrow> string \<Rightarrow> string" where
  "job_event_stage payload eventType =
     (case the_str (get_prop payload ''stage'') of
        Some s \<Rightarrow> if length s \<le> 128 then s else eventType
      | None \<Rightarrow> eventType)"

definition apply_event ::
  "int \<Rightarrow> JobStatus \<Rightarrow> string \<Rightarrow> bool \<Rightarrow> (string \<times> jsval) list \<Rightarrow> job_row \<Rightarrow> job_row" where
  "apply_event now nextStatus stage terminal payload j =
     (let moved = j\<lparr>j_status := nextStatus, j_currentStage := stage, j_revision := j_revision j + 1,
        j_updatedAt := pg_time now\<rparr> in
      if terminal then
        moved\<lparr>j_terminalAt := Some (pg_time now),
          j_requestDeleteAt := Some (pg_time (now + 86400000)), j_unreadTerminal := True,
          j_summary := (if hasUsableTerminalSummary payload then JObj payload else JNull)\<rparr>
      else moved)"

definition ingestJobEvent ::
  "deps \<Rightarrow> env \<Rightarrow> ConnectorClientMessage \<Rightarrow> JobEventPayload \<Rightarrow> job_row option \<Rightarrow> int \<Rightarrow> bool
     \<Rightarrow> unit store_tx" where
  "ingestJobEvent dp e message p found now coordination =
     (case found of
        None \<Rightarrow> store_error EVENT_REJECTED
      | Some job \<Rightarrow>
      tx_bind (tx_check (j_attempt job = je_attempt p) (rejectConflict coordination EVENT_REJECTED)) (\<lambda>_.
      let payload = clean_event_payload dp (je_payload p);
          eventType = clean_text dp 64 (je_event_type p);
          source = clean_text dp 32 (je_source p);
          nextStatus = statusForEvent (j_status job) eventType payload;
          terminal = terminalStatusForEvent eventType payload \<noteq> None;
          append = appendJobEvent e 1 (j_id job) (connector_event eventType payload source message) in
      if isTerminal (j_status job) then
        tx_bind (tx_check terminal (rejectConflict coordination EVENT_REJECTED)) (\<lambda>_.
        tx_bind append (\<lambda>_.
        assertDeadlinesAfterWrite e 13 [message_expiry message]))
      else
        tx_bind (tx_check (j_status job \<in> set CLAIMED_JOB_STATES)
          (rejectConflict coordination EVENT_REJECTED)) (\<lambda>_.
        tx_bind (tx_check (\<not> js_date (j_expiresAt job) \<le> now) (BusinessDeadlineExpired EVENT_REJECTED)) (\<lambda>_.
        tx_bind (tx_check (nextStatus = j_status job \<or> canTransition (j_status job) nextStatus)
          (rejectConflict coordination EVENT_REJECTED)) (\<lambda>_.
        tx_bind (checkedJobIncrement (j_revision job) coordination EVENT_REJECTED) (\<lambda>_.
        tx_bind (on_db (update_jobs
          (\<lambda>j. j_id j = j_id job \<and> j_revision j = j_revision job \<and> j_expiresAt j > env_clock e 10
             \<and> pg_time (message_expiry message) > env_clock e 11)
          (apply_event now nextStatus (job_event_stage payload eventType) terminal payload))) (\<lambda>updated.
        case updated of
          None \<Rightarrow>
            tx_bind (assertDeadlinesAfterWrite e 12 [message_expiry message, js_date (j_expiresAt job)])
              (\<lambda>_. store_error EVENT_REJECTED)
        | Some _ \<Rightarrow>
            tx_bind append (\<lambda>_.
            assertDeadlinesAfterWrite e 13 [message_expiry message, js_date (j_expiresAt job)]))))))))"

subsection \<open>Accepting a client message\<close>

definition findByCredentialId :: "string \<Rightarrow> db \<Rightarrow> connector_row option" where
  "findByCredentialId credentialId d =
     first_row (filter (\<lambda>c. c_credentialId c = credentialId) (connectors d))"

definition message_job :: "client_payload \<Rightarrow> string option" where
  "message_job p =
     (case p of
        Claim c \<Rightarrow> Some (jl_job_id c) | Sync s \<Rightarrow> Some (sy_job_id s) | Event v \<Rightarrow> Some (je_job_id v)
      | Requested a \<Rightarrow> Some (arp_job_id a) | WasCancelled c \<Rightarrow> Some (jx_job_id c) | _ \<Rightarrow> None)"

definition has_capability :: "string \<Rightarrow> connector_row \<Rightarrow> client_payload \<Rightarrow> bool" where
  "has_capability capability connector p =
     (case p of
        Hello h \<Rightarrow> (case he_capabilities h of None \<Rightarrow> False | Some cs \<Rightarrow> capability \<in> set cs)
      | _ \<Rightarrow> capability \<in> set (c_capabilities connector))"

definition is_sync :: "client_payload \<Rightarrow> bool" where
  "is_sync p = (client_type p = ''job.sync'')"

text \<open>A response that is shown again: as stored, or restored under a fresh identity.\<close>

definition restore_response ::
  "env \<Rightarrow> nat \<Rightarrow> nat \<Rightarrow> bool \<Rightarrow> OriginalResponse \<Rightarrow> StoredServerMessage store_tx" where
  "restore_response e k u refresh original =
     (if refresh then refreshServerMessage e u original (clock_ms e k)
      else toStoredServerMessage (or_row original))"

definition response_is_stale :: "int \<Rightarrow> OriginalResponse \<Rightarrow> bool" where
  "response_is_stale now original =
     (js_date (m_expiresAt (or_row original)) \<le> now \<or> m_type (or_row original) \<noteq> or_type original
      \<or> \<not> same_json (m_payload (or_row original)) (or_payload original))"

definition ack_is_stale :: "int \<Rightarrow> OriginalResponse \<Rightarrow> bool" where
  "ack_is_stale now original =
     (js_date (m_expiresAt (or_row original)) \<le> now \<or> m_type (or_row original) \<noteq> or_type original)"

definition heartbeat_again :: "connector_row \<Rightarrow> ConnectorClientMessage \<Rightarrow> bool \<Rightarrow> int \<Rightarrow> unit store_tx" where
  "heartbeat_again connector message durableReceipt now =
     (if cm_payload message = Heartbeat \<and> \<not> durableReceipt then
        tx_bind (on_db (update_connectors (\<lambda>c. c_id c = c_id connector)
          (\<lambda>c. c\<lparr>c_lastHeartbeatAt := Some (pg_time now), c_health := Fresh,
             c_updatedAt := pg_time now\<rparr>))) (\<lambda>_. tx_return ())
      else tx_return ())"

definition accept_duplicate ::
  "deps \<Rightarrow> env \<Rightarrow> connector_row \<Rightarrow> ConnectorClientMessage \<Rightarrow> message_row \<Rightarrow> int
     \<Rightarrow> ClientMessageAcceptance store_tx" where
  "accept_duplicate dp e connector message existing now =
     (let stored = m_payload existing; durableReceipt = durable_receipt stored;
          hasAck = get_prop stored RECEIPT_ACK_KEY \<noteq> JUndefined in
      case isExactDuplicate dp existing message of
        Inl err \<Rightarrow> tx_throw err
      | Inr exact \<Rightarrow>
      tx_bind (if exact then tx_return () else store_error CLIENT_REPLAY_MISMATCH) (\<lambda>_.
      tx_bind (if (if durableReceipt then message_expiry message > now + 60000
                   else message_expiry message \<le> now)
               then store_error CLIENT_REPLAY_MISMATCH else tx_return ()) (\<lambda>_.
      tx_bind (findOriginalResponse dp (c_id connector) message existing STORED_RESPONSE_KEY) (\<lambda>original.
      tx_bind (tx_check
        (\<not> ((is_sync (cm_payload message)
             \<or> coordination_receipt stored \<and> map_option or_type original = Some ''protocol.error'')
            \<and> \<not> hasAck)) (internal_error ''Original receipt ACK is missing'')) (\<lambda>_.
      tx_bind (case original of
          None \<Rightarrow> tx_return None
        | Some o1 \<Rightarrow>
            tx_bind (restore_response e 1 10 (response_is_stale now o1) o1) (\<lambda>r. tx_return (Some r)))
        (\<lambda>response.
      tx_bind
        (if hasAck then
           tx_bind (findOriginalResponse dp (c_id connector) message existing RECEIPT_ACK_KEY) (\<lambda>ack.
           case (response, ack) of
             (Some r, Some a) \<Rightarrow>
               tx_bind (tx_check (or_type a = ''ack'' \<and> m_sequence (or_row a) = ss_sequence r + 1)
                 (internal_error ''Original receipt order is invalid'')) (\<lambda>_.
               tx_bind (restore_response e 2 11 (ack_is_stale now a) a) (\<lambda>restored.
               tx_return ([r], Some restored)))
           | _ \<Rightarrow> tx_throw (internal_error ''Original receipt order is invalid''))
         else tx_return ([], response)) (\<lambda>(replay, shown).
      tx_bind (heartbeat_again connector message durableReceipt now) (\<lambda>_.
      tx_return \<lparr>ac_duplicate = True, ac_replay = replay, ac_response = shown\<rparr>))))))))"

text \<open>A new message: its admission, in the order of the code.\<close>

definition admit_message ::
  "connector_row \<Rightarrow> ConnectorClientMessage \<Rightarrow> bool \<Rightarrow> bool \<Rightarrow> int \<Rightarrow> message_row option store_tx" where
  "admit_message connector message durable coordination now =
     (let expectedSequence = c_lastClientSequence connector + 1 in
      tx_bind (tx_check
        (\<not> (message_expiry message \<le> now \<or> durable \<and> message_expiry message > now + 60000))
        (ConnectorStoreError CLIENT_REPLAY_MISMATCH ''Expired message'')) (\<lambda>_.
      tx_bind (assertSafeSequence expectedSequence) (\<lambda>_.
      tx_bind (if cm_sequence message = expectedSequence then tx_return ()
               else store_error (if cm_sequence message > expectedSequence then CLIENT_SEQUENCE_GAP
                                 else CLIENT_REPLAY_MISMATCH)) (\<lambda>_.
      tx_bind (case cm_payload message of
          Hello h \<Rightarrow>
            if he_connector_id h \<noteq> c_id connector
               \<or> (case he_last_client_sequence h of None \<Rightarrow> False
                  | Some n \<Rightarrow> n \<noteq> c_lastClientSequence connector)
               \<or> he_last_server_sequence h > c_lastServerSequence connector
            then store_error CLIENT_REPLAY_MISMATCH else tx_return ()
        | _ \<Rightarrow> tx_return ()) (\<lambda>_.
      tx_bind (case cm_payload message of
          Acknowledge n \<Rightarrow>
            tx_bind (select_message (\<lambda>m. server_row (c_id connector) m \<and> m_sequence m = n)) (\<lambda>row.
            tx_bind (tx_check (row \<noteq> None) (ConnectorStoreError CLIENT_REPLAY_MISMATCH
              ''ACK references a missing server message'')) (\<lambda>_. tx_return row))
        | _ \<Rightarrow> tx_return None) (\<lambda>acknowledged.
      tx_bind (if is_sync (cm_payload message) \<and> \<not> coordination then store_error AUTHORIZATION_FAILED
               else tx_return ()) (\<lambda>_.
      tx_return acknowledged)))))))"

definition client_row ::
  "env \<Rightarrow> string \<Rightarrow> ConnectorClientMessage \<Rightarrow> (string \<times> jsval) list \<Rightarrow> bool \<Rightarrow> bool \<Rightarrow> message_row" where
  "client_row e connectorId message stored durable coordination =
     \<lparr>m_id = env_uuid e 0, m_connectorId = connectorId, m_direction = Client,
      m_sequence = cm_sequence message, m_messageId = cm_message_id message,
      m_type = client_type (cm_payload message),
      m_payload = stored
        @ (if durable then [(RECEIPT_PROFILE_KEY, JStr DURABLE_RECEIPTS)] else [])
        @ (if coordination then [(COORDINATION_PROFILE_KEY, JStr JOB_COORDINATION_CAPABILITY)] else []),
      m_correlationId = cm_correlation_id message, m_expiresAt = pg_time (message_expiry message),
      m_acknowledgedAt = None, m_createdAt = env_now e\<rparr>"

definition insert_client_message ::
  "deps \<Rightarrow> env \<Rightarrow> string \<Rightarrow> ConnectorClientMessage \<Rightarrow> bool \<Rightarrow> bool \<Rightarrow> unit store_tx" where
  "insert_client_message dp e connectorId message durable coordination =
     (case storedClientPayload dp message of
        Inl err \<Rightarrow> tx_throw err
      | Inr stored \<Rightarrow>
          on_db (insert_message (client_row e connectorId message stored durable coordination)))"

definition historicalClaimExpired ::
  "ConnectorIdentity \<Rightarrow> client_payload \<Rightarrow> job_row option \<Rightarrow> bool \<Rightarrow> int \<Rightarrow> db \<Rightarrow> bool" where
  "historicalClaimExpired identity p lockedJob durable now d =
     (case p of
        Claim c \<Rightarrow>
          durable \<and> Option.bind lockedJob j_leaseId \<noteq> Some (jl_lease_id c)
          \<and> hasExpiredOriginalOffer identity c now d
      | _ \<Rightarrow> False)"

definition acknowledge_server_message ::
  "env \<Rightarrow> string \<Rightarrow> int \<Rightarrow> message_row option \<Rightarrow> int \<Rightarrow> unit store_tx" where
  "acknowledge_server_message e connectorId sequence acknowledged now =
     tx_bind (update_messages (\<lambda>m. server_row connectorId m \<and> m_sequence m = sequence)
       (\<lambda>m. m\<lparr>m_acknowledgedAt := Some (pg_time now)\<rparr>)) (\<lambda>_.
     case acknowledged of
       None \<Rightarrow> tx_return ()
     | Some row \<Rightarrow> resumeDeliveredApproval e row now)"

definition no_claim :: "unit store_tx \<Rightarrow> claim_result option store_tx" where
  "no_claim m = tx_bind m (\<lambda>_. tx_return None)"

definition applyBusiness ::
  "deps \<Rightarrow> env \<Rightarrow> ConnectorIdentity \<Rightarrow> string \<Rightarrow> ConnectorClientMessage \<Rightarrow> job_row option
     \<Rightarrow> message_row option \<Rightarrow> bool \<Rightarrow> bool \<Rightarrow> int \<Rightarrow> claim_result option store_tx" where
  "applyBusiness dp e identity connectorId message lockedJob acknowledged durable coordination now =
     (case cm_payload message of
        Sync s \<Rightarrow>
          if lockedJob = None then
            tx_bind (tx_read (hasOriginalOffer dp identity (sy_job_id s) (sy_attempt s) None)) (\<lambda>offered.
              if \<not> offered then store_error AUTHORIZATION_FAILED
              else tx_throw (BusinessConflict JOB_AUTHORITY_UNAVAILABLE AUTHORITY_UNAVAILABLE_MESSAGE))
          else tx_return None
      | Claim c \<Rightarrow>
          tx_bind (tx_read (historicalClaimExpired identity (cm_payload message) lockedJob durable now))
            (\<lambda>historical.
            if historical then tx_throw (BusinessDeadlineExpired CLAIM_REJECTED)
            else tx_bind (claimOfferedJob dp e identity message c lockedJob now durable coordination)
              (\<lambda>r. tx_return (Some r)))
      | Event v \<Rightarrow> no_claim (ingestJobEvent dp e message v lockedJob now coordination)
      | Requested a \<Rightarrow> no_claim (ingestApprovalRequested dp e message a lockedJob now coordination)
      | WasCancelled c \<Rightarrow> no_claim (ingestJobCancelled dp e message c lockedJob now coordination)
      | Acknowledge n \<Rightarrow> no_claim (acknowledge_server_message e connectorId n acknowledged now)
      | _ \<Rightarrow> tx_return None)"

text \<open>
  Under a durable receipt the business runs in a savepoint: a rejection that the receipt may record
  leaves no trace of it, and every other error ends the transaction.
\<close>

datatype business_outcome = Applied "claim_result option" | Rejected store_thrown

definition recordable :: "bool \<Rightarrow> bool \<Rightarrow> store_thrown \<Rightarrow> bool" where
  "recordable coordination authorized err =
     (case err of
        BusinessConflict code text \<Rightarrow> coordination
      | BusinessDeadlineExpired code \<Rightarrow> authorized
      | _ \<Rightarrow> False)"

definition run_business ::
  "deps \<Rightarrow> env \<Rightarrow> ConnectorIdentity \<Rightarrow> string \<Rightarrow> ConnectorClientMessage \<Rightarrow> job_row option
     \<Rightarrow> message_row option \<Rightarrow> bool \<Rightarrow> bool \<Rightarrow> int \<Rightarrow> business_outcome store_tx" where
  "run_business dp e identity connectorId message lockedJob acknowledged durable coordination now d =
     (case applyBusiness dp e identity connectorId message lockedJob acknowledged durable coordination
        now d of
        Inr (claimResult, d') \<Rightarrow> Inr (Applied claimResult, d')
      | Inl err \<Rightarrow>
          if durable \<and> recordable coordination
              (lockedJob \<noteq> None
               \<or> historicalClaimExpired identity (cm_payload message) lockedJob durable now d) err
          then Inr (Rejected err, d) else Inl err)"

definition next_capabilities ::
  "deps \<Rightarrow> connector_row \<Rightarrow> client_payload \<Rightarrow> bool \<Rightarrow> string list" where
  "next_capabilities dp connector p coordination =
     (case p of
        Hello h \<Rightarrow>
          filter (\<lambda>c. c \<noteq> JOB_COORDINATION_CAPABILITY \<or> coordination)
            (case he_capabilities h of
               Some cs \<Rightarrow> map (clean_text dp 64) cs
             | None \<Rightarrow> filter (\<lambda>c. c \<noteq> DURABLE_RECEIPTS \<and> c \<noteq> JOB_COORDINATION_CAPABILITY)
                 (c_capabilities connector))
      | _ \<Rightarrow> c_capabilities connector)"

definition is_heartbeat :: "client_payload \<Rightarrow> bool" where
  "is_heartbeat p = (case p of Hello h \<Rightarrow> True | Heartbeat \<Rightarrow> True | _ \<Rightarrow> False)"

definition consume_update ::
  "ConnectorClientMessage \<Rightarrow> string list \<Rightarrow> int \<Rightarrow> connector_row \<Rightarrow> connector_row" where
  "consume_update message capabilities now c =
     (let moved = c\<lparr>c_lastClientSequence := cm_sequence message, c_capabilities := capabilities,
        c_updatedAt := pg_time now\<rparr> in
      if is_heartbeat (cm_payload message)
      then moved\<lparr>c_lastHeartbeatAt := Some (pg_time now), c_health := Fresh\<rparr> else moved)"

text \<open>The local row changes as the code assigns it: neither its capabilities nor its times.\<close>

definition consume_sequence ::
  "deps \<Rightarrow> connector_row \<Rightarrow> ConnectorClientMessage \<Rightarrow> bool \<Rightarrow> int \<Rightarrow> connector_row store_tx" where
  "consume_sequence dp connector message coordination now =
     tx_bind (on_db (update_connectors
       (\<lambda>c. c_id c = c_id connector \<and> c_lastClientSequence c = c_lastClientSequence connector)
       (consume_update message (next_capabilities dp connector (cm_payload message) coordination) now)))
       (\<lambda>consumed.
     tx_bind (tx_check (map_option c_lastClientSequence consumed = Some (cm_sequence message))
       (internal_error ''Client sequence conflict'')) (\<lambda>_.
     tx_return (connector\<lparr>c_lastClientSequence := cm_sequence message\<rparr>)))"

definition respond_hello ::
  "env \<Rightarrow> connector_row \<Rightarrow> ConnectorClientMessage \<Rightarrow> ConnectorHelloPayload \<Rightarrow> bool \<Rightarrow> bool \<Rightarrow> int
     \<Rightarrow> ClientMessageAcceptance store_tx" where
  "respond_hello e connector message h durable coordination now =
     tx_bind (update_messages
       (\<lambda>m. server_row (c_id connector) m \<and> m_sequence m \<le> he_last_server_sequence h)
       (\<lambda>m. m\<lparr>m_acknowledgedAt := Some (pg_time now)\<rparr>)) (\<lambda>_.
     tx_bind (tombstoneReplayBatch e (c_id connector) (he_last_server_sequence h) now) (\<lambda>_.
     tx_bind (tx_read (replay_rows (c_id connector) (he_last_server_sequence h))) (\<lambda>rows.
     tx_bind (enqueueServerMessage e 0 4 connector ''connector.welcome''
       ([(''connector_id'', JStr (c_id connector)),
         (''server_sequence'', int_value (c_lastServerSequence connector + 1)),
         (''replay_from'', int_value (he_last_server_sequence h + 1))]
        @ (if durable then
             [(''capabilities'', JArr (map JStr
                (DURABLE_RECEIPTS # (if coordination then [JOB_COORDINATION_CAPABILITY] else []))))]
           else []))
       (Some (now + 60000)) (Some (cm_correlation_id message))) (\<lambda>(welcome, connector').
     tx_bind (rememberOriginalResponse (c_id connector) message welcome STORED_RESPONSE_KEY) (\<lambda>_.
     tx_bind (each_tx toStoredServerMessage rows) (\<lambda>replay.
     tx_return \<lparr>ac_duplicate = False, ac_replay = replay, ac_response = Some welcome\<rparr>))))))"

definition state_object :: "job_row \<Rightarrow> ConnectorClientMessage \<Rightarrow> JobSyncPayload \<Rightarrow> int \<Rightarrow> jsval" where
  "state_object job message s observed =
     JObj [(''job_id'', JStr (j_id job)), (''repository_id'', JStr (j_repositoryId job)),
       (''mode'', JStr (mode_string (j_mode job))),
       (''requested_attempt'', int_value (sy_attempt s)), (''current_attempt'', int_value (j_attempt job)),
       (''status'', JStr (status_string (j_status job))), (''job_revision'', int_value (j_revision job)),
       (''cancel_revision'', nullable_value int_value (j_cancelRevision job)),
       (''lease_id'', nullable_value JStr (j_leaseId job)),
       (''lease_expires_at'', nullable_value (\<lambda>t. JStr (toISOString (js_date t))) (j_leaseExpiresAt job)),
       (''expires_at'', JStr (toISOString (js_date (j_expiresAt job)))),
       (''observed_at'', JStr (toISOString observed)),
       (''state_valid_until'', JStr (toISOString (observed + 2000))),
       (''request_message_id'', JStr (cm_message_id message)),
       (''request_sequence'', int_value (cm_sequence message)), (''nonce'', JStr (sy_nonce s))]"

text \<open>The acknowledgement that closes a durable exchange, after \<open>replay\<close>.\<close>

definition close_with_ack ::
  "env \<Rightarrow> connector_row \<Rightarrow> ConnectorClientMessage \<Rightarrow> StoredServerMessage \<Rightarrow> ClientMessageAcceptance store_tx"
  where
  "close_with_ack e connector message replayed =
     tx_bind (enqueueServerMessage e 22 7 connector ''ack'' [(''sequence'', int_value (cm_sequence message))]
       None (Some (cm_correlation_id message))) (\<lambda>(ack, connector').
     tx_bind (rememberOriginalResponse (c_id connector) message ack RECEIPT_ACK_KEY) (\<lambda>_.
     tx_return \<lparr>ac_duplicate = False, ac_replay = [replayed], ac_response = Some ack\<rparr>))"

definition respond_sync ::
  "deps \<Rightarrow> env \<Rightarrow> connector_row \<Rightarrow> ConnectorClientMessage \<Rightarrow> JobSyncPayload \<Rightarrow> job_row option
     \<Rightarrow> ClientMessageAcceptance store_tx" where
  "respond_sync dp e connector message s lockedJob =
     (case lockedJob of
        None \<Rightarrow> store_error AUTHORIZATION_FAILED
      | Some job \<Rightarrow>
      (case JobStatePayloadSchema (dp_is_uuid dp) (state_object job message s (clock_ms e 20)) of
         None \<Rightarrow> tx_throw ZodError
       | Some payload \<Rightarrow>
      tx_bind (enqueueServerMessage e 21 4 connector ''job.state'' (state_members payload) None
        (Some (cm_correlation_id message))) (\<lambda>(state, connector').
      tx_bind (rememberOriginalResponse (c_id connector) message state STORED_RESPONSE_KEY) (\<lambda>_.
      close_with_ack e connector' message state))))"

definition rejection_payload :: "business_outcome \<Rightarrow> (string \<times> jsval) list option" where
  "rejection_payload outcome =
     (case outcome of
        Applied r \<Rightarrow>
          if r = Some Withdrawn
          then Some [(''code'', JStr ''CLAIM_REJECTED''), (''message'', JStr CLAIM_REJECTED_MESSAGE)]
          else None
      | Rejected err \<Rightarrow>
          (case err of
             BusinessConflict code text \<Rightarrow>
               Some [(''code'', JStr (store_code code)), (''message'', JStr text)]
           | BusinessDeadlineExpired code \<Rightarrow>
               Some [(''code'', JStr (store_code code)), (''message'', JStr BUSINESS_EXPIRED_MESSAGE)]
           | _ \<Rightarrow> None))"

definition respond_other ::
  "env \<Rightarrow> connector_row \<Rightarrow> ConnectorClientMessage \<Rightarrow> business_outcome \<Rightarrow> bool \<Rightarrow> int
     \<Rightarrow> ClientMessageAcceptance store_tx" where
  "respond_other e connector message outcome durable now =
     (if client_type (cm_payload message) = ''ack'' \<and> \<not> durable
      then tx_return \<lparr>ac_duplicate = False, ac_replay = [], ac_response = None\<rparr>
      else
        tx_bind
          (case rejection_payload outcome of
             Some payload \<Rightarrow>
               enqueueServerMessage e 0 4 connector ''protocol.error'' payload (Some (now + 60000))
                 (Some (cm_correlation_id message))
           | None \<Rightarrow>
               enqueueServerMessage e 0 4 connector ''ack''
                 [(''sequence'', int_value (cm_sequence message))] (Some (now + 60000))
                 (Some (cm_correlation_id message))) (\<lambda>(response, connector').
        tx_bind (rememberOriginalResponse (c_id connector) message response STORED_RESPONSE_KEY) (\<lambda>_.
        if durable \<and> ss_type response = ''protocol.error''
        then close_with_ack e connector' message response
        else tx_return \<lparr>ac_duplicate = False, ac_replay = [], ac_response = Some response\<rparr>)))"

text \<open>What follows the receipt: the business, the sequence and the answer.\<close>

definition process_message ::
  "deps \<Rightarrow> env \<Rightarrow> ConnectorIdentity \<Rightarrow> connector_row \<Rightarrow> ConnectorClientMessage \<Rightarrow> job_row option
     \<Rightarrow> message_row option \<Rightarrow> bool \<Rightarrow> bool \<Rightarrow> int \<Rightarrow> ClientMessageAcceptance store_tx" where
  "process_message dp e identity connector message lockedJob acknowledged durable coordination now =
     tx_bind (run_business dp e identity (c_id connector) message lockedJob acknowledged durable
       coordination now) (\<lambda>outcome.
     tx_bind (consume_sequence dp connector message coordination now) (\<lambda>connector'.
     case (cm_payload message, outcome) of
       (Hello h, _) \<Rightarrow> respond_hello e connector' message h durable coordination now
     | (Sync s, Applied r) \<Rightarrow> respond_sync dp e connector' message s lockedJob
     | _ \<Rightarrow> respond_other e connector' message outcome durable now))"

definition accept_new ::
  "deps \<Rightarrow> env \<Rightarrow> ConnectorIdentity \<Rightarrow> connector_row \<Rightarrow> ConnectorClientMessage \<Rightarrow> job_row option
     \<Rightarrow> bool \<Rightarrow> bool \<Rightarrow> int \<Rightarrow> ClientMessageAcceptance store_tx" where
  "accept_new dp e identity connector message lockedJob durable coordination now =
     tx_bind (admit_message connector message durable coordination now) (\<lambda>acknowledged.
     tx_bind (insert_client_message dp e (c_id connector) message durable coordination) (\<lambda>_.
     process_message dp e identity connector message lockedJob acknowledged durable coordination now))"

definition accept_body ::
  "deps \<Rightarrow> env \<Rightarrow> ConnectorIdentity \<Rightarrow> ConnectorClientMessage \<Rightarrow> ClientMessageAcceptance store_tx" where
  "accept_body dp e identity message =
     tx_bind (case message_job (cm_payload message) of
         None \<Rightarrow> tx_return None | Some jobId \<Rightarrow> lockClientJob identity jobId) (\<lambda>lockedJob.
     tx_bind (lockConnector identity) (\<lambda>connector.
     let now = clock_ms e 0;
         durable = has_capability DURABLE_RECEIPTS connector (cm_payload message);
         coordination = durable \<and> has_capability JOB_COORDINATION_CAPABILITY connector (cm_payload message) in
     tx_bind (select_message (\<lambda>m. m_connectorId m = c_id connector
       \<and> m_messageId m = cm_message_id message)) (\<lambda>existing.
     case existing of
       Some row \<Rightarrow> accept_duplicate dp e connector message row now
     | None \<Rightarrow> accept_new dp e identity connector message lockedJob durable coordination now)))"

definition acceptClientMessage ::
  "deps \<Rightarrow> env \<Rightarrow> ConnectorIdentity \<Rightarrow> ConnectorClientMessage \<Rightarrow> db
     \<Rightarrow> (store_thrown + ClientMessageAcceptance) \<times> db" where
  "acceptClientMessage dp e identity message = transaction (accept_body dp e identity message)"

subsection \<open>Offering jobs\<close>

text \<open>
  \<open>locked\<close> holds the ids of the jobs that other transactions have locked: the selection skips them.
\<close>

definition is_active :: "int \<Rightarrow> job_row \<Rightarrow> bool" where
  "is_active t j =
     ((j_status j \<in> set [Running, Waiting_approval, Cancelling]
       \<or> j_status j = Dispatched \<and> (case j_leaseExpiresAt j of None \<Rightarrow> False | Some l \<Rightarrow> l > pg_time t))
      \<and> j_expiresAt j > pg_time t)"

definition active_count :: "string \<Rightarrow> string \<Rightarrow> int \<Rightarrow> db \<Rightarrow> int" where
  "active_count ownerId repositoryId t d =
     int (length (filter (\<lambda>j. j_ownerId j = ownerId \<and> j_repositoryId j = repositoryId \<and> is_active t j)
       (jobs d)))"

definition enabled_policies :: "string \<Rightarrow> db \<Rightarrow> policy_row list" where
  "enabled_policies ownerId d =
     sort_key p_id (filter (\<lambda>p. p_ownerId p = ownerId \<and> p_enabled p) (repositoryPolicies d))"

definition eligible_repositories :: "string \<Rightarrow> int \<Rightarrow> db \<Rightarrow> string list" where
  "eligible_repositories ownerId t d =
     map p_id (filter (\<lambda>p. active_count ownerId (p_id p) t d < p_maxConcurrency p)
       (enabled_policies ownerId d))"

definition is_offerable :: "string \<Rightarrow> string list \<Rightarrow> int \<Rightarrow> job_row \<Rightarrow> bool" where
  "is_offerable ownerId repositories t j =
     (j_ownerId j = ownerId \<and> j_repositoryId j \<in> set repositories
      \<and> (j_status j = Queued
         \<or> j_status j = Dispatched
           \<and> (case j_leaseExpiresAt j of None \<Rightarrow> False | Some l \<Rightarrow> l \<le> pg_time t))
      \<and> j_expiresAt j > pg_time t)"

definition next_offer :: "string \<Rightarrow> string list \<Rightarrow> int \<Rightarrow> db \<Rightarrow> job_row option" where
  "next_offer ownerId locked t d =
     first_row (sort_key j_acceptedAt (sort_key j_id
       (filter (\<lambda>j. is_offerable ownerId (eligible_repositories ownerId t d) t j \<and> j_id j \<notin> set locked)
         (jobs d))))"

definition offer_event_payload ::
  "string \<Rightarrow> job_row \<Rightarrow> int \<Rightarrow> string \<Rightarrow> int \<Rightarrow> (string \<times> jsval) list" where
  "offer_event_payload connectorId job attempt leaseId leaseExpiresAt =
     [(''owner_id'', JStr (j_ownerId job)), (''repository_id'', JStr (j_repositoryId job)),
      (''connector_id'', JStr connectorId), (''attempt'', int_value attempt),
      (''lease_id'', JStr leaseId), (''lease_expires_at'', JStr (toISOString leaseExpiresAt))]
     @ (if j_status job = Dispatched
        then [(''previous_lease_id'', nullable_value JStr (j_leaseId job))] else [])"

definition offer_update :: "string \<Rightarrow> string \<Rightarrow> int \<Rightarrow> int \<Rightarrow> job_row \<Rightarrow> job_row" where
  "offer_update connectorId leaseId leaseExpiresAt now j =
     j\<lparr>j_status := Dispatched, j_currentStage := ''dispatched'', j_connectorId := Some connectorId,
       j_leaseId := Some leaseId, j_leaseExpiresAt := Some (pg_time leaseExpiresAt),
       j_revision := j_revision j + 1, j_updatedAt := pg_time now\<rparr>"

definition offer_where :: "env \<Rightarrow> job_row \<Rightarrow> job_row \<Rightarrow> bool" where
  "offer_where e job j =
     (j_id j = j_id job \<and> j_status j = j_status job \<and> j_revision j = j_revision job
      \<and> (j_status job = Dispatched \<longrightarrow> j_leaseId j = j_leaseId job) \<and> j_expiresAt j > env_clock e 2
      \<and> (j_status job = Dispatched \<longrightarrow>
           (case j_leaseExpiresAt j of None \<Rightarrow> False | Some l \<Rightarrow> l \<le> env_clock e 3)))"

definition offer_job ::
  "env \<Rightarrow> ConnectorIdentity \<Rightarrow> connector_row \<Rightarrow> job_row \<Rightarrow> int \<Rightarrow> StoredServerMessage option store_tx" where
  "offer_job e identity connector job now =
     (let redispatch = j_status job = Dispatched; leaseId = env_uuid e 0;
          leaseExpiresAt = min (now + OFFER_LEASE_MS) (js_date (j_expiresAt job)) in
      tx_bind (tx_check (j_requestCiphertext job \<noteq> None) (internal_error ''Queued request is missing'')) (\<lambda>_.
      tx_bind (tx_check
        (\<not> (redispatch \<and> (j_leaseId job = None
           \<or> (case j_leaseExpiresAt job of None \<Rightarrow> True | Some l \<Rightarrow> js_date l > now))))
        (internal_error ''Offer lease is invalid'')) (\<lambda>_.
      tx_bind (checkedJobIncrement (j_revision job) False CLAIM_REJECTED) (\<lambda>_.
      tx_bind (checkedJobIncrement (j_attempt job) False CLAIM_REJECTED) (\<lambda>attempt.
      tx_bind (on_db (update_jobs (offer_where e job)
        (offer_update (ci_connectorId identity) leaseId leaseExpiresAt now))) (\<lambda>updated.
      case updated of
        None \<Rightarrow>
          if js_date (j_expiresAt job) \<le> clock_ms e 4 then tx_return None
          else tx_throw (internal_error ''Dispatch write conflict'')
      | Some _ \<Rightarrow>
      tx_bind (appendJobEvent e 1 (j_id job) (control_plane_event
        (if redispatch then ''job.redispatched'' else ''job.dispatched'')
        (offer_event_payload (ci_connectorId identity) job attempt leaseId leaseExpiresAt))) (\<lambda>_.
      tx_bind (enqueueServerMessage e 5 4 connector ''job.offer''
        [(''job_id'', JStr (j_id job)), (''attempt'', int_value attempt), (''lease_id'', JStr leaseId),
         (''repository_id'', JStr (j_repositoryId job))] (Some leaseExpiresAt) None)
        (\<lambda>(stored, connector'). tx_return (Some stored)))))))))"

definition dispatch_body ::
  "env \<Rightarrow> ConnectorIdentity \<Rightarrow> string list \<Rightarrow> StoredServerMessage option store_tx" where
  "dispatch_body e identity locked =
     tx_bind (readConnector identity) (\<lambda>_.
     tx_bind (tx_read (enabled_policies (ci_ownerId identity))) (\<lambda>policies.
     if policies = [] then tx_return None
     else
       tx_bind (tx_read (next_offer (ci_ownerId identity) locked (clock_ms e 0))) (\<lambda>found.
       case found of
         None \<Rightarrow> tx_return None
       | Some job \<Rightarrow>
           tx_bind (lockConnector identity) (\<lambda>connector.
           let now = clock_ms e 1 in
           if js_date (j_expiresAt job) \<le> now then tx_return None
           else offer_job e identity connector job now))))"

definition dispatchNext ::
  "env \<Rightarrow> ConnectorIdentity \<Rightarrow> string list \<Rightarrow> db
     \<Rightarrow> (store_thrown + StoredServerMessage option) \<times> db" where
  "dispatchNext e identity locked = transaction (dispatch_body e identity locked)"

subsection \<open>Reading and writing the outbox\<close>

definition pending_body :: "env \<Rightarrow> ConnectorIdentity \<Rightarrow> int \<Rightarrow> StoredServerMessage list store_tx" where
  "pending_body e identity afterSequence =
     tx_bind (lockConnector identity) (\<lambda>connector.
     tx_bind (tombstoneReplayBatch e (c_id connector) afterSequence (clock_ms e 0)) (\<lambda>_.
     tx_bind (tx_read (replay_rows (ci_connectorId identity) afterSequence)) (\<lambda>rows.
     each_tx toStoredServerMessage rows)))"

definition pendingServerMessages ::
  "env \<Rightarrow> ConnectorIdentity \<Rightarrow> int \<Rightarrow> db \<Rightarrow> (store_thrown + StoredServerMessage list) \<times> db" where
  "pendingServerMessages e identity afterSequence =
     transaction (tx_bind (assertSafeSequence afterSequence) (\<lambda>_. pending_body e identity afterSequence))"

definition enqueue_body ::
  "env \<Rightarrow> ConnectorIdentity \<Rightarrow> string \<Rightarrow> (string \<times> jsval) list \<Rightarrow> int option \<Rightarrow> string option
     \<Rightarrow> StoredServerMessage store_tx" where
  "enqueue_body e identity type payload expiresAt correlationId =
     tx_bind (lockConnector identity) (\<lambda>connector.
     tx_bind (enqueueServerMessage e 0 0 connector type payload expiresAt correlationId)
       (\<lambda>(stored, connector'). tx_return stored))"

definition enqueueServer ::
  "env \<Rightarrow> ConnectorIdentity \<Rightarrow> string \<Rightarrow> (string \<times> jsval) list \<Rightarrow> int option \<Rightarrow> string option \<Rightarrow> db
     \<Rightarrow> (store_thrown + StoredServerMessage) \<times> db" where
  "enqueueServer e identity type payload expiresAt correlationId =
     transaction (enqueue_body e identity type payload expiresAt correlationId)"

text \<open>
  \<open>materializeServerMessage\<close> is not a transaction: \<open>d1\<close> is the database before the request is
  decrypted and \<open>d2\<close> after. \<open>decryptor\<close> is the caller's, and \<open>None\<close> when it throws.
\<close>

definition actionable_offer ::
  "StoredServerMessage \<Rightarrow> int \<Rightarrow> db \<Rightarrow> string option" where
  "actionable_offer stored t d =
     (case (the_str (get_prop (ss_payload stored) ''job_id''),
            the_str (get_prop (ss_payload stored) ''lease_id''),
            safe_positive (get_prop (ss_payload stored) ''attempt'')) of
        (Some jobId, Some leaseId, Some attempt) \<Rightarrow>
          (case concat (map (\<lambda>m. map (Pair m) (filter (\<lambda>j. j_id j = jobId
                 \<and> (j_status j = Dispatched \<and> j_attempt j = attempt - 1
                    \<or> j_status j \<in> set CLAIMED_JOB_STATES \<and> j_attempt j = attempt)
                 \<and> j_connectorId j = Some (ss_connectorId stored) \<and> j_leaseId j = Some leaseId
                 \<and> (case j_leaseExpiresAt j of None \<Rightarrow> False | Some l \<Rightarrow> l > pg_time t)
                 \<and> j_expiresAt j > pg_time t) (jobs d)))
               (filter (\<lambda>m. server_row (ss_connectorId stored) m \<and> m_sequence m = ss_sequence stored
                  \<and> m_messageId m = ss_messageId stored \<and> m_type m = ''job.offer''
                  \<and> m_expiresAt m = pg_time (ss_expiresAt stored) \<and> m_expiresAt m > pg_time t)
                 (connectorMessages d))) of
             [] \<Rightarrow> None
           | (m, j) # _ \<Rightarrow>
               if get_prop (m_payload m) ''job_id'' = JStr jobId
                  \<and> get_prop (m_payload m) ''lease_id'' = JStr leaseId
                  \<and> get_prop (m_payload m) ''attempt'' = int_value attempt
               then j_requestCiphertext j else None)
      | _ \<Rightarrow> None)"

definition envelope_object :: "StoredServerMessage \<Rightarrow> (string \<times> jsval) list \<Rightarrow> jsval" where
  "envelope_object stored payload =
     JObj [(''protocol_version'', JStr ''1.0''), (''message_id'', JStr (ss_messageId stored)),
       (''sequence'', int_value (ss_sequence stored)),
       (''sent_at'', JStr (toISOString (ss_createdAt stored))),
       (''expires_at'', JStr (toISOString (ss_expiresAt stored))),
       (''correlation_id'', JStr (ss_correlationId stored)), (''type'', JStr (ss_type stored)),
       (''payload'', JObj payload)]"

definition parse_envelope :: "deps \<Rightarrow> jsval \<Rightarrow> store_thrown + ConnectorServerMessage" where
  "parse_envelope dp v =
     (case ConnectorServerMessageSchema (dp_is_uuid dp) v of Some m \<Rightarrow> Inr m | None \<Rightarrow> Inl ZodError)"

datatype decryptor_throw = Decryptor_threw

definition materializeServerMessage ::
  "deps \<Rightarrow> env \<Rightarrow> StoredServerMessage \<Rightarrow> (string \<Rightarrow> string option) option \<Rightarrow> db \<Rightarrow> db
     \<Rightarrow> (store_thrown + decryptor_throw) + ConnectorServerMessage" where
  "materializeServerMessage dp e stored decryptor d1 d2 =
     (let lift = (\<lambda>r. case r of Inl err \<Rightarrow> Inl (Inl err) | Inr m \<Rightarrow> Inr m);
          notExpired = (\<lambda>t. \<not> ss_expiresAt stored \<le> t);
          expired = Inl (Inl (ConnectorStoreError MESSAGE_EXPIRED
            ''The Connector message expired before materialization''));
          gone = Inl (Inl (ConnectorStoreError MESSAGE_EXPIRED
            ''The Connector offer is no longer actionable'')) in
      if ss_type stored = ''job.offer'' then
        (case (the_str (get_prop (ss_payload stored) ''job_id''), decryptor) of
           (Some jobId, Some decrypt) \<Rightarrow>
             if \<not> notExpired (clock_ms e 0) then expired
             else (case actionable_offer stored (clock_ms e 0) d1 of
                 None \<Rightarrow> gone
               | Some ciphertext \<Rightarrow>
                   (case decrypt ciphertext of
                      None \<Rightarrow> Inl (Inr Decryptor_threw)
                    | Some plain \<Rightarrow>
                        if actionable_offer stored (clock_ms e 1) d2 = None then gone
                        else if \<not> notExpired (clock_ms e 1) then expired
                        else lift (parse_envelope dp (envelope_object stored
                          (put_key ''request'' (JStr plain) (ss_payload stored))))))
         | _ \<Rightarrow> Inl (Inl (internal_error ''Offer cannot be hydrated'')))
      else if \<not> notExpired (clock_ms e 0) then expired
      else lift (parse_envelope dp (envelope_object stored (ss_payload stored))))"

text \<open>Two statements outside a transaction; another transaction may run between them.\<close>

definition mark_offline :: "env \<Rightarrow> db \<Rightarrow> db" where
  "mark_offline e d =
     d\<lparr>connectors := sql_update
       (\<lambda>c. case c_lastHeartbeatAt c of None \<Rightarrow> False
          | Some t \<Rightarrow> t \<le> pg_time (clock_ms e 0 - CONNECTOR_OFFLINE_AFTER_MS))
       (\<lambda>c. c\<lparr>c_health := Offline, c_updatedAt := pg_time (clock_ms e 0)\<rparr>) (connectors d)\<rparr>"

definition mark_stale :: "env \<Rightarrow> db \<Rightarrow> db" where
  "mark_stale e d =
     d\<lparr>connectors := sql_update
       (\<lambda>c. case c_lastHeartbeatAt c of None \<Rightarrow> False
          | Some t \<Rightarrow> t > pg_time (clock_ms e 0 - CONNECTOR_OFFLINE_AFTER_MS)
              \<and> t \<le> pg_time (clock_ms e 0 - CONNECTOR_STALE_AFTER_MS))
       (\<lambda>c. c\<lparr>c_health := Stale, c_updatedAt := pg_time (clock_ms e 0)\<rparr>) (connectors d)\<rparr>"

definition refreshHealth :: "env \<Rightarrow> db \<Rightarrow> db" where
  "refreshHealth e d = mark_stale e (mark_offline e d)"

definition storedServerMessageContainsPlaintextRequest :: "StoredServerMessage \<Rightarrow> bool" where
  "storedServerMessageContainsPlaintextRequest stored =
     (''request'' \<in> set (map fst (ss_payload stored)))"

definition activeAttemptForOffer :: "job_row \<Rightarrow> int" where
  "activeAttemptForOffer job = j_attempt job + 1"

end
