(* ===== verification/Outbox_Invariants.thy ===== *)
theory Outbox_Invariants
  imports Repository_Steps Outbox
begin

section \<open>What every operation of the connector store keeps\<close>

text \<open>
  The connector store changes more of a row than the repository does: a job's summary and times when
  it ends, its lease when it is offered again, the identity and payload of a server message that is
  restored or replaced by a tombstone. \<open>store_moves\<close> is what it may change, and \<open>store_good\<close> adds that
  the invariant of \<open>Db_Schema\<close> is kept. The locale \<open>outbox_relation\<close> extends \<open>tx_relation\<close> by what
  the outbox's own statements promise of a relation: then every operation that only restores,
  answers and replays messages keeps it. It is interpreted on \<open>store_good\<close> and on \<open>work_frame\<close>
  (no job, event or approval changes).
\<close>

subsection \<open>How rows move\<close>

definition job_moves :: "job_row \<Rightarrow> job_row \<Rightarrow> bool" where
  "job_moves r r' =
     (j_id r' = j_id r \<and> j_shortId r' = j_shortId r \<and> j_ownerId r' = j_ownerId r
      \<and> j_repositoryId r' = j_repositoryId r \<and> j_requestDigest r' = j_requestDigest r
      \<and> j_mode r' = j_mode r \<and> j_expiresAt r' = j_expiresAt r \<and> j_acceptedAt r' = j_acceptedAt r
      \<and> j_revision r \<le> j_revision r' \<and> j_attempt r \<le> j_attempt r'
      \<and> job_reach (j_status r) (j_status r')
      \<and> (j_revision r' = j_revision r \<longrightarrow> j_status r' = j_status r)
      \<and> (j_acknowledgedAt r \<noteq> None \<longrightarrow> j_acknowledgedAt r' = j_acknowledgedAt r)
      \<and> (isTerminal (j_status r) \<longrightarrow> j_summary r' = j_summary r
           \<and> (j_terminalAt r \<noteq> None \<longrightarrow> j_terminalAt r' = j_terminalAt r)))"

definition connector_moves :: "connector_row \<Rightarrow> connector_row \<Rightarrow> bool" where
  "connector_moves c c' =
     (c_id c' = c_id c \<and> c_ownerId c' = c_ownerId c
      \<and> c_lastServerSequence c \<le> c_lastServerSequence c'
      \<and> c_lastClientSequence c \<le> c_lastClientSequence c')"

definition message_moves :: "message_row \<Rightarrow> message_row \<Rightarrow> bool" where
  "message_moves m m' =
     (m_id m' = m_id m \<and> m_connectorId m' = m_connectorId m \<and> m_direction m' = m_direction m
      \<and> m_sequence m' = m_sequence m \<and> m_correlationId m' = m_correlationId m
      \<and> (m_direction m = Client \<longrightarrow> m_messageId m' = m_messageId m \<and> m_type m' = m_type m
           \<and> m_expiresAt m' = m_expiresAt m))"

definition store_moves :: "db \<Rightarrow> db \<Rightarrow> bool" where
  "store_moves d d' =
     (rows_evolve job_moves (jobs d) (jobs d')
      \<and> rows_evolve approval_evolves (approvals d) (approvals d')
      \<and> rows_evolve connector_moves (connectors d) (connectors d')
      \<and> rows_evolve message_moves (connectorMessages d) (connectorMessages d')
      \<and> extends (jobEvents d) (jobEvents d')
      \<and> extends (idempotencyRecords d) (idempotencyRecords d')
      \<and> repositoryPolicies d' = repositoryPolicies d \<and> owners d' = owners d)"

definition store_good :: "db \<Rightarrow> db \<Rightarrow> bool" where
  "store_good d d' = (db_inv d \<longrightarrow> db_inv d' \<and> store_moves d d')"

lemma job_moves_refl [simp]: "job_moves r r"
  by (simp add: job_moves_def job_reach.stay)

lemma job_moves_trans: "job_moves r s \<Longrightarrow> job_moves s t \<Longrightarrow> job_moves r t"
  unfolding job_moves_def using job_reach_trans terminal_absorbing
  by (smt (verit) order_antisym order_trans)

lemma connector_moves_refl [simp]: "connector_moves c c"
  by (simp add: connector_moves_def)

lemma connector_moves_trans: "connector_moves a b \<Longrightarrow> connector_moves b c \<Longrightarrow> connector_moves a c"
  by (auto simp: connector_moves_def)

lemma message_moves_refl [simp]: "message_moves m m"
  by (simp add: message_moves_def)

lemma message_moves_trans: "message_moves a b \<Longrightarrow> message_moves b c \<Longrightarrow> message_moves a c"
  by (auto simp: message_moves_def)

lemma store_moves_refl [simp]: "store_moves d d"
  by (simp add: store_moves_def rows_evolve_refl)

lemma store_moves_trans: "store_moves d e \<Longrightarrow> store_moves e f \<Longrightarrow> store_moves d f"
  unfolding store_moves_def
  by (auto intro: rows_evolve_trans [OF job_moves_trans] rows_evolve_trans [OF approval_evolves_trans]
      rows_evolve_trans [OF connector_moves_trans] rows_evolve_trans [OF message_moves_trans] extends_trans)

interpretation sg: tx_relation store_good
  by unfold_locales (auto simp: store_good_def intro: store_moves_trans)

lemmas store_good_trans [trans] = sg.rel_trans

lemma rows_evolve_weaken: "rows_evolve ev t t' \<Longrightarrow> (\<And>r s. ev r s \<Longrightarrow> ev' r s) \<Longrightarrow> rows_evolve ev' t t'"
  unfolding rows_evolve_def by blast

lemma evolves_moves: "evolves d d' \<Longrightarrow> store_moves d d'"
  unfolding evolves_def store_moves_def
  by (auto simp: extends_def elim!: rows_evolve_weaken intro!: rows_evolve_append message_moves_refl
      simp: job_evolves_def job_moves_def connector_evolves_def connector_moves_def)

lemma good_store_good: "good d d' \<Longrightarrow> store_good d d'"
  by (auto simp: good_def store_good_def intro: evolves_moves)


subsection \<open>Runs of the statements\<close>

lemma on_db_Inr [tx_simps]: "on_db m d = Inr r \<longleftrightarrow> m d = Inr r"
  by (auto simp: on_db_def split: sum.splits)

lemma store_error_Inr [tx_simps]: "store_error code d = Inr r \<longleftrightarrow> False"
  by (simp add: store_error_def tx_simps)

lemma update_messages_Inr [tx_simps]:
  "update_messages p f d = Inr (rows, d') \<longleftrightarrow>
     rows = sql_returning p f (connectorMessages d)
     \<and> \<not> list_ex (\<lambda>m. length (m_type m) > 64) rows
     \<and> distinct (map message_key (sql_update p f (connectorMessages d)))
     \<and> d' = d\<lparr>connectorMessages := sql_update p f (connectorMessages d)\<rparr>"
  by (auto simp: update_messages_def Let_def)

lemma select_message_eq [tx_simps]:
  "select_message p d = Inr (first_row (filter p (connectorMessages d)), d)"
  by (simp add: select_message_def tx_simps)

lemma assertSafeSequence_Inr [tx_simps]:
  "assertSafeSequence n d = Inr (u, d') \<longleftrightarrow> isSafeInteger n \<and> 0 \<le> n \<and> d' = d"
  by (auto simp: assertSafeSequence_def tx_simps)

lemma checkedJobIncrement_Inr [tx_simps]:
  "checkedJobIncrement n c code d = Inr (r, d') \<longleftrightarrow>
     0 \<le> n \<and> n < 2147483647 \<and> r = n + 1 \<and> d' = d"
  by (auto simp: checkedJobIncrement_def tx_simps split: if_splits)

lemma insert_approval_Inr [tx_simps]:
  "insert_approval r d = Inr (u, d') \<longleftrightarrow>
     approval_row_error r = None \<and> a_id r \<notin> set (map a_id (approvals d))
     \<and> a_jobId r \<in> set (map j_id (jobs d)) \<and> d' = d\<lparr>approvals := approvals d @ [r]\<rparr>"
  by (auto simp: insert_approval_def tx_simps split: if_splits)

lemma insert_requested_approval_Inr [tx_simps]:
  "insert_requested_approval r d = Inr (u, d') \<longleftrightarrow> insert_approval r d = Inr (u, d')"
  unfolding insert_requested_approval_def
  by (cases "insert_approval r d") (auto simp: store_error_def tx_throw_eq split: thrown.split)

lemma toStoredServerMessage_Inr [tx_simps]:
  "toStoredServerMessage row d = Inr (r, d') \<longleftrightarrow>
     isSafeInteger (m_sequence row) \<and> 0 \<le> m_sequence row \<and> d' = d
     \<and> r = \<lparr>ss_connectorId = m_connectorId row, ss_sequence = m_sequence row,
         ss_messageId = m_messageId row, ss_type = m_type row, ss_payload = m_payload row,
         ss_correlationId = m_correlationId row, ss_expiresAt = js_date (m_expiresAt row),
         ss_createdAt = js_date (m_createdAt row)\<rparr>"
  by (auto simp: toStoredServerMessage_def tx_simps)

lemma assertDeadlines_Inr [tx_simps]:
  "assertDeadlinesAfterWrite e k ts d = Inr (u, d') \<longleftrightarrow> list_all (\<lambda>t. clock_ms e k < t) ts \<and> d' = d"
  by (cases ts) (fastforce simp: assertDeadlinesAfterWrite_def tx_simps list_all_iff list_ex_iff Let_def
      not_le split: if_splits)+

lemma appendJobEvent_Inr:
  "appendJobEvent e u jobId input d = Inr (v, d') \<longleftrightarrow>
     (let n = foldr max (events_of d jobId) 0 in
      isSafeInteger n \<and> 0 \<le> n \<and> isSafeInteger (n + 1)
      \<and> insert_event (event_row_of e u jobId (n + 1) input) d = Inr (v, d')
      \<and> d' = d\<lparr>jobEvents := jobEvents d @ [event_row_of e u jobId (n + 1) input]\<rparr>)"
  by (auto simp: appendJobEvent_def nextJobEventSequence_def Let_def tx_simps)

lemma appendJobEvent_next:
  "appendJobEvent e u jobId input d = Inr (v, d') \<Longrightarrow> append_next_event e u jobId input d = Inr ((), d')"
  by (auto simp: appendJobEvent_def nextJobEventSequence_def append_next_event_Inr Let_def tx_simps)

subsection \<open>The statements keep the invariant\<close>

lemma store_good_update_jobs:
  assumes err: "\<forall>x \<in> set (sql_returning p f (jobs d)). job_row_error x = None"
    and ev: "\<And>r. r \<in> set (jobs d) \<Longrightarrow> p r \<Longrightarrow> job_moves r (f r)"
  shows "store_good d (d\<lparr>jobs := sql_update p f (jobs d)\<rparr>)"
proof -
  have ids: "map j_id (sql_update p f (jobs d)) = map j_id (jobs d)"
    and sids: "map j_shortId (sql_update p f (jobs d)) = map j_shortId (jobs d)"
    using ev by (auto simp: job_moves_def intro!: map_sql_update)
  have set_ids: "j_id ` set (sql_update p f (jobs d)) = j_id ` set (jobs d)"
    using ids by (metis list.set_map)
  have rows: "list_all (\<lambda>r. job_row_error r = None) (jobs d) \<Longrightarrow>
      list_all (\<lambda>r. job_row_error r = None) (sql_update p f (jobs d))"
    using err by (auto intro: list_all_sql_update)
  have "rows_evolve job_moves (jobs d) (sql_update p f (jobs d))"
    using ev by (intro rows_evolve_update) auto
  then show ?thesis
    by (simp add: store_good_def inv_defs ids sids rows set_ids store_moves_def rows_evolve_refl
        event_log_ok_def message_log_ok_def)
qed

lemma store_good_update_messages:
  assumes key: "distinct (map message_key (sql_update p f (connectorMessages d)))"
    and ev: "\<And>m. m \<in> set (connectorMessages d) \<Longrightarrow> p m \<Longrightarrow> message_moves m (f m)"
  shows "store_good d (d\<lparr>connectorMessages := sql_update p f (connectorMessages d)\<rparr>)"
    (is "store_good d ?d'")
proof -
  let ?t = "sql_update p f (connectorMessages d)"
  have same: "map k ?t = map k (connectorMessages d)"
    if "\<And>m m'. message_moves m m' \<Longrightarrow> k m' = k m" for k :: "message_row \<Rightarrow> 'k"
    using ev that by (intro map_sql_update) blast
  have ids: "map m_id ?t = map m_id (connectorMessages d)"
    and seqs: "map (\<lambda>m. (m_connectorId m, m_direction m, m_sequence m)) ?t
      = map (\<lambda>m. (m_connectorId m, m_direction m, m_sequence m)) (connectorMessages d)"
    by (rule same; simp add: message_moves_def)+
  have "server_messages_of ?d' c = server_messages_of d c" for c
  proof -
    have view: "map m_sequence (filter (\<lambda>m. m_connectorId m = c \<and> m_direction m = Server) t)
        = map (\<lambda>(i, dir, n). n) (filter (\<lambda>(i, dir, n). i = c \<and> dir = Server)
            (map (\<lambda>m. (m_connectorId m, m_direction m, m_sequence m)) t))" for t
      by (induction t) auto
    show ?thesis unfolding server_messages_of_def view using seqs by simp
  qed
  moreover have "rows_evolve message_moves (connectorMessages d) ?t"
    using ev by (intro rows_evolve_update) auto
  ultimately show ?thesis
    using key ids seqs
    by (simp add: store_good_def inv_defs store_moves_def rows_evolve_refl event_log_ok_def
        message_log_ok_def)
qed

lemma store_good_update_connectors:
  assumes err: "\<forall>x \<in> set (sql_returning p f (connectors d)). connector_row_error x = None"
    and ev: "\<And>c. c \<in> set (connectors d) \<Longrightarrow> p c \<Longrightarrow> connector_moves c (f c)"
  shows "store_good d (d\<lparr>connectors := sql_update p f (connectors d)\<rparr>)"
proof -
  let ?t = "sql_update p f (connectors d)"
  have ids: "map c_id ?t = map c_id (connectors d)"
    using ev by (auto simp: connector_moves_def intro!: map_sql_update)
  have rows: "list_all (\<lambda>r. connector_row_error r = None) (connectors d) \<Longrightarrow>
      list_all (\<lambda>r. connector_row_error r = None) ?t"
    using err by (auto intro: list_all_sql_update)
  have moved: "\<exists>c \<in> set (connectors d). connector_moves c c'" if "c' \<in> set ?t" for c'
    using that ev connector_moves_refl by (fastforce simp: in_sql_update)
  have log: "message_log_ok (d\<lparr>connectors := ?t\<rparr>)" if "message_log_ok d"
    unfolding message_log_ok_def list_all_iff
  proof
    fix c' assume "c' \<in> set (connectors (d\<lparr>connectors := ?t\<rparr>))"
    then obtain c where "c \<in> set (connectors d)" "connector_moves c c'" using moved by auto
    with \<open>message_log_ok d\<close> show "sorted_wrt (<) (server_messages_of (d\<lparr>connectors := ?t\<rparr>) (c_id c'))
        \<and> (\<forall>s \<in> set (server_messages_of (d\<lparr>connectors := ?t\<rparr>) (c_id c')). s \<le> c_lastServerSequence c')"
      by (fastforce simp: message_log_ok_def list_all_iff connector_moves_def)
  qed
  have "rows_evolve connector_moves (connectors d) ?t"
    using ev by (intro rows_evolve_update) auto
  with log rows show ?thesis
    by (simp add: store_good_def inv_defs ids store_moves_def rows_evolve_refl event_log_ok_def)
qed

lemma store_good_insert_approval: "insert_approval r d = Inr (u, d') \<Longrightarrow> store_good d d'"
  by (auto simp: tx_simps store_good_def inv_defs store_moves_def rows_evolve_refl event_log_ok_def
      message_log_ok_def intro: rows_evolve_append)

lemma store_good_insert_client:
  assumes "insert_message r d = Inr (u, d')" "m_direction r = Client"
  shows "store_good d d'"
proof -
  have err: "message_row_error d r = None"
    and d': "d' = d\<lparr>connectorMessages := connectorMessages d @ [r]\<rparr>"
    using assms(1) by (auto simp: tx_simps)
  have "server_messages_of d' c = server_messages_of d c" for c
    using assms(2) by (simp add: d' server_messages_append)
  with new_message_keys [OF err] show ?thesis
    by (auto simp: store_good_def inv_defs store_moves_def rows_evolve_refl event_log_ok_def
        message_log_ok_def d' intro: rows_evolve_append)
qed

lemma store_good_appendJobEvent: "appendJobEvent e u jobId input d = Inr (v, d') \<Longrightarrow> store_good d d'"
  by (blast intro: good_store_good good_append_next_event dest: appendJobEvent_next)


subsection \<open>Enqueueing a server message\<close>

lemma server_message_row_sel [simp]:
  "m_connectorId (server_message_row e u c type payload t corr n) = c"
  "m_direction (server_message_row e u c type payload t corr n) = Server"
  "m_sequence (server_message_row e u c type payload t corr n) = n"
  "m_type (server_message_row e u c type payload t corr n) = type"
  "m_payload (server_message_row e u c type payload t corr n) = payload"
  "m_expiresAt (server_message_row e u c type payload t corr n) = pg_time t"
  "m_messageId (server_message_row e u c type payload t corr n) = env_uuid e (u + 1)"
  "m_correlationId (server_message_row e u c type payload t (Some co) n) = co"
  "m_id (server_message_row e u c type payload t corr n) = env_uuid e u"
  "m_createdAt (server_message_row e u c type payload t corr n) = env_now e"
  by (simp_all add: server_message_row_def)

definition same_sequence :: "connector_row \<Rightarrow> connector_row \<Rightarrow> bool" where
  "same_sequence c x = (c_id x = c_id c \<and> c_lastServerSequence x = c_lastServerSequence c)"

lemma enqueueServerMessage_Inr:
  assumes "enqueueServerMessage e k u c type payload expiresAt corr d = Inr ((stored, c'), d')"
  obtains x n t where "x \<in> set (connectors d)" "same_sequence c x" "n = c_lastServerSequence c + 1"
    "t = (case expiresAt of Some t \<Rightarrow> t | None \<Rightarrow> clock_ms e k + 60000)" "1 \<le> n"
    "\<forall>x \<in> set (sql_returning (same_sequence c) (bump_sequence e n) (connectors d)).
        connector_row_error x = None"
    "message_row_error (d\<lparr>connectors := sql_update (same_sequence c) (bump_sequence e n) (connectors d)\<rparr>)
       (server_message_row e u (c_id c) type payload t corr n) = None"
    "d' = d\<lparr>connectors := sql_update (same_sequence c) (bump_sequence e n) (connectors d),
       connectorMessages := connectorMessages d @ [server_message_row e u (c_id c) type payload t corr n]\<rparr>"
    "c' = c\<lparr>c_lastServerSequence := n\<rparr>"
    "ss_type stored = type" "ss_payload stored = payload" "ss_sequence stored = n"
    "ss_connectorId stored = c_id c" "ss_expiresAt stored = t"
proof -
  define n where "n = c_lastServerSequence c + 1"
  define t where "t = (case expiresAt of Some t \<Rightarrow> t | None \<Rightarrow> clock_ms e k + 60000)"
  let ?upd = "update_connectors (same_sequence c) (bump_sequence e n)"
  let ?row = "server_message_row e u (c_id c) type payload t corr n"
  have fns: "same_sequence c = (\<lambda>x. c_id x = c_id c \<and> c_lastServerSequence x = c_lastServerSequence c)"
    "bump_sequence e n = (\<lambda>x. x\<lparr>c_lastServerSequence := n, c_updatedAt := env_now e\<rparr>)"
    by (auto simp: same_sequence_def bump_sequence_def)
  obtain updated d1 where upd: "?upd d = Inr (updated, d1)"
      and found: "map_option c_lastServerSequence updated = Some n"
      and ins: "insert_message ?row d1 = Inr ((), d')"
      and st: "toStoredServerMessage ?row d' = Inr (stored, d')"
      and n: "1 \<le> n" and c': "c' = c\<lparr>c_lastServerSequence := n\<rparr>"
    using assms unfolding enqueueServerMessage_def Let_def n_def [symmetric] t_def [symmetric] fns
    by (auto simp: tx_bind_Inr tx_check_Inr on_db_Inr tx_return_eq toStoredServerMessage_Inr)
  obtain r where "first_row (sql_returning (same_sequence c) (bump_sequence e n) (connectors d)) = Some r"
    using found upd by (auto simp: update_connectors_Inr)
  from first_row_returning_Some [OF this] obtain x where x: "x \<in> set (connectors d)" "same_sequence c x"
    by blast
  show thesis
    using upd ins st n c' by (intro that [OF x n_def t_def]) (auto simp: tx_simps)
qed

lemma store_good_enqueue:
  assumes "enqueueServerMessage e k u c type payload expiresAt corr d = Inr (r, d')"
  shows "store_good d d'"
proof -
  obtain stored c' where r: "r = (stored, c')" by force
  from assms show ?thesis
    unfolding r
  proof (rule enqueueServerMessage_Inr, goal_cases)
    case (1 x n t)
    let ?cs = "sql_update (same_sequence c) (bump_sequence e n) (connectors d)"
    let ?row = "server_message_row e u (c_id c) type payload t corr n"
    have up: "same_sequence c = (\<lambda>y. c_id y = c_id x \<and> c_lastServerSequence y = c_lastServerSequence x)"
      "n = c_lastServerSequence x + 1" "c_id c = c_id x"
      using 1 by (auto simp: same_sequence_def fun_eq_iff)
    have conn: "store_good d (d\<lparr>connectors := ?cs\<rparr>)"
      using 1 by (intro store_good_update_connectors)
        (auto simp: connector_moves_def bump_sequence_def same_sequence_def)
    have log: "message_log_ok d'" if "db_inv d"
      unfolding 1(8) up(1) using message_log_append [OF _ _ 1(1) up(2), of ?row e] that up(3)
      by (simp add: inv_defs)
    show ?thesis
      unfolding store_good_def
    proof
      assume inv: "db_inv d"
      then have inv1: "db_inv (d\<lparr>connectors := ?cs\<rparr>)" and mv: "store_moves d (d\<lparr>connectors := ?cs\<rparr>)"
        using conn by (auto simp: store_good_def)
      have "db_inv d'"
        using inv1 log [OF inv] new_message_keys [OF 1(7)] unfolding 1(8)
        by (auto simp: inv_defs event_log_ok_def)
      moreover have "store_moves (d\<lparr>connectors := ?cs\<rparr>) d'"
        by (auto simp: 1(8) store_moves_def rows_evolve_refl intro: rows_evolve_append)
      ultimately show "db_inv d' \<and> store_moves d d'" using mv store_moves_trans by blast
    qed
  qed
qed



lemma store_good_cases: "(db_inv d \<Longrightarrow> store_good d d') \<Longrightarrow> store_good d d'"
  by (auto simp: store_good_def)

lemma update_jobs_good:
  assumes run: "on_db (update_jobs p f) d = Inr (r, d')"
    and ev: "\<And>j. db_inv d \<Longrightarrow> j \<in> set (jobs d) \<Longrightarrow> p j \<Longrightarrow> job_moves j (f j)"
  shows "store_good d d'"
  by (rule store_good_cases) (use run ev in \<open>auto simp: tx_simps intro!: store_good_update_jobs\<close>)

lemma update_messages_good:
  assumes "update_messages p f d = Inr (r, d')"
    and "\<And>m. m \<in> set (connectorMessages d) \<Longrightarrow> p m \<Longrightarrow> message_moves m (f m)"
  shows "store_good d d'"
  using assms by (auto simp: tx_simps intro!: store_good_update_messages)

subsection \<open>Operations that only write messages\<close>

locale outbox_relation = tx_relation R for R :: "db \<Rightarrow> db \<Rightarrow> bool" +
  assumes keeps_messages: "(\<And>m. p m \<Longrightarrow> message_moves m (f m)) \<Longrightarrow> keeps (update_messages p f)"
    and keeps_enqueue: "keeps (enqueueServerMessage e k u c type payload t corr)"
    and keeps_beat: "keeps (on_db (update_connectors (\<lambda>c. c_id c = i)
          (\<lambda>c. c\<lparr>c_lastHeartbeatAt := b, c_health := h, c_updatedAt := u'\<rparr>)))"
begin

lemma keeps_store_error: "keeps (store_error code)"
  by (simp add: store_error_def keeps_throw)

lemma keeps_toStored: "keeps (toStoredServerMessage row)"
  by (rule keepsI) (simp add: tx_simps rel_refl)

lemma keeps_each_tx: "(\<And>x. keeps (f x)) \<Longrightarrow> keeps (each_tx f xs)"
  by (induction xs) (auto intro!: keeps_bind keeps_return)

lemma keeps_select_message: "keeps (select_message p)"
  by (simp add: select_message_def keeps_read)

lemmas keeps_basic = keeps_bind keeps_return keeps_throw keeps_check keeps_read keeps_store_error
  keeps_toStored keeps_each_tx keeps_select_message keeps_enqueue keeps_beat

lemma keeps_replaceServerMessage: "keeps (replaceServerMessage e u row now payload t x)"
  unfolding replaceServerMessage_def
  by (auto intro!: keeps_basic keeps_messages simp: message_moves_def)

lemma keeps_withdraw: "keeps (withdrawCancelledOffer e c j l now)"
  unfolding withdrawCancelledOffer_def
  by (auto intro!: keeps_basic keeps_replaceServerMessage split: option.split)

lemma keeps_tombstoneReplayBatch: "keeps (tombstoneReplayBatch e c n now)"
  unfolding tombstoneReplayBatch_def tombstone_one_def Let_def
  by (auto intro!: keeps_basic keeps_replaceServerMessage split: prod.split)

lemma keeps_refreshServerMessage: "keeps (refreshServerMessage e u original now)"
  unfolding refreshServerMessage_def
  by (auto intro!: keeps_basic keeps_messages simp: message_moves_def split: option.split)

lemma keeps_rememberOriginalResponse: "keeps (rememberOriginalResponse c message r key)"
  unfolding rememberOriginalResponse_def
  by (auto intro!: keeps_basic keeps_messages simp: message_moves_def)

lemma keeps_findOriginalResponse: "keeps (findOriginalResponse dp c message row key)"
  unfolding findOriginalResponse_def Let_def
  by (intro keeps_basic | simp split: option.split prod.split list.split | safe)+

lemma keeps_restore_response: "keeps (restore_response e k u b original)"
  by (simp add: restore_response_def keeps_refreshServerMessage keeps_toStored)

lemma keeps_heartbeat_again: "keeps (heartbeat_again connector message b now)"
  unfolding heartbeat_again_def by (auto intro!: keeps_basic)

lemmas keeps_rules = keeps_basic keeps_findOriginalResponse keeps_restore_response
  keeps_heartbeat_again keeps_rememberOriginalResponse keeps_tombstoneReplayBatch

lemma keeps_accept_duplicate: "keeps (accept_duplicate dp e connector message existing now)"
  unfolding accept_duplicate_def Let_def
  by (auto intro!: keeps_rules split: sum.split option.split prod.split)

lemma keeps_close_with_ack: "keeps (close_with_ack e connector message replayed)"
  unfolding close_with_ack_def by (auto intro!: keeps_rules split: prod.split)

lemma keeps_respond_hello: "keeps (respond_hello e connector message hello durable co now)"
  unfolding respond_hello_def
  by (auto intro!: keeps_rules keeps_messages split: prod.split simp: message_moves_def)

lemma keeps_respond_sync: "keeps (respond_sync dp e connector message s found)"
  unfolding respond_sync_def
  by (auto intro!: keeps_rules keeps_close_with_ack split: option.split prod.split)

lemma keeps_respond_other: "keeps (respond_other e connector message outcome durable now)"
  unfolding respond_other_def
  by (auto intro!: keeps_rules keeps_close_with_ack split: option.split prod.split)

lemma keeps_respond:
  "keeps (case (cm_payload message, outcome) of
       (Hello hello, _) \<Rightarrow> respond_hello e connector message hello durable co now
     | (Sync s, Applied r) \<Rightarrow> respond_sync dp e connector message s found
     | _ \<Rightarrow> respond_other e connector message outcome durable now)"
  by (auto split: client_payload.split business_outcome.split
      intro: keeps_respond_hello keeps_respond_sync keeps_respond_other)

lemma keeps_lockConnector: "keeps (lockConnector identity)"
  unfolding lockConnector_def validateConnector_def assertSafeSequence_def
  by (auto intro!: keeps_basic split: option.split)

lemma keeps_pending: "keeps (tx_bind (assertSafeSequence n) (\<lambda>_. pending_body e identity n))"
  unfolding pending_body_def assertSafeSequence_def
  by (intro keeps_rules keeps_lockConnector)

lemma keeps_enqueue_body: "keeps (enqueue_body e identity type payload t corr)"
  unfolding enqueue_body_def by (auto intro!: keeps_rules keeps_lockConnector split: prod.split)

end

interpretation so: outbox_relation store_good
proof unfold_locales
  show "sg.keeps (update_messages p f)" if "\<And>m. p m \<Longrightarrow> message_moves m (f m)" for p f
    using that by (intro sg.keepsI) (auto elim!: update_messages_good)
  show "sg.keeps (enqueueServerMessage e k u c type payload t corr)" for e k u c type payload t corr
    by (rule sg.keepsI) (rule store_good_enqueue)
  show "sg.keeps (on_db (update_connectors (\<lambda>c. c_id c = i)
      (\<lambda>c. c\<lparr>c_lastHeartbeatAt := b, c_health := h, c_updatedAt := u'\<rparr>)))" for i b h u'
    by (rule sg.keepsI)
      (auto simp: on_db_Inr update_connectors_Inr connector_moves_def intro!: store_good_update_connectors)
qed

text \<open>No job, event, approval or idempotency record changes.\<close>

definition work_frame :: "db \<Rightarrow> db \<Rightarrow> bool" where
  "work_frame d d' =
     (jobs d' = jobs d \<and> jobEvents d' = jobEvents d \<and> approvals d' = approvals d
      \<and> idempotencyRecords d' = idempotencyRecords d)"

interpretation wf: tx_relation work_frame
  by unfold_locales (auto simp: work_frame_def)

interpretation wo: outbox_relation work_frame
proof unfold_locales
  show "wf.keeps (update_messages p f)" if "\<And>m. p m \<Longrightarrow> message_moves m (f m)" for p f
    by (rule wf.keepsI) (auto simp: update_messages_Inr work_frame_def)
  show "wf.keeps (enqueueServerMessage e k u c type payload t corr)" for e k u c type payload t corr
    by (rule wf.keepsI) (auto elim!: enqueueServerMessage_Inr simp: work_frame_def)
  show "wf.keeps (on_db (update_connectors (\<lambda>c. c_id c = i)
      (\<lambda>c. c\<lparr>c_lastHeartbeatAt := b, c_health := h, c_updatedAt := u'\<rparr>)))" for i b h u'
    by (rule wf.keepsI) (auto simp: on_db_Inr update_connectors_Inr work_frame_def)
qed


subsection \<open>What a client message does to its job\<close>

lemma current_row:
  assumes "db_inv d" "found = Some job" "\<And>job. found = Some job \<Longrightarrow> job \<in> set (jobs d)"
    and "j \<in> set (jobs d)" "j_id j = j_id job"
  shows "j = job"
  using job_id_unique [of d j job] assms by auto

lemmas store_tx = tx_bind_Inr tx_check_Inr tx_return_eq tx_throw_eq tx_read_eq store_error_Inr
  checkedJobIncrement_Inr assertDeadlines_Inr select_message_eq

lemma reach_edge: "s = t \<or> canTransition s t \<Longrightarrow> job_reach s t"
  using job_reach.stay job_reach_edge by blast

lemma claimed_edges:
  "canTransition Running Waiting_approval" "canTransition Waiting_approval Running"
  "canTransition Cancelling Cancelled" "canTransition Dispatched Running" "canTransition Queued Dispatched"
  by (simp_all add: canTransition_def)

lemma good_ingestJobEvent:
  assumes run: "ingestJobEvent dp e message p found now co d = Inr (u, d')"
    and cur: "\<And>job. found = Some job \<Longrightarrow> job \<in> set (jobs d)"
  shows "store_good d d'"
proof (cases found)
  case None
  with run show ?thesis by (simp add: ingestJobEvent_def store_tx)
next
  case (Some job)
  define payload where "payload = clean_event_payload dp (je_payload p)"
  define type where "type = clean_text dp 64 (je_event_type p)"
  define ns where "ns = statusForEvent (j_status job) type payload"
  define input where "input = connector_event type payload (clean_text dp 32 (je_source p)) message"
  show ?thesis
  proof (cases "isTerminal (j_status job)")
    case True
    with run Some obtain v d1 where "appendJobEvent e 1 (j_id job) input d = Inr (v, d1)" "d' = d1"
      by (auto simp: ingestJobEvent_def Let_def store_tx input_def type_def payload_def)
    then show ?thesis by (simp add: store_good_appendJobEvent)
  next
    case False
    let ?p = "\<lambda>j. j_id j = j_id job \<and> j_revision j = j_revision job \<and> j_expiresAt j > env_clock e 10
             \<and> pg_time (message_expiry message) > env_clock e 11"
    let ?f = "apply_event now ns (job_event_stage payload type) (terminalStatusForEvent type payload \<noteq> None) payload"
    obtain r d1 v where upd: "on_db (update_jobs ?p ?f) d = Inr (r, d1)"
        and app: "appendJobEvent e 1 (j_id job) input d1 = Inr (v, d')"
        and ns: "ns = j_status job \<or> canTransition (j_status job) ns"
      using run Some False
      by (auto simp: ingestJobEvent_def Let_def store_tx input_def type_def payload_def ns_def
          split: option.splits)
    have "store_good d d1"
    proof (rule update_jobs_good [OF upd])
      fix j assume "db_inv d" "j \<in> set (jobs d)" "?p j"
      then have "j = job" using current_row [OF _ Some cur] by blast
      then show "job_moves j (?f j)"
        using ns False reach_edge [of "j_status job" ns]
        by (auto simp: job_moves_def apply_event_def Let_def)
    qed
    then show ?thesis using store_good_appendJobEvent [OF app] sg.rel_trans by blast
  qed
qed

lemma good_ingestApprovalRequested:
  assumes run: "ingestApprovalRequested dp e message p found now co d = Inr (u, d')"
    and cur: "\<And>job. found = Some job \<Longrightarrow> job \<in> set (jobs d)"
  shows "store_good d d'"
proof (cases found)
  case None
  with run show ?thesis by (simp add: ingestApprovalRequested_def store_tx)
next
  case (Some job)
  let ?p = "\<lambda>j. j_id j = j_id job \<and> j_revision j = j_revision job
      \<and> j_attempt j = arp_attempt p
      \<and> j_expiresAt j > env_clock e 10 \<and> pg_time (request_expiry p) > env_clock e 11
      \<and> pg_time (message_expiry message) > env_clock e 12"
  let ?f = "\<lambda>j. j\<lparr>j_status := Waiting_approval, j_currentStage := ''waiting_approval'',
      j_revision := j_revision j + 1, j_updatedAt := pg_time now\<rparr>"
  obtain r d1 row v d2 v' input where upd: "on_db (update_jobs ?p ?f) d = Inr (r, d1)"
      and ins: "insert_approval row d1 = Inr (v, d2)"
      and app: "appendJobEvent e 1 (j_id job) input d2 = Inr (v', d')"
      and st: "j_status job \<in> {Running, Waiting_approval}"
    using run Some
    by (auto simp: ingestApprovalRequested_def Let_def store_tx insert_requested_approval_Inr
        split: option.splits)
  have "store_good d d1"
  proof (rule update_jobs_good [OF upd])
    fix j assume "db_inv d" "j \<in> set (jobs d)" "?p j"
    then have "j = job" using current_row [OF _ Some cur] by blast
    then show "job_moves j (?f j)"
      using st claimed_edges(1)
      by (auto simp: job_moves_def isTerminal_def TERMINAL_JOB_STATES_def intro: reach_edge)
  qed
  then show ?thesis
    using store_good_insert_approval [OF ins] store_good_appendJobEvent [OF app] sg.rel_trans by blast
qed

lemma good_ingestJobCancelled:
  assumes run: "ingestJobCancelled dp e message p found now co d = Inr (u, d')"
    and cur: "\<And>job. found = Some job \<Longrightarrow> job \<in> set (jobs d)"
  shows "store_good d d'"
proof (cases found)
  case None
  with run show ?thesis by (simp add: ingestJobCancelled_def store_tx)
next
  case (Some job)
  let ?p = "\<lambda>j. j_id j = j_id job \<and> j_status j = Cancelling \<and> j_attempt j = jx_attempt p
      \<and> j_expiresAt j > env_clock e 12 \<and> pg_time (message_expiry message) > env_clock e 13"
  obtain d1 v input where upd: "d1 = d \<or> (\<exists>r. on_db (update_jobs ?p (mark_cancelled e now)) d = Inr (r, d1))"
      and app: "appendJobEvent e 1 (j_id job) input d1 = Inr (v, d')"
    using run Some
    by (auto simp: ingestJobCancelled_def Let_def store_tx split: option.splits if_splits)
  have "store_good d d1"
    using upd
  proof
    assume "\<exists>r. on_db (update_jobs ?p (mark_cancelled e now)) d = Inr (r, d1)"
    then obtain r where "on_db (update_jobs ?p (mark_cancelled e now)) d = Inr (r, d1)" ..
    then show ?thesis
      by (rule update_jobs_good)
        (use claimed_edges(3) in \<open>auto simp: job_moves_def mark_cancelled_def isTerminal_def
          TERMINAL_JOB_STATES_def intro: reach_edge\<close>)
  qed (simp add: sg.rel_refl)
  then show ?thesis using store_good_appendJobEvent [OF app] sg.rel_trans by blast
qed

lemma keeps_update_jobs: "(\<And>j. p j \<Longrightarrow> job_moves j (f j)) \<Longrightarrow> sg.keeps (on_db (update_jobs p f))"
  by (rule sg.keepsI) (auto elim!: update_jobs_good)

lemma keeps_append: "sg.keeps (appendJobEvent e u jobId input)"
  by (rule sg.keepsI) (rule store_good_appendJobEvent)

lemma keeps_select_job: "sg.keeps (on_db (select_job p))"
  by (rule sg.keepsI) (simp add: tx_simps sg.rel_refl)

lemma good_resumeDeliveredApproval: "sg.keeps (resumeDeliveredApproval e row now)"
proof -
  have resumed: "job_moves j (j\<lparr>j_status := Running, j_currentStage := ''running'',
      j_revision := j_revision j + 1, j_updatedAt := pg_time now\<rparr>)" if "j_status j = Waiting_approval" for j
    using claimed_edges(2) that
    by (auto simp: job_moves_def isTerminal_def TERMINAL_JOB_STATES_def intro: reach_edge)
  show ?thesis
    unfolding resumeDeliveredApproval_def Let_def
    by (auto split: option.split intro!: sg.keeps_bind sg.keeps_return keeps_select_job keeps_append
        keeps_update_jobs resumed)
qed

lemma good_acknowledge: "sg.keeps (acknowledge_server_message e c n row now)"
  unfolding acknowledge_server_message_def
  by (rule sg.keeps_bind)
    (auto intro!: sg.keepsI elim!: update_messages_good sg.keepsD [OF good_resumeDeliveredApproval]
      simp: message_moves_def store_tx sg.rel_refl split: option.splits)

end
