(* ===== verification/Outbox_Steps.thy ===== *)
theory Outbox_Steps
  imports Outbox_Invariants
begin

section \<open>Every operation of the connector store keeps the invariant\<close>

text \<open>
  One lemma per method of \<open>PostgresConnectorStore\<close>, proved from the lemmas on its statements in
  \<open>Outbox_Invariants\<close>: the tables before and after a call, committed or rolled back, are related by
  \<open>store_good\<close>. The methods and those of the repository are the steps of \<open>store_run\<close>.
\<close>

lemma good_claimOfferedJob:
  assumes run: "claimOfferedJob dp e identity message p found now durable co d = Inr (r, d')"
    and cur: "\<And>job. found = Some job \<Longrightarrow> job \<in> set (jobs d)"
  shows "store_good d d'"
proof (cases found)
  case None
  with run show ?thesis by (simp add: claimOfferedJob_def store_tx)
next
  case (Some job)
  show ?thesis
  proof (cases "\<exists>v. withdrawCancelledOffer e (ci_connectorId identity) (j_id job) (jl_lease_id p) now d = Inr (v, d')")
    case True
    then show ?thesis using sg.keepsD [OF so.keeps_withdraw] by blast
  next
    case False
    with run Some obtain u d1 v input
      where upd: "on_db (update_jobs (offered_claim_where e message p job) (offered_claim_update p now)) d = Inr (u, d1)"
        and app: "appendJobEvent e 1 (j_id job) input d1 = Inr (v, d')"
        and att: "jl_attempt p = offered_attempt job"
      by (auto simp: claimOfferedJob_def Let_def store_tx split: if_splits option.splits)
    have "store_good d d1"
    proof (rule update_jobs_good [OF upd])
      fix j assume w: "db_inv d" "j \<in> set (jobs d)" "offered_claim_where e message p job j"
      then have "j = job" using current_row [OF _ Some cur] by (auto simp: offered_claim_where_def)
      with w(3) show "job_moves j (offered_claim_update p now j)"
        using att claimed_edges(4)
        by (auto simp: job_moves_def offered_claim_where_def offered_claim_update_def offered_attempt_def isTerminal_def
            TERMINAL_JOB_STATES_def intro: reach_edge)
    qed
    then show ?thesis using store_good_appendJobEvent [OF app] sg.rel_trans by blast
  qed
qed

lemma good_applyBusiness:
  assumes run: "applyBusiness dp e identity c message found acknowledged durable co now d = Inr (r, d')"
    and cur: "\<And>job. found = Some job \<Longrightarrow> job \<in> set (jobs d)"
  shows "store_good d d'"
  using run cur
  by (cases "cm_payload message")
    (auto simp: applyBusiness_def no_claim_def store_tx sg.rel_refl split: if_splits
      intro: good_claimOfferedJob good_ingestJobEvent good_ingestApprovalRequested
        good_ingestJobCancelled sg.keepsD [OF good_acknowledge])

lemma good_run_business:
  assumes run: "run_business dp e identity c message found acknowledged durable co now d = Inr (r, d')"
    and cur: "\<And>job. found = Some job \<Longrightarrow> job \<in> set (jobs d)"
  shows "store_good d d'"
  using run cur good_applyBusiness
  by (auto simp: run_business_def sg.rel_refl split: sum.splits if_splits)


subsection \<open>Accepting a message\<close>

text \<open>Admission changes nothing; an admitted message carries the next client sequence.\<close>

lemma admit_message_Inr:
  assumes "admit_message connector message durable co now d = Inr (a, d')"
  shows "d' = d" "cm_sequence message = c_lastClientSequence connector + 1"
  using assms
  by (auto simp: admit_message_def Let_def store_tx assertSafeSequence_Inr
      split: if_splits client_payload.splits option.splits)

lemma insert_client_message_Inr:
  assumes "insert_client_message dp e c message durable co d = Inr (u, d')"
  obtains row where "insert_message row d = Inr ((), d')" "m_direction row = Client"
    "m_connectorId row = c" "m_messageId row = cm_message_id message" "m_sequence row = cm_sequence message"
    "d' = d\<lparr>connectorMessages := connectorMessages d @ [row]\<rparr>"
  using assms
  by (auto simp: insert_client_message_def store_tx on_db_Inr insert_message_Inr client_row_def split: sum.splits)

lemma good_consume_sequence:
  assumes "consume_sequence dp connector message co now d = Inr (connector', d')"
    and "cm_sequence message = c_lastClientSequence connector + 1"
  shows "store_good d d'"
  using assms
  by (auto simp: consume_sequence_def store_tx on_db_Inr update_connectors_Inr consume_update_def Let_def
      connector_moves_def intro!: store_good_update_connectors)

text \<open>The stages of a new message, with the tables after each.\<close>

lemma accept_new_Inr:
  assumes "accept_new dp e identity connector message found durable co now d = Inr (r, d')"
  obtains a row d2 outcome d3 connector' d4
    where "admit_message connector message durable co now d = Inr (a, d)"
      "cm_sequence message = c_lastClientSequence connector + 1"
      "insert_message row d = Inr ((), d2)" "m_direction row = Client" "m_connectorId row = c_id connector"
      "m_messageId row = cm_message_id message" "m_sequence row = cm_sequence message"
      "d2 = d\<lparr>connectorMessages := connectorMessages d @ [row]\<rparr>"
      "run_business dp e identity (c_id connector) message found a durable co now d2 = Inr (outcome, d3)"
      "consume_sequence dp connector message co now d3 = Inr (connector', d4)"
      "(case (cm_payload message, outcome) of
         (Hello h, _) \<Rightarrow> respond_hello e connector' message h durable co now
       | (Sync s, Applied x) \<Rightarrow> respond_sync dp e connector' message s found
       | _ \<Rightarrow> respond_other e connector' message outcome durable now) d4 = Inr (r, d')"
proof -
  obtain a d1 u d2 outcome d3 connector' d4
    where adm: "admit_message connector message durable co now d = Inr (a, d1)"
      and ins: "insert_client_message dp e (c_id connector) message durable co d1 = Inr (u, d2)"
      and rest: "run_business dp e identity (c_id connector) message found a durable co now d2 = Inr (outcome, d3)"
        "consume_sequence dp connector message co now d3 = Inr (connector', d4)"
        "(case (cm_payload message, outcome) of
         (Hello h, _) \<Rightarrow> respond_hello e connector' message h durable co now
       | (Sync s, Applied x) \<Rightarrow> respond_sync dp e connector' message s found
       | _ \<Rightarrow> respond_other e connector' message outcome durable now) d4 = Inr (r, d')"
    using assms unfolding accept_new_def process_message_def tx_bind_Inr by blast
  note d1 = admit_message_Inr [OF adm]
  from ins show thesis
    by (rule insert_client_message_Inr) (use adm rest d1 in \<open>auto intro: that\<close>)
qed

lemma good_accept_new_stages:
  assumes run: "accept_new dp e identity connector message found durable co now d = Inr (r, d')"
    and cur: "\<And>job. found = Some job \<Longrightarrow> job \<in> set (jobs d)"
  obtains row d2 where "store_good d d2" "store_good d2 d'" "row \<in> set (connectorMessages d2)"
    "m_direction row = Client" "m_connectorId row = c_id connector"
    "m_messageId row = cm_message_id message" "m_sequence row = cm_sequence message"
  using run
proof (rule accept_new_Inr)
  fix a row d2 outcome d3 connector' d4
  assume seq: "cm_sequence message = c_lastClientSequence connector + 1"
    and ins: "insert_message row d = Inr ((), d2)" "m_direction row = Client"
      "m_connectorId row = c_id connector" "m_messageId row = cm_message_id message"
      "m_sequence row = cm_sequence message"
      "d2 = d\<lparr>connectorMessages := connectorMessages d @ [row]\<rparr>"
    and biz: "run_business dp e identity (c_id connector) message found a durable co now d2 = Inr (outcome, d3)"
    and use_up: "consume_sequence dp connector message co now d3 = Inr (connector', d4)"
    and resp: "(case (cm_payload message, outcome) of
         (Hello h, _) \<Rightarrow> respond_hello e connector' message h durable co now
       | (Sync s, Applied x) \<Rightarrow> respond_sync dp e connector' message s found
       | _ \<Rightarrow> respond_other e connector' message outcome durable now) d4 = Inr (r, d')"
  have "store_good d d2" by (rule store_good_insert_client [OF ins(1,2)])
  moreover have "store_good d2 d'"
  proof -
    have "store_good d2 d3" using good_run_business [OF biz] cur by (simp add: ins(6))
    also note good_consume_sequence [OF use_up seq]
    also note sg.keepsD [OF so.keeps_respond resp]
    finally show ?thesis .
  qed
  ultimately show thesis using ins by (intro that [of d2 row]) auto
qed

lemma good_accept_new:
  assumes "accept_new dp e identity connector message found durable co now d = Inr (r, d')"
    and "\<And>job. found = Some job \<Longrightarrow> job \<in> set (jobs d)"
  shows "store_good d d'"
  using assms by (rule good_accept_new_stages) (assumption, rule sg.rel_trans)

lemma validateConnector_Inr:
  assumes "validateConnector row identity d = Inr (c, d')"
  shows "d' = d" "row = Some c" "c_ownerId c = ci_ownerId identity"
  using assms by (auto simp: validateConnector_def store_tx assertSafeSequence_Inr split: option.splits if_splits)

lemma lockConnector_Inr:
  assumes "lockConnector identity d = Inr (c, d')"
  shows "d' = d" "c \<in> set (connectors d)" "c_id c = ci_connectorId identity"
    "c_ownerId c = ci_ownerId identity"
proof -
  from assms have *: "validateConnector (first_row (filter (\<lambda>c. c_id c = ci_connectorId identity) (connectors d)))
      identity d = Inr (c, d')"
    by (simp add: lockConnector_def store_tx)
  note v = validateConnector_Inr [OF this]
  show "d' = d" "c_ownerId c = ci_ownerId identity" using v by auto
  show "c \<in> set (connectors d)" "c_id c = ci_connectorId identity"
    using first_row_filter_Some [OF v(2)] by auto
qed

lemma lockClientJob_Inr:
  assumes "lockClientJob identity jobId d = Inr (found, d')"
  shows "d' = d" "found = Some job \<Longrightarrow> job \<in> set (jobs d) \<and> j_id job = jobId
    \<and> j_ownerId job = ci_ownerId identity \<and> j_connectorId job = Some (ci_connectorId identity)"
  using assms by (auto simp: lockClientJob_def on_db_Inr select_job_eq dest: first_row_filter_Some)

text \<open>An accepted message is a duplicate of a stored one or a new one.\<close>

lemma accept_body_Inr:
  assumes "accept_body dp e identity message d = Inr (r, d')"
  obtains connector existing where
      "connector \<in> set (connectors d)" "c_id connector = ci_connectorId identity"
      "existing \<in> set (connectorMessages d)" "m_connectorId existing = c_id connector"
      "m_messageId existing = cm_message_id message"
      "accept_duplicate dp e connector message existing (clock_ms e 0) d = Inr (r, d')"
  | connector found durable co where
      "connector \<in> set (connectors d)" "c_id connector = ci_connectorId identity"
      "\<And>m. m \<in> set (connectorMessages d) \<Longrightarrow> m_connectorId m = c_id connector \<Longrightarrow> m_messageId m \<noteq> cm_message_id message"
      "\<And>job. found = Some job \<Longrightarrow> job \<in> set (jobs d)"
      "\<And>job. found = Some job \<Longrightarrow> message_job (cm_payload message) = Some (j_id job)
         \<and> j_ownerId job = ci_ownerId identity \<and> j_connectorId job = Some (ci_connectorId identity)"
      "accept_new dp e identity connector message found durable co (clock_ms e 0) d = Inr (r, d')"
proof -
  obtain found d1 connector d2 where job: "(case message_job (cm_payload message) of
         None \<Rightarrow> tx_return None | Some jobId \<Rightarrow> lockClientJob identity jobId) d = Inr (found, d1)"
      and conn: "lockConnector identity d1 = Inr (connector, d2)"
      and rest: "(case first_row (filter (\<lambda>m. m_connectorId m = c_id connector
            \<and> m_messageId m = cm_message_id message) (connectorMessages d2)) of
          Some row \<Rightarrow> accept_duplicate dp e connector message row (clock_ms e 0)
        | None \<Rightarrow> accept_new dp e identity connector message found
            (has_capability DURABLE_RECEIPTS connector (cm_payload message))
            (has_capability DURABLE_RECEIPTS connector (cm_payload message)
              \<and> has_capability JOB_COORDINATION_CAPABILITY connector (cm_payload message))
            (clock_ms e 0)) d2 = Inr (r, d')"
    using assms unfolding accept_body_def Let_def tx_bind_Inr select_message_eq by blast
  have job': "d1 = d" "\<And>job. found = Some job \<Longrightarrow> job \<in> set (jobs d)"
    "\<And>job. found = Some job \<Longrightarrow> message_job (cm_payload message) = Some (j_id job)
       \<and> j_ownerId job = ci_ownerId identity \<and> j_connectorId job = Some (ci_connectorId identity)"
    using job lockClientJob_Inr by (auto simp: store_tx split: option.splits)
  note conn' = lockConnector_Inr [OF conn] job'(1)
  show thesis
  proof (cases "first_row (filter (\<lambda>m. m_connectorId m = c_id connector
            \<and> m_messageId m = cm_message_id message) (connectorMessages d))")
    case None
    with rest conn' job' show thesis by (intro that(2)) (auto simp: first_row_None filter_empty_conv)
  next
    case (Some row)
    with rest conn' first_row_filter_Some [OF Some] show thesis by (intro that(1)) auto
  qed
qed

lemma good_acceptClientMessage: "store_good d (snd (acceptClientMessage dp e identity message d))"
  unfolding acceptClientMessage_def
proof (rule sg.rel_transaction)
  fix r d' assume "accept_body dp e identity message d = Inr (r, d')"
  then show "store_good d d'"
    by (rule accept_body_Inr) (auto elim: sg.keepsD [OF so.keeps_accept_duplicate] good_accept_new)
qed


subsection \<open>Offering jobs and reading the outbox\<close>

lemma next_offer_Some:
  assumes "next_offer ownerId locked t d = Some job"
  shows "job \<in> set (jobs d)" "is_offerable ownerId (eligible_repositories ownerId t d) t job"
    "j_id job \<notin> set locked"
proof -
  let ?offered = "sort_key j_acceptedAt (sort_key j_id
       (filter (\<lambda>j. is_offerable ownerId (eligible_repositories ownerId t d) t j \<and> j_id j \<notin> set locked)
         (jobs d)))"
  have "job \<in> set ?offered"
    using assms by (cases ?offered) (simp_all add: next_offer_def first_row_def)
  then show "job \<in> set (jobs d)" "is_offerable ownerId (eligible_repositories ownerId t d) t job"
    "j_id job \<notin> set locked"
    by auto
qed

lemma keeps_offer_tail:
  "sg.keeps (tx_bind (appendJobEvent e u jobId event) (\<lambda>_.
     tx_bind (enqueueServerMessage e k v connector type payload t corr)
       (\<lambda>(stored, connector'). tx_return (Some stored))))"
  by (auto intro!: so.keeps_rules keeps_append split: prod.split)

lemma good_offer_job:
  assumes "j_status job \<in> {Queued, Dispatched}"
  shows "sg.keeps (offer_job e identity connector job now)"
proof -
  have "job_moves j (offer_update c l t now j)" if "j_status j = j_status job" for j c l t
    using assms that claimed_edges(5)
    by (auto simp: job_moves_def offer_update_def isTerminal_def TERMINAL_JOB_STATES_def intro: reach_edge)
  then show ?thesis
    unfolding offer_job_def Let_def checkedJobIncrement_def
    by (intro so.keeps_rules keeps_update_jobs keeps_append)
      (simp_all add: offer_where_def sg.keeps_return sg.keeps_throw keeps_offer_tail split: option.split)
qed

lemma good_dispatchNext: "store_good d (snd (dispatchNext e identity locked d))"
  unfolding dispatchNext_def
proof (rule sg.rel_transaction)
  fix r d' assume "dispatch_body e identity locked d = Inr (r, d')"
  then consider "d' = d"
    | job connector where "next_offer (ci_ownerId identity) locked (clock_ms e 0) d = Some job"
        "offer_job e identity connector job (clock_ms e 1) d = Inr (r, d')"
    by (auto simp: dispatch_body_def store_tx readConnector_def lockConnector_def Let_def
        split: if_splits option.splits dest!: validateConnector_Inr(1))
  then show "store_good d d'"
  proof cases
    case 2
    then have "j_status job \<in> {Queued, Dispatched}"
      using next_offer_Some(2) [OF 2(1)] by (auto simp: is_offerable_def)
    with 2(2) show ?thesis using sg.keepsD [OF good_offer_job] by blast
  qed (simp add: sg.rel_refl)
qed

lemma good_pendingServerMessages: "store_good d (snd (pendingServerMessages e identity n d))"
  unfolding pendingServerMessages_def by (rule sg.keeps_transaction [OF so.keeps_pending])

lemma good_enqueueServer: "store_good d (snd (enqueueServer e identity type payload t corr d))"
  unfolding enqueueServer_def by (rule sg.keeps_transaction [OF so.keeps_enqueue_body])

lemma good_marks: "store_good d (mark_offline e d)" "store_good d (mark_stale e d)"
proof -
  have same: "connector_row_error (c\<lparr>c_health := h, c_updatedAt := t\<rparr>) = connector_row_error c" for c h t
    by (simp add: connector_row_error_def)
  have "store_good d (d\<lparr>connectors := sql_update p (\<lambda>c. c\<lparr>c_health := h, c_updatedAt := t\<rparr>) (connectors d)\<rparr>)"
    for p h t
  proof (rule store_good_cases)
    assume "db_inv d"
    then show "store_good d (d\<lparr>connectors := sql_update p (\<lambda>c. c\<lparr>c_health := h, c_updatedAt := t\<rparr>) (connectors d)\<rparr>)"
      by (intro store_good_update_connectors)
        (auto simp: inv_defs sql_returning_def list_all_iff same connector_moves_def)
  qed
  then show "store_good d (mark_offline e d)" "store_good d (mark_stale e d)"
    by (simp_all add: mark_offline_def mark_stale_def)
qed



subsection \<open>Runs of the control plane\<close>

text \<open>
  The repository and the connector store work on the same tables. A run interleaves their
  transactions in any order; \<open>refreshHealth\<close> counts as the two statements it consists of.
\<close>

inductive store_step :: "db \<Rightarrow> db \<Rightarrow> bool" where
  repository: "repo_step d d' \<Longrightarrow> store_step d d'"
| accept: "store_step d (snd (acceptClientMessage dp e identity message d))"
| dispatch: "store_step d (snd (dispatchNext e identity locked d))"
| pending: "store_step d (snd (pendingServerMessages e identity n d))"
| enqueue: "store_step d (snd (enqueueServer e identity type payload t corr d))"
| offline: "store_step d (mark_offline e d)"
| stale: "store_step d (mark_stale e d)"

inductive_cases store_stepE: "store_step d d'"

inductive store_run :: "db \<Rightarrow> db \<Rightarrow> bool" where
  none: "store_run d d"
| more: "store_run d d' \<Longrightarrow> store_step d' d'' \<Longrightarrow> store_run d d''"

lemma store_step_good: "store_step d d' \<Longrightarrow> store_good d d'"
  by (erule store_stepE)
    (auto intro: good_store_good repo_step_good good_acceptClientMessage good_dispatchNext
      good_pendingServerMessages good_enqueueServer good_marks)

lemma store_run_good: "store_run d d' \<Longrightarrow> store_good d d'"
proof (induction rule: store_run.induct)
  case (none d)
  show ?case by (rule sg.rel_refl)
next
  case (more d d' d'')
  then show ?case by (blast intro: sg.rel_trans store_step_good)
qed

lemma store_runD:
  assumes "store_run d d'" "db_inv d"
  shows "db_inv d'" "store_moves d d'"
  using store_run_good [OF assms(1)] assms(2) by (auto simp: store_good_def)

end
