(* ===== verification/Repository_Properties.thy ===== *)
theory Repository_Properties
  imports Outbox_Steps
begin

section \<open>Properties of the job repository\<close>

text \<open>
  The history properties (over any run of repository calls) and the functional properties of
  the single methods, each with a witness over the sample database below: one owner with one
  connector and one repository, and a job in each of the statuses the witnesses need.
\<close>

subsection \<open>A sample database\<close>

definition sample_job :: "string \<Rightarrow> string \<Rightarrow> JobStatus \<Rightarrow> job_row" where
  "sample_job jid sid st =
     \<lparr>j_id = jid, j_shortId = sid, j_ownerId = ''o'', j_connectorId = Some ''c'',
      j_repositoryId = ''repo'', j_requestCiphertext = Some ''x'', j_requestDigest = ''d'',
      j_mode = Normal, j_status = st, j_currentStage = status_string st, j_revision = 3,
      j_cancelRevision = None, j_attempt = 1, j_leaseId = None, j_leaseExpiresAt = None,
      j_harnessAgentId = None, j_harnessSessionId = None, j_title = None,
      j_summary = JObj [(''summary'', JStr ''done'')], j_unreadTerminal = True,
      j_acknowledgedAt = None, j_acceptedAt = 0, j_expiresAt = 100000000,
      j_requestDeleteAt = None, j_retentionDeleteAt = 0, j_terminalAt = None,
      j_createdAt = 0, j_updatedAt = 0\<rparr>"

definition sample_approval :: approval_row where
  "sample_approval =
     \<lparr>a_id = ''a'', a_jobId = ''w'', a_attempt = 1, a_jobRevision = 3,
      a_actionSummary = [], a_impactSummary = [],
      a_actionFingerprint = ''sha256:'' @ replicate 64 CHR ''0'', a_riskClass = [],
      a_expiresAt = 50000000, a_decision = None, a_decidedAt = None, a_createdAt = 0,
      a_updatedAt = 0\<rparr>"

definition sample_connector :: connector_row where
  "sample_connector =
     \<lparr>c_id = ''c'', c_ownerId = ''o'', c_credentialId = [], c_credentialHash = [],
      c_publicKey = None, c_capabilities = [], c_protocolVersion = ''1.0'', c_health = Fresh,
      c_lastServerSequence = 4, c_lastClientSequence = 0, c_lastHeartbeatAt = None,
      c_createdAt = 0, c_updatedAt = 0\<rparr>"

definition sample_policy :: policy_row where
  "sample_policy =
     \<lparr>p_id = ''repo'', p_ownerId = ''o'', p_displayName = ''R'', p_canonicalPath = ''/r'',
      p_allowedActionClasses = [], p_approvalTimeoutMinutes = 5,
      p_runtimeTimeoutSeconds = 3600, p_maxConcurrency = 1, p_enabled = True,
      p_createdAt = 0, p_updatedAt = 0\<rparr>"

definition sample_offer_job :: job_row where
  "sample_offer_job =
     (sample_job ''f'' ''QH-000F'' Dispatched)
       \<lparr>j_leaseId := Some ''00000000-0000-4000-8000-000000000000'',
        j_leaseExpiresAt := Some 30000000\<rparr>"

definition sample_db :: db where
  "sample_db =
     \<lparr>owners = [\<lparr>o_id = ''o'', o_displayName = None, o_createdAt = 0, o_updatedAt = 0\<rparr>],
      connectors = [sample_connector], repositoryPolicies = [sample_policy],
      jobs = [sample_job ''q'' ''QH-000A'' Queued, sample_job ''r'' ''QH-000B'' Running,
              sample_job ''w'' ''QH-000C'' Waiting_approval,
              sample_job ''s'' ''QH-000D'' Succeeded, sample_offer_job],
      jobEvents = [], approvals = [sample_approval], idempotencyRecords = [],
      connectorMessages = []\<rparr>"

definition sample_env :: env where
  "sample_env = \<lparr>env_now = 1000000, env_clock = (\<lambda>k. 1000000 + int k),
     env_uuid = (\<lambda>n. replicate (Suc n) CHR ''u''), env_bytes = (\<lambda>_. (1, 2, 3))\<rparr>"

lemma fresh_db_inv:
  assumes "keys_ok d" "rows_ok d" "refs_ok d" "message_log_ok d" "jobEvents d = []"
  shows "db_inv d"
  using assms by (simp add: db_inv_def event_log_ok_def events_of_def)

lemma sample_db_inv: "db_inv sample_db"
  by (rule fresh_db_inv; code_simp)

definition sample_cancel :: "string \<Rightarrow> CancelJobInput" where
  "sample_cancel j =
     \<lparr>ca_ownerId = ''o'', ca_jobId = j, ca_expectedRevision = 3, ca_reason = None\<rparr>"

lemma sample_run:
  "store_run sample_db (snd (cancelAtomically sample_env (sample_cancel ''r'') sample_db))"
  by (rule store_run.more [OF store_run.none store_step.repository [OF repo_step.cancel]])

lemma toJobRecord_sel [simp]:
  "r_jobId (toJobRecord r) = j_id r" "r_status (toJobRecord r) = j_status r"
  "r_revision (toJobRecord r) = j_revision r" "r_ownerId (toJobRecord r) = j_ownerId r"
  "r_attempt (toJobRecord r) = j_attempt r" "r_shortId (toJobRecord r) = j_shortId r"
  "r_leaseExpiresAt (toJobRecord r) = map_option js_date (j_leaseExpiresAt r)"
  "r_expiresAt (toJobRecord r) = js_date (j_expiresAt r)"
  "r_updatedAt (toJobRecord r) = js_date (j_updatedAt r)"
  by (simp_all add: toJobRecord_def)

subsection \<open>Later states\<close>

lemma later_job:
  assumes "db_inv d" "store_run d d'" "r \<in> set (jobs d)"
  obtains r' where "filter (\<lambda>x. j_id x = j_id r) (jobs d') = [r']" "job_moves r r'"
    "r' \<in> set (jobs d')" "j_id r' = j_id r"
proof -
  have g: "db_inv d'" "store_moves d d'"
    using store_runD [OF assms(2,1)] by simp_all
  then obtain r' where r': "r' \<in> set (jobs d')" "job_moves r r'"
    using assms(3) by (auto simp: store_moves_def rows_evolve_def)
  then have "j_id r' = j_id r" by (simp add: job_moves_def)
  moreover have "filter (\<lambda>x. j_id x = j_id r') (jobs d') = [r']"
    using filter_key_unique [of j_id "jobs d'" r'] g(1) r'(1) by (simp add: inv_defs)
  ultimately show thesis using that r' by simp
qed

lemma first_row_job:
  assumes "db_inv d" "r \<in> set (jobs d)" "j_id r = k" "P r"
  shows "first_row (filter (\<lambda>x. j_id x = k \<and> P x) (jobs d)) = Some r"
proof -
  have "filter (\<lambda>x. j_id x = k) (jobs d) = [r]"
    using filter_key_unique [of j_id "jobs d" r] assms(1,2,3) by (simp add: inv_defs)
  moreover have "filter (\<lambda>x. j_id x = k \<and> P x) (jobs d)
      = filter P (filter (\<lambda>x. j_id x = k) (jobs d))"
    by (simp add: conj_commute)
  ultimately show ?thesis using assms(4) by simp
qed

lemma first_row_job_id:
  assumes "db_inv d" "r \<in> set (jobs d)" "j_id r = k"
  shows "first_row (filter (\<lambda>x. j_id x = k) (jobs d)) = Some r"
  using first_row_job [OF assms, of "\<lambda>_. True"] by simp

lemma run_inv: "db_inv d \<Longrightarrow> store_run d d' \<Longrightarrow> db_inv d'"
  by (rule store_runD)

lemma run_moves: "db_inv d \<Longrightarrow> store_run d d' \<Longrightarrow> store_moves d d'"
  by (rule store_runD)

lemma transaction_good_inv: "good d d' \<Longrightarrow> db_inv d \<Longrightarrow> db_inv d'"
  by (simp add: good_def)

subsection \<open>History\<close>

text \<open>
  C1. Any run of the control plane, interleaving repository calls (creations, transitions,
  cancellations, claims, approval decisions, acknowledgements) and calls of the connector store
  (client messages, dispatches, replays, server messages), whether they return or throw, takes a database that satisfies the
  schema invariant to one that does: unique keys, row checks, references, gapless event logs and
  strictly increasing server messages bounded by the connector's sequence.
\<close>

theorem control_plane_run_keeps_db_inv:
  assumes "db_inv d" and "store_run d d'"
  shows "db_inv d'"
  using assms by (rule run_inv)

theorem control_plane_run_keeps_db_inv_witness:
  "db_inv (snd (cancelAtomically sample_env (sample_cancel ''r'') sample_db))"
  by (rule control_plane_run_keeps_db_inv [OF sample_db_inv sample_run])

text \<open>
  C2. In any run a job keeps its identity, owner, repository and digest, its status moves only
  along the edges of the transition table, its revision never decreases and tells statuses
  apart, and a job in a terminal status stays in it.
\<close>

theorem job_history:
  assumes "db_inv d" and "store_run d d'" and "r \<in> set (jobs d)"
  shows "\<exists>r'. filter (\<lambda>x. j_id x = j_id r) (jobs d') = [r']
     \<and> j_ownerId r' = j_ownerId r \<and> j_shortId r' = j_shortId r
     \<and> j_repositoryId r' = j_repositoryId r \<and> j_requestDigest r' = j_requestDigest r
     \<and> job_reach (j_status r) (j_status r')
     \<and> j_revision r \<le> j_revision r'
     \<and> (j_revision r' = j_revision r \<longrightarrow> j_status r' = j_status r)
     \<and> (isTerminal (j_status r) \<longrightarrow> j_status r' = j_status r)"
proof (rule later_job [OF assms])
  fix r' assume "filter (\<lambda>x. j_id x = j_id r) (jobs d') = [r']" "job_moves r r'"
  then show ?thesis
    by (auto simp: job_moves_def dest: terminal_absorbing)
qed

theorem job_history_witness:
  "\<exists>r'. filter (\<lambda>x. j_id x = ''s'')
         (jobs (snd (cancelAtomically sample_env (sample_cancel ''r'') sample_db))) = [r']
     \<and> j_status r' = Succeeded"
proof -
  have "sample_job ''s'' ''QH-000D'' Succeeded \<in> set (jobs sample_db)"
    by (simp add: sample_db_def)
  from job_history [OF sample_db_inv sample_run this] show ?thesis
    by (auto simp: sample_job_def isTerminal_def TERMINAL_JOB_STATES_def)
qed

text \<open>
  C3. An approval that has been decided is never decided again: in every later state its row is
  exactly the same.
\<close>

theorem decided_approval_is_final:
  assumes "db_inv d" and "store_run d d'" and "a \<in> set (approvals d)" and "a_decision a \<noteq> None"
  shows "filter (\<lambda>x. a_id x = a_id a) (approvals d') = [a]"
proof -
  have "a \<in> set (approvals d')"
    using run_moves [OF assms(1,2)] assms(3,4)
    by (auto simp: store_moves_def rows_evolve_def approval_evolves_def)
  then show ?thesis
    using filter_key_unique [of a_id "approvals d'" a] run_inv [OF assms(1,2)]
    by (simp add: inv_defs)
qed

definition decided_db :: db where
  "decided_db = sample_db\<lparr>approvals :=
     [sample_approval\<lparr>a_decision := Some ApprovalDecision.Reject, a_decidedAt := Some 0\<rparr>]\<rparr>"

lemma decided_db_inv: "db_inv decided_db"
  by (rule fresh_db_inv; code_simp)

theorem decided_approval_is_final_witness:
  "filter (\<lambda>x. a_id x = ''a'')
     (approvals (snd (cancelAtomically sample_env (sample_cancel ''w'') decided_db)))
   = [sample_approval\<lparr>a_decision := Some ApprovalDecision.Reject, a_decidedAt := Some 0\<rparr>]"
  using decided_approval_is_final [OF decided_db_inv
      store_run.more [OF store_run.none store_step.repository [OF repo_step.cancel [of decided_db sample_env "sample_cancel ''w''"]]],
      of "sample_approval\<lparr>a_decision := Some ApprovalDecision.Reject, a_decidedAt := Some 0\<rparr>"]
  by (simp add: decided_db_def sample_approval_def)

text \<open>
  C4. The event log is append-only and gapless: a run only adds events at the end, and the
  events of each job are numbered 1, 2, 3 and so on in the order they were added.
\<close>

theorem event_log_append_only_gapless:
  assumes "db_inv d" and "store_run d d'"
  shows "(\<exists>new. jobEvents d' = jobEvents d @ new)
     \<and> (\<forall>j. events_of d' j = map int [1..<Suc (length (events_of d' j))])"
  using run_moves [OF assms] run_inv [OF assms]
  by (auto simp: store_moves_def extends_def inv_defs event_log_ok_def)

theorem event_log_append_only_gapless_witness:
  "events_of (snd (cancelAtomically sample_env (sample_cancel ''r'') sample_db)) ''r'' = [1]"
proof -
  let ?d = "snd (cancelAtomically sample_env (sample_cancel ''r'') sample_db)"
  have "length (events_of ?d ''r'') = 1" by code_simp
  with event_log_append_only_gapless [OF sample_db_inv sample_run] show ?thesis
    by (metis One_nat_def list.simps(8) list.simps(9) of_nat_1 upt_rec upt_conv_Nil lessI less_irrefl)
qed


subsection \<open>Idempotent creation\<close>

text \<open>After a creation the key is recorded and names the job that was returned.\<close>

lemma created_key:
  assumes "db_inv d" "create_body e input d = Inr (a, d')"
  obtains k where "k \<in> set (idempotencyRecords d')" "same_request input k"
    "i_requestDigest k = cr_requestDigest input" "i_jobId k = r_jobId a"
  using assms(2)
proof (cases rule: create_body_Inr)
  case (existing r original)
  have "r \<in> set (idempotencyRecords d)" "same_request input r"
    using first_row_filter_Some [OF existing(1)] by auto
  moreover have "j_id original = i_jobId r"
    using first_row_filter_Some [OF existing(3)] by auto
  ultimately show ?thesis
    using existing that by (auto simp: toJobRecord_def)
next
  case (created row d1)
  then show ?thesis
    using that [of "idempotency_of e input row"]
    by (simp add: same_request_def idempotency_of_def toJobRecord_def)
qed

lemma key_found:
  assumes "db_inv d" "k \<in> set (idempotencyRecords d)" "same_request input k"
  shows "first_row (filter (same_request input) (idempotencyRecords d)) = Some k"
proof -
  have "filter (\<lambda>x. (i_ownerId x, i_clientRequestId x) = (i_ownerId k, i_clientRequestId k))
      (idempotencyRecords d) = [k]"
    by (rule filter_key_unique [of "\<lambda>x. (i_ownerId x, i_clientRequestId x)"])
       (use assms(1,2) in \<open>simp_all add: inv_defs\<close>)
  moreover have "same_request input = (\<lambda>x. (i_ownerId x, i_clientRequestId x)
      = (i_ownerId k, i_clientRequestId k))"
    using assms(3) by (auto simp: same_request_def fun_eq_iff)
  ultimately show ?thesis by simp
qed

lemma create_replay:
  assumes "db_inv d" "k \<in> set (idempotencyRecords d)" "same_request input k"
  shows "create_body e input d =
    (if i_requestDigest k = cr_requestDigest input
     then Inr (toJobRecord (the (first_row (filter (\<lambda>j. j_id j = i_jobId k) (jobs d)))), d)
     else Inl (RepositoryError R_IDEMPOTENCY_CONFLICT))"
proof -
  have "i_jobId k \<in> j_id ` set (jobs d)"
    using assms(1,2) by (auto simp: inv_defs)
  then have "first_row (filter (\<lambda>j. j_id j = i_jobId k) (jobs d)) \<noteq> None"
    by (auto simp: filter_empty_conv)
  then show ?thesis
    using key_found [OF assms]
    by (auto simp: create_body_def return_original_def tx_bind_def find_idempotency_eq
        tx_check_def readJob_eq tx_simps split: option.splits)
qed

text \<open>
  C18. Creation is idempotent: after a creation returned a job, and after any further calls, the
  record of its key is still in the table, with the digest and the job of that creation; a request
  with this key and this digest returns that job and changes nothing, and one with another digest
  is refused with \<open>IDEMPOTENCY_CONFLICT\<close>. The time of the second request does not matter: the
  code stores the record's \<open>expiresAt\<close>, 24 hours later, and never reads it.
\<close>

theorem create_is_idempotent:
  assumes "db_inv d" and "createIdempotent e input d = (Inr a, d1)" and "store_run d1 d2"
    and "cr_ownerId input' = cr_ownerId input"
    and "cr_clientRequestId input' = cr_clientRequestId input"
  shows "(\<exists>k \<in> set (idempotencyRecords d2). same_request input' k
           \<and> i_requestDigest k = cr_requestDigest input \<and> i_jobId k = r_jobId a)
     \<and> (cr_requestDigest input' = cr_requestDigest input \<longrightarrow>
           (\<exists>b. createIdempotent e' input' d2 = (Inr b, d2) \<and> r_jobId b = r_jobId a))
     \<and> (cr_requestDigest input' \<noteq> cr_requestDigest input \<longrightarrow>
           createIdempotent e' input' d2 = (Inl (RepositoryError R_IDEMPOTENCY_CONFLICT), d2))"
proof -
  have run: "create_body e input d = Inr (a, d1)"
    using assms(2) by (simp add: createIdempotent_def transaction_Inr)
  have inv1: "db_inv d1" using good_create_body [OF run] assms(1) by (simp add: good_def)
  have inv2: "db_inv d2" using run_inv [OF inv1 assms(3)] .
  obtain k where k: "k \<in> set (idempotencyRecords d1)" "same_request input k"
    "i_requestDigest k = cr_requestDigest input" "i_jobId k = r_jobId a"
    using created_key [OF assms(1) run] .
  have k2: "k \<in> set (idempotencyRecords d2)"
    using run_moves [OF inv1 assms(3)] k(1) by (auto simp: store_moves_def extends_def)
  have same: "same_request input' k" using k(2) assms(4,5) by (simp add: same_request_def)
  let ?j = "the (first_row (filter (\<lambda>j. j_id j = i_jobId k) (jobs d2)))"
  have "i_jobId k \<in> j_id ` set (jobs d2)" using inv2 k2 by (auto simp: inv_defs)
  then obtain j where "j \<in> set (jobs d2)" "j_id j = i_jobId k" by auto
  then have "?j = j" using first_row_job_id [OF inv2] by simp
  then have "r_jobId (toJobRecord ?j) = r_jobId a"
    using \<open>j_id j = i_jobId k\<close> k(4) by (simp add: toJobRecord_def)
  then show ?thesis
    using create_replay [OF inv2 k2 same, of e'] k(3,4) k2 same
    by (auto simp: createIdempotent_def transaction_def)
qed

definition sample_create :: "string \<Rightarrow> CreateIdempotentInput" where
  "sample_create digest =
     \<lparr>cr_ownerId = ''o'', cr_clientRequestId = ''k'', cr_repositoryId = ''repo'',
      cr_requestCiphertext = ''c'', cr_requestDigest = digest, cr_mode = None\<rparr>"

definition next_day_env :: env where
  "next_day_env = sample_env\<lparr>env_now := env_now sample_env + hours 25\<rparr>"

theorem create_is_idempotent_witness:
  "\<exists>a d1. createIdempotent sample_env (sample_create ''x'') sample_db = (Inr a, d1)
     \<and> list_all (\<lambda>k. i_expiresAt k < env_now next_day_env) (idempotencyRecords d1)
     \<and> (\<exists>b. createIdempotent next_day_env (sample_create ''x'') d1 = (Inr b, d1) \<and> r_jobId b = r_jobId a)
     \<and> createIdempotent next_day_env (sample_create ''y'') d1
         = (Inl (RepositoryError R_IDEMPOTENCY_CONFLICT), d1)"
proof -
  have "\<not> isl (fst (createIdempotent sample_env (sample_create ''x'') sample_db))" by code_simp
  then obtain a d1 where run: "createIdempotent sample_env (sample_create ''x'') sample_db = (Inr a, d1)"
    by (cases "createIdempotent sample_env (sample_create ''x'') sample_db" rule: prod.exhaust)
       (metis fst_conv isl_def sum.exhaust_sel)
  have "list_all (\<lambda>k. i_expiresAt k < env_now next_day_env)
      (idempotencyRecords (snd (createIdempotent sample_env (sample_create ''x'') sample_db)))"
    by code_simp
  moreover have "\<exists>b. createIdempotent next_day_env (sample_create ''x'') d1 = (Inr b, d1) \<and> r_jobId b = r_jobId a"
    using create_is_idempotent [OF sample_db_inv run store_run.none, of "sample_create ''x''" next_day_env]
    by simp
  moreover have "createIdempotent next_day_env (sample_create ''y'') d1
      = (Inl (RepositoryError R_IDEMPOTENCY_CONFLICT), d1)"
    using create_is_idempotent [OF sample_db_inv run store_run.none, of "sample_create ''y''" next_day_env]
    by (simp add: sample_create_def)
  ultimately show ?thesis using run by auto
qed

subsection \<open>Optimistic concurrency\<close>

lemma transition_update_sel [simp]:
  "j_id (transition_update e event status r) = j_id r"
  "j_status (transition_update e event status r) = status"
  "j_revision (transition_update e event status r) = j_revision r + 1"
  "isTerminal status \<Longrightarrow> j_unreadTerminal (transition_update e event status r)"
  "isTerminal status \<Longrightarrow> j_terminalAt (transition_update e event status r) \<noteq> None"
  by (auto simp: transition_update_def isTerminal_def mark_terminal_def split: option.splits)

lemma transition_effect:
  assumes "db_inv d" "transition_body e jobId n status event d = Inr (a, d')"
  obtains r where "r \<in> set (jobs d')" "j_id r = jobId" "j_revision r = n + 1"
    "j_status r = status" "a = toJobRecord r" "j_unreadTerminal r \<or> \<not> isTerminal status"
    "j_terminalAt r \<noteq> None \<or> \<not> isTerminal status"
  using assms(2)
proof (rule transition_body_Inr)
  fix current
  let ?p = "\<lambda>r. j_id r = jobId \<and> j_revision r = n"
  let ?f = "transition_update e event status"
  assume cur: "first_row (filter (\<lambda>r. j_id r = jobId) (jobs d)) = Some current"
    and n: "j_revision current = n"
    and app: "append_next_event e 0 jobId event
        (d\<lparr>jobs := sql_update ?p ?f (jobs d)\<rparr>) = Inr ((), d')"
    and a: "a = toJobRecord (the (first_row (sql_returning ?p ?f (jobs d))))"
  have cur': "current \<in> set (jobs d)" "j_id current = jobId"
    using first_row_filter_Some [OF cur] by auto
  have "first_row (filter ?p (jobs d)) = Some current"
    using first_row_job [OF assms(1) cur', of "\<lambda>r. j_revision r = n"] n by simp
  then have ret: "first_row (sql_returning ?p ?f (jobs d)) = Some (?f current)"
    by (auto simp: sql_returning_def first_row_def split: list.splits)
  have "?f current \<in> set (jobs d')"
    using app cur' n by (force simp: append_next_event_Inr Let_def in_sql_update)
  then show thesis
    by (rule that) (use a ret n cur' transition_update_sel(4,5) in auto)
qed

text \<open>
  A transition that returns has moved the job to the requested status at the next revision,
  and the revision it consumed is spent: any later transition that expects it is refused with
  \<open>REVISION_CONFLICT\<close> and changes nothing, so of two concurrent updates exactly one wins.
\<close>

theorem stale_revision_never_wins:
  assumes "db_inv d" and "transitionAndAppend e jobId n status event d = (Inr a, d1)"
    and "store_run d1 d2" and "validateEvent event' = None"
  shows "r_status a = status \<and> r_revision a = n + 1
     \<and> transitionAndAppend e' jobId n status' event' d2
         = (Inl (RepositoryError R_REVISION_CONFLICT), d2)"
proof -
  have run: "transition_body e jobId n status event d = Inr (a, d1)"
    using assms(2)
    by (auto simp: transitionAndAppend_def guarded_def transaction_Inr split: option.splits)
  have inv1: "db_inv d1" using good_transition_body [OF run] assms(1) by (simp add: good_def)
  obtain r where r: "r \<in> set (jobs d1)" "j_id r = jobId" "j_revision r = n + 1"
    "j_status r = status" "a = toJobRecord r"
    using transition_effect [OF assms(1) run] .
  obtain r' where r': "r' \<in> set (jobs d2)" "j_id r' = j_id r" "job_moves r r'"
    using later_job [OF inv1 assms(3) r(1)] by metis
  then have "j_revision r' \<noteq> n" using r(3) by (simp add: job_moves_def)
  moreover have "first_row (filter (\<lambda>x. j_id x = jobId) (jobs d2)) = Some r'"
    using first_row_job_id [OF run_inv [OF inv1 assms(3)] r'(1)] r'(2) r(2) by simp
  ultimately have "transition_body e' jobId n status' event' d2
      = Inl (RepositoryError R_REVISION_CONFLICT)"
    by (auto simp: transition_body_def tx_bind_def select_job_eq tx_check_def)
  with r assms(4) show ?thesis
    by (simp add: transitionAndAppend_def guarded_def transaction_def toJobRecord_def)
qed

definition sample_event :: JobEventInput where
  "sample_event = event_input ''job.succeeded'' []"

theorem stale_revision_never_wins_witness:
  "\<exists>a d1. transitionAndAppend sample_env ''r'' 3 Succeeded sample_event sample_db = (Inr a, d1)
     \<and> transitionAndAppend sample_env ''r'' 3 Failed sample_event d1
         = (Inl (RepositoryError R_REVISION_CONFLICT), d1)"
proof -
  have v: "validateEvent sample_event = None" by code_simp
  have "\<not> isl (fst (transitionAndAppend sample_env ''r'' 3 Succeeded sample_event sample_db))"
    by code_simp
  then obtain a d1 where
    run: "transitionAndAppend sample_env ''r'' 3 Succeeded sample_event sample_db = (Inr a, d1)"
    by (cases "transitionAndAppend sample_env ''r'' 3 Succeeded sample_event sample_db"
        rule: prod.exhaust) (metis fst_conv isl_def sum.exhaust_sel)
  with stale_revision_never_wins [OF sample_db_inv run store_run.none v] show ?thesis by blast
qed


subsection \<open>Cancellation\<close>

lemma cancel_body_cases:
  assumes "cancel_body e input d = Inr (a, d')"
  obtains (settled) current where "current \<in> set (jobs d)" "j_id current = ca_jobId input"
      "j_ownerId current = ca_ownerId input"
      "j_status current = Cancelling \<or> isTerminal (j_status current)"
      "a = toJobRecord current" "d' = d"
  | (moved) current where "current \<in> set (jobs d)" "j_id current = ca_jobId input"
      "j_ownerId current = ca_ownerId input" "\<not> isTerminal (j_status current)"
      "j_status current \<noteq> Cancelling" "cancel_move e input current d = Inr (a, d')"
proof -
  obtain current where cur: "first_row (filter (\<lambda>r. j_id r = ca_jobId input
      \<and> j_ownerId r = ca_ownerId input) (jobs d)) = Some current"
    using assms by (auto simp: cancel_body_def tx_core split: option.splits)
  note facts = first_row_filter_Some [OF cur]
  have "isTerminal Cancelled" by (simp add: isTerminal_def TERMINAL_JOB_STATES_def)
  with assms cur facts show thesis
    by (cases "j_status current = Cancelling \<or> isTerminal (j_status current)")
       (auto simp: cancel_body_def tx_core split: if_splits intro: settled moved)
qed

lemma cancel_update_sel [simp]:
  "j_id (cancel_update e imm st n r) = j_id r" "j_status (cancel_update e imm st n r) = st"
  "j_revision (cancel_update e imm st n r) = n"
  "j_ownerId (cancel_update e imm st n r) = j_ownerId r"
  "j_connectorId (cancel_update e imm st n r) = j_connectorId r"
  "j_attempt (cancel_update e imm st n r) = j_attempt r"
  "j_expiresAt (cancel_update e imm st n r) = j_expiresAt r"
  by (auto simp: cancel_update_def)

lemma update_own_row:
  assumes "db_inv d" "r \<in> set (jobs d)" "p r" "\<And>x. p x \<Longrightarrow> j_id x = j_id r"
    and "update_jobs p f d = Inr (row, d')"
  shows "row = Some (f r)" "f r \<in> set (jobs d')"
proof -
  have "p = (\<lambda>x. j_id x = j_id r \<and> p x)" using assms(4) by auto
  then have "first_row (filter p (jobs d)) = Some r"
    using first_row_job [OF assms(1,2) refl, of p] assms(3) by metis
  then show "row = Some (f r)"
    using assms(5) by (auto simp: update_jobs_Inr sql_returning_def first_row_def split: list.splits)
  show "f r \<in> set (jobs d')"
    using assms(2,3,5) by (force simp: update_jobs_Inr in_sql_update)
qed

lemma jobs_after_append: "append_next_event e u j ev d = Inr (v, d') \<Longrightarrow> jobs d' = jobs d"
  by (auto simp: append_next_event_Inr Let_def)

lemma jobs_after_enqueue:
  "enqueueServerCommand e k u w c type payload t d = Inr (v, d') \<Longrightarrow> jobs d' = jobs d"
  by (erule enqueueServerCommand_Inr) simp

lemma jobs_after_enqueue_cancel: "enqueue_cancel e input r d = Inr (v, d') \<Longrightarrow> jobs d' = jobs d"
  by (auto simp: enqueue_cancel_def tx_core split: option.splits dest: jobs_after_enqueue)

lemma cancel_move_effect:
  assumes inv: "db_inv d" and cur: "current \<in> set (jobs d)" "j_id current = ca_jobId input"
      "j_ownerId current = ca_ownerId input"
    and run: "cancel_move e input current d = Inr (a, d')"
  obtains r where "r \<in> set (jobs d')" "j_id r = ca_jobId input"
    "j_ownerId r = ca_ownerId input" "a = toJobRecord r"
    "j_revision r = ca_expectedRevision input + 1"
    "j_status r = (if j_status current = Queued \<or> j_status current = Dispatched
       then Cancelled else Cancelling)"
  using run
proof (rule cancel_move_Inr)
  fix immediate nextStatus updated d1 d2
  let ?f = "cancel_update e immediate nextStatus (j_revision current + 1)"
  assume n: "j_revision current = ca_expectedRevision input"
    and imm: "immediate = (j_status current = Queued \<or> j_status current = Dispatched)"
    and next': "nextStatus = (if immediate then Cancelled else Cancelling)"
    and upd: "update_jobs (cancel_where input) ?f d = Inr (Some updated, d1)"
    and app: "append_next_event e 0 (ca_jobId input) (cancel_event input immediate updated) d1
         = Inr ((), d2)"
    and enq: "(if immediate then tx_return () else enqueue_cancel e input updated) d2
         = Inr ((), d')"
    and a: "a = toJobRecord updated"
  have w: "cancel_where input current" "\<And>x. cancel_where input x \<Longrightarrow> j_id x = j_id current"
    using cur n by (auto simp: cancel_where_def)
  have "updated = ?f current" "?f current \<in> set (jobs d1)"
    using update_own_row [OF inv cur(1) w upd] by auto
  moreover have "jobs d' = jobs d1"
    using jobs_after_append [OF app] enq jobs_after_enqueue_cancel
    by (auto simp: tx_core split: if_splits)
  ultimately show thesis
    using that [of "?f current"] a cur n imm next' by auto
qed

text \<open>
  Cancellation settles: when it returns, the job is cancelling or terminal (at the next
  revision when it moved), and after any further calls every later cancellation of the job by
  its owner, whatever revision it expects, returns a status reached from that one and changes
  nothing.
\<close>

theorem cancel_settles:
  assumes "db_inv d" and "cancelAtomically e input d = (Inr a, d1)" and "store_run d1 d2"
    and "ca_jobId input' = ca_jobId input" and "ca_ownerId input' = ca_ownerId input"
    and "validateCancel input' = None"
  shows "(r_status a = Cancelling \<or> isTerminal (r_status a)) \<and>
     (\<exists>b. cancelAtomically e' input' d2 = (Inr b, d2) \<and> r_jobId b = ca_jobId input
        \<and> job_reach (r_status a) (r_status b))"
proof -
  have run: "cancel_body e input d = Inr (a, d1)"
    using assms(2)
    by (auto simp: cancelAtomically_def guarded_def transaction_Inr split: option.splits)
  have inv1: "db_inv d1" using good_cancel_body [OF run] assms(1) by (simp add: good_def)
  obtain r where r: "r \<in> set (jobs d1)" "j_id r = ca_jobId input" "j_ownerId r = ca_ownerId input"
    "a = toJobRecord r" "j_status r = Cancelling \<or> isTerminal (j_status r)"
    using run
  proof (cases rule: cancel_body_cases)
    case (settled current)
    then show ?thesis using that by auto
  next
    case (moved current)
    show ?thesis
      using cancel_move_effect [OF assms(1) moved(1-3,6)] that
      by (metis isTerminal_def TERMINAL_JOB_STATES_def list.set_intros)
  qed
  obtain r' where r': "r' \<in> set (jobs d2)" "j_id r' = j_id r" "job_moves r r'"
    using later_job [OF inv1 assms(3) r(1)] by metis
  have reach: "job_reach (j_status r) (j_status r')" using r'(3) by (simp add: job_moves_def)
  have st: "j_status r' = Cancelling \<or> isTerminal (j_status r')"
    using reach r(5) cancelling_reach terminal_absorbing by metis
  have "first_row (filter (\<lambda>x. j_id x = ca_jobId input' \<and> j_ownerId x = ca_ownerId input')
      (jobs d2)) = Some r'"
    using first_row_job [OF run_inv [OF inv1 assms(3)] r'(1), of "ca_jobId input'"
        "\<lambda>x. j_ownerId x = ca_ownerId input'"] r r' assms(4,5) by (simp add: job_moves_def)
  then have "cancel_body e' input' d2 = Inr (toJobRecord r', d2)"
    using st by (auto simp: cancel_body_def tx_bind_def select_job_eq tx_return_eq)
  then show ?thesis
    using assms(6) r r' reach
    by (auto simp: cancelAtomically_def guarded_def transaction_def toJobRecord_def)
qed


lemma returned: "\<not> isl (fst p) \<Longrightarrow> \<exists>a d1. p = (Inr a, d1)"
  by (metis isl_def prod.exhaust_sel sum.exhaust_sel)

theorem cancel_settles_witness:
  "\<exists>a d1 b. cancelAtomically sample_env (sample_cancel ''r'') sample_db = (Inr a, d1)
     \<and> cancelAtomically sample_env (sample_cancel ''r'') d1 = (Inr b, d1)"
proof -
  have v: "validateCancel (sample_cancel ''r'') = None" by code_simp
  have "\<not> isl (fst (cancelAtomically sample_env (sample_cancel ''r'') sample_db))" by code_simp
  then obtain a d1 where "cancelAtomically sample_env (sample_cancel ''r'') sample_db = (Inr a, d1)"
    using returned by blast
  with cancel_settles [OF sample_db_inv this store_run.none refl refl v] show ?thesis by blast
qed

lemma cancel_runs_move:
  assumes "db_inv d" and "current \<in> set (jobs d)" and "j_id current = ca_jobId input"
    and "j_ownerId current = ca_ownerId input"
    and "j_status current \<noteq> Cancelling" and "\<not> isTerminal (j_status current)"
    and "cancelAtomically e input d = (Inr a, d')"
  shows "cancel_move e input current d = Inr (a, d')"
proof -
  have "cancel_body e input d = Inr (a, d')"
    using assms(7)
    by (auto simp: cancelAtomically_def guarded_def transaction_Inr split: option.splits)
  then show ?thesis
  proof (cases rule: cancel_body_cases)
    case (settled c)
    then show ?thesis
      using assms(1-6) job_id_unique [OF assms(1,2) settled(1)] by auto
  next
    case (moved c)
    then show ?thesis using assms(1-4) job_id_unique [OF assms(1,2) moved(1)] by auto
  qed
qed

text \<open>
  Cancelling a running or waiting job appends exactly one \<open>job.cancelling\<close> event and exactly
  one \<open>job.cancel\<close> command, addressed to the job's connector, numbered one above its last server
  sequence, carrying the job, its attempt and its new revision, and not outliving the job;
  cancelling a queued or dispatched job sends no command.
\<close>

theorem cancel_sends_one_command:
  assumes "db_inv d" and "current \<in> set (jobs d)" and "j_id current = ca_jobId input"
    and "j_ownerId current = ca_ownerId input"
    and "j_status current \<noteq> Cancelling" and "\<not> isTerminal (j_status current)"
    and "cancelAtomically e input d = (Inr a, d')"
  shows "if j_status current = Queued \<or> j_status current = Dispatched
    then r_status a = Cancelled \<and> connectorMessages d' = connectorMessages d
    else r_status a = Cancelling \<and> r_revision a = j_revision current + 1 \<and>
      (\<exists>c ev m. c \<in> set (connectors d) \<and> j_connectorId current = Some (c_id c)
         \<and> c_ownerId c = ca_ownerId input
         \<and> jobEvents d' = jobEvents d @ [ev] \<and> e_eventType ev = ''job.cancelling''
         \<and> connectorMessages d' = connectorMessages d @ [m]
         \<and> m_connectorId m = c_id c \<and> m_type m = ''job.cancel''
         \<and> m_sequence m = c_lastServerSequence c + 1
         \<and> map_of (m_payload m) ''job_id'' = Some (JStr (ca_jobId input))
         \<and> map_of (m_payload m) ''attempt'' = Some (js_int (j_attempt current))
         \<and> map_of (m_payload m) ''job_revision'' = Some (js_int (j_revision current + 1))
         \<and> m_expiresAt m \<le> j_expiresAt current)"
proof -
  have run: "cancel_move e input current d = Inr (a, d')"
    by (rule cancel_runs_move [OF assms])
  show ?thesis
    using run
  proof (rule cancel_move_Inr)
    fix immediate nextStatus updated d1 d2
    let ?f = "cancel_update e immediate nextStatus (j_revision current + 1)"
    assume n: "j_revision current = ca_expectedRevision input"
      and imm: "immediate = (j_status current = Queued \<or> j_status current = Dispatched)"
      and next': "nextStatus = (if immediate then Cancelled else Cancelling)"
      and upd: "update_jobs (cancel_where input) ?f d = Inr (Some updated, d1)"
      and app: "append_next_event e 0 (ca_jobId input) (cancel_event input immediate updated) d1
         = Inr ((), d2)"
      and enq: "(if immediate then tx_return () else enqueue_cancel e input updated) d2
         = Inr ((), d')"
      and a: "a = toJobRecord updated"
    have w: "cancel_where input current" "\<And>x. cancel_where input x \<Longrightarrow> j_id x = j_id current"
      using assms(3,4) n by (auto simp: cancel_where_def)
    have u: "updated = ?f current"
      using update_own_row [OF assms(1,2) w upd] by auto
    have d1: "connectors d1 = connectors d" "connectorMessages d1 = connectorMessages d"
      "jobEvents d1 = jobEvents d"
      using upd by (auto simp: update_jobs_Inr)
    obtain ev where ev: "e_eventType ev = ev_type (cancel_event input immediate updated)"
      "d2 = d1\<lparr>jobEvents := jobEvents d1 @ [ev]\<rparr>"
      using app by (auto simp: append_next_event_Inr Let_def) (metis event_row_of_sel(3))
    show ?thesis
    proof (cases immediate)
      case True
      then have "d' = d2" using enq by (simp add: tx_core)
      with True show ?thesis using a u imm next' ev(2) d1 by simp
    next
      case False
      with enq u obtain cid where cid: "j_connectorId current = Some cid"
        and cmd: "enqueueServerCommand e 0 4 (ca_ownerId input) cid Job_cancel
            [(''job_id'', JStr (j_id current)), (''attempt'', js_int (j_attempt current)),
             (''job_revision'', js_int (j_revision current + 1)),
             (''reason'', JStr (cancel_reason (ca_reason input))),
             (''nonce'', JStr (env_uuid e 3))] (js_date (j_expiresAt current)) d2 = Inr ((), d')"
        by (auto simp: enqueue_cancel_def tx_core split: option.splits)
      have ty: "e_eventType ev = ''job.cancelling''"
        using ev(1) False by (simp add: cancel_event_def event_input_def)
      have ra: "r_status a = Cancelling" "r_revision a = j_revision current + 1"
        using False a u next' by simp_all
      have nimm: "\<not> (j_status current = Queued \<or> j_status current = Dispatched)"
        using False imm by simp
      have early: "pg_time t \<le> j_expiresAt current" if "t \<le> js_date (j_expiresAt current)" for t
        using that pg_time_js_date_le [of "j_expiresAt current"] by (simp add: pg_time_def)
      show ?thesis
        unfolding if_not_P [OF nimm] using cmd
        by (rule enqueueServerCommand_Inr)
           (use ra ty cid ev(2) d1 assms(3) early in \<open>auto intro!: exI\<close>)
    qed
  qed
qed


theorem cancel_sends_one_command_witness:
  "map m_type (connectorMessages
     (snd (cancelAtomically sample_env (sample_cancel ''r'') sample_db))) = [''job.cancel'']"
proof -
  have "\<not> isl (fst (cancelAtomically sample_env (sample_cancel ''r'') sample_db))" by code_simp
  then obtain a d1 where run:
    "cancelAtomically sample_env (sample_cancel ''r'') sample_db = (Inr a, d1)"
    using returned by blast
  have "sample_job ''r'' ''QH-000B'' Running \<in> set (jobs sample_db)" by (simp add: sample_db_def)
  from cancel_sends_one_command [OF sample_db_inv this _ _ _ _ run] run show ?thesis
    by (auto simp: sample_job_def sample_cancel_def sample_db_def isTerminal_def
        TERMINAL_JOB_STATES_def)
qed

subsection \<open>Claims\<close>

lemma claim_body_Some:
  assumes "claim_body e jobId input d = Inr (Some a, d')"
  obtains current updated d1 where
    "first_row (filter (\<lambda>r. j_id r = jobId) (jobs d)) = Some current"
    "offer_current input current" "offer_unexpired (js_date (env_clock e 0)) current"
    "\<exists>c \<in> set (connectors d). c_id c = cl_connectorId input \<and> c_ownerId c = j_ownerId current"
    "update_jobs (claim_where e jobId input (j_revision current)) (claim_update e input) d
       = Inr (Some updated, d1)"
    "\<exists>ev. append_next_event e 0 jobId ev d1 = Inr ((), d')" "a = toJobRecord updated"
  using assms
  by (auto simp: claim_body_def tx_core split: option.splits if_splits)
     (blast dest!: first_row_filter_Some)

lemma claim_effect:
  assumes inv: "db_inv d" and run: "claim_body e jobId input d = Inr (Some a, d')"
  obtains r0 r where "r0 \<in> set (jobs d)" "j_id r0 = jobId"
    "claim_where e jobId input (j_revision r0) r0" "r = claim_update e input r0"
    "r \<in> set (jobs d')" "a = toJobRecord r"
    "\<exists>c \<in> set (connectors d). c_id c = cl_connectorId input \<and> c_ownerId c = j_ownerId r0"
  using run
proof (rule claim_body_Some)
  fix current updated :: job_row and d1
  let ?w = "claim_where e jobId input (j_revision current)"
  assume cur: "first_row (filter (\<lambda>r. j_id r = jobId) (jobs d)) = Some current"
    and own: "\<exists>c \<in> set (connectors d). c_id c = cl_connectorId input
        \<and> c_ownerId c = j_ownerId current"
    and upd: "update_jobs ?w (claim_update e input) d = Inr (Some updated, d1)"
    and app: "\<exists>ev. append_next_event e 0 jobId ev d1 = Inr ((), d')"
    and a: "a = toJobRecord updated"
  have c: "current \<in> set (jobs d)" "j_id current = jobId"
    using first_row_filter_Some [OF cur] by auto
  have "first_row (sql_returning ?w (claim_update e input) (jobs d)) = Some updated"
    using upd by (simp add: update_jobs_Inr)
  then obtain x where x: "x \<in> set (jobs d)" "?w x"
    by (auto dest: first_row_returning_Some)
  have "x = current"
    using x(2) c by (intro job_id_unique [OF inv x(1) c(1)]) (simp add: claim_where_def)
  with x c have w: "?w current" "\<And>y. ?w y \<Longrightarrow> j_id y = j_id current"
    by (auto simp: claim_where_def)
  show thesis
    using that [OF c w(1) refl] update_own_row [OF inv c(1) w upd] app own a
    by (auto dest: jobs_after_append)
qed

text \<open>
  A claim is exclusive. When \<open>claimOffer\<close> returns a job, the offer was dispatched to this
  connector under this lease, neither the lease nor the job had expired, the connector belongs
  to the job's owner, and the job now runs at the claimed attempt under a lease that ends no
  later than the job; after any further calls no claim of the same or an earlier attempt
  succeeds, and such a claim changes nothing.
\<close>

theorem claim_is_exclusive:
  assumes "db_inv d" and "claimOffer e jobId input d = (Inr (Some a), d1)" and "store_run d1 d2"
    and "cl_attempt input' \<le> cl_attempt input" and "validateClaim input' = None"
  shows "\<exists>r0 \<in> set (jobs d). j_id r0 = jobId \<and> j_status r0 = Dispatched
      \<and> j_leaseId r0 = Some (cl_leaseId input)
      \<and> j_connectorId r0 = Some (cl_connectorId input)
      \<and> (\<exists>t. j_leaseExpiresAt r0 = Some t \<and> env_clock e 1 < t)
      \<and> env_clock e 2 < j_expiresAt r0
      \<and> (\<exists>c \<in> set (connectors d). c_id c = cl_connectorId input \<and> c_ownerId c = j_ownerId r0)
      \<and> r_status a = Running \<and> r_attempt a = cl_attempt input
      \<and> r_attempt a = j_attempt r0 + 1 \<and> r_revision a = j_revision r0 + 1
      \<and> (\<exists>l. r_leaseExpiresAt a = Some l \<and> l \<le> r_expiresAt a)
      \<and> claimOffer e' jobId input' d2 = (Inr None, d2)"
proof -
  have run: "claim_body e jobId input d = Inr (Some a, d1)"
    using assms(2) by (auto simp: claimOffer_def guarded_def transaction_Inr split: option.splits)
  have inv1: "db_inv d1" using good_claim_body [OF run] assms(1) by (simp add: good_def)
  obtain r0 r where r0: "r0 \<in> set (jobs d)" "j_id r0 = jobId"
    "claim_where e jobId input (j_revision r0) r0" and r: "r = claim_update e input r0"
    "r \<in> set (jobs d1)" "a = toJobRecord r"
    and own: "\<exists>c \<in> set (connectors d). c_id c = cl_connectorId input \<and> c_ownerId c = j_ownerId r0"
    using claim_effect [OF assms(1) run] .
  have rid: "j_id r = jobId" "j_attempt r = cl_attempt input"
    using r(1) r0(2) by (simp_all add: claim_update_def)
  obtain r' where r': "r' \<in> set (jobs d2)" "j_id r' = j_id r" "job_moves r r'"
    using later_job [OF inv1 assms(3) r(2)] by metis
  have "first_row (filter (\<lambda>x. j_id x = jobId) (jobs d2)) = Some r'"
    using first_row_job_id [OF run_inv [OF inv1 assms(3)] r'(1)] r'(2) rid(1) by simp
  moreover have "\<not> offer_current input' r'"
    using r'(3) rid(2) assms(4) by (simp add: offer_current_def job_moves_def)
  ultimately have "claimOffer e' jobId input' d2 = (Inr None, d2)"
    using assms(5)
    by (simp add: claimOffer_def guarded_def transaction_def claim_body_def tx_bind_def
        select_job_eq tx_return_eq)
  moreover have "js_date (min (env_clock e 3 + seconds 30) (j_expiresAt r0))
      \<le> js_date (j_expiresAt r0)"
    by (rule js_date_mono) simp
  ultimately show ?thesis
    using r0 r own
    by (intro bexI [OF _ r0(1)]) (auto simp: claim_where_def claim_update_def split: option.splits)
qed

definition sample_claim :: ClaimOfferInput where
  "sample_claim = \<lparr>cl_connectorId = ''c'', cl_attempt = 2,
     cl_leaseId = ''00000000-0000-4000-8000-000000000000''\<rparr>"

theorem claim_is_exclusive_witness:
  "\<exists>a d1. claimOffer sample_env ''f'' sample_claim sample_db = (Inr (Some a), d1)
     \<and> claimOffer sample_env ''f'' sample_claim d1 = (Inr None, d1)"
proof -
  have v: "validateClaim sample_claim = None" by code_simp
  have "\<not> isl (fst (claimOffer sample_env ''f'' sample_claim sample_db))
      \<and> projr (fst (claimOffer sample_env ''f'' sample_claim sample_db)) \<noteq> None" by code_simp
  then obtain a d1 where "claimOffer sample_env ''f'' sample_claim sample_db = (Inr (Some a), d1)"
    using returned by (metis fst_conv not_None_eq sum.sel(2))
  with claim_is_exclusive [OF sample_db_inv this store_run.none order_refl v, of sample_env]
  show ?thesis by blast
qed

end
