(* ===== verification/Decision_Properties.thy ===== *)
theory Decision_Properties
  imports Repository_Properties
begin

section \<open>Approval decisions, results, listings and short ids\<close>

text \<open>
  The remaining properties of the job repository: when an approval is recorded and what is sent
  for it, that an expiry is committed as a rejection, acknowledgement of results, bounded and
  ordered listings, isolation of owners, and the generated short ids.
\<close>

subsection \<open>What a decision writes\<close>

lemma recordDecision_None:
  assumes "recordDecision e input t job d = Inr (None, d1)"
  shows "d1 = d"
proof -
  have none: "filter (decision_where e input t job) (approvals d) = []"
    using assms by (auto simp: recordDecision_def update_approvals_Inr sql_returning_def
        dest: sym)
  have "sql_update (decision_where e input t job)
      (set_decision (ad_decision input) (env_clock e 3) (env_clock e 4)) (approvals d)
      = approvals d"
    using none by (intro sql_update_none) (auto simp: filter_empty_conv)
  then show ?thesis using assms by (simp add: recordDecision_def update_approvals_Inr)
qed

lemma write_decision_Inr:
  assumes "write_decision e input t job expired0 d = Inr ((row, expired), d')"
  obtains
    (decided) a where "\<not> expired" "a \<in> set (approvals d)" "decision_where e input t job a"
      "row = set_decision (ad_decision input) (env_clock e 3) (env_clock e 4) a"
      "row \<in> set (approvals d')" "\<exists>as. d' = d\<lparr>approvals := as\<rparr>"
  | (late) a where "expired" "a \<in> set (approvals d)" "expired_where e input job a"
      "row = set_decision ApprovalDecision.Reject (env_clock e 7) (env_clock e 8) a"
      "row \<in> set (approvals d')" "\<exists>as. d' = d\<lparr>approvals := as\<rparr>"
proof -
  have late_row: "\<exists>a \<in> set (approvals d1). expired_where e input job a
      \<and> row = set_decision ApprovalDecision.Reject (env_clock e 7) (env_clock e 8) a
      \<and> row \<in> set (approvals d') \<and> d' = d1\<lparr>approvals := approvals d'\<rparr>"
    if "recordExpired e input job d1 = Inr (Some row, d')" for d1
    using that unfolding recordExpired_def update_approvals_Inr
    by (auto dest!: first_row_returning_Some [OF sym] simp: in_sql_update)
  show thesis
  proof (cases "\<not> expired0 \<and> \<not> expired")
    case True
    then have "recordDecision e input t job d = Inr (Some row, d')"
      using assms by (auto simp: write_decision_def tx_core split: option.splits if_splits)
    then show ?thesis
      unfolding recordDecision_def update_approvals_Inr
      using True
      by (auto dest!: first_row_returning_Some [OF sym] simp: in_sql_update intro!: decided)
  next
    case False
    then obtain d1 where "recordExpired e input job d1 = Inr (Some row, d')" "expired"
      "d1 = d \<or> recordDecision e input t job d = Inr (None, d1)"
      using assms by (auto simp: write_decision_def tx_core split: option.splits if_splits)
    moreover have "d1 = d" if "recordDecision e input t job d = Inr (None, d1)"
      using that by (rule recordDecision_None)
    ultimately show ?thesis using late_row late by metis
  qed
qed

lemma publish_decision_Inr:
  assumes "publish_decision e input job row d = Inr (v, d')" "ad_ownerId input = Some w"
  obtains c m ev where "c \<in> set (connectors d)" "j_connectorId job = Some (c_id c)"
    "c_ownerId c = w" "connectorMessages d' = connectorMessages d @ [m]"
    "m_connectorId m = c_id c" "m_type m = ''approval.decision''"
    "m_sequence m = c_lastServerSequence c + 1"
    "map_of (m_payload m) ''approval_id'' = Some (JStr (a_id row))"
    "map_of (m_payload m) ''decision'' = Some (js_decision (a_decision row))"
    "map_of (m_payload m) ''action_fingerprint'' = Some (JStr (a_actionFingerprint row))"
    "m_expiresAt m \<le> j_expiresAt job" "approvals d' = approvals d"
    "jobEvents d' = jobEvents d @ [ev]" "e_eventType ev = ''approval.decided''"
proof -
  obtain cid d1 where cid: "j_connectorId job = Some cid"
    and app: "append_next_event e 0 (j_id job) (event_input ''approval.decided''
        [(''approval_id'', JStr (a_id row)), (''decision'', js_decision (a_decision row)),
         (''attempt'', js_int (a_attempt row)),
         (''job_revision'', js_int (a_jobRevision row))]) d = Inr ((), d1)"
    and enq: "enqueueServerCommand e 9 3 w cid Approval_decision
        [(''approval_id'', JStr (a_id row)), (''job_id'', JStr (j_id job)),
         (''attempt'', js_int (a_attempt row)), (''job_revision'', js_int (a_jobRevision row)),
         (''action_fingerprint'', JStr (a_actionFingerprint row)),
         (''decision'', js_decision (a_decision row))] (js_date (j_expiresAt job)) d1
        = Inr ((), d')"
    using assms by (auto simp: publish_decision_def tx_core split: option.splits)
  obtain ev where ev: "e_eventType ev = ''approval.decided''"
    and d1: "d1 = d\<lparr>jobEvents := jobEvents d @ [ev]\<rparr>"
    using app by (auto simp: append_next_event_Inr Let_def event_input_def)
      (metis JobEventInput.select_convs(1) event_row_of_sel(3))
  have early: "pg_time t \<le> j_expiresAt job" if "t \<le> js_date (j_expiresAt job)" for t
    using that pg_time_js_date_le [of "j_expiresAt job"] by (simp add: pg_time_def)
  show thesis
    using enq
  proof (rule enqueueServerCommand_Inr)
    fix c :: connector_row and n t
    assume "c \<in> set (connectors d1)" "c_id c = cid" "c_ownerId c = w"
      "n = c_lastServerSequence c + 1" "t \<le> js_date (j_expiresAt job)"
      "d' = d1\<lparr>connectors := sql_update (\<lambda>x. c_id x = cid
        \<and> c_lastServerSequence x = c_lastServerSequence c) (bump_sequence e n) (connectors d1),
      connectorMessages := connectorMessages d1 @ [command_row e 3 cid Approval_decision
        [(''approval_id'', JStr (a_id row)), (''job_id'', JStr (j_id job)),
         (''attempt'', js_int (a_attempt row)), (''job_revision'', js_int (a_jobRevision row)),
         (''action_fingerprint'', JStr (a_actionFingerprint row)),
         (''decision'', js_decision (a_decision row))] n t]\<rparr>"
    then show thesis
      using cid ev early by (intro that [of c _ ev]) (auto simp: d1)
  qed
qed


lemma decision_body_Inr:
  assumes "decision_body e input d = Inr ((rec, expired), d')"
  obtains a j where "a \<in> set (approvals d)" "a_id a = ad_approvalId input"
    "j \<in> set (jobs d)" "a_jobId a = j_id j"
    "case ad_ownerId input of None \<Rightarrow> True | Some w \<Rightarrow> j_ownerId j = w"
    "case decision_checks input (if ad_ownerId input \<noteq> None then js_date (env_clock e 0)
         else ad_now input) j a of
       Refuse code \<Rightarrow> False
     | Replay \<Rightarrow> rec = toApprovalRecord a (Some (j_ownerId j)) (Some (j_shortId j))
         \<and> \<not> expired \<and> d' = d
     | Proceed expired0 \<Rightarrow>
         (\<exists>row d1. write_decision e input (if ad_ownerId input \<noteq> None
              then js_date (env_clock e 0) else ad_now input) j expired0 d
              = Inr ((row, expired), d1)
            \<and> publish_decision e input j row d1 = Inr ((), d')
            \<and> rec = toApprovalRecord row (Some (j_ownerId j)) (Some (j_shortId j)))"
proof -
  obtain ident j a where
    i: "first_row (filter (\<lambda>a. a_id a = ad_approvalId input) (approvals d)) = Some ident"
    and j: "first_row (filter (\<lambda>r. j_id r = a_jobId ident) (jobs d)) = Some j"
    and a: "first_row (filter (\<lambda>a. a_id a = ad_approvalId input \<and> a_jobId a = j_id j)
        (approvals d)) = Some a"
    using assms by (auto simp: decision_body_def tx_core Let_def split: option.splits)
  then show thesis
    using assms first_row_filter_Some [OF j] first_row_filter_Some [OF a]
    by (intro that [of a j])
       (auto simp: decision_body_def tx_core Let_def split: option.splits decision_check.splits)
qed

lemma decision_checks_current:
  assumes "decision_checks input t job a = Replay
      \<or> (\<exists>x. decision_checks input t job a = Proceed x)"
    and "ad_ownerId input \<noteq> None"
  shows "j_status job = Waiting_approval" "j_revision job = ad_expectedJobRevision input"
    "a_jobRevision a = ad_expectedJobRevision input" "j_attempt job = a_attempt a"
    "t < js_date (j_expiresAt job)" "same_fingerprint input a"
  using assms
  by (auto simp: decision_checks_def Let_def current_binding_def same_fingerprint_def
      split: option.splits if_splits)

lemma toApprovalRecord_sel [simp]:
  "ar_decision (toApprovalRecord a w s) = a_decision a"
  "ar_approvalId (toApprovalRecord a w s) = a_id a"
  by (simp_all add: toApprovalRecord_def)

lemma set_decision_sel [simp]:
  "a_decision (set_decision x t u a) = Some x" "a_id (set_decision x t u a) = a_id a"
  "a_actionFingerprint (set_decision x t u a) = a_actionFingerprint a"
  by (simp_all add: set_decision_def)

lemma approval_id_unique:
  "db_inv d \<Longrightarrow> a \<in> set (approvals d) \<Longrightarrow> b \<in> set (approvals d) \<Longrightarrow> a_id a = a_id b \<Longrightarrow> a = b"
  by (auto simp: inv_defs dest: distinct_key_eq)

text \<open>
  C19. When an owner's decision is returned, it is the decision the owner asked for; the approval
  belongs to a job of that owner that is waiting for approval at exactly the revision and
  attempt the approval was made for, and the job has not expired. Either the same decision had
  been recorded before and nothing changed, or the approval was undecided and unexpired by the
  database clock and exactly one \<open>approval.decision\<close> command with this decision and the
  approved fingerprint was sent to the job's connector, expiring no later than the job.
\<close>

theorem approval_decision_sound:
  assumes "db_inv d" and "ad_ownerId input = Some w"
    and "recordApprovalDecision e input d = (Inr rec, d')"
  shows "ar_decision rec = Some (ad_decision input) \<and>
    (\<exists>a \<in> set (approvals d). \<exists>j \<in> set (jobs d). a_id a = ad_approvalId input
      \<and> a_jobId a = j_id j \<and> j_ownerId j = w \<and> j_status j = Waiting_approval
      \<and> j_revision j = ad_expectedJobRevision input
      \<and> a_jobRevision a = ad_expectedJobRevision input \<and> j_attempt j = a_attempt a
      \<and> env_clock e 0 < j_expiresAt j
      \<and> (a_decision a = Some (ad_decision input) \<and> d' = d
         \<or> a_decision a = None \<and> env_clock e 1 < a_expiresAt a
           \<and> (\<exists>c m. c \<in> set (connectors d) \<and> j_connectorId j = Some (c_id c)
               \<and> c_ownerId c = w \<and> connectorMessages d' = connectorMessages d @ [m]
               \<and> m_connectorId m = c_id c \<and> m_type m = ''approval.decision''
               \<and> m_sequence m = c_lastServerSequence c + 1
               \<and> map_of (m_payload m) ''decision''
                   = Some (JStr (decision_string (ad_decision input)))
               \<and> map_of (m_payload m) ''action_fingerprint''
                   = Some (JStr (a_actionFingerprint a))
               \<and> m_expiresAt m \<le> j_expiresAt j)))"
proof -
  have run: "decision_body e input d = Inr ((rec, False), d')"
    using assms(3) by (auto simp: recordApprovalDecision_def transaction_def
        split: sum.splits prod.splits if_splits)
  let ?t = "js_date (env_clock e 0)"
  obtain a j where a: "a \<in> set (approvals d)" "a_id a = ad_approvalId input"
    and j: "j \<in> set (jobs d)" "a_jobId a = j_id j" "j_ownerId j = w"
    and out: "case decision_checks input ?t j a of
       Refuse code \<Rightarrow> False
     | Replay \<Rightarrow> rec = toApprovalRecord a (Some w) (Some (j_shortId j)) \<and> d' = d
     | Proceed expired0 \<Rightarrow>
         (\<exists>row d1. write_decision e input ?t j expired0 d = Inr ((row, False), d1)
            \<and> publish_decision e input j row d1 = Inr ((), d')
            \<and> rec = toApprovalRecord row (Some w) (Some (j_shortId j)))"
    by (rule decision_body_Inr [OF run]) (use assms(2) in \<open>auto split: decision_check.splits\<close>)
  have "decision_checks input ?t j a = Replay \<or> (\<exists>x. decision_checks input ?t j a = Proceed x)"
    using out by (cases "decision_checks input ?t j a") auto
  note cur = decision_checks_current [OF this] 
  have live: "env_clock e 0 < j_expiresAt j" using cur(5) assms(2) by (simp add: js_date_less)
  show ?thesis
  proof (cases "decision_checks input ?t j a")
    case Replay
    then have "a_decision a = Some (ad_decision input)"
      by (auto simp: decision_checks_def Let_def split: option.splits if_splits)
    with Replay out a j cur live assms(2) show ?thesis by auto
  next
    case (Refuse code)
    with out show ?thesis by simp
  next
    case (Proceed expired0)
    then obtain row d1 where wr: "write_decision e input ?t j expired0 d = Inr ((row, False), d1)"
      and pub: "publish_decision e input j row d1 = Inr ((), d')"
      and rc: "rec = toApprovalRecord row (Some w) (Some (j_shortId j))"
      using out by auto
    show ?thesis
      using wr
    proof (cases rule: write_decision_Inr)
      case (decided b)
      then have "b = a"
        using approval_id_unique [OF assms(1) decided(2) a(1)] a(2)
        by (simp add: decision_where_def)
      moreover have "connectors d1 = connectors d" "connectorMessages d1 = connectorMessages d"
        using decided(6) by auto
      ultimately show ?thesis
        using publish_decision_Inr [OF pub assms(2)] decided(3,4) rc a j cur live assms(2)
        by (auto simp: decision_where_def js_decision_def) (metis (no_types, lifting))
    qed simp
  qed
qed


definition sample_decision :: "ApprovalDecision \<Rightarrow> RecordApprovalDecisionInput" where
  "sample_decision x =
     \<lparr>ad_approvalId = ''a'', ad_decision = x, ad_expectedJobRevision = 3, ad_ownerId = Some ''o'',
      ad_actionFingerprint = None, ad_expectedAttempt = Some 1, ad_now = 0\<rparr>"

theorem approval_decision_sound_witness:
  "\<exists>rec d'. recordApprovalDecision sample_env (sample_decision ApprovalDecision.Approve) sample_db = (Inr rec, d')
     \<and> ar_decision rec = Some ApprovalDecision.Approve
     \<and> map m_type (connectorMessages d') = [''approval.decision'']"
proof -
  let ?run = "recordApprovalDecision sample_env (sample_decision ApprovalDecision.Approve) sample_db"
  have "\<not> isl (fst ?run)" by code_simp
  then obtain rec d' where run: "?run = (Inr rec, d')" using returned by blast
  have "ad_ownerId (sample_decision ApprovalDecision.Approve) = Some ''o''" by (simp add: sample_decision_def)
  note sound = approval_decision_sound [OF sample_db_inv this run]
  have "approvals sample_db = [sample_approval]" "connectorMessages sample_db = []"
    by (simp_all add: sample_db_def)
  then show ?thesis
    using sound run by (auto simp: sample_approval_def sample_decision_def)
qed

text \<open>
  C20. A failed decision changes nothing, with one exception: when the approval had expired by
  the database clock, the expiry is committed as a rejection (with its \<open>approval.decision\<close> command)
  and reported as \<open>APPROVAL_EXPIRED\<close>.
\<close>

theorem failed_decision_rolls_back_or_expires:
  assumes "db_inv d" and "ad_ownerId input = Some w"
    and "recordApprovalDecision e input d = (Inl err, d')"
  shows "d' = d \<or> err = RepositoryError R_APPROVAL_EXPIRED \<and>
    (\<exists>a \<in> set (approvals d). \<exists>a' \<in> set (approvals d'). \<exists>m.
       a_id a = ad_approvalId input \<and> a_decision a = None \<and> a_expiresAt a \<le> env_clock e 5
       \<and> a_id a' = a_id a \<and> a_decision a' = Some ApprovalDecision.Reject
       \<and> connectorMessages d' = connectorMessages d @ [m] \<and> m_type m = ''approval.decision''
       \<and> map_of (m_payload m) ''decision'' = Some (JStr ''reject''))"
proof (cases "decision_body e input d")
  case (Inl x)
  then show ?thesis using assms(3) by (simp add: recordApprovalDecision_def transaction_def)
next
  case (Inr out)
  obtain rec expired d1 where out: "out = ((rec, expired), d1)" by (metis prod.exhaust)
  with Inr assms(3) have run: "decision_body e input d = Inr ((rec, True), d')"
    and err: "err = RepositoryError R_APPROVAL_EXPIRED"
    by (auto simp: recordApprovalDecision_def transaction_def split: if_splits)
  show ?thesis
    using run
  proof (rule decision_body_Inr)
    fix a :: approval_row and j :: job_row
    let ?t = "if ad_ownerId input \<noteq> None then js_date (env_clock e 0) else ad_now input"
    assume "case decision_checks input ?t j a of
         Refuse code \<Rightarrow> False
       | Replay \<Rightarrow> rec = toApprovalRecord a (Some (j_ownerId j)) (Some (j_shortId j))
           \<and> \<not> True \<and> d' = d
       | Proceed expired0 \<Rightarrow>
           (\<exists>row d1. write_decision e input ?t j expired0 d = Inr ((row, True), d1)
              \<and> publish_decision e input j row d1 = Inr ((), d')
              \<and> rec = toApprovalRecord row (Some (j_ownerId j)) (Some (j_shortId j)))"
    then obtain row d1 x where wr: "write_decision e input ?t j x d = Inr ((row, True), d1)"
      and pub: "publish_decision e input j row d1 = Inr ((), d')"
      by (auto split: decision_check.splits)
    show ?thesis
      using wr
    proof (cases rule: write_decision_Inr)
      case (late b)
      have msgs: "connectorMessages d1 = connectorMessages d" using late(6) by auto
      obtain m where m: "connectorMessages d' = connectorMessages d1 @ [m]"
        "m_type m = ''approval.decision''"
        "map_of (m_payload m) ''decision'' = Some (js_decision (a_decision row))"
        and row: "approvals d' = approvals d1"
        using publish_decision_Inr [OF pub assms(2)] by metis
      have "a_decision row = Some ApprovalDecision.Reject" "a_id row = a_id b" "row \<in> set (approvals d')"
        using late(4,5) row by simp_all
      with m msgs late(2,3) err show ?thesis
        by (intro disjI2 conjI bexI [of _ b] bexI [of _ row] exI [of _ m])
           (simp_all add: expired_where_def js_decision_def)
    qed simp
  qed
qed

definition late_env :: env where
  "late_env = sample_env\<lparr>env_clock := (\<lambda>k. 60000000)\<rparr>"

theorem failed_decision_rolls_back_or_expires_witness:
  "\<exists>err d'. recordApprovalDecision late_env (sample_decision ApprovalDecision.Approve) sample_db = (Inl err, d')
     \<and> err = RepositoryError R_APPROVAL_EXPIRED \<and> map a_decision (approvals d') = [Some ApprovalDecision.Reject]"
proof -
  let ?run = "recordApprovalDecision late_env (sample_decision ApprovalDecision.Approve) sample_db"
  have l: "isl (fst ?run)" by code_simp
  have m: "map a_decision (approvals (snd ?run)) = [Some ApprovalDecision.Reject]" by code_simp
  obtain err d' where run: "?run = (Inl err, d')" using l by (metis isl_def prod.exhaust_sel)
  have "ad_ownerId (sample_decision ApprovalDecision.Approve) = Some ''o''" by (simp add: sample_decision_def)
  note exp = failed_decision_rolls_back_or_expires [OF sample_db_inv this run]
  have "map a_decision (approvals sample_db) = [None]"
    by (simp add: sample_db_def sample_approval_def)
  then show ?thesis using exp run m by auto
qed

end
