(* ===== verification/Owner_Isolation.thy ===== *)
theory Owner_Isolation
  imports Decision_Properties
begin

section \<open>Owners do not touch each other's rows\<close>

text \<open>
  The second reading of the contract \<open>tx_relation\<close>: a transaction made for owner \<open>w\<close> leaves the
  jobs, connectors, repository policies and idempotency keys of every other owner as they are,
  with the events and approvals of those jobs and the messages of those connectors.
\<close>

definition foreign_jobs :: "string \<Rightarrow> db \<Rightarrow> job_row list" where
  "foreign_jobs w d = filter (\<lambda>r. j_ownerId r \<noteq> w) (jobs d)"

definition foreign_connectors :: "string \<Rightarrow> db \<Rightarrow> connector_row list" where
  "foreign_connectors w d = filter (\<lambda>c. c_ownerId c \<noteq> w) (connectors d)"

definition isolated :: "string \<Rightarrow> db \<Rightarrow> db \<Rightarrow> bool" where
  "isolated w d d' =
     (foreign_jobs w d' = foreign_jobs w d \<and> foreign_connectors w d' = foreign_connectors w d
      \<and> repositoryPolicies d' = repositoryPolicies d
      \<and> filter (\<lambda>i. i_ownerId i \<noteq> w) (idempotencyRecords d')
          = filter (\<lambda>i. i_ownerId i \<noteq> w) (idempotencyRecords d)
      \<and> (\<forall>r \<in> set (foreign_jobs w d).
           filter (\<lambda>e. e_jobId e = j_id r) (jobEvents d')
             = filter (\<lambda>e. e_jobId e = j_id r) (jobEvents d)
           \<and> filter (\<lambda>a. a_jobId a = j_id r) (approvals d')
             = filter (\<lambda>a. a_jobId a = j_id r) (approvals d))
      \<and> (\<forall>c \<in> set (foreign_connectors w d).
           filter (\<lambda>m. m_connectorId m = c_id c) (connectorMessages d')
             = filter (\<lambda>m. m_connectorId m = c_id c) (connectorMessages d)))"

definition kept_apart :: "string \<Rightarrow> db \<Rightarrow> db \<Rightarrow> bool" where
  "kept_apart w d d' = (db_inv d \<longrightarrow> db_inv d' \<and> isolated w d d')"

interpretation ow: tx_relation "kept_apart w" for w
  by unfold_locales (auto simp: kept_apart_def isolated_def)

lemmas apart_trans [trans] = ow.rel_trans

definition owns_job :: "string \<Rightarrow> db \<Rightarrow> string \<Rightarrow> bool" where
  "owns_job w d k = (\<exists>r \<in> set (jobs d). j_id r = k \<and> j_ownerId r = w)"

lemma foreign_id_neq:
  "db_inv d \<Longrightarrow> owns_job w d k \<Longrightarrow> r \<in> set (foreign_jobs w d) \<Longrightarrow> j_id r \<noteq> k"
  by (auto simp: owns_job_def foreign_jobs_def dest: job_id_unique)

subsection \<open>Statements\<close>

lemma apart_update_jobs:
  assumes "update_jobs p f d = Inr (x, d')" and "good d d'"
    and "\<And>r. r \<in> set (jobs d) \<Longrightarrow> p r \<Longrightarrow> j_ownerId r = w \<and> j_ownerId (f r) = w"
  shows "kept_apart w d d'"
proof -
  have d': "d' = d\<lparr>jobs := sql_update p f (jobs d)\<rparr>" using assms(1) by (simp add: update_jobs_Inr)
  have "foreign_jobs w d' = foreign_jobs w d"
    unfolding foreign_jobs_def d' using assms(3) by (simp add: filter_sql_update)
  then show ?thesis
    using assms(2) by (simp add: kept_apart_def isolated_def good_def d' foreign_connectors_def)
qed

lemma apart_append_event:
  assumes "append_next_event e u k input d = Inr (v, d')" and "owns_job w d k"
  shows "kept_apart w d d'"
proof -
  obtain ev where "d' = d\<lparr>jobEvents := jobEvents d @ [ev]\<rparr>" "e_jobId ev = k"
    using assms(1) by (auto simp: append_next_event_Inr Let_def)
  then show ?thesis
    using good_append_next_event [OF assms(1)] foreign_id_neq [OF _ assms(2)]
    by (auto simp: kept_apart_def isolated_def good_def foreign_jobs_def foreign_connectors_def)
       blast
qed

lemma apart_enqueue:
  assumes "enqueueServerCommand e k u w cid type payload expiresAt d = Inr (v, d')"
  shows "kept_apart w d d'"
  using assms
proof (rule enqueueServerCommand_Inr)
  fix c :: connector_row and n t
  let ?p = "\<lambda>x. c_id x = cid \<and> c_lastServerSequence x = c_lastServerSequence c"
  assume c: "c \<in> set (connectors d)" "c_id c = cid" "c_ownerId c = w"
    and d': "d' = d\<lparr>connectors := sql_update ?p (bump_sequence e n) (connectors d),
      connectorMessages := connectorMessages d @ [command_row e u cid type payload n t]\<rparr>"
  have own: "x = c" if "db_inv d" "x \<in> set (connectors d)" "c_id x = cid" for x
    using that c by (auto simp: inv_defs dest: distinct_key_eq)
  have "foreign_connectors w d' = foreign_connectors w d" if "db_inv d"
    unfolding foreign_connectors_def d'
    using own [OF that] c(3) by (auto simp: bump_sequence_def intro!: filter_sql_update)
  moreover have "c_id x \<noteq> cid" if "db_inv d" "x \<in> set (foreign_connectors w d)" for x
    using that own c(3) by (auto simp: foreign_connectors_def)
  ultimately show ?thesis
    using good_enqueueServerCommand [OF assms]
    by (auto simp: kept_apart_def isolated_def good_def d' foreign_jobs_def)
qed

lemma apart_decide:
  assumes "update_approvals p (set_decision x t u) d = Inr (row, d')" and "good d d'"
    and "\<And>a. a \<in> set (approvals d) \<Longrightarrow> p a \<Longrightarrow> db_inv d \<Longrightarrow> owns_job w d (a_jobId a)"
  shows "kept_apart w d d'"
proof -
  have d': "d' = d\<lparr>approvals := sql_update p (set_decision x t u) (approvals d)\<rparr>"
    using assms(1) by (simp add: update_approvals_Inr)
  have "filter (\<lambda>a. a_jobId a = j_id r) (approvals d')
      = filter (\<lambda>a. a_jobId a = j_id r) (approvals d)"
    if "db_inv d" "r \<in> set (foreign_jobs w d)" for r
  proof -
    have "a_jobId a \<noteq> j_id r" if "a \<in> set (approvals d)" "p a" for a
      using foreign_id_neq [OF \<open>db_inv d\<close> assms(3) [OF that] \<open>r \<in> set (foreign_jobs w d)\<close>]
        \<open>db_inv d\<close> by auto
    then show ?thesis
      unfolding d' by (auto simp: set_decision_def intro!: filter_sql_update)
  qed
  then show ?thesis
    using assms(2)
    by (auto simp: kept_apart_def isolated_def good_def d' foreign_jobs_def
        foreign_connectors_def)
qed

lemma owns_job_evolves: "owns_job w d k \<Longrightarrow> db_inv d \<Longrightarrow> good d d' \<Longrightarrow> owns_job w d' k"
  by (fastforce simp: owns_job_def good_def evolves_def rows_evolve_def job_evolves_def)

text \<open>Two steps in sequence, the second for a database that keeps the invariant.\<close>

lemma apart_then:
  assumes "kept_apart w d d1" and "db_inv d1 \<Longrightarrow> kept_apart w d1 d'"
  shows "kept_apart w d d'"
  using assms apart_trans by (auto simp: kept_apart_def isolated_def)

subsection \<open>Methods\<close>

lemma apart_cancel_move:
  assumes run: "cancel_move e input current d = Inr (a, d')"
    and cur: "current \<in> set (jobs d)" "j_id current = ca_jobId input"
    and own: "j_ownerId current = ca_ownerId input"
  shows "kept_apart (ca_ownerId input) d d'"
  using run
proof (rule cancel_move_Inr)
  fix immediate nextStatus updated d1 d2
  let ?f = "cancel_update e immediate nextStatus (j_revision current + 1)"
  assume edge: "canTransition (j_status current) nextStatus"
    and upd: "update_jobs (cancel_where input) ?f d = Inr (Some updated, d1)"
    and app: "append_next_event e 0 (ca_jobId input) (cancel_event input immediate updated) d1
         = Inr ((), d2)"
    and enq: "(if immediate then tx_return () else enqueue_cancel e input updated) d2
         = Inr ((), d')"
  have g1: "good d d1"
    using upd cur edge
    by (auto simp: update_jobs_Inr cancel_where_def dest: job_id_unique
        intro!: good_update_jobs_inv cancel_update_evolves)
  have k1: "kept_apart (ca_ownerId input) d d1"
    using upd g1 by (rule apart_update_jobs)
      (auto simp: cancel_where_def cancel_update_def mark_terminal_def)
  have k3: "kept_apart (ca_ownerId input) d2 d'"
    using enq by (auto simp: tx_core ow.rel_refl enqueue_cancel_def split: if_splits option.splits
        intro: apart_enqueue)
  show ?thesis
  proof (cases "db_inv d")
    case True
    have "owns_job (ca_ownerId input) d (ca_jobId input)"
      using cur own by (auto simp: owns_job_def)
    then have "kept_apart (ca_ownerId input) d1 d2"
      using app g1 True by (intro apart_append_event) (auto intro: owns_job_evolves)
    with k1 k3 show ?thesis by (meson apart_trans)
  qed (simp add: kept_apart_def)
qed

lemma apart_cancel: "kept_apart (ca_ownerId input) d (snd (cancelAtomically e input d))"
  unfolding cancelAtomically_def
proof (rule guarded_keeps [OF ow.tx_relation_axioms])
  fix a d' assume "cancel_body e input d = Inr (a, d')"
  then show "kept_apart (ca_ownerId input) d d'"
    by (auto simp: cancel_body_def tx_core ow.rel_refl split: option.splits if_splits
        dest!: first_row_filter_Some intro: apart_cancel_move)
qed

lemma apart_insert_job:
  "insert_job r d = Inr (x, d') \<Longrightarrow> j_ownerId r = w \<Longrightarrow> kept_apart w d d'"
  using good_insert_job [of r d x d']
  by (auto simp: insert_job_Inr kept_apart_def good_def isolated_def foreign_jobs_def
      foreign_connectors_def split: if_splits)

lemma apart_create_attempts:
  "create_attempts e input is d = Inr (x, d') \<Longrightarrow> kept_apart (cr_ownerId input) d d'"
proof (induction "is" arbitrary: d)
  case Nil
  then show ?case by (simp add: tx_core ow.rel_refl)
next
  case (Cons i "is")
  then obtain y d1 where ins: "insert_job (new_job_row e i input) d = Inr (y, d1)"
    and rest: "(case y of Some row \<Rightarrow> tx_return (Some row)
                 | None \<Rightarrow> create_attempts e input is) d1 = Inr (x, d')"
    by (auto simp: tx_bind_Inr)
  have "kept_apart (cr_ownerId input) d d1"
    using ins by (rule apart_insert_job) (simp add: new_job_row_def)
  also have "kept_apart (cr_ownerId input) d1 d'"
    using rest Cons.IH by (cases y) (auto simp: tx_core ow.rel_refl)
  finally show ?case .
qed

lemma apart_create: "kept_apart (cr_ownerId input) d (snd (createIdempotent e input d))"
  unfolding createIdempotent_def
proof (rule ow.rel_transaction)
  fix a d' assume run: "create_body e input d = Inr (a, d')"
  then show "kept_apart (cr_ownerId input) d d'"
  proof (cases rule: create_body_Inr)
    case existing
    then show ?thesis by (simp add: ow.rel_refl)
  next
    case (created row d1)
    have k: "kept_apart (cr_ownerId input) d d1" by (rule apart_create_attempts [OF created(2)])
    have "isolated (cr_ownerId input) d1 d'"
      unfolding created(4) by (simp add: isolated_def idempotency_of_def foreign_jobs_def
          foreign_connectors_def)
    then show ?thesis
      using k good_create_body [OF run] by (auto simp: kept_apart_def good_def isolated_def)
  qed
qed

lemma apart_acknowledge: "kept_apart w d (snd (acknowledgeResult e w jobId d))"
  unfolding acknowledgeResult_def
proof (rule ow.rel_transaction)
  fix a d' assume run: "acknowledge_body e w jobId d = Inr (a, d')"
  show "kept_apart w d d'"
  proof (cases "db_inv d")
    case True
    have g: "good d d'" by (rule good_acknowledge_body [OF run])
    from run consider "d' = d"
      | current x where "current \<in> set (jobs d)" "j_id current = jobId" "j_ownerId current = w"
        "update_jobs (\<lambda>r. j_id r = jobId \<and> j_acknowledgedAt r = None)
           (\<lambda>r. r\<lparr>j_acknowledgedAt := Some (env_clock e 0), j_unreadTerminal := False\<rparr>) d
           = Inr (x, d')"
      by (auto simp: acknowledge_body_def tx_core split: option.splits if_splits
          dest!: first_row_filter_Some)
    then show ?thesis
    proof cases
      case 2
      show ?thesis
        using 2(4) g
      proof (rule apart_update_jobs)
        fix r :: job_row assume r: "r \<in> set (jobs d)" "j_id r = jobId \<and> j_acknowledgedAt r = None"
        then have "r = current" using job_id_unique [OF True _ 2(1)] 2(2) by simp
        with 2(3) show "j_ownerId r = w \<and> j_ownerId (r\<lparr>j_acknowledgedAt := Some (env_clock e 0),
            j_unreadTerminal := False\<rparr>) = w" by simp
      qed
    qed (simp add: ow.rel_refl)
  qed (simp add: kept_apart_def)
qed

lemma apart_write_decision:
  assumes run: "write_decision e input t job expired d = Inr (r, d')"
    and own: "a \<in> set (approvals d)" "a_id a = ad_approvalId input" "owns_job w d (a_jobId a)"
  shows "kept_apart w d d'"
proof -
  have mine: "owns_job w d (a_jobId b)"
    if "b \<in> set (approvals d)" "a_id b = ad_approvalId input" "db_inv d" for b
    using that own by (auto simp: inv_defs dest: distinct_key_eq)
  have dec: "kept_apart w d d1" if "recordDecision e input t job d = Inr (x, d1)" for x d1
    using that good_recordDecision [OF that] unfolding recordDecision_def
    by (rule apart_decide) (simp add: decision_where_def mine)
  have exp: "kept_apart w d d1" if "recordExpired e input job d = Inr (x, d1)" for x d1
    using that good_recordExpired [OF that] unfolding recordExpired_def
    by (rule apart_decide) (simp add: expired_where_def mine)
  show ?thesis
    using run by (auto simp: write_decision_def tx_core split: option.splits if_splits
        dest!: recordDecision_None intro: dec exp) (rule exp)
qed

lemma apart_decision:
  assumes "ad_ownerId input = Some w"
  shows "kept_apart w d (snd (recordApprovalDecision e input d))"
  unfolding snd_recordApprovalDecision
proof (rule ow.rel_transaction)
  fix res d' assume run: "decision_body e input d = Inr (res, d')"
  obtain rec expired where res: "res = (rec, expired)" by (cases res)
  show "kept_apart w d d'"
    using run unfolding res
  proof (rule decision_body_Inr)
    fix a :: approval_row and j :: job_row
    let ?t = "if ad_ownerId input \<noteq> None then js_date (env_clock e 0) else ad_now input"
    assume a: "a \<in> set (approvals d)" "a_id a = ad_approvalId input" and j: "j \<in> set (jobs d)"
      "a_jobId a = j_id j"
      "case ad_ownerId input of None \<Rightarrow> True | Some w \<Rightarrow> j_ownerId j = w"
      and out: "case decision_checks input ?t j a of
         Refuse code \<Rightarrow> False
       | Replay \<Rightarrow> rec = toApprovalRecord a (Some (j_ownerId j)) (Some (j_shortId j))
           \<and> \<not> expired \<and> d' = d
       | Proceed expired0 \<Rightarrow>
           (\<exists>row d1. write_decision e input ?t j expired0 d = Inr ((row, expired), d1)
              \<and> publish_decision e input j row d1 = Inr ((), d')
              \<and> rec = toApprovalRecord row (Some (j_ownerId j)) (Some (j_shortId j)))"
    have own: "owns_job w d (a_jobId a)" "owns_job w d (j_id j)"
      using j assms by (auto simp: owns_job_def)
    have pub: "kept_apart w d d'" if wr: "write_decision e input t j x d = Inr ((row, expired), d1)"
      and pd: "publish_decision e input j row d1 = Inr ((), d')" for t x row d1
    proof (cases "db_inv d")
      case True
      have k1: "kept_apart w d d1" using apart_write_decision [OF wr a own(1)] .
      have o1: "owns_job w d1 (j_id j)"
        using own(2) True good_write_decision [OF wr] by (rule owns_job_evolves)
      from pd obtain ev d2 where "append_next_event e 0 (j_id j) ev d1 = Inr ((), d2)"
        and enq: "\<exists>k u cid ty pl x. enqueueServerCommand e k u w cid ty pl x d2 = Inr ((), d')"
        using assms by (fastforce simp: publish_decision_def tx_core split: option.splits)
      then have "kept_apart w d1 d2" using o1 by (auto intro: apart_append_event)
      moreover have "kept_apart w d2 d'" using enq by (auto intro: apart_enqueue)
      ultimately show ?thesis using k1 by (meson apart_trans)
    qed (simp add: kept_apart_def)
    show ?thesis
      using out pub by (cases "decision_checks input ?t j a") (auto simp: ow.rel_refl)
  qed
qed

text \<open>
  C21. Whatever one owner does (submitting, cancelling, deciding an approval, acknowledging a
  result, whether the call succeeds or fails), the jobs, connectors, policies and keys of every
  other owner are unchanged, and so are the events and approvals of those jobs and the commands
  queued for those connectors.
\<close>

theorem owners_are_isolated:
  assumes "db_inv d"
  shows "isolated (cr_ownerId creation) d (snd (createIdempotent e creation d))
    \<and> isolated (ca_ownerId cancellation) d (snd (cancelAtomically e cancellation d))
    \<and> isolated w d (snd (acknowledgeResult e w jobId d))
    \<and> (ad_ownerId decision = Some w \<longrightarrow>
         isolated w d (snd (recordApprovalDecision e decision d)))"
  using assms apart_create [of creation d e] apart_cancel [of cancellation d e]
    apart_acknowledge [of w d e jobId] apart_decision [of decision w d e]
  by (simp add: kept_apart_def)

text \<open>A second owner whose running job the first owner tries to cancel.\<close>

definition two_owner_db :: db where
  "two_owner_db = sample_db\<lparr>jobs :=
     jobs sample_db @ [(sample_job ''z'' ''QH-000Z'' Running)\<lparr>j_ownerId := ''p''\<rparr>]\<rparr>"

lemma two_owner_db_inv: "db_inv two_owner_db"
proof -
  have "keys_ok two_owner_db" and "rows_ok two_owner_db" and "refs_ok two_owner_db"
    and "message_log_ok two_owner_db"
    by code_simp+
  moreover have "event_log_ok two_owner_db"
    by (simp add: event_log_ok_def events_of_def two_owner_db_def sample_db_def)
  ultimately show ?thesis by (simp add: db_inv_def)
qed

theorem owners_are_isolated_witness:
  "foreign_jobs ''o'' (snd (cancelAtomically sample_env (sample_cancel ''r'') two_owner_db))
   = [(sample_job ''z'' ''QH-000Z'' Running)\<lparr>j_ownerId := ''p''\<rparr>]"
proof -
  have "foreign_jobs ''o'' two_owner_db = [(sample_job ''z'' ''QH-000Z'' Running)\<lparr>j_ownerId := ''p''\<rparr>]"
    by (simp add: foreign_jobs_def two_owner_db_def sample_db_def sample_job_def
        sample_offer_job_def)
  with owners_are_isolated [OF two_owner_db_inv, of _ sample_env "sample_cancel ''r''"]
  show ?thesis by (simp add: isolated_def sample_cancel_def)
qed

end
