(* ===== verification/Repository_Reads.thy ===== *)
theory Repository_Reads
  imports Owner_Isolation "HOL-Library.Multiset"
begin

section \<open>Results, listings and short ids\<close>

text \<open>
  Acknowledging a result, the bounded listings of jobs, events and approvals, and the ids
  \<open>newShortId\<close> draws.
\<close>

subsection \<open>Acknowledgement\<close>

lemma acknowledge_body_Some:
  assumes inv: "db_inv d" and run: "acknowledge_body e w k d = Inr (Some a, d')"
  obtains r where "r \<in> set (jobs d')" "j_id r = k" "j_ownerId r = w" "isTerminal (j_status r)"
    "summary_text (j_summary r) \<noteq> None" "j_acknowledgedAt r \<noteq> None"
    "toJobResultRecord r = Some a"
proof -
  let ?f = "\<lambda>r. r\<lparr>j_acknowledgedAt := Some (env_clock e 0), j_unreadTerminal := False\<rparr>"
  obtain c where c: "first_row (filter (\<lambda>r. j_id r = k \<and> j_ownerId r = w) (jobs d)) = Some c"
    and t: "isTerminal (j_status c)" "summary_text (j_summary c) \<noteq> None"
    using run by (auto simp: acknowledge_body_def tx_core split: option.splits if_splits)
  have cin: "c \<in> set (jobs d)" "j_id c = k" "j_ownerId c = w"
    using first_row_filter_Some [OF c] by auto
  show thesis
  proof (cases "j_acknowledgedAt c")
    case None
    then have "j_id c = k \<and> j_acknowledgedAt c = None" using cin by simp
    moreover obtain x where upd: "update_jobs (\<lambda>r. j_id r = k \<and> j_acknowledgedAt r = None) ?f d
          = Inr (x, d')"
      and x: "toJobResultRecord (case x of Some r \<Rightarrow> r | None \<Rightarrow> c) = Some a"
      using run c t None by (auto simp: acknowledge_body_def tx_core)
    moreover have "first_row (filter (\<lambda>r. j_id r = k \<and> j_acknowledgedAt r = None) (jobs d)) = Some c"
      using first_row_job [OF inv cin(1,2), of "\<lambda>r. j_acknowledgedAt r = None"] None by simp
    ultimately have "x = Some (?f c)"
      by (auto simp: update_jobs_Inr sql_returning_def first_row_def split: list.splits)
    moreover have "?f c \<in> set (jobs d')"
      using upd cin None by (force simp: update_jobs_Inr in_sql_update)
    ultimately show ?thesis using x t cin by (intro that [of "?f c"]) auto
  next
    case (Some y)
    then have "d' = d" "toJobResultRecord c = Some a"
      using run c t by (auto simp: acknowledge_body_def tx_core)
    with t cin Some show ?thesis by (intro that [of c]) auto
  qed
qed

text \<open>
  A result is acknowledged once: when \<open>acknowledgeResult\<close> has returned a result, then after
  any further calls acknowledging it again returns exactly the same result, with the time of
  the first acknowledgement, and changes nothing.
\<close>

theorem acknowledge_is_stable:
  assumes "db_inv d" and "acknowledgeResult e w k d = (Inr (Some a), d1)" and "store_run d1 d2"
  shows "acknowledgeResult e' w k d2 = (Inr (Some a), d2)"
proof -
  have run: "acknowledge_body e w k d = Inr (Some a, d1)"
    using assms(2) by (simp add: acknowledgeResult_def transaction_Inr)
  have inv1: "db_inv d1" using good_acknowledge_body [OF run] assms(1) by (simp add: good_def)
  obtain r where r: "r \<in> set (jobs d1)" "j_id r = k" "j_ownerId r = w" "isTerminal (j_status r)"
    "summary_text (j_summary r) \<noteq> None" "j_acknowledgedAt r \<noteq> None"
    "toJobResultRecord r = Some a"
    using acknowledge_body_Some [OF assms(1) run] .
  obtain r' where r': "r' \<in> set (jobs d2)" "j_id r' = j_id r" "job_moves r r'"
    using later_job [OF inv1 assms(3) r(1)] by metis
  have keep: "j_ownerId r' = w" "isTerminal (j_status r')" "j_summary r' = j_summary r"
    "j_acknowledgedAt r' = j_acknowledgedAt r"
    using r'(3) r(3,4,6) terminal_absorbing [of "j_status r" "j_status r'"]
    by (auto simp: job_moves_def)
  have "first_row (filter (\<lambda>x. j_id x = k \<and> j_ownerId x = w) (jobs d2)) = Some r'"
    using first_row_job [OF run_inv [OF inv1 assms(3)] r'(1), of k "\<lambda>x. j_ownerId x = w"]
      keep(1) r'(2) r(2) by simp
  moreover have "toJobResultRecord r' = Some a"
    using r(7) unfolding toJobResultRecord_def keep(3,4) r'(2) .
  ultimately have "acknowledge_body e' w k d2 = Inr (Some a, d2)"
    using keep r(5,6) by (auto simp: acknowledge_body_def tx_bind_def select_job_eq tx_return_eq)
  then show ?thesis by (simp add: acknowledgeResult_def transaction_def)
qed

theorem acknowledge_is_stable_witness:
  "\<exists>a d1. acknowledgeResult sample_env ''o'' ''s'' sample_db = (Inr (Some a), d1)
     \<and> acknowledgeResult late_env ''o'' ''s'' d1 = (Inr (Some a), d1)"
proof -
  let ?run = "acknowledgeResult sample_env ''o'' ''s'' sample_db"
  have "\<not> isl (fst ?run) \<and> projr (fst ?run) \<noteq> None" by code_simp
  then obtain a d1 where "?run = (Inr (Some a), d1)"
    using returned by (metis fst_conv not_None_eq sum.sel(2))
  with acknowledge_is_stable [OF sample_db_inv this store_run.none] show ?thesis by blast
qed

subsection \<open>Listings\<close>

lemma sorted_take_drop:
  "sorted_wrt R xs \<Longrightarrow> x \<in> set (take n xs) \<Longrightarrow> y \<in> set (drop n xs) \<Longrightarrow> R x y"
  by (metis append_take_drop_id sorted_wrt_append)

lemma sort_key_sorted_wrt: "sorted_wrt (\<lambda>x y. f x \<le> f y) (sort_key f xs)"
  using sorted_sort_key [of f xs] by (simp add: sorted_map)

definition listed :: "ListJobsInput \<Rightarrow> job_row \<Rightarrow> bool" where
  "listed input r = (j_ownerId r = li_ownerId input
     \<and> (\<forall>s. li_status input = Some s \<longrightarrow> j_status r = s)
     \<and> (li_unreadOnly input = Some True \<longrightarrow> j_unreadTerminal r))"

text \<open>
  A listing returns at most five jobs, newest update first, all of them jobs of the
  asking owner with the asked status (and unread, when asked); a matching job is left out
  only when as many jobs as the limit, none updated earlier, are returned.
\<close>

theorem list_jobs_newest:
  assumes "list_jobs input d = Inr rs"
  shows "length rs \<le> 5
    \<and> (\<exists>kept left. mset (kept @ left) = mset (filter (listed input) (jobs d))
         \<and> rs = map toJobRecord kept
         \<and> sorted_wrt (\<lambda>a b. j_updatedAt a \<ge> j_updatedAt b) kept
         \<and> (\<forall>a \<in> set kept. \<forall>b \<in> set left. j_updatedAt a \<ge> j_updatedAt b)
         \<and> (left \<noteq> [] \<longrightarrow> int (length rs)
              = (case li_limit input of Some n \<Rightarrow> n | None \<Rightarrow> MAX_LIST_LIMIT)))"
proof -
  let ?limit = "case li_limit input of Some n \<Rightarrow> n | None \<Rightarrow> MAX_LIST_LIMIT"
  let ?rows = "sort_key (\<lambda>r. - j_updatedAt r) (sort_key j_id (filter (listed input) (jobs d)))"
  have where_eq: "(\<lambda>r. j_ownerId r = li_ownerId input
      \<and> (case li_status input of None \<Rightarrow> True | Some s \<Rightarrow> j_status r = s)
      \<and> (li_unreadOnly input = Some True \<longrightarrow> j_unreadTerminal r)) = listed input"
    by (auto simp: listed_def fun_eq_iff split: option.splits)
  have lim: "1 \<le> ?limit" "?limit \<le> 5"
    using assms by (auto simp: list_jobs_def Let_def limit_error_def MAX_LIST_LIMIT_def
        split: option.splits if_splits)
  have rs: "rs = map toJobRecord (take (nat ?limit) ?rows)"
    using assms unfolding list_jobs_def Let_def where_eq by (auto split: option.splits)
  have sorted: "sorted_wrt (\<lambda>a b. j_updatedAt a \<ge> j_updatedAt b) ?rows"
    using sort_key_sorted_wrt [of "\<lambda>r. - j_updatedAt r"] by simp
  have "mset (take (nat ?limit) ?rows @ drop (nat ?limit) ?rows)
      = mset (filter (listed input) (jobs d))"
    by (simp only: append_take_drop_id mset_sort)
  moreover have "sorted_wrt (\<lambda>a b. j_updatedAt a \<ge> j_updatedAt b) (take (nat ?limit) ?rows)"
    using sorted by (rule sorted_wrt_take)
  moreover have "drop (nat ?limit) ?rows \<noteq> [] \<longrightarrow> int (length rs) = ?limit"
    using lim(1) by (simp add: rs del: length_sort)
  moreover have "\<forall>a \<in> set (take (nat ?limit) ?rows). \<forall>b \<in> set (drop (nat ?limit) ?rows).
      j_updatedAt a \<ge> j_updatedAt b"
    using sorted_take_drop [OF sorted] by blast
  moreover have "length rs \<le> 5" using lim by (simp add: rs)
  ultimately show ?thesis
    using rs by blast
qed

theorem list_jobs_newest_witness:
  "\<exists>rs. list_jobs \<lparr>li_ownerId = ''o'', li_limit = Some 2, li_status = None,
         li_unreadOnly = None\<rparr> sample_db = Inr rs \<and> length rs \<le> 5"
proof -
  let ?run = "list_jobs \<lparr>li_ownerId = ''o'', li_limit = Some 2, li_status = None,
         li_unreadOnly = None\<rparr> sample_db"
  have "\<not> isl ?run" by code_simp
  then obtain rs where "?run = Inr rs" by (metis isl_def sum.exhaust_sel)
  with list_jobs_newest [OF this] show ?thesis by blast
qed

subsection \<open>Short ids\<close>

lemma word_and_31: "(x :: 32 word) AND 31 = take_bit 5 x"
  by (simp add: take_bit_eq_mask mask_eq_exp_minus_1)

lemma word_and_15: "(x :: 8 word) AND 15 = take_bit 4 x"
  by (simp add: take_bit_eq_mask mask_eq_exp_minus_1)

lemma crockford_index: "unat ((x :: 32 word) AND 31) < length CROCKFORD_BASE32_ALPHABET"
proof -
  have "unat (take_bit 5 x) < 2 ^ 5"
    unfolding unsigned_take_bit_eq by (rule take_bit_nat_less_exp)
  then show ?thesis by (simp add: word_and_31 CROCKFORD_BASE32_ALPHABET_def)
qed

lemma crockford_distinct: "distinct CROCKFORD_BASE32_ALPHABET"
  by code_simp

lemma bits_lt_20: "bit (random_bits b) n \<Longrightarrow> n < 20"
  by (cases b) (auto simp: random_bits_def word_and_15 bit_simps dest: bit_imp_le_length)

lemma five_bits_eq:
  assumes "CROCKFORD_BASE32_ALPHABET ! unat (drop_bit s (x :: 32 word) AND 31)
         = CROCKFORD_BASE32_ALPHABET ! unat (drop_bit s (y :: 32 word) AND 31)" and "i < 5"
  shows "bit x (s + i) = bit y (s + i)"
proof -
  have "drop_bit s x AND 31 = drop_bit s y AND 31"
    using assms(1) crockford_distinct crockford_index nth_eq_iff_index_eq word_unat_eq_iff
    by metis
  then have "bit (take_bit 5 (drop_bit s x)) i = bit (take_bit 5 (drop_bit s y)) i"
    by (simp add: word_and_31)
  with assms(2) show ?thesis by (simp add: bit_simps)
qed

text \<open>
  Every short id \<open>newShortId\<close> makes is accepted by \<open>ShortJobIdSchema\<close>, and two draws give the
  same id only when they agree on all twenty bits that are used, so the ids exhaust the space.
\<close>

theorem newShortId_valid_injective:
  "ShortJobIdSchema (newShortId b)
    \<and> (newShortId b = newShortId b' \<longleftrightarrow> random_bits b = random_bits b')"
proof
  have "list_all (\<lambda>c. is_upper c \<or> is_digit c) CROCKFORD_BASE32_ALPHABET" by code_simp
  then have "is_upper (CROCKFORD_BASE32_ALPHABET ! unat (x AND 31))
      \<or> is_digit (CROCKFORD_BASE32_ALPHABET ! unat (x AND 31))" for x :: "32 word"
    using nth_mem [OF crockford_index, of x] by (simp add: list_all_iff)
  then show "ShortJobIdSchema (newShortId b)"
    unfolding newShortId_def ShortJobIdSchema_def by (simp add: startsWith_def)
next
  show "newShortId b = newShortId b' \<longleftrightarrow> random_bits b = random_bits b'"
  proof
    assume eq: "newShortId b = newShortId b'"
    have chars: "CROCKFORD_BASE32_ALPHABET ! unat (drop_bit s (random_bits b) AND 31)
        = CROCKFORD_BASE32_ALPHABET ! unat (drop_bit s (random_bits b') AND 31)"
      if "s \<in> {0, 5, 10, 15}" for s
      using eq that unfolding newShortId_def same_append_eq map_eq_conv by auto
    have "bit (random_bits b) n = bit (random_bits b') n" for n
    proof (cases "n < 20")
      case True
      then have "n div 5 < 4" by (simp add: div_less_iff_less_mult)
      then consider "n div 5 = 0" | "n div 5 = 1" | "n div 5 = 2" | "n div 5 = 3" by linarith
      then have "n div 5 * 5 \<in> {0, 5, 10, 15}" by cases simp_all
      from five_bits_eq [OF chars [OF this], of "n mod 5"] show ?thesis
        by (simp add: div_mult_mod_eq)
    next
      case False
      then show ?thesis using bits_lt_20 by blast
    qed
    then show "random_bits b = random_bits b'" by (rule bit_eqI)
  qed (simp add: newShortId_def)
qed

end
