(* ===== verification/Job_Coordinator.thy ===== *)
theory Job_Coordinator
  imports Repository_Reads Js_Text
begin

section \<open>The job coordinator\<close>

text \<open>
  \<open>apps/control-plane/src/domain/job-coordinator.ts\<close> over the job repository. Every call of the
  repository is a transaction of its own and other calls run in between, so a method takes the
  database as it is at each of its calls; nothing is assumed about how these are related. A
  method returns its result with the database after its last write. SHA-256 (\<open>sha256\<close>) and the
  encrypted request are arguments; times stay milliseconds where the code formats them. The
  presentation of jobs, events and results (\<open>presenters.ts\<close>) is not modelled: \<open>list\<close>,
  \<open>listApprovals\<close> and \<open>getResult\<close> end with the records they present.
\<close>

datatype caught = Domain DomainErrorCode | Thrown thrown

fun internalCode :: "thrown \<Rightarrow> string option" where
  "internalCode (RepositoryError c) = Some (repository_code c)"
| "internalCode (PgError sqlstate) = Some sqlstate"
| "internalCode (PlainError _) = None"

definition translateError :: "DomainErrorCode \<Rightarrow> caught \<Rightarrow> DomainErrorCode" where
  "translateError notFoundCode err =
     (case err of
        Domain c \<Rightarrow> c
      | Thrown e \<Rightarrow>
          (case internalCode e of
             None \<Rightarrow> D_INTERNAL
           | Some code \<Rightarrow>
               if code = ''NOT_FOUND'' then notFoundCode
               else if code = ''APPROVAL_ALREADY_DECIDED'' then D_APPROVAL_MISMATCH
               else if code = ''CONNECTOR_OWNER_MISMATCH'' then D_CONNECTOR_LOST
               else (case map_of DOMAIN_ERROR_CODES code of Some c \<Rightarrow> c | None \<Rightarrow> D_INTERNAL)))"

text \<open>The error is thrown when the owner's id is blank.\<close>

definition requireOwner :: "string \<Rightarrow> DomainErrorCode option" where
  "requireOwner owner = (if js_trim owner = [] then Some D_UNAUTHENTICATED else None)"

definition caught_result :: "DomainErrorCode \<Rightarrow> caught + 'a \<Rightarrow> DomainErrorCode + 'a" where
  "caught_result notFoundCode r =
     (case r of Inl e \<Rightarrow> Inl (translateError notFoundCode e) | Inr a \<Rightarrow> Inr a)"

definition submit_mode :: "SubmitTaskInput \<Rightarrow> JobMode" where
  "submit_mode input = (case mode_in input of Some m \<Rightarrow> m | None \<Rightarrow> Normal)"

definition canonicalSubmitPayload :: "SubmitTaskInput \<Rightarrow> string" where
  "canonicalSubmitPayload input =
     ''{'' @ json_string ''client_request_id'' @ '':'' @ json_string (client_request_id input)
     @ '','' @ json_string ''mode'' @ '':'' @ json_string (mode_string (submit_mode input))
     @ '','' @ json_string ''repository_id'' @ '':'' @ json_string (repository_id input)
     @ '','' @ json_string ''request'' @ '':'' @ json_string (js_trim (request input)) @ ''}''"

definition requestDigest :: "(string \<Rightarrow> string) \<Rightarrow> SubmitTaskInput \<Rightarrow> string" where
  "requestDigest sha256 input = ''sha256:'' @ sha256 (canonicalSubmitPayload input)"

datatype connector_status = Online | Offline_status

definition connectorStatus :: "ConnectorHealth \<Rightarrow> connector_status" where
  "connectorStatus health = (if health = Fresh then Online else Offline_status)"

record JobReceipt =
  rc_job_id :: string
  rc_short_id :: string
  rc_status :: JobStatus
  rc_connector_status :: connector_status
  rc_accepted_at :: int
  rc_expires_at :: int

definition policy_allows :: "string \<Rightarrow> RepositoryPolicyRecord option \<Rightarrow> bool" where
  "policy_allows owner policy =
     (case policy of None \<Rightarrow> False | Some p \<Rightarrow> rp_ownerId p = owner \<and> rp_enabled p)"

definition create_input ::
  "(string \<Rightarrow> string) \<Rightarrow> string \<Rightarrow> string \<Rightarrow> SubmitTaskInput \<Rightarrow> CreateIdempotentInput" where
  "create_input sha256 ciphertext owner input =
     \<lparr>cr_ownerId = owner, cr_clientRequestId = client_request_id input,
      cr_repositoryId = repository_id input, cr_requestCiphertext = ciphertext,
      cr_requestDigest = requestDigest sha256 input, cr_mode = Some (submit_mode input)\<rparr>"

definition receipt_of :: "JobRecord \<Rightarrow> ConnectorHealth \<Rightarrow> JobReceipt" where
  "receipt_of job health =
     \<lparr>rc_job_id = r_jobId job, rc_short_id = r_shortId job, rc_status = Queued,
      rc_connector_status = connectorStatus health,
      rc_accepted_at = r_acceptedAt job, rc_expires_at = r_expiresAt job\<rparr>"

text \<open>\<open>d1\<close>, \<open>d2\<close> and \<open>d3\<close> are the databases at the reading of the policy, at the creation and at the
  reading of the connector's health.\<close>

definition submit ::
  "(string \<Rightarrow> string) \<Rightarrow> string \<Rightarrow> env \<Rightarrow> string \<Rightarrow> SubmitTaskInput \<Rightarrow> db \<Rightarrow> db \<Rightarrow> db
     \<Rightarrow> (DomainErrorCode + JobReceipt) \<times> db" where
  "submit sha256 ciphertext e owner input d1 d2 d3 =
     (case requireOwner owner of
        Some code \<Rightarrow> (Inl code, d2)
      | None \<Rightarrow>
          if \<not> policy_allows owner (getRepositoryPolicy owner (repository_id input) d1)
          then (caught_result D_INTERNAL (Inl (Domain D_REPOSITORY_NOT_ALLOWED)), d2)
          else
            (case createIdempotent e (create_input sha256 ciphertext owner input) d2 of
               (Inl err, d) \<Rightarrow> (caught_result D_INTERNAL (Inl (Thrown err)), d)
             | (Inr job, d) \<Rightarrow>
                 (caught_result D_INTERNAL (Inr (receipt_of job (getConnectorHealth owner d3))), d)))"

definition task_limit :: "int option \<Rightarrow> int" where
  "task_limit limit = min (max (case limit of None \<Rightarrow> MAX_LIST_LIMIT | Some n \<Rightarrow> n) 1) MAX_LIST_LIMIT"

text \<open>The jobs \<open>list\<close> presents; \<open>dp\<close> is the database at the reading of a job's policy.\<close>

definition list_owner_jobs ::
  "string \<Rightarrow> int option \<Rightarrow> JobStatus option \<Rightarrow> bool option \<Rightarrow> db \<Rightarrow> (JobRecord \<Rightarrow> db)
     \<Rightarrow> DomainErrorCode + JobRecord list" where
  "list_owner_jobs owner limit status unread d dp =
     (case requireOwner owner of
        Some code \<Rightarrow> Inl code
      | None \<Rightarrow>
          (case list_jobs \<lparr>li_ownerId = owner, li_limit = Some (task_limit limit),
                  li_status = status, li_unreadOnly = unread\<rparr> d of
             Inl err \<Rightarrow> caught_result D_INTERNAL (Inl (Thrown err))
           | Inr js \<Rightarrow> Inr (filter (\<lambda>job. r_ownerId job = owner \<and>
               (case getRepositoryPolicy owner (r_repositoryId job) (dp job) of
                  None \<Rightarrow> False | Some p \<Rightarrow> rp_ownerId p = owner)) js)))"

definition cancel ::
  "env \<Rightarrow> string \<Rightarrow> string \<Rightarrow> int \<Rightarrow> db \<Rightarrow> db \<Rightarrow> (DomainErrorCode + string \<times> JobStatus \<times> int) \<times> db" where
  "cancel e owner jobId expectedRevision d1 d2 =
     (case requireOwner owner of
        Some code \<Rightarrow> (Inl code, d2)
      | None \<Rightarrow>
          let stop = (\<lambda>code. (caught_result D_JOB_NOT_FOUND (Inl (Domain code)), d2)) in
          (case get_job (Some owner) jobId d1 of
             None \<Rightarrow> stop D_JOB_NOT_FOUND
           | Some current \<Rightarrow>
               if r_ownerId current \<noteq> owner then stop D_JOB_NOT_FOUND
               else if r_status current = Cancelling \<or> r_status current = Cancelled
               then (Inr (r_jobId current, r_status current, r_revision current), d2)
               else if r_status current \<in> set TERMINAL_JOB_STATES then stop D_JOB_NOT_MUTABLE
               else if r_status current \<notin> {Queued, Dispatched, Running, Waiting_approval}
               then stop D_JOB_NOT_MUTABLE
               else
                 (case cancelAtomically e \<lparr>ca_ownerId = owner, ca_jobId = jobId,
                          ca_expectedRevision = expectedRevision, ca_reason = None\<rparr> d2 of
                    (Inl err, d) \<Rightarrow> (caught_result D_JOB_NOT_FOUND (Inl (Thrown err)), d)
                  | (Inr job, d) \<Rightarrow> (Inr (r_jobId job, r_status job, r_revision job), d))))"

definition list_pending ::
  "env \<Rightarrow> string \<Rightarrow> int option \<Rightarrow> db \<Rightarrow> DomainErrorCode + ApprovalRecord list" where
  "list_pending e owner limit d =
     (case requireOwner owner of
        Some code \<Rightarrow> Inl code
      | None \<Rightarrow>
          (case listPendingApprovals e owner (task_limit limit) d of
             Inl err \<Rightarrow> caught_result D_INTERNAL (Inl (Thrown err))
           | Inr as \<Rightarrow> Inr (filter (\<lambda>a. (ar_ownerId a = None \<or> ar_ownerId a = Some owner)
               \<and> ar_decision a = None) as)))"

record ApprovalAnswer =
  aa_approval_id :: string
  aa_job_id :: string
  aa_decision :: "ApprovalDecision option"
  aa_revision :: int

definition presentApprovalDecision :: "ApprovalRecord \<Rightarrow> ApprovalAnswer" where
  "presentApprovalDecision a =
     \<lparr>aa_approval_id = ar_approvalId a, aa_job_id = ar_jobId a, aa_decision = ar_decision a,
      aa_revision = ar_jobRevision a\<rparr>"

definition decideApproval ::
  "env \<Rightarrow> string \<Rightarrow> string \<Rightarrow> ApprovalDecision \<Rightarrow> int \<Rightarrow> int \<Rightarrow> db
     \<Rightarrow> (DomainErrorCode + ApprovalAnswer) \<times> db" where
  "decideApproval e owner approvalId decision expectedJobRevision now d =
     (case requireOwner owner of
        Some code \<Rightarrow> (Inl code, d)
      | None \<Rightarrow>
          (case recordApprovalDecision e \<lparr>ad_approvalId = approvalId, ad_decision = decision,
                   ad_expectedJobRevision = expectedJobRevision, ad_ownerId = Some owner,
                   ad_actionFingerprint = None, ad_expectedAttempt = None, ad_now = now\<rparr> d of
             (Inl err, d') \<Rightarrow> (caught_result D_APPROVAL_MISMATCH (Inl (Thrown err)), d')
           | (Inr a, d') \<Rightarrow> (Inr (presentApprovalDecision a), d')))"

text \<open>\<open>getResult\<close> up to the presentation: \<open>d1\<close> at the reading of the job, \<open>d2\<close> at the acknowledgement.\<close>

definition getResult ::
  "env \<Rightarrow> string \<Rightarrow> string \<Rightarrow> db \<Rightarrow> db \<Rightarrow> (DomainErrorCode + JobResultRecord) \<times> db" where
  "getResult e owner jobId d1 d2 =
     (case requireOwner owner of
        Some code \<Rightarrow> (Inl code, d2)
      | None \<Rightarrow>
          let stop = (\<lambda>code. (caught_result D_JOB_NOT_FOUND (Inl (Domain code)), d2)) in
          (case get_job (Some owner) jobId d1 of
             None \<Rightarrow> stop D_JOB_NOT_FOUND
           | Some job \<Rightarrow>
               if r_ownerId job \<noteq> owner then stop D_JOB_NOT_FOUND
               else if r_status job \<notin> set TERMINAL_JOB_STATES then stop D_JOB_NOT_MUTABLE
               else
                 (case acknowledgeResult e owner jobId d2 of
                    (Inl err, d) \<Rightarrow> (caught_result D_JOB_NOT_FOUND (Inl (Thrown err)), d)
                  | (Inr None, d) \<Rightarrow> (caught_result D_JOB_NOT_FOUND (Inl (Domain D_JOB_NOT_FOUND)), d)
                  | (Inr (Some result), d) \<Rightarrow> (Inr result, d))))"


subsection \<open>Lookups scoped to an owner\<close>

locale owner_lookup =
  fixes lookup :: "string \<Rightarrow> string \<Rightarrow> db \<Rightarrow> 'r option"
    and owner_of :: "'r \<Rightarrow> string"
  assumes owned: "lookup w k d = Some r \<Longrightarrow> owner_of r = w"
begin

lemma guard_redundant:
  "(case lookup w k d of None \<Rightarrow> a | Some r \<Rightarrow> if owner_of r \<noteq> w then b else f r)
     = (case lookup w k d of None \<Rightarrow> a | Some r \<Rightarrow> f r)"
  using owned [of w k d] by (auto split: option.split)

end

lemma get_job_Some:
  "get_job (Some w) k d = Some r \<longleftrightarrow>
     (\<exists>j. first_row (filter (\<lambda>j. j_id j = k \<and> j_ownerId j = w) (jobs d)) = Some j \<and> r = toJobRecord j)"
  by (auto simp: get_job_def readJob_eq split: option.splits)

interpretation jl: owner_lookup "\<lambda>w. get_job (Some w)" r_ownerId
  by unfold_locales (auto simp: get_job_Some dest: first_row_filter_Some)

interpretation pl: owner_lookup getRepositoryPolicy rp_ownerId
  by unfold_locales
    (auto simp: getRepositoryPolicy_def toRepositoryPolicyRecord_def dest: first_row_filter_Some)

lemma policy_allows_iff:
  "policy_allows w (getRepositoryPolicy w k d) \<longleftrightarrow>
     (\<exists>p. getRepositoryPolicy w k d = Some p \<and> rp_enabled p)"
  using pl.owned by (auto simp: policy_allows_def split: option.split)

subsection \<open>Submission\<close>

lemma mode_string_inj [simp]: "mode_string m = mode_string n \<longleftrightarrow> m = n"
  by (cases m; cases n) simp_all

definition same_task :: "SubmitTaskInput \<Rightarrow> SubmitTaskInput \<Rightarrow> bool" where
  "same_task a b \<longleftrightarrow> client_request_id a = client_request_id b \<and> repository_id a = repository_id b
     \<and> js_trim (request a) = js_trim (request b) \<and> submit_mode a = submit_mode b"

lemma canonicalSubmitPayload_inj:
  "canonicalSubmitPayload a = canonicalSubmitPayload b \<longleftrightarrow> same_task a b"
proof
  assume "canonicalSubmitPayload a = canonicalSubmitPayload b"
  then show "same_task a b"
    unfolding canonicalSubmitPayload_def same_task_def
    by (auto dest!: json_string_prefix)
qed (simp add: canonicalSubmitPayload_def same_task_def)

lemma created_row:
  assumes "create_attempts e input is d = Inr (Some row, d')"
  shows "row \<in> set (jobs d')"
  using assms
  by (induction "is" arbitrary: d)
    (auto simp: tx_core insert_job_Inr split: option.splits if_splits)

lemma create_body_row:
  assumes "create_body e input d = Inr (a, d')"
  obtains j where "j \<in> set (jobs d')" "a = toJobRecord j"
  using assms
proof (cases rule: create_body_Inr)
  case (existing r original)
  with first_row_filter_Some [OF existing(3)] that show ?thesis by auto
next
  case (created row d1)
  with created_row [OF created(2)] that show ?thesis by auto
qed

text \<open>What a client sees of the job a key names, for ever.\<close>

lemma create_again:
  assumes inv: "db_inv d" and run: "createIdempotent e input d = (Inr a, d1)" and later: "store_run d1 d2"
    and key: "cr_ownerId input' = cr_ownerId input" "cr_clientRequestId input' = cr_clientRequestId input"
  shows "if cr_requestDigest input' = cr_requestDigest input
    then \<exists>b. createIdempotent e' input' d2 = (Inr b, d2) \<and> r_jobId b = r_jobId a
       \<and> r_shortId b = r_shortId a \<and> r_acceptedAt b = r_acceptedAt a \<and> r_expiresAt b = r_expiresAt a
    else createIdempotent e' input' d2 = (Inl (RepositoryError R_IDEMPOTENCY_CONFLICT), d2)"
proof -
  have body: "create_body e input d = Inr (a, d1)"
    using run by (simp add: createIdempotent_def transaction_Inr)
  have inv1: "db_inv d1" using good_create_body [OF body] inv by (simp add: good_def)
  have inv2: "db_inv d2" using run_inv [OF inv1 later] .
  obtain k where k: "k \<in> set (idempotencyRecords d1)" "same_request input k"
    "i_requestDigest k = cr_requestDigest input" "i_jobId k = r_jobId a"
    using created_key [OF inv body] .
  have k2: "k \<in> set (idempotencyRecords d2)"
    using run_moves [OF inv1 later] k(1) by (auto simp: store_moves_def extends_def)
  have same: "same_request input' k" using k(2) key by (simp add: same_request_def)
  obtain j where j: "j \<in> set (jobs d1)" "a = toJobRecord j" using create_body_row [OF body] .
  obtain j' where j': "job_moves j j'" "j' \<in> set (jobs d2)" "j_id j' = j_id j"
    using later_job [OF inv1 later j(1)] .
  have "first_row (filter (\<lambda>x. j_id x = i_jobId k) (jobs d2)) = Some j'"
    using first_row_job_id [OF inv2 j'(2)] j'(3) j(2) k(4) by simp
  with create_replay [OF inv2 k2 same, of e'] k(3) j(2) j'(1) show ?thesis
    by (auto simp: createIdempotent_def transaction_def job_moves_def toJobRecord_def)
qed

lemma submit_Inr:
  assumes "submit sha256 c e owner input d1 d2 d3 = (Inr receipt, d)"
  obtains job where "requireOwner owner = None"
    "createIdempotent e (create_input sha256 c owner input) d2 = (Inr job, d)"
    "receipt = receipt_of job (getConnectorHealth owner d3)"
    "policy_allows owner (getRepositoryPolicy owner (repository_id input) d1)"
  using assms
  by (auto simp: submit_def caught_result_def split: option.splits if_splits prod.splits sum.splits)

text \<open>
  C38. Submitting a task twice creates it once. After a successful submission and any further calls
  of the repository, a second submission with the same request id, by the same owner and with the
  repository still enabled, changes nothing: if it asks for the same task (the same repository
  and mode, and the same text up to surrounding space) it gets a receipt for the same job, short id and times; if
  it asks for another task it is refused with \<open>IDEMPOTENCY_CONFLICT\<close>. The assumption on SHA-256 is
  that the two payloads do not collide.
\<close>

theorem submission_is_idempotent:
  assumes "db_inv d2" and "submit sha256 c e owner input d1 d2 d3 = (Inr receipt, d2')"
    and "store_run d2' f2" and "client_request_id input' = client_request_id input"
    and "getRepositoryPolicy owner (repository_id input') f1 = Some p" "rp_enabled p"
    and "sha256 (canonicalSubmitPayload input') = sha256 (canonicalSubmitPayload input)
      \<Longrightarrow> canonicalSubmitPayload input' = canonicalSubmitPayload input"
  shows "if same_task input' input
    then \<exists>again. submit sha256 c' e' owner input' f1 f2 f3 = (Inr again, f2)
       \<and> rc_job_id again = rc_job_id receipt \<and> rc_short_id again = rc_short_id receipt
       \<and> rc_accepted_at again = rc_accepted_at receipt \<and> rc_expires_at again = rc_expires_at receipt
    else submit sha256 c' e' owner input' f1 f2 f3 = (Inl D_IDEMPOTENCY_CONFLICT, f2)"
proof -
  obtain job where owner: "requireOwner owner = None"
    and job: "createIdempotent e (create_input sha256 c owner input) d2 = (Inr job, d2')"
    and r: "receipt = receipt_of job (getConnectorHealth owner d3)"
    using submit_Inr [OF assms(2)] .
  have allowed: "policy_allows owner (getRepositoryPolicy owner (repository_id input') f1)"
    unfolding policy_allows_iff using assms(5,6) by blast
  have digest: "requestDigest sha256 input' = requestDigest sha256 input \<longleftrightarrow> same_task input' input"
    using assms(7) canonicalSubmitPayload_inj [of input' input] by (auto simp: requestDigest_def)
  have again: "if same_task input' input
    then \<exists>b. createIdempotent e' (create_input sha256 c' owner input') f2 = (Inr b, f2)
       \<and> r_jobId b = r_jobId job \<and> r_shortId b = r_shortId job \<and> r_acceptedAt b = r_acceptedAt job
       \<and> r_expiresAt b = r_expiresAt job
    else createIdempotent e' (create_input sha256 c' owner input') f2
       = (Inl (RepositoryError R_IDEMPOTENCY_CONFLICT), f2)"
    using create_again [OF assms(1) job assms(3), of "create_input sha256 c' owner input'" e'] digest assms(4)
    by (simp add: create_input_def)
  have conflict: "translateError D_INTERNAL (Thrown (RepositoryError R_IDEMPOTENCY_CONFLICT))
      = D_IDEMPOTENCY_CONFLICT" by code_simp
  show ?thesis
  proof (cases "same_task input' input")
    case True
    with again owner allowed show ?thesis
      by (auto simp: submit_def caught_result_def r receipt_of_def)
  next
    case False
    with again owner allowed conflict show ?thesis by (simp add: submit_def caught_result_def)
  qed
qed

definition sample_task :: "string \<Rightarrow> SubmitTaskInput" where
  "sample_task s = \<lparr>client_request_id = ''k'', repository_id = ''repo'', request = s, mode_in = None\<rparr>"

theorem submission_is_idempotent_witness:
  "\<exists>receipt d. submit (\<lambda>s. s) ''c'' sample_env ''o'' (sample_task ''run'') sample_db sample_db sample_db
       = (Inr receipt, d)
     \<and> submit (\<lambda>s. s) ''e'' sample_env ''o'' (sample_task ''stop'') d d d = (Inl D_IDEMPOTENCY_CONFLICT, d)"
proof -
  let ?s = "submit (\<lambda>s. s) ''c'' sample_env ''o'' (sample_task ''run'') sample_db sample_db sample_db"
  have "\<not> isl (fst ?s)" by code_simp
  then obtain receipt where r: "?s = (Inr receipt, snd ?s)"
    by (metis isl_def prod.collapse sum.exhaust_sel)
  obtain p where p: "getRepositoryPolicy ''o'' ''repo'' (snd ?s) = Some p" "rp_enabled p"
  proof -
    have "map_option rp_enabled (getRepositoryPolicy ''o'' ''repo'' (snd ?s)) = Some True" by code_simp
    with that show ?thesis by auto
  qed
  have "\<not> same_task (sample_task ''stop'') (sample_task ''run'')" by code_simp
  with submission_is_idempotent [OF sample_db_inv r store_run.none, of "sample_task ''stop''" "snd ?s" p
      "''e''" sample_env "snd ?s"] p r show ?thesis
    by (auto simp: sample_task_def)
qed

end
