(* ===== verification/Node_Path.thy ===== *)
theory Node_Path
  imports Js_Text "HOL-Library.Sublist"
begin

section \<open>POSIX paths\<close>

text \<open>
  The functions of \<open>node:path\<close> that the policy uses, on a POSIX host: a path is a string, its
  segments are what lies between slashes. Each function does what the library's does on every
  string, also on one that is not normalized. \<open>process.cwd()\<close> is an argument.
\<close>

subsection \<open>Segments\<close>

fun split_on :: "(char \<Rightarrow> bool) \<Rightarrow> string \<Rightarrow> string list" where
  "split_on p [] = [[]]"
| "split_on p (c # cs) =
     (if p c then [] # split_on p cs
      else case split_on p cs of x # xs \<Rightarrow> (c # x) # xs | [] \<Rightarrow> [[c]])"

definition is_slash :: "char \<Rightarrow> bool" where "is_slash c = (c = CHR ''/'')"

abbreviation split_slash :: "string \<Rightarrow> string list" where
  "split_slash \<equiv> split_on is_slash"

text \<open>\<open>normalizeString\<close>: drops empty and \<open>.\<close> segments and resolves \<open>..\<close>.\<close>

fun norm_segs :: "bool \<Rightarrow> string list \<Rightarrow> string list \<Rightarrow> string list" where
  "norm_segs aboveRoot acc [] = rev acc"
| "norm_segs aboveRoot acc (s # ss) =
     (if s = [] \<or> s = ''.'' then norm_segs aboveRoot acc ss
      else if s = ''..'' then
        (case acc of
           [] \<Rightarrow> norm_segs aboveRoot (if aboveRoot then [''..''] else []) ss
         | a # as \<Rightarrow>
             if a = ''..'' then norm_segs aboveRoot (if aboveRoot then ''..'' # acc else acc) ss
             else norm_segs aboveRoot as ss)
      else norm_segs aboveRoot (s # acc) ss)"

definition isAbsolute :: "string \<Rightarrow> bool" where
  "isAbsolute p = startsWith p ''/''"

definition abs_text :: "string list \<Rightarrow> string" where
  "abs_text ss = CHR ''/'' # join_with ''/'' ss"

definition segs :: "string \<Rightarrow> string list" where
  "segs p = norm_segs False [] (split_slash p)"

definition normalize :: "string \<Rightarrow> string" where
  "normalize p =
     (if p = [] then ''.''
      else
        let trailing = (last p = CHR ''/'');
            path = join_with ''/'' (norm_segs (\<not> isAbsolute p) [] (split_slash p)) in
        if path = [] then (if isAbsolute p then ''/'' else if trailing then ''./'' else ''.'')
        else
          let path = (if trailing then path @ ''/'' else path) in
          if isAbsolute p then CHR ''/'' # path else path)"

text \<open>\<open>join(a, ...bs)\<close> and \<open>resolve(base, p)\<close>.\<close>

definition join_paths :: "string list \<Rightarrow> string" where
  "join_paths ps =
     (let parts = filter (\<lambda>p. p \<noteq> []) ps in
      if parts = [] then ''.'' else normalize (join_with ''/'' parts))"

definition resolve2 :: "string \<Rightarrow> string \<Rightarrow> string \<Rightarrow> string" where
  "resolve2 cwd base p =
     abs_text (norm_segs False []
       (if isAbsolute p then split_slash p
        else if isAbsolute base then split_slash base @ split_slash p
        else split_slash cwd @ split_slash base @ split_slash p))"

definition dirname :: "string \<Rightarrow> string" where
  "dirname s =
     (case s of
        [] \<Rightarrow> ''.''
      | h # body \<Rightarrow>
          let stripped = dropWhile is_slash (rev body);
              upto = dropWhile (\<lambda>c. \<not> is_slash c) stripped in
          if upto = [] then (if is_slash h then ''/'' else ''.'')
          else if is_slash h \<and> length upto = 1 then ''//''
          else h # rev (tl upto))"

definition basename :: "string \<Rightarrow> string" where
  "basename s = rev (takeWhile (\<lambda>c. \<not> is_slash c) (dropWhile is_slash (rev s)))"

fun common_prefix :: "'a list \<Rightarrow> 'a list \<Rightarrow> nat" where
  "common_prefix (x # xs) (y # ys) = (if x = y then Suc (common_prefix xs ys) else 0)"
| "common_prefix _ _ = 0"

definition relative :: "string \<Rightarrow> string \<Rightarrow> string \<Rightarrow> string" where
  "relative cwd from to =
     (if from = to then []
      else
        let f = segs (resolve2 cwd [] from); t = segs (resolve2 cwd [] to); k = common_prefix f t in
        join_with ''/'' (replicate (length f - k) ''..'' @ drop k t))"

subsection \<open>Normal segments\<close>

definition plain_seg :: "string \<Rightarrow> bool" where
  "plain_seg s = (s \<noteq> [] \<and> s \<noteq> ''.'' \<and> s \<noteq> ''..'' \<and> list_all (\<lambda>c. \<not> is_slash c) s)"

lemma split_on_nonempty [simp]: "split_on p s \<noteq> []"
  by (cases s) (auto split: list.splits)

lemma split_on_clean: "x \<in> set (split_on p s) \<Longrightarrow> list_all (\<lambda>c. \<not> p c) x"
proof (induction s arbitrary: x)
  case (Cons c cs)
  then show ?case
    by (cases "split_on p cs") (auto split: if_splits)
qed simp

lemma norm_segs_plain:
  assumes "\<And>s. s \<in> set ss \<Longrightarrow> list_all (\<lambda>c. \<not> is_slash c) s" and "list_all plain_seg acc"
  shows "list_all plain_seg (norm_segs False acc ss)"
  using assms
proof (induction False acc ss rule: norm_segs.induct)
  case (2 acc s ss)
  then show ?case
    by (cases acc) (auto simp: plain_seg_def)
qed (simp add: list_all_rev)

lemma segs_plain: "list_all plain_seg (segs p)"
  unfolding segs_def by (rule norm_segs_plain) (auto dest: split_on_clean)

lemma norm_segs_id:
  "list_all plain_seg ss \<Longrightarrow> norm_segs aboveRoot acc ss = rev acc @ ss"
  by (induction ss arbitrary: acc) (auto simp: plain_seg_def)

lemma split_on_no_sep: "list_all (\<lambda>c. \<not> p c) s \<Longrightarrow> split_on p s = [s]"
  by (induction s) auto

lemma split_on_append_sep:
  "list_all (\<lambda>c. \<not> p c) s \<Longrightarrow> p d \<Longrightarrow> split_on p (s @ d # t) = s # split_on p t"
  by (induction s) (auto split: list.splits)

lemma split_join:
  "list_all plain_seg ss \<Longrightarrow> ss \<noteq> [] \<Longrightarrow> split_slash (join_with ''/'' ss) = ss"
proof (induction ss rule: induct_list012)
  case (2 x)
  then show ?case by (simp add: plain_seg_def split_on_no_sep)
next
  case (3 x y ss)
  then show ?case
    by (auto simp: plain_seg_def split_on_append_sep is_slash_def)
qed simp

lemma split_abs_text: "list_all plain_seg ss \<Longrightarrow> ss \<noteq> [] \<Longrightarrow> split_slash (abs_text ss) = [] # ss"
  by (simp add: abs_text_def is_slash_def split_join)

lemma segs_abs_text: "list_all plain_seg ss \<Longrightarrow> segs (abs_text ss) = ss"
  by (cases "ss = []")
     (simp add: segs_def abs_text_def is_slash_def, simp add: segs_def split_abs_text norm_segs_id)

lemma isAbsolute_abs_text [simp]: "isAbsolute (abs_text ss)"
  by (simp add: isAbsolute_def abs_text_def startsWith_def)

lemma resolve2_absolute: "isAbsolute p \<Longrightarrow> resolve2 cwd base p = abs_text (segs p)"
  by (simp add: resolve2_def segs_def)

text \<open>A path in normal form: what \<open>resolve\<close> and \<open>realpath\<close> return.\<close>

definition normal_path :: "string \<Rightarrow> bool" where
  "normal_path p = (p = abs_text (segs p))"

lemma normal_abs_text: "list_all plain_seg ss \<Longrightarrow> normal_path (abs_text ss)"
  by (simp add: normal_path_def segs_abs_text)

lemma normal_absolute: "normal_path p \<Longrightarrow> isAbsolute p"
  by (metis isAbsolute_abs_text normal_path_def)

lemma normal_resolve2: "normal_path (resolve2 cwd base p)"
  unfolding resolve2_def
  by (rule normal_abs_text, rule norm_segs_plain)
     (auto dest: split_on_clean split: if_splits)


lemma abs_text_inj: "list_all plain_seg ss \<Longrightarrow> list_all plain_seg ts \<Longrightarrow>
    abs_text ss = abs_text ts \<longleftrightarrow> ss = ts"
  by (metis segs_abs_text)

lemma normal_eq_iff: "normal_path p \<Longrightarrow> normal_path q \<Longrightarrow> p = q \<longleftrightarrow> segs p = segs q"
  by (metis normal_path_def)

subsection \<open>Containment\<close>

lemma common_prefix_le: "common_prefix xs ys \<le> length xs"
  by (induction xs ys rule: common_prefix.induct) auto

lemma prefix_common: "prefix xs ys \<longleftrightarrow> common_prefix xs ys = length xs"
  by (induction xs ys rule: common_prefix.induct) auto

lemma common_prefix_same [simp]: "common_prefix xs xs = length xs"
  by (simp flip: prefix_common)

lemma relative_absolute:
  assumes "isAbsolute p" "isAbsolute q"
  shows "relative cwd p q = join_with ''/''
    (replicate (length (segs p) - common_prefix (segs p) (segs q)) ''..''
      @ drop (common_prefix (segs p) (segs q)) (segs q))"
  using assms by (auto simp: relative_def resolve2_absolute segs_abs_text segs_plain Let_def)

text \<open>\<open>isWithinRoot\<close> of \<open>canonical-path.ts\<close>, here because it is purely lexical.\<close>

definition isWithinRoot :: "string \<Rightarrow> string \<Rightarrow> string \<Rightarrow> bool" where
  "isWithinRoot cwd repo target =
     (let distance = relative cwd repo target in
      distance = []
      \<or> (\<not> isAbsolute distance \<and> distance \<noteq> ''..'' \<and> \<not> startsWith distance ''../''))"

definition isPathWithinRoot :: "string \<Rightarrow> string \<Rightarrow> string \<Rightarrow> bool" where
  "isPathWithinRoot cwd repo target =
     (isAbsolute repo \<and> isAbsolute target \<and> isWithinRoot cwd repo target)"

lemma startsWithD: "startsWith s p \<Longrightarrow> \<exists>r. s = p @ r"
  by (metis append_take_drop_id startsWith_def)

lemma join_plain_inside:
  assumes "list_all plain_seg ss"
  shows "join_with ''/'' ss = [] \<or> (\<not> isAbsolute (join_with ''/'' ss)
     \<and> join_with ''/'' ss \<noteq> ''..'' \<and> \<not> startsWith (join_with ''/'' ss) ''../'')"
proof (cases "ss = []")
  case False
  have split: "split_slash (join_with ''/'' ss) = ss" using assms False by (rule split_join)
  have first: "plain_seg (hd ss)" using assms False by (cases ss) auto
  have "\<not> isAbsolute (join_with ''/'' ss)"
  proof
    assume "isAbsolute (join_with ''/'' ss)"
    then obtain r where "join_with ''/'' ss = CHR ''/'' # r"
      by (auto simp: isAbsolute_def dest: startsWithD)
    then have "hd ss = []" using split by (auto simp: is_slash_def)
    with first show False by (simp add: plain_seg_def)
  qed
  moreover have "join_with ''/'' ss \<noteq> ''..''"
  proof
    assume "join_with ''/'' ss = ''..''"
    then have "ss = [''..'']" using split by (auto simp: is_slash_def)
    with first show False by (simp add: plain_seg_def)
  qed
  moreover have "\<not> startsWith (join_with ''/'' ss) ''../''"
  proof
    assume "startsWith (join_with ''/'' ss) ''../''"
    then obtain r where "join_with ''/'' ss = ''..'' @ CHR ''/'' # r" by (auto dest: startsWithD)
    then have "ss = ''..'' # split_slash r"
      using split split_on_append_sep [of is_slash "''..''" "CHR ''/''" r]
      by (simp add: is_slash_def)
    with first show False by (simp add: plain_seg_def)
  qed
  ultimately show ?thesis by simp
qed simp

lemma join_dots_outside:
  "join_with ''/'' (''..'' # ss) = ''..'' \<or> startsWith (join_with ''/'' (''..'' # ss)) ''../''"
  by (cases ss) (auto simp: startsWith_def)

lemma within_iff:
  assumes "isAbsolute repo" "isAbsolute target"
  shows "isWithinRoot cwd repo target \<longleftrightarrow> prefix (segs repo) (segs target)"
proof (cases "prefix (segs repo) (segs target)")
  case True
  then have k: "common_prefix (segs repo) (segs target) = length (segs repo)"
    by (simp add: prefix_common)
  have "list_all plain_seg (drop (length (segs repo)) (segs target))"
    using segs_plain [of target] by (auto simp: list_all_iff dest: in_set_dropD)
  then show ?thesis
    using True join_plain_inside assms
    by (auto simp: isWithinRoot_def relative_absolute k)
next
  case False
  let ?k = "common_prefix (segs repo) (segs target)"
  have "?k \<noteq> length (segs repo)" using False by (simp add: prefix_common)
  then have "?k < length (segs repo)"
    using common_prefix_le [of "segs repo" "segs target"] by linarith
  then obtain n where n: "length (segs repo) - ?k = Suc n"
    by (metis Suc_diff_Suc)
  define rest where "rest = replicate n ''..'' @ drop ?k (segs target)"
  have "relative cwd repo target = join_with ''/'' (''..'' # rest)"
    using assms by (simp add: relative_absolute n rest_def)
  moreover have "join_with ''/'' (''..'' # rest) \<noteq> []"
    using join_dots_outside [of rest] by (auto simp: startsWith_def)
  ultimately show ?thesis
    using False join_dots_outside [of rest] by (auto simp: isWithinRoot_def Let_def)
qed

end
