(* ===== verification/Canonical_Path.thy ===== *)
theory Canonical_Path
  imports Node_Path
begin

section \<open>Canonical paths inside a repository\<close>

text \<open>
  \<open>packages/harness-plugin/src/policy/canonical-path.ts\<close> and the violations of \<open>types.ts\<close>. The
  operating system is a \<open>host\<close> record: what \<open>realpath\<close>, \<open>lstat\<close>, \<open>stat\<close> and the other system
  calls answer while one action is being classified.
\<close>

subsection \<open>The host\<close>

datatype errno = ENOENT | ENOTDIR | OtherErrno

datatype file_kind = RegularFile | Directory | SymbolicLink | SpecialFile

text \<open>What \<open>spawnSync\<close> of ripgrep returns, with the two durations the code measures.\<close>

record rg_result =
  rg_failed :: bool
  rg_stdout :: "string option"
  rg_stdout_bytes :: nat
  rg_stderr_bytes :: nat
  rg_elapsed :: "nat \<Rightarrow> nat"

record host =
  host_cwd :: string
  host_realpath :: "string \<Rightarrow> errno + string"
  host_lstat :: "string \<Rightarrow> errno + file_kind"
  host_stat :: "string \<Rightarrow> errno + file_kind"
  host_executable :: "string \<Rightarrow> bool"
  host_entries :: "string \<Rightarrow> errno + string list"
  host_PATH :: "string option"
  host_RIPGREP_CONFIG_PATH :: "string option"
  host_fileURLToPath :: "string \<Rightarrow> string option"
  host_ripgrep :: "string \<Rightarrow> string \<Rightarrow> string list \<Rightarrow> rg_result"
  host_sha256 :: "string \<Rightarrow> string"

text \<open>\<open>realpath\<close> is documented to return an absolute path without \<open>.\<close>, \<open>..\<close> and empty segments.\<close>

definition host_ok :: "host \<Rightarrow> bool" where
  "host_ok H = (\<forall>p q. host_realpath H p = Inr q \<longrightarrow> normal_path q)"

subsection \<open>Violations and errors\<close>

datatype PolicyPathViolation =
    PATH_NOT_ABSOLUTE | PATH_TRAVERSAL | PATH_OUTSIDE_REPOSITORY | SYMLINK_ESCAPE
  | PATH_CHANGED | PATH_UNAVAILABLE | ROOT_NOT_CANONICAL | UNKNOWN_REPOSITORY
  | UNSTRUCTURED_ACTION | UNSUPPORTED_ARGUMENTS | PROTECTED_RESOURCE

fun violation_code :: "PolicyPathViolation \<Rightarrow> string" where
  "violation_code PATH_NOT_ABSOLUTE = ''PATH_NOT_ABSOLUTE''"
| "violation_code PATH_TRAVERSAL = ''PATH_TRAVERSAL''"
| "violation_code PATH_OUTSIDE_REPOSITORY = ''PATH_OUTSIDE_REPOSITORY''"
| "violation_code SYMLINK_ESCAPE = ''SYMLINK_ESCAPE''"
| "violation_code PATH_CHANGED = ''PATH_CHANGED''"
| "violation_code PATH_UNAVAILABLE = ''PATH_UNAVAILABLE''"
| "violation_code ROOT_NOT_CANONICAL = ''ROOT_NOT_CANONICAL''"
| "violation_code UNKNOWN_REPOSITORY = ''UNKNOWN_REPOSITORY''"
| "violation_code UNSTRUCTURED_ACTION = ''UNSTRUCTURED_ACTION''"
| "violation_code UNSUPPORTED_ARGUMENTS = ''UNSUPPORTED_ARGUMENTS''"
| "violation_code PROTECTED_RESOURCE = ''PROTECTED_RESOURCE''"

text \<open>What policy code throws: a \<open>CanonicalPathError\<close>, or any other error.\<close>

datatype exn = CanonicalPathError PolicyPathViolation | OtherError

definition isMissingPathError :: "errno \<Rightarrow> bool" where
  "isMissingPathError e = (e = ENOENT \<or> e = ENOTDIR)"

definition is_either_slash :: "char \<Rightarrow> bool" where
  "is_either_slash c = (c = CHR ''/'' \<or> c = CHR 92)"

definition hasTraversalSegment :: "string \<Rightarrow> bool" where
  "hasTraversalSegment path = (''..'' \<in> set (split_on is_either_slash path))"

definition assertPathInput :: "host \<Rightarrow> string \<Rightarrow> string option \<Rightarrow> exn + string" where
  "assertPathInput H path basePath =
     (if path = [] then Inl (CanonicalPathError PATH_UNAVAILABLE)
      else if hasTraversalSegment path then Inl (CanonicalPathError PATH_TRAVERSAL)
      else if isAbsolute path then Inr path
      else case basePath of
          None \<Rightarrow> Inl (CanonicalPathError PATH_NOT_ABSOLUTE)
        | Some base \<Rightarrow>
            if \<not> isAbsolute base then Inl (CanonicalPathError PATH_NOT_ABSOLUTE)
            else Inr (resolve2 (host_cwd H) base path))"

definition canonicalRoot :: "host \<Rightarrow> string \<Rightarrow> exn + string" where
  "canonicalRoot H repo =
     (if \<not> isAbsolute repo then Inl (CanonicalPathError ROOT_NOT_CANONICAL)
      else case host_realpath H repo of
          Inl _ \<Rightarrow> Inl (CanonicalPathError ROOT_NOT_CANONICAL)
        | Inr resolvedRoot \<Rightarrow>
            if host_stat H resolvedRoot \<noteq> Inr Directory
            then Inl (CanonicalPathError ROOT_NOT_CANONICAL)
            else if resolvedRoot \<noteq> repo then Inl (CanonicalPathError ROOT_NOT_CANONICAL)
            else Inr resolvedRoot)"

lemma dirname_shorter:
  assumes "dirname s \<noteq> s"
  shows "dirname s = ''.'' \<or> length (dirname s) < length s"
proof (cases s)
  case (Cons h body)
  let ?st = "dropWhile is_slash (rev body)"
  let ?up = "dropWhile (\<lambda>c. \<not> is_slash c) ?st"
  have st: "length ?st \<le> length body" using length_dropWhile_le [of is_slash "rev body"] by simp
  have up: "?up = [] \<or> length ?up < length ?st"
  proof (cases ?st)
    case (Cons x xs)
    then have "\<not> is_slash x" using dropWhile_hd [of is_slash "rev body"] by auto
    with Cons show ?thesis using length_dropWhile_le [of "\<lambda>c. \<not> is_slash c" xs] by auto
  qed (simp only: dropWhile.simps simp_thms)
  have "is_slash h \<Longrightarrow> h = CHR ''/''" by (simp add: is_slash_def)
  then show ?thesis
    using assms Cons st up
    by (cases ?up) (auto simp: dirname_def Let_def split: if_splits)
qed (simp add: dirname_def)

lemma dirname_dot: "dirname ''.'' = ''.''"
  by (simp add: dirname_def is_slash_def)

function nearestExistingAncestor ::
  "host \<Rightarrow> string \<Rightarrow> string list \<Rightarrow> exn + (string \<times> string list)" where
  "nearestExistingAncestor H cursor missingSegments =
     (case host_lstat H cursor of
        Inr _ \<Rightarrow> Inr (cursor, missingSegments)
      | Inl error \<Rightarrow>
          if \<not> isMissingPathError error then Inl (CanonicalPathError PATH_UNAVAILABLE)
          else if dirname cursor = cursor then Inl (CanonicalPathError PATH_UNAVAILABLE)
          else nearestExistingAncestor H (dirname cursor) (basename cursor # missingSegments))"
  by pat_completeness auto
termination
  by (relation "measure (\<lambda>(H, c, m). if c = ''.'' then 0 else Suc (length c))")
     (auto simp: dirname_dot dest: dirname_shorter)

declare nearestExistingAncestor.simps [simp del]

definition outsideCode :: "host \<Rightarrow> string \<Rightarrow> string \<Rightarrow> PolicyPathViolation" where
  "outsideCode H candidate repo =
     (if isWithinRoot (host_cwd H) repo candidate then SYMLINK_ESCAPE
      else PATH_OUTSIDE_REPOSITORY)"

text \<open>The canonical spelling of a path that does not exist yet.\<close>

definition missing_target :: "host \<Rightarrow> string \<Rightarrow> exn + string" where
  "missing_target H candidate =
     (case nearestExistingAncestor H candidate [] of
        Inl e \<Rightarrow> Inl e
      | Inr (ancestor, missingSegments) \<Rightarrow>
          (case host_realpath H ancestor of
             Inl _ \<Rightarrow> Inl (CanonicalPathError PATH_UNAVAILABLE)
           | Inr canonicalAncestor \<Rightarrow>
               if missingSegments \<noteq> [] \<and> host_stat H canonicalAncestor \<noteq> Inr Directory
               then Inl (CanonicalPathError PATH_UNAVAILABLE)
               else Inr (join_paths (canonicalAncestor # missingSegments))))"

definition canonicalizePath :: "host \<Rightarrow> string \<Rightarrow> string \<Rightarrow> string option \<Rightarrow> exn + string" where
  "canonicalizePath H repo target basePath =
     (case canonicalRoot H repo of
        Inl e \<Rightarrow> Inl e
      | Inr resolvedRoot \<Rightarrow>
          (case assertPathInput H target basePath of
             Inl e \<Rightarrow> Inl e
           | Inr candidate \<Rightarrow>
               let canonicalTarget =
                 (case host_realpath H candidate of
                    Inr p \<Rightarrow> Inr p
                  | Inl error \<Rightarrow>
                      if \<not> isMissingPathError error
                      then Inl (CanonicalPathError PATH_UNAVAILABLE)
                      else missing_target H candidate) in
               (case canonicalTarget of
                  Inl e \<Rightarrow> Inl e
                | Inr p \<Rightarrow>
                    if \<not> isWithinRoot (host_cwd H) resolvedRoot p
                    then Inl (CanonicalPathError (outsideCode H candidate resolvedRoot))
                    else Inr p)))"

definition canonicalizeRepositoryRoot :: "host \<Rightarrow> string \<Rightarrow> exn + string" where
  "canonicalizeRepositoryRoot H repo = canonicalRoot H repo"

definition recheckCanonicalPath ::
  "host \<Rightarrow> string \<Rightarrow> string \<Rightarrow> string \<Rightarrow> string option \<Rightarrow> exn + string" where
  "recheckCanonicalPath H repo target expectedCanonicalPath basePath =
     (case canonicalizePath H repo target basePath of
        Inl e \<Rightarrow> Inl e
      | Inr current \<Rightarrow>
          if current \<noteq> expectedCanonicalPath then Inl (CanonicalPathError PATH_CHANGED)
          else Inr current)"

subsection \<open>What canonicalization guarantees\<close>

lemma canonicalRoot_Inr:
  "canonicalRoot H repo = Inr r \<longleftrightarrow>
     isAbsolute repo \<and> r = repo \<and> host_realpath H repo = Inr repo
     \<and> host_stat H repo = Inr Directory"
  by (auto simp: canonicalRoot_def split: sum.splits if_splits)

lemma basename_no_slash: "c \<in> set (basename s) \<Longrightarrow> \<not> is_slash c"
  by (auto simp: basename_def dest: set_takeWhileD)

lemma nearest_missing:
  "nearestExistingAncestor H c ms = Inr (a, ns) \<Longrightarrow>
   (\<And>m x. m \<in> set ms \<Longrightarrow> x \<in> set m \<Longrightarrow> \<not> is_slash x) \<Longrightarrow>
   m \<in> set ns \<Longrightarrow> x \<in> set m \<Longrightarrow> \<not> is_slash x"
proof (induction H c ms rule: nearestExistingAncestor.induct)
  case (1 H c ms)
  show ?case
  proof (cases "host_lstat H c")
    case (Inr k)
    with 1 show ?thesis by (subst (asm) nearestExistingAncestor.simps) (auto)
  next
    case (Inl e)
    with "1.prems"(1) have rest: "isMissingPathError e" "dirname c \<noteq> c"
      "nearestExistingAncestor H (dirname c) (basename c # ms) = Inr (a, ns)"
      by (subst (asm) nearestExistingAncestor.simps; simp split: if_splits)+
    show ?thesis
      by (rule "1.IH" [OF Inl _ rest(2,3)])
         (use rest(1) "1.prems"(2-4) basename_no_slash in \<open>auto\<close>)
  qed
qed

lemma nearest_missing_clean:
  "nearestExistingAncestor H c [] = Inr (a, ns) \<Longrightarrow> m \<in> set ns \<Longrightarrow> x \<in> set m \<Longrightarrow> \<not> is_slash x"
  by (rule nearest_missing) auto

lemma normalize_absolute:
  assumes "isAbsolute s" "last s \<noteq> CHR ''/'' \<or> segs s = []"
  shows "normalize s = abs_text (segs s)"
proof -
  have "s \<noteq> []" using assms(1) by (auto simp: isAbsolute_def startsWith_def)
  then show ?thesis
    using assms by (auto simp: normalize_def segs_def abs_text_def Let_def)
qed

lemma join_with_last:
  "xs \<noteq> [] \<Longrightarrow> (\<And>x. x \<in> set xs \<Longrightarrow> x \<noteq> []) \<Longrightarrow> last (join_with sep xs) = last (last xs)"
proof (induction xs rule: induct_list012)
  case (3 x y xs)
  have "join_with sep (y # xs) \<noteq> []" using 3(4) [of y] by (cases xs) auto
  with 3 show ?case by simp
qed auto

lemma join_with_absolute: "isAbsolute x \<Longrightarrow> isAbsolute (join_with sep (x # xs))"
proof -
  assume "isAbsolute x"
  then obtain r where "x = CHR ''/'' # r" by (auto simp: isAbsolute_def dest: startsWithD)
  then show ?thesis by (cases xs) (auto simp: isAbsolute_def startsWith_def)
qed

lemma normal_last:
  assumes "normal_path p"
  shows "last p \<noteq> CHR ''/'' \<or> segs p = []"
proof (cases "segs p = []")
  case False
  have ne: "\<And>x. x \<in> set (segs p) \<Longrightarrow> x \<noteq> []" and clean: "list_all plain_seg (segs p)"
    using segs_plain [of p] by (auto simp: list_all_iff plain_seg_def)
  have "join_with ''/'' (segs p) \<noteq> []" using False ne by (cases "segs p" rule: remdups_adj.cases) auto
  moreover have "p = CHR ''/'' # join_with ''/'' (segs p)"
    using assms by (simp only: normal_path_def abs_text_def)
  then have "last p = last (CHR ''/'' # join_with ''/'' (segs p))" by (rule arg_cong)
  ultimately have "last p = last (join_with ''/'' (segs p))" by simp
  also have "\<dots> = last (last (segs p))" using False ne by (rule join_with_last)
  finally have eq: "last p = last (last (segs p))" .
  have "plain_seg (last (segs p))" using clean False by (simp add: list_all_iff)
  then have "\<not> is_slash (last (last (segs p)))" by (simp add: plain_seg_def list_all_iff)
  then show ?thesis unfolding eq by (simp add: is_slash_def)
qed simp

lemma normal_join:
  assumes "normal_path p" and "\<And>m x. m \<in> set ms \<Longrightarrow> x \<in> set m \<Longrightarrow> \<not> is_slash x"
  shows "normal_path (join_paths (p # ms))"
proof -
  let ?ms = "filter (\<lambda>m. m \<noteq> []) ms"
  let ?s = "join_with ''/'' (p # ?ms)"
  have p: "isAbsolute p" "p \<noteq> []"
    using normal_absolute [OF assms(1)] by (auto simp: isAbsolute_def startsWith_def)
  have "last ?s \<noteq> CHR ''/'' \<or> segs ?s = []"
  proof (cases "?ms = []")
    case True
    then show ?thesis using normal_last [OF assms(1)] by simp
  next
    case False
    then have "last ?ms \<in> set ms" "last ?ms \<noteq> []"
      using last_in_set [OF False] by auto
    then have "\<not> is_slash (last (last ?ms))" using assms(2) last_in_set by blast
    moreover have "last ?s = last (last (p # ?ms))" using p by (intro join_with_last) auto
    ultimately show ?thesis using False by (simp add: is_slash_def)
  qed
  then have "normalize ?s = abs_text (segs ?s)"
    using join_with_absolute [OF p(1)] by (rule normalize_absolute [rotated])
  then have "join_paths (p # ms) = abs_text (segs ?s)" using p by (simp add: join_paths_def)
  then show ?thesis using normal_abs_text [OF segs_plain] by simp
qed

lemma canonical_target_normal:
  assumes "host_ok H" "missing_target H candidate = Inr p"
  shows "normal_path p"
  using assms
  by (auto simp: missing_target_def host_ok_def split: sum.splits if_splits
      intro!: normal_join dest: nearest_missing_clean)

lemma canonicalizePath_Inr:
  assumes "host_ok H" and "canonicalizePath H repo target basePath = Inr p"
  shows "normal_path repo" "host_stat H repo = Inr Directory" "normal_path p"
    "prefix (segs repo) (segs p)" "\<not> hasTraversalSegment target" "target \<noteq> []"
proof -
  have repo_facts: "isAbsolute repo" "host_realpath H repo = Inr repo"
    "host_stat H repo = Inr Directory"
    using assms(2) by (auto simp: canonicalizePath_def canonicalRoot_Inr split: sum.splits)
  show n: "normal_path repo" using repo_facts(2) assms(1) by (auto simp: host_ok_def)
  show "host_stat H repo = Inr Directory" by (rule repo_facts(3))
  have p: "normal_path p \<and> isWithinRoot (host_cwd H) repo p"
    using assms canonical_target_normal [OF assms(1)]
    by (auto simp: canonicalizePath_def canonicalRoot_Inr host_ok_def Let_def
        split: sum.splits if_splits)
  then show "normal_path p" by simp
  show "prefix (segs repo) (segs p)"
    using p within_iff [OF normal_absolute [OF n], of p "host_cwd H"] normal_absolute by auto
  show "\<not> hasTraversalSegment target" "target \<noteq> []"
    using assms(2) by (auto simp: canonicalizePath_def assertPathInput_def
        split: sum.splits if_splits)
qed

end
