(* ===== verification/Protected_Paths.thy ===== *)
theory Protected_Paths
  imports Canonical_Path
begin

section \<open>Protected resources\<close>

text \<open>
  \<open>packages/harness-plugin/src/policy/protected-paths.ts\<close>: which names and directories no action
  may touch, and the bounded walk that looks for them below the operands of a content search.
  \<open>pending\<close> is the array of the source reversed, so that \<open>pop\<close> and \<open>push\<close> act on its head.
\<close>

definition conventional_names :: "string list" where
  "conventional_names = [''.env'', ''.npmrc'', ''.pypirc'', ''id_rsa'', ''id_ed25519'', ''id_ecdsa'',
     ''login.keychain-db'', ''System.keychain'']"

definition conventional_name :: "string \<Rightarrow> bool" where
  "conventional_name name =
     (name \<in> set conventional_names
      \<or> (startsWith name ''.env.''
         \<and> name \<notin> set [''.env.example'', ''.env.sample'', ''.env.template'']))"

fun adjacent :: "string \<Rightarrow> string \<Rightarrow> string list \<Rightarrow> bool" where
  "adjacent a b (x # y # xs) = ((x = a \<and> y = b) \<or> adjacent a b (y # xs))"
| "adjacent a b _ = False"

definition isProtectedPath :: "host \<Rightarrow> string \<Rightarrow> string \<Rightarrow> string list \<Rightarrow> bool" where
  "isProtectedPath H repo target configured =
     (let canonical = resolve2 (host_cwd H) repo target;
          segments = split_on is_either_slash (relative (host_cwd H) repo canonical) in
      list_ex conventional_name segments
      \<or> adjacent ''Library'' ''Keychains'' segments
      \<or> adjacent ''.aws'' ''credentials'' segments
      \<or> list_ex (\<lambda>path. isPathWithinRoot (host_cwd H) (resolve2 (host_cwd H) repo path) canonical)
          configured)"

fun protected_spellings :: "host \<Rightarrow> string \<Rightarrow> string list \<Rightarrow> exn + string list" where
  "protected_spellings H repo [] = Inr []"
| "protected_spellings H repo (path # paths) =
     (case canonicalizePath H repo path (Some repo) of
        Inl e \<Rightarrow> Inl e
      | Inr canonical \<Rightarrow>
          (case protected_spellings H repo paths of
             Inl e \<Rightarrow> Inl e
           | Inr rest \<Rightarrow> Inr (resolve2 (host_cwd H) repo path # canonical # rest)))"

definition resolveProtectedPaths :: "host \<Rightarrow> string \<Rightarrow> string list \<Rightarrow> exn + string list" where
  "resolveProtectedPaths H repo paths =
     (case protected_spellings H repo paths of
        Inl e \<Rightarrow> Inl e
      | Inr spellings \<Rightarrow> Inr (js_uniq spellings))"

text \<open>Queues the entries of a directory, unless they exceed the remaining budget.\<close>

fun push_entries :: "nat \<Rightarrow> string \<Rightarrow> string list \<Rightarrow> string list \<Rightarrow> string list option" where
  "push_entries remaining target [] pending = Some pending"
| "push_entries remaining target (name # names) pending =
     (if length pending \<ge> remaining then None
      else push_entries remaining target names (join_paths [target, name] # pending))"

fun search_resources ::
  "host \<Rightarrow> string \<Rightarrow> string list \<Rightarrow> nat \<Rightarrow> string list \<Rightarrow> exn + unit" where
  "search_resources H repo configured remaining [] = Inr ()"
| "search_resources H repo configured 0 (target # pending) =
     Inl (CanonicalPathError UNSUPPORTED_ARGUMENTS)"
| "search_resources H repo configured (Suc remaining) (target # pending) =
     (if isProtectedPath H repo target configured then Inl (CanonicalPathError PROTECTED_RESOURCE)
      else case host_lstat H target of
          Inl e \<Rightarrow>
            if e = ENOENT then search_resources H repo configured remaining pending
            else Inl (CanonicalPathError PATH_UNAVAILABLE)
        | Inr SymbolicLink \<Rightarrow> search_resources H repo configured remaining pending
        | Inr kind \<Rightarrow>
            (case canonicalizePath H repo target None of
               Inl e \<Rightarrow> Inl e
             | Inr canonical \<Rightarrow>
                 if isProtectedPath H repo canonical configured
                 then Inl (CanonicalPathError PROTECTED_RESOURCE)
                 else if kind = Directory
                 then (case host_entries H target of
                         Inl e \<Rightarrow> Inl OtherError
                       | Inr names \<Rightarrow>
                           (case push_entries remaining target names pending of
                              None \<Rightarrow> Inl (CanonicalPathError UNSUPPORTED_ARGUMENTS)
                            | Some queue \<Rightarrow>
                                search_resources H repo configured remaining queue))
                 else search_resources H repo configured remaining pending))"

definition assertSearchResources :: "host \<Rightarrow> string \<Rightarrow> string list \<Rightarrow> string list \<Rightarrow> exn + unit" where
  "assertSearchResources H repo paths configured =
     search_resources H repo configured 10000 (rev paths)"

subsection \<open>The walk finds every protected resource\<close>

text \<open>The files a search reads below its operands: it does not follow symbolic links.\<close>

inductive walked :: "host \<Rightarrow> string set \<Rightarrow> string \<Rightarrow> bool" for H starts where
  operand: "p \<in> starts \<Longrightarrow> walked H starts p"
| entry: "walked H starts p \<Longrightarrow> host_lstat H p = Inr Directory \<Longrightarrow> host_entries H p = Inr names
    \<Longrightarrow> n \<in> set names \<Longrightarrow> walked H starts (join_paths [p, n])"

lemma push_entries_set:
  "push_entries r t names pending = Some queue \<Longrightarrow>
   set queue = set pending \<union> (\<lambda>n. join_paths [t, n]) ` set names"
  by (induction r t names pending rule: push_entries.induct) (auto split: if_splits)

lemma walked_nonempty: "walked H A p \<Longrightarrow> A \<noteq> {}"
  by (induction rule: walked.induct) auto

lemma walked_mono: "walked H A p \<Longrightarrow> A \<subseteq> B \<Longrightarrow> walked H B p"
  by (induction rule: walked.induct) (auto intro: walked.intros)

lemma walked_leaf:
  assumes "walked H (insert t A) p" "host_lstat H t \<noteq> Inr Directory"
  shows "p = t \<or> walked H A p"
  using assms by (induction rule: walked.induct) (auto intro: walked.intros)

lemma walked_directory:
  assumes "walked H (insert t A) p" "host_entries H t = Inr names"
  shows "p = t \<or> walked H (A \<union> (\<lambda>n. join_paths [t, n]) ` set names) p"
  using assms
proof (induction rule: walked.induct)
  case (entry p ns n)
  then show ?case
    by (cases "p = t") (auto intro: walked.intros)
qed (auto intro: walked.intros)

lemma search_resources_sound:
  "search_resources H repo configured remaining pending = Inr () \<Longrightarrow> walked H (set pending) p
     \<Longrightarrow> \<not> isProtectedPath H repo p configured"
proof (induction remaining arbitrary: pending p)
  case 0
  then show ?case using walked_nonempty by (cases pending) fastforce+
next
  case (Suc remaining)
  show ?case
  proof (cases pending)
    case Nil
    then show ?thesis using Suc.prems walked_nonempty by fastforce
  next
    case (Cons target rest)
    note ok = Suc.prems(1) [unfolded Cons] and w = Suc.prems(2) [unfolded Cons]
    have t: "\<not> isProtectedPath H repo target configured" using ok by (auto split: if_splits)
    show ?thesis
    proof (cases "host_lstat H target = Inr Directory")
      case True
      with ok t obtain names queue where n: "host_entries H target = Inr names"
          "push_entries remaining target names rest = Some queue"
          "search_resources H repo configured remaining queue = Inr ()"
        by (auto split: sum.splits if_splits option.splits)
      have "p = target \<or> walked H (set queue) p"
        using walked_directory [OF w [simplified] n(1)] push_entries_set [OF n(2)] by simp
      then show ?thesis using t Suc.IH [OF n(3)] by blast
    next
      case False
      have tail: "search_resources H repo configured remaining rest = Inr ()"
        using ok t False by (auto split: sum.splits if_splits option.splits file_kind.splits)
      have "p = target \<or> walked H (set rest) p" using walked_leaf [OF _ False] w by simp
      then show ?thesis using t Suc.IH [OF tail] by blast
    qed
  qed
qed

end
