(* ===== verification/Argv_Policy.thy ===== *)
theory Argv_Policy
  imports Protected_Paths
begin

section \<open>The argument grammars\<close>

text \<open>
  \<open>packages/harness-plugin/src/policy/argv-policy.ts\<close>: the bounded grammars by which the
  arguments of a registered command are read, and which of them name paths. Parsing runs in
  the monad \<open>act\<close>: it may throw, and the path resolver it calls appends to the list of
  violations, which survives a throw.
\<close>

subsection \<open>Throwing and recording violations\<close>

type_synonym violations = "PolicyPathViolation list"
type_synonym 'a act = "violations \<Rightarrow> (exn + 'a) \<times> violations"

definition act_return :: "'a \<Rightarrow> 'a act" where
  "act_return a vs = (Inr a, vs)"

definition act_throw :: "exn \<Rightarrow> 'a act" where
  "act_throw e vs = (Inl e, vs)"

definition act_lift :: "exn + 'a \<Rightarrow> 'a act" where
  "act_lift r vs = (r, vs)"

definition act_bind :: "'a act \<Rightarrow> ('a \<Rightarrow> 'b act) \<Rightarrow> 'b act" where
  "act_bind m k vs = (case m vs of (Inl e, ws) \<Rightarrow> (Inl e, ws) | (Inr a, ws) \<Rightarrow> k a ws)"

definition act_push :: "PolicyPathViolation \<Rightarrow> unit act" where
  "act_push v vs = (Inr (), vs @ [v])"

definition unsupported :: "'a act" where
  "unsupported = act_throw (CanonicalPathError UNSUPPORTED_ARGUMENTS)"

definition act_unless :: "bool \<Rightarrow> unit act" where
  "act_unless bad = (if bad then unsupported else act_return ())"

subsection \<open>Grammars\<close>

datatype Role = PathRole | DataRole | FlagRole | NumberRole

datatype Administrative = Install | Push | Deploy

datatype SearchKind = Content | Names

type_synonym grammar = "(string \<times> Role) list"

definition options :: "string list \<Rightarrow> string list \<Rightarrow> string list \<Rightarrow> string list \<Rightarrow> grammar" where
  "options flags paths datas numbers =
     map (\<lambda>n. (n, FlagRole)) flags @ map (\<lambda>n. (n, PathRole)) paths
     @ map (\<lambda>n. (n, DataRole)) datas @ map (\<lambda>n. (n, NumberRole)) numbers"

text \<open>In a \<open>Map\<close> built from a list of entries the last entry of a key wins.\<close>

definition role_of :: "grammar \<Rightarrow> string \<Rightarrow> Role option" where
  "role_of g name = map_of (rev g) name"

definition searchOptions :: "string \<Rightarrow> grammar" where
  "searchOptions command =
     options
       ([''-i'', ''-n'', ''-l'', ''-c'', ''-q'', ''-v'', ''-F'', ''-w'', ''-x'', ''-H'', ''-h'',
         ''--ignore-case'', ''--line-number'', ''--files-with-matches'', ''--count'',
         ''--quiet'', ''--invert-match'', ''--fixed-strings'', ''--word-regexp'',
         ''--line-regexp'']
        @ (if command = ''rg''
           then [''--files'', ''--hidden'', ''--no-ignore'', ''--no-config'', ''--no-heading'',
                 ''--heading'', ''--json'', ''--stats'', ''-S'', ''--smart-case'']
           else [''-r'', ''--recursive'', ''-E'', ''--extended-regexp'']))
       [''-f'', ''--file'']
       ([''-e'', ''--regexp'']
        @ (if command = ''rg''
           then [''-g'', ''--glob'', ''--iglob'', ''-t'', ''--type'', ''-T'', ''--type-not'']
           else [''--include'', ''--exclude'', ''--exclude-dir'']))
       ([''-A'', ''-B'', ''-C'', ''-m'', ''--after-context'', ''--before-context'', ''--context'',
         ''--max-count'']
        @ (if command = ''rg'' then [''--max-depth''] else []))"

definition compilerOptions :: grammar where
  "compilerOptions =
     options
       [''--noEmit'', ''--incremental'', ''--composite'', ''--declaration'', ''--declarationMap'',
        ''--sourceMap'', ''--emitDeclarationOnly'', ''--pretty'', ''--strict'',
        ''--skipLibCheck'', ''--listFiles'', ''--listEmittedFiles'', ''--build'', ''-b'',
        ''--clean'', ''--force'', ''--verbose'']
       [''--outDir'', ''--outFile'', ''--rootDir'', ''--declarationDir'', ''--tsBuildInfoFile'',
        ''--project'', ''-p'', ''-o'']
       [''--target'', ''--module'', ''--moduleResolution'', ''--lib'', ''--jsx'']
       []"

definition testOptions :: grammar where
  "testOptions =
     options
       [''--coverage'', ''--runInBand'', ''--passWithNoTests'', ''--silent'', ''--no-color'']
       [''--coverage.reportsDirectory'', ''--outputFile'', ''--dir'', ''--root'', ''--config'']
       [''--reporter'', ''--testNamePattern'', ''-t'']
       [''--maxWorkers'', ''--minWorkers'']"

definition installOptions :: "string \<Rightarrow> grammar" where
  "installOptions command =
     options
       ([''--ignore-scripts'', ''--offline'', ''--prefer-offline'', ''--save-dev'',
         ''--save-exact'', ''--no-save'']
        @ (if command = ''npm'' then [''--package-lock-only'']
           else [''--frozen-lockfile'', ''--lockfile-only'']))
       ([''--userconfig'', ''--globalconfig'', ''--cache'']
        @ (if command = ''npm'' then [''--prefix''] else [''--dir'', ''-C'']))
       [] []"

definition deploymentOptions :: grammar where
  "deploymentOptions =
     options [''--prod'', ''--prebuilt'', ''--force'', ''--yes''] [''--cwd'', ''--local-config''] [] []"

definition pushOptions :: grammar where
  "pushOptions =
     options [''--force'', ''--force-with-lease'', ''--dry-run'', ''--delete'', ''--tags'', ''--all'',
              ''--set-upstream'', ''-u''] [] [] []"

text \<open>npm and pnpm trim and expand the values of their path options.\<close>

definition validateInstallPath :: "string \<Rightarrow> unit act" where
  "validateInstallPath value =
     act_unless (value \<noteq> js_trim value
       \<or> startsWith value ''~/'' \<or> startsWith value [CHR ''~'', CHR 92]
       \<or> includes_text value [CHR 36, CHR 123]
       \<or> startsWith value ''file://'')"

definition lstat_exists :: "host \<Rightarrow> string \<Rightarrow> bool act" where
  "lstat_exists H path =
     (case host_lstat H path of
        Inr _ \<Rightarrow> act_return True
      | Inl e \<Rightarrow> if e = ENOENT then act_return False else act_throw OtherError)"

subsection \<open>Parser state\<close>

record ParsedArguments =
  pa_argv :: "string list"
  pa_paths :: "string list"
  pa_search :: "SearchKind option"
  pa_searchOperands :: "string list"
  pa_selection :: "string list"
  pa_noConfig :: bool
  pa_destructive :: bool
  pa_administrative :: "Administrative option"

text \<open>The result under construction, and the local variables of \<open>parseArguments\<close>.\<close>

record parser = ParsedArguments +
  ps_prefixChanged :: bool
  ps_operandCount :: nat
  ps_compilerBuild :: bool
  ps_explicitPattern :: bool
  ps_searchIndex :: "nat list"
  ps_operandsOnly :: bool

definition empty_parser :: parser where
  "empty_parser =
     \<lparr>pa_argv = [], pa_paths = [], pa_search = None, pa_searchOperands = [], pa_selection = [],
      pa_noConfig = False, pa_destructive = False, pa_administrative = None,
      ps_prefixChanged = False, ps_operandCount = 0, ps_compilerBuild = False,
      ps_explicitPattern = False, ps_searchIndex = [], ps_operandsOnly = False\<rparr>"

text \<open>What stays fixed while the arguments are read.\<close>

record setting =
  se_host :: host
  se_command :: string
  se_grammar :: grammar
  se_administrative :: "Administrative option"
  se_path :: "string \<Rightarrow> string \<Rightarrow> string act"
  se_commandCwd :: string

definition push_argv :: "string list \<Rightarrow> parser \<Rightarrow> parser" where
  "push_argv xs st = st\<lparr>pa_argv := pa_argv st @ xs\<rparr>"

definition pathValue ::
  "host \<Rightarrow> (string \<Rightarrow> string \<Rightarrow> string act) \<Rightarrow> string \<Rightarrow> parser \<Rightarrow> string \<Rightarrow> (string \<times> parser) act" where
  "pathValue H path commandCwd st value =
     act_bind (act_unless (startsWith value ''-'' \<or> value = []
        \<or> value \<in> set [''&&'', ''||'', '';'', ''&'', ''|''])) (\<lambda>_.
     act_bind (if startsWith value ''file://''
               then (case host_fileURLToPath H value of
                       None \<Rightarrow> act_throw OtherError | Some p \<Rightarrow> act_return p)
               else act_return value) (\<lambda>value.
     act_bind (path value commandCwd) (\<lambda>canonical.
     act_return (canonical, st\<lparr>pa_paths := pa_paths st @ [canonical]\<rparr>))))"

abbreviation path_value :: "setting \<Rightarrow> parser \<Rightarrow> string \<Rightarrow> (string \<times> parser) act" where
  "path_value c st value \<equiv> pathValue (se_host c) (se_path c) (se_commandCwd c) st value"

subsection \<open>Tokens\<close>

datatype token =
    Separator
  | FlagGroup
  | FlagToken string
  | ValueToken string Role string "string option"
  | OperandToken
  | BadToken

fun index_of :: "char \<Rightarrow> string \<Rightarrow> nat option" where
  "index_of c [] = None"
| "index_of c (d # ds) = (if d = c then Some 0 else map_option Suc (index_of c ds))"

text \<open>\<open>/^-[^-].+/u\<close>, where the dot does not match a line terminator\<close>

definition short_attached :: "string \<Rightarrow> bool" where
  "short_attached s =
     (case s of a # b # c # _ \<Rightarrow> a = CHR ''-'' \<and> b \<noteq> CHR ''-'' \<and> c \<notin> {CHR 10, CHR 13} | _ \<Rightarrow> False)"

definition named_token :: "grammar \<Rightarrow> string \<Rightarrow> string option \<Rightarrow> string \<Rightarrow> token" where
  "named_token g name attached prefx =
     (case role_of g name of
        None \<Rightarrow> BadToken
      | Some FlagRole \<Rightarrow> if attached = None then FlagToken name else BadToken
      | Some role \<Rightarrow> ValueToken name role prefx attached)"

definition token_of :: "setting \<Rightarrow> bool \<Rightarrow> string \<Rightarrow> token" where
  "token_of c operandsOnly argument =
     (let g = se_grammar c in
      if \<not> operandsOnly \<and> argument = ''--'' then Separator
      else if operandsOnly \<or> \<not> startsWith argument ''-'' then OperandToken
      else
        let pnpm_install = (se_command c = ''pnpm'' \<and> se_administrative c = Some Install);
            equals = index_of (CHR ''='') argument;
            splits = (case equals of
                None \<Rightarrow> False
              | Some k \<Rightarrow> startsWith argument ''--'' \<or> (se_command c = ''rg'' \<and> k = 2)
                  \<or> (pnpm_install \<and> startsWith argument ''-C='')) in
        if splits then
          let k = the equals in
          named_token g (take k argument) (Some (drop (Suc k) argument)) (take k argument @ ''='')
        else if role_of g argument = None \<and> short_attached argument then
          (if pnpm_install then BadToken
           else if role_of g (take 2 argument) = Some FlagRole then
             (if list_all (\<lambda>f. role_of g [CHR ''-'', f] = Some FlagRole) (drop 1 argument)
              then FlagGroup else BadToken)
           else named_token g (take 2 argument) (Some (drop 2 argument)) (take 2 argument))
        else named_token g argument None [])"

definition flag_step :: "setting \<Rightarrow> string \<Rightarrow> string \<Rightarrow> parser \<Rightarrow> parser" where
  "flag_step c name argument st =
     (let compiler = (se_grammar c = compilerOptions) in
      push_argv [argument]
        (st\<lparr>pa_destructive := (pa_destructive st \<or> (compiler \<and> name = ''--clean'')),
            ps_compilerBuild :=
              (ps_compilerBuild st \<or> (compiler \<and> (name = ''--build'' \<or> name = ''-b''))),
            pa_search := (if name = ''--files'' then Some Names else pa_search st),
            pa_noConfig := (pa_noConfig st \<or> name = ''--no-config''),
            pa_selection := pa_selection st
              @ (if name = ''--hidden'' \<or> name = ''--no-ignore'' then [name] else [])\<rparr>))"

definition all_digits :: "string \<Rightarrow> bool" where
  "all_digits s = (s \<noteq> [] \<and> list_all is_digit s)"

text \<open>The checks on an option's value that come before it is used.\<close>

definition check_value :: "setting \<Rightarrow> string \<Rightarrow> Role \<Rightarrow> string \<Rightarrow> unit act" where
  "check_value c name role value =
     act_bind (act_unless (value = [])) (\<lambda>_.
     act_bind (act_unless (name = ''--reporter''
        \<and> value \<notin> set [''default'', ''basic'', ''verbose'', ''dot'', ''json'', ''junit'', ''tap'',
                         ''github-actions''])) (\<lambda>_.
     act_bind (if role = NumberRole \<and> \<not> all_digits value
               then (if value = ''..'' then act_throw (CanonicalPathError PATH_TRAVERSAL)
                     else unsupported)
               else act_return ()) (\<lambda>_.
     if se_administrative c = Some Install \<and> role = PathRole then validateInstallPath value
     else act_return ())))"

text \<open>What a value does once it has been checked and, for a path, resolved.\<close>

definition rg_selects :: "setting \<Rightarrow> string \<Rightarrow> bool" where
  "rg_selects c name =
     (se_command c = ''rg'' \<and> name \<in> set [''-g'', ''--glob'', ''--iglob'', ''-t'', ''--type'', ''-T'',
        ''--type-not'', ''--max-depth''])"

definition changes_prefix :: "setting \<Rightarrow> string \<Rightarrow> bool" where
  "changes_prefix c name =
     (se_administrative c \<noteq> None \<and> name \<in> set [''--prefix'', ''--dir'', ''-C'', ''--cwd''])"

definition value_finish ::
  "setting \<Rightarrow> string \<Rightarrow> Role \<Rightarrow> string \<Rightarrow> string option \<Rightarrow> string \<Rightarrow> string \<times> parser \<Rightarrow> parser act" where
  "value_finish c name role prefx attached value resolved =
     (let (canonical, st0) = resolved;
          st = (if rg_selects c name
                then st0\<lparr>pa_selection := pa_selection st0 @ [name, value]\<rparr> else st0) in
     act_bind (act_unless
        (if changes_prefix c name
         then ps_prefixChanged st \<or> ps_operandCount st \<noteq> 0 \<or> length (pa_paths st) \<noteq> 1
         else se_administrative c \<noteq> None \<and> ps_prefixChanged st \<and> role = PathRole
              \<and> \<not> isAbsolute value)) (\<lambda>_.
     act_return (push_argv
        (if attached = None then [name, canonical] else [prefx @ canonical])
        (st\<lparr>ps_prefixChanged := (ps_prefixChanged st \<or> changes_prefix c name)\<rparr>))))"

definition mark_pattern :: "string \<Rightarrow> parser \<Rightarrow> parser" where
  "mark_pattern name st =
     st\<lparr>ps_explicitPattern := (ps_explicitPattern st
        \<or> name \<in> set [''-e'', ''--regexp'', ''-f'', ''--file''])\<rparr>"

definition value_step ::
  "setting \<Rightarrow> string \<Rightarrow> Role \<Rightarrow> string \<Rightarrow> string option \<Rightarrow> string \<Rightarrow> parser \<Rightarrow> parser act" where
  "value_step c name role prefx attached value st =
     act_bind (check_value c name role value) (\<lambda>_.
     act_bind (if role = PathRole then path_value c (mark_pattern name st) value
               else act_return (value, mark_pattern name st))
       (value_finish c name role prefx attached value))"

subsection \<open>Operands\<close>

definition is_alnum :: "char \<Rightarrow> bool" where
  "is_alnum c = (is_lower c \<or> is_upper c \<or> is_digit c)"

definition dot_path :: "string \<Rightarrow> bool" where
  "dot_path s =
     rx_match (Seqs [Cls (one_of ''.''), Opt (Cls (one_of ''.'')),
        Opt (Seq (Cls is_either_slash) (Star (Cls (\<lambda>_. True))))]) s"

definition package_name_char :: "char \<Rightarrow> bool" where
  "package_name_char c = (is_lower c \<or> is_digit c \<or> one_of ''-._'' c)"

text \<open>\<open>/^(?:@[-a-z0-9._]+\/)?[-a-z0-9._]+(?:@[-a-zA-Z0-9.*^~+]+)?$/u\<close>\<close>

definition package_spec :: "string \<Rightarrow> bool" where
  "package_spec s =
     rx_match (Seqs
       [Opt (Seqs [Lit ''@'', Plus (Cls package_name_char), Lit ''/'']),
        Plus (Cls package_name_char),
        Opt (Seq (Lit ''@'') (Plus (Cls (\<lambda>c. is_alnum c \<or> one_of ''-.*^~+'' c))))]) s"

text \<open>\<open>/^<prefix>[^\s]+$/u\<close>\<close>

definition url_after :: "string \<Rightarrow> string \<Rightarrow> bool" where
  "url_after scheme s =
     rx_match (Seq (Lit scheme) (Plus (Cls (\<lambda>c. \<not> is_js_space c)))) s"

text \<open>\<open>/^git@[^\s:]+:[^\s]+$/u\<close>\<close>

definition scp_remote :: "string \<Rightarrow> bool" where
  "scp_remote s =
     rx_match (Seqs [Lit ''git@'', Plus (Cls (\<lambda>c. \<not> is_js_space c \<and> c \<noteq> CHR '':'')), Lit '':'',
        Plus (Cls (\<lambda>c. \<not> is_js_space c))]) s"

text \<open>\<open>/^[a-zA-Z][a-zA-Z0-9_-]*$/u\<close>\<close>

definition remote_name :: "string \<Rightarrow> bool" where
  "remote_name s =
     rx_match (Seq (Cls (\<lambda>c. is_lower c \<or> is_upper c))
        (Star (Cls (\<lambda>c. is_alnum c \<or> one_of ''_-'' c)))) s"

definition ref_part :: rx where
  "ref_part = Seq (Cls (\<lambda>c. is_alnum c \<or> one_of ''_*'' c))
     (Star (Cls (\<lambda>c. is_alnum c \<or> one_of ''_*/.-'' c)))"

text \<open>\<open>/^\+?(?:<ref>)?(?::<ref>)?$/u\<close>\<close>

definition refspec :: "string \<Rightarrow> bool" where
  "refspec s = rx_match (Seqs [Opt (Lit ''+''), Opt ref_part, Opt (Seq (Lit '':'') ref_part)]) s"

definition act_push_path :: "setting \<Rightarrow> parser \<Rightarrow> string \<Rightarrow> (string \<Rightarrow> string) \<Rightarrow> parser act" where
  "act_push_path c st value f =
     act_bind (path_value c st value) (\<lambda>(p, st). act_return (push_argv [f p] st))"

definition install_operand :: "setting \<Rightarrow> string \<Rightarrow> parser \<Rightarrow> parser act" where
  "install_operand c argument st0 =
     (let st = st0\<lparr>ps_operandCount := Suc (ps_operandCount st0)\<rparr> in
      if startsWith argument ''file:'' then
        act_bind (act_unless (ps_prefixChanged st)) (\<lambda>_.
        act_push_path c st (drop 5 argument) (\<lambda>p. ''file:'' @ p))
      else
        act_bind (if isAbsolute argument \<or> dot_path argument then act_return True
                  else lstat_exists (se_host c)
                         (resolve2 (host_cwd (se_host c)) (se_commandCwd c) argument)) (\<lambda>local.
        if local then
          act_bind (act_unless (ps_prefixChanged st)) (\<lambda>_. act_push_path c st argument (\<lambda>p. p))
        else if package_spec argument \<or> url_after ''https://'' argument
        then act_return (push_argv [argument] st)
        else unsupported))"

definition push_operand :: "setting \<Rightarrow> string \<Rightarrow> parser \<Rightarrow> parser act" where
  "push_operand c argument st0 =
     (let st = st0\<lparr>ps_operandCount := Suc (ps_operandCount st0)\<rparr> in
      if ps_operandCount st = 1 then
        (if isAbsolute argument \<or> dot_path argument then act_push_path c st argument (\<lambda>p. p)
         else if url_after ''https://'' argument \<or> url_after ''ssh://'' argument
                 \<or> scp_remote argument
         then act_return (push_argv [argument] st)
         else if remote_name argument then
           act_bind (lstat_exists (se_host c)
              (resolve2 (host_cwd (se_host c)) (se_commandCwd c) argument)) (\<lambda>there.
           if there then unsupported else act_return (push_argv [argument] st))
         else unsupported)
      else if refspec argument \<and> \<not> includes_text argument ''..''
      then act_return (push_argv [argument] st)
      else unsupported)"

definition deploy_operand :: "setting \<Rightarrow> string \<Rightarrow> parser \<Rightarrow> parser act" where
  "deploy_operand c argument st0 =
     (let st = st0\<lparr>ps_operandCount := Suc (ps_operandCount st0)\<rparr> in
      act_bind (act_unless (ps_operandCount st0 \<noteq> 0 \<or> ps_prefixChanged st0)) (\<lambda>_.
      act_push_path c st argument (\<lambda>p. p)))"

definition operand_step :: "setting \<Rightarrow> string \<Rightarrow> parser \<Rightarrow> parser act" where
  "operand_step c argument st =
     (if pa_search st \<noteq> None
      then act_return (push_argv [argument]
             (st\<lparr>ps_searchIndex := ps_searchIndex st @ [length (pa_argv st)]\<rparr>))
      else case se_administrative c of
          Some Install \<Rightarrow> install_operand c argument st
        | Some Push \<Rightarrow> push_operand c argument st
        | Some Deploy \<Rightarrow> deploy_operand c argument st
        | None \<Rightarrow> act_push_path c st argument (\<lambda>p. p))"

definition package_managers :: "string list" where
  "package_managers = [''pnpm'', ''npm'', ''yarn'', ''bun'']"

fun parse_loop :: "setting \<Rightarrow> parser \<Rightarrow> string list \<Rightarrow> parser act" where
  "parse_loop c st [] = act_return st"
| "parse_loop c st (argument # input) =
     (case token_of c (ps_operandsOnly st) argument of
        Separator \<Rightarrow>
          parse_loop c (push_argv [argument]
            (st\<lparr>ps_operandsOnly := (se_command c \<notin> set package_managers)\<rparr>)) input
      | FlagGroup \<Rightarrow> parse_loop c (push_argv [argument] st) input
      | FlagToken name \<Rightarrow> parse_loop c (flag_step c name argument st) input
      | ValueToken name role prefx (Some value) \<Rightarrow>
          act_bind (value_step c name role prefx (Some value) value st) (\<lambda>st. parse_loop c st input)
      | ValueToken name role prefx None \<Rightarrow>
          (case input of
             [] \<Rightarrow> unsupported
           | value # rest \<Rightarrow>
               act_bind (value_step c name role prefx None value st) (\<lambda>st. parse_loop c st rest))
      | OperandToken \<Rightarrow> act_bind (operand_step c argument st) (\<lambda>st. parse_loop c st input)
      | BadToken \<Rightarrow> unsupported)"

subsection \<open>The command line\<close>

text \<open>
  How a command line begins: the grammar, the administrative kind, the arguments still to be
  read and the parser state after the words that select the subcommand.
\<close>

record cmd_opening =
  op_grammar :: grammar
  op_administrative :: "Administrative option"
  op_rest :: "string list"
  op_parser :: parser
  op_cwd :: string

definition plain_opening ::
  "grammar \<Rightarrow> Administrative option \<Rightarrow> nat \<Rightarrow> string list \<Rightarrow> string \<Rightarrow> cmd_opening" where
  "plain_opening g administrative start input cwd =
     \<lparr>op_grammar = g, op_administrative = administrative, op_rest = drop start input,
      op_parser = empty_parser\<lparr>pa_administrative := administrative, pa_argv := take start input\<rparr>,
      op_cwd = cwd\<rparr>"

definition nth_arg :: "string list \<Rightarrow> nat \<Rightarrow> string option" where
  "nth_arg xs i = (if i < length xs then Some (xs ! i) else None)"

definition package_opening :: "string \<Rightarrow> string list \<Rightarrow> string \<Rightarrow> cmd_opening act" where
  "package_opening command input cwd =
     (let start = (if nth_arg input 0 = Some ''run'' \<or> nth_arg input 0 = Some ''run-script''
                   then 2 else 1);
          script = nth_arg input (start - 1) in
      if script = Some ''test'' then act_return (plain_opening testOptions None start input cwd)
      else if script = Some ''build''
      then act_return (plain_opening compilerOptions None start input cwd)
      else
        let installCommands =
              (if command = ''npm'' then [''install'', ''ci'', ''i'']
               else if command = ''pnpm'' then [''install'', ''i'', ''add''] else []) in
        if (case nth_arg input 0 of None \<Rightarrow> [] \<in> set installCommands
            | Some w \<Rightarrow> w \<in> set installCommands)
        then act_return (plain_opening (installOptions command) (Some Install) 1 input cwd)
        else unsupported)"

definition git_push_opening :: "string list \<Rightarrow> string \<Rightarrow> parser \<Rightarrow> cmd_opening act" where
  "git_push_opening input cwd st =
     (case input of
        word # rest \<Rightarrow>
          if word = ''push''
          then act_return \<lparr>op_grammar = pushOptions, op_administrative = Some Push,
                 op_rest = rest,
                 op_parser = (push_argv [''push''] st)\<lparr>pa_administrative := Some Push\<rparr>,
                 op_cwd = cwd\<rparr>
          else unsupported
      | [] \<Rightarrow> unsupported)"

definition git_opening ::
  "host \<Rightarrow> (string \<Rightarrow> string \<Rightarrow> string act) \<Rightarrow> string list \<Rightarrow> string \<Rightarrow> cmd_opening act" where
  "git_opening H path input cwd =
     (case input of
        first # rest \<Rightarrow>
          if startsWith first ''-C'' then
            let attached = (first \<noteq> ''-C'');
                value = (if attached then Some (drop 2 first) else nth_arg input 1) in
            (case value of
               None \<Rightarrow> unsupported
             | Some v \<Rightarrow>
                 act_bind (act_unless (v = [])) (\<lambda>_.
                 act_bind (pathValue H path cwd empty_parser v) (\<lambda>(commandCwd, st).
                 git_push_opening (drop (if attached then 1 else 2) input) commandCwd
                   (push_argv (if attached then [''-C'' @ commandCwd] else [''-C'', commandCwd]) st))))
          else git_push_opening input cwd empty_parser
      | [] \<Rightarrow> unsupported)"

definition opening_of ::
  "host \<Rightarrow> (string \<Rightarrow> string \<Rightarrow> string act) \<Rightarrow> string \<Rightarrow> string list \<Rightarrow> string \<Rightarrow> cmd_opening act" where
  "opening_of H path command input cwd =
     (if command = ''rg'' \<or> command = ''grep'' then
        (let start = plain_opening (searchOptions command) None 0 input cwd in
         act_return (start\<lparr>op_parser := (op_parser start)\<lparr>pa_search := Some Content\<rparr>\<rparr>))
      else if command = ''tsc''
      then act_return (plain_opening compilerOptions None 0 input cwd)
      else if command = ''vitest'' then
        (if nth_arg input 0 = Some ''run''
         then act_return (plain_opening testOptions None 1 input cwd) else unsupported)
      else if command \<in> set package_managers then package_opening command input cwd
      else if command = ''git'' then git_opening H path input cwd
      else if command = ''vercel'' then
        (if nth_arg input 0 = Some ''deploy''
         then act_return (plain_opening deploymentOptions (Some Deploy) 1 input cwd)
         else unsupported)
      else if command = ''npx'' then
        (if nth_arg input 1 = Some ''deploy'' \<and> nth_arg input 0 = Some ''vercel''
         then act_return (plain_opening deploymentOptions (Some Deploy) 2 input cwd)
         else unsupported)
      else unsupported)"

text \<open>The positional operands of a search, resolved in place.\<close>

fun resolve_operands :: "setting \<Rightarrow> nat list \<Rightarrow> parser \<Rightarrow> parser act" where
  "resolve_operands c [] st = act_return st"
| "resolve_operands c (i # is) st =
     act_bind (path_value c
        (st\<lparr>pa_searchOperands := pa_searchOperands st @ [pa_argv st ! i]\<rparr>) (pa_argv st ! i))
       (\<lambda>(p, st). resolve_operands c is (st\<lparr>pa_argv := (pa_argv st)[i := p]\<rparr>))"

definition finish_parse :: "setting \<Rightarrow> string \<Rightarrow> parser \<Rightarrow> parser act" where
  "finish_parse c cwd st =
     act_bind (act_unless (pa_destructive st \<and> \<not> ps_compilerBuild st)) (\<lambda>_.
     act_bind (act_unless (pa_search st = Some Names \<and> ps_explicitPattern st)) (\<lambda>_.
     let implicit = (pa_search st = Some Content \<and> \<not> ps_explicitPattern st) in
     act_bind (act_unless (implicit \<and> ps_searchIndex st = [])) (\<lambda>_.
     let indexes = (if implicit then tl (ps_searchIndex st) else ps_searchIndex st) in
     act_bind (resolve_operands c indexes st) (\<lambda>st.
     act_bind (act_unless (se_command c = ''grep'' \<and> indexes = [])) (\<lambda>_.
     act_return (if pa_search st \<noteq> None \<and> indexes = [] \<and> se_command c = ''rg''
                 then st\<lparr>pa_paths := pa_paths st @ [cwd]\<rparr> else st))))))"

text \<open>Without a command the arguments of file tools are paths, and all others are data.\<close>

fun native_arguments ::
  "host \<Rightarrow> (string \<Rightarrow> string \<Rightarrow> string act) \<Rightarrow> string \<Rightarrow> bool \<Rightarrow> string list \<Rightarrow> parser \<Rightarrow> parser act" where
  "native_arguments H path cwd fileOperands [] st = act_return st"
| "native_arguments H path cwd fileOperands (value # input) st =
     (if fileOperands
      then act_bind (pathValue H path cwd st value) (\<lambda>(p, st).
             native_arguments H path cwd fileOperands input (push_argv [p] st))
      else native_arguments H path cwd fileOperands input (push_argv [value] st))"

definition parseArguments ::
  "host \<Rightarrow> string option \<Rightarrow> string \<Rightarrow> string list \<Rightarrow> (string \<Rightarrow> string \<Rightarrow> string act) \<Rightarrow> string
     \<Rightarrow> ParsedArguments act" where
  "parseArguments H command tool input path cwd =
     (case command of
        None \<Rightarrow>
          act_bind (act_unless (tool \<in> set [''package_install'', ''git_push'', ''deploy'']
             \<and> input \<noteq> [])) (\<lambda>_.
          act_bind (native_arguments H path cwd
             (tool \<in> set [''read_file'', ''read'', ''file_read'', ''delete_file'', ''remove_file''])
             input empty_parser) (\<lambda>st.
          act_return (ParsedArguments.truncate st)))
      | Some cmd \<Rightarrow>
          act_bind (opening_of H path cmd input cwd) (\<lambda>start.
          let c = \<lparr>se_host = H, se_command = cmd, se_grammar = op_grammar start,
                   se_administrative = op_administrative start, se_path = path,
                   se_commandCwd = op_cwd start\<rparr> in
          act_bind (parse_loop c (op_parser start) (op_rest start)) (\<lambda>st.
          act_bind (finish_parse c cwd st) (\<lambda>st.
          act_return (ParsedArguments.truncate st)))))"


subsection \<open>The path resolver's contract\<close>

text \<open>
  \<open>parseArguments\<close> authorizes no path itself: it hands every path to the resolver it is given.
  The resolver may only append violations, and when it returns a path without a violation,
  that path is \<open>ok\<close>. Then a parse that ends without violations has only \<open>ok\<close> paths (and the
  working directory, for a search without operands).
\<close>

definition appends :: "'a act \<Rightarrow> bool" where
  "appends m = (\<forall>vs. \<exists>ws. snd (m vs) = vs @ ws)"

definition yields :: "'a act \<Rightarrow> ('a \<Rightarrow> bool) \<Rightarrow> bool" where
  "yields m Q = (\<forall>r. m [] = (Inr r, []) \<longrightarrow> Q r)"

lemma appends_return [intro!, simp]: "appends (act_return a)"
  and appends_throw [intro!, simp]: "appends (act_throw e)"
  and appends_lift [intro!, simp]: "appends (act_lift r)"
  and appends_push [intro!, simp]: "appends (act_push v)"
  and appends_unsupported [intro!, simp]: "appends unsupported"
  and appends_unless [intro!, simp]: "appends (act_unless b)"
  by (simp_all add: appends_def act_return_def act_throw_def act_lift_def act_push_def
      unsupported_def act_unless_def)

lemma appends_bind [intro!]:
  assumes "appends m" "\<And>a. appends (k a)"
  shows "appends (act_bind m k)"
  unfolding appends_def
proof
  fix vs
  obtain r ws where m: "m vs = (r, vs @ ws)"
    using assms(1) by (metis appends_def prod.exhaust_sel)
  show "\<exists>ws. snd (act_bind m k vs) = vs @ ws"
  proof (cases r)
    case (Inr a)
    obtain us where "snd (k a (vs @ ws)) = (vs @ ws) @ us"
      using assms(2) by (metis appends_def)
    with m Inr show ?thesis by (simp add: act_bind_def)
  qed (simp add: act_bind_def m)
qed

lemma yields_bind:
  assumes "\<And>a. appends (k a)" and "yields m (\<lambda>a. yields (k a) Q)"
  shows "yields (act_bind m k) Q"
  unfolding yields_def
proof (intro allI impI)
  fix r assume run: "act_bind m k [] = (Inr r, [])"
  then obtain a ws where m: "m [] = (Inr a, ws)" and k: "k a ws = (Inr r, [])"
    by (auto simp: act_bind_def split: prod.splits sum.splits)
  have "ws = []" using assms(1) [of a] k by (auto simp: appends_def dest!: spec [of _ ws])
  with m k assms(2) show "Q r" by (simp add: yields_def)
qed

lemma yields_return [simp]: "yields (act_return a) Q \<longleftrightarrow> Q a"
  and yields_throw [simp]: "yields (act_throw e) Q"
  and yields_unsupported [simp]: "yields unsupported Q"
  and yields_unless [simp]: "yields (act_unless b) Q' \<longleftrightarrow> (\<not> b \<longrightarrow> Q' ())"
  by (auto simp: yields_def act_return_def act_throw_def unsupported_def act_unless_def)

lemma yields_mono: "yields m P \<Longrightarrow> (\<And>a. P a \<Longrightarrow> Q a) \<Longrightarrow> yields m Q"
  by (auto simp: yields_def)

lemma yields_any: "(\<And>a. Q a) \<Longrightarrow> yields m Q"
  by (auto simp: yields_def)

lemma appends_if: "(b \<Longrightarrow> appends m) \<Longrightarrow> (\<not> b \<Longrightarrow> appends n) \<Longrightarrow> appends (if b then m else n)"
  by simp

lemma yields_if:
  "(b \<Longrightarrow> yields m Q) \<Longrightarrow> (\<not> b \<Longrightarrow> yields n Q) \<Longrightarrow> yields (if b then m else n) Q"
  by simp

lemmas appends_intros = appends_if appends_bind appends_return appends_throw appends_lift
  appends_push appends_unsupported appends_unless

lemma yields_skip:
  "(\<And>a. appends (k a)) \<Longrightarrow> (\<And>a. yields (k a) Q) \<Longrightarrow> yields (act_bind m k) Q"
  by (rule yields_bind) (auto intro: yields_any)

lemma yields_unless_then:
  "appends (k ()) \<Longrightarrow> yields (k ()) Q \<Longrightarrow> yields (act_bind (act_unless b) k) Q"
  by (rule yields_skip) (auto simp: unit_eq)

lemma yields_then:
  "yields m P \<Longrightarrow> (\<And>a. appends (k a)) \<Longrightarrow> (\<And>a. P a \<Longrightarrow> yields (k a) Q) \<Longrightarrow>
   yields (act_bind m k) Q"
  by (rule yields_bind) (auto intro: yields_mono)

lemma appends_validateInstallPath [simp]: "appends (validateInstallPath v)"
  by (simp add: validateInstallPath_def)

lemma appends_lstat_exists [simp]: "appends (lstat_exists H p)"
  by (simp add: lstat_exists_def split: sum.splits)

lemma appends_check_value [simp]: "appends (check_value c name role v)"
  by (auto simp: check_value_def)

lemma push_argv_sel [simp]:
  "pa_paths (push_argv xs st) = pa_paths st" "pa_search (push_argv xs st) = pa_search st"
  by (simp_all add: push_argv_def)

locale path_resolver =
  fixes path :: "string \<Rightarrow> string \<Rightarrow> string act"
    and ok :: "string \<Rightarrow> bool"
  assumes path_appends: "appends (path v b)"
    and path_ok: "yields (path v b) ok"
begin

definition paths_ok :: "parser \<Rightarrow> bool" where
  "paths_ok st = list_all ok (pa_paths st)"

lemma appends_pathValue: "appends (pathValue H path cwd st v)"
  unfolding pathValue_def by (auto simp: path_appends split: option.splits)

lemma yields_pathValue:
  assumes "paths_ok st"
  shows "yields (pathValue H path cwd st v) (\<lambda>(p, st'). ok p \<and> paths_ok st')"
  unfolding pathValue_def
proof (rule yields_skip; (rule yields_skip)?)
  show "yields (act_bind (path w cwd) (\<lambda>canonical.
      act_return (canonical, st\<lparr>pa_paths := pa_paths st @ [canonical]\<rparr>)))
      (\<lambda>(p, st'). ok p \<and> paths_ok st')" for w
    by (rule yields_then [OF path_ok]) (use assms in \<open>auto simp: paths_ok_def\<close>)
qed (auto simp: path_appends split: option.splits)

lemma yields_path_then:
  assumes "paths_ok st" "\<And>x. appends (k x)" "\<And>p st'. paths_ok st' \<Longrightarrow> yields (k (p, st')) Q"
  shows "yields (act_bind (pathValue H path cwd st v) k) Q"
  by (rule yields_then [OF yields_pathValue [OF assms(1)]]) (use assms in auto)

lemma paths_ok_update [simp]:
  "paths_ok (push_argv xs st) = paths_ok st" "paths_ok (flag_step c n x st) = paths_ok st"
  "paths_ok (st\<lparr>ps_operandCount := k\<rparr>) = paths_ok st"
  "paths_ok (st\<lparr>ps_operandsOnly := b\<rparr>) = paths_ok st"
  "paths_ok (st\<lparr>ps_searchIndex := is\<rparr>) = paths_ok st"
  "paths_ok (st\<lparr>ps_explicitPattern := b\<rparr>) = paths_ok st"
  "paths_ok (st\<lparr>ps_prefixChanged := b\<rparr>) = paths_ok st"
  "paths_ok (st\<lparr>pa_selection := xs\<rparr>) = paths_ok st"
  "paths_ok (st\<lparr>pa_searchOperands := xs\<rparr>) = paths_ok st"
  "paths_ok (st\<lparr>pa_argv := xs\<rparr>) = paths_ok st"
  "paths_ok (st\<lparr>pa_search := k'\<rparr>) = paths_ok st"
  "paths_ok (st\<lparr>pa_administrative := k''\<rparr>) = paths_ok st" "paths_ok empty_parser"
  by (simp_all add: paths_ok_def flag_step_def Let_def empty_parser_def)

lemma push_path_ok:
  assumes "se_path c = path"
  shows "appends (act_push_path c st v f)"
    and "paths_ok st \<Longrightarrow> yields (act_push_path c st v f) paths_ok"
  unfolding act_push_path_def
  by (auto simp: assms appends_pathValue intro!: yields_path_then)

lemma operand_step_ok:
  assumes "se_path c = path"
  shows "appends (operand_step c a st)"
    and "paths_ok st \<Longrightarrow> yields (operand_step c a st) paths_ok"
proof -
  note app = appends_intros appends_lstat_exists push_path_ok(1) [OF assms]
  have install: "appends (install_operand c a st)" and push: "appends (push_operand c a st)"
    and deploy: "appends (deploy_operand c a st)"
    unfolding install_operand_def push_operand_def deploy_operand_def Let_def
    by (intro app)+
  then show "appends (operand_step c a st)"
    unfolding operand_step_def
    by (auto simp: push_path_ok(1) [OF assms] split: option.splits Administrative.splits)
  assume st: "paths_ok st"
  then have "paths_ok (st\<lparr>ps_operandCount := n\<rparr>)" for n by simp
  note yld = yields_if yields_skip app push_path_ok(2) [OF assms this]
  have "yields (install_operand c a st) paths_ok" and "yields (push_operand c a st) paths_ok"
    and "yields (deploy_operand c a st) paths_ok"
    unfolding install_operand_def push_operand_def deploy_operand_def Let_def
    by (intro yld; use st in simp)+
  then show "yields (operand_step c a st) paths_ok"
    unfolding operand_step_def
    using st by (auto simp: push_path_ok(2) [OF assms] split: option.splits Administrative.splits)
qed

lemma value_step_ok:
  assumes "se_path c = path"
  shows "appends (value_step c name role prefx attached v st)"
    and "paths_ok st \<Longrightarrow> yields (value_step c name role prefx attached v st) paths_ok"
proof -
  have app: "appends (value_finish c name role prefx attached v x)" for x
    by (cases x) (simp only: value_finish_def Let_def case_prod_conv appends_intros)
  show "appends (value_step c name role prefx attached v st)"
    unfolding value_step_def assms
    by (intro appends_bind app appends_check_value appends_if appends_pathValue appends_return)
  assume "paths_ok st"
  then have st: "paths_ok (mark_pattern name st)" by (simp add: mark_pattern_def)
  have k: "yields (value_finish c name role prefx attached v x) paths_ok"
    if "paths_ok (snd x)" for x
    using that by (cases x) (auto simp: value_finish_def Let_def intro!: yields_skip)
  show "yields (value_step c name role prefx attached v st) paths_ok"
    unfolding value_step_def assms
  proof (rule yields_skip, intro appends_bind app appends_if appends_pathValue appends_return)
    show "yields (act_bind (if role = PathRole
          then pathValue (se_host c) path (se_commandCwd c) (mark_pattern name st) v
          else act_return (v, mark_pattern name st))
        (value_finish c name role prefx attached v)) paths_ok" for u :: unit
    proof (rule yields_then [of _ "\<lambda>x. paths_ok (snd x)"])
      show "yields (if role = PathRole
          then pathValue (se_host c) path (se_commandCwd c) (mark_pattern name st) v
          else act_return (v, mark_pattern name st)) (\<lambda>x. paths_ok (snd x))"
        using st by (auto intro: yields_mono [OF yields_pathValue])
    qed (use app k in auto)
  qed
qed

lemma parse_loop_ok:
  assumes "se_path c = path"
  shows "appends (parse_loop c st input)"
    and "paths_ok st \<Longrightarrow> yields (parse_loop c st input) paths_ok"
proof -
  note steps = value_step_ok [OF assms] operand_step_ok [OF assms]
  show app: "appends (parse_loop c st input)" for st input
  proof (induction input arbitrary: st rule: measure_induct_rule [of length])
    case (less input)
    show ?case
    proof (cases input)
      case (Cons argument rest)
      have rest: "appends (parse_loop c st' rest)" for st'
        using less.IH [of rest] Cons by simp
      have tail: "appends (parse_loop c st' xs)" if "rest = v # xs" for st' v xs
        using less.IH [of xs] that Cons by simp
      show ?thesis
        unfolding Cons using rest tail
        by (auto simp: steps split: token.splits option.splits list.splits)
    qed simp
  qed
  show "paths_ok st \<Longrightarrow> yields (parse_loop c st input) paths_ok"
  proof (induction input arbitrary: st rule: measure_induct_rule [of length])
    case (less input)
    show ?case
    proof (cases input)
      case (Cons argument rest)
      have rest: "yields (parse_loop c st' rest) paths_ok" if "paths_ok st'" for st'
        using less.IH [of rest] that Cons by simp
      have tail: "yields (parse_loop c st' xs) paths_ok" if "rest = v # xs" "paths_ok st'" for st' v xs
        using less.IH [of xs] that Cons by simp
      have val: "yields (act_bind (value_step c n r p a v st) (\<lambda>st. parse_loop c st xs)) paths_ok"
        if "\<And>st'. paths_ok st' \<Longrightarrow> yields (parse_loop c st' xs) paths_ok" for n r p a v xs
        by (rule yields_then [OF value_step_ok(2) [OF assms less.prems] app that])
      show ?thesis
      proof (cases "token_of c (ps_operandsOnly st) argument")
        case (ValueToken n r p attached)
        show ?thesis
        proof (cases attached)
          case (Some v)
          with ValueToken show ?thesis unfolding Cons using val [OF rest] by simp
        next
          case None
          with ValueToken show ?thesis
            unfolding Cons using val [OF tail] by (cases rest) simp_all
        qed
      next
        case OperandToken
        then show ?thesis
          unfolding Cons
          using yields_then [OF operand_step_ok(2) [OF assms less.prems] app rest] by simp
      qed (use rest less.prems Cons in simp_all)
    qed (use less.prems in simp)
  qed
qed

lemma resolve_operands_ok:
  assumes "se_path c = path"
  shows "appends (resolve_operands c is st)"
    and "paths_ok st \<Longrightarrow> yields (resolve_operands c is st) paths_ok"
proof -
  show app: "appends (resolve_operands c is st)" for "is" st
    by (induction "is" arbitrary: st) (auto simp: assms appends_pathValue)
  show "paths_ok st \<Longrightarrow> yields (resolve_operands c is st) paths_ok"
    by (induction "is" arbitrary: st) (auto simp: assms app intro!: yields_path_then)
qed

lemma native_ok:
  "appends (native_arguments H path cwd b input st)"
  "paths_ok st \<Longrightarrow> yields (native_arguments H path cwd b input st) paths_ok"
proof -
  show app: "appends (native_arguments H path cwd b input st)" for b input st
    by (induction input arbitrary: st) (auto simp: appends_pathValue)
  show "paths_ok st \<Longrightarrow> yields (native_arguments H path cwd b input st) paths_ok"
    by (induction input arbitrary: st) (auto simp: app intro!: yields_path_then)
qed

lemma plain_opening_sel [simp]:
  "pa_paths (op_parser (plain_opening g a n input cwd)) = []"
  by (simp add: plain_opening_def empty_parser_def)

lemma git_ok:
  "appends (git_opening H path input cwd)"
  "yields (git_opening H path input cwd) (\<lambda>start. paths_ok (op_parser start))"
proof -
  have app: "appends (git_push_opening xs w st)" for xs w st
    by (auto simp: git_push_opening_def split: list.splits)
  have yld: "yields (git_push_opening xs w st) (\<lambda>start. paths_ok (op_parser start))"
    if "paths_ok st" for xs w st
    using that by (auto simp: git_push_opening_def split: list.splits)
  show "appends (git_opening H path input cwd)"
    unfolding git_opening_def Let_def
    by (auto simp: app appends_pathValue split: list.splits option.splits)
  show "yields (git_opening H path input cwd) (\<lambda>start. paths_ok (op_parser start))"
    unfolding git_opening_def Let_def
    by (auto simp: app appends_pathValue yld split: list.splits option.splits
        intro!: yields_unless_then yields_path_then)
qed

lemma opening_ok:
  "appends (opening_of H path command input cwd)"
  "yields (opening_of H path command input cwd) (\<lambda>start. paths_ok (op_parser start))"
  by (auto simp: opening_of_def package_opening_def Let_def git_ok paths_ok_def
      git_ok(2) [unfolded paths_ok_def] split: option.splits)

lemma finish_ok:
  assumes "se_path c = path"
  shows "appends (finish_parse c cwd st)"
    and "paths_ok st \<Longrightarrow> yields (finish_parse c cwd st)
      (\<lambda>st'. \<forall>p \<in> set (pa_paths st'). ok p \<or> p = cwd)"
proof -
  show "appends (finish_parse c cwd st)"
    unfolding finish_parse_def Let_def
    by (intro appends_bind appends_unless appends_return resolve_operands_ok [OF assms])
  assume "paths_ok st"
  then show "yields (finish_parse c cwd st) (\<lambda>st'. \<forall>p \<in> set (pa_paths st'). ok p \<or> p = cwd)"
    unfolding finish_parse_def Let_def
    by (intro yields_skip yields_then [OF resolve_operands_ok(2) [OF assms]] appends_bind
        appends_unless appends_return resolve_operands_ok(1) [OF assms])
       (auto simp: paths_ok_def list_all_iff)
qed

lemma truncate_paths [simp]: "pa_paths (ParsedArguments.truncate st) = pa_paths st"
  by (simp add: ParsedArguments.truncate_def)

theorem parse_ok:
  "appends (parseArguments H command tool input path cwd)"
  "yields (parseArguments H command tool input path cwd)
     (\<lambda>r. \<forall>p \<in> set (pa_paths r). ok p \<or> p = cwd)"
proof -
  let ?c = "\<lambda>cmd start. \<lparr>se_host = H, se_command = cmd, se_grammar = op_grammar start,
      se_administrative = op_administrative start, se_path = path,
      se_commandCwd = op_cwd start\<rparr>"
  have loop: "appends (parse_loop (?c cmd start) st xs)" "appends (finish_parse (?c cmd start) cwd st)"
    for cmd start st xs
    using parse_loop_ok(1) finish_ok(1) by simp_all
  show "appends (parseArguments H command tool input path cwd)"
    unfolding parseArguments_def Let_def
    by (auto simp: native_ok opening_ok loop split: option.splits)
  show "yields (parseArguments H command tool input path cwd)
      (\<lambda>r. \<forall>p \<in> set (pa_paths r). ok p \<or> p = cwd)"
  proof (cases command)
    case None
    show ?thesis
      unfolding parseArguments_def None option.case
      by (rule yields_skip, intro appends_bind native_ok appends_return,
          rule yields_then [OF native_ok(2)])
         (auto simp: paths_ok_def list_all_iff empty_parser_def)
  next
    case (Some cmd)
    show ?thesis
      unfolding parseArguments_def Some option.case Let_def
      by (rule yields_then [OF opening_ok(2)], intro appends_bind loop appends_return,
          rule yields_then [OF parse_loop_ok(2)], simp, assumption,
          intro appends_bind loop appends_return,
          rule yields_then [OF finish_ok(2)], simp, assumption)
         auto
  qed
qed

end

end
