(* ===== verification/Action_Classifier.thy ===== *)
theory Action_Classifier
  imports Argv_Policy
begin

section \<open>Classifying an action\<close>

text \<open>
  \<open>packages/harness-plugin/src/policy/action-classifier.ts\<close>, \<open>search-domain.ts\<close> and the types of
  \<open>types.ts\<close>: a tool call is brought into canonical form, with every violation it commits, and
  is then denied, held for approval or allowed. An action arrives as an unknown JavaScript
  value; an object looked up by name has only its own properties.
\<close>

subsection \<open>Types\<close>

datatype EnvironmentRead = Env_none | Env_declared | Env_arbitrary
datatype NetworkIntent = Net_none | Net_read | Net_write
datatype FileChange = Change_none | Change_bounded | Change_destructive
datatype ExternalSideEffect = Effect_none | Effect_message | Effect_deploy | Effect_purchase
datatype PolicyClass = Automatic | Approval_required | Denied
datatype Provenance = Local_tool | Cloud_command

fun env_text :: "EnvironmentRead \<Rightarrow> string" where
  "env_text Env_none = ''none''"
| "env_text Env_declared = ''declared''"
| "env_text Env_arbitrary = ''arbitrary''"

fun net_text :: "NetworkIntent \<Rightarrow> string" where
  "net_text Net_none = ''none''"
| "net_text Net_read = ''read''"
| "net_text Net_write = ''write''"

fun change_text :: "FileChange \<Rightarrow> string" where
  "change_text Change_none = ''none''"
| "change_text Change_bounded = ''bounded''"
| "change_text Change_destructive = ''destructive''"

fun effect_text :: "ExternalSideEffect \<Rightarrow> string" where
  "effect_text Effect_none = ''none''"
| "effect_text Effect_message = ''message''"
| "effect_text Effect_deploy = ''deploy''"
| "effect_text Effect_purchase = ''purchase''"

fun provenance_text :: "Provenance \<Rightarrow> string" where
  "provenance_text Local_tool = ''local_tool''"
| "provenance_text Cloud_command = ''cloud_command''"

record CanonicalAction =
  ac_toolName :: string
  ac_executable :: "string option"
  ac_argv :: "string list"
  ac_cwd :: string
  ac_repositoryId :: string
  ac_touchedPaths :: "string list"
  ac_environmentRead :: EnvironmentRead
  ac_networkIntent :: NetworkIntent
  ac_fileChange :: FileChange
  ac_externalSideEffect :: ExternalSideEffect

record PolicyDecision =
  pd_classification :: PolicyClass
  pd_fingerprint :: string
  pd_reasonCode :: string
  pd_actionSummary :: string
  pd_impactSummary :: string

record RepositoryPolicy =
  rpol_id :: string
  rpol_canonicalPath :: string

datatype RepositoryPolicySource =
    RepositoryArray "RepositoryPolicy list"
  | RepositoryMap "(string \<times> (string + RepositoryPolicy)) list"

record ActionPolicyOptions =
  apo_repositories :: RepositoryPolicySource
  apo_trustedExecutables :: "(string \<times> string) list"
  apo_protectedPaths :: "(string \<times> string list) list"

datatype policy_source =
    NoSource
  | Repositories RepositoryPolicySource
  | PolicyOptions ActionPolicyOptions

record CanonicalActionResult =
  car_action :: CanonicalAction
  car_violations :: violations
  car_destructive :: bool
  car_administrative :: "Administrative option"

subsection \<open>Configuration\<close>

definition executableMap :: "policy_source \<Rightarrow> (string \<times> string) list" where
  "executableMap source =
     (case source of PolicyOptions opts \<Rightarrow> apo_trustedExecutables opts | _ \<Rightarrow> [])"

definition repository_array :: "RepositoryPolicySource \<Rightarrow> RepositoryPolicy list" where
  "repository_array src =
     (case src of
        RepositoryArray rs \<Rightarrow> rs
      | RepositoryMap es \<Rightarrow>
          map (\<lambda>(rid, r). case r of
                 Inl path \<Rightarrow> \<lparr>rpol_id = rid, rpol_canonicalPath = path\<rparr> | Inr p \<Rightarrow> p) es)"

definition asRepositoryArray :: "policy_source \<Rightarrow> RepositoryPolicy list" where
  "asRepositoryArray source =
     (case source of
        NoSource \<Rightarrow> [] | Repositories r \<Rightarrow> repository_array r
      | PolicyOptions opts \<Rightarrow> repository_array (apo_repositories opts))"

definition repositoryFor :: "policy_source \<Rightarrow> string \<Rightarrow> RepositoryPolicy option" where
  "repositoryFor source repositoryId =
     first_row (filter (\<lambda>r. rpol_id r = repositoryId) (asRepositoryArray source))"

definition configured_paths :: "policy_source \<Rightarrow> string \<Rightarrow> string list" where
  "configured_paths source repositoryId =
     (case source of
        PolicyOptions opts \<Rightarrow>
          (case map_of (apo_protectedPaths opts) repositoryId of Some ps \<Rightarrow> ps | None \<Rightarrow> [])
      | _ \<Rightarrow> [])"

text \<open>\<open>snapshotActionPolicy\<close>: the registered executables must be canonical files.\<close>

definition canonical_executable :: "host \<Rightarrow> string \<Rightarrow> bool" where
  "canonical_executable H path =
     (isAbsolute path \<and> host_realpath H path = Inr path \<and> host_stat H path = Inr RegularFile)"

fun snapshot_protected ::
  "host \<Rightarrow> policy_source \<Rightarrow> (string \<times> string list) list \<Rightarrow> exn + (string \<times> string list) list" where
  "snapshot_protected H source [] = Inr []"
| "snapshot_protected H source ((rid, paths) # es) =
     (case resolveProtectedPaths H
             (case repositoryFor source rid of
                Some r \<Rightarrow> rpol_canonicalPath r | None \<Rightarrow> []) paths of
        Inl e \<Rightarrow> Inl e
      | Inr resolved \<Rightarrow>
          (case snapshot_protected H source es of
             Inl e \<Rightarrow> Inl e
           | Inr rest \<Rightarrow> Inr ((rid, resolved) # rest)))"

definition snapshotActionPolicy :: "host \<Rightarrow> ActionPolicyOptions \<Rightarrow> exn + ActionPolicyOptions" where
  "snapshotActionPolicy H opts =
     (if \<not> list_all (\<lambda>(_, path). canonical_executable H path) (apo_trustedExecutables opts)
      then Inl OtherError
      else case snapshot_protected H (PolicyOptions opts) (apo_protectedPaths opts) of
          Inl e \<Rightarrow> Inl e
        | Inr resolved \<Rightarrow>
            Inr \<lparr>apo_repositories = RepositoryArray (asRepositoryArray (PolicyOptions opts)),
                 apo_trustedExecutables = apo_trustedExecutables opts,
                 apo_protectedPaths = resolved\<rparr>)"

subsection \<open>Reading an unknown value\<close>

definition isRecord :: "jsval \<Rightarrow> bool" where
  "isRecord v = (case v of JObj _ \<Rightarrow> True | _ \<Rightarrow> False)"

definition fields_of :: "jsval \<Rightarrow> (string \<times> jsval) list" where
  "fields_of v = (case v of JObj fs \<Rightarrow> fs | _ \<Rightarrow> [])"

fun the_strs :: "jsval list \<Rightarrow> string list option" where
  "the_strs [] = Some []"
| "the_strs (v # vs) =
     (case (the_str v, the_strs vs) of (Some s, Some ss) \<Rightarrow> Some (s # ss) | _ \<Rightarrow> None)"

definition stringArray :: "jsval \<Rightarrow> string list option" where
  "stringArray v = (case v of JArr vs \<Rightarrow> the_strs vs | _ \<Rightarrow> None)"

definition read_env :: "jsval \<Rightarrow> EnvironmentRead option" where
  "read_env v = map_of [(''none'', Env_none), (''declared'', Env_declared),
     (''arbitrary'', Env_arbitrary)] (case the_str v of Some s \<Rightarrow> s | None \<Rightarrow> [])"

definition read_net :: "jsval \<Rightarrow> NetworkIntent option" where
  "read_net v = map_of [(''none'', Net_none), (''read'', Net_read), (''write'', Net_write)]
     (case the_str v of Some s \<Rightarrow> s | None \<Rightarrow> [])"

definition read_change :: "jsval \<Rightarrow> FileChange option" where
  "read_change v = map_of [(''none'', Change_none), (''bounded'', Change_bounded),
     (''destructive'', Change_destructive)] (case the_str v of Some s \<Rightarrow> s | None \<Rightarrow> [])"

definition read_effect :: "jsval \<Rightarrow> ExternalSideEffect option" where
  "read_effect v = map_of [(''none'', Effect_none), (''message'', Effect_message),
     (''deploy'', Effect_deploy), (''purchase'', Effect_purchase)]
     (case the_str v of Some s \<Rightarrow> s | None \<Rightarrow> [])"

definition or_else :: "'a option \<Rightarrow> 'a \<Rightarrow> 'a" where
  "or_else x d = (case x of Some a \<Rightarrow> a | None \<Rightarrow> d)"

definition actionWithFallback :: "(string \<times> jsval) list \<Rightarrow> CanonicalAction" where
  "actionWithFallback input =
     \<lparr>ac_toolName = or_else (the_str (get_prop input ''toolName'')) ''unknown'',
      ac_executable = the_str (get_prop input ''executable''),
      ac_argv = or_else (stringArray (get_prop input ''argv'')) [],
      ac_cwd = or_else (the_str (get_prop input ''cwd'')) [],
      ac_repositoryId = or_else (the_str (get_prop input ''repositoryId'')) [],
      ac_touchedPaths = or_else (stringArray (get_prop input ''touchedPaths'')) [],
      ac_environmentRead = or_else (read_env (get_prop input ''environmentRead'')) Env_none,
      ac_networkIntent = or_else (read_net (get_prop input ''networkIntent'')) Net_none,
      ac_fileChange = or_else (read_change (get_prop input ''fileChange'')) Change_none,
      ac_externalSideEffect =
        or_else (read_effect (get_prop input ''externalSideEffect'')) Effect_none\<rparr>"

definition validAction :: "jsval \<Rightarrow> bool" where
  "validAction action =
     (let input = fields_of action in
      isRecord action
      \<and> the_str (get_prop input ''toolName'') \<noteq> None
      \<and> (get_prop input ''executable'' = JUndefined
          \<or> the_str (get_prop input ''executable'') \<noteq> None)
      \<and> stringArray (get_prop input ''argv'') \<noteq> None
      \<and> the_str (get_prop input ''cwd'') \<noteq> None
      \<and> the_str (get_prop input ''repositoryId'') \<noteq> None
      \<and> stringArray (get_prop input ''touchedPaths'') \<noteq> None
      \<and> read_env (get_prop input ''environmentRead'') \<noteq> None
      \<and> read_net (get_prop input ''networkIntent'') \<noteq> None
      \<and> read_change (get_prop input ''fileChange'') \<noteq> None
      \<and> read_effect (get_prop input ''externalSideEffect'') \<noteq> None)"

subsection \<open>Paths and executables\<close>

definition lexicalFallback :: "host \<Rightarrow> string \<Rightarrow> string option \<Rightarrow> string" where
  "lexicalFallback H path basePath =
     (if isAbsolute path then normalize path
      else case basePath of None \<Rightarrow> path | Some base \<Rightarrow> resolve2 (host_cwd H) base path)"

definition hasPathSeparator :: "string \<Rightarrow> bool" where
  "hasPathSeparator value = list_ex is_either_slash value"

definition add_code :: "PolicyPathViolation \<Rightarrow> violations \<Rightarrow> violations" where
  "add_code v vs = (if v \<in> set vs then vs else vs @ [v])"

definition addViolation :: "exn \<Rightarrow> violations \<Rightarrow> violations" where
  "addViolation error vs =
     (case error of CanonicalPathError code \<Rightarrow> add_code code vs | OtherError \<Rightarrow> add_code PATH_UNAVAILABLE vs)"

text \<open>On a POSIX host \<open>executableCandidates\<close> has one candidate per directory of \<open>PATH\<close>.\<close>

definition executableCandidates :: "string \<Rightarrow> string \<Rightarrow> string list" where
  "executableCandidates directory executable = [join_paths [directory, executable]]"

definition resolveExecutableFromPath :: "host \<Rightarrow> string \<Rightarrow> string \<Rightarrow> string option" where
  "resolveExecutableFromPath H executable cwd =
     first_row (filter (host_executable H)
       (concat (map (\<lambda>directory. executableCandidates
            (if isAbsolute directory then directory else resolve2 (host_cwd H) cwd directory)
            executable)
          (split_on (\<lambda>c. c = CHR '':'') (or_else (host_PATH H) [])))))"

definition canonicalizeExecutable ::
  "host \<Rightarrow> string option \<Rightarrow> string \<Rightarrow> violations \<Rightarrow> string option \<times> violations" where
  "canonicalizeExecutable H executable cwd vs =
     (case executable of
        None \<Rightarrow> (None, vs)
      | Some exe \<Rightarrow>
          let candidate =
                (if hasPathSeparator exe
                 then Some (if isAbsolute exe then exe else resolve2 (host_cwd H) cwd exe)
                 else resolveExecutableFromPath H exe cwd) in
          (case candidate of
             None \<Rightarrow> (Some exe, add_code PATH_UNAVAILABLE vs)
           | Some path \<Rightarrow>
               if \<not> isAbsolute path then (Some exe, add_code PATH_UNAVAILABLE vs)
               else case host_realpath H path of
                   Inl _ \<Rightarrow> (Some (normalize path), add_code PATH_UNAVAILABLE vs)
                 | Inr canonical \<Rightarrow>
                     if host_stat H canonical = Inr RegularFile then (Some canonical, vs)
                     else (Some (normalize path), add_code PATH_UNAVAILABLE vs)))"

text \<open>\<open>executableName\<close>: the command identity of an executable.\<close>

definition executable_name :: "string \<Rightarrow> string" where
  "executable_name executable =
     (let resolvedName = toLowerCase (basename executable) in
      if resolvedName = ''pnpm.cjs'' \<or> resolvedName = ''pnpm.mjs'' then ''pnpm''
      else if resolvedName = ''npm-cli.js'' then ''npm''
      else if resolvedName = ''npx-cli.js'' then ''npx''
      else if resolvedName = ''vitest.mjs'' then ''vitest''
      else if resolvedName = ''tsc.js'' then ''tsc''
      else if list_ex (endsWith resolvedName) [''.exe'', ''.cmd'', ''.bat'', ''.com'']
      then take (length resolvedName - 4) resolvedName
      else resolvedName)"

definition executableName :: "CanonicalAction \<Rightarrow> string" where
  "executableName action = executable_name (or_else (ac_executable action) [])"

text \<open>The inner function \<open>resolvePath\<close> of \<open>canonicalizeAction\<close>.\<close>

definition resolvePath ::
  "host \<Rightarrow> RepositoryPolicy option \<Rightarrow> string list \<Rightarrow> string \<Rightarrow> string \<Rightarrow> string act" where
  "resolvePath H repository configured path base =
     (case repository of
        None \<Rightarrow> act_return (lexicalFallback H path (Some base))
      | Some r \<Rightarrow>
          let repo = rpol_canonicalPath r; lexical = resolve2 (host_cwd H) base path in
          act_bind (if isProtectedPath H repo lexical configured then act_push PROTECTED_RESOURCE
                    else act_return ()) (\<lambda>_.
          act_bind (act_lift (canonicalizePath H repo path (Some base))) (\<lambda>resolved.
          act_bind (if isProtectedPath H repo resolved configured
                    then act_push PROTECTED_RESOURCE else act_return ()) (\<lambda>_.
          act_return resolved))))"

fun resolve_touched ::
  "host \<Rightarrow> RepositoryPolicy option \<Rightarrow> string list \<Rightarrow> string \<Rightarrow> string list \<Rightarrow> violations
     \<Rightarrow> string list \<times> violations" where
  "resolve_touched H repository configured cwd [] vs = ([], vs)"
| "resolve_touched H repository configured cwd (path # paths) vs =
     (let (p, vs1) =
        (case resolvePath H repository configured path cwd vs of
           (Inr resolved, ws) \<Rightarrow> (resolved, ws)
         | (Inl e, ws) \<Rightarrow> (lexicalFallback H path (Some cwd), addViolation e ws));
        (ps, vs2) = resolve_touched H repository configured cwd paths vs1 in
      (p # ps, vs2))"

subsection \<open>The files ripgrep would read\<close>

definition require_file :: "host \<Rightarrow> string \<Rightarrow> unit act" where
  "require_file H path =
     (case host_stat H path of
        Inl _ \<Rightarrow> act_throw OtherError
      | Inr kind \<Rightarrow> act_unless (kind \<noteq> RegularFile))"

fun check_candidates ::
  "host \<Rightarrow> (string \<Rightarrow> string act) \<Rightarrow> (nat \<Rightarrow> nat) \<Rightarrow> nat \<Rightarrow> string list \<Rightarrow> string list act" where
  "check_candidates H canonicalize elapsed i [] = act_return []"
| "check_candidates H canonicalize elapsed i (name # names) =
     act_bind (act_unless (elapsed i > 2000)) (\<lambda>_.
     act_bind (canonicalize name) (\<lambda>path.
     act_bind (require_file H path) (\<lambda>_.
     act_bind (check_candidates H canonicalize elapsed (Suc i) names) (\<lambda>paths.
     act_return (path # paths)))))"

definition rg_arguments :: "string list \<Rightarrow> string list \<Rightarrow> string list" where
  "rg_arguments selection operands =
     [''--files'', ''--null'', ''--no-config''] @ selection @ [''--'']
     @ (if operands = [] then [''.''] else operands)"

text \<open>The names ripgrep printed, each ended by a NUL.\<close>

definition listed_names :: "string \<Rightarrow> string list act" where
  "listed_names output =
     act_bind (act_unless (last output \<noteq> CHR 0x00)) (\<lambda>_.
     let names = split_on (\<lambda>c. c = CHR 0x00) (butlast output) in
     act_bind (act_unless (length names > 10000 \<or> [] \<in> set names)) (\<lambda>_.
     act_return names))"

definition ripgrepCandidates ::
  "host \<Rightarrow> string \<Rightarrow> string \<Rightarrow> string list \<Rightarrow> string list \<Rightarrow> (string \<Rightarrow> string act) \<Rightarrow> string list act" where
  "ripgrepCandidates H executable cwd selection operands canonicalize =
     (let res = host_ripgrep H executable cwd (rg_arguments selection operands);
          maxBytes = 2097152 in
      act_bind (act_unless (rg_failed res \<or> rg_elapsed res 0 > 2000
         \<or> rg_stdout_bytes res > maxBytes \<or> rg_stderr_bytes res > maxBytes)) (\<lambda>_.
      case rg_stdout res of
        None \<Rightarrow> act_throw OtherError
      | Some output \<Rightarrow>
          if output = [] then act_return []
          else
            act_bind (listed_names output) (\<lambda>names.
            act_bind (check_candidates H canonicalize (rg_elapsed res) 1 names) (\<lambda>candidates.
            act_bind (act_unless (rg_elapsed res (Suc (length names)) > 2000)) (\<lambda>_.
            act_return (sort (js_uniq candidates)))))))"

subsection \<open>The canonical action\<close>

fun all_files :: "host \<Rightarrow> string list \<Rightarrow> exn + bool" where
  "all_files H [] = Inr True"
| "all_files H (p # ps) =
     (case host_stat H p of
        Inl _ \<Rightarrow> Inl OtherError
      | Inr kind \<Rightarrow> if kind \<noteq> RegularFile then Inr False else all_files H ps)"

definition search_tools :: "string list" where
  "search_tools = [''search'', ''find'', ''grep'', ''ripgrep'']"

text \<open>
  What \<open>canonicalizeAction\<close> does with parsed arguments: the touched paths are extended by the
  files a content search of ripgrep would read, unless a violation is known already.
\<close>

definition rg_touched ::
  "host \<Rightarrow> RepositoryPolicy option \<Rightarrow> string list \<Rightarrow> string \<Rightarrow> string \<Rightarrow> ParsedArguments
     \<Rightarrow> string list \<Rightarrow> string list act" where
  "rg_touched H repository configured cwd exe parsed touched vs =
     (if vs = []
      then act_bind (ripgrepCandidates H exe cwd (pa_selection parsed) (pa_searchOperands parsed)
              (\<lambda>path. resolvePath H repository configured path cwd))
            (\<lambda>found. act_return (touched @ found)) vs
      else (Inr touched, vs))"

definition search_touched ::
  "host \<Rightarrow> policy_source \<Rightarrow> RepositoryPolicy option \<Rightarrow> string list \<Rightarrow> string \<Rightarrow> string option
     \<Rightarrow> string option \<Rightarrow> ParsedArguments \<Rightarrow> string list \<Rightarrow> string list act" where
  "search_touched H source repository configured cwd exe command parsed touched =
     (if pa_search parsed = Some Content \<and> command = Some ''rg''
      then act_bind (act_unless (exe = None \<or> exe \<noteq> map_of (executableMap source) ''rg''))
             (\<lambda>_. rg_touched H repository configured cwd (or_else exe []) parsed touched)
      else if pa_search parsed = Some Content \<and> repository \<noteq> None
      then act_bind (act_lift (assertSearchResources H (rpol_canonicalPath (the repository))
              (pa_paths parsed) configured)) (\<lambda>_. act_return touched)
      else act_return touched)"

definition require_files :: "host \<Rightarrow> string option \<Rightarrow> string \<Rightarrow> string list \<Rightarrow> string list act" where
  "require_files H command tool touched =
     (if command = None \<and> tool \<in> set search_tools
      then act_bind (if touched = [] then act_return False else act_lift (all_files H touched))
             (\<lambda>files. if files then act_return touched else unsupported)
      else act_return touched)"

definition check_search ::
  "host \<Rightarrow> policy_source \<Rightarrow> RepositoryPolicy option \<Rightarrow> string list \<Rightarrow> string \<Rightarrow> string option
     \<Rightarrow> string option \<Rightarrow> string \<Rightarrow> ParsedArguments \<Rightarrow> string list \<Rightarrow> string list act" where
  "check_search H source repository configured cwd exe command tool parsed touched =
     act_bind (act_unless (command = Some ''rg'' \<and> \<not> pa_noConfig parsed
        \<and> or_else (host_RIPGREP_CONFIG_PATH H) [] \<noteq> [])) (\<lambda>_.
     act_bind (search_touched H source repository configured cwd exe command parsed touched)
       (require_files H command tool))"

definition command_identity :: "policy_source \<Rightarrow> string \<Rightarrow> string" where
  "command_identity source exe =
     (case first_row (filter (\<lambda>(_, path). path = exe) (executableMap source)) of
        Some (name, _) \<Rightarrow> name
      | None \<Rightarrow> executable_name exe)"

text \<open>The \<open>try\<close> block: arguments, destructive, administrative, touched paths, violations.\<close>

definition parse_action ::
  "host \<Rightarrow> policy_source \<Rightarrow> RepositoryPolicy option \<Rightarrow> string list \<Rightarrow> string \<Rightarrow> string option
     \<Rightarrow> CanonicalAction \<Rightarrow> string list \<Rightarrow> violations
     \<Rightarrow> string list \<times> bool \<times> Administrative option \<times> string list \<times> violations" where
  "parse_action H source repository configured cwd exe canonical touched vs =
     (let command = map_option (command_identity source) exe;
          tool = toLowerCase (ac_toolName canonical) in
      case parseArguments H command tool (ac_argv canonical)
             (resolvePath H repository configured) cwd vs of
        (Inl e, ws) \<Rightarrow> (ac_argv canonical, False, None, touched, addViolation e ws)
      | (Inr parsed, ws) \<Rightarrow>
          (case check_search H source repository configured cwd exe command tool parsed touched ws of
             (Inl e, us) \<Rightarrow>
               (pa_argv parsed, pa_destructive parsed, pa_administrative parsed, touched,
                addViolation e us)
           | (Inr touched', us) \<Rightarrow>
               (pa_argv parsed, pa_destructive parsed, pa_administrative parsed, touched', us)))"

text \<open>The working directory and the protected paths, with the violations they add.\<close>

definition action_cwd ::
  "host \<Rightarrow> RepositoryPolicy option \<Rightarrow> string \<Rightarrow> violations \<Rightarrow> string \<times> violations" where
  "action_cwd H repository cwd vs =
     (case repository of
        None \<Rightarrow> (lexicalFallback H cwd None, vs)
      | Some r \<Rightarrow>
          (case canonicalizePath H (rpol_canonicalPath r) cwd None of
             Inr p \<Rightarrow> (p, vs)
           | Inl e \<Rightarrow> (lexicalFallback H cwd None, addViolation e vs)))"

definition action_protected ::
  "host \<Rightarrow> RepositoryPolicy option \<Rightarrow> string list \<Rightarrow> violations \<Rightarrow> string list \<times> violations" where
  "action_protected H repository configured vs =
     (case repository of
        None \<Rightarrow> (configured, vs)
      | Some r \<Rightarrow>
          (case resolveProtectedPaths H (rpol_canonicalPath r) configured of
             Inr ps \<Rightarrow> (ps, vs)
           | Inl e \<Rightarrow> (configured, addViolation e vs)))"

definition initial_violations :: "jsval \<Rightarrow> RepositoryPolicy option \<Rightarrow> violations" where
  "initial_violations action repository =
     (if validAction action then [] else [UNSTRUCTURED_ACTION])
     @ (if repository = None then [UNKNOWN_REPOSITORY] else [])"

definition canonicalizeAction :: "host \<Rightarrow> policy_source \<Rightarrow> jsval \<Rightarrow> CanonicalActionResult" where
  "canonicalizeAction H source action =
     (let input = fields_of action;
          canonical = actionWithFallback input;
          repositoryId = ac_repositoryId canonical;
          repository = repositoryFor source repositoryId;
          (cwd, vs1) =
            action_cwd H repository (ac_cwd canonical) (initial_violations action repository);
          (configured, vs2) =
            action_protected H repository (configured_paths source repositoryId) vs1;
          (touched, vs3) =
            resolve_touched H repository configured cwd (ac_touchedPaths canonical) vs2;
          (exe, vs4) = canonicalizeExecutable H (ac_executable canonical) cwd vs3;
          (argv, destructive, administrative, touched', vs5) =
            parse_action H source repository configured cwd exe canonical touched vs4 in
      \<lparr>car_action = canonical\<lparr>ac_executable := exe, ac_argv := argv, ac_cwd := cwd,
          ac_touchedPaths := sort (js_uniq touched')\<rparr>,
       car_violations = vs5, car_destructive = destructive,
       car_administrative = administrative\<rparr>)"

subsection \<open>The fingerprint\<close>

text \<open>
  \<open>stableJson\<close>: \<open>number_text\<close> is \<open>Number.prototype.toString\<close>. An \<open>undefined\<close> item of an array is
  joined as nothing, and one of an object is printed.
\<close>

fun stableJson :: "(rat \<Rightarrow> string) \<Rightarrow> jsval \<Rightarrow> string" where
  "stableJson number_text JUndefined = ''undefined''"
| "stableJson number_text JNull = ''null''"
| "stableJson number_text (JBool b) = (if b then ''true'' else ''false'')"
| "stableJson number_text (JNum q) = number_text q"
| "stableJson number_text (JStr s) = json_string s"
| "stableJson number_text (JArr vs) =
     ''['' @ join_with '',''
        (map (\<lambda>v. if v = JUndefined then [] else stableJson number_text v) vs) @ '']''"
| "stableJson number_text (JObj fs) =
     ''{'' @ join_with '',''
        (map (\<lambda>p. json_string (fst p) @ '':'' @ snd p)
           (sort_key fst (map (\<lambda>p. (fst p, stableJson number_text (snd p))) fs))) @ ''}''"

definition canonicalFingerprintRecord :: "CanonicalAction \<Rightarrow> Provenance \<Rightarrow> jsval" where
  "canonicalFingerprintRecord action provenance =
     JObj [(''argv'', JArr (map JStr (ac_argv action))),
           (''cwd'', JStr (ac_cwd action)),
           (''environmentRead'', JStr (env_text (ac_environmentRead action))),
           (''executable'', case ac_executable action of None \<Rightarrow> JNull | Some e \<Rightarrow> JStr e),
           (''externalSideEffect'', JStr (effect_text (ac_externalSideEffect action))),
           (''fileChange'', JStr (change_text (ac_fileChange action))),
           (''networkIntent'', JStr (net_text (ac_networkIntent action))),
           (''provenance'', JStr (provenance_text provenance)),
           (''repositoryId'', JStr (ac_repositoryId action)),
           (''toolName'', JStr (ac_toolName action)),
           (''touchedPaths'', JArr (map JStr (sort (ac_touchedPaths action))))]"

text \<open>The record has no numbers, so the printer of numbers does not matter.\<close>

definition canonicalActionJson :: "CanonicalAction \<Rightarrow> Provenance \<Rightarrow> string" where
  "canonicalActionJson action provenance =
     stableJson (\<lambda>_. []) (canonicalFingerprintRecord action provenance)"

definition fingerprintAction :: "host \<Rightarrow> CanonicalAction \<Rightarrow> Provenance \<Rightarrow> string" where
  "fingerprintAction H action provenance =
     ''sha256:'' @ host_sha256 H (canonicalActionJson action provenance)"

subsection \<open>Classification\<close>

definition dash :: rx where
  "dash = Opt (Cls (one_of ''-_ ''))"

definition arbitrary_tool :: "string \<Rightarrow> bool" where
  "arbitrary_tool tool =
     rx_match (Alts [Seqs [Lit ''arbitrary'', dash, Lit ''command''],
        Seqs [Lit ''cloud'', dash, Lit ''command''], Lit ''shell'', Lit ''exec'',
        Seqs [Lit ''execute'', dash, Lit ''command'']]) tool"

definition shell_names :: "string list" where
  "shell_names = [''sh'', ''bash'', ''zsh'', ''fish'', ''dash'', ''ksh'', ''csh'', ''tcsh'', ''cmd'',
     ''cmd.exe'', ''powershell'', ''powershell.exe'', ''pwsh'', ''pwsh.exe'']"

text \<open>\<open>/^python(?:\d+(?:\.\d+)*)?$/u\<close>\<close>

definition python_name :: "string \<Rightarrow> bool" where
  "python_name command =
     rx_match (Seq (Lit ''python'') (Opt (Seq (Plus (Cls is_digit))
        (Star (Seq (Lit ''.'') (Plus (Cls is_digit))))))) command"

definition denialForCommand :: "CanonicalAction \<Rightarrow> string option" where
  "denialForCommand action =
     (let tool = toLowerCase (ac_toolName action); command = executableName action in
      if arbitrary_tool tool \<or> command \<in> set shell_names then Some ''ARBITRARY_COMMAND''
      else if tool \<in> set [''keychain'', ''keychain_read'', ''credential_store'', ''secret_store'']
              \<or> command = ''security''
      then Some ''KEYCHAIN_ACCESS''
      else if ac_environmentRead action = Env_arbitrary then Some ''ENVIRONMENT_ARBITRARY''
      else if tool \<in> set [''env'', ''printenv'', ''secret_read'', ''environment_dump'']
              \<or> command = ''env'' \<or> command = ''printenv''
      then Some ''SECRET_ACCESS''
      else if python_name command
              \<and> list_ex (\<lambda>a. includes_text a ''os.environ'' \<or> includes_text a ''os.getenv'')
                  (ac_argv action)
      then Some ''SECRET_ACCESS''
      else if tool = ''system_settings'' \<or> tool = ''system_preferences''
              \<or> command \<in> set [''defaults'', ''launchctl'', ''systemsetup'', ''networksetup'',
                               ''scutil'', ''osascript'']
      then Some ''SYSTEM_SETTINGS''
      else None)"

text \<open>\<open>/(^|[-_ ])deploy($|[-_ ])/u\<close>\<close>

definition deploy_tool :: "string \<Rightarrow> bool" where
  "deploy_tool tool =
     rx_match (Seqs [Opt (Seq (Star (Cls (\<lambda>_. True))) (Cls (one_of ''-_ ''))), Lit ''deploy'',
        Opt (Seq (Cls (one_of ''-_ '')) (Star (Cls (\<lambda>_. True))))]) tool"

definition approvalForCommand ::
  "CanonicalAction \<Rightarrow> bool \<Rightarrow> Administrative option \<Rightarrow> string option" where
  "approvalForCommand action destructive administrative =
     (let tool = toLowerCase (ac_toolName action) in
      if destructive then Some ''DESTRUCTIVE_FILE_CHANGE''
      else if tool = ''package_install'' \<or> administrative = Some Install
      then Some ''PACKAGE_INSTALL''
      else if tool = ''git_push'' \<or> administrative = Some Push then Some ''GIT_PUSH''
      else if ac_externalSideEffect action = Effect_deploy \<or> deploy_tool tool
              \<or> administrative = Some Deploy
      then Some ''DEPLOY''
      else if ac_networkIntent action = Net_write then Some ''NETWORK_WRITE''
      else if ac_externalSideEffect action = Effect_message then Some ''EXTERNAL_MESSAGE''
      else if ac_externalSideEffect action = Effect_purchase then Some ''PURCHASE''
      else if ac_fileChange action = Change_destructive then Some ''DESTRUCTIVE_FILE_CHANGE''
      else None)"

definition automaticFlagsAreSafe :: "CanonicalAction \<Rightarrow> bool" where
  "automaticFlagsAreSafe action =
     (ac_environmentRead action = Env_none \<and> ac_networkIntent action = Net_none
      \<and> ac_externalSideEffect action = Effect_none)"

definition packageScriptMatches :: "string \<Rightarrow> string list \<Rightarrow> string \<Rightarrow> bool" where
  "packageScriptMatches executable argv script =
     (executable \<in> set [''npm'', ''pnpm'', ''yarn'', ''bun'']
      \<and> (let command = map_option toLowerCase (nth_arg argv 0);
             argument = map_option toLowerCase (nth_arg argv 1) in
         command = Some script
         \<or> ((command = Some ''run'' \<or> command = Some ''run-script'') \<and> argument = Some script)))"

definition searchExecutableMatches :: "CanonicalAction \<Rightarrow> bool" where
  "searchExecutableMatches action =
     (case ac_executable action of
        None \<Rightarrow> True
      | Some _ \<Rightarrow>
          let tool = toLowerCase (ac_toolName action); executable = executableName action in
          if tool = ''grep'' then executable = ''grep''
          else if tool = ''ripgrep'' then executable = ''rg''
          else if tool = ''search'' then executable = ''grep'' \<or> executable = ''rg''
          else False)"

definition runnerExecutableMatches :: "CanonicalAction \<Rightarrow> string \<Rightarrow> bool" where
  "runnerExecutableMatches action kind =
     (case ac_executable action of
        None \<Rightarrow> False
      | Some _ \<Rightarrow>
          let executable = executableName action in
          packageScriptMatches executable (ac_argv action) kind
          \<or> (if kind = ''test''
             then executable = ''vitest''
                  \<and> map_option toLowerCase (nth_arg (ac_argv action) 0) = Some ''run''
             else executable = ''tsc''))"

text \<open>\<open>/^(test|tests|run[-_ ]?tests?)$/u\<close>\<close>

definition test_tool :: "string \<Rightarrow> bool" where
  "test_tool tool =
     (tool \<in> set [''test'', ''tests'']
      \<or> rx_match (Seqs [Lit ''run'', dash, Lit ''test'', Opt (Lit ''s'')]) tool)"

definition registered_identity :: "policy_source \<Rightarrow> string \<Rightarrow> string option" where
  "registered_identity source exe =
     map_option fst (first_row
       (filter (\<lambda>(_, path). isAbsolute path \<and> path = exe) (executableMap source)))"

definition automatic_tool_reason :: "CanonicalAction \<Rightarrow> string option" where
  "automatic_tool_reason action =
     (let tool = toLowerCase (ac_toolName action) in
      if tool \<in> set search_tools \<and> ac_fileChange action = Change_none
         \<and> searchExecutableMatches action
      then Some ''SEARCH''
      else if test_tool tool \<and> ac_fileChange action \<noteq> Change_destructive
              \<and> runnerExecutableMatches action ''test''
      then Some ''TEST''
      else if tool \<in> set [''build'', ''compile''] \<and> ac_fileChange action \<noteq> Change_destructive
              \<and> runnerExecutableMatches action ''build''
      then Some ''BUILD''
      else if tool \<in> set [''edit_file'', ''write_file'', ''apply_patch'']
              \<and> ac_fileChange action = Change_bounded \<and> ac_executable action = None
      then Some ''BOUNDED_EDIT''
      else if tool \<in> set [''read_file'', ''read'', ''file_read'']
              \<and> ac_fileChange action = Change_none \<and> ac_executable action = None
      then Some ''READ_ONLY''
      else None)"

definition automaticReason :: "CanonicalAction \<Rightarrow> policy_source \<Rightarrow> string option" where
  "automaticReason action source =
     (if \<not> automaticFlagsAreSafe action then None
      else case ac_executable action of
          None \<Rightarrow> automatic_tool_reason action
        | Some exe \<Rightarrow>
            (case registered_identity source exe of
               None \<Rightarrow> None
             | Some identity \<Rightarrow>
                 automatic_tool_reason (action\<lparr>ac_executable := Some identity\<rparr>)))"

definition isKnownApprovalTool :: "string \<Rightarrow> bool" where
  "isKnownApprovalTool toolName =
     (toLowerCase toolName \<in> set [''package_install'', ''git_push'', ''deploy'', ''network_write'',
        ''external_message'', ''send_message'', ''delete_file'', ''remove_file''])"

definition isKnownTool :: "string \<Rightarrow> bool" where
  "isKnownTool toolName =
     (toLowerCase toolName \<in> set [''read_file'', ''read'', ''file_read'', ''search'', ''find'', ''grep'',
        ''ripgrep'', ''build'', ''compile'', ''edit_file'', ''write_file'', ''apply_patch'']
      \<or> test_tool (toLowerCase toolName) \<or> isKnownApprovalTool toolName)"

definition decision :: "PolicyClass \<Rightarrow> string \<Rightarrow> string \<Rightarrow> PolicyDecision" where
  "decision classification reasonCode fingerprint =
     \<lparr>pd_classification = classification, pd_fingerprint = fingerprint,
      pd_reasonCode = reasonCode,
      pd_actionSummary =
        (case classification of
           Denied \<Rightarrow> ''Local policy denied this action.''
         | Approval_required \<Rightarrow> ''This repository action requires owner approval.''
         | Automatic \<Rightarrow> ''This repository action is allowed automatically.''),
      pd_impactSummary =
        (case classification of
           Denied \<Rightarrow> ''The action will not reach Harness execution.''
         | Approval_required \<Rightarrow>
             ''The action remains paused until Harness receives allowed-once approval.''
         | Automatic \<Rightarrow> ''No approval or external side effect is required.'')\<rparr>"

text \<open>\<open>context\<close> is \<open>None\<close> when it is not one of the two provenances.\<close>

definition classifyAction ::
  "host \<Rightarrow> policy_source \<Rightarrow> jsval \<Rightarrow> Provenance option \<Rightarrow> PolicyDecision" where
  "classifyAction H source action ctx =
     (let trustedContext = or_else ctx Local_tool;
          canonical = canonicalizeAction H source action;
          act = car_action canonical;
          fingerprint = fingerprintAction H act trustedContext in
      if ctx = None then decision Denied ''UNTRUSTED_ACTION'' fingerprint
      else if trustedContext = Cloud_command then decision Denied ''ARBITRARY_COMMAND'' fingerprint
      else case denialForCommand act of
          Some reason \<Rightarrow> decision Denied reason fingerprint
        | None \<Rightarrow>
      (case car_violations canonical of
         v # _ \<Rightarrow> decision Denied (violation_code v) fingerprint
       | [] \<Rightarrow>
      if ac_environmentRead act = Env_arbitrary
      then decision Denied ''ENVIRONMENT_ARBITRARY'' fingerprint
      else if \<not> isKnownTool (ac_toolName act) then decision Denied ''UNKNOWN_TOOL'' fingerprint
      else case approvalForCommand act (car_destructive canonical) (car_administrative canonical) of
          Some reason \<Rightarrow> decision Approval_required reason fingerprint
        | None \<Rightarrow>
      (case automaticReason act source of
         None \<Rightarrow>
           decision Denied (if ac_executable act = None then ''UNCLASSIFIED_ACTION''
                            else ''EXECUTABLE_TOOL_MISMATCH'') fingerprint
       | Some reason \<Rightarrow> decision Automatic reason fingerprint)))"


subsection \<open>The resolver keeps its contract\<close>

definition resolved_ok :: "host \<Rightarrow> RepositoryPolicy option \<Rightarrow> string list \<Rightarrow> string \<Rightarrow> bool" where
  "resolved_ok H repository configured p =
     (\<forall>r. repository = Some r \<longrightarrow> host_ok H \<longrightarrow>
        normal_path p \<and> prefix (segs (rpol_canonicalPath r)) (segs p)
        \<and> \<not> isProtectedPath H (rpol_canonicalPath r) p configured)"

lemma resolvePath_appends: "appends (resolvePath H repository configured path base)"
  unfolding resolvePath_def Let_def
  by (auto intro!: appends_bind appends_if split: option.splits)

lemma resolvePath_ok:
  "yields (resolvePath H repository configured path base) (resolved_ok H repository configured)"
  by (auto simp: yields_def resolvePath_def resolved_ok_def Let_def act_bind_def act_lift_def
      act_return_def act_push_def canonicalizePath_Inr
      split: option.splits sum.splits if_splits)

interpretation rp: path_resolver "resolvePath H repository configured"
  "resolved_ok H repository configured" for H repository configured
  by unfold_locales (rule resolvePath_appends, rule resolvePath_ok)

end
