(* ===== verification/Policy_Properties.thy ===== *)
theory Policy_Properties
  imports Action_Classifier
begin

section \<open>What the policy guarantees\<close>

text \<open>
  An action that is not denied commits no violation, so that its working directory, the paths
  it touches and the paths among its arguments are canonical, inside the repository and not
  protected; what is allowed automatically is a search, a read, a bounded edit or a run of a
  registered executable; and the fingerprint that an approval is bound to determines the action.
\<close>

subsection \<open>Canonicalization without violations\<close>

lemma addViolation_nonempty [simp]: "addViolation e vs \<noteq> []" "add_code v vs \<noteq> []"
  by (auto simp: addViolation_def add_code_def split: exn.splits)

lemma appends_start: "appends m \<Longrightarrow> m vs = (r, []) \<Longrightarrow> vs = []"
  unfolding appends_def by (metis Nil_is_append_conv snd_conv)

lemma resolve_touched_clean:
  "resolve_touched H repository configured cwd paths vs = (qs, []) \<Longrightarrow>
   vs = [] \<and> list_all (resolved_ok H repository configured) qs"
proof (induction paths arbitrary: vs qs)
  case (Cons path paths)
  let ?run = "resolvePath H repository configured path cwd vs"
  obtain r ws where run: "?run = (r, ws)" by (cases ?run)
  obtain q vs1 ps where q: "(q, vs1) = (case r of Inr resolved \<Rightarrow> (resolved, ws)
       | Inl e \<Rightarrow> (lexicalFallback H path (Some cwd), addViolation e ws))"
    and rest: "resolve_touched H repository configured cwd paths vs1 = (ps, [])"
    and qs: "qs = q # ps"
    using Cons.prems run by (auto simp: Let_def split: prod.splits sum.splits)
  from Cons.IH [OF rest] have vs1: "vs1 = []" and ps: "list_all (resolved_ok H repository configured) ps"
    by auto
  from q vs1 have r: "r = Inr q" "ws = []"
    by (auto split: sum.splits simp: addViolation_nonempty(1) [THEN not_sym])
  have "vs = []" using appends_start [OF rp.path_appends] run r by blast
  moreover have "resolved_ok H repository configured q"
    using rp.path_ok [of H repository configured path cwd] run r calculation
    by (auto simp: yields_def)
  ultimately show ?case using ps qs by simp
qed simp

lemma canonicalizeExecutable_clean:
  assumes "canonicalizeExecutable H executable cwd vs = (exe, [])"
  shows "vs = []" and "exe = Some e \<Longrightarrow>
    \<exists>p. host_realpath H p = Inr e \<and> host_stat H e = Inr RegularFile"
    and "exe = None \<longleftrightarrow> executable = None"
  using assms
  by (auto simp: canonicalizeExecutable_def Let_def split: option.splits sum.splits if_splits)

lemma appends_require_file: "appends (require_file H p)"
  by (auto simp: require_file_def split: sum.splits)

lemma check_candidates_ok:
  assumes "\<And>p. appends (canon p)" "\<And>p. yields (canon p) ok"
  shows "appends (check_candidates H canon elapsed i names)"
    and "yields (check_candidates H canon elapsed i names) (list_all ok)"
proof -
  show app: "appends (check_candidates H canon elapsed i names)" for i names
    by (induction names arbitrary: i) (auto simp: assms appends_require_file)
  show "yields (check_candidates H canon elapsed i names) (list_all ok)"
  proof (induction names arbitrary: i)
    case (Cons name names)
    have tail: "yields (act_bind (require_file H p) (\<lambda>_.
        act_bind (check_candidates H canon elapsed (Suc i) names)
          (\<lambda>paths. act_return (p # paths)))) (list_all ok)" if "ok p" for p
      by (rule yields_skip, intro appends_bind app appends_return,
          rule yields_then [OF Cons.IH]) (use that in auto)
    show ?case
      unfolding check_candidates.simps
      by (rule yields_skip, intro appends_bind assms(1) appends_require_file app appends_return,
          rule yields_then [OF assms(2)], intro appends_bind appends_require_file app appends_return,
          rule tail)
  qed simp
qed

lemma ripgrep_ok:
  assumes "\<And>p. appends (canon p)" "\<And>p. yields (canon p) ok"
  shows "appends (ripgrepCandidates H exe cwd sel ops canon)"
    and "yields (ripgrepCandidates H exe cwd sel ops canon) (list_all ok)"
proof -
  note cand = check_candidates_ok [OF assms]
  have names: "appends (listed_names x)" for x
    unfolding listed_names_def Let_def by (intro appends_intros)
  note app = appends_intros names cand(1)
  show "appends (ripgrepCandidates H exe cwd sel ops canon)"
    unfolding ripgrepCandidates_def Let_def
    by (cases "rg_stdout (host_ripgrep H exe cwd (rg_arguments sel ops))")
       (simp_all only: option.case, (intro app)+)
  have last: "yields (act_bind (check_candidates H canon el 1 names) (\<lambda>cs.
      act_bind (act_unless (b names)) (\<lambda>_. act_return (sort (js_uniq cs))))) (list_all ok)"
    for el names b
    by (rule yields_then [OF cand(2)], intro appends_bind appends_unless appends_return,
        rule yields_skip) (auto simp: list_all_iff)
  show "yields (ripgrepCandidates H exe cwd sel ops canon) (list_all ok)"
    unfolding ripgrepCandidates_def Let_def
    by (cases "rg_stdout (host_ripgrep H exe cwd (rg_arguments sel ops))")
       (simp_all only: option.case, (intro yields_unless_then app yields_throw yields_if
          yields_skip [of _ _ "listed_names x" for x] last; simp)+)
qed

lemma rg_touched_ok:
  "appends (rg_touched H repository configured cwd exe parsed touched)"
  "yields (rg_touched H repository configured cwd exe parsed touched)
     (list_all (\<lambda>t. t \<in> set touched \<or> resolved_ok H repository configured t))"
proof -
  let ?rg = "act_bind (ripgrepCandidates H exe cwd (pa_selection parsed)
     (pa_searchOperands parsed) (\<lambda>path. resolvePath H repository configured path cwd))
       (\<lambda>found. act_return (touched @ found))"
  note rg = ripgrep_ok [of "\<lambda>path. resolvePath H repository configured path cwd"
      "resolved_ok H repository configured", OF rp.path_appends rp.path_ok]
  have "appends ?rg" by (intro appends_bind rg appends_return)
  then show "appends (rg_touched H repository configured cwd exe parsed touched)"
    by (auto simp: appends_def rg_touched_def)
  have "yields ?rg (list_all (\<lambda>t. t \<in> set touched \<or> resolved_ok H repository configured t))"
    by (rule yields_then [OF rg(2)]) (auto simp: list_all_iff)
  then show "yields (rg_touched H repository configured cwd exe parsed touched)
     (list_all (\<lambda>t. t \<in> set touched \<or> resolved_ok H repository configured t))"
    by (auto simp: yields_def rg_touched_def)
qed

lemma check_search_ok:
  "appends (check_search H source repository configured cwd exe command tool parsed touched)"
  "yields (check_search H source repository configured cwd exe command tool parsed touched)
     (list_all (\<lambda>t. t \<in> set touched \<or> resolved_ok H repository configured t))"
proof -
  let ?Q = "list_all (\<lambda>t. t \<in> set touched \<or> resolved_ok H repository configured t)"
  have files: "appends (require_files H command tool ts)" for ts
    by (auto simp: require_files_def)
  have files_yld: "yields (require_files H command tool ts) ?Q" if "?Q ts" for ts
    using that by (auto simp: require_files_def intro!: yields_skip)
  have srch: "appends (search_touched H source repository configured cwd exe command parsed touched)"
    by (auto simp: search_touched_def rg_touched_ok)
  have srch_yld: "yields (search_touched H source repository configured cwd exe command parsed touched) ?Q"
    unfolding search_touched_def
    by (intro yields_if yields_skip rg_touched_ok) (auto simp: list_all_iff)
  show "appends (check_search H source repository configured cwd exe command tool parsed touched)"
    unfolding check_search_def by (intro appends_bind appends_unless srch files)
  show "yields (check_search H source repository configured cwd exe command tool parsed touched) ?Q"
    unfolding check_search_def
    by (rule yields_skip, intro appends_bind srch files, rule yields_then [OF srch_yld files files_yld])
qed


lemma parse_action_clean:
  assumes "parse_action H source repository configured cwd exe canonical touched vs
     = (argv, destructive, administrative, touched', [])"
  obtains parsed where "vs = []"
    "parseArguments H (map_option (command_identity source) exe)
       (toLowerCase (ac_toolName canonical)) (ac_argv canonical)
       (resolvePath H repository configured) cwd [] = (Inr parsed, [])"
    "argv = pa_argv parsed" "destructive = pa_destructive parsed"
    "administrative = pa_administrative parsed"
    "\<forall>p \<in> set (pa_paths parsed). resolved_ok H repository configured p \<or> p = cwd"
    "\<forall>t \<in> set touched'. t \<in> set touched \<or> resolved_ok H repository configured t"
proof -
  let ?parse = "parseArguments H (map_option (command_identity source) exe)
     (toLowerCase (ac_toolName canonical)) (ac_argv canonical)
     (resolvePath H repository configured) cwd"
  let ?check = "\<lambda>parsed. check_search H source repository configured cwd exe
     (map_option (command_identity source) exe) (toLowerCase (ac_toolName canonical)) parsed touched"
  obtain parsed ws where p: "?parse vs = (Inr parsed, ws)"
    and c: "?check parsed ws = (Inr touched', [])"
    and out: "argv = pa_argv parsed" "destructive = pa_destructive parsed"
      "administrative = pa_administrative parsed"
    using assms by (auto simp: parse_action_def Let_def split: prod.splits sum.splits)
  have ws: "ws = []" using appends_start [OF check_search_ok(1) c] .
  with p have vs: "vs = []" using appends_start [OF rp.parse_ok(1)] by blast
  show thesis
  proof (rule that [OF vs _ out])
    show "?parse [] = (Inr parsed, [])" using p vs ws by simp
    show "\<forall>p \<in> set (pa_paths parsed). resolved_ok H repository configured p \<or> p = cwd"
      using rp.parse_ok(2) p vs ws by (fastforce simp: yields_def)
    show "\<forall>t \<in> set touched'. t \<in> set touched \<or> resolved_ok H repository configured t"
      using check_search_ok(2) c ws by (fastforce simp: yields_def list_all_iff)
  qed
qed

lemma sort_uniq_set [simp]: "set (sort (js_uniq xs)) = set xs"
  by simp

text \<open>What is known of a canonical action without violations.\<close>

lemma canonicalizeAction_clean:
  assumes clean: "car_violations (canonicalizeAction H source action) = []"
  obtains r configured parsed where
    "validAction action"
    "repositoryFor source (ac_repositoryId (car_action (canonicalizeAction H source action))) = Some r"
    "canonicalizePath H (rpol_canonicalPath r) (ac_cwd (actionWithFallback (fields_of action))) None
       = Inr (ac_cwd (car_action (canonicalizeAction H source action)))"
    "resolveProtectedPaths H (rpol_canonicalPath r)
       (configured_paths source (rpol_id r)) = Inr configured"
    "\<forall>p \<in> set (ac_touchedPaths (car_action (canonicalizeAction H source action))).
       resolved_ok H (Some r) configured p"
    "parseArguments H (map_option (command_identity source)
         (ac_executable (car_action (canonicalizeAction H source action))))
       (toLowerCase (ac_toolName (car_action (canonicalizeAction H source action))))
       (ac_argv (actionWithFallback (fields_of action))) (resolvePath H (Some r) configured)
       (ac_cwd (car_action (canonicalizeAction H source action))) [] = (Inr parsed, [])"
    "ac_argv (car_action (canonicalizeAction H source action)) = pa_argv parsed"
    "car_destructive (canonicalizeAction H source action) = pa_destructive parsed"
    "car_administrative (canonicalizeAction H source action) = pa_administrative parsed"
    "\<forall>p \<in> set (pa_paths parsed). resolved_ok H (Some r) configured p
       \<or> p = ac_cwd (car_action (canonicalizeAction H source action))"
    "\<forall>e. ac_executable (car_action (canonicalizeAction H source action)) = Some e \<longrightarrow>
       (\<exists>p. host_realpath H p = Inr e) \<and> host_stat H e = Inr RegularFile"
proof -
  define canonical where "canonical = actionWithFallback (fields_of action)"
  define repository where "repository = repositoryFor source (ac_repositoryId canonical)"
  obtain cwd vs1 where cwd: "action_cwd H repository (ac_cwd canonical)
      (initial_violations action repository) = (cwd, vs1)" by force
  obtain configured vs2 where conf: "action_protected H repository
      (configured_paths source (ac_repositoryId canonical)) vs1 = (configured, vs2)" by force
  obtain touched vs3 where tch: "resolve_touched H repository configured cwd
      (ac_touchedPaths canonical) vs2 = (touched, vs3)" by force
  obtain exe vs4 where exe: "canonicalizeExecutable H (ac_executable canonical) cwd vs3
      = (exe, vs4)" by force
  obtain argv de ad touched' vs5 where prs: "parse_action H source repository configured cwd exe
      canonical touched vs4 = (argv, de, ad, touched', vs5)" by (metis prod_cases5)
  have result: "canonicalizeAction H source action =
      \<lparr>car_action = canonical\<lparr>ac_executable := exe, ac_argv := argv, ac_cwd := cwd,
          ac_touchedPaths := sort (js_uniq touched')\<rparr>,
       car_violations = vs5, car_destructive = de, car_administrative = ad\<rparr>"
    using cwd conf tch exe prs
    by (simp add: canonicalizeAction_def Let_def canonical_def repository_def)
  then have "vs5 = []" using clean by simp
  note prs = prs [unfolded this]
  obtain parsed where vs4: "vs4 = []"
    and parsed: "parseArguments H (map_option (command_identity source) exe)
       (toLowerCase (ac_toolName canonical)) (ac_argv canonical)
       (resolvePath H repository configured) cwd [] = (Inr parsed, [])"
      "argv = pa_argv parsed" "de = pa_destructive parsed" "ad = pa_administrative parsed"
      "\<forall>p \<in> set (pa_paths parsed). resolved_ok H repository configured p \<or> p = cwd"
      "\<forall>t \<in> set touched'. t \<in> set touched \<or> resolved_ok H repository configured t"
    using parse_action_clean [OF prs] by metis
  note exe = canonicalizeExecutable_clean [OF exe [unfolded vs4]]
  note tch = resolve_touched_clean [OF tch [unfolded exe(1)]]
  have vs1: "vs1 = []"
    using conf tch by (auto simp: action_protected_def split: option.splits sum.splits)
  have start: "initial_violations action repository = []"
    using cwd vs1 by (auto simp: action_cwd_def split: option.splits sum.splits)
  then have valid: "validAction action" and "repository \<noteq> None"
    by (auto simp: initial_violations_def split: if_splits)
  then obtain r where r: "repository = Some r" by blast
  then have rid: "rpol_id r = ac_repositoryId canonical"
    unfolding repository_def repositoryFor_def using first_row_filter_Some by fastforce
  show thesis
    by (rule that [of r configured parsed])
       (use result valid r rid cwd conf tch parsed exe vs1 start in
         \<open>auto simp: canonical_def [symmetric] repository_def [symmetric] action_cwd_def
            action_protected_def list_all_iff split: sum.splits\<close>)
qed


subsection \<open>Classification, inverted\<close>

lemma decision_sel [simp]:
  "pd_classification (decision k reason fp) = k" "pd_fingerprint (decision k reason fp) = fp"
  "pd_reasonCode (decision k reason fp) = reason"
  by (simp_all add: decision_def)

lemma not_cloud [simp]: "p \<noteq> Cloud_command \<longleftrightarrow> p = Local_tool"
  by (cases p) auto

lemma not_denied:
  assumes "pd_classification (classifyAction H source action ctx) \<noteq> Denied"
  shows "ctx = Some Local_tool" "car_violations (canonicalizeAction H source action) = []"
    "denialForCommand (car_action (canonicalizeAction H source action)) = None"
    "isKnownTool (ac_toolName (car_action (canonicalizeAction H source action)))"
  using assms
  by (auto simp: classifyAction_def Let_def or_else_def
      split: option.splits list.splits if_splits Provenance.splits)

lemma automatic_inverted:
  assumes "pd_classification (classifyAction H source action ctx) = Automatic"
  shows "approvalForCommand (car_action (canonicalizeAction H source action))
      (car_destructive (canonicalizeAction H source action))
      (car_administrative (canonicalizeAction H source action)) = None"
    "automaticReason (car_action (canonicalizeAction H source action)) source \<noteq> None"
  using assms
  by (auto simp: classifyAction_def Let_def split: option.splits list.splits if_splits)

lemma registered_identity_Some:
  "registered_identity source exe = Some name \<Longrightarrow> (name, exe) \<in> set (executableMap source)"
  by (auto simp: registered_identity_def dest!: first_row_filter_Some)

definition sample_host :: host where
  "sample_host =
     \<lparr>host_cwd = ''/'', host_realpath = (\<lambda>p. if p = ''/r'' \<or> p = ''/r/a'' then Inr p else Inl ENOENT),
      host_lstat = (\<lambda>p. if p = ''/r'' then Inr Directory else if p = ''/r/a'' then Inr RegularFile
         else Inl ENOENT),
      host_stat = (\<lambda>p. if p = ''/r'' then Inr Directory else if p = ''/r/a'' then Inr RegularFile
         else Inl ENOENT),
      host_executable = (\<lambda>_. False), host_entries = (\<lambda>_. Inr []), host_PATH = None,
      host_RIPGREP_CONFIG_PATH = None, host_fileURLToPath = (\<lambda>_. None),
      host_ripgrep = (\<lambda>_ _ _. \<lparr>rg_failed = True, rg_stdout = None, rg_stdout_bytes = 0,
         rg_stderr_bytes = 0, rg_elapsed = (\<lambda>_. 0)\<rparr>),
      host_sha256 = (\<lambda>s. s)\<rparr>"

definition sample_source :: policy_source where
  "sample_source = PolicyOptions
     \<lparr>apo_repositories = RepositoryArray [\<lparr>rpol_id = ''repo'', rpol_canonicalPath = ''/r''\<rparr>],
      apo_trustedExecutables = [], apo_protectedPaths = [(''repo'', [''/r/secret''])]\<rparr>"

definition sample_action :: "string \<Rightarrow> string list \<Rightarrow> string \<Rightarrow> jsval" where
  "sample_action tool argv path = JObj
     [(''toolName'', JStr tool), (''argv'', JArr (map JStr argv)), (''cwd'', JStr ''/r''),
      (''repositoryId'', JStr ''repo''), (''touchedPaths'', JArr [JStr path]),
      (''environmentRead'', JStr ''none''), (''networkIntent'', JStr ''none''),
      (''fileChange'', JStr ''none''), (''externalSideEffect'', JStr ''none'')]"

lemma sample_host_ok: "host_ok sample_host"
proof -
  have "normal_path ''/r''" "normal_path ''/r/a''" by code_simp+
  then show ?thesis by (auto simp: host_ok_def sample_host_def split: if_splits)
qed

lemma sample_read_automatic:
  "pd_classification (classifyAction sample_host sample_source (sample_action ''read'' [''a''] ''/r/a'')
     (Some Local_tool)) = Automatic"
  by code_simp

lemma sample_read_paths:
  "ac_touchedPaths (car_action (canonicalizeAction sample_host sample_source
     (sample_action ''read'' [''a''] ''/r/a''))) = [''/r/a'']"
  by code_simp

lemma clean_action_confined:
  assumes "host_ok H" and "car_violations (canonicalizeAction H source action) = []"
  shows "\<exists>r configured.
     repositoryFor source (ac_repositoryId (car_action (canonicalizeAction H source action))) = Some r
     \<and> resolveProtectedPaths H (rpol_canonicalPath r) (configured_paths source (rpol_id r))
         = Inr configured
     \<and> normal_path (rpol_canonicalPath r)
     \<and> host_stat H (rpol_canonicalPath r) = Inr Directory
     \<and> prefix (segs (rpol_canonicalPath r))
         (segs (ac_cwd (car_action (canonicalizeAction H source action))))
     \<and> (\<forall>p \<in> set (ac_touchedPaths (car_action (canonicalizeAction H source action))).
          normal_path p \<and> prefix (segs (rpol_canonicalPath r)) (segs p)
          \<and> \<not> isProtectedPath H (rpol_canonicalPath r) p configured)"
proof (rule canonicalizeAction_clean [OF assms(2)])
  fix r configured parsed
  assume r: "repositoryFor source
      (ac_repositoryId (car_action (canonicalizeAction H source action))) = Some r"
    and cwd: "canonicalizePath H (rpol_canonicalPath r)
        (ac_cwd (actionWithFallback (fields_of action))) None
      = Inr (ac_cwd (car_action (canonicalizeAction H source action)))"
    and conf: "resolveProtectedPaths H (rpol_canonicalPath r)
        (configured_paths source (rpol_id r)) = Inr configured"
    and tch: "\<forall>p \<in> set (ac_touchedPaths (car_action (canonicalizeAction H source action))).
       resolved_ok H (Some r) configured p"
  show ?thesis
    using r conf canonicalizePath_Inr [OF assms(1) cwd] tch assms(1)
    by (auto simp: resolved_ok_def intro!: exI)
qed

text \<open>
  C22. An action that is not denied stays inside its repository: the repository is registered
  and its root is a canonical directory, the working directory and every touched path (with the
  files a ripgrep search would read) are canonical and inside that root, symbolic links
  resolved, and no touched path is a protected resource.
\<close>

theorem allowed_action_is_confined:
  assumes "host_ok H" and "pd_classification (classifyAction H source action ctx) \<noteq> Denied"
  shows "\<exists>r configured.
     repositoryFor source (ac_repositoryId (car_action (canonicalizeAction H source action))) = Some r
     \<and> resolveProtectedPaths H (rpol_canonicalPath r) (configured_paths source (rpol_id r))
         = Inr configured
     \<and> normal_path (rpol_canonicalPath r)
     \<and> host_stat H (rpol_canonicalPath r) = Inr Directory
     \<and> prefix (segs (rpol_canonicalPath r))
         (segs (ac_cwd (car_action (canonicalizeAction H source action))))
     \<and> (\<forall>p \<in> set (ac_touchedPaths (car_action (canonicalizeAction H source action))).
          normal_path p \<and> prefix (segs (rpol_canonicalPath r)) (segs p)
          \<and> \<not> isProtectedPath H (rpol_canonicalPath r) p configured)"
  using clean_action_confined [OF assms(1) not_denied(2) [OF assms(2)]] .

lemma sample_repository: "repositoryFor sample_source x = Some r \<Longrightarrow> rpol_canonicalPath r = ''/r''"
  by (auto simp: repositoryFor_def sample_source_def asRepositoryArray_def repository_array_def
      first_row_def split: list.splits if_splits)

theorem allowed_action_is_confined_witness:
  "prefix (segs ''/r'') (segs ''/r/a'')
   \<and> \<not> (\<forall>configured. isProtectedPath sample_host ''/r'' ''/r/a'' configured)"
  using allowed_action_is_confined [OF sample_host_ok, of sample_source
      "sample_action ''read'' [''a''] ''/r/a''" "Some Local_tool"] sample_read_automatic
    sample_repository
  by (auto simp: sample_read_paths)

text \<open>
  The arguments of an action that is not denied are the ones its command's grammar
  produced, and every path among them is inside the repository and not protected (or is the
  working directory itself).
\<close>

theorem allowed_arguments_are_confined:
  assumes "host_ok H" and "pd_classification (classifyAction H source action ctx) \<noteq> Denied"
  shows "\<exists>r configured parsed.
     repositoryFor source (ac_repositoryId (car_action (canonicalizeAction H source action))) = Some r
     \<and> parseArguments H (map_option (command_identity source)
            (ac_executable (car_action (canonicalizeAction H source action))))
          (toLowerCase (ac_toolName (car_action (canonicalizeAction H source action))))
          (ac_argv (actionWithFallback (fields_of action))) (resolvePath H (Some r) configured)
          (ac_cwd (car_action (canonicalizeAction H source action))) [] = (Inr parsed, [])
     \<and> ac_argv (car_action (canonicalizeAction H source action)) = pa_argv parsed
     \<and> (\<forall>p \<in> set (pa_paths parsed).
          (normal_path p \<and> prefix (segs (rpol_canonicalPath r)) (segs p)
           \<and> \<not> isProtectedPath H (rpol_canonicalPath r) p configured)
          \<or> p = ac_cwd (car_action (canonicalizeAction H source action)))"
proof (rule canonicalizeAction_clean [OF not_denied(2) [OF assms(2)]])
  fix r configured parsed
  assume "repositoryFor source
      (ac_repositoryId (car_action (canonicalizeAction H source action))) = Some r"
    and "parseArguments H (map_option (command_identity source)
         (ac_executable (car_action (canonicalizeAction H source action))))
       (toLowerCase (ac_toolName (car_action (canonicalizeAction H source action))))
       (ac_argv (actionWithFallback (fields_of action))) (resolvePath H (Some r) configured)
       (ac_cwd (car_action (canonicalizeAction H source action))) [] = (Inr parsed, [])"
    and "ac_argv (car_action (canonicalizeAction H source action)) = pa_argv parsed"
    and "\<forall>p \<in> set (pa_paths parsed). resolved_ok H (Some r) configured p
       \<or> p = ac_cwd (car_action (canonicalizeAction H source action))"
  then show ?thesis using assms(1) unfolding resolved_ok_def by blast
qed

theorem allowed_arguments_are_confined_witness:
  "\<exists>parsed :: ParsedArguments. [''/r/a''] = pa_argv parsed
     \<and> (\<forall>p \<in> set (pa_paths parsed). prefix (segs ''/r'') (segs p))"
proof -
  define A where "A = car_action (canonicalizeAction sample_host sample_source
      (sample_action ''read'' [''a''] ''/r/a''))"
  have eqs: "ac_argv A = [''/r/a'']" "ac_cwd A = ''/r''" unfolding A_def by code_simp+
  have "pd_classification (classifyAction sample_host sample_source
      (sample_action ''read'' [''a''] ''/r/a'') (Some Local_tool)) \<noteq> Denied"
    by (simp add: sample_read_automatic)
  from allowed_arguments_are_confined [OF sample_host_ok this, folded A_def]
  obtain r and parsed :: ParsedArguments where
    "repositoryFor sample_source (ac_repositoryId A) = Some r"
    "ac_argv A = pa_argv parsed"
    "\<forall>p \<in> set (pa_paths parsed). prefix (segs (rpol_canonicalPath r)) (segs p) \<or> p = ac_cwd A"
    by blast
  then have "[''/r/a''] = pa_argv parsed"
    "\<forall>p \<in> set (pa_paths parsed). prefix (segs ''/r'') (segs p) \<or> p = ''/r''"
    by (simp_all only: eqs sample_repository)
  then show ?thesis by (auto intro!: exI [of _ parsed])
qed


text \<open>
  C25. The policy fails closed: an action without a trusted provenance, from the cloud, with a
  malformed value, for an unknown repository, with any violation, that reads the whole
  environment, runs a shell or uses a tool the policy does not know, is denied.
\<close>

theorem policy_fails_closed:
  assumes "ctx \<noteq> Some Local_tool \<or> \<not> validAction action
     \<or> repositoryFor source (ac_repositoryId (actionWithFallback (fields_of action))) = None
     \<or> car_violations (canonicalizeAction H source action) \<noteq> []
     \<or> ac_environmentRead (car_action (canonicalizeAction H source action)) = Env_arbitrary
     \<or> executableName (car_action (canonicalizeAction H source action)) \<in> set shell_names
     \<or> \<not> isKnownTool (ac_toolName (car_action (canonicalizeAction H source action)))"
  shows "pd_classification (classifyAction H source action ctx) = Denied"
proof (rule ccontr)
  assume nd: "pd_classification (classifyAction H source action ctx) \<noteq> Denied"
  note facts = not_denied [OF nd]
  have same: "ac_repositoryId (car_action (canonicalizeAction H source action))
      = ac_repositoryId (actionWithFallback (fields_of action))"
    by (simp add: canonicalizeAction_def Let_def split: prod.splits)
  have "validAction action"
    "repositoryFor source (ac_repositoryId (actionWithFallback (fields_of action))) \<noteq> None"
    using canonicalizeAction_clean [OF facts(2)] same by (metis option.distinct(1))+
  moreover have "ac_environmentRead (car_action (canonicalizeAction H source action)) \<noteq> Env_arbitrary"
    "executableName (car_action (canonicalizeAction H source action)) \<notin> set shell_names"
    using facts(3) by (auto simp: denialForCommand_def Let_def split: if_splits)
  ultimately show False using assms facts(1,2,4) by auto
qed

theorem policy_fails_closed_witness:
  "pd_classification (classifyAction sample_host sample_source JNull (Some Local_tool)) = Denied"
  by (rule policy_fails_closed) (simp add: validAction_def isRecord_def)

text \<open>A script of a package manager, or the runner of its kind.\<close>

definition runs_script :: "string \<Rightarrow> string list \<Rightarrow> string \<Rightarrow> bool" where
  "runs_script exe argv kind =
     (packageScriptMatches exe argv kind
      \<or> (kind = ''test'' \<and> exe = ''vitest'' \<and> map_option toLowerCase (nth_arg argv 0) = Some ''run'')
      \<or> (kind = ''build'' \<and> exe = ''tsc''))"

definition automatic_kind :: "policy_source \<Rightarrow> CanonicalAction \<Rightarrow> bool" where
  "automatic_kind source a =
     (let tool = toLowerCase (ac_toolName a) in
      case ac_executable a of
        None \<Rightarrow>
          (tool \<in> set (search_tools @ [''read_file'', ''read'', ''file_read''])
             \<and> ac_fileChange a = Change_none)
          \<or> (tool \<in> {''edit_file'', ''write_file'', ''apply_patch''}
             \<and> ac_fileChange a = Change_bounded)
      | Some exe \<Rightarrow> \<exists>(name, path) \<in> set (executableMap source). path = exe
          \<and> ((tool \<in> set search_tools \<and> executable_name name \<in> {''grep'', ''rg''}
                \<and> ac_fileChange a = Change_none)
             \<or> (test_tool tool \<and> runs_script (executable_name name) (ac_argv a) ''test'')
             \<or> (tool \<in> {''build'', ''compile''}
                \<and> runs_script (executable_name name) (ac_argv a) ''build'')))"

lemma automatic_unrun:
  assumes "automatic_tool_reason a \<noteq> None" and "ac_executable a = None"
  shows "automatic_kind source a"
  using assms
  by (auto simp: automatic_kind_def automatic_tool_reason_def Let_def runnerExecutableMatches_def
      split: if_splits)

lemma automatic_run:
  assumes "automatic_tool_reason (a\<lparr>ac_executable := Some name\<rparr>) \<noteq> None"
    and "ac_executable a = Some exe" and "(name, exe) \<in> set (executableMap source)"
  shows "automatic_kind source a"
  using assms
  by (fastforce simp: automatic_kind_def automatic_tool_reason_def Let_def searchExecutableMatches_def
      runs_script_def runnerExecutableMatches_def executableName_def or_else_def split: if_splits)

lemma automaticReason_kind:
  assumes "automaticReason a source \<noteq> None"
  shows "automaticFlagsAreSafe a \<and> automatic_kind source a"
  using assms automatic_unrun automatic_run registered_identity_Some
  by (fastforce simp: automaticReason_def split: if_splits option.splits)

text \<open>
  C26. What is allowed automatically comes from a local tool, declares no environment read, no
  network use and no external effect, is neither destructive nor administrative, and is one of
  these: a search or a read that declares no file change, a bounded edit by a file tool, or a run
  of a registered executable, which is a search by grep or rg, or the test or build script of a
  package manager, vitest or tsc. An edit does write files, and what a script does is its own:
  the policy judges the call, not its effects.
\<close>

theorem automatic_action_is_limited:
  assumes "pd_classification (classifyAction H source action ctx) = Automatic"
  shows "ctx = Some Local_tool
    \<and> ac_environmentRead (car_action (canonicalizeAction H source action)) = Env_none
    \<and> ac_networkIntent (car_action (canonicalizeAction H source action)) = Net_none
    \<and> ac_externalSideEffect (car_action (canonicalizeAction H source action)) = Effect_none
    \<and> ac_fileChange (car_action (canonicalizeAction H source action)) \<noteq> Change_destructive
    \<and> \<not> car_destructive (canonicalizeAction H source action)
    \<and> car_administrative (canonicalizeAction H source action) = None
    \<and> automatic_kind source (car_action (canonicalizeAction H source action))"
proof -
  define C where "C = canonicalizeAction H source action"
  define A where "A = car_action C"
  have nd: "pd_classification (classifyAction H source action ctx) \<noteq> Denied" using assms by simp
  have appr: "approvalForCommand A (car_destructive C) (car_administrative C) = None"
    and auto: "automaticReason A source \<noteq> None"
    using automatic_inverted [OF assms] by (simp_all add: A_def C_def)
  have quiet: "\<not> car_destructive C" "car_administrative C = None"
    "ac_fileChange A \<noteq> Change_destructive"
    using appr by (auto simp: approvalForCommand_def Let_def split: if_splits)
       (metis Administrative.exhaust option.exhaust)
  show ?thesis
    using not_denied(1) [OF nd] quiet automaticReason_kind [OF auto]
    by (simp add: automaticFlagsAreSafe_def A_def C_def)
qed

theorem automatic_action_is_limited_witness:
  "automatic_kind sample_source (car_action (canonicalizeAction sample_host sample_source
      (sample_action ''read'' [''a''] ''/r/a'')))"
  using automatic_action_is_limited [OF sample_read_automatic] by simp

subsection \<open>The fingerprint binds the action\<close>

lemma stableJson_strings: "stableJson nt (JArr (map JStr xs)) = json_strings xs"
  by (simp add: json_strings_def comp_def)

definition json_opt :: "string option \<Rightarrow> string" where
  "json_opt x = (case x of None \<Rightarrow> ''null'' | Some s \<Rightarrow> json_string s)"

lemma json_opt_prefix:
  assumes "json_opt x @ r = json_opt y @ q"
  shows "x = y \<and> r = q"
proof (cases x; cases y)
  fix s t assume "x = Some s" "y = Some t"
  then show ?thesis using assms json_string_prefix [of s r t q] by (simp add: json_opt_def)
qed (use assms in \<open>auto simp: json_opt_def json_string_def\<close>)

lemma stableJson_opt:
  "stableJson nt (case x of None \<Rightarrow> JNull | Some s \<Rightarrow> JStr s) = json_opt x"
  by (simp add: json_opt_def split: option.splits)

definition key_text :: "string \<Rightarrow> string" where
  "key_text k = json_string k @ '':''"

lemma canonicalActionJson_text:
  "canonicalActionJson a p =
     ''{'' @ key_text ''argv'' @ json_strings (ac_argv a)
     @ '','' @ key_text ''cwd'' @ json_string (ac_cwd a)
     @ '','' @ key_text ''environmentRead'' @ json_string (env_text (ac_environmentRead a))
     @ '','' @ key_text ''executable'' @ json_opt (ac_executable a)
     @ '','' @ key_text ''externalSideEffect'' @ json_string (effect_text (ac_externalSideEffect a))
     @ '','' @ key_text ''fileChange'' @ json_string (change_text (ac_fileChange a))
     @ '','' @ key_text ''networkIntent'' @ json_string (net_text (ac_networkIntent a))
     @ '','' @ key_text ''provenance'' @ json_string (provenance_text p)
     @ '','' @ key_text ''repositoryId'' @ json_string (ac_repositoryId a)
     @ '','' @ key_text ''toolName'' @ json_string (ac_toolName a)
     @ '','' @ key_text ''touchedPaths'' @ json_strings (sort (ac_touchedPaths a)) @ ''}''"
proof -
  have keys: "sorted [''argv'', ''cwd'', ''environmentRead'', ''executable'', ''externalSideEffect'',
      ''fileChange'', ''networkIntent'', ''provenance'', ''repositoryId'', ''toolName'', ''touchedPaths'']"
    by code_simp
  let ?nt = "\<lambda>_ :: rat. [] :: string"
  let ?fields = "[(''argv'', json_strings (ac_argv a)), (''cwd'', json_string (ac_cwd a)),
     (''environmentRead'', json_string (env_text (ac_environmentRead a))),
     (''executable'', json_opt (ac_executable a)),
     (''externalSideEffect'', json_string (effect_text (ac_externalSideEffect a))),
     (''fileChange'', json_string (change_text (ac_fileChange a))),
     (''networkIntent'', json_string (net_text (ac_networkIntent a))),
     (''provenance'', json_string (provenance_text p)),
     (''repositoryId'', json_string (ac_repositoryId a)),
     (''toolName'', json_string (ac_toolName a)),
     (''touchedPaths'', json_strings (sort (ac_touchedPaths a)))]"
  have "sort_key fst ?fields = ?fields"
    by (rule sort_key_id_if_sorted) (use keys in simp)
  then show ?thesis
    unfolding canonicalActionJson_def canonicalFingerprintRecord_def stableJson.simps(7)
    by (simp only: list.map fst_conv snd_conv stableJson_strings stableJson_opt stableJson.simps(5)
        join_with.simps key_text_def append_assoc)
qed

lemma text_injs:
  "env_text e = env_text e' \<longleftrightarrow> e = e'" "net_text n = net_text n' \<longleftrightarrow> n = n'"
  "change_text c = change_text c' \<longleftrightarrow> c = c'" "effect_text x = effect_text x' \<longleftrightarrow> x = x'"
  "provenance_text p = provenance_text p' \<longleftrightarrow> p = p'"
  by ((cases e; cases e'; simp), (cases n; cases n'; simp), (cases c; cases c'; simp),
      (cases x; cases x'; simp), (cases p; cases p'; simp))

text \<open>
  C27. The text that is hashed into an action's fingerprint determines the action: two actions
  with the same canonical JSON agree in tool, executable, arguments, working directory,
  repository, flags, provenance and, as a multiset, in the paths they touch.
\<close>

theorem canonical_json_determines_action:
  "canonicalActionJson a p = canonicalActionJson b q \<longleftrightarrow>
     p = q \<and> a\<lparr>ac_touchedPaths := sort (ac_touchedPaths a)\<rparr>
       = b\<lparr>ac_touchedPaths := sort (ac_touchedPaths b)\<rparr>"
proof
  assume "canonicalActionJson a p = canonicalActionJson b q"
  note t = this [unfolded canonicalActionJson_text same_append_eq]
  note t1 = json_strings_prefix [OF t]
  note t2 = json_string_prefix [OF conjunct2 [OF t1, unfolded same_append_eq]]
  note t3 = json_string_prefix [OF conjunct2 [OF t2, unfolded same_append_eq]]
  note t4 = json_opt_prefix [OF conjunct2 [OF t3, unfolded same_append_eq]]
  note t5 = json_string_prefix [OF conjunct2 [OF t4, unfolded same_append_eq]]
  note t6 = json_string_prefix [OF conjunct2 [OF t5, unfolded same_append_eq]]
  note t7 = json_string_prefix [OF conjunct2 [OF t6, unfolded same_append_eq]]
  note t8 = json_string_prefix [OF conjunct2 [OF t7, unfolded same_append_eq]]
  note t9 = json_string_prefix [OF conjunct2 [OF t8, unfolded same_append_eq]]
  note t10 = json_string_prefix [OF conjunct2 [OF t9, unfolded same_append_eq]]
  note t11 = json_strings_prefix [OF conjunct2 [OF t10, unfolded same_append_eq]]
  show "p = q \<and> a\<lparr>ac_touchedPaths := sort (ac_touchedPaths a)\<rparr>
       = b\<lparr>ac_touchedPaths := sort (ac_touchedPaths b)\<rparr>"
    using t1 t2 t3 t4 t5 t6 t7 t8 t9 t10 t11
    by (simp add: text_injs)
next
  assume "p = q \<and> a\<lparr>ac_touchedPaths := sort (ac_touchedPaths a)\<rparr>
       = b\<lparr>ac_touchedPaths := sort (ac_touchedPaths b)\<rparr>"
  then show "canonicalActionJson a p = canonicalActionJson b q"
    unfolding canonicalActionJson_text
    by (cases a; cases b) auto
qed

subsection \<open>Containment and the search walk\<close>

text \<open>
  C29. Containment is decided segment by segment: a path is inside a root exactly when both are
  absolute and the root's normalized segments are a prefix of the path's, so that neither
  \<open>/r-evil\<close> nor a climb with \<open>..\<close> counts as inside \<open>/r\<close>.
\<close>

theorem containment_is_segmentwise:
  "isPathWithinRoot cwd repo target \<longleftrightarrow>
     isAbsolute repo \<and> isAbsolute target \<and> prefix (segs repo) (segs target)"
  using within_iff by (auto simp: isPathWithinRoot_def)

text \<open>
  A path that canonicalization returns is a normalized absolute path inside a root that is
  its own real path and a directory; where the target exists it is its real path, so no symbolic
  link leads out of the root. An empty target and one with a \<open>..\<close> segment are refused.
\<close>

theorem canonical_path_is_contained:
  assumes "host_ok H" and "canonicalizePath H repo target basePath = Inr p"
  shows "normal_path p \<and> prefix (segs repo) (segs p)
    \<and> host_realpath H repo = Inr repo \<and> host_stat H repo = Inr Directory
    \<and> target \<noteq> [] \<and> \<not> hasTraversalSegment target
    \<and> (\<forall>q. isAbsolute target \<longrightarrow> host_realpath H target = Inr q \<longrightarrow> p = q)"
proof -
  have "host_realpath H repo = Inr repo"
    using assms(2) by (auto simp: canonicalizePath_def canonicalRoot_Inr split: sum.splits)
  moreover have "p = q" if "isAbsolute target" "host_realpath H target = Inr q" for q
    using assms(2) that
    by (auto simp: canonicalizePath_def assertPathInput_def Let_def split: sum.splits if_splits)
  ultimately show ?thesis using canonicalizePath_Inr [OF assms] by blast
qed

theorem canonical_path_is_contained_witness:
  "prefix (segs ''/r'') (segs ''/r/a'') \<and> host_stat sample_host ''/r'' = Inr Directory"
proof -
  have "canonicalizePath sample_host ''/r'' ''a'' (Some ''/r'') = Inr ''/r/a''" by code_simp
  from canonical_path_is_contained [OF sample_host_ok this] show ?thesis by blast
qed

text \<open>
  C30. The walk before a content search is complete: when it accepts the operands, no file the
  search can reach below them without following symbolic links is a protected resource, under
  its own spelling.
\<close>

theorem search_walk_is_complete:
  assumes "assertSearchResources H repo paths configured = Inr ()" and "walked H (set paths) p"
  shows "\<not> isProtectedPath H repo p configured"
  using assms search_resources_sound unfolding assertSearchResources_def by (metis set_rev)

theorem search_walk_is_complete_witness:
  "\<not> isProtectedPath sample_host ''/r'' ''/r/a'' [''/r/secret'']"
proof (rule search_walk_is_complete)
  show "assertSearchResources sample_host ''/r'' [''/r/a''] [''/r/secret''] = Inr ()"
    by code_simp
  show "walked sample_host (set [''/r/a'']) ''/r/a''" by (simp add: walked.operand)
qed

end
