(* ===== verification/Policy_Guard.thy ===== *)
theory Policy_Guard
  imports Policy_Properties
begin

section \<open>From a tool call to its execution\<close>

text \<open>
  \<open>trusted-execution-adapter.ts\<close> maps a call of a declared host tool to an action, and
  \<open>register-guard.ts\<close> lets the call through: its \<open>tools/pre-execute\<close> handler classifies it, asks
  for approval when the policy wants it and leaves a proof; its guard classifies the call
  again at the execution boundary and consumes the proof.
\<close>

subsection \<open>The adapter\<close>

datatype DeclaredToolRole = CommandRole | ReadRole | WriteRole | SearchRole

definition DECLARED_TOOL_ROLES :: "(string \<times> DeclaredToolRole) list" where
  "DECLARED_TOOL_ROLES =
     [(''bash'', CommandRole), (''pwsh'', CommandRole), (''read'', ReadRole), (''write'', WriteRole),
      (''edit'', WriteRole), (''grep'', SearchRole), (''glob'', SearchRole)]"

text \<open>
  The roles are looked up with \<open>roles[name]\<close> in an ordinary object, so a name that objects
  inherit from \<open>Object.prototype\<close> is found too; its value is none of the four roles.
\<close>

definition object_prototype_names :: "string list" where
  "object_prototype_names =
     [''constructor'', ''__defineGetter__'', ''__defineSetter__'', ''hasOwnProperty'',
      ''__lookupGetter__'', ''__lookupSetter__'', ''isPrototypeOf'', ''propertyIsEnumerable'',
      ''toString'', ''valueOf'', ''__proto__'', ''toLocaleString'']"

datatype role_value = OwnRole DeclaredToolRole | InheritedValue

definition role_lookup :: "(string \<times> DeclaredToolRole) list \<Rightarrow> string \<Rightarrow> role_value option" where
  "role_lookup roles name =
     (case map_of roles name of
        Some r \<Rightarrow> Some (OwnRole r)
      | None \<Rightarrow> if name \<in> set object_prototype_names then Some InheritedValue else None)"

record TrustedExecutionAdapterOptions =
  tea_repositoryId :: string
  tea_repositoryRoot :: string
  tea_declaredTools :: "(string \<times> DeclaredToolRole) list option"

record execution =
  ex_id :: nat
  ex_name :: string
  ex_arguments :: jsval

record TrustedPolicyAction =
  tp_action :: jsval
  tp_provenance :: Provenance
  tp_sourceTool :: "string option"

definition safe_char :: "char \<Rightarrow> bool" where
  "safe_char c = (is_alnum c \<or> one_of ''_./:@,+-'' c)"

definition SAFE_COMMAND :: rx where
  "SAFE_COMMAND = Seq (Plus (Cls safe_char)) (Star (Seq (Plus (Cls is_js_space)) (Plus (Cls safe_char))))"

definition canonicalCommandTool :: "string \<Rightarrow> string list \<Rightarrow> string option" where
  "canonicalCommandTool executable argv =
     (let exe = toLowerCase executable;
          first = map_option toLowerCase (nth_arg argv 0);
          runner = (exe \<in> set [''npm'', ''pnpm'', ''yarn'', ''bun'']) in
      if runner \<and> first \<in> set [Some ''install'', Some ''i'', Some ''add'', Some ''ci'']
      then Some ''package_install''
      else if exe = ''git'' \<and> first = Some ''push'' then Some ''git_push''
      else if exe \<in> set [''vercel'', ''netlify'', ''fly'', ''flyctl'', ''heroku'']
              \<and> (first = Some ''deploy'' \<or> first = Some ''up'')
      then Some ''deploy''
      else if (runner \<and> first = Some ''test'') \<or> exe = ''vitest'' \<or> exe = ''jest'' then Some ''test''
      else if (runner \<and> (first = Some ''build''
                 \<or> (first = Some ''run''
                     \<and> map_option toLowerCase (nth_arg argv 1) = Some ''build'')))
              \<or> exe = ''tsc''
      then Some ''build''
      else None)"

definition plainRecord :: "jsval \<Rightarrow> (string \<times> jsval) list option" where
  "plainRecord v = (case v of JObj fs \<Rightarrow> Some fs | _ \<Rightarrow> None)"

definition stringField :: "(string \<times> jsval) list \<Rightarrow> string \<Rightarrow> string option" where
  "stringField rec field =
     (case the_str (get_prop rec field) of
        Some s \<Rightarrow> if s = [] then None else Some s
      | None \<Rightarrow> None)"

text \<open>The object literal of an action without side effects.\<close>

definition action_value ::
  "TrustedExecutionAdapterOptions \<Rightarrow> string \<Rightarrow> string option \<Rightarrow> string list \<Rightarrow> string list \<Rightarrow> FileChange
     \<Rightarrow> jsval" where
  "action_value opts toolName executable argv touchedPaths fileChange =
     JObj ([(''toolName'', JStr toolName)]
       @ (case executable of Some e \<Rightarrow> [(''executable'', JStr e)] | None \<Rightarrow> [])
       @ [(''argv'', JArr (map JStr argv)), (''cwd'', JStr (tea_repositoryRoot opts)),
          (''repositoryId'', JStr (tea_repositoryId opts)),
          (''touchedPaths'', JArr (map JStr touchedPaths)),
          (''environmentRead'', JStr (env_text Env_none)),
          (''networkIntent'', JStr (net_text Net_none)),
          (''fileChange'', JStr (change_text fileChange)),
          (''externalSideEffect'', JStr (effect_text Effect_none))])"

definition commandAction :: "TrustedExecutionAdapterOptions \<Rightarrow> jsval \<Rightarrow> jsval option" where
  "commandAction opts arguments =
     (case plainRecord arguments of
        None \<Rightarrow> None
      | Some rec \<Rightarrow>
          (case stringField rec ''command'' of
             None \<Rightarrow> None
           | Some command \<Rightarrow>
               if \<not> rx_match SAFE_COMMAND command then None
               else case filter (\<lambda>t. t \<noteq> []) (split_on is_js_space command) of
                   [] \<Rightarrow> None
                 | executable # argv \<Rightarrow>
                     map_option (\<lambda>tool. action_value opts tool (Some executable) argv [] Change_none)
                       (canonicalCommandTool executable argv)))"


definition fileAction ::
  "TrustedExecutionAdapterOptions \<Rightarrow> jsval \<Rightarrow> string \<Rightarrow> FileChange \<Rightarrow> bool \<Rightarrow> jsval option" where
  "fileAction opts arguments toolName fileChange requirePath =
     (case plainRecord arguments of
        None \<Rightarrow> None
      | Some rec \<Rightarrow>
          (case stringField rec ''path'' of
             None \<Rightarrow>
               if requirePath \<or> map_of rec ''path'' \<noteq> None then None
               else Some (action_value opts toolName None [] [] fileChange)
           | Some path \<Rightarrow> Some (action_value opts toolName None [] [path] fileChange)))"

definition createTrustedExecutionAdapter ::
  "TrustedExecutionAdapterOptions \<Rightarrow> execution \<Rightarrow> TrustedPolicyAction option" where
  "createTrustedExecutionAdapter opts execution =
     (case role_lookup (or_else (tea_declaredTools opts) DECLARED_TOOL_ROLES) (ex_name execution) of
        None \<Rightarrow> None
      | Some role \<Rightarrow>
          map_option (\<lambda>action. \<lparr>tp_action = action, tp_provenance = Local_tool,
              tp_sourceTool = Some (ex_name execution)\<rparr>)
            (if role = OwnRole CommandRole then commandAction opts (ex_arguments execution)
             else if role = OwnRole ReadRole
             then fileAction opts (ex_arguments execution) ''read'' Change_none True
             else if role = OwnRole WriteRole
             then fileAction opts (ex_arguments execution)
                    (if ex_name execution = ''edit'' then ''edit_file'' else ''write_file'')
                    Change_bounded True
             else fileAction opts (ex_arguments execution) ''search'' Change_none False))"

subsection \<open>The guard\<close>

definition classify ::
  "host \<Rightarrow> policy_source \<Rightarrow> (execution \<Rightarrow> TrustedPolicyAction option) \<Rightarrow> execution
     \<Rightarrow> PolicyDecision option" where
  "classify H source resolveAction execution =
     (case resolveAction execution of
        None \<Rightarrow> None
      | Some resolved \<Rightarrow>
          let name = (case tp_sourceTool resolved of
                        Some s \<Rightarrow> JStr s
                      | None \<Rightarrow> get_prop (fields_of (tp_action resolved)) ''toolName'') in
          if name \<noteq> JStr (ex_name execution) then None
          else Some (classifyAction H source (tp_action resolved) (Some (tp_provenance resolved))))"

text \<open>
  The state of one registered guard, by execution: the executions seen, the proof object each
  has been given, and whether that proof is still in the map.
\<close>

record proof_object =
  po_fingerprint :: string
  po_granted :: bool

record guard_state =
  gs_visited :: "nat set"
  gs_proof :: "nat \<rightharpoonup> proof_object"
  gs_mapped :: "nat set"

definition initial_guard :: guard_state where
  "initial_guard = \<lparr>gs_visited = {}, gs_proof = Map.empty, gs_mapped = {}\<rparr>"

datatype PreToolDecision =
    Deny string
  | Allow
  | Next
  | Asking

datatype approval_outcome = AllowedOnce | NotAllowed | ApprovalThrew

text \<open>
  The \<open>tools/pre-execute\<close> handler up to its only \<open>await\<close>. \<open>trusted\<close> says that the execution
  belongs to the guarded agent and is not aborted, \<open>service\<close> that the approval service exists.
\<close>

definition grant :: "nat \<Rightarrow> guard_state \<Rightarrow> guard_state" where
  "grant i st =
     st\<lparr>gs_proof := (gs_proof st)(i := map_option (\<lambda>p. p\<lparr>po_granted := True\<rparr>) (gs_proof st i))\<rparr>"

definition pre_execute ::
  "host \<Rightarrow> policy_source \<Rightarrow> (execution \<Rightarrow> TrustedPolicyAction option) \<Rightarrow> bool \<Rightarrow> bool \<Rightarrow> execution
     \<Rightarrow> guard_state \<Rightarrow> PreToolDecision \<times> guard_state" where
  "pre_execute H source resolveAction trusted service execution st =
     (let i = ex_id execution in
      if \<not> trusted \<or> i \<in> gs_visited st then (Deny ''POLICY_DENIED:UNTRUSTED_EXECUTION'', st)
      else
        let st1 = st\<lparr>gs_visited := insert i (gs_visited st)\<rparr> in
        case classify H source resolveAction execution of
          None \<Rightarrow> (Deny ''POLICY_DENIED:UNTRUSTED_ACTION'', st1)
        | Some result \<Rightarrow>
            if pd_classification result = Denied
            then (Deny (''POLICY_DENIED:'' @ pd_reasonCode result), st1)
            else
              let st2 = st1\<lparr>gs_proof := (gs_proof st1)(i \<mapsto>
                      \<lparr>po_fingerprint = pd_fingerprint result, po_granted = False\<rparr>),
                    gs_mapped := insert i (gs_mapped st1)\<rparr> in
              if pd_classification result = Approval_required
              then (if service then (Asking, st2)
                    else (Deny ''POLICY_DENIED:APPROVAL_UNAVAILABLE'', st2))
              else (Next, grant i st2))"

text \<open>The rest of the handler, when the approval request settles.\<close>

definition approval_settled ::
  "approval_outcome \<Rightarrow> bool \<Rightarrow> nat \<Rightarrow> guard_state \<Rightarrow> PreToolDecision \<times> guard_state" where
  "approval_settled outcome aborted i st =
     (case outcome of
        ApprovalThrew \<Rightarrow> (Deny ''POLICY_DENIED:APPROVAL_UNAVAILABLE'', st)
      | NotAllowed \<Rightarrow> (Deny ''POLICY_DENIED:APPROVAL_NOT_GRANTED'', st)
      | AllowedOnce \<Rightarrow>
          if aborted then (Deny ''POLICY_DENIED:APPROVAL_NOT_GRANTED'', st)
          else (Allow, grant i st))"

definition guard ::
  "host \<Rightarrow> policy_source \<Rightarrow> (execution \<Rightarrow> TrustedPolicyAction option) \<Rightarrow> bool \<Rightarrow> execution
     \<Rightarrow> guard_state \<Rightarrow> string option \<times> guard_state" where
  "guard H source resolveAction trusted execution st =
     (let i = ex_id execution;
          proof = (if i \<in> gs_mapped st then gs_proof st i else None);
          st1 = st\<lparr>gs_mapped := gs_mapped st - {i}\<rparr> in
      (if \<not> trusted then Some ''POLICY_DENIED:UNTRUSTED_EXECUTION''
       else case classify H source resolveAction execution of
           None \<Rightarrow> Some ''POLICY_DENIED:UNTRUSTED_ACTION''
         | Some result \<Rightarrow>
             if pd_classification result = Denied
             then Some (''POLICY_DENIED:'' @ pd_reasonCode result)
             else case proof of
                 None \<Rightarrow> Some ''POLICY_DENIED:APPROVAL_PROOF_REQUIRED''
               | Some p \<Rightarrow>
                   if po_fingerprint p \<noteq> pd_fingerprint result
                   then Some ''POLICY_DENIED:PATH_CHANGED''
                   else if \<not> po_granted p then Some ''POLICY_DENIED:APPROVAL_PROOF_REQUIRED''
                   else None, st1))"

subsection \<open>Runs of a guard\<close>

text \<open>
  What can happen to a registered guard, in any order and for any executions: a handler
  starts, a pending approval settles (once, and only for a handler that is waiting), the guard
  is called. The host may differ at every event: files change while an approval is pending. An
  event records the execution, the host it met and the answer.
\<close>

datatype guard_event =
    Started execution host PreToolDecision
  | Settled nat approval_outcome PreToolDecision
  | Guarded execution host "string option"

definition asking :: "guard_event list \<Rightarrow> nat \<Rightarrow> bool" where
  "asking es i =
     ((\<exists>x H. Started x H Asking \<in> set es \<and> ex_id x = i) \<and> (\<forall>o' d. Settled i o' d \<notin> set es))"

inductive guard_run ::
  "policy_source \<Rightarrow> (execution \<Rightarrow> TrustedPolicyAction option) \<Rightarrow> guard_event list \<Rightarrow> guard_state \<Rightarrow> bool"
  for source resolveAction where
  start: "guard_run source resolveAction [] initial_guard"
| started: "guard_run source resolveAction es st
    \<Longrightarrow> pre_execute H source resolveAction trusted service x st = (d, st')
    \<Longrightarrow> guard_run source resolveAction (es @ [Started x H d]) st'"
| settled: "guard_run source resolveAction es st \<Longrightarrow> asking es i
    \<Longrightarrow> approval_settled outcome aborted i st = (d, st')
    \<Longrightarrow> guard_run source resolveAction (es @ [Settled i outcome d]) st'"
| guarded: "guard_run source resolveAction es st
    \<Longrightarrow> guard H source resolveAction trusted x st = (r, st')
    \<Longrightarrow> guard_run source resolveAction (es @ [Guarded x H r]) st'"

text \<open>The executions the guard let through, in order.\<close>

fun passed :: "guard_event list \<Rightarrow> nat list" where
  "passed [] = []"
| "passed (Guarded x H None # es) = ex_id x # passed es"
| "passed (_ # es) = passed es"

lemma passed_append [simp]: "passed (es @ es') = passed es @ passed es'"
  by (induction es rule: passed.induct) simp_all

lemma passed_set: "i \<in> set (passed es) \<longleftrightarrow> (\<exists>x H. Guarded x H None \<in> set es \<and> ex_id x = i)"
  by (induction es rule: passed.induct) auto

text \<open>
  What a proof of execution \<open>i\<close> stands for: a handler of that execution classified it, did not
  find it denied and took its fingerprint; if it needed approval, one was given once.
\<close>

definition backed ::
  "policy_source \<Rightarrow> (execution \<Rightarrow> TrustedPolicyAction option) \<Rightarrow> guard_event list \<Rightarrow> nat \<Rightarrow> string \<Rightarrow> bool
     \<Rightarrow> bool" where
  "backed source resolveAction es i fp granted =
     (\<exists>x H d r. Started x H d \<in> set es \<and> ex_id x = i
        \<and> classify H source resolveAction x = Some r
        \<and> pd_classification r \<noteq> Denied \<and> pd_fingerprint r = fp
        \<and> (granted \<longrightarrow> pd_classification r = Approval_required \<longrightarrow> Settled i AllowedOnce Allow \<in> set es))"

definition guard_inv ::
  "policy_source \<Rightarrow> (execution \<Rightarrow> TrustedPolicyAction option) \<Rightarrow> guard_event list \<Rightarrow> guard_state \<Rightarrow> bool" where
  "guard_inv source resolveAction es st =
     (gs_mapped st \<subseteq> gs_visited st \<and> set (passed es) \<subseteq> gs_visited st - gs_mapped st
      \<and> distinct (passed es)
      \<and> (\<forall>i p. gs_proof st i = Some p
           \<longrightarrow> i \<in> gs_visited st \<and> backed source resolveAction es i (po_fingerprint p) (po_granted p)))"

lemma backed_mono:
  "backed source resolveAction es i fp g \<Longrightarrow> backed source resolveAction (es @ es') i fp g"
  unfolding backed_def by (metis Un_iff set_append)

lemma guard_invI:
  assumes "gs_mapped st \<subseteq> gs_visited st" "set (passed es) \<subseteq> gs_visited st - gs_mapped st"
    "distinct (passed es)"
    "\<And>i p. gs_proof st i = Some p
       \<Longrightarrow> i \<in> gs_visited st \<and> backed source resolveAction es i (po_fingerprint p) (po_granted p)"
  shows "guard_inv source resolveAction es st"
  using assms unfolding guard_inv_def by blast

lemma guard_invD:
  assumes "guard_inv source resolveAction es st"
  shows "gs_mapped st \<subseteq> gs_visited st" "set (passed es) \<subseteq> gs_visited st - gs_mapped st"
    "distinct (passed es)"
    "gs_proof st i = Some p \<Longrightarrow> i \<in> gs_visited st"
    "gs_proof st i = Some p \<Longrightarrow> backed source resolveAction es i (po_fingerprint p) (po_granted p)"
  using assms unfolding guard_inv_def by blast+

lemma pre_execute_inv:
  assumes inv: "guard_inv source resolveAction es st"
    and step: "pre_execute H source resolveAction trusted service x st = (d, st')"
  shows "guard_inv source resolveAction (es @ [Started x H d]) st'"
proof (cases "\<not> trusted \<or> ex_id x \<in> gs_visited st")
  case True
  with step have "st' = st" by (simp add: pre_execute_def Let_def)
  then show ?thesis using guard_invD [OF inv] by (auto intro!: guard_invI backed_mono)
next
  case fresh: False
  show ?thesis
  proof (cases "classify H source resolveAction x")
    case None
    with step fresh have "st' = st\<lparr>gs_visited := insert (ex_id x) (gs_visited st)\<rparr>"
      by (simp add: pre_execute_def Let_def)
    then show ?thesis using guard_invD [OF inv] by (auto intro!: guard_invI backed_mono)
  next
    case (Some r)
    show ?thesis
    proof (cases "pd_classification r = Denied")
      case True
      with step fresh Some have "st' = st\<lparr>gs_visited := insert (ex_id x) (gs_visited st)\<rparr>"
        by (simp add: pre_execute_def Let_def)
      then show ?thesis using guard_invD [OF inv] by (auto intro!: guard_invI backed_mono)
    next
      case False
      define g where "g = (pd_classification r \<noteq> Approval_required)"
      define p where "p = \<lparr>po_fingerprint = pd_fingerprint r, po_granted = g\<rparr>"
      have st': "st' = \<lparr>gs_visited = insert (ex_id x) (gs_visited st),
          gs_proof = (gs_proof st)(ex_id x \<mapsto> p), gs_mapped = insert (ex_id x) (gs_mapped st)\<rparr>"
        using step fresh Some False
        by (cases st) (auto simp: pre_execute_def Let_def grant_def p_def g_def split: if_splits)
      have "backed source resolveAction (es @ [Started x H d]) (ex_id x) (pd_fingerprint r) g"
        unfolding backed_def g_def using Some False by force
      then show ?thesis
        using guard_invD(1-4) [OF inv] guard_invD(5) [OF inv, THEN backed_mono] fresh unfolding st'
        by (auto intro!: guard_invI simp: p_def split: if_splits)
    qed
  qed
qed

lemma approval_settled_inv:
  assumes inv: "guard_inv source resolveAction es st"
    and step: "approval_settled outcome aborted i st = (d, st')"
  shows "guard_inv source resolveAction (es @ [Settled i outcome d]) st'"
proof (cases "outcome = AllowedOnce \<and> \<not> aborted")
  case True
  with step have d: "d = Allow" and st': "st' = grant i st" by (auto simp: approval_settled_def)
  have "backed source resolveAction (es @ [Settled i AllowedOnce Allow]) i (po_fingerprint p) True"
    if "gs_proof st i = Some p" for p
    using guard_invD(5) [OF inv that] unfolding backed_def by force
  then show ?thesis
    using guard_invD(1-4) [OF inv] guard_invD(5) [OF inv, THEN backed_mono] True d
    unfolding st' grant_def by (auto intro!: guard_invI split: if_splits)
next
  case False
  with step have "st' = st" by (auto simp: approval_settled_def split: approval_outcome.splits if_splits)
  then show ?thesis using guard_invD [OF inv] by (auto intro!: guard_invI backed_mono)
qed

text \<open>What the guard has checked when it returns nothing.\<close>

lemma guard_passes:
  assumes "guard H source resolveAction trusted x st = (None, st')"
  obtains r p where "trusted" "classify H source resolveAction x = Some r"
    "pd_classification r \<noteq> Denied" "ex_id x \<in> gs_mapped st" "gs_proof st (ex_id x) = Some p"
    "po_fingerprint p = pd_fingerprint r" "po_granted p"
  using assms that
  by (auto simp: guard_def Let_def split: if_splits option.splits)

lemma guard_consumes:
  "guard H source resolveAction trusted x st = (r, st') \<Longrightarrow> st' = st\<lparr>gs_mapped := gs_mapped st - {ex_id x}\<rparr>"
  by (simp add: guard_def Let_def)

lemma guard_step_inv:
  assumes inv: "guard_inv source resolveAction es st"
    and step: "guard H source resolveAction trusted x st = (r, st')"
  shows "guard_inv source resolveAction (es @ [Guarded x H r]) st'"
proof (cases r)
  case None
  with step obtain p where "ex_id x \<in> gs_mapped st" "gs_proof st (ex_id x) = Some p"
    by (blast elim: guard_passes)
  then show ?thesis using guard_invD [OF inv] None unfolding guard_consumes [OF step]
    by (auto intro!: guard_invI backed_mono)
next
  case (Some e)
  then show ?thesis using guard_invD [OF inv] unfolding guard_consumes [OF step]
    by (auto intro!: guard_invI backed_mono)
qed

lemma guard_run_inv: "guard_run source resolveAction es st \<Longrightarrow> guard_inv source resolveAction es st"
proof (induction rule: guard_run.induct)
  case start
  then show ?case by (auto simp: initial_guard_def intro!: guard_invI)
qed (auto intro: pre_execute_inv approval_settled_inv guard_step_inv)

lemma guard_run_prefix:
  "guard_run source resolveAction es' st \<Longrightarrow> es' = es @ later \<Longrightarrow> \<exists>st0. guard_run source resolveAction es st0"
proof (induction arbitrary: later rule: guard_run.induct)
  case start
  then show ?case using guard_run.start by auto
next
  case (started es0 st H trusted service x d st')
  then show ?case by (cases later rule: rev_cases) (auto intro: guard_run.started)
next
  case (settled es0 st i outcome aborted d st')
  then show ?case by (cases later rule: rev_cases) (auto intro: guard_run.settled)
next
  case (guarded es0 st H trusted x r st')
  then show ?case by (cases later rule: rev_cases) (auto intro: guard_run.guarded)
qed

text \<open>
  C24. No tool call passes the guard without its own proof. In every run of a registered guard,
  whatever the order of its events and however the file system changes between them: when the
  guard lets execution \<open>x\<close> through, it has just classified the call and not found it denied;
  earlier the pre-execute handler of that execution had classified it, to the same fingerprint
  and not as denied, and if that wanted approval, the approval service had answered
  \<open>allowed-once\<close> for this execution. No execution is let through twice.
\<close>

theorem guard_needs_its_own_proof:
  assumes run: "guard_run source resolveAction (before @ Guarded x H None # later) st"
  shows "\<exists>r. classify H source resolveAction x = Some r \<and> pd_classification r \<noteq> Denied
      \<and> backed source resolveAction before (ex_id x) (pd_fingerprint r) True
      \<and> distinct (passed (before @ Guarded x H None # later))"
proof -
  have "\<exists>st1. guard_run source resolveAction (before @ [Guarded x H None]) st1"
    using guard_run_prefix [OF run, of "before @ [Guarded x H None]" later] by simp
  then obtain st1 where "guard_run source resolveAction (before @ [Guarded x H None]) st1" ..
  then obtain st0 trusted where r0: "guard_run source resolveAction before st0"
      and step: "guard H source resolveAction trusted x st0 = (None, st1)"
    by (cases rule: guard_run.cases) auto
  obtain r p where "classify H source resolveAction x = Some r" "pd_classification r \<noteq> Denied"
      "gs_proof st0 (ex_id x) = Some p" "po_fingerprint p = pd_fingerprint r" "po_granted p"
    using step by (rule guard_passes)
  then show ?thesis
    using guard_invD(5) [OF guard_run_inv [OF r0]] guard_invD(3) [OF guard_run_inv [OF run]]
    by metis
qed

definition sample_adapter :: TrustedExecutionAdapterOptions where
  "sample_adapter =
     \<lparr>tea_repositoryId = ''repo'', tea_repositoryRoot = ''/r'', tea_declaredTools = None\<rparr>"

definition sample_execution :: execution where
  "sample_execution =
     \<lparr>ex_id = 1, ex_name = ''read'', ex_arguments = JObj [(''path'', JStr ''/r/a'')]\<rparr>"

lemma sample_guard_run:
  "\<exists>st. guard_run sample_source (createTrustedExecutionAdapter sample_adapter)
     ([Started sample_execution sample_host Next] @ Guarded sample_execution sample_host None # []) st"
proof -
  define s1 where "s1 = snd (pre_execute sample_host sample_source
      (createTrustedExecutionAdapter sample_adapter) True True sample_execution initial_guard)"
  have p: "pre_execute sample_host sample_source (createTrustedExecutionAdapter sample_adapter)
      True True sample_execution initial_guard = (Next, s1)"
    unfolding s1_def by (rule prod_eqI) (code_simp, simp)
  have "fst (guard sample_host sample_source (createTrustedExecutionAdapter sample_adapter) True
      sample_execution s1) = None"
    unfolding s1_def by code_simp
  then obtain s2 where g: "guard sample_host sample_source
      (createTrustedExecutionAdapter sample_adapter) True sample_execution s1 = (None, s2)"
    by (metis prod.collapse)
  show ?thesis
    using guard_run.guarded [OF guard_run.started [OF guard_run.start p] g] by auto
qed

theorem guard_needs_its_own_proof_witness:
  "\<exists>r. classify sample_host sample_source (createTrustedExecutionAdapter sample_adapter)
       sample_execution = Some r \<and> pd_classification r \<noteq> Denied"
  using sample_guard_run guard_needs_its_own_proof by blast

subsection \<open>What the adapter hands to the policy\<close>

lemma the_strs_map [simp]: "the_strs (map JStr xs) = Some xs"
  by (induction xs) simp_all

lemma action_value_read:
  "validAction (action_value opts tool exe argv touched change)
   \<and> actionWithFallback (fields_of (action_value opts tool exe argv touched change)) =
     \<lparr>ac_toolName = tool, ac_executable = exe, ac_argv = argv, ac_cwd = tea_repositoryRoot opts,
      ac_repositoryId = tea_repositoryId opts, ac_touchedPaths = touched,
      ac_environmentRead = Env_none, ac_networkIntent = Net_none, ac_fileChange = change,
      ac_externalSideEffect = Effect_none\<rparr>"
  by (cases exe; cases change)
    (simp_all add: action_value_def validAction_def actionWithFallback_def fields_of_def isRecord_def
      get_prop_def stringArray_def read_env_def read_net_def read_change_def
      read_effect_def or_else_def)

text \<open>A character of a matched text is in one of the pattern's classes.\<close>

fun rx_alphabet :: "rx \<Rightarrow> char \<Rightarrow> bool" where
  "rx_alphabet Nul c = False"
| "rx_alphabet Eps c = False"
| "rx_alphabet (Cls p) c = p c"
| "rx_alphabet (Seq r s) c = (rx_alphabet r c \<or> rx_alphabet s c)"
| "rx_alphabet (Alt r s) c = (rx_alphabet r c \<or> rx_alphabet s c)"
| "rx_alphabet (Star r) c = rx_alphabet r c"

lemma in_lang_alphabet: "in_lang r w \<Longrightarrow> c \<in> set w \<Longrightarrow> rx_alphabet r c"
  by (induction rule: in_lang.induct) auto

lemma split_on_chars: "x \<in> set (split_on p s) \<Longrightarrow> set x \<subseteq> set s"
proof (induction s arbitrary: x)
  case (Cons c s)
  then show ?case by (cases "split_on p s") (auto split: if_splits, blast+)
qed simp

lemma safe_tokens:
  assumes "rx_match SAFE_COMMAND command" and "x \<in> set (split_on is_js_space command)"
  shows "list_all safe_char x"
proof -
  have "rx_alphabet SAFE_COMMAND c" if "c \<in> set x" for c
    using assms that split_on_chars in_lang_alphabet rx_match_lang by blast
  then have "safe_char c \<or> is_js_space c" if "c \<in> set x" for c
    using that by (auto simp: SAFE_COMMAND_def Plus_def)
  then show ?thesis using split_on_clean [OF assms(2)] by (auto simp: list_all_iff)
qed

lemma commandAction_Some:
  assumes "commandAction opts arguments = Some action"
  obtains tool exe argv where "action = action_value opts tool (Some exe) argv [] Change_none"
    "canonicalCommandTool exe argv = Some tool" "exe \<noteq> []" "list_all (list_all safe_char) (exe # argv)"
proof -
  obtain command exe argv tool where c: "rx_match SAFE_COMMAND command"
    and toks: "filter (\<lambda>t. t \<noteq> []) (split_on is_js_space command) = exe # argv"
    and t: "canonicalCommandTool exe argv = Some tool"
    and a: "action = action_value opts tool (Some exe) argv [] Change_none"
    using assms by (auto simp: commandAction_def split: option.splits list.splits if_splits)
  have "set (exe # argv) \<subseteq> set (split_on is_js_space command) - {[]}" using arg_cong [OF toks, of set] by auto
  then show thesis using that [OF a t] safe_tokens [OF c] by (auto simp: list_all_iff)
qed

lemma fileAction_Some:
  assumes "fileAction opts arguments tool change need = Some action"
  obtains touched where "action = action_value opts tool None [] touched change"
    "need \<longrightarrow> touched \<noteq> []"
  using assms by (auto simp: fileAction_def split: option.splits if_splits)

lemma known_tools [simp]:
  "isKnownTool ''read''" "isKnownTool ''search''" "isKnownTool ''edit_file''"
  "isKnownTool ''write_file''"
  by code_simp+

lemma canonicalCommandTool_known: "canonicalCommandTool exe argv = Some tool \<Longrightarrow> isKnownTool tool"
proof -
  have "isKnownTool ''package_install''" "isKnownTool ''git_push''" "isKnownTool ''deploy''"
    "isKnownTool ''test''" "isKnownTool ''build''" by code_simp+
  then show "canonicalCommandTool exe argv = Some tool \<Longrightarrow> isKnownTool tool"
    by (auto simp: canonicalCommandTool_def Let_def split: if_splits)
qed

text \<open>
  C28. The adapter binds every action to its composition and never to the tool's input: the
  action is well formed, comes from a local tool of the call's own name, carries the configured
  repository and root, declares no environment read, network use or external effect, and names
  a tool the policy knows. Only a declared write tool changes files, and then it names a path;
  only a declared command tool runs an executable, and its words have no character a shell
  would interpret.
\<close>

theorem adapter_binds_action:
  assumes res: "createTrustedExecutionAdapter opts x = Some t"
    and role: "role_lookup (or_else (tea_declaredTools opts) DECLARED_TOOL_ROLES) (ex_name x) = Some role"
    and a: "a = actionWithFallback (fields_of (tp_action t))"
  shows "validAction (tp_action t) \<and> tp_provenance t = Local_tool \<and> tp_sourceTool t = Some (ex_name x)
    \<and> ac_repositoryId a = tea_repositoryId opts \<and> ac_cwd a = tea_repositoryRoot opts
    \<and> ac_environmentRead a = Env_none \<and> ac_networkIntent a = Net_none
    \<and> ac_externalSideEffect a = Effect_none \<and> isKnownTool (ac_toolName a)
    \<and> (ac_fileChange a \<noteq> Change_none \<longrightarrow> role = OwnRole WriteRole \<and> ac_touchedPaths a \<noteq> [])
    \<and> (\<forall>exe. ac_executable a = Some exe \<longrightarrow> role = OwnRole CommandRole
         \<and> list_all (list_all safe_char) (exe # ac_argv a))"
proof -
  obtain action where t: "t = \<lparr>tp_action = action, tp_provenance = Local_tool,
      tp_sourceTool = Some (ex_name x)\<rparr>"
    and action: "(if role = OwnRole CommandRole then commandAction opts (ex_arguments x)
       else if role = OwnRole ReadRole then fileAction opts (ex_arguments x) ''read'' Change_none True
       else if role = OwnRole WriteRole
       then fileAction opts (ex_arguments x)
              (if ex_name x = ''edit'' then ''edit_file'' else ''write_file'') Change_bounded True
       else fileAction opts (ex_arguments x) ''search'' Change_none False) = Some action"
    using res role by (auto simp: createTrustedExecutionAdapter_def)
  show ?thesis
  proof (cases "role = OwnRole CommandRole")
    case True
    with action have "commandAction opts (ex_arguments x) = Some action" by simp
    then show ?thesis using t a True
      by (elim commandAction_Some) (auto simp: action_value_read canonicalCommandTool_known)
  next
    case False
    then obtain tool change need where f: "fileAction opts (ex_arguments x) tool change need = Some action"
      and k: "isKnownTool tool" "change \<noteq> Change_none \<longrightarrow> role = OwnRole WriteRole \<and> need"
      using action by (auto split: if_splits)
    obtain touched where "action = action_value opts tool None [] touched change"
      and "need \<longrightarrow> touched \<noteq> []"
      using f by (rule fileAction_Some)
    then show ?thesis using t a k by (simp add: action_value_read)
  qed
qed

theorem adapter_binds_action_witness:
  "validAction (tp_action (the (createTrustedExecutionAdapter sample_adapter sample_execution)))"
proof -
  have "createTrustedExecutionAdapter sample_adapter sample_execution \<noteq> None" by code_simp
  then have "createTrustedExecutionAdapter sample_adapter sample_execution
      = Some (the (createTrustedExecutionAdapter sample_adapter sample_execution))"
    by simp
  moreover have "role_lookup (or_else (tea_declaredTools sample_adapter) DECLARED_TOOL_ROLES)
      (ex_name sample_execution) = Some (OwnRole ReadRole)"
    by code_simp
  ultimately show ?thesis using adapter_binds_action by blast
qed

text \<open>The roles the adapter looks names up in.\<close>

definition declared_roles :: "TrustedExecutionAdapterOptions \<Rightarrow> (string \<times> DeclaredToolRole) list" where
  "declared_roles opts = or_else (tea_declaredTools opts) DECLARED_TOOL_ROLES"

lemma undeclared_lookup:
  assumes "map_of (declared_roles opts) (ex_name x) = None"
  shows "createTrustedExecutionAdapter opts x =
     (if ex_name x \<in> set object_prototype_names
      then map_option (\<lambda>action. \<lparr>tp_action = action, tp_provenance = Local_tool, tp_sourceTool = Some (ex_name x)\<rparr>)
        (fileAction opts (ex_arguments x) ''search'' Change_none False)
      else None)"
  using assms by (simp add: createTrustedExecutionAdapter_def role_lookup_def declared_roles_def)

lemma search_lookup:
  assumes "map_of (declared_roles opts) s = Some SearchRole"
  shows "createTrustedExecutionAdapter opts (x\<lparr>ex_name := s\<rparr>) =
     map_option (\<lambda>action. \<lparr>tp_action = action, tp_provenance = Local_tool, tp_sourceTool = Some s\<rparr>)
       (fileAction opts (ex_arguments x) ''search'' Change_none False)"
  using assms by (simp add: createTrustedExecutionAdapter_def role_lookup_def declared_roles_def)

definition inherited_execution :: execution where
  "inherited_execution =
     \<lparr>ex_id = 1, ex_name = ''toString'', ex_arguments = JObj [(''path'', JStr ''/r/a'')]\<rparr>"

lemma inherited_run:
  "\<exists>st. guard_run sample_source (createTrustedExecutionAdapter sample_adapter)
     ([Started inherited_execution sample_host Next] @ Guarded inherited_execution sample_host None # []) st"
proof -
  define s1 where "s1 = snd (pre_execute sample_host sample_source
      (createTrustedExecutionAdapter sample_adapter) True True inherited_execution initial_guard)"
  have p: "pre_execute sample_host sample_source (createTrustedExecutionAdapter sample_adapter)
      True True inherited_execution initial_guard = (Next, s1)"
    unfolding s1_def by (rule prod_eqI) (code_simp, simp)
  have "fst (guard sample_host sample_source (createTrustedExecutionAdapter sample_adapter) True
      inherited_execution s1) = None"
    unfolding s1_def by code_simp
  then obtain s2 where g: "guard sample_host sample_source
      (createTrustedExecutionAdapter sample_adapter) True inherited_execution s1 = (None, s2)"
    by (metis prod.collapse)
  show ?thesis
    using guard_run.guarded [OF guard_run.started [OF guard_run.start p] g] by auto
qed

text \<open>
  C31. The guard lets a call of a tool that is not declared through only in one case: its name is
  a member that every object inherits from \<open>Object.prototype\<close>, which the lookup in an ordinary
  object also finds. Such a call is decided exactly as the same call of a declared search tool,
  for any composition of the adapter and in any run of the guard; every call of another undeclared
  tool is refused. (The comments of the adapter say that every undeclared tool fails closed.)
\<close>

theorem undeclared_call_passes_only_as_search:
  assumes run: "guard_run source (createTrustedExecutionAdapter opts) (before @ Guarded x H None # later) st"
    and undeclared: "map_of (declared_roles opts) (ex_name x) = None"
  shows "ex_name x \<in> set object_prototype_names
    \<and> (\<exists>r. classify H source (createTrustedExecutionAdapter opts) x = Some r \<and> pd_classification r \<noteq> Denied)
    \<and> (\<forall>s. map_of (declared_roles opts) s = Some SearchRole \<longrightarrow>
         classify H source (createTrustedExecutionAdapter opts) x
           = classify H source (createTrustedExecutionAdapter opts) (x\<lparr>ex_name := s\<rparr>))"
proof -
  obtain st0 st1 trusted where
    "guard H source (createTrustedExecutionAdapter opts) trusted x st0 = (None, st1)"
    using guard_run_prefix [OF run, of "before @ [Guarded x H None]" later]
    by (auto elim: guard_run.cases)
  then obtain r where r: "classify H source (createTrustedExecutionAdapter opts) x = Some r"
    "pd_classification r \<noteq> Denied"
    by (rule guard_passes)
  then have name: "ex_name x \<in> set object_prototype_names"
    by (auto simp: classify_def undeclared_lookup [OF undeclared] split: if_splits)
  have "classify H source (createTrustedExecutionAdapter opts) x
      = classify H source (createTrustedExecutionAdapter opts) (x\<lparr>ex_name := s\<rparr>)"
    if "map_of (declared_roles opts) s = Some SearchRole" for s
    by (simp add: classify_def undeclared_lookup [OF undeclared] search_lookup [OF that] name
        split: option.split)
  with name r show ?thesis by blast
qed

theorem undeclared_call_passes_only_as_search_witness:
  "\<exists>r. classify sample_host sample_source (createTrustedExecutionAdapter sample_adapter)
       inherited_execution = Some r \<and> pd_classification r \<noteq> Denied"
proof -
  have "map_of (declared_roles sample_adapter) (ex_name inherited_execution) = None" by code_simp
  then show ?thesis using inherited_run undeclared_call_passes_only_as_search by blast
qed

subsection \<open>From the guard back to the policy\<close>

lemma classify_Some:
  assumes "classify H source resolveAction x = Some r"
  obtains t where "resolveAction x = Some t"
    "r = classifyAction H source (tp_action t) (Some (tp_provenance t))"
  using assms that by (auto simp: classify_def Let_def split: option.splits if_splits)

lemma adapter_repository:
  assumes "createTrustedExecutionAdapter opts x = Some t"
  shows "ac_repositoryId (actionWithFallback (fields_of (tp_action t))) = tea_repositoryId opts"
  using assms
  by (auto simp: createTrustedExecutionAdapter_def action_value_read split: option.splits if_splits
      elim!: commandAction_Some fileAction_Some)

lemma canonical_repositoryId:
  "ac_repositoryId (car_action (canonicalizeAction H source action))
     = ac_repositoryId (actionWithFallback (fields_of action))"
  by (simp add: canonicalizeAction_def Let_def split: prod.splits)

end
