(* ===== verification/Coordination_Deadlines.thy ===== *)
theory Coordination_Deadlines
  imports Connector_Protocol
begin

unbundle bit_operations_syntax

section \<open>Deadlines of a coordination exchange\<close>

text \<open>
  \<open>packages/harness-plugin/src/runtime/coordination-deadlines.ts\<close>. The plugin asks the control
  plane for the state of a job and turns the answer's time stamps into deadlines on its own
  monotonic clock. Clock readings are IEEE doubles, kept here as their 64 bits; the code
  computes with integers scaled by a power of ten large enough to hold every double exactly.
  That arithmetic is shown to be the arithmetic of the rational values.
\<close>

subsection \<open>Clock readings\<close>

type_synonym double = "64 word"

record CoordinationClockSample =
  wallTimeMs :: double
  monotonicTimeMs :: double

definition double_exponent :: "double \<Rightarrow> nat" where
  "double_exponent bits = unat (drop_bit 52 bits AND 2047)"

definition double_fraction :: "double \<Rightarrow> nat" where
  "double_fraction bits = unat (bits AND mask 52)"

definition double_mantissa :: "double \<Rightarrow> nat" where
  "double_mantissa bits =
     (if double_exponent bits = 0 then double_fraction bits else double_fraction bits + 2 ^ 52)"

definition isFinite :: "double \<Rightarrow> bool" where
  "isFinite bits = (double_exponent bits \<noteq> 2047)"

definition finite_sample :: "CoordinationClockSample \<Rightarrow> bool" where
  "finite_sample sample = (isFinite (wallTimeMs sample) \<and> isFinite (monotonicTimeMs sample))"

definition clockUnits :: "double \<Rightarrow> int \<Rightarrow> int" where
  "clockUnits bits scale =
     (let exponent = double_exponent bits;
          mantissa = int (double_mantissa bits);
          shift = (if exponent = 0 then - 1074 else int exponent - 1075);
          magnitude =
            (if shift < 0 then (mantissa * scale) div 2 ^ nat (- shift)
             else mantissa * scale * 2 ^ nat shift) in
      if drop_bit 63 bits \<noteq> 0 then - magnitude else magnitude)"

text \<open>The rational number a finite double denotes; its comparisons are those of the doubles.\<close>

definition double_value :: "double \<Rightarrow> rat" where
  "double_value bits =
     (if drop_bit 63 bits \<noteq> 0 then - 1 else 1) * of_nat (double_mantissa bits)
     * (if double_exponent bits = 0 then 1 / 2 ^ 1074
        else if double_exponent bits < 1075 then 1 / 2 ^ (1075 - double_exponent bits)
        else 2 ^ (double_exponent bits - 1075))"

subsection \<open>Instants and deadlines\<close>

definition key_digits :: "string \<Rightarrow> nat" where
  "key_digits key = length (tl (dropWhile (\<lambda>c. c \<noteq> CHR ''.'') key))"

definition instantUnits :: "string \<Rightarrow> nat \<Rightarrow> int" where
  "instantUnits key digits =
     (let seconds = takeWhile (\<lambda>c. c \<noteq> CHR ''.'') key;
          fraction = tl (dropWhile (\<lambda>c. c \<noteq> CHR ''.'') key) in
      (bigint_of seconds * 10 ^ digits + int (digits_value 0 (padEnd digits fraction))) * 1000)"

text \<open>Division of \<open>bigint\<close> truncates toward zero.\<close>

definition bigint_div :: "int \<Rightarrow> int \<Rightarrow> int" where
  "bigint_div a b = (if a < 0 then - ((- a) div b) else a div b)"

definition floorDeadline :: "int \<Rightarrow> int \<Rightarrow> int option" where
  "floorDeadline units scale =
     (let integer = bigint_div units scale - (if units < 0 \<and> units mod scale \<noteq> 0 then 1 else 0) in
      if \<bar>integer\<bar> > MAX_SAFE_INTEGER then None else Some integer)"

definition stableOffset :: "CoordinationClockSample \<Rightarrow> CoordinationClockSample \<Rightarrow> int \<Rightarrow> bool" where
  "stableOffset sent now scale =
     (\<bar>clockUnits (wallTimeMs now) scale - clockUnits (monotonicTimeMs now) scale
       - clockUnits (wallTimeMs sent) scale + clockUnits (monotonicTimeMs sent) scale\<bar>
      \<le> 1000 * scale)"

definition coordinationWaiterRemainingMs ::
  "CoordinationClockSample \<Rightarrow> CoordinationClockSample \<Rightarrow> int option" where
  "coordinationWaiterRemainingMs sent now =
     (if \<not> finite_sample sent \<or> \<not> finite_sample now then None
      else
        let scale = 10 ^ 1074;
            elapsed = clockUnits (monotonicTimeMs now) scale - clockUnits (monotonicTimeMs sent) scale in
        if elapsed < 0 \<or> elapsed \<ge> 2000 * scale \<or> \<not> stableOffset sent now scale then None
        else case floorDeadline (2000 * scale - elapsed) scale of
            Some remaining \<Rightarrow> if remaining > 0 then Some remaining else None
          | None \<Rightarrow> None)"

record CoordinationTiming =
  ct_sent :: CoordinationClockSample
  ct_received :: CoordinationClockSample
  ct_snapshotDeadline :: int
  ct_jobDeadline :: int
  ct_leaseDeadline :: "int option"
  ct_scale :: int
  ct_remoteJobExpiry :: int
  ct_jobEndpoint :: int

datatype purpose = Effect | Reconcile

text \<open>The part of \<open>admitTiming\<close> after the four keys have been read.\<close>

definition admit_keys ::
  "string \<Rightarrow> string \<Rightarrow> string \<Rightarrow> string option \<Rightarrow> CoordinationClockSample \<Rightarrow> CoordinationClockSample
     \<Rightarrow> purpose \<Rightarrow> CoordinationTiming option" where
  "admit_keys observed_key snapshot_key job_key lease_key sent received why =
     (let keys = [observed_key, snapshot_key, job_key] @ (case lease_key of None \<Rightarrow> [] | Some k \<Rightarrow> [k]);
          digits = foldr max (map key_digits keys) 1074;
          scale = 10 ^ digits;
          observed = instantUnits observed_key digits;
          snapshot = instantUnits snapshot_key digits;
          job = instantUnits job_key digits;
          m0 = clockUnits (monotonicTimeMs sent) scale;
          m1 = clockUnits (monotonicTimeMs received) scale;
          elapsed = m1 - m0 in
      if elapsed < 0 \<or> elapsed \<ge> 2000 * scale \<or> \<not> stableOffset sent received scale
         \<or> observed < clockUnits (wallTimeMs sent) scale - 1000 * scale
         \<or> observed > clockUnits (wallTimeMs received) scale + 1000 * scale
      then None
      else
        let endpoint = (\<lambda>deadline. m1 + deadline - observed - elapsed - 1000 * scale);
            snapshotEndpoint = endpoint snapshot;
            jobEndpoint = endpoint job in
        if snapshotEndpoint \<le> m1 \<or> (why = Effect \<and> jobEndpoint \<le> m1) then None
        else
          case (floorDeadline snapshotEndpoint scale, floorDeadline jobEndpoint scale,
                case lease_key of
                  None \<Rightarrow> Some None
                | Some k \<Rightarrow> map_option Some (floorDeadline (endpoint (instantUnits k digits)) scale)) of
            (Some snapshotDeadline, Some jobDeadline, Some leaseDeadline) \<Rightarrow>
              if of_int snapshotDeadline \<le> double_value (monotonicTimeMs received)
                 \<or> (why = Effect \<and> of_int jobDeadline \<le> double_value (monotonicTimeMs received))
              then None
              else Some \<lparr>ct_sent = sent, ct_received = received,
                     ct_snapshotDeadline = snapshotDeadline, ct_jobDeadline = jobDeadline,
                     ct_leaseDeadline = leaseDeadline, ct_scale = scale,
                     ct_remoteJobExpiry = job, ct_jobEndpoint = jobEndpoint\<rparr>
          | _ \<Rightarrow> None)"

definition admitTiming ::
  "(string \<Rightarrow> bool) \<Rightarrow> jsval \<Rightarrow> CoordinationClockSample \<Rightarrow> CoordinationClockSample \<Rightarrow> purpose
     \<Rightarrow> CoordinationTiming option" where
  "admitTiming is_uuid state sent received why =
     (case JobStatePayloadSchema is_uuid state of
        None \<Rightarrow> None
      | Some data \<Rightarrow>
          if \<not> finite_sample sent \<or> \<not> finite_sample received then None
          else
            case (rfc3339InstantKey (js_observed_at data), rfc3339InstantKey (js_state_valid_until data),
                  rfc3339InstantKey (js_expires_at data),
                  case js_lease_expires_at data of
                    None \<Rightarrow> Some None | Some t \<Rightarrow> map_option Some (rfc3339InstantKey t)) of
              (Some observed, Some snapshot, Some job, Some lease) \<Rightarrow>
                admit_keys observed snapshot job lease sent received why
            | _ \<Rightarrow> None)"

definition admitCoordinationTiming ::
  "(string \<Rightarrow> bool) \<Rightarrow> jsval \<Rightarrow> CoordinationClockSample \<Rightarrow> CoordinationClockSample
     \<Rightarrow> CoordinationTiming option" where
  "admitCoordinationTiming is_uuid state sent received = admitTiming is_uuid state sent received Effect"

definition admitReconciliationTiming ::
  "(string \<Rightarrow> bool) \<Rightarrow> jsval \<Rightarrow> CoordinationClockSample \<Rightarrow> CoordinationClockSample
     \<Rightarrow> CoordinationTiming option" where
  "admitReconciliationTiming is_uuid state sent received =
     admitTiming is_uuid state sent received Reconcile"

definition cancellationCoordinationDeadline :: "CoordinationTiming \<Rightarrow> string \<Rightarrow> int option" where
  "cancellationCoordinationDeadline timing commandExpiresAt =
     (case rfc3339InstantKey commandExpiresAt of
        None \<Rightarrow> None
      | Some key \<Rightarrow>
          let sent = ct_sent timing; received = ct_received timing in
          if \<not> finite_sample sent \<or> \<not> finite_sample received
             \<or> coordinationWaiterRemainingMs sent received = None
             \<or> ct_scale timing \<le> 0
             \<or> \<not> isSafeInteger (ct_jobDeadline timing)
             \<or> \<not> isSafeInteger (ct_snapshotDeadline timing)
             \<or> of_int (ct_snapshotDeadline timing) \<le> double_value (monotonicTimeMs received)
             \<or> floorDeadline (ct_jobEndpoint timing) (ct_scale timing) \<noteq> Some (ct_jobDeadline timing)
          then None
          else
            let digits = max (length (show_int (ct_scale timing)) - 1) (key_digits key);
                scale = 10 ^ digits;
                multiplier = bigint_div scale (ct_scale timing);
                job = ct_jobEndpoint timing * multiplier;
                command = job + instantUnits key digits - ct_remoteJobExpiry timing * multiplier in
            case floorDeadline (min job command) scale of
              Some deadline \<Rightarrow>
                if of_int deadline > double_value (monotonicTimeMs received) then Some deadline else None
            | None \<Rightarrow> None)"

record approval_deadlines =
  wireDeadlineMs :: int
  monotonicDeadlineMs :: int

definition approvalCoordinationDeadlines ::
  "CoordinationTiming \<Rightarrow> int \<Rightarrow> approval_deadlines option" where
  "approvalCoordinationDeadlines timing approvalTimeoutSeconds =
     (if approvalTimeoutSeconds < 60 \<or> approvalTimeoutSeconds > 1800 then None
      else
        let scale = ct_scale timing;
            lifetime = approvalTimeoutSeconds * 1000 * scale in
        case (floorDeadline (min (ct_remoteJobExpiry timing)
                (clockUnits (wallTimeMs (ct_received timing)) scale + lifetime)) scale,
              floorDeadline (min (ct_jobEndpoint timing)
                (clockUnits (monotonicTimeMs (ct_received timing)) scale + lifetime)) scale) of
          (Some wireDeadline, Some monotonicDeadline) \<Rightarrow>
            if of_int wireDeadline \<le> double_value (wallTimeMs (ct_received timing))
               \<or> of_int monotonicDeadline \<le> double_value (monotonicTimeMs (ct_received timing))
            then None else Some \<lparr>wireDeadlineMs = wireDeadline, monotonicDeadlineMs = monotonicDeadline\<rparr>
        | _ \<Rightarrow> None)"

definition isCoordinationTimingCurrent ::
  "CoordinationTiming \<Rightarrow> CoordinationClockSample \<Rightarrow> bool \<Rightarrow> bool \<Rightarrow> bool" where
  "isCoordinationTimingCurrent timing now snapshot lease =
     (finite_sample now
      \<and> double_value (monotonicTimeMs now) \<ge> double_value (monotonicTimeMs (ct_received timing))
      \<and> stableOffset (ct_sent timing) now (ct_scale timing)
      \<and> double_value (monotonicTimeMs now) < of_int (ct_jobDeadline timing)
      \<and> (snapshot \<longrightarrow> double_value (monotonicTimeMs now) < of_int (ct_snapshotDeadline timing))
      \<and> (lease \<longrightarrow> (case ct_leaseDeadline timing of
           None \<Rightarrow> False | Some d \<Rightarrow> double_value (monotonicTimeMs now) < of_int d)))"

definition isReconciliationTimingCurrent :: "CoordinationTiming \<Rightarrow> CoordinationClockSample \<Rightarrow> bool" where
  "isReconciliationTimingCurrent timing now =
     (finite_sample now
      \<and> double_value (monotonicTimeMs now) \<ge> double_value (monotonicTimeMs (ct_received timing))
      \<and> stableOffset (ct_sent timing) now (ct_scale timing)
      \<and> double_value (monotonicTimeMs now) < of_int (ct_snapshotDeadline timing))"

subsection \<open>Scaled integers are exact\<close>

lemma pow2_dvd_scale:
  assumes "k \<le> 1074" "1074 \<le> n"
  shows "(2 :: int) ^ k dvd 10 ^ n"
proof -
  have "(2 :: int) ^ k dvd 2 ^ n" using assms by (intro le_imp_power_dvd) simp
  moreover have "(2 :: int) ^ n dvd 2 ^ n * 5 ^ n" by (rule dvd_triv_left)
  moreover have "(2 :: int) ^ n * 5 ^ n = 10 ^ n" by (simp flip: power_mult_distrib)
  ultimately show ?thesis by (metis dvd_trans)
qed

lemma clockUnits_exact:
  assumes "1074 \<le> n"
  shows "of_int (clockUnits bits (10 ^ n)) = double_value bits * (10 :: rat) ^ n"
proof -
  have div: "of_int ((int m * 10 ^ n) div 2 ^ k) = of_nat m * (10 :: rat) ^ n / 2 ^ k"
    if "k \<le> 1074" for m k
  proof -
    have "(2 :: int) ^ k dvd int m * 10 ^ n"
      using pow2_dvd_scale [OF that assms] by (rule dvd_mult)
    then have "(of_int ((int m * 10 ^ n) div 2 ^ k) :: rat) = of_int (int m * 10 ^ n) / of_int (2 ^ k)"
      by (rule of_int_div)
    then show ?thesis by simp
  qed
  let ?e = "double_exponent bits"
  consider "?e = 0" | "0 < ?e" "?e < 1075" | "1075 \<le> ?e" by linarith
  then show ?thesis
  proof cases
    case 1
    then show ?thesis
      using div [of 1074 "double_mantissa bits"] by (simp add: clockUnits_def double_value_def)
  next
    case 2
    then have "nat (1075 - int ?e) = 1075 - ?e" "1075 - ?e \<le> 1074" by linarith+
    then show ?thesis using 2 by (simp add: clockUnits_def double_value_def div)
  next
    case 3
    then have "nat (int ?e - 1075) = ?e - 1075" by linarith
    then show ?thesis using 3 by (simp add: clockUnits_def double_value_def)
  qed
qed

lemma floorDeadline_floor:
  assumes "0 < scale"
  shows "floorDeadline units scale =
    (if \<bar>units div scale\<bar> > MAX_SAFE_INTEGER then None else Some (units div scale))"
proof -
  have "bigint_div units scale - (if units < 0 \<and> units mod scale \<noteq> 0 then 1 else 0) = units div scale"
    using assms zdiv_zminus1_eq_if [of scale units]
    by (auto simp: bigint_div_def mod_eq_0_iff_dvd)
  then show ?thesis by (simp add: floorDeadline_def)
qed

lemma div_floor: "0 < scale \<Longrightarrow> units div scale = \<lfloor>(of_int units / of_int scale :: rat)\<rfloor>"
  by (simp add: floor_divide_of_int_eq)

definition safe_floor :: "rat \<Rightarrow> int option" where
  "safe_floor q = (if \<bar>\<lfloor>q\<rfloor>\<bar> > MAX_SAFE_INTEGER then None else Some \<lfloor>q\<rfloor>)"

lemma floorDeadline_exact:
  assumes "of_int units = q * (10 :: rat) ^ n"
  shows "floorDeadline units (10 ^ n) = safe_floor q"
proof -
  have "of_int units / of_int (10 ^ n) = q" using assms by simp
  then have "units div 10 ^ n = \<lfloor>q\<rfloor>" using div_floor [of "10 ^ n" units] by simp
  then show ?thesis by (simp add: floorDeadline_floor safe_floor_def)
qed

lemma units_le_iff:
  assumes "of_int a = x * (10 :: rat) ^ n" "of_int b = y * (10 :: rat) ^ n"
  shows "a \<le> b \<longleftrightarrow> x \<le> y" "a < b \<longleftrightarrow> x < y"
proof -
  have "a \<le> b \<longleftrightarrow> x * (10 :: rat) ^ n \<le> y * 10 ^ n" by (metis assms of_int_le_iff)
  then show "a \<le> b \<longleftrightarrow> x \<le> y" by simp
  have "a < b \<longleftrightarrow> x * (10 :: rat) ^ n < y * 10 ^ n" by (metis assms of_int_less_iff)
  then show "a < b \<longleftrightarrow> x < y" by simp
qed

text \<open>Milliseconds since the epoch, as a rational.\<close>

definition instant_ms :: "string \<Rightarrow> rat" where
  "instant_ms s = (case parseRfc3339Instant s of Some i \<Rightarrow> 1000 * instant_value i | None \<Rightarrow> 0)"

lemma key_parts:
  assumes "rfc3339InstantKey s = Some key"
  obtains i where "parseRfc3339Instant s = Some i"
    "takeWhile (\<lambda>c. c \<noteq> CHR ''.'') key = show_int (wholeSeconds i)"
    "tl (dropWhile (\<lambda>c. c \<noteq> CHR ''.'') key) = strip_zeros (fraction i)"
proof -
  obtain i where i: "parseRfc3339Instant s = Some i"
    and key: "key = show_int (wholeSeconds i) @ CHR ''.'' # strip_zeros (fraction i)"
    using assms by (auto simp: rfc3339InstantKey_def split: option.splits)
  have "\<forall>c \<in> set (show_int (wholeSeconds i)). c \<noteq> CHR ''.''" using show_int_no_dot by metis
  then have "takeWhile (\<lambda>c. c \<noteq> CHR ''.'') key = show_int (wholeSeconds i)"
    "dropWhile (\<lambda>c. c \<noteq> CHR ''.'') key = CHR ''.'' # strip_zeros (fraction i)"
    unfolding key by (simp_all add: takeWhile_append2 dropWhile_append2)
  then show thesis using that [OF i] by simp
qed

lemma instantUnits_exact:
  assumes "rfc3339InstantKey s = Some key" and "key_digits key \<le> n"
  shows "of_int (instantUnits key n) = instant_ms s * (10 :: rat) ^ n"
proof -
  obtain i where i: "parseRfc3339Instant s = Some i"
    "takeWhile (\<lambda>c. c \<noteq> CHR ''.'') key = show_int (wholeSeconds i)"
    "tl (dropWhile (\<lambda>c. c \<noteq> CHR ''.'') key) = strip_zeros (fraction i)"
    using assms(1) by (rule key_parts)
  have len: "length (strip_zeros (fraction i)) \<le> n" using assms(2) by (simp add: key_digits_def i)
  have "fraction_value (fraction i) * (10 :: rat) ^ n
      = of_nat (digits_value 0 (padEnd n (strip_zeros (fraction i))))"
    using fraction_value_pad [OF len] strip_zeros_value [of "fraction i"] by simp
  then show ?thesis
    by (simp add: instantUnits_def i bigint_of_show_int instant_ms_def instant_value_def algebra_simps)
qed

subsection \<open>Admission over the rationals\<close>

abbreviation wall :: "CoordinationClockSample \<Rightarrow> rat" where
  "wall sample \<equiv> double_value (wallTimeMs sample)"

abbreviation ticks :: "CoordinationClockSample \<Rightarrow> rat" where
  "ticks sample \<equiv> double_value (monotonicTimeMs sample)"

definition stable_clocks :: "CoordinationClockSample \<Rightarrow> CoordinationClockSample \<Rightarrow> bool" where
  "stable_clocks sent now = (\<bar>(wall now - ticks now) - (wall sent - ticks sent)\<bar> \<le> 1000)"

lemma stableOffset_exact:
  assumes "1074 \<le> n"
  shows "stableOffset sent now (10 ^ n) = stable_clocks sent now"
proof -
  let ?d = "clockUnits (wallTimeMs now) (10 ^ n) - clockUnits (monotonicTimeMs now) (10 ^ n)
       - clockUnits (wallTimeMs sent) (10 ^ n) + clockUnits (monotonicTimeMs sent) (10 ^ n)"
  have "of_int ?d = ((wall now - ticks now) - (wall sent - ticks sent)) * (10 :: rat) ^ n"
    by (simp add: clockUnits_exact [OF assms] algebra_simps)
  then have "of_int \<bar>?d\<bar> = \<bar>(wall now - ticks now) - (wall sent - ticks sent)\<bar> * (10 :: rat) ^ n"
    by (simp only: of_int_abs abs_mult) simp
  moreover have "of_int (1000 * 10 ^ n) = 1000 * (10 :: rat) ^ n" by simp
  ultimately show ?thesis
    unfolding stableOffset_def stable_clocks_def by (rule units_le_iff(1))
qed

definition admit_reference ::
  "JobStatePayload \<Rightarrow> CoordinationClockSample \<Rightarrow> CoordinationClockSample \<Rightarrow> purpose
     \<Rightarrow> (int \<times> int \<times> int option) option" where
  "admit_reference data sent received why =
     (let observed = instant_ms (js_observed_at data);
          deadline = (\<lambda>t. safe_floor (ticks sent + (instant_ms t - observed) - 1000)) in
      if ticks received < ticks sent \<or> ticks received \<ge> ticks sent + 2000
         \<or> \<not> stable_clocks sent received
         \<or> observed < wall sent - 1000 \<or> observed > wall received + 1000
      then None
      else
        case (deadline (js_state_valid_until data), deadline (js_expires_at data),
              case js_lease_expires_at data of
                None \<Rightarrow> Some None | Some t \<Rightarrow> map_option Some (deadline t)) of
          (Some snapshot, Some job, Some lease) \<Rightarrow>
            if of_int snapshot \<le> ticks received \<or> (why = Effect \<and> of_int job \<le> ticks received)
            then None else Some (snapshot, job, lease)
        | _ \<Rightarrow> None)"

lemma safe_floor_Some: "safe_floor q = Some n \<Longrightarrow> n = \<lfloor>q\<rfloor> \<and> of_int n \<le> q \<and> isSafeInteger n"
  by (auto simp: safe_floor_def isSafeInteger_def split: if_splits)

definition timing_deadlines :: "CoordinationTiming \<Rightarrow> int \<times> int \<times> int option" where
  "timing_deadlines t = (ct_snapshotDeadline t, ct_jobDeadline t, ct_leaseDeadline t)"

lemma foldr_max_le: "x \<in> set xs \<Longrightarrow> f x \<le> foldr max (map f xs) (n :: nat)" "n \<le> foldr max (map f xs) n"
  by (induction xs) (auto simp: le_max_iff_disj)

lemma late_deadlines:
  fixes x :: rat
  assumes "\<And>k. A \<Longrightarrow> fs = Some k \<Longrightarrow> of_int k \<le> x" "\<And>k. B \<Longrightarrow> fj = Some k \<Longrightarrow> of_int k \<le> x"
    and "\<And>s j l. f (g s j l) = (s, j, l)"
  shows "map_option f
      (if A \<or> (W \<and> B) then None
       else case (fs, fj, fl) of
           (Some s, Some j, Some l) \<Rightarrow>
             if of_int s \<le> x \<or> (W \<and> of_int j \<le> x) then None else Some (g s j l)
         | _ \<Rightarrow> None)
    = (case (fs, fj, fl) of
         (Some s, Some j, Some l) \<Rightarrow>
           if of_int s \<le> x \<or> (W \<and> of_int j \<le> x) then None else Some (s, j, l)
       | _ \<Rightarrow> None)"
  using assms by (cases fs; cases fj; cases fl) auto

lemma admit_keys_exact:
  assumes keys: "rfc3339InstantKey (js_observed_at data) = Some ok"
      "rfc3339InstantKey (js_state_valid_until data) = Some sk"
      "rfc3339InstantKey (js_expires_at data) = Some jk"
      "js_lease_expires_at data = map_option fst lease"
      "\<And>t k. lease = Some (t, k) \<Longrightarrow> rfc3339InstantKey t = Some k"
  shows "map_option timing_deadlines (admit_keys ok sk jk (map_option snd lease) sent received why)
     = admit_reference data sent received why"
proof -
  define ks where "ks = [ok, sk, jk] @ (case map_option snd lease of None \<Rightarrow> [] | Some k \<Rightarrow> [k])"
  define n where "n = foldr max (map key_digits ks) 1074"
  have n: "1074 \<le> n" "\<And>k. k \<in> set ks \<Longrightarrow> key_digits k \<le> n"
    unfolding n_def by (auto intro: foldr_max_le)
  define m0 m1 where "m0 = clockUnits (monotonicTimeMs sent) (10 ^ n)"
    and "m1 = clockUnits (monotonicTimeMs received) (10 ^ n)"
  have m: "of_int m0 = ticks sent * (10 :: rat) ^ n" "of_int m1 = ticks received * (10 :: rat) ^ n"
    unfolding m0_def m1_def by (rule clockUnits_exact [OF n(1)])+
  have o: "of_int (instantUnits ok n) = instant_ms (js_observed_at data) * (10 :: rat) ^ n"
    by (rule instantUnits_exact [OF keys(1)]) (simp add: n ks_def)
  have ends: "of_int (m1 + u - instantUnits ok n - (m1 - m0) - 1000 * 10 ^ n)
      = (ticks sent + (instant_ms t - instant_ms (js_observed_at data)) - 1000) * (10 :: rat) ^ n"
    if "of_int u = instant_ms t * (10 :: rat) ^ n" for u t
    using that m o by (simp add: algebra_simps)
  have s: "of_int (instantUnits sk n) = instant_ms (js_state_valid_until data) * (10 :: rat) ^ n"
    and j: "of_int (instantUnits jk n) = instant_ms (js_expires_at data) * (10 :: rat) ^ n"
    by (rule instantUnits_exact [OF keys(2)] instantUnits_exact [OF keys(3)], simp add: n ks_def)+
  define w0 w1 where "w0 = clockUnits (wallTimeMs sent) (10 ^ n)"
    and "w1 = clockUnits (wallTimeMs received) (10 ^ n)"
  have w: "of_int w0 = wall sent * (10 :: rat) ^ n" "of_int w1 = wall received * (10 :: rat) ^ n"
    unfolding w0_def w1_def by (rule clockUnits_exact [OF n(1)])+
  let ?observed = "instant_ms (js_observed_at data)"
  let ?d = "\<lambda>t. ticks sent + (instant_ms t - ?observed) - 1000"
  let ?e = "\<lambda>u. m1 + u - instantUnits ok n - (m1 - m0) - 1000 * 10 ^ n"
  have guards: "m1 - m0 < 0 \<longleftrightarrow> ticks received < ticks sent"
    "m1 - m0 \<ge> 2000 * 10 ^ n \<longleftrightarrow> ticks received \<ge> ticks sent + 2000"
    "instantUnits ok n < w0 - 1000 * 10 ^ n \<longleftrightarrow> ?observed < wall sent - 1000"
    "instantUnits ok n > w1 + 1000 * 10 ^ n \<longleftrightarrow> ?observed > wall received + 1000"
    using units_le_iff(2) [OF m(2) m(1)]
      units_le_iff(1) [of "2000 * 10 ^ n" 2000 n "m1 - m0" "ticks received - ticks sent"]
      units_le_iff(2) [OF o, of "w0 - 1000 * 10 ^ n" "wall sent - 1000"]
      units_le_iff(2) [OF _ o, of "w1 + 1000 * 10 ^ n" "wall received + 1000"] m w
    by (simp_all add: algebra_simps)
  have floors: "floorDeadline (?e u) (10 ^ n) = safe_floor (?d t)" "?e u \<le> m1 \<longleftrightarrow> ?d t \<le> ticks received"
    if "of_int u = instant_ms t * (10 :: rat) ^ n" for u t
    using floorDeadline_exact [OF ends [OF that]] units_le_iff(1) [OF ends [OF that] m(2)] by simp_all
  have late: "of_int k \<le> x" if "q \<le> x" "safe_floor q = Some k" for q x k
    using safe_floor_Some [OF that(2)] that(1) by linarith
  note stab = stableOffset_exact [OF n(1), of sent received]
  note unfolded = admit_keys_def Let_def ks_def [symmetric] n_def [symmetric] m0_def [symmetric]
      m1_def [symmetric] w0_def [symmetric] w1_def [symmetric] guards stab admit_reference_def
      floors [OF s] floors [OF j]
  have lease: "(case map_option snd lease of
        None \<Rightarrow> Some None
      | Some k \<Rightarrow> map_option Some (floorDeadline (?e (instantUnits k n)) (10 ^ n)))
    = (case js_lease_expires_at data of None \<Rightarrow> Some None | Some t \<Rightarrow> map_option Some (safe_floor (?d t)))"
  proof (cases lease)
    case None
    then show ?thesis using keys(4) by simp
  next
    case (Some tk)
    then obtain t k where tk: "lease = Some (t, k)" by (cases tk) auto
    then have k: "rfc3339InstantKey t = Some k" using keys(5) by auto
    have "of_int (instantUnits k n) = instant_ms t * (10 :: rat) ^ n"
      by (rule instantUnits_exact [OF k]) (simp add: n ks_def tk)
    then show ?thesis using keys(4) floors(1) by (simp add: tk)
  qed
  show ?thesis
  proof (cases "ticks received < ticks sent \<or> ticks received \<ge> ticks sent + 2000
         \<or> \<not> stable_clocks sent received
         \<or> ?observed < wall sent - 1000 \<or> ?observed > wall received + 1000")
    case True
    then show ?thesis unfolding unfolded by simp
  next
    case False
    show ?thesis
      unfolding unfolded if_not_P [OF False] lease
      by (rule late_deadlines) (auto intro: late simp: timing_deadlines_def)
  qed
qed

lemma schema_instant: "Rfc3339TimestampSchema s \<Longrightarrow> \<exists>key. rfc3339InstantKey s = Some key"
  by (auto simp: Rfc3339TimestampSchema_def rfc3339InstantKey_def parseRfc3339Instant_def
      split: option.splits)

lemma TimestampSchema_Some: "TimestampSchema v = Some s \<Longrightarrow> Rfc3339TimestampSchema s"
  by (auto simp: TimestampSchema_def split: option.splits if_splits)

lemma parsed_timestamps:
  assumes "JobStatePayloadSchema is_uuid state = Some data"
  shows "\<exists>k. rfc3339InstantKey (js_observed_at data) = Some k"
    "\<exists>k. rfc3339InstantKey (js_state_valid_until data) = Some k"
    "\<exists>k. rfc3339InstantKey (js_expires_at data) = Some k"
    "\<And>t. js_lease_expires_at data = Some t \<Longrightarrow> \<exists>k. rfc3339InstantKey t = Some k"
  using assms
  by (auto simp: JobStatePayloadSchema_def Let_def bind_eq_Some_conv nullable_field_def
      intro!: schema_instant dest!: TimestampSchema_Some split: if_splits)

lemma admission_is_exact_raw:
  "map_option timing_deadlines (admitTiming is_uuid state sent received why) =
     (case JobStatePayloadSchema is_uuid state of
        None \<Rightarrow> None
      | Some data \<Rightarrow>
          if finite_sample sent \<and> finite_sample received
          then admit_reference data sent received why else None)"
proof (cases "JobStatePayloadSchema is_uuid state")
  case None
  then show ?thesis by (simp add: admitTiming_def)
next
  case (Some data)
  note keys = parsed_timestamps [OF Some]
  obtain ok sk jk where k: "rfc3339InstantKey (js_observed_at data) = Some ok"
      "rfc3339InstantKey (js_state_valid_until data) = Some sk"
      "rfc3339InstantKey (js_expires_at data) = Some jk"
    using keys(1-3) by blast
  show ?thesis
  proof (cases "js_lease_expires_at data")
    case None
    then show ?thesis
      using admit_keys_exact [OF k, of None sent received why] by (simp add: admitTiming_def Some k)
  next
    case lease: (Some t)
    then obtain lk where lk: "rfc3339InstantKey t = Some lk" using keys(4) by blast
    show ?thesis
      using admit_keys_exact [OF k, of "Some (t, lk)" sent received why] lk lease
      by (simp add: admitTiming_def Some k)
  qed
qed

text \<open>
  C35. The scaled-integer arithmetic of an admission is exact: it admits a state and yields the
  deadlines precisely as the same computation over the rational values of the clock readings
  and time stamps, for every double and every number of fraction digits.
\<close>

theorem admission_is_exact:
  "map_option timing_deadlines (admitTiming is_uuid state sent received why) =
     (case JobStatePayloadSchema is_uuid state of
        None \<Rightarrow> None
      | Some data \<Rightarrow>
          if finite_sample sent \<and> finite_sample received
          then admit_reference data sent received why else None)"
  by (rule admission_is_exact_raw)

subsection \<open>What a current timing promises\<close>

text \<open>The exact values an admission keeps, with the number of digits it scaled by.\<close>

lemma if_None_Some: "(if C then None else X) = Some t \<longleftrightarrow> \<not> C \<and> X = Some t"
  by simp

lemma three_Some:
  "(case (a, b, c) of (Some x, Some y, Some z) \<Rightarrow> F x y z | _ \<Rightarrow> None) = Some t \<longleftrightarrow>
     (\<exists>x y z. a = Some x \<and> b = Some y \<and> c = Some z \<and> F x y z = Some t)"
  by (cases a; cases b; cases c) auto

lemma admitted_exact:
  assumes adm: "admitTiming is_uuid state sent received why = Some t"
    and data: "JobStatePayloadSchema is_uuid state = Some data"
  obtains n where "1074 \<le> n" "ct_scale t = 10 ^ n" "ct_sent t = sent" "ct_received t = received"
    "of_int (ct_remoteJobExpiry t) = instant_ms (js_expires_at data) * (10 :: rat) ^ n"
    "of_int (ct_jobEndpoint t) = (ticks sent + (instant_ms (js_expires_at data)
        - instant_ms (js_observed_at data)) - 1000) * (10 :: rat) ^ n"
proof -
  obtain ok sk jk lease where k: "rfc3339InstantKey (js_observed_at data) = Some ok"
      "rfc3339InstantKey (js_expires_at data) = Some jk"
    and adm: "admit_keys ok sk jk lease sent received why = Some t"
    using adm by (auto simp: admitTiming_def data split: if_splits option.splits)
  define n where "n = foldr max (map key_digits
      ([ok, sk, jk] @ (case lease of None \<Rightarrow> [] | Some k \<Rightarrow> [k]))) 1074"
  have n: "1074 \<le> n" "key_digits ok \<le> n" "key_digits jk \<le> n"
    unfolding n_def by (rule foldr_max_le, (simp; fail)?)+
  note o = instantUnits_exact [OF k(1) n(2)] and j = instantUnits_exact [OF k(2) n(3)]
  have t: "ct_scale t = 10 ^ n" "ct_sent t = sent" "ct_received t = received"
    "ct_remoteJobExpiry t = instantUnits jk n"
    "ct_jobEndpoint t = clockUnits (monotonicTimeMs sent) (10 ^ n) + instantUnits jk n
        - instantUnits ok n - 1000 * 10 ^ n"
    using adm unfolding admit_keys_def Let_def n_def [symmetric] if_None_Some three_Some
    by (elim conjE exE, force)+
  show thesis
    using that [OF n(1) t(1-3)] o j clockUnits_exact [OF n(1), of "monotonicTimeMs sent"]
    by (simp add: t algebra_simps)
qed

lemma admitted_floors:
  assumes adm: "admitTiming is_uuid state sent received why = Some t"
    and data: "JobStatePayloadSchema is_uuid state = Some data"
  shows "finite_sample sent" "finite_sample received"
    "safe_floor (ticks sent + (instant_ms (js_state_valid_until data)
        - instant_ms (js_observed_at data)) - 1000) = Some (ct_snapshotDeadline t)"
    "safe_floor (ticks sent + (instant_ms (js_expires_at data)
        - instant_ms (js_observed_at data)) - 1000) = Some (ct_jobDeadline t)"
    "(case js_lease_expires_at data of
        None \<Rightarrow> Some None
      | Some u \<Rightarrow> map_option Some (safe_floor (ticks sent + (instant_ms u
          - instant_ms (js_observed_at data)) - 1000))) = Some (ct_leaseDeadline t)"
    "ticks received < of_int (ct_snapshotDeadline t)"
proof -
  show "finite_sample sent" "finite_sample received"
    using adm by (auto simp: admitTiming_def data split: if_splits)
  have "admit_reference data sent received why = Some (timing_deadlines t)"
    using admission_is_exact_raw [of is_uuid state sent received why] by (simp add: adm data split: if_splits)
  then show "safe_floor (ticks sent + (instant_ms (js_state_valid_until data)
        - instant_ms (js_observed_at data)) - 1000) = Some (ct_snapshotDeadline t)"
    "safe_floor (ticks sent + (instant_ms (js_expires_at data)
        - instant_ms (js_observed_at data)) - 1000) = Some (ct_jobDeadline t)"
    "(case js_lease_expires_at data of
        None \<Rightarrow> Some None
      | Some u \<Rightarrow> map_option Some (safe_floor (ticks sent + (instant_ms u
          - instant_ms (js_observed_at data)) - 1000))) = Some (ct_leaseDeadline t)"
    "ticks received < of_int (ct_snapshotDeadline t)"
    unfolding admit_reference_def timing_deadlines_def Let_def
    by (auto split: if_splits option.splits)
qed

lemma admitted_deadlines:
  assumes adm: "admitTiming is_uuid state sent received why = Some t"
    and data: "JobStatePayloadSchema is_uuid state = Some data"
  shows "of_int (ct_snapshotDeadline t) \<le> ticks sent + (instant_ms (js_state_valid_until data)
        - instant_ms (js_observed_at data)) - 1000"
    "of_int (ct_jobDeadline t) \<le> ticks sent + (instant_ms (js_expires_at data)
        - instant_ms (js_observed_at data)) - 1000"
    "js_lease_expires_at data = Some l \<Longrightarrow> \<exists>d. ct_leaseDeadline t = Some d
       \<and> of_int d \<le> ticks sent + (instant_ms l - instant_ms (js_observed_at data)) - 1000"
    "js_lease_expires_at data = None \<Longrightarrow> ct_leaseDeadline t = None"
proof -
  note f = admitted_floors [OF adm data]
  show "of_int (ct_snapshotDeadline t) \<le> ticks sent + (instant_ms (js_state_valid_until data)
        - instant_ms (js_observed_at data)) - 1000"
    "of_int (ct_jobDeadline t) \<le> ticks sent + (instant_ms (js_expires_at data)
        - instant_ms (js_observed_at data)) - 1000"
    using safe_floor_Some [OF f(3)] safe_floor_Some [OF f(4)] by blast+
  show "js_lease_expires_at data = None \<Longrightarrow> ct_leaseDeadline t = None" using f(5) by simp
  assume "js_lease_expires_at data = Some l"
  with f(5) have "map_option Some (safe_floor (ticks sent + (instant_ms l
      - instant_ms (js_observed_at data)) - 1000)) = Some (ct_leaseDeadline t)"
    by simp
  then obtain d where d: "safe_floor (ticks sent + (instant_ms l
      - instant_ms (js_observed_at data)) - 1000) = Some d" "ct_leaseDeadline t = Some d"
    by (metis (lifting) map_option_eq_Some)
  then show "\<exists>d. ct_leaseDeadline t = Some d
       \<and> of_int d \<le> ticks sent + (instant_ms l - instant_ms (js_observed_at data)) - 1000"
    using safe_floor_Some [OF d(1)] by blast
qed

lemma strip_zeros_eq_value:
  "strip_zeros s = strip_zeros t \<Longrightarrow> fraction_value s = fraction_value t"
  by (metis strip_zeros_value)

lemma snapshot_two_seconds:
  assumes "JobStatePayloadSchema is_uuid state = Some data"
  shows "instant_ms (js_state_valid_until data) = instant_ms (js_observed_at data) + 2000"
proof -
  have "state_refined data"
    using assms by (auto simp: JobStatePayloadSchema_def Let_def bind_eq_Some_conv split: if_splits)
  moreover obtain i j where p: "parseRfc3339Instant (js_observed_at data) = Some i"
      "parseRfc3339Instant (js_state_valid_until data) = Some j"
    using parsed_timestamps(1,2) [OF assms] by (auto simp: rfc3339InstantKey_def split: option.splits)
  ultimately have "wholeSeconds j - wholeSeconds i = 2" "strip_zeros (fraction j) = strip_zeros (fraction i)"
    by (simp_all add: state_refined_def)
  then have "wholeSeconds j = wholeSeconds i + 2" "fraction_value (fraction j) = fraction_value (fraction i)"
    by (simp, blast intro: strip_zeros_eq_value)
  then show ?thesis by (simp add: p instant_ms_def instant_value_def)
qed

text \<open>
  C36. A timing that is current for a new effect is fresh, whatever the delays of the exchange:
  less than a second has passed on the monotonic clock since the request was sent; if the
  control plane read its clock at any local moment \<open>m\<close> after that, its clock is still more than a
  second short of the job's expiry and, when a lease is required, of the lease's; and the wall
  clock has not jumped by more than a second.
\<close>

theorem current_timing_is_fresh:
  assumes adm: "admitTiming is_uuid state sent received why = Some t"
    and data: "JobStatePayloadSchema is_uuid state = Some data"
    and cur: "isCoordinationTimingCurrent t now True lease"
    and m: "ticks sent \<le> m"
  shows "ticks now < ticks sent + 1000
    \<and> instant_ms (js_observed_at data) + (ticks now - m) < instant_ms (js_expires_at data) - 1000
    \<and> (lease \<longrightarrow> (\<exists>l. js_lease_expires_at data = Some l
         \<and> instant_ms (js_observed_at data) + (ticks now - m) < instant_ms l - 1000))
    \<and> stable_clocks sent now"
proof -
  note d = admitted_deadlines [OF adm data]
  obtain n where n: "1074 \<le> n" "ct_scale t = 10 ^ n" "ct_sent t = sent"
    using adm data by (rule admitted_exact)
  have c: "ticks now < of_int (ct_snapshotDeadline t)" "ticks now < of_int (ct_jobDeadline t)"
    "stable_clocks sent now"
    using cur by (auto simp: isCoordinationTimingCurrent_def n stableOffset_exact)
  have l: "\<exists>l. js_lease_expires_at data = Some l
      \<and> instant_ms (js_observed_at data) + (ticks now - m) < instant_ms l - 1000" if lq: lease
  proof -
    obtain e where e: "ct_leaseDeadline t = Some e" "ticks now < of_int e"
      using cur lq unfolding isCoordinationTimingCurrent_def by (cases "ct_leaseDeadline t") auto
    then obtain s where s: "js_lease_expires_at data = Some s"
      using d(4) by (cases "js_lease_expires_at data") auto
    with d(3) [OF s] e m show ?thesis by auto
  qed
  show ?thesis
    using c d(1,2) m l snapshot_two_seconds [OF data] by auto
qed

definition sample_state :: jsval where
  "sample_state = JObj
     [(''job_id'', JStr ''j''), (''repository_id'', JStr ''repo''), (''mode'', JStr ''normal''),
      (''requested_attempt'', JNum 1), (''current_attempt'', JNum 1), (''status'', JStr ''running''),
      (''job_revision'', JNum 3), (''cancel_revision'', JNull), (''lease_id'', JStr ''l''),
      (''lease_expires_at'', JStr ''1970-01-01T00:05:00Z''),
      (''expires_at'', JStr ''1970-01-01T00:10:00Z''),
      (''observed_at'', JStr ''1970-01-01T00:00:00Z''),
      (''state_valid_until'', JStr ''1970-01-01T00:00:02Z''),
      (''request_message_id'', JStr ''m''), (''request_sequence'', JNum 1), (''nonce'', JStr ''n'')]"

definition zero_sample :: CoordinationClockSample where
  "zero_sample = \<lparr>wallTimeMs = 0, monotonicTimeMs = 0\<rparr>"

definition sample_payload :: JobStatePayload where
  "sample_payload =
     \<lparr>js_job_id = ''j'', js_repository_id = ''repo'', js_mode = Normal, js_requested_attempt = 1,
      js_current_attempt = 1, js_status = Running, js_job_revision = 3, js_cancel_revision = None,
      js_lease_id = Some ''l'', js_lease_expires_at = Some ''1970-01-01T00:05:00Z'',
      js_expires_at = ''1970-01-01T00:10:00Z'', js_observed_at = ''1970-01-01T00:00:00Z'',
      js_state_valid_until = ''1970-01-01T00:00:02Z'', js_request_message_id = ''m'',
      js_request_sequence = 1, js_nonce = ''n''\<rparr>"

lemma sample_parses: "JobStatePayloadSchema (\<lambda>_. True) sample_state = Some sample_payload"
  by code_simp

lemma zero_values [simp]:
  "double_value 0 = 0" "finite_sample zero_sample" "wall zero_sample = 0" "ticks zero_sample = 0"
  "stable_clocks zero_sample zero_sample"
  by (simp_all add: double_value_def double_mantissa_def double_exponent_def double_fraction_def
      finite_sample_def zero_sample_def isFinite_def stable_clocks_def)

lemma sample_instants:
  "instant_ms ''1970-01-01T00:05:00Z'' = 300000" "instant_ms ''1970-01-01T00:10:00Z'' = 600000"
  "instant_ms ''1970-01-01T00:00:00Z'' = 0" "instant_ms ''1970-01-01T00:00:02Z'' = 2000"
  by code_simp+

lemma sample_expiry_valid: "Rfc3339TimestampSchema ''1970-01-01T00:01:00Z''"
  by code_simp

lemma sample_expiry_ms: "instant_ms ''1970-01-01T00:01:00Z'' = 60000"
  by code_simp

lemma sample_admitted:
  "\<exists>t. admitTiming (\<lambda>_. True) sample_state zero_sample zero_sample Effect = Some t
     \<and> timing_deadlines t = (1000, 599000, Some 299000)"
proof -
  have "admit_reference sample_payload zero_sample zero_sample Effect = Some (1000, 599000, Some 299000)"
    by (simp add: admit_reference_def sample_payload_def sample_instants safe_floor_def MAX_SAFE_INTEGER_def)
  then have "map_option timing_deadlines
      (admitTiming (\<lambda>_. True) sample_state zero_sample zero_sample Effect)
     = Some (1000, 599000, Some 299000)"
    by (simp add: admission_is_exact_raw sample_parses)
  then show ?thesis by auto
qed

lemma sample_current:
  assumes "admitTiming (\<lambda>_. True) sample_state zero_sample zero_sample Effect = Some t"
  shows "isCoordinationTimingCurrent t zero_sample True True"
proof -
  obtain n where n: "1074 \<le> n" "ct_scale t = 10 ^ n" "ct_sent t = zero_sample"
      "ct_received t = zero_sample"
    using assms sample_parses by (rule admitted_exact)
  have "timing_deadlines t = (1000, 599000, Some 299000)" using assms sample_admitted by auto
  then show ?thesis
    using n by (simp add: isCoordinationTimingCurrent_def timing_deadlines_def stableOffset_exact)
qed

theorem current_timing_is_fresh_witness:
  "ticks zero_sample < ticks zero_sample + 1000
   \<and> instant_ms (js_observed_at sample_payload) < instant_ms (js_expires_at sample_payload) - 1000"
proof -
  obtain t where t: "admitTiming (\<lambda>_. True) sample_state zero_sample zero_sample Effect = Some t"
    using sample_admitted by blast
  from current_timing_is_fresh [OF t sample_parses sample_current [OF t], of 0] show ?thesis by simp
qed

subsection \<open>Cancellation and the bounded wait\<close>

lemma length_show_nat_pow: "length (show_nat (10 ^ n)) = Suc n"
proof (induction n)
  case 0
  show ?case by (subst show_nat.simps) simp
next
  case (Suc n)
  have "\<not> 10 ^ Suc n < (10 :: nat)" by simp
  then show ?case using Suc by (subst show_nat.simps) simp
qed

lemma scale_digits: "length (show_int (10 ^ n)) - 1 = n"
  by (simp add: show_int_def length_show_nat_pow nat_power_eq)

lemma waiter_exact:
  assumes "finite_sample sent" "finite_sample now"
  shows "coordinationWaiterRemainingMs sent now =
    (if ticks now < ticks sent \<or> ticks now \<ge> ticks sent + 2000 \<or> \<not> stable_clocks sent now then None
     else let remaining = \<lfloor>2000 - (ticks now - ticks sent)\<rfloor> in
          if remaining > 0 then Some remaining else None)"
proof -
  define n where "n = (1074 :: nat)"
  have n: "1074 \<le> n" by (simp add: n_def)
  define s where "s = (10 :: int) ^ n"
  define e where "e = clockUnits (monotonicTimeMs now) s - clockUnits (monotonicTimeMs sent) s"
  have e: "of_int e = (ticks now - ticks sent) * (10 :: rat) ^ n"
    unfolding e_def s_def by (simp add: clockUnits_exact [OF n] algebra_simps)
  have z: "of_int 0 = 0 * (10 :: rat) ^ n" and two: "of_int (2000 * s) = 2000 * (10 :: rat) ^ n"
    by (simp_all add: s_def)
  have rest: "of_int (2000 * s - e) = (2000 - (ticks now - ticks sent)) * (10 :: rat) ^ n"
    using two e by (simp add: algebra_simps)
  have g: "e < 0 \<longleftrightarrow> ticks now < ticks sent" "e \<ge> 2000 * s \<longleftrightarrow> ticks now \<ge> ticks sent + 2000"
    using units_le_iff(2) [OF e z] units_le_iff(1) [OF two e] by auto
  have fl: "floorDeadline (2000 * s - e) s = safe_floor (2000 - (ticks now - ticks sent))"
    using floorDeadline_exact [OF rest] by (simp add: s_def)
  have st: "stableOffset sent now s = stable_clocks sent now"
    unfolding s_def by (rule stableOffset_exact [OF n])
  have small: "\<not> \<bar>\<lfloor>2000 - (ticks now - ticks sent)\<rfloor>\<bar> > MAX_SAFE_INTEGER"
    if "ticks sent \<le> ticks now" "ticks now < ticks sent + 2000"
  proof -
    have "0 \<le> \<lfloor>2000 - (ticks now - ticks sent)\<rfloor>" "\<lfloor>2000 - (ticks now - ticks sent)\<rfloor> \<le> 2000"
      using that by linarith+
    then show ?thesis by (simp add: MAX_SAFE_INTEGER_def)
  qed
  show ?thesis
    unfolding coordinationWaiterRemainingMs_def Let_def n_def [symmetric] s_def [symmetric] e_def [symmetric] g fl st
    using assms small by (auto simp: safe_floor_def)
qed

text \<open>A cancellation deadline over the rationals.\<close>

lemma cancellation_exact:
  assumes adm: "admitTiming is_uuid state sent received why = Some t"
    and data: "JobStatePayloadSchema is_uuid state = Some data"
    and key: "rfc3339InstantKey expires = Some key"
    and wait: "coordinationWaiterRemainingMs sent received \<noteq> None"
  shows "cancellationCoordinationDeadline t expires =
    (case safe_floor (min
         (ticks sent + (instant_ms (js_expires_at data) - instant_ms (js_observed_at data)) - 1000)
         (ticks sent + (instant_ms expires - instant_ms (js_observed_at data)) - 1000)) of
       Some d \<Rightarrow> if ticks received < of_int d then Some d else None
     | None \<Rightarrow> None)"
proof -
  obtain n where n: "1074 \<le> n" "ct_scale t = 10 ^ n" "ct_sent t = sent" "ct_received t = received"
    and r: "of_int (ct_remoteJobExpiry t) = instant_ms (js_expires_at data) * (10 :: rat) ^ n"
    and e: "of_int (ct_jobEndpoint t) = (ticks sent + (instant_ms (js_expires_at data)
        - instant_ms (js_observed_at data)) - 1000) * (10 :: rat) ^ n"
    using adm data by (rule admitted_exact)
  note f = admitted_floors [OF adm data]
  define k where "k = max n (key_digits key)"
  define mult where "mult = bigint_div (10 ^ k) (10 ^ n)"
  have k: "n \<le> k" "key_digits key \<le> k" by (simp_all add: k_def)
  have "(10 :: int) ^ k = 10 ^ (k - n) * 10 ^ n" using k by (simp flip: power_add)
  moreover have "\<not> (10 :: int) ^ k < 0" by simp
  ultimately have mult: "mult = 10 ^ (k - n)" unfolding mult_def bigint_div_def by simp
  have pow: "(10 :: rat) ^ n * 10 ^ (k - n) = 10 ^ k" using k by (simp flip: power_add)
  let ?j = "ticks sent + (instant_ms (js_expires_at data) - instant_ms (js_observed_at data)) - 1000"
  let ?c = "ticks sent + (instant_ms expires - instant_ms (js_observed_at data)) - 1000"
  define job command where "job = ct_jobEndpoint t * mult"
    and "command = job + instantUnits key k - ct_remoteJobExpiry t * mult"
  have job: "of_int job = ?j * (10 :: rat) ^ k"
    by (simp add: job_def mult e pow [symmetric])
  have "of_int (ct_remoteJobExpiry t * mult) = instant_ms (js_expires_at data) * (10 :: rat) ^ k"
    by (simp add: mult r pow [symmetric])
  then have command: "of_int command = ?c * (10 :: rat) ^ k"
    using job instantUnits_exact [OF key k(2)] by (simp add: command_def algebra_simps)
  have least: "of_int (min job command) = min ?j ?c * (10 :: rat) ^ k"
    using units_le_iff(1) [OF job command] job command by (simp add: min_def)
  have len: "max (length (show_int (10 ^ n)) - 1) (key_digits key) = k"
    by (simp only: scale_digits k_def)
  have jd: "floorDeadline (ct_jobEndpoint t) (10 ^ n) = Some (ct_jobDeadline t)"
    using floorDeadline_exact [OF e] f(4) by simp
  have safe: "isSafeInteger (ct_jobDeadline t)" "isSafeInteger (ct_snapshotDeadline t)"
    using safe_floor_Some [OF f(3)] safe_floor_Some [OF f(4)] by blast+
  have guards: "\<not> (\<not> finite_sample sent \<or> \<not> finite_sample received
      \<or> coordinationWaiterRemainingMs sent received = None \<or> (10 :: int) ^ n \<le> 0
      \<or> \<not> isSafeInteger (ct_jobDeadline t) \<or> \<not> isSafeInteger (ct_snapshotDeadline t)
      \<or> of_int (ct_snapshotDeadline t) \<le> ticks received
      \<or> floorDeadline (ct_jobEndpoint t) (10 ^ n) \<noteq> Some (ct_jobDeadline t))"
    using f(1,2,6) wait safe jd by (simp add: not_le)
  show ?thesis
    unfolding cancellationCoordinationDeadline_def Let_def key n(2-4) option.case if_not_P [OF guards]
      len mult_def [symmetric] job_def [symmetric] command_def [symmetric]
      floorDeadline_exact [OF least]
    by (rule refl)
qed

text \<open>
  The deadline of a cancellation never extends the job's: for a timing that was admitted it
  is the floor of the earlier of the job's conservative end and the command's, both a second
  early and counted from the moment the request was sent, and it lies in the future.
\<close>

theorem cancellation_never_extends:
  assumes adm: "admitTiming is_uuid state sent received why = Some t"
    and data: "JobStatePayloadSchema is_uuid state = Some data"
    and canc: "cancellationCoordinationDeadline t expires = Some d"
  shows "d \<le> ct_jobDeadline t \<and> ticks received < of_int d
    \<and> d = \<lfloor>min (ticks sent + (instant_ms (js_expires_at data) - instant_ms (js_observed_at data)) - 1000)
            (ticks sent + (instant_ms expires - instant_ms (js_observed_at data)) - 1000)\<rfloor>"
proof -
  obtain n where n: "ct_sent t = sent" "ct_received t = received"
    using adm data by (rule admitted_exact)
  obtain key where key: "rfc3339InstantKey expires = Some key"
    using canc by (auto simp: cancellationCoordinationDeadline_def split: option.splits)
  have wait: "coordinationWaiterRemainingMs sent received \<noteq> None"
    using canc by (auto simp: cancellationCoordinationDeadline_def Let_def n split: option.splits if_splits)
  let ?j = "ticks sent + (instant_ms (js_expires_at data) - instant_ms (js_observed_at data)) - 1000"
  let ?c = "ticks sent + (instant_ms expires - instant_ms (js_observed_at data)) - 1000"
  have "safe_floor (min ?j ?c) = Some d" and fut: "ticks received < of_int d"
    using canc unfolding cancellation_exact [OF adm data key wait]
    by (simp_all split: option.splits if_splits)
  then have d: "d = \<lfloor>min ?j ?c\<rfloor>" using safe_floor_Some by blast
  have "ct_jobDeadline t = \<lfloor>?j\<rfloor>" using safe_floor_Some [OF admitted_floors(4) [OF adm data]] by blast
  moreover have "\<lfloor>min ?j ?c\<rfloor> \<le> \<lfloor>?j\<rfloor>" by (rule floor_mono) (rule min.cobounded1)
  ultimately show ?thesis using d fut by simp
qed

theorem cancellation_never_extends_witness:
  "\<exists>t. admitTiming (\<lambda>_. True) sample_state zero_sample zero_sample Effect = Some t
     \<and> cancellationCoordinationDeadline t ''1970-01-01T00:01:00Z'' = Some 59000
     \<and> 59000 \<le> ct_jobDeadline t"
proof -
  obtain t where t: "admitTiming (\<lambda>_. True) sample_state zero_sample zero_sample Effect = Some t"
    using sample_admitted by blast
  obtain key where key: "rfc3339InstantKey ''1970-01-01T00:01:00Z'' = Some key"
    using schema_instant [of "''1970-01-01T00:01:00Z''"] by (auto simp: sample_expiry_valid)
  have "coordinationWaiterRemainingMs zero_sample zero_sample \<noteq> None" by (simp add: waiter_exact)
  then have d: "cancellationCoordinationDeadline t ''1970-01-01T00:01:00Z'' = Some 59000"
    by (simp add: cancellation_exact [OF t sample_parses key] sample_payload_def sample_instants
        sample_expiry_ms safe_floor_def MAX_SAFE_INTEGER_def)
  show ?thesis using t d cancellation_never_extends [OF t sample_parses d] by blast
qed

end
