(* ===== verification/Approval_Broker.thy ===== *)
theory Approval_Broker
  imports Coordination_Deadlines "HOL-Library.AList"
begin

section \<open>Asking the control plane for an approval\<close>

text \<open>
  \<open>packages/harness-plugin/src/approvals/approval-broker.ts\<close>. A request reserves the authority of
  its job, publishes the question and suspends; a decision, an abort, a timeout, a lost
  authority, a failed publication or \<open>dispose\<close> settles it once; then the request resumes,
  checks its authority again and returns. Each of these is one step here, with what the
  environment answered at that moment as arguments: abort signals, the clock, the reservation's
  \<open>isCurrent\<close> (\<open>None\<close> when it throws). Nothing is assumed about how these answers change between
  steps. \<open>rq_iso\<close> is \<open>new Date(deadline).toISOString()\<close>, \<open>None\<close> when it throws; times are rationals.
  Abort listeners that run while they are being added are not modelled.
\<close>

datatype ApprovalOutcome = Allowed_once | Rejected | Outcome_cancelled | Unavailable

record ApprovalInput =
  ai_jobId :: string
  ai_attempt :: int
  ai_fingerprint :: string
  ai_actionSummary :: string
  ai_impactSummary :: string
  ai_riskClass :: string

text \<open>A reservation as \<open>request\<close> sees it when it is made.\<close>

record ApprovalReservation =
  rv_requestedRevision :: int
  rv_deadline :: rat
  rv_approvalTimeoutSeconds :: rat
  rv_aborted :: bool
  rv_isCurrent :: "bool option"

datatype reserve_result = ReserveThrows | NoReservation | Reserved ApprovalReservation

record waiter =
  wt_payload :: ApprovalRequestedPayload
  wt_deadline :: rat
  wt_request :: nat

text \<open>A request that is suspended, with its settled outcome and delivery deadline.\<close>

record pending =
  pe_key :: string
  pe_input :: ApprovalInput
  pe_payload :: ApprovalRequestedPayload
  pe_deadline :: rat
  pe_settled :: "(ApprovalOutcome \<times> rat) option"

record broker =
  br_disposed :: bool
  br_admissions :: "(string \<times> nat) list"
  br_waiters :: "(string \<times> waiter) list"
  br_pending :: "nat \<rightharpoonup> pending"
  br_next :: nat

definition initial_broker :: broker where
  "initial_broker =
     \<lparr>br_disposed = False, br_admissions = [], br_waiters = [], br_pending = Map.empty,
      br_next = 0\<rparr>"

text \<open>\<open>JSON.stringify([input.jobId, input.attempt])\<close>\<close>

definition admission_key :: "string \<Rightarrow> int \<Rightarrow> string" where
  "admission_key jobId attempt = ''['' @ json_string jobId @ '','' @ show_int attempt @ '']''"

definition release_admission :: "string \<Rightarrow> nat \<Rightarrow> broker \<Rightarrow> broker" where
  "release_admission key i st =
     st\<lparr>br_admissions := filter (\<lambda>a. a \<noteq> (key, i)) (br_admissions st)\<rparr>"

text \<open>
  \<open>settle\<close> of the waiter of request \<open>i\<close>: only the first call counts. \<open>cleanup_failed\<close> says that a
  listener could not be removed.
\<close>

definition settle :: "bool \<Rightarrow> ApprovalOutcome \<Rightarrow> rat option \<Rightarrow> nat \<Rightarrow> broker \<Rightarrow> broker" where
  "settle cleanup_failed outcome decisionDeadline i st =
     (case br_pending st i of
        None \<Rightarrow> st
      | Some p \<Rightarrow>
          if pe_settled p \<noteq> None then st
          else
            let deadline = (case decisionDeadline of
                  None \<Rightarrow> pe_deadline p | Some d \<Rightarrow> min (pe_deadline p) d) in
            st\<lparr>br_waiters := AList.delete (arp_approval_id (pe_payload p)) (br_waiters st),
               br_pending := (br_pending st)(i \<mapsto>
                 p\<lparr>pe_settled := Some (if cleanup_failed then Unavailable else outcome, deadline)\<rparr>)\<rparr>)"

text \<open>
  The guard before the question: \<open>now\<close> and \<open>later\<close> are the two readings of the clock, \<open>None\<close> says
  that \<open>isCurrent\<close> was reached and threw.
\<close>

definition request_deadline :: "ApprovalReservation \<Rightarrow> rat \<Rightarrow> rat" where
  "request_deadline r now = min (now + rv_approvalTimeoutSeconds r * 1000) (rv_deadline r)"

definition valid_reservation :: "ApprovalReservation \<Rightarrow> rat \<Rightarrow> rat \<Rightarrow> bool option" where
  "valid_reservation r now later =
     (let timeout = rv_approvalTimeoutSeconds r in
      if of_int \<lfloor>timeout\<rfloor> \<noteq> timeout \<or> timeout < 60 \<or> timeout > 1800
         \<or> request_deadline r now \<le> later \<or> rv_aborted r
      then Some False
      else rv_isCurrent r)"

record request_env =
  rq_aborted :: bool
  rq_reserve :: reserve_result
  rq_now :: rat
  rq_later :: rat
  rq_uuid :: string
  rq_iso :: "rat \<Rightarrow> string option"
  rq_abortedLater :: bool
  rq_authorityAborted :: bool
  rq_publishThrows :: bool
  rq_cleanupFailed :: bool

definition approval_payload ::
  "(string \<Rightarrow> bool) \<Rightarrow> ApprovalInput \<Rightarrow> ApprovalReservation \<Rightarrow> string \<Rightarrow> string option
     \<Rightarrow> ApprovalRequestedPayload option" where
  "approval_payload is_uuid input r uuid iso_text =
     (case iso_text of
        None \<Rightarrow> None
      | Some expires_at \<Rightarrow>
          ApprovalRequestedPayloadSchema is_uuid (JObj
            [(''approval_id'', JStr uuid), (''job_id'', JStr (ai_jobId input)),
             (''attempt'', JNum (of_int (ai_attempt input))),
             (''job_revision'', JNum (of_int (rv_requestedRevision r))),
             (''action_summary'', JStr (ai_actionSummary input)),
             (''impact_summary'', JStr (ai_impactSummary input)),
             (''risk_class'', JStr (ai_riskClass input)),
             (''action_fingerprint'', JStr (ai_fingerprint input)),
             (''expires_at'', JStr expires_at)]))"

text \<open>The body of the promise executor: the waiter is registered, then the question published.\<close>

definition open_waiter ::
  "request_env \<Rightarrow> ApprovalInput \<Rightarrow> ApprovalRequestedPayload \<Rightarrow> rat \<Rightarrow> nat
     \<Rightarrow> broker \<Rightarrow> broker" where
  "open_waiter env input payload deadline i st =
     (let st1 = st\<lparr>br_waiters := AList.update (arp_approval_id payload)
              \<lparr>wt_payload = payload, wt_deadline = deadline, wt_request = i\<rparr> (br_waiters st),
            br_pending := (br_pending st)(i \<mapsto>
              \<lparr>pe_key = admission_key (ai_jobId input) (ai_attempt input), pe_input = input,
               pe_payload = payload,
               pe_deadline = deadline, pe_settled = None\<rparr>)\<rparr> in
      if rq_abortedLater env then settle (rq_cleanupFailed env) Outcome_cancelled None i st1
      else if br_disposed st1 \<or> rq_authorityAborted env \<or> rq_publishThrows env
      then settle (rq_cleanupFailed env) Unavailable None i st1
      else st1)"

text \<open>\<open>request\<close> up to its \<open>await\<close>: an outcome when it returns at once, \<open>None\<close> when it suspends.\<close>

definition request_start ::
  "(string \<Rightarrow> bool) \<Rightarrow> request_env \<Rightarrow> ApprovalInput \<Rightarrow> broker \<Rightarrow> ApprovalOutcome option \<times> broker" where
  "request_start is_uuid env input st =
     (let key = admission_key (ai_jobId input) (ai_attempt input);
          i = br_next st;
          failed = (if rq_abortedLater env then Outcome_cancelled else Unavailable) in
      if rq_aborted env then (Some Outcome_cancelled, st)
      else if ai_riskClass input = ''denied'' then (Some Rejected, st)
      else if br_disposed st \<or> ai_riskClass input \<noteq> ''approval_required'' then (Some Unavailable, st)
      else if length (br_admissions st) \<ge> 32 \<or> key \<in> fst ` set (br_admissions st)
      then (Some Unavailable, st)
      else
        let st1 = st\<lparr>br_admissions := br_admissions st @ [(key, i)], br_next := Suc i\<rparr> in
        case rq_reserve env of
          ReserveThrows \<Rightarrow> (Some failed, release_admission key i st1)
        | NoReservation \<Rightarrow> (Some Unavailable, release_admission key i st1)
        | Reserved r \<Rightarrow>
            let deadline = request_deadline r (rq_now env) in
            (case valid_reservation r (rq_now env) (rq_later env) of
               None \<Rightarrow> (Some failed, release_admission key i st1)
             | Some False \<Rightarrow> (Some Unavailable, release_admission key i st1)
             | Some True \<Rightarrow>
                 (case approval_payload is_uuid input r (rq_uuid env) (rq_iso env deadline) of
                    None \<Rightarrow> (Some failed, release_admission key i st1)
                  | Some payload \<Rightarrow> (None, open_waiter env input payload deadline i st1))))"

text \<open>\<open>request\<close> after its \<open>await\<close>.\<close>

record finish_env =
  fi_releaseFailed :: bool
  fi_isCurrent :: "bool option"
  fi_aborted :: bool
  fi_authorityAborted :: bool
  fi_now :: rat

definition final_outcome :: "finish_env \<Rightarrow> bool \<Rightarrow> ApprovalOutcome \<Rightarrow> rat \<Rightarrow> ApprovalOutcome" where
  "final_outcome env disposed outcome deliveryDeadline =
     (let asked = (outcome = Allowed_once \<and> \<not> fi_releaseFailed env) in
      if asked \<and> fi_isCurrent env = None
      then (if fi_aborted env then Outcome_cancelled else Unavailable)
      else if fi_aborted env then Outcome_cancelled
      else if outcome = Allowed_once
              \<and> (\<not> (asked \<and> fi_isCurrent env = Some True) \<or> disposed \<or> fi_authorityAborted env
                  \<or> fi_now env \<ge> deliveryDeadline)
      then Unavailable
      else outcome)"

definition request_finish :: "finish_env \<Rightarrow> nat \<Rightarrow> broker \<Rightarrow> (ApprovalOutcome \<times> broker) option" where
  "request_finish env i st =
     (case br_pending st i of
        None \<Rightarrow> None
      | Some p \<Rightarrow>
          (case pe_settled p of
             None \<Rightarrow> None
           | Some (outcome, deliveryDeadline) \<Rightarrow>
               Some (final_outcome env (br_disposed st) outcome deliveryDeadline,
                 release_admission (pe_key p) i (st\<lparr>br_pending := (br_pending st)(i := None)\<rparr>))))"

datatype acceptance = Decision_accepted | Decision_ignored

record decision_env =
  de_now :: rat
  de_later :: rat
  de_aborted :: bool
  de_authorityAborted :: bool
  de_isCurrent :: "bool option"
  de_cleanupFailed :: bool

text \<open>\<open>Date.parse\<close> of a time stamp the protocol accepts: whole milliseconds.\<close>

definition date_parse :: "string \<Rightarrow> rat" where
  "date_parse s = of_int \<lfloor>instant_ms s\<rfloor>"

definition decision_matches :: "ApprovalDecisionPayload \<Rightarrow> ApprovalRequestedPayload \<Rightarrow> bool" where
  "decision_matches payload expected =
     (adp_job_id payload = arp_job_id expected \<and> adp_attempt payload = arp_attempt expected
      \<and> adp_job_revision payload = arp_job_revision expected
      \<and> adp_action_fingerprint payload = arp_action_fingerprint expected)"

definition acceptDecision ::
  "(string \<Rightarrow> bool) \<Rightarrow> decision_env \<Rightarrow> jsval \<Rightarrow> broker \<Rightarrow> acceptance \<times> broker" where
  "acceptDecision is_uuid env message st =
     (case ConnectorServerMessageSchema is_uuid message of
        None \<Rightarrow> (Decision_ignored, st)
      | Some m \<Rightarrow>
          (case sm_payload m of
             Decision payload \<Rightarrow>
               (case map_of (br_waiters st) (adp_approval_id payload) of
                  None \<Rightarrow> (Decision_ignored, st)
                | Some w \<Rightarrow>
                    let stop = (\<lambda>outcome. settle (de_cleanupFailed env) outcome None (wt_request w) st) in
                    if de_aborted env then (Decision_ignored, stop Outcome_cancelled)
                    else if de_now env \<ge> wt_deadline w \<or> de_authorityAborted env
                            \<or> de_isCurrent env \<noteq> Some True
                    then (Decision_ignored, stop Unavailable)
                    else if date_parse (sm_expires_at m) \<le> de_later env
                            \<or> \<not> decision_matches payload (wt_payload w)
                    then (Decision_ignored, st)
                    else (Decision_accepted,
                      settle (de_cleanupFailed env)
                        (if adp_decision payload = Approve then Allowed_once else Rejected)
                        (Some (date_parse (sm_expires_at m))) (wt_request w) st))
           | _ \<Rightarrow> (Decision_ignored, st)))"

text \<open>\<open>cleanup_failed i\<close> says that a listener of request \<open>i\<close> could not be removed.\<close>

definition dispose :: "(nat \<Rightarrow> bool) \<Rightarrow> broker \<Rightarrow> broker" where
  "dispose cleanup_failed st =
     fold (\<lambda>(_, w). settle (cleanup_failed (wt_request w)) Unavailable None (wt_request w))
       (br_waiters st) (st\<lparr>br_disposed := True\<rparr>)"

section \<open>Runs of a broker\<close>

text \<open>
  \<open>Invalidated\<close> is the timer, the lost authority or the failed publication; \<open>Caller_abort\<close> the abort
  of the caller's signal.
\<close>

datatype broker_event =
    Request request_env ApprovalInput
  | Decide decision_env jsval
  | Caller_abort bool nat
  | Invalidated bool nat
  | Dispose "nat \<Rightarrow> bool"
  | Finish finish_env nat

definition finished_state :: "finish_env \<Rightarrow> nat \<Rightarrow> broker \<Rightarrow> broker" where
  "finished_state env i st = (case request_finish env i st of None \<Rightarrow> st | Some (_, st') \<Rightarrow> st')"

primrec broker_step :: "(string \<Rightarrow> bool) \<Rightarrow> broker_event \<Rightarrow> broker \<Rightarrow> broker" where
  "broker_step is_uuid (Request env input) st = snd (request_start is_uuid env input st)"
| "broker_step is_uuid (Decide env message) st = snd (acceptDecision is_uuid env message st)"
| "broker_step is_uuid (Caller_abort c i) st = settle c Outcome_cancelled None i st"
| "broker_step is_uuid (Invalidated c i) st = settle c Unavailable None i st"
| "broker_step is_uuid (Dispose c) st = dispose c st"
| "broker_step is_uuid (Finish env i) st = finished_state env i st"

definition broker_after :: "(string \<Rightarrow> bool) \<Rightarrow> broker_event list \<Rightarrow> broker" where
  "broker_after is_uuid evs = fold (broker_step is_uuid) evs initial_broker"

lemma broker_after_Nil [simp]: "broker_after is_uuid [] = initial_broker"
  by (simp add: broker_after_def)

lemma broker_after_snoc [simp]:
  "broker_after is_uuid (evs @ [e]) = broker_step is_uuid e (broker_after is_uuid evs)"
  by (simp add: broker_after_def)

subsection \<open>What settling changes\<close>

definition settled_as :: "bool \<Rightarrow> ApprovalOutcome \<Rightarrow> rat option \<Rightarrow> pending \<Rightarrow> pending" where
  "settled_as c outcome d p =
     (if pe_settled p \<noteq> None then p
      else p\<lparr>pe_settled := Some (if c then Unavailable else outcome,
        case d of None \<Rightarrow> pe_deadline p | Some x \<Rightarrow> min (pe_deadline p) x)\<rparr>)"

lemma settle_frame [simp]:
  "br_admissions (settle c outcome d i st) = br_admissions st"
  "br_next (settle c outcome d i st) = br_next st"
  "br_disposed (settle c outcome d i st) = br_disposed st"
  by (auto simp: settle_def Let_def split: option.splits)

lemma settle_pending [simp]:
  "br_pending (settle c outcome d i st) j =
     (if j = i then map_option (settled_as c outcome d) (br_pending st i) else br_pending st j)"
  by (auto simp: settle_def settled_as_def Let_def split: option.splits)

lemma settle_waiters:
  "br_waiters (settle c outcome d i st) =
     (case br_pending st i of
        Some p \<Rightarrow> if pe_settled p = None then AList.delete (arp_approval_id (pe_payload p)) (br_waiters st)
                  else br_waiters st
      | None \<Rightarrow> br_waiters st)"
  by (auto simp: settle_def Let_def split: option.splits)

lemma settled_as_frame [simp]:
  "pe_key (settled_as c outcome d p) = pe_key p"
  "pe_input (settled_as c outcome d p) = pe_input p"
  "pe_payload (settled_as c outcome d p) = pe_payload p"
  "pe_deadline (settled_as c outcome d p) = pe_deadline p"
  "pe_settled (settled_as c outcome d p) \<noteq> None"
  by (auto simp: settled_as_def)

lemma release_frame [simp]:
  "br_admissions (release_admission key i st) = filter (\<lambda>a. a \<noteq> (key, i)) (br_admissions st)"
  "br_pending (release_admission key i st) = br_pending st"
  "br_waiters (release_admission key i st) = br_waiters st"
  "br_next (release_admission key i st) = br_next st"
  "br_disposed (release_admission key i st) = br_disposed st"
  by (simp_all add: release_admission_def)

text \<open>An interface for relations every operation of the broker keeps.\<close>

locale broker_invariant =
  fixes P :: "broker \<Rightarrow> bool"
  assumes settled: "P st \<Longrightarrow> P (settle c outcome d i st)"
    and disposed: "P st \<Longrightarrow> P (st\<lparr>br_disposed := True\<rparr>)"
begin

lemma dispose_keeps: "P st \<Longrightarrow> P (dispose c st)"
proof -
  have "P st \<Longrightarrow> P (fold (\<lambda>(_, w). settle (c (wt_request w)) Unavailable None (wt_request w)) ws st)"
    for ws :: "(string \<times> waiter) list" and st
    by (induction ws arbitrary: st) (auto intro: settled)
  then show "P st \<Longrightarrow> P (dispose c st)" by (simp add: dispose_def disposed)
qed

lemma acceptDecision_keeps: "P st \<Longrightarrow> P (snd (acceptDecision is_uuid env message st))"
  by (auto simp: acceptDecision_def Let_def settled split: option.splits server_payload.splits)

end

definition opened :: "ApprovalInput \<Rightarrow> ApprovalRequestedPayload \<Rightarrow> rat \<Rightarrow> broker \<Rightarrow> broker" where
  "opened input payload deadline st =
     st\<lparr>br_admissions := br_admissions st @ [(admission_key (ai_jobId input) (ai_attempt input), br_next st)],
        br_next := Suc (br_next st),
        br_waiters := AList.update (arp_approval_id payload)
          \<lparr>wt_payload = payload, wt_deadline = deadline, wt_request = br_next st\<rparr> (br_waiters st),
        br_pending := (br_pending st)(br_next st \<mapsto>
          \<lparr>pe_key = admission_key (ai_jobId input) (ai_attempt input), pe_input = input,
           pe_payload = payload, pe_deadline = deadline, pe_settled = None\<rparr>)\<rparr>"

text \<open>Where \<open>request_start\<close> ends up.\<close>

lemma request_start_cases:
  obtains (unchanged) "snd (request_start is_uuid env input st) = st"
    | (failed) "snd (request_start is_uuid env input st) =
          release_admission (admission_key (ai_jobId input) (ai_attempt input)) (br_next st)
            (st\<lparr>br_admissions := br_admissions st
                  @ [(admission_key (ai_jobId input) (ai_attempt input), br_next st)],
               br_next := Suc (br_next st)\<rparr>)"
    | (opened) r payload c outcome where
        "snd (request_start is_uuid env input st) =
           opened input payload (request_deadline r (rq_now env)) st
         \<or> outcome \<noteq> Allowed_once \<and> snd (request_start is_uuid env input st) =
           settle c outcome None (br_next st) (opened input payload (request_deadline r (rq_now env)) st)"
        "ai_riskClass input = ''approval_required''" "\<not> br_disposed st"
        "length (br_admissions st) < 32"
        "admission_key (ai_jobId input) (ai_attempt input) \<notin> fst ` set (br_admissions st)"
        "rq_reserve env = Reserved r"
        "valid_reservation r (rq_now env) (rq_later env) = Some True"
        "approval_payload is_uuid input r (rq_uuid env) (rq_iso env (request_deadline r (rq_now env)))
           = Some payload"
proof -
  define key where "key = admission_key (ai_jobId input) (ai_attempt input)"
  define st1 where "st1 = st\<lparr>br_admissions := br_admissions st @ [(key, br_next st)],
     br_next := Suc (br_next st)\<rparr>"
  show ?thesis
  proof (cases "\<exists>r payload. rq_reserve env = Reserved r
        \<and> valid_reservation r (rq_now env) (rq_later env) = Some True
        \<and> approval_payload is_uuid input r (rq_uuid env) (rq_iso env (request_deadline r (rq_now env)))
           = Some payload \<and> snd (request_start is_uuid env input st) \<noteq> st
        \<and> snd (request_start is_uuid env input st) \<noteq> release_admission key (br_next st) st1")
    case True
    then obtain r payload where a: "rq_reserve env = Reserved r"
      "valid_reservation r (rq_now env) (rq_later env) = Some True"
      "approval_payload is_uuid input r (rq_uuid env) (rq_iso env (request_deadline r (rq_now env)))
           = Some payload" "snd (request_start is_uuid env input st) \<noteq> st"
      by auto
    have o: "ai_riskClass input = ''approval_required'' \<and> \<not> br_disposed st
        \<and> length (br_admissions st) < 32 \<and> key \<notin> fst ` set (br_admissions st)
        \<and> snd (request_start is_uuid env input st) =
            open_waiter env input payload (request_deadline r (rq_now env)) (br_next st) st1"
      using a by (simp add: request_start_def Let_def key_def st1_def split: if_splits)
    have "snd (request_start is_uuid env input st) =
           opened input payload (request_deadline r (rq_now env)) st
        \<or> (\<exists>c outcome. outcome \<noteq> Allowed_once \<and> snd (request_start is_uuid env input st) =
           settle c outcome None (br_next st) (opened input payload (request_deadline r (rq_now env)) st))"
      using o by (force simp: open_waiter_def opened_def st1_def key_def Let_def)
    with a o show ?thesis by (auto intro: opened simp: key_def)
  next
    case False
    then have "snd (request_start is_uuid env input st) = st
      \<or> snd (request_start is_uuid env input st) = release_admission key (br_next st) st1"
      by (auto simp: request_start_def Let_def key_def st1_def
          split: if_splits reserve_result.splits option.splits bool.splits)
    then show ?thesis using unchanged failed by (auto simp: key_def st1_def)
  qed
qed


subsection \<open>Admissions\<close>

definition admissions_ok :: "broker \<Rightarrow> bool" where
  "admissions_ok st =
     (length (br_admissions st) \<le> 32 \<and> distinct (map fst (br_admissions st))
      \<and> (\<forall>k i. (k, i) \<in> set (br_admissions st) \<longleftrightarrow> (\<exists>p. br_pending st i = Some p \<and> pe_key p = k))
      \<and> (\<forall>i. br_next st \<le> i \<longrightarrow> br_pending st i = None)
      \<and> (\<forall>i p. br_pending st i = Some p \<longrightarrow>
           pe_key p = admission_key (ai_jobId (pe_input p)) (ai_attempt (pe_input p))))"

interpretation ad: broker_invariant admissions_ok
proof
  fix st c outcome d i
  assume a: "admissions_ok st"
  have "(\<exists>p. br_pending (settle c outcome d i st) j = Some p \<and> pe_key p = k)
      = (\<exists>p. br_pending st j = Some p \<and> pe_key p = k)" for j k
    by auto
  with a show "admissions_ok (settle c outcome d i st)"
    unfolding admissions_ok_def by (auto split: if_splits)
qed (simp add: admissions_ok_def)

lemma fresh_admission: "admissions_ok st \<Longrightarrow> br_next st \<notin> snd ` set (br_admissions st)"
  by (force simp: admissions_ok_def)

lemma admissions_opened:
  assumes a: "admissions_ok st" and "length (br_admissions st) < 32"
    "admission_key (ai_jobId input) (ai_attempt input) \<notin> fst ` set (br_admissions st)"
  shows "admissions_ok (opened input payload deadline st)"
proof -
  have "(k, j) \<in> set (br_admissions (opened input payload deadline st))
     \<longleftrightarrow> (\<exists>p. br_pending (opened input payload deadline st) j = Some p \<and> pe_key p = k)" for k j
    using a fresh_admission [OF a] by (force simp: opened_def admissions_ok_def)
  with assms show ?thesis by (auto simp: admissions_ok_def opened_def)
qed

lemma admissions_request:
  assumes a: "admissions_ok st"
  shows "admissions_ok (snd (request_start is_uuid env input st))"
proof (cases rule: request_start_cases [of is_uuid env input st])
  case unchanged
  with a show ?thesis by simp
next
  case failed
  have "filter (\<lambda>e. e \<noteq> (k, br_next st)) (br_admissions st) = br_admissions st" for k
    using fresh_admission [OF a] by (force intro: filter_True)
  with a failed show ?thesis by (simp add: admissions_ok_def)
next
  case (opened r payload c outcome)
  then show ?thesis
    using ad.settled [OF admissions_opened [OF a opened(4,5)]] admissions_opened [OF a opened(4,5)]
    by auto
qed

lemma admissions_finish:
  assumes a: "admissions_ok st"
  shows "admissions_ok (finished_state env i st)"
proof (cases "request_finish env i st")
  case None
  with a show ?thesis by (simp add: finished_state_def)
next
  case (Some x)
  then obtain p where p: "br_pending st i = Some p"
    and s: "snd x = release_admission (pe_key p) i (st\<lparr>br_pending := (br_pending st)(i := None)\<rparr>)"
    by (auto simp: request_finish_def split: option.splits)
  have "(k, j) \<in> set (br_admissions (snd x)) \<longleftrightarrow> (\<exists>q. br_pending (snd x) j = Some q \<and> pe_key q = k)" for k j
    using a p by (auto simp: s admissions_ok_def)
  moreover have "distinct (map fst (br_admissions (snd x)))" "length (br_admissions (snd x)) \<le> 32"
    using a by (auto simp: s admissions_ok_def distinct_map_filter intro: le_trans [OF length_filter_le])
  ultimately have "admissions_ok (snd x)" using a by (auto simp: admissions_ok_def s)
  then show ?thesis using Some by (cases x) (simp add: finished_state_def)
qed

lemma admissions_run: "admissions_ok (broker_after is_uuid evs)"
proof (induction evs rule: rev_induct)
  case Nil
  show ?case by (simp add: admissions_ok_def initial_broker_def)
next
  case (snoc e evs)
  then show ?case
    by (cases e) (auto intro: admissions_request ad.acceptDecision_keeps ad.settled ad.dispose_keeps
        admissions_finish)
qed

text \<open>
  C33. However requests, decisions, aborts, timeouts, lost authorities, disposal and returns
  interleave: at most 32 requests are admitted, the admitted requests are exactly the suspended
  ones, no admission outlives its request, and no two suspended requests ask for the same attempt
  of the same job.
\<close>

theorem admissions_are_suspended_requests:
  "length (br_admissions (broker_after is_uuid evs)) \<le> 32
   \<and> distinct (map fst (br_admissions (broker_after is_uuid evs)))
   \<and> set (br_admissions (broker_after is_uuid evs))
       = {(pe_key p, i) | p i. br_pending (broker_after is_uuid evs) i = Some p}
   \<and> inj_on (\<lambda>i. map_option (\<lambda>p. (ai_jobId (pe_input p), ai_attempt (pe_input p)))
         (br_pending (broker_after is_uuid evs) i)) (dom (br_pending (broker_after is_uuid evs)))"
proof -
  define st where "st = broker_after is_uuid evs"
  have a: "admissions_ok st" by (simp add: st_def admissions_run)
  then have adm: "set (br_admissions st) = {(pe_key p, i) | p i. br_pending st i = Some p}"
    unfolding admissions_ok_def by auto
  have "inj_on (\<lambda>i. map_option (\<lambda>p. (ai_jobId (pe_input p), ai_attempt (pe_input p)))
         (br_pending st i)) (dom (br_pending st))"
  proof (rule inj_onI)
    fix i j
    assume "i \<in> dom (br_pending st)" "j \<in> dom (br_pending st)"
      and same: "map_option (\<lambda>p. (ai_jobId (pe_input p), ai_attempt (pe_input p))) (br_pending st i)
        = map_option (\<lambda>p. (ai_jobId (pe_input p), ai_attempt (pe_input p))) (br_pending st j)"
    then obtain p q where pq: "br_pending st i = Some p" "br_pending st j = Some q" by auto
    then have "pe_key p = pe_key q" using same a by (auto simp: admissions_ok_def)
    moreover have "(pe_key p, i) \<in> set (br_admissions st)" "(pe_key q, j) \<in> set (br_admissions st)"
      using pq adm by auto
    moreover have "distinct (map fst (br_admissions st))" using a by (simp add: admissions_ok_def)
    ultimately show "i = j" by (metis eq_key_imp_eq_value)
  qed
  then show ?thesis using a adm by (simp add: st_def admissions_ok_def)
qed


subsection \<open>Waiters\<close>

definition waiters_ok :: "broker \<Rightarrow> bool" where
  "waiters_ok st =
     (\<forall>x w. (x, w) \<in> set (br_waiters st) \<longrightarrow>
        (\<exists>p. br_pending st (wt_request w) = Some p \<and> pe_settled p = None
           \<and> wt_payload w = pe_payload p \<and> wt_deadline w = pe_deadline p
           \<and> x = arp_approval_id (pe_payload p)))"

lemma waiters_okD:
  assumes "waiters_ok st" "map_of (br_waiters st) x = Some w"
  obtains p where "br_pending st (wt_request w) = Some p" "pe_settled p = None"
    "wt_payload w = pe_payload p" "wt_deadline w = pe_deadline p" "x = arp_approval_id (pe_payload p)"
  using assms map_of_SomeD [of "br_waiters st" x w] unfolding waiters_ok_def by blast

lemma in_set_update: "(x, w) \<in> set (AList.update k v xs) \<Longrightarrow> (x, w) = (k, v) \<or> (x, w) \<in> set xs"
  by (induction xs) (auto split: if_splits)

interpretation wk: broker_invariant waiters_ok
proof
  fix st c outcome d i
  assume a: "waiters_ok st"
  show "waiters_ok (settle c outcome d i st)"
    unfolding waiters_ok_def
  proof (intro allI impI)
    fix x w
    assume m: "(x, w) \<in> set (br_waiters (settle c outcome d i st))"
    then have "(x, w) \<in> set (br_waiters st)"
      by (auto simp: settle_waiters AList.delete_eq split: option.splits if_splits)
    then obtain p where p: "br_pending st (wt_request w) = Some p" "pe_settled p = None"
      "wt_payload w = pe_payload p" "wt_deadline w = pe_deadline p" "x = arp_approval_id (pe_payload p)"
      using a unfolding waiters_ok_def by blast
    have "wt_request w \<noteq> i"
      using m p by (auto simp: settle_waiters AList.delete_eq)
    with p show "\<exists>p. br_pending (settle c outcome d i st) (wt_request w) = Some p \<and> pe_settled p = None
           \<and> wt_payload w = pe_payload p \<and> wt_deadline w = pe_deadline p
           \<and> x = arp_approval_id (pe_payload p)" by simp
  qed
qed (simp add: waiters_ok_def)

lemma waiters_opened:
  assumes "waiters_ok st" "admissions_ok st"
  shows "waiters_ok (opened input payload deadline st)"
  unfolding waiters_ok_def
proof (intro allI impI)
  fix x w
  let ?st = "opened input payload deadline st"
  assume "(x, w) \<in> set (br_waiters ?st)"
  then consider "(x, w) = (arp_approval_id payload,
        \<lparr>wt_payload = payload, wt_deadline = deadline, wt_request = br_next st\<rparr>)"
    | "(x, w) \<in> set (br_waiters st)"
    by (auto simp: opened_def dest: in_set_update)
  then show "\<exists>p. br_pending ?st (wt_request w) = Some p \<and> pe_settled p = None
           \<and> wt_payload w = pe_payload p \<and> wt_deadline w = pe_deadline p
           \<and> x = arp_approval_id (pe_payload p)"
  proof cases
    case 2
    then obtain p where p: "br_pending st (wt_request w) = Some p" "pe_settled p = None"
      "wt_payload w = pe_payload p" "wt_deadline w = pe_deadline p" "x = arp_approval_id (pe_payload p)"
      using assms(1) unfolding waiters_ok_def by blast
    moreover from p(1) assms(2) have "wt_request w \<noteq> br_next st" by (auto simp: admissions_ok_def)
    ultimately show ?thesis by (simp add: opened_def)
  qed (simp add: opened_def)
qed

lemma waiters_request:
  assumes a: "waiters_ok st" "admissions_ok st"
  shows "waiters_ok (snd (request_start is_uuid env input st))"
proof (cases rule: request_start_cases [of is_uuid env input st])
  case (opened r payload c outcome)
  then show ?thesis
    using wk.settled [OF waiters_opened [OF a]] waiters_opened [OF a] by auto
qed (use a in \<open>simp_all add: waiters_ok_def\<close>)

lemma waiters_finish:
  assumes a: "waiters_ok st"
  shows "waiters_ok (finished_state env i st)"
  using a by (fastforce simp: finished_state_def request_finish_def waiters_ok_def split: option.splits)

lemma waiters_run: "waiters_ok (broker_after is_uuid evs)"
proof (induction evs rule: rev_induct)
  case Nil
  show ?case by (simp add: waiters_ok_def initial_broker_def)
next
  case (snoc e evs)
  then show ?case
    by (cases e) (auto intro: waiters_request admissions_run wk.acceptDecision_keeps wk.settled
        wk.dispose_keeps waiters_finish)
qed

subsection \<open>Where a grant comes from\<close>

text \<open>A decision message that approves the question of a suspended request in time.\<close>

definition approves ::
  "(string \<Rightarrow> bool) \<Rightarrow> decision_env \<Rightarrow> jsval \<Rightarrow> pending \<Rightarrow> rat \<Rightarrow> bool" where
  "approves is_uuid env message p d =
     (\<exists>m a. ConnectorServerMessageSchema is_uuid message = Some m \<and> sm_payload m = Decision a
        \<and> adp_decision a = Approve \<and> adp_approval_id a = arp_approval_id (pe_payload p)
        \<and> decision_matches a (pe_payload p)
        \<and> \<not> de_aborted env \<and> \<not> de_authorityAborted env \<and> de_isCurrent env = Some True
        \<and> de_now env < pe_deadline p \<and> de_later env < date_parse (sm_expires_at m)
        \<and> d = min (pe_deadline p) (date_parse (sm_expires_at m)))"

definition asked ::
  "(string \<Rightarrow> bool) \<Rightarrow> broker_event list \<Rightarrow> nat \<Rightarrow> pending \<Rightarrow> bool" where
  "asked is_uuid evs i p =
     (\<exists>before env r later.
        evs = before @ Request env (pe_input p) # later \<and> br_next (broker_after is_uuid before) = i
        \<and> ai_riskClass (pe_input p) = ''approval_required''
        \<and> rq_reserve env = Reserved r \<and> valid_reservation r (rq_now env) (rq_later env) = Some True
        \<and> pe_deadline p = request_deadline r (rq_now env)
        \<and> approval_payload is_uuid (pe_input p) r (rq_uuid env) (rq_iso env (pe_deadline p))
            = Some (pe_payload p)
        \<and> (\<forall>d. pe_settled p = Some (Allowed_once, d) \<longrightarrow>
             (\<exists>denv message. Decide denv message \<in> set later \<and> approves is_uuid denv message p d)))"

lemma asked_later: "asked is_uuid evs i p \<Longrightarrow> asked is_uuid (evs @ [e]) i p"
  unfolding asked_def by (elim exE, rename_tac before env r later,
      rule_tac x = before in exI, rule_tac x = env in exI, rule_tac x = r in exI,
      rule_tac x = "later @ [e]" in exI) (auto, blast)

lemma asked_settled:
  assumes "asked is_uuid evs i p" "outcome \<noteq> Allowed_once"
  shows "asked is_uuid evs i (settled_as c outcome d p)"
proof (cases "pe_settled p")
  case None
  with assms show ?thesis unfolding asked_def by (auto simp: settled_as_def)
qed (use assms in \<open>simp add: settled_as_def\<close>)

lemma approves_settled [simp]:
  "approves is_uuid env message (settled_as c outcome d p) x = approves is_uuid env message p x"
  by (simp add: approves_def)

lemma asked_approved:
  assumes a: "asked is_uuid evs i p"
    and g: "approves is_uuid denv message p (min (pe_deadline p) x)"
  shows "asked is_uuid (evs @ [Decide denv message]) i (settled_as c Allowed_once (Some x) p)"
proof (cases "pe_settled p")
  case (Some y)
  with asked_later [OF a] show ?thesis by (simp add: settled_as_def)
next
  case None
  from a obtain before env r later where
    "evs = before @ Request env (pe_input p) # later" "br_next (broker_after is_uuid before) = i"
    "ai_riskClass (pe_input p) = ''approval_required''"
    "rq_reserve env = Reserved r" "valid_reservation r (rq_now env) (rq_later env) = Some True"
    "pe_deadline p = request_deadline r (rq_now env)"
    "approval_payload is_uuid (pe_input p) r (rq_uuid env) (rq_iso env (pe_deadline p))
       = Some (pe_payload p)"
    unfolding asked_def by blast
  moreover have "pe_settled (settled_as c Allowed_once (Some x) p) = Some (Allowed_once, d)
      \<Longrightarrow> d = min (pe_deadline p) x" for d
    using None by (auto simp: settled_as_def split: if_splits)
  ultimately show ?thesis using g
    unfolding asked_def
    by (intro exI [of _ before] exI [of _ env] exI [of _ r]
        exI [of _ "later @ [Decide denv message]"]) auto
qed

lemma acceptDecision_cases:
  assumes w: "waiters_ok st"
  obtains (ignored) "snd (acceptDecision is_uuid env message st) = st"
    | (stopped) c outcome d i where "outcome \<noteq> Allowed_once"
        "snd (acceptDecision is_uuid env message st) = settle c outcome d i st"
    | (granted) c x i p where "br_pending st i = Some p"
        "approves is_uuid env message p (min (pe_deadline p) x)"
        "snd (acceptDecision is_uuid env message st) = settle c Allowed_once (Some x) i st"
proof (cases "\<exists>m a w. ConnectorServerMessageSchema is_uuid message = Some m \<and> sm_payload m = Decision a
    \<and> map_of (br_waiters st) (adp_approval_id a) = Some w")
  case False
  then have "snd (acceptDecision is_uuid env message st) = st"
    by (auto simp: acceptDecision_def split: option.splits server_payload.splits)
  then show ?thesis by (rule ignored)
next
  case True
  then obtain m a w where m: "ConnectorServerMessageSchema is_uuid message = Some m"
    "sm_payload m = Decision a" "map_of (br_waiters st) (adp_approval_id a) = Some w" by blast
  from waiters_okD [OF w m(3)] obtain p where p: "br_pending st (wt_request w) = Some p"
    "wt_payload w = pe_payload p" "wt_deadline w = pe_deadline p"
    "adp_approval_id a = arp_approval_id (pe_payload p)" by blast
  let ?x = "date_parse (sm_expires_at m)"
  let ?stop = "de_aborted env \<or> de_now env \<ge> wt_deadline w \<or> de_authorityAborted env
     \<or> de_isCurrent env \<noteq> Some True"
  let ?odd = "?x \<le> de_later env \<or> \<not> decision_matches a (wt_payload w)"
  note acceptDecision_def [simp] Let_def [simp]
  consider ?stop | "\<not> ?stop" ?odd | "\<not> ?stop" "\<not> ?odd" "adp_decision a \<noteq> Approve"
    | "\<not> ?stop" "\<not> ?odd" "adp_decision a = Approve" by blast
  then show ?thesis
  proof cases
    case 1
    then have "snd (acceptDecision is_uuid env message st) =
        settle (de_cleanupFailed env) (if de_aborted env then Outcome_cancelled else Unavailable)
          None (wt_request w) st"
      using m by auto
    then show ?thesis by (rule stopped [rotated]) simp
  next
    case 2
    then show ?thesis using m by (intro ignored) simp
  next
    case 3
    then have "snd (acceptDecision is_uuid env message st) =
        settle (de_cleanupFailed env) Rejected (Some ?x) (wt_request w) st"
      using m by simp
    then show ?thesis by (rule stopped [rotated]) simp
  next
    case 4
    then have "approves is_uuid env message p (min (pe_deadline p) ?x)"
      unfolding approves_def using m p by auto
    moreover have "snd (acceptDecision is_uuid env message st) =
        settle (de_cleanupFailed env) Allowed_once (Some ?x) (wt_request w) st"
      using 4 m by simp
    ultimately show ?thesis by (rule granted [OF p(1)])
  qed
qed


lemma dispose_fold_pending:
  "br_pending (fold (\<lambda>(_, w). settle (c (wt_request w)) Unavailable None (wt_request w)) ws st) i = Some q
     \<Longrightarrow> \<exists>p. br_pending st i = Some p \<and> (q = p \<or> (\<exists>c. q = settled_as c Unavailable None p))"
proof (induction ws arbitrary: st)
  case (Cons e ws)
  from Cons.IH [OF Cons.prems [unfolded fold_Cons comp_apply]] show ?case
    by (cases e) (auto simp: settled_as_def split: if_splits)
qed simp

lemma dispose_pending:
  assumes "br_pending (dispose c st) i = Some q"
  obtains p where "br_pending st i = Some p" "q = p \<or> (\<exists>c. q = settled_as c Unavailable None p)"
  using dispose_fold_pending [OF assms [unfolded dispose_def]] by auto

definition history_ok :: "(string \<Rightarrow> bool) \<Rightarrow> broker_event list \<Rightarrow> broker \<Rightarrow> bool" where
  "history_ok is_uuid evs st = (\<forall>i p. br_pending st i = Some p \<longrightarrow> asked is_uuid evs i p)"

lemma history_later: "history_ok is_uuid evs st \<Longrightarrow> history_ok is_uuid (evs @ [e]) st"
  by (simp add: history_ok_def asked_later)

lemma history_settle:
  assumes "history_ok is_uuid evs st" "outcome \<noteq> Allowed_once"
  shows "history_ok is_uuid evs (settle c outcome d i st)"
  using assms by (auto simp: history_ok_def intro: asked_settled)

lemma history_request:
  assumes h: "history_ok is_uuid evs (broker_after is_uuid evs)"
  shows "history_ok is_uuid (evs @ [Request env input])
     (snd (request_start is_uuid env input (broker_after is_uuid evs)))"
proof (cases rule: request_start_cases [of is_uuid env input "broker_after is_uuid evs"])
  case (opened r payload c outcome)
  let ?st = "opened input payload (request_deadline r (rq_now env)) (broker_after is_uuid evs)"
  have "asked is_uuid (evs @ [Request env input]) (br_next (broker_after is_uuid evs))
     \<lparr>pe_key = admission_key (ai_jobId input) (ai_attempt input), pe_input = input,
      pe_payload = payload, pe_deadline = request_deadline r (rq_now env), pe_settled = None\<rparr>"
    using opened(2-) unfolding asked_def by fastforce
  then have "history_ok is_uuid (evs @ [Request env input]) ?st"
    using history_later [OF h] by (simp add: history_ok_def opened_def)
  with opened(1) show ?thesis using history_settle by fastforce
qed (use history_later [OF h] in \<open>simp_all add: history_ok_def\<close>)

lemma history_decision:
  assumes h: "history_ok is_uuid evs st" and w: "waiters_ok st"
  shows "history_ok is_uuid (evs @ [Decide env message]) (snd (acceptDecision is_uuid env message st))"
proof (cases rule: acceptDecision_cases [OF w, of is_uuid env message, case_names ignored stopped granted])
  case (granted c x i p)
  then show ?thesis using h history_later [OF h]
    by (auto simp: history_ok_def intro: asked_approved)
qed (use history_later [OF h] history_settle in \<open>auto\<close>)

lemma history_run: "history_ok is_uuid evs (broker_after is_uuid evs)"
proof (induction evs rule: rev_induct)
  case Nil
  show ?case by (simp add: history_ok_def initial_broker_def)
next
  case (snoc e evs)
  let ?st = "broker_after is_uuid evs"
  note later = history_later [OF snoc.IH, of e]
  show ?case
  proof (cases e)
    case (Dispose c)
    then show ?thesis using later
      by (auto simp: history_ok_def elim!: dispose_pending intro: asked_settled)
  next
    case (Finish env i)
    then show ?thesis using later
      by (auto simp: history_ok_def finished_state_def request_finish_def split: option.splits if_splits)
  qed (use snoc.IH later history_settle in
      \<open>auto intro: history_request history_decision waiters_run\<close>)
qed

lemma whole_number_of_int [simp]: "whole_number (JNum (of_int n)) = Some n"
  by (simp add: whole_number_def)

lemma payload_of_request:
  assumes "approval_payload is_uuid input r uuid t = Some payload"
  shows "arp_approval_id payload = toLowerCase uuid \<and> arp_job_id payload = toLowerCase (ai_jobId input)
     \<and> arp_attempt payload = ai_attempt input \<and> arp_job_revision payload = rv_requestedRevision r
     \<and> arp_action_fingerprint payload = ai_fingerprint input"
proof -
  obtain s where "ApprovalRequestedPayloadSchema is_uuid (JObj
            [(''approval_id'', JStr uuid), (''job_id'', JStr (ai_jobId input)),
             (''attempt'', JNum (of_int (ai_attempt input))),
             (''job_revision'', JNum (of_int (rv_requestedRevision r))),
             (''action_summary'', JStr (ai_actionSummary input)),
             (''impact_summary'', JStr (ai_impactSummary input)),
             (''risk_class'', JStr (ai_riskClass input)),
             (''action_fingerprint'', JStr (ai_fingerprint input)),
             (''expires_at'', JStr s)]) = Some payload"
    using assms by (auto simp: approval_payload_def split: option.splits)
  then show ?thesis
    by (auto simp: ApprovalRequestedPayloadSchema_def bind_eq_Some_conv strict_object_def get_prop_def
        UuidSchema_def PositiveIntegerSchema_def NonNegativeIntegerSchema_def
        bounded_int_def ActionFingerprintSchema_def split: if_splits)
qed

text \<open>
  C32. \<open>allowed-once\<close> comes only from a matching approval in time. If a resuming request returns it,
  then earlier in the run the broker was asked with an input of risk class \<open>approval_required\<close>
  under a valid current reservation, and after that it accepted a well-formed message approving
  exactly that job, attempt, reserved revision and action fingerprint, before the deadline of the
  reservation and before the message expired; and when the request returns its authority is still
  current, nobody aborted, the broker is not disposed and neither deadline has passed.
\<close>

theorem allowed_once_needs_a_matching_approval:
  assumes "request_finish fenv i (broker_after is_uuid evs) = Some (Allowed_once, st)"
  shows "\<exists>before env input r later denv message m a deadline.
     evs = before @ Request env input # later \<and> br_next (broker_after is_uuid before) = i
     \<and> ai_riskClass input = ''approval_required''
     \<and> rq_reserve env = Reserved r \<and> valid_reservation r (rq_now env) (rq_later env) = Some True
     \<and> Decide denv message \<in> set later
     \<and> ConnectorServerMessageSchema is_uuid message = Some m \<and> sm_payload m = Decision a
     \<and> adp_decision a = Approve \<and> adp_approval_id a = toLowerCase (rq_uuid env)
     \<and> adp_job_id a = toLowerCase (ai_jobId input) \<and> adp_attempt a = ai_attempt input
     \<and> adp_job_revision a = rv_requestedRevision r \<and> adp_action_fingerprint a = ai_fingerprint input
     \<and> deadline = min (request_deadline r (rq_now env)) (date_parse (sm_expires_at m))
     \<and> de_now denv < request_deadline r (rq_now env) \<and> fi_now fenv < deadline
     \<and> \<not> br_disposed (broker_after is_uuid evs) \<and> \<not> fi_aborted fenv
     \<and> \<not> fi_authorityAborted fenv \<and> fi_isCurrent fenv = Some True"
proof -
  from assms obtain p d where p: "br_pending (broker_after is_uuid evs) i = Some p"
    and s: "pe_settled p = Some (Allowed_once, d)" and d: "fi_now fenv < d"
    and ok: "\<not> br_disposed (broker_after is_uuid evs)" "\<not> fi_aborted fenv"
      "\<not> fi_authorityAborted fenv" "fi_isCurrent fenv = Some True"
    by (auto simp: request_finish_def final_outcome_def Let_def split: option.splits if_splits)
  from history_run p have "asked is_uuid evs i p" unfolding history_ok_def by blast
  then obtain before env r later denv message where
    q: "evs = before @ Request env (pe_input p) # later" "br_next (broker_after is_uuid before) = i"
      "ai_riskClass (pe_input p) = ''approval_required''" "rq_reserve env = Reserved r"
      "valid_reservation r (rq_now env) (rq_later env) = Some True"
    and dl: "pe_deadline p = request_deadline r (rq_now env)"
    and py: "approval_payload is_uuid (pe_input p) r (rq_uuid env) (rq_iso env (pe_deadline p))
       = Some (pe_payload p)"
    and g: "Decide denv message \<in> set later" "approves is_uuid denv message p d"
    using s unfolding asked_def by blast
  from g(2) obtain m a where "ConnectorServerMessageSchema is_uuid message = Some m"
    "sm_payload m = Decision a" "adp_decision a = Approve"
    "adp_approval_id a = arp_approval_id (pe_payload p)" "decision_matches a (pe_payload p)"
    "de_now denv < pe_deadline p" "d = min (pe_deadline p) (date_parse (sm_expires_at m))"
    unfolding approves_def by blast
  with q g(1) d ok payload_of_request [OF py] show ?thesis
    unfolding decision_matches_def dl
    by (intro exI [of _ before] exI [of _ env] exI [of _ "pe_input p"] exI [of _ r] exI [of _ later]
        exI [of _ denv] exI [of _ message] exI [of _ m] exI [of _ a] exI [of _ d]) simp
qed


text \<open>A run in which one request is approved and returns.\<close>

definition sample_input :: ApprovalInput where
  "sample_input = \<lparr>ai_jobId = ''j'', ai_attempt = 1,
     ai_fingerprint = ''sha256:'' @ replicate 64 (CHR ''0''), ai_actionSummary = ''run'',
     ai_impactSummary = ''tests'', ai_riskClass = ''approval_required''\<rparr>"

definition sample_request :: request_env where
  "sample_request = \<lparr>rq_aborted = False,
     rq_reserve = Reserved \<lparr>rv_requestedRevision = 3, rv_deadline = 60000, rv_approvalTimeoutSeconds = 60,
       rv_aborted = False, rv_isCurrent = Some True\<rparr>,
     rq_now = 0, rq_later = 0, rq_uuid = ''a'', rq_iso = (\<lambda>_. Some ''1970-01-01T00:01:00.000Z''),
     rq_abortedLater = False, rq_authorityAborted = False, rq_publishThrows = False,
     rq_cleanupFailed = False\<rparr>"

definition sample_message :: jsval where
  "sample_message = JObj
     [(''protocol_version'', JStr ''1.0''), (''message_id'', JStr ''m''), (''sequence'', JNum 1),
      (''sent_at'', JStr ''1970-01-01T00:00:01Z''), (''expires_at'', JStr ''1970-01-01T00:00:30Z''),
      (''correlation_id'', JStr ''a''), (''type'', JStr ''approval.decision''),
      (''payload'', JObj [(''approval_id'', JStr ''a''), (''job_id'', JStr ''j''),
         (''attempt'', JNum 1), (''job_revision'', JNum 3),
         (''action_fingerprint'', JStr (''sha256:'' @ replicate 64 (CHR ''0''))),
         (''decision'', JStr ''approve'')])]"

definition sample_decision :: decision_env where
  "sample_decision = \<lparr>de_now = 2000, de_later = 2000, de_aborted = False,
     de_authorityAborted = False, de_isCurrent = Some True, de_cleanupFailed = False\<rparr>"

definition sample_finish :: finish_env where
  "sample_finish = \<lparr>fi_releaseFailed = False, fi_isCurrent = Some True, fi_aborted = False,
     fi_authorityAborted = False, fi_now = 2000\<rparr>"

definition sample_events :: "broker_event list" where
  "sample_events = [Request sample_request sample_input, Decide sample_decision sample_message]"

lemma sample_grant:
  "map_option fst (request_finish sample_finish 0
     (broker_after (\<lambda>s. length s = 1) sample_events)) = Some Allowed_once"
  by code_simp

theorem allowed_once_needs_a_matching_approval_witness:
  "\<exists>m a. ConnectorServerMessageSchema (\<lambda>s. length s = 1) sample_message = Some m
     \<and> sm_payload m = Decision a \<and> adp_decision a = Approve \<and> adp_job_id a = ''j''
     \<and> fi_now sample_finish < date_parse (sm_expires_at m)"
proof -
  from sample_grant obtain st where
    "request_finish sample_finish 0 (broker_after (\<lambda>s. length s = 1) sample_events)
       = Some (Allowed_once, st)" by auto
  moreover have "js_lower_char (CHR ''j'') = CHR ''j''" by code_simp
  ultimately show ?thesis by (auto dest!: allowed_once_needs_a_matching_approval simp: sample_events_def Cons_eq_append_conv append_eq_Cons_conv sample_input_def
        toLowerCase_def)
qed

subsection \<open>Disposal\<close>

fun request_ids :: "broker_event list \<Rightarrow> string list" where
  "request_ids [] = []"
| "request_ids (Request env input # evs) = toLowerCase (rq_uuid env) # request_ids evs"
| "request_ids (e # evs) = request_ids evs"

lemma request_ids_append [simp]: "request_ids (evs @ fs) = request_ids evs @ request_ids fs"
  by (induction evs rule: request_ids.induct) simp_all

lemma asked_id: "asked is_uuid evs i p \<Longrightarrow> arp_approval_id (pe_payload p) \<in> set (request_ids evs)"
  by (auto simp: asked_def dest!: payload_of_request)

lemma pending_id:
  "br_pending (broker_after is_uuid evs) i = Some p
     \<Longrightarrow> arp_approval_id (pe_payload p) \<in> set (request_ids evs)"
  using history_run asked_id unfolding history_ok_def by blast

text \<open>Approval ids are not shared, and every unsettled request has its waiter.\<close>

definition waited :: "broker \<Rightarrow> bool" where
  "waited st =
     ((\<forall>i j p q. br_pending st i = Some p \<longrightarrow> br_pending st j = Some q
         \<longrightarrow> arp_approval_id (pe_payload p) = arp_approval_id (pe_payload q) \<longrightarrow> i = j)
      \<and> (\<forall>i p. br_pending st i = Some p \<longrightarrow> pe_settled p = None
         \<longrightarrow> (\<exists>w. (arp_approval_id (pe_payload p), w) \<in> set (br_waiters st) \<and> wt_request w = i)))"

lemma waited_unique:
  "waited st \<Longrightarrow> br_pending st i = Some p \<Longrightarrow> br_pending st j = Some q
     \<Longrightarrow> arp_approval_id (pe_payload p) = arp_approval_id (pe_payload q) \<Longrightarrow> i = j"
  unfolding waited_def by blast

lemma waited_waiter:
  assumes "waited st" "br_pending st i = Some p" "pe_settled p = None"
  obtains w where "(arp_approval_id (pe_payload p), w) \<in> set (br_waiters st)" "wt_request w = i"
  using assms unfolding waited_def by blast

interpretation wa: broker_invariant waited
proof
  fix st c outcome d i
  assume a: "waited st"
  let ?st = "settle c outcome d i st"
  show "waited ?st"
    unfolding waited_def
  proof (intro conjI allI impI)
    fix j k p q
    assume "br_pending ?st j = Some p" "br_pending ?st k = Some q"
      "arp_approval_id (pe_payload p) = arp_approval_id (pe_payload q)"
    moreover from this obtain p' q' where "br_pending st j = Some p'" "br_pending st k = Some q'"
      "pe_payload p = pe_payload p'" "pe_payload q = pe_payload q'"
      by (auto split: if_splits)
    ultimately show "j = k" using waited_unique [OF a] by metis
  next
    fix j p
    assume p: "br_pending ?st j = Some p" "pe_settled p = None"
    then have j: "j \<noteq> i" by auto
    with p have pj: "br_pending st j = Some p" by simp
    with p obtain w where w: "(arp_approval_id (pe_payload p), w) \<in> set (br_waiters st)"
      "wt_request w = j" using waited_waiter [OF a] by metis
    have "(arp_approval_id (pe_payload p), w) \<in> set (br_waiters ?st)"
      using w waited_unique [OF a pj] j
      by (force simp: settle_waiters AList.delete_eq split: option.splits)
    with w show "\<exists>w. (arp_approval_id (pe_payload p), w) \<in> set (br_waiters ?st) \<and> wt_request w = j"
      by blast
  qed
qed (simp add: waited_def)

lemma update_keeps: "(x, w) \<in> set xs \<Longrightarrow> x \<noteq> k \<Longrightarrow> (x, w) \<in> set (AList.update k v xs)"
  by (induction xs) auto

lemma update_new: "(k, v) \<in> set (AList.update k v xs)"
  by (induction xs) auto

lemma waited_opened:
  assumes a: "waited st"
    and new: "\<And>i p. br_pending st i = Some p \<Longrightarrow> arp_approval_id (pe_payload p) \<noteq> arp_approval_id payload"
  shows "waited (opened input payload deadline st)"
  unfolding waited_def
proof (intro conjI allI impI)
  let ?st = "opened input payload deadline st"
  fix i j p q
  assume pq: "br_pending ?st i = Some p" "br_pending ?st j = Some q"
    "arp_approval_id (pe_payload p) = arp_approval_id (pe_payload q)"
  show "i = j"
  proof (cases "i = br_next st \<or> j = br_next st")
    case True
    with pq new [of i p] new [of j q] show ?thesis by (auto simp: opened_def split: if_splits)
  next
    case False
    with pq show ?thesis by (intro waited_unique [OF a, of i p j q]) (simp_all add: opened_def)
  qed
next
  let ?st = "opened input payload deadline st"
  fix i p
  assume p: "br_pending ?st i = Some p" "pe_settled p = None"
  show "\<exists>w. (arp_approval_id (pe_payload p), w) \<in> set (br_waiters ?st) \<and> wt_request w = i"
  proof (cases "i = br_next st")
    case True
    with p show ?thesis
      by (intro exI [of _ "\<lparr>wt_payload = payload, wt_deadline = deadline, wt_request = i\<rparr>"])
        (auto simp: opened_def intro: update_new)
  next
    case False
    with p have q: "br_pending st i = Some p" by (simp add: opened_def)
    with p(2) obtain w where "(arp_approval_id (pe_payload p), w) \<in> set (br_waiters st)" "wt_request w = i"
      using waited_waiter [OF a] by metis
    with new [OF q] show ?thesis by (auto simp: opened_def intro: update_keeps)
  qed
qed

lemma waited_finish: "waited st \<Longrightarrow> waited (finished_state env i st)"
  unfolding finished_state_def request_finish_def waited_def
  by (auto split: option.splits if_splits)

lemma waited_run: "distinct (request_ids evs) \<Longrightarrow> waited (broker_after is_uuid evs)"
proof (induction evs rule: rev_induct)
  case Nil
  show ?case by (simp add: waited_def initial_broker_def)
next
  case (snoc e evs)
  then have w: "waited (broker_after is_uuid evs)" by simp
  show ?case
  proof (cases e)
    case (Request env input)
    show ?thesis
    proof (cases rule: request_start_cases [of is_uuid env input "broker_after is_uuid evs"])
      case (opened r payload c outcome)
      have "arp_approval_id payload \<notin> set (request_ids evs)"
        using snoc.prems Request payload_of_request [OF opened(8)] by simp
      then have "waited (opened input payload (request_deadline r (rq_now env)) (broker_after is_uuid evs))"
        using w pending_id by (intro waited_opened) metis+
      with opened(1) Request wa.settled show ?thesis by fastforce
    qed (use Request w in \<open>simp_all add: waited_def\<close>)
  qed (use w in \<open>auto intro: wa.settled wa.acceptDecision_keeps wa.dispose_keeps waited_finish\<close>)
qed


lemma fold_settles:
  assumes "br_pending (fold (\<lambda>(_, w). settle (c (wt_request w)) Unavailable None (wt_request w)) ws st) i = Some q"
    and "i \<in> (\<lambda>(_, w). wt_request w) ` set ws \<or> (\<exists>p. br_pending st i = Some p \<and> pe_settled p \<noteq> None)"
  shows "pe_settled q \<noteq> None"
  using assms
proof (induction ws arbitrary: st)
  case (Cons e ws)
  obtain x w where e: "e = (x, w)" by force
  let ?st = "settle (c (wt_request w)) Unavailable None (wt_request w) st"
  have f: "br_pending (fold (\<lambda>(_, w). settle (c (wt_request w)) Unavailable None (wt_request w)) ws ?st) i
      = Some q" using Cons.prems(1) by (simp add: e)
  from dispose_fold_pending [OF f] obtain p where p: "br_pending ?st i = Some p" by blast
  have "i \<in> (\<lambda>(_, w). wt_request w) ` set ws \<or> (\<exists>p. br_pending ?st i = Some p \<and> pe_settled p \<noteq> None)"
  proof (cases "wt_request w = i")
    case True
    with p obtain p' where "p = settled_as (c (wt_request w)) Unavailable None p'" by auto
    then have "pe_settled p \<noteq> None" by (simp only: settled_as_frame(5) not_False_eq_True)
    with p show ?thesis by blast
  next
    case False
    with Cons.prems(2) show ?thesis by (auto simp: e)
  qed
  then show ?case by (rule Cons.IH [OF f])
qed auto

lemma disposed_settled:
  assumes w: "waited st" and q: "br_pending (dispose c st) i = Some q"
  shows "pe_settled q \<noteq> None"
proof (rule fold_settles [OF q [unfolded dispose_def]])
  obtain p where p: "br_pending st i = Some p" using dispose_pending [OF q] by blast
  then show "i \<in> (\<lambda>(_, w). wt_request w) ` set (br_waiters st)
     \<or> (\<exists>p. br_pending (st\<lparr>br_disposed := True\<rparr>) i = Some p \<and> pe_settled p \<noteq> None)"
  proof (cases "pe_settled p")
    case None
    from waited_waiter [OF w p None] show ?thesis by (metis (mono_tags, lifting) case_prod_conv image_eqI)
  qed (use p in simp)
qed

lemma dispose_disposed [simp]: "br_disposed (dispose c st)"
proof -
  have "br_disposed (fold (\<lambda>(_, w). settle (c (wt_request w)) Unavailable None (wt_request w)) ws st)
      = br_disposed st" for ws :: "(string \<times> waiter) list" and st
    by (induction ws arbitrary: st) (simp_all add: case_prod_beta)
  then show ?thesis by (simp add: dispose_def)
qed

lemma finished_pending:
  assumes "\<And>p. br_pending st i = Some p \<Longrightarrow> pe_settled p \<noteq> None"
  shows "br_pending (finished_state env i st) = (br_pending st)(i := None)"
  using assms by (force simp: finished_state_def request_finish_def split: option.splits)

lemma finish_all:
  assumes "\<And>i p. br_pending st i = Some p \<Longrightarrow> pe_settled p \<noteq> None" "admissions_ok st"
  shows "admissions_ok (fold (\<lambda>i. finished_state (env i) i) order st)
     \<and> br_pending (fold (\<lambda>i. finished_state (env i) i) order st) = br_pending st |` (- set order)"
  using assms
proof (induction order arbitrary: st)
  case (Cons i order)
  have p: "br_pending (finished_state (env i) i st) = (br_pending st)(i := None)"
    by (rule finished_pending) (rule Cons.prems(1))
  have "admissions_ok (finished_state (env i) i st)" using Cons.prems(2) by (rule admissions_finish)
  moreover have "\<And>j q. br_pending (finished_state (env i) i st) j = Some q \<Longrightarrow> pe_settled q \<noteq> None"
    using Cons.prems(1) by (auto simp: p split: if_splits)
  ultimately show ?case using Cons.IH [of "finished_state (env i) i st"]
    by (auto simp: p fun_eq_iff restrict_map_def)
qed (simp add: fun_eq_iff restrict_map_def)

text \<open>
  C34. Disposal lets every request return. When the approval ids are distinct, after \<open>dispose\<close> no
  waiter is left and every suspended request can resume at once; none of them returns
  \<open>allowed-once\<close>; and once all of them have resumed, in any order, no admission is left.
\<close>

theorem disposal_releases_every_request:
  assumes "distinct (request_ids evs)"
    and "set order = dom (br_pending (broker_after is_uuid (evs @ [Dispose c])))"
  shows "br_waiters (broker_after is_uuid (evs @ [Dispose c])) = []
    \<and> (\<forall>i \<in> set order. \<exists>outcome st'.
         request_finish (env i) i (broker_after is_uuid (evs @ [Dispose c])) = Some (outcome, st')
         \<and> outcome \<noteq> Allowed_once)
    \<and> br_admissions (fold (\<lambda>i. finished_state (env i) i) order
         (broker_after is_uuid (evs @ [Dispose c]))) = []"
proof -
  define st where "st = broker_after is_uuid (evs @ [Dispose c])"
  have dom: "set order = dom (br_pending st)" using assms(2) by (simp add: st_def)
  have s: "pe_settled p \<noteq> None" if "br_pending st i = Some p" for i p
    using disposed_settled [OF waited_run [OF assms(1)]] that by (simp add: st_def)
  have "br_waiters st = []"
    using waiters_run [of is_uuid "evs @ [Dispose c]"] s
    unfolding waiters_ok_def st_def [symmetric] by (metis list.set_intros(1) neq_Nil_conv surj_pair)
  moreover have "br_disposed st" by (simp add: st_def)
  then have "\<exists>outcome st'. request_finish (env i) i st = Some (outcome, st') \<and> outcome \<noteq> Allowed_once"
    if "i \<in> set order" for i
    using that dom s [of i] by (auto simp: request_finish_def final_outcome_def Let_def)
  moreover have "br_admissions (fold (\<lambda>i. finished_state (env i) i) order st) = []"
  proof -
    have a: "admissions_ok st" by (simp only: st_def admissions_run)
    have "br_pending st |` (- set order) = Map.empty"
      unfolding dom by (auto simp: fun_eq_iff restrict_map_def)
    with finish_all [OF s a, where env = env and order = order]
    have "admissions_ok (fold (\<lambda>i. finished_state (env i) i) order st)"
      "br_pending (fold (\<lambda>i. finished_state (env i) i) order st) = Map.empty" by simp_all
    then have "(k, i) \<notin> set (br_admissions (fold (\<lambda>i. finished_state (env i) i) order st))" for k i
      unfolding admissions_ok_def by simp
    then show ?thesis by (metis list.set_intros(1) neq_Nil_conv surj_pair)
  qed
  ultimately show ?thesis by (simp only: st_def) blast
qed

theorem disposal_releases_every_request_witness:
  "br_admissions (fold (\<lambda>i. finished_state sample_finish i) [0]
     (broker_after (\<lambda>s. length s = 1) ([Request sample_request sample_input] @ [Dispose (\<lambda>_. False)]))) = []"
proof -
  let ?st = "broker_after (\<lambda>s. length s = 1)
     ([Request sample_request sample_input] @ [Dispose (\<lambda>_. False)])"
  have "set (map snd (br_admissions ?st)) = {0}" by code_simp
  moreover have "dom (br_pending ?st) = snd ` set (br_admissions ?st)"
    using admissions_run [of "\<lambda>s. length s = 1"] unfolding admissions_ok_def by force
  ultimately have "set [0] = dom (br_pending ?st)" by simp
  from disposal_releases_every_request [OF _ this, of "\<lambda>_. sample_finish"] show ?thesis by simp
qed

end
