(* ===== verification/Outbox_Properties.thy ===== *)
theory Outbox_Properties
  imports Repository_Properties
begin

section \<open>Properties of the connector store\<close>

text \<open>
  What a connector may rely on, and what it cannot do: a message takes effect once and in order, a
  rejection leaves no trace in the work, a claim needs the lease that was offered, an approval
  request is bound to the revision it creates, and an offer respects the limits of its repository.
\<close>

subsection \<open>Answers\<close>

text \<open>What an accepted message shows to the connector; a protocol error refuses it.\<close>

definition shown_messages :: "ClientMessageAcceptance \<Rightarrow> StoredServerMessage list" where
  "shown_messages r = ac_replay r @ (case ac_response r of None \<Rightarrow> [] | Some m \<Rightarrow> [m])"

definition refused :: "ClientMessageAcceptance \<Rightarrow> bool" where
  "refused r = list_ex (\<lambda>m. ss_type m = ''protocol.error'') (shown_messages r)"

subsection \<open>Sample messages\<close>

definition sample_deps :: deps where
  "sample_deps = \<lparr>dp_sha256 = (\<lambda>_. ''0''), dp_is_uuid = (\<lambda>_. True), dp_punct = (\<lambda>_. False)\<rparr>"

definition sample_identity :: ConnectorIdentity where
  "sample_identity = \<lparr>ci_ownerId = ''o'', ci_connectorId = ''c'', ci_protocolVersion = ''1.0''\<rparr>"

definition sample_message :: "client_payload \<Rightarrow> ConnectorClientMessage" where
  "sample_message p = \<lparr>cm_message_id = ''m'', cm_sequence = 1, cm_sent_at = ''1970-01-01T00:00:01Z'',
     cm_expires_at = ''1970-01-01T00:00:30Z'', cm_correlation_id = ''k'', cm_payload = p\<rparr>"

definition sample_claim :: JobClaimPayload where
  "sample_claim = \<lparr>jl_job_id = ''f'', jl_attempt = 2,
     jl_lease_id = ''l''\<rparr>"

definition sample_request :: ApprovalRequestedPayload where
  "sample_request = \<lparr>arp_approval_id = ''b'', arp_job_id = ''r'', arp_attempt = 1, arp_job_revision = 4,
     arp_action_summary = ''a'', arp_impact_summary = ''i'', arp_risk_class = ''r'',
     arp_action_fingerprint = ''sha256:'' @ replicate 64 CHR ''0'',
     arp_expires_at = ''1970-01-01T00:00:20Z''\<rparr>"

abbreviation sample_accept :: "client_payload \<Rightarrow> db \<Rightarrow> (store_thrown + ClientMessageAcceptance) \<times> db" where
  "sample_accept p d \<equiv> acceptClientMessage sample_deps sample_env sample_identity (sample_message p) d"

text \<open>How a call answered: as a new message, and refused or not.\<close>

definition answered :: "bool \<Rightarrow> store_thrown + ClientMessageAcceptance \<Rightarrow> bool" where
  "answered refusal r = (case r of Inl err \<Rightarrow> False | Inr a \<Rightarrow> \<not> ac_duplicate a \<and> refused a = refusal)"

lemma answeredE:
  assumes "answered refusal (fst x)"
  obtains r d' where "x = (Inr r, d')" "\<not> ac_duplicate r" "refused r = refusal"
  using assms by (cases x) (auto simp: answered_def split: sum.splits)

text \<open>A leased job; a durable connector whose offer has expired; an idle repository; a job of another owner.\<close>

definition leased_job :: job_row where
  "leased_job = sample_offer_job\<lparr>j_leaseId := Some ''l''\<rparr>"

definition leased_db :: db where
  "leased_db = sample_db\<lparr>jobs := [leased_job], approvals := []\<rparr>"

definition expired_db :: db where
  "expired_db = sample_db\<lparr>connectors := [sample_connector\<lparr>c_capabilities := [DURABLE_RECEIPTS]\<rparr>],
     jobs := [leased_job\<lparr>j_leaseExpiresAt := Some 0\<rparr>], approvals := []\<rparr>"

definition idle_db :: db where
  "idle_db = sample_db\<lparr>jobs := [sample_job ''q'' ''QH-000A'' Queued], approvals := []\<rparr>"

definition shared_db :: db where
  "shared_db = sample_db\<lparr>jobs := [(sample_job ''z'' ''QH-000H'' Running)\<lparr>j_ownerId := ''p''\<rparr>, leased_job],
     approvals := []\<rparr>"

lemma leased_db_inv: "db_inv leased_db"
  by (rule fresh_db_inv; code_simp)

lemma idle_db_inv: "db_inv idle_db"
  by (rule fresh_db_inv; code_simp)

lemma shared_db_inv: "db_inv shared_db"
  by (rule fresh_db_inv; code_simp)

lemma claim_accepted: "answered False (fst (sample_accept (Claim sample_claim) leased_db))"
  by code_simp

text \<open>The fingerprint makes the stored copy of a request costly to evaluate; its value does not matter.\<close>

lemma request_processed:
  "\<exists>d2. insert_message (client_row sample_env ''c'' (sample_message (Requested sample_request)) stored False False)
       sample_db = Inr ((), d2)
     \<and> answered False (fst (transaction (process_message sample_deps sample_env sample_identity sample_connector
         (sample_message (Requested sample_request)) (Some (sample_job ''r'' ''QH-000B'' Running)) None
         False False 1000) d2))"
proof -
  let ?row = "client_row sample_env ''c'' (sample_message (Requested sample_request)) stored False False"
  have "message_row_error sample_db ?row = None" by code_simp
  then have "insert_message ?row sample_db = Inr ((), sample_db\<lparr>connectorMessages := [?row]\<rparr>)"
    by (simp add: insert_message_Inr sample_db_def)
  moreover have "answered False (fst (transaction (process_message sample_deps sample_env sample_identity
      sample_connector (sample_message (Requested sample_request)) (Some (sample_job ''r'' ''QH-000B'' Running)) None
      False False 1000) (sample_db\<lparr>connectorMessages := [?row]\<rparr>)))"
    by code_simp
  ultimately show ?thesis by blast
qed

lemma fst_transaction: "m d = n d' \<Longrightarrow> fst (transaction m d) = fst (transaction n d')"
  by (simp add: transaction_def split: sum.splits)

lemma request_accepted: "answered False (fst (sample_accept (Requested sample_request) sample_db))"
proof -
  let ?m = "sample_message (Requested sample_request)" and ?job = "sample_job ''r'' ''QH-000B'' Running"
  have job: "lockClientJob sample_identity ''r'' sample_db = Inr (Some ?job, sample_db)"
    and conn: "lockConnector sample_identity sample_db = Inr (sample_connector, sample_db)"
    and adm: "admit_message sample_connector ?m False False 1000 sample_db = Inr (None, sample_db)"
    by code_simp+
  have msg: "message_job (cm_payload ?m) = Some ''r''" "clock_ms sample_env 0 = 1000"
    "has_capability cap sample_connector (cm_payload ?m) = False" "c_id sample_connector = ''c''" for cap
    by (simp_all add: message_job_def sample_message_def sample_request_def has_capability_def
        sample_connector_def clock_ms_def sample_env_def js_date_def)
  have "rfc3339InstantKey ''1970-01-01T00:00:01Z'' = Some ''1.''"
    "rfc3339InstantKey ''1970-01-01T00:00:30Z'' = Some ''30.''"
    by code_simp+
  then have "\<exists>stored. storedClientPayload sample_deps ?m = Inr stored"
    by (simp add: storedClientPayload_def sample_message_def)
  then obtain stored where st: "storedClientPayload sample_deps ?m = Inr stored" by blast
  from request_processed [of stored] obtain d2
    where d2: "insert_message (client_row sample_env ''c'' ?m stored False False) sample_db = Inr ((), d2)"
      and ok: "answered False (fst (transaction (process_message sample_deps sample_env sample_identity
        sample_connector ?m (Some ?job) None False False 1000) d2))"
    by blast
  have "insert_client_message sample_deps sample_env ''c'' ?m False False sample_db = Inr ((), d2)"
    using d2 by (simp add: insert_client_message_def st on_db_Inr)
  moreover have "select_message (\<lambda>m. m_connectorId m = ''c'' \<and> m_messageId m = cm_message_id ?m) sample_db
      = Inr (None, sample_db)"
    by (simp add: select_message_eq sample_db_def)
  ultimately have "accept_body sample_deps sample_env sample_identity ?m sample_db
      = process_message sample_deps sample_env sample_identity sample_connector ?m (Some ?job) None
          False False 1000 d2"
    using job conn adm by (simp add: accept_body_def accept_new_def msg Let_def tx_bind_run)
  then have "fst (sample_accept (Requested sample_request) sample_db)
      = fst (transaction (process_message sample_deps sample_env sample_identity sample_connector ?m
          (Some ?job) None False False 1000) d2)"
    unfolding acceptClientMessage_def by (rule fst_transaction)
  with ok show ?thesis by (simp only:)
qed

lemma claim_refused: "answered True (fst (sample_accept (Claim sample_claim) expired_db))"
  by code_simp

lemma offer_made:
  "case fst (dispatchNext sample_env sample_identity [] idle_db) of Inr (Some m) \<Rightarrow> True | _ \<Rightarrow> False"
  by code_simp

lemma offer_madeE:
  assumes "case fst x of Inr (Some m) \<Rightarrow> True | _ \<Rightarrow> False"
  obtains stored d' where "x = (Inr (Some stored), d')"
  using assms by (cases x) (auto split: sum.splits option.splits)

subsection \<open>Messages take effect once\<close>

text \<open>An accepted message is in the connector's receipts.\<close>

lemma accepted_receipt:
  assumes inv: "db_inv d" and run: "accept_body dp e identity message d = Inr (r, d1)"
  obtains m where "m \<in> set (connectorMessages d1)" "m_connectorId m = ci_connectorId identity"
    "m_direction m = Client" "m_messageId m = cm_message_id message" "m_sequence m = cm_sequence message"
  using run
proof (rule accept_body_Inr)
  fix connector existing
  assume ex: "existing \<in> set (connectorMessages d)" "m_connectorId existing = c_id connector"
      "m_messageId existing = cm_message_id message" "c_id connector = ci_connectorId identity"
    and dup: "accept_duplicate dp e connector message existing (clock_ms e 0) d = Inr (r, d1)"
  have exact: "m_direction existing = Client" "m_sequence existing = cm_sequence message"
    using dup by (auto simp: accept_duplicate_def isExactDuplicate_def Let_def store_tx split: if_splits sum.splits)
  have "store_good d d1" by (rule sg.keepsD [OF so.keeps_accept_duplicate dup])
  with inv ex(1) obtain m where "m \<in> set (connectorMessages d1)" "message_moves existing m"
    by (auto simp: store_good_def store_moves_def rows_evolve_def)
  with ex exact show thesis by (intro that [of m]) (auto simp: message_moves_def)
next
  fix connector found durable co
  assume c: "c_id connector = ci_connectorId identity"
    and cur: "\<And>job. found = Some job \<Longrightarrow> job \<in> set (jobs d)"
    and acc: "accept_new dp e identity connector message found durable co (clock_ms e 0) d = Inr (r, d1)"
  from acc cur show thesis
  proof (rule good_accept_new_stages)
    fix row d2
    assume g: "store_good d d2" "store_good d2 d1" and row: "row \<in> set (connectorMessages d2)"
      "m_direction row = Client" "m_connectorId row = c_id connector"
      "m_messageId row = cm_message_id message" "m_sequence row = cm_sequence message"
    from g inv row(1) obtain m where "m \<in> set (connectorMessages d1)" "message_moves row m"
      by (auto simp: store_good_def store_moves_def rows_evolve_def)
    with row c show thesis by (intro that [of m]) (auto simp: message_moves_def)
  qed
qed

lemma receipt_stays:
  assumes "db_inv d" "store_run d d'" "m \<in> set (connectorMessages d)" "m_direction m = Client"
  obtains m' where "m' \<in> set (connectorMessages d')" "m_direction m' = Client"
    "m_connectorId m' = m_connectorId m" "m_messageId m' = m_messageId m"
  using store_runD(2) [OF assms(2,1)] assms(3,4)
  by (auto simp: store_moves_def rows_evolve_def message_moves_def)

lemma accept_duplicate_flag:
  "accept_duplicate dp e connector message existing now d = Inr (r, d') \<Longrightarrow> ac_duplicate r"
  by (auto simp: accept_duplicate_def Let_def store_tx split: sum.splits prod.splits)

text \<open>
  C5. A client message takes effect at most once. After a message has been accepted, and after any
  further run of the control plane, whatever is presented under its message id on the same
  connection changes no job, event, approval or idempotency record: it is answered as a duplicate or refused.
\<close>

theorem message_takes_effect_once:
  assumes "db_inv d" and "acceptClientMessage dp e identity message d = (Inr r, d1)"
    and "store_run d1 d2"
    and "ci_connectorId identity' = ci_connectorId identity"
    and "cm_message_id message' = cm_message_id message"
    and "acceptClientMessage dp' e' identity' message' d2 = (r', d3)"
  shows "jobs d3 = jobs d2 \<and> jobEvents d3 = jobEvents d2 \<and> approvals d3 = approvals d2
     \<and> idempotencyRecords d3 = idempotencyRecords d2
     \<and> (\<forall>a. r' = Inr a \<longrightarrow> ac_duplicate a)"
proof -
  have run: "accept_body dp e identity message d = Inr (r, d1)"
    using assms(2) by (simp add: acceptClientMessage_def transaction_Inr)
  have inv1: "db_inv d1"
    using good_acceptClientMessage [of d dp e identity message] assms(1,2) by (simp add: store_good_def)
  from assms(1) run obtain m where m: "m \<in> set (connectorMessages d1)" "m_direction m = Client"
      "m_connectorId m = ci_connectorId identity" "m_messageId m = cm_message_id message"
    by (rule accepted_receipt)
  from inv1 assms(3) m(1,2) obtain m' where m': "m' \<in> set (connectorMessages d2)"
      "m_connectorId m' = m_connectorId m" "m_messageId m' = m_messageId m"
    by (rule receipt_stays)
  have dup: "work_frame d2 d' \<and> ac_duplicate a" if "accept_body dp' e' identity' message' d2 = Inr (a, d')" for a d'
    using that
  proof (rule accept_body_Inr)
    fix connector existing
    assume "accept_duplicate dp' e' connector message' existing (clock_ms e' 0) d2 = Inr (a, d')"
    then show ?thesis using wf.keepsD [OF wo.keeps_accept_duplicate] accept_duplicate_flag by blast
  next
    fix connector
    assume "c_id connector = ci_connectorId identity'"
      "\<And>m. m \<in> set (connectorMessages d2) \<Longrightarrow> m_connectorId m = c_id connector
        \<Longrightarrow> m_messageId m \<noteq> cm_message_id message'"
    with m m' assms(4,5) show ?thesis by auto
  qed
  have "work_frame d2 d3 \<and> (\<forall>a. r' = Inr a \<longrightarrow> ac_duplicate a)"
    using assms(6) dup
    by (auto simp: acceptClientMessage_def transaction_def wf.rel_refl split: sum.splits)
  then show ?thesis by (simp add: work_frame_def)
qed

theorem message_takes_effect_once_witness:
  "\<exists>r d1. sample_accept (Claim sample_claim) leased_db = (Inr r, d1)
     \<and> jobs (snd (sample_accept (Claim sample_claim) d1)) = jobs d1"
proof -
  from claim_accepted obtain r d1 where run: "sample_accept (Claim sample_claim) leased_db = (Inr r, d1)"
    by (rule answeredE)
  with message_takes_effect_once [OF leased_db_inv run store_run.none refl refl prod.collapse [symmetric]]
  show ?thesis by blast
qed



subsection \<open>Messages arrive in order\<close>

text \<open>The connectors' client sequences are as before.\<close>

definition cursor_frame :: "db \<Rightarrow> db \<Rightarrow> bool" where
  "cursor_frame d d' =
     (map (\<lambda>c. (c_id c, c_lastClientSequence c)) (connectors d')
      = map (\<lambda>c. (c_id c, c_lastClientSequence c)) (connectors d))"

interpretation cf: tx_relation cursor_frame
  by unfold_locales (auto simp: cursor_frame_def)

interpretation co: outbox_relation cursor_frame
proof unfold_locales
  show "cf.keeps (update_messages p f)" if "\<And>m. p m \<Longrightarrow> message_moves m (f m)" for p f
    by (rule cf.keepsI) (auto simp: update_messages_Inr cursor_frame_def)
  show "cf.keeps (enqueueServerMessage e k u c type payload t corr)" for e k u c type payload t corr
    by (rule cf.keepsI)
      (auto elim!: enqueueServerMessage_Inr intro!: map_sql_update simp: cursor_frame_def bump_sequence_def)
  show "cf.keeps (on_db (update_connectors (\<lambda>c. c_id c = i)
      (\<lambda>c. c\<lparr>c_lastHeartbeatAt := b, c_health := h, c_updatedAt := u'\<rparr>)))" for i b h u'
    by (rule cf.keepsI) (auto simp: on_db_Inr update_connectors_Inr cursor_frame_def intro!: map_sql_update)
qed

lemma cursor_frameD:
  assumes "cursor_frame d d'" "c \<in> set (connectors d)"
  shows "\<exists>c' \<in> set (connectors d'). c_id c' = c_id c \<and> c_lastClientSequence c' = c_lastClientSequence c"
proof -
  have "(c_id c, c_lastClientSequence c) \<in> set (map (\<lambda>c. (c_id c, c_lastClientSequence c)) (connectors d'))"
    using assms unfolding cursor_frame_def by (simp only:) simp
  then show ?thesis by auto
qed

lemma consume_sequence_Inr:
  assumes "consume_sequence dp connector message co now d = Inr (connector', d')"
  obtains c where "c \<in> set (connectors d')" "c_id c = c_id connector"
    "c_lastClientSequence c = cm_sequence message"
proof -
  let ?p = "\<lambda>c. c_id c = c_id connector \<and> c_lastClientSequence c = c_lastClientSequence connector"
  let ?f = "consume_update message (next_capabilities dp connector (cm_payload message) co) now"
  obtain updated where "on_db (update_connectors ?p ?f) d = Inr (updated, d')" "updated \<noteq> None"
    using assms unfolding consume_sequence_def store_tx by auto
  then obtain r where r: "first_row (sql_returning ?p ?f (connectors d)) = Some r"
      and d': "d' = d\<lparr>connectors := sql_update ?p ?f (connectors d)\<rparr>"
    unfolding on_db_Inr update_connectors_Inr by blast
  from first_row_returning_Some [OF r] d' obtain x where "x \<in> set (connectors d)" "?p x"
      "d' = d\<lparr>connectors := sql_update ?p ?f (connectors d)\<rparr>"
    by blast
  then show thesis by (intro that [of "?f x"]) (auto simp: in_sql_update consume_update_def Let_def)
qed

text \<open>
  Client messages are accepted in order: one that is not a duplicate carries the successor of the
  connector's last client sequence, was never received before, and leaves the connector's
  sequence at its own, so the next one must carry the number after it.
\<close>

theorem new_message_is_next:
  assumes "acceptClientMessage dp e identity message d = (Inr r, d')"
    and "\<not> ac_duplicate r"
  shows "\<exists>c \<in> set (connectors d). \<exists>c' \<in> set (connectors d').
     c_id c = ci_connectorId identity \<and> c_id c' = c_id c
     \<and> cm_sequence message = c_lastClientSequence c + 1
     \<and> c_lastClientSequence c' = cm_sequence message
     \<and> filter (\<lambda>m. m_connectorId m = c_id c \<and> m_messageId m = cm_message_id message)
         (connectorMessages d) = []"
proof -
  have "accept_body dp e identity message d = Inr (r, d')"
    using assms(1) by (simp add: acceptClientMessage_def transaction_Inr)
  then show ?thesis
  proof (rule accept_body_Inr)
    fix connector existing
    assume "accept_duplicate dp e connector message existing (clock_ms e 0) d = Inr (r, d')"
    with assms(2) show ?thesis using accept_duplicate_flag by blast
  next
    fix connector found durable co
    assume c: "connector \<in> set (connectors d)" "c_id connector = ci_connectorId identity"
        "\<And>m. m \<in> set (connectorMessages d) \<Longrightarrow> m_connectorId m = c_id connector
           \<Longrightarrow> m_messageId m \<noteq> cm_message_id message"
      and acc: "accept_new dp e identity connector message found durable co (clock_ms e 0) d = Inr (r, d')"
    from acc show ?thesis
    proof (rule accept_new_Inr)
      fix d3 d4 connector' outcome
      assume n: "cm_sequence message = c_lastClientSequence connector + 1"
        and used: "consume_sequence dp connector message co (clock_ms e 0) d3 = Inr (connector', d4)"
        and resp: "(case (cm_payload message, outcome) of
         (Hello h, _) \<Rightarrow> respond_hello e connector' message h durable co (clock_ms e 0)
       | (Sync s, Applied x) \<Rightarrow> respond_sync dp e connector' message s found
       | _ \<Rightarrow> respond_other e connector' message outcome durable (clock_ms e 0)) d4 = Inr (r, d')"
      from used obtain x where x: "x \<in> set (connectors d4)" "c_id x = c_id connector"
          "c_lastClientSequence x = cm_sequence message"
        by (rule consume_sequence_Inr)
      from cursor_frameD [OF cf.keepsD [OF co.keeps_respond resp] x(1)] obtain c'
        where "c' \<in> set (connectors d')" "c_id c' = c_id x" "c_lastClientSequence c' = c_lastClientSequence x"
        by blast
      with c n x show ?thesis by (intro bexI [of _ connector] bexI [of _ c']) (auto simp: filter_empty_conv)
    qed
  qed
qed

theorem new_message_is_next_witness:
  "\<exists>c' \<in> set (connectors (snd (sample_accept (Claim sample_claim) leased_db))).
     c_id c' = ''c'' \<and> c_lastClientSequence c' = 1"
proof -
  from claim_accepted obtain r d1 where "sample_accept (Claim sample_claim) leased_db = (Inr r, d1)" "\<not> ac_duplicate r"
    by (rule answeredE)
  with new_message_is_next [OF this] show ?thesis by (auto simp: sample_identity_def sample_message_def)
qed


subsection \<open>Rejections\<close>

lemma claim_withdrawn_work:
  assumes "claimOfferedJob dp e identity message p found now durable co d = Inr (Withdrawn, d')"
  shows "work_frame d d'"
proof -
  from assms obtain j v where "withdrawCancelledOffer e (ci_connectorId identity) j (jl_lease_id p) now d = Inr (v, d')"
    by (auto simp: claimOfferedJob_def Let_def store_tx split: if_splits option.splits)
  then show ?thesis by (rule wf.keepsD [OF wo.keeps_withdraw])
qed

text \<open>Business that was rejected, withdrawn or is none at all leaves the work as it was.\<close>

lemma run_business_work:
  assumes "run_business dp e identity c message found a durable co now d = Inr (outcome, d')"
    and "rejection_payload outcome \<noteq> None \<or> (\<exists>h. cm_payload message = Hello h)
      \<or> (\<exists>s. cm_payload message = Sync s)"
  shows "work_frame d d'"
  using assms claim_withdrawn_work
  by (cases "cm_payload message")
    (auto simp: run_business_def applyBusiness_def no_claim_def store_tx wf.rel_refl rejection_payload_def
      split: sum.splits if_splits)

lemma enqueue_type:
  "enqueueServerMessage e k u c type payload t corr d = Inr ((stored, c'), d') \<Longrightarrow> ss_type stored = type"
  by (auto simp: toStoredServerMessage_Inr elim!: enqueueServerMessage_Inr)

lemma respond_other_error:
  assumes "respond_other e connector message outcome durable now d = Inr (r, d')"
    and "m \<in> set (shown_messages r)" "ss_type m = ''protocol.error''"
  shows "rejection_payload outcome \<noteq> None"
proof
  assume none: "rejection_payload outcome = None"
  with assms show False
    by (auto simp: respond_other_def store_tx shown_messages_def dest!: enqueue_type
        split: if_splits)
qed

lemma consume_work: "wf.keeps (consume_sequence dp connector message co now)"
  unfolding consume_sequence_def
  by (intro wf.keeps_bind wf.keeps_check wf.keeps_return wf.keepsI)
    (auto simp: on_db_Inr update_connectors_Inr work_frame_def)

text \<open>
  C6. A rejection leaves the work untouched: whenever an accepted message is answered with a
  protocol error (in the replay or as the response, recorded in a durable receipt or not), the
  jobs, events, approvals and idempotency records are exactly as before the message.
\<close>

theorem rejection_leaves_work:
  assumes "acceptClientMessage dp e identity message d = (Inr r, d')"
    and "m \<in> set (shown_messages r)" and "ss_type m = ''protocol.error''"
  shows "jobs d' = jobs d \<and> jobEvents d' = jobEvents d \<and> approvals d' = approvals d
     \<and> idempotencyRecords d' = idempotencyRecords d"
proof -
  have "accept_body dp e identity message d = Inr (r, d')"
    using assms(1) by (simp add: acceptClientMessage_def transaction_Inr)
  then have "work_frame d d'"
  proof (rule accept_body_Inr)
    fix connector existing
    assume "accept_duplicate dp e connector message existing (clock_ms e 0) d = Inr (r, d')"
    then show ?thesis by (rule wf.keepsD [OF wo.keeps_accept_duplicate])
  next
    fix connector found durable co
    assume "accept_new dp e identity connector message found durable co (clock_ms e 0) d = Inr (r, d')"
    then show ?thesis
    proof (rule accept_new_Inr)
      fix a row d2 d3 d4 connector' outcome
      assume d2: "d2 = d\<lparr>connectorMessages := connectorMessages d @ [row]\<rparr>"
        and biz: "run_business dp e identity (c_id connector) message found a durable co (clock_ms e 0) d2
          = Inr (outcome, d3)"
        and used: "consume_sequence dp connector message co (clock_ms e 0) d3 = Inr (connector', d4)"
        and resp: "(case (cm_payload message, outcome) of
         (Hello h, _) \<Rightarrow> respond_hello e connector' message h durable co (clock_ms e 0)
       | (Sync s, Applied x) \<Rightarrow> respond_sync dp e connector' message s found
       | _ \<Rightarrow> respond_other e connector' message outcome durable (clock_ms e 0)) d4 = Inr (r, d')"
      have "rejection_payload outcome \<noteq> None \<or> (\<exists>h. cm_payload message = Hello h)
          \<or> (\<exists>s. cm_payload message = Sync s)"
        using resp respond_other_error [OF _ assms(2,3)]
        by (auto split: client_payload.splits business_outcome.splits)
      from run_business_work [OF biz this] have "work_frame d d3" by (simp add: d2 work_frame_def)
      then show ?thesis
        using wf.keepsD [OF consume_work used] wf.keepsD [OF wo.keeps_respond resp] wf.rel_trans by blast
    qed
  qed
  then show ?thesis by (simp add: work_frame_def)
qed

theorem rejection_leaves_work_witness:
  "jobs (snd (sample_accept (Claim sample_claim) expired_db)) = jobs expired_db"
proof -
  from claim_refused obtain r d1 where run: "sample_accept (Claim sample_claim) expired_db = (Inr r, d1)"
      and "refused r = True"
    by (rule answeredE)
  then obtain m where "m \<in> set (shown_messages r)" "ss_type m = ''protocol.error''"
    by (auto simp: refused_def list_ex_iff)
  from rejection_leaves_work [OF run this] run show ?thesis by simp
qed

subsection \<open>Offers\<close>

lemma dispatch_body_Inr:
  assumes "dispatch_body e identity locked d = Inr (Some stored, d')"
  obtains job connector where
    "next_offer (ci_ownerId identity) locked (clock_ms e 0) d = Some job"
    "js_date (j_expiresAt job) > clock_ms e 1"
    "offer_job e identity connector job (clock_ms e 1) d = Inr (Some stored, d')"
    "c_id connector = ci_connectorId identity"
  using assms
  by (fastforce simp: dispatch_body_def store_tx readConnector_def Let_def not_le
        split: if_splits option.splits dest!: validateConnector_Inr(1) dest: lockConnector_Inr)

lemma offer_job_Inr:
  assumes "offer_job e identity connector job now d = Inr (Some stored, d')"
  obtains t attempt where
    "t = min (now + OFFER_LEASE_MS) (js_date (j_expiresAt job))" "attempt = j_attempt job + 1"
    "jobs d' = sql_update (offer_where e job)
       (offer_update (ci_connectorId identity) (env_uuid e 0) t now) (jobs d)"
    "first_row (sql_returning (offer_where e job)
       (offer_update (ci_connectorId identity) (env_uuid e 0) t now) (jobs d)) \<noteq> None"
    "ss_type stored = ''job.offer''" "ss_connectorId stored = c_id connector"
    "ss_payload stored = [(''job_id'', JStr (j_id job)), (''attempt'', int_value attempt),
       (''lease_id'', JStr (env_uuid e 0)), (''repository_id'', JStr (j_repositoryId job))]"
    "ss_expiresAt stored = js_date (pg_time t)"
proof -
  define t where "t = min (now + OFFER_LEASE_MS) (js_date (j_expiresAt job))"
  let ?f = "offer_update (ci_connectorId identity) (env_uuid e 0) t now"
  let ?payload = "[(''job_id'', JStr (j_id job)), (''attempt'', int_value (j_attempt job + 1)),
       (''lease_id'', JStr (env_uuid e 0)), (''repository_id'', JStr (j_repositoryId job))]"
  obtain u d1 input v d2 connector'
    where upd: "on_db (update_jobs (offer_where e job) ?f) d = Inr (Some u, d1)"
      and app: "appendJobEvent e 1 (j_id job) input d1 = Inr (v, d2)"
      and enq: "enqueueServerMessage e 5 4 connector ''job.offer'' ?payload (Some t) None d2
        = Inr ((stored, connector'), d')"
    using assms unfolding offer_job_def Let_def t_def [symmetric] store_tx
    by (auto split: option.splits if_splits simp: store_tx)
  have "jobs d2 = jobs d1"
    using app by (auto simp: appendJobEvent_Inr Let_def)
  moreover have "jobs d' = jobs d2"
    using wf.keepsD [OF wo.keeps_enqueue enq] by (simp add: work_frame_def)
  ultimately have jobs: "jobs d' = sql_update (offer_where e job) ?f (jobs d)"
      "first_row (sql_returning (offer_where e job) ?f (jobs d)) \<noteq> None"
    using upd by (auto simp: on_db_Inr update_jobs_Inr)
  have "ss_type stored = ''job.offer''" "ss_payload stored = ?payload" "ss_expiresAt stored = js_date (pg_time t)"
      "ss_connectorId stored = c_id connector"
    using enq by (auto simp: toStoredServerMessage_Inr elim!: enqueueServerMessage_Inr)
  then show thesis by (intro that [OF t_def refl jobs])
qed

lemma returning_hit:
  assumes "first_row (sql_returning p f t) \<noteq> None"
  obtains x where "x \<in> set t" "p x"
proof -
  from assms obtain r where "first_row (sql_returning p f t) = Some r" by blast
  from first_row_returning_Some [OF this] that show thesis by blast
qed

lemma length_filter_update:
  "length (filter P (sql_update p f t)) \<le> length (filter P t) + length (filter p t)"
  by (induction t) auto

lemma one_row:
  assumes "distinct (map k t)" "\<And>x. p x \<Longrightarrow> k x = i"
  shows "length (filter p t) \<le> 1"
proof -
  have "set (map k (filter p t)) \<subseteq> {i}" using assms(2) by auto
  moreover have "distinct (map k (filter p t))" using assms(1) by (rule distinct_map_filter)
  ultimately have "length (map k (filter p t)) \<le> card {i}"
    by (metis card_mono distinct_card finite.emptyI finite.insertI)
  then show ?thesis by simp
qed

text \<open>
  C10. An offer respects the limits of its repository: it is for a job of the connector's owner whose
  repository has an enabled policy, and with the new offer counted the active jobs of the
  repository are at most the policy's maximum, at the time the job was selected.
\<close>

theorem dispatch_respects_concurrency:
  assumes "db_inv d" and "dispatchNext e identity locked d = (Inr (Some stored), d')"
  shows "\<exists>job \<in> set (jobs d). \<exists>p \<in> set (repositoryPolicies d).
     get_prop (ss_payload stored) ''job_id'' = JStr (j_id job)
     \<and> j_ownerId job = ci_ownerId identity \<and> j_id job \<notin> set locked
     \<and> p_id p = j_repositoryId job \<and> p_ownerId p = ci_ownerId identity \<and> p_enabled p
     \<and> active_count (ci_ownerId identity) (p_id p) (clock_ms e 0) d' \<le> p_maxConcurrency p"
proof -
  have "dispatch_body e identity locked d = Inr (Some stored, d')"
    using assms(2) by (simp add: dispatchNext_def transaction_Inr)
  then show ?thesis
  proof (rule dispatch_body_Inr)
    fix job connector
    assume sel: "next_offer (ci_ownerId identity) locked (clock_ms e 0) d = Some job"
      and run: "offer_job e identity connector job (clock_ms e 1) d = Inr (Some stored, d')"
    note job = next_offer_Some [OF sel]
    then obtain p where p: "p \<in> set (repositoryPolicies d)" "p_id p = j_repositoryId job"
        "p_ownerId p = ci_ownerId identity" "p_enabled p"
        "active_count (ci_ownerId identity) (p_id p) (clock_ms e 0) d < p_maxConcurrency p"
      by (auto simp: is_offerable_def eligible_repositories_def enabled_policies_def)
    from run show ?thesis
    proof (rule offer_job_Inr)
      fix t attempt
      let ?f = "offer_update (ci_connectorId identity) (env_uuid e 0) t (clock_ms e 1)"
      let ?P = "\<lambda>j. j_ownerId j = ci_ownerId identity \<and> j_repositoryId j = p_id p \<and> is_active (clock_ms e 0) j"
      assume jobs: "jobs d' = sql_update (offer_where e job) ?f (jobs d)"
        and pay: "ss_payload stored = [(''job_id'', JStr (j_id job)), (''attempt'', int_value attempt),
           (''lease_id'', JStr (env_uuid e 0)), (''repository_id'', JStr (j_repositoryId job))]"
      have "length (filter (offer_where e job) (jobs d)) \<le> 1"
        by (rule one_row [of j_id _ _ "j_id job"]) (use assms(1) in \<open>auto simp: inv_defs offer_where_def\<close>)
      then have "length (filter ?P (jobs d')) \<le> length (filter ?P (jobs d)) + 1"
        using length_filter_update [of ?P "offer_where e job" ?f "jobs d"] by (simp add: jobs)
      then have "active_count (ci_ownerId identity) (p_id p) (clock_ms e 0) d' \<le> p_maxConcurrency p"
        using p(5) by (simp add: active_count_def)
      then show ?thesis
        using job p pay by (intro bexI [of _ job] bexI [of _ p]) (auto simp: is_offerable_def get_prop_def)
    qed
  qed
qed

theorem dispatch_respects_concurrency_witness:
  "\<exists>stored d'. dispatchNext sample_env sample_identity [] idle_db = (Inr (Some stored), d')
     \<and> active_count ''o'' ''repo'' (clock_ms sample_env 0) d' \<le> 1"
proof -
  from offer_made obtain stored d' where run: "dispatchNext sample_env sample_identity [] idle_db = (Inr (Some stored), d')"
    by (rule offer_madeE)
  with dispatch_respects_concurrency [OF idle_db_inv run] show ?thesis
    by (auto simp: idle_db_def sample_db_def sample_policy_def sample_identity_def)
qed

text \<open>
  An offer gives a fresh lease and hides the request: the job is dispatched to the connector under
  the lease named in the message, with the next revision and an unchanged attempt counter, the
  lease ends no later than the job, and the stored message holds neither the request's plain text
  nor its ciphertext.
\<close>

theorem offer_leases_job:
  assumes "db_inv d" and "dispatchNext e identity locked d = (Inr (Some stored), d')"
  shows "\<exists>job \<in> set (jobs d). \<exists>job' \<in> set (jobs d').
     j_id job' = j_id job \<and> j_status job \<in> {Queued, Dispatched} \<and> j_status job' = Dispatched
     \<and> j_revision job' = j_revision job + 1 \<and> j_attempt job' = j_attempt job
     \<and> j_connectorId job' = Some (ci_connectorId identity)
     \<and> j_leaseId job' = Some (env_uuid e 0)
     \<and> j_leaseExpiresAt job' = Some (pg_time (min (clock_ms e 1 + OFFER_LEASE_MS) (js_date (j_expiresAt job))))
     \<and> ss_connectorId stored = ci_connectorId identity
     \<and> ss_type stored = ''job.offer'' \<and> \<not> storedServerMessageContainsPlaintextRequest stored
     \<and> ss_payload stored = [(''job_id'', JStr (j_id job)),
         (''attempt'', int_value (activeAttemptForOffer job)), (''lease_id'', JStr (env_uuid e 0)),
         (''repository_id'', JStr (j_repositoryId job))]"
proof -
  have "dispatch_body e identity locked d = Inr (Some stored, d')"
    using assms(2) by (simp add: dispatchNext_def transaction_Inr)
  then show ?thesis
  proof (rule dispatch_body_Inr)
    fix job connector
    assume sel: "next_offer (ci_ownerId identity) locked (clock_ms e 0) d = Some job"
      and run: "offer_job e identity connector job (clock_ms e 1) d = Inr (Some stored, d')"
      and c: "c_id connector = ci_connectorId identity"
    note job = next_offer_Some [OF sel]
    from run show ?thesis
    proof (rule offer_job_Inr)
      fix t attempt
      let ?f = "offer_update (ci_connectorId identity) (env_uuid e 0) t (clock_ms e 1)"
      assume jobs: "jobs d' = sql_update (offer_where e job) ?f (jobs d)"
        and hit: "first_row (sql_returning (offer_where e job) ?f (jobs d)) \<noteq> None"
        and rest: "t = min (clock_ms e 1 + OFFER_LEASE_MS) (js_date (j_expiresAt job))"
          "attempt = j_attempt job + 1" "ss_type stored = ''job.offer''"
          "ss_connectorId stored = c_id connector"
          "ss_payload stored = [(''job_id'', JStr (j_id job)), (''attempt'', int_value attempt),
             (''lease_id'', JStr (env_uuid e 0)), (''repository_id'', JStr (j_repositoryId job))]"
      from hit obtain x where x: "x \<in> set (jobs d)" "offer_where e job x"
        by (rule returning_hit)
      have "x = job"
        using job_id_unique [OF assms(1) x(1) job(1)] x(2) by (simp add: offer_where_def)
      with x jobs have "?f job \<in> set (jobs d')" by (auto simp: in_sql_update)
      then show ?thesis
        using job rest c
        by (intro bexI [of _ job] bexI [of _ "?f job"])
          (auto simp: offer_update_def is_offerable_def storedServerMessageContainsPlaintextRequest_def
            activeAttemptForOffer_def)
    qed
  qed
qed

theorem offer_leases_job_witness:
  "\<exists>stored d'. dispatchNext sample_env sample_identity [] idle_db = (Inr (Some stored), d')
     \<and> ss_type stored = ''job.offer'' \<and> \<not> storedServerMessageContainsPlaintextRequest stored"
proof -
  from offer_made obtain stored d' where run: "dispatchNext sample_env sample_identity [] idle_db = (Inr (Some stored), d')"
    by (rule offer_madeE)
  with offer_leases_job [OF idle_db_inv run] show ?thesis by blast
qed

subsection \<open>Accepted business\<close>

lemma respond_other_ok:
  assumes "respond_other e connector message outcome durable now d = Inr (r, d')"
    and "\<not> refused r" "client_type (cm_payload message) \<noteq> ''ack''"
  shows "rejection_payload outcome = None"
proof (rule ccontr)
  assume "rejection_payload outcome \<noteq> None"
  then obtain payload where "rejection_payload outcome = Some payload" by blast
  with assms show False
    by (auto simp: respond_other_def close_with_ack_def store_tx refused_def shown_messages_def
        dest!: enqueue_type split: if_splits)
qed

lemma run_business_Applied:
  assumes "run_business dp e identity c message found a durable co now d = Inr (outcome, d')"
    and "rejection_payload outcome = None"
  obtains res where "applyBusiness dp e identity c message found a durable co now d = Inr (res, d')"
    "res \<noteq> Some Withdrawn"
proof (cases "applyBusiness dp e identity c message found a durable co now d")
  case (Inl err)
  with assms have "recordable co (found \<noteq> None
      \<or> historicalClaimExpired identity (cm_payload message) found durable now d) err" "outcome = Rejected err"
    by (auto simp: run_business_def split: if_splits)
  with assms(2) show thesis
    by (cases err) (auto simp: recordable_def rejection_payload_def)
next
  case (Inr x)
  with assms that show thesis
    by (cases x) (auto simp: run_business_def rejection_payload_def split: if_splits)
qed

text \<open>A new message that is not refused has had its business applied, to the job it names.\<close>

lemma accepted_business:
  assumes run: "acceptClientMessage dp e identity message d = (Inr r, d')"
    and new: "\<not> ac_duplicate r" and ok: "\<not> refused r"
    and kind: "client_type (cm_payload message) \<notin> {''connector.hello'', ''job.sync'', ''ack''}"
  obtains found a durable co d2 res d3 where
    "\<And>job. found = Some job \<Longrightarrow> job \<in> set (jobs d) \<and> message_job (cm_payload message) = Some (j_id job)
       \<and> j_ownerId job = ci_ownerId identity \<and> j_connectorId job = Some (ci_connectorId identity)"
    "work_frame d d2"
    "applyBusiness dp e identity (ci_connectorId identity) message found a durable co (clock_ms e 0) d2
       = Inr (res, d3)"
    "res \<noteq> Some Withdrawn" "work_frame d3 d'"
proof -
  have "accept_body dp e identity message d = Inr (r, d')"
    using run by (simp add: acceptClientMessage_def transaction_Inr)
  then show thesis
  proof (rule accept_body_Inr)
    fix connector existing
    assume "accept_duplicate dp e connector message existing (clock_ms e 0) d = Inr (r, d')"
    with new show thesis using accept_duplicate_flag by blast
  next
    fix connector found durable co
    assume c: "c_id connector = ci_connectorId identity"
      and f1: "\<And>job. found = Some job \<Longrightarrow> job \<in> set (jobs d)"
      and f2: "\<And>job. found = Some job \<Longrightarrow> message_job (cm_payload message) = Some (j_id job)
         \<and> j_ownerId job = ci_ownerId identity \<and> j_connectorId job = Some (ci_connectorId identity)"
      and acc: "accept_new dp e identity connector message found durable co (clock_ms e 0) d = Inr (r, d')"
    from acc show thesis
    proof (rule accept_new_Inr)
      fix a row d2 d3 d4 connector' outcome
      assume d2: "d2 = d\<lparr>connectorMessages := connectorMessages d @ [row]\<rparr>"
        and biz: "run_business dp e identity (c_id connector) message found a durable co (clock_ms e 0) d2
          = Inr (outcome, d3)"
        and used: "consume_sequence dp connector message co (clock_ms e 0) d3 = Inr (connector', d4)"
        and resp: "(case (cm_payload message, outcome) of
         (Hello h, _) \<Rightarrow> respond_hello e connector' message h durable co (clock_ms e 0)
       | (Sync s, Applied x) \<Rightarrow> respond_sync dp e connector' message s found
       | _ \<Rightarrow> respond_other e connector' message outcome durable (clock_ms e 0)) d4 = Inr (r, d')"
      have "respond_other e connector' message outcome durable (clock_ms e 0) d4 = Inr (r, d')"
        using resp kind by (auto split: client_payload.splits simp: client_type_def)
      from respond_other_ok [OF this ok] have "rejection_payload outcome = None" using kind by auto
      with biz obtain res where res: "applyBusiness dp e identity (c_id connector) message found a durable co
          (clock_ms e 0) d2 = Inr (res, d3)" "res \<noteq> Some Withdrawn"
        by (rule run_business_Applied)
      have "work_frame d3 d'"
        using wf.keepsD [OF consume_work used] wf.keepsD [OF wo.keeps_respond resp] by (rule wf.rel_trans)
      with res f1 f2 show thesis
        by (intro that [of found d2 a durable co res d3]) (auto simp: c d2 work_frame_def)
    qed
  qed
qed

lemma claimOfferedJob_Inr:
  assumes "claimOfferedJob dp e identity message p found now durable co d = Inr (Claimed, d')"
  obtains job lease where "found = Some job" "j_status job = Dispatched" "j_leaseId job = Some (jl_lease_id p)"
    "jl_attempt p = j_attempt job + 1" "j_leaseExpiresAt job = Some lease" "now < js_date lease"
    "now < js_date (j_expiresAt job)"
    "jobs d' = sql_update (offered_claim_where e message p job) (offered_claim_update p now) (jobs d)"
    "first_row (sql_returning (offered_claim_where e message p job) (offered_claim_update p now) (jobs d)) \<noteq> None"
proof -
  from assms obtain job lease u d1 input v where f: "found = Some job" "j_status job = Dispatched"
      "j_leaseId job = Some (jl_lease_id p)" "jl_attempt p = offered_attempt job"
      "j_leaseExpiresAt job = Some lease" "now < js_date lease" "now < js_date (j_expiresAt job)"
      "j_attempt job < 2147483647"
      and upd: "on_db (update_jobs (offered_claim_where e message p job) (offered_claim_update p now)) d = Inr (Some u, d1)"
      and app: "appendJobEvent e 1 (j_id job) input d1 = Inr (v, d')"
    by (auto simp: claimOfferedJob_def Let_def store_tx not_le split: if_splits option.splits)
  have "jobs d' = jobs d1"
    using app by (auto simp: appendJobEvent_Inr Let_def)
  with f upd show thesis
    by (intro that [of job lease]) (auto simp: on_db_Inr update_jobs_Inr offered_attempt_def)
qed

text \<open>
  C7. A claim needs the lease it was offered: a new claim that is accepted names a job of the
  connector's owner that is dispatched to this connector under the claimed lease and not yet
  past its lease or deadline, and claims exactly the next attempt; the job then runs.
\<close>

theorem claim_needs_current_lease:
  assumes "db_inv d" and "acceptClientMessage dp e identity message d = (Inr r, d')"
    and "\<not> ac_duplicate r" and "\<not> refused r" and "cm_payload message = Claim p"
  shows "\<exists>job \<in> set (jobs d). \<exists>job' \<in> set (jobs d'). \<exists>lease.
     j_id job = jl_job_id p \<and> j_ownerId job = ci_ownerId identity
     \<and> j_connectorId job = Some (ci_connectorId identity) \<and> j_status job = Dispatched
     \<and> j_leaseId job = Some (jl_lease_id p) \<and> jl_attempt p = j_attempt job + 1
     \<and> j_leaseExpiresAt job = Some lease \<and> clock_ms e 0 < js_date lease
     \<and> clock_ms e 0 < js_date (j_expiresAt job)
     \<and> j_id job' = j_id job \<and> j_status job' = Running \<and> j_attempt job' = jl_attempt p
     \<and> j_revision job' = j_revision job + 1"
proof -
  have "client_type (cm_payload message) \<notin> {''connector.hello'', ''job.sync'', ''ack''}"
    using assms(5) by (simp add: client_type_def)
  with assms(2-4) show ?thesis
  proof (rule accepted_business)
    fix found a durable co d2 res d3
    assume own: "\<And>job. found = Some job \<Longrightarrow> job \<in> set (jobs d) \<and> message_job (cm_payload message) = Some (j_id job)
         \<and> j_ownerId job = ci_ownerId identity \<and> j_connectorId job = Some (ci_connectorId identity)"
      and w: "work_frame d d2" "work_frame d3 d'" and res: "res \<noteq> Some Withdrawn"
      and biz: "applyBusiness dp e identity (ci_connectorId identity) message found a durable co (clock_ms e 0) d2
         = Inr (res, d3)"
    from biz res assms(5)
    have "claimOfferedJob dp e identity message p found (clock_ms e 0) durable co d2 = Inr (Claimed, d3)"
      by (auto simp: applyBusiness_def store_tx split: if_splits) (metis claim_result.exhaust)
    then show ?thesis
    proof (rule claimOfferedJob_Inr)
      fix job lease
      assume f: "found = Some job" "j_status job = Dispatched" "j_leaseId job = Some (jl_lease_id p)"
          "jl_attempt p = j_attempt job + 1" "j_leaseExpiresAt job = Some lease" "clock_ms e 0 < js_date lease"
          "clock_ms e 0 < js_date (j_expiresAt job)"
        and upd: "jobs d3 = sql_update (offered_claim_where e message p job)
           (offered_claim_update p (clock_ms e 0)) (jobs d2)"
        and hit: "first_row (sql_returning (offered_claim_where e message p job)
           (offered_claim_update p (clock_ms e 0)) (jobs d2)) \<noteq> None"
      from hit obtain x where x: "x \<in> set (jobs d2)" "offered_claim_where e message p job x" by (rule returning_hit)
      have "x = job"
        using job_id_unique [OF assms(1), of x job] x w(1) own [OF f(1)]
        by (simp add: offered_claim_where_def work_frame_def)
      with x upd w(2) have "offered_claim_update p (clock_ms e 0) job \<in> set (jobs d')"
        by (auto simp: in_sql_update work_frame_def)
      then show ?thesis
        using own [OF f(1)] f assms(5)
        by (intro bexI [of _ job] bexI [of _ "offered_claim_update p (clock_ms e 0) job"])
          (auto simp: offered_claim_update_def message_job_def)
    qed
  qed
qed

theorem claim_needs_current_lease_witness:
  "\<exists>job' \<in> set (jobs (snd (sample_accept (Claim sample_claim) leased_db))).
     j_id job' = ''f'' \<and> j_status job' = Running \<and> j_attempt job' = 2"
proof -
  from claim_accepted obtain r d1 where run: "sample_accept (Claim sample_claim) leased_db = (Inr r, d1)"
      "\<not> ac_duplicate r" "refused r = False"
    by (rule answeredE)
  from claim_needs_current_lease [OF leased_db_inv run(1,2), of sample_claim] run show ?thesis
    by (fastforce simp: sample_message_def sample_claim_def)
qed


lemma ingestApprovalRequested_Inr:
  assumes "ingestApprovalRequested dp e message p found now co d = Inr (u, d')"
  obtains job where "found = Some job" "j_status job \<in> {Running, Waiting_approval}"
    "j_attempt job = arp_attempt p" "arp_job_revision p = j_revision job + 1"
    "now < js_date (j_expiresAt job)" "now < request_expiry p"
    "\<exists>q. (\<forall>j. q j \<longrightarrow> j_id j = j_id job)
       \<and> jobs d' = sql_update q (\<lambda>j. j\<lparr>j_status := Waiting_approval, j_currentStage := ''waiting_approval'',
           j_revision := j_revision j + 1, j_updatedAt := pg_time now\<rparr>) (jobs d)
       \<and> (\<exists>x \<in> set (jobs d). q x)"
    "approvals d' = approvals d @ [requested_approval e (j_id job) p (clean_text dp 400 (arp_action_summary p))
       (clean_text dp 800 (arp_impact_summary p)) (clean_text dp 64 (arp_risk_class p))]"
proof (cases found)
  case None
  with assms show thesis by (simp add: ingestApprovalRequested_def store_tx)
next
  case (Some job)
  let ?q = "\<lambda>j. j_id j = j_id job \<and> j_revision j = j_revision job \<and> j_attempt j = arp_attempt p
      \<and> j_expiresAt j > env_clock e 10 \<and> pg_time (request_expiry p) > env_clock e 11
      \<and> pg_time (message_expiry message) > env_clock e 12"
  let ?f = "\<lambda>j. j\<lparr>j_status := Waiting_approval, j_currentStage := ''waiting_approval'',
      j_revision := j_revision j + 1, j_updatedAt := pg_time now\<rparr>"
  let ?row = "requested_approval e (j_id job) p (clean_text dp 400 (arp_action_summary p))
       (clean_text dp 800 (arp_impact_summary p)) (clean_text dp 64 (arp_risk_class p))"
  obtain r d1 v d2 v' input where upd: "on_db (update_jobs ?q ?f) d = Inr (Some r, d1)"
      and ins: "insert_approval ?row d1 = Inr (v, d2)"
      and app: "appendJobEvent e 1 (j_id job) input d2 = Inr (v', d')"
      and st: "j_status job \<in> {Running, Waiting_approval}" "j_attempt job = arp_attempt p"
        "arp_job_revision p = j_revision job + 1" "now < js_date (j_expiresAt job)" "now < request_expiry p"
    using assms Some
    by (auto simp: ingestApprovalRequested_def Let_def store_tx insert_requested_approval_Inr not_le
        split: option.splits)
  have frame: "jobs d' = jobs d2" "approvals d' = approvals d2"
    using app by (auto simp: appendJobEvent_Inr Let_def)
  have hit: "first_row (sql_returning ?q ?f (jobs d)) \<noteq> None"
    and d1: "jobs d1 = sql_update ?q ?f (jobs d)" "approvals d1 = approvals d"
    using upd by (auto simp: on_db_Inr update_jobs_Inr)
  from hit obtain x where "x \<in> set (jobs d)" "?q x" by (rule returning_hit)
  then have "\<exists>q. (\<forall>j. q j \<longrightarrow> j_id j = j_id job) \<and> jobs d' = sql_update q ?f (jobs d) \<and> (\<exists>x \<in> set (jobs d). q x)"
    using ins frame d1 by (intro exI [of _ ?q]) (auto simp: insert_approval_Inr)
  moreover have "approvals d' = approvals d @ [?row]"
    using ins frame d1 by (simp add: insert_approval_Inr)
  ultimately show thesis using st Some by (intro that [of job])
qed

text \<open>
  C8. A requested approval is bound to the state it interrupts: when a new request is accepted, the job
  of its connector and attempt waits for approval at exactly the revision the request names, and
  one undecided approval with that attempt, revision and action fingerprint is added.
\<close>

theorem approval_request_binds_revision:
  assumes "db_inv d" and "acceptClientMessage dp e identity message d = (Inr r, d')"
    and "\<not> ac_duplicate r" and "\<not> refused r" and "cm_payload message = Requested p"
  shows "\<exists>job' \<in> set (jobs d'). \<exists>a.
     j_id job' = arp_job_id p \<and> j_ownerId job' = ci_ownerId identity
     \<and> j_connectorId job' = Some (ci_connectorId identity) \<and> j_status job' = Waiting_approval
     \<and> j_revision job' = arp_job_revision p \<and> j_attempt job' = arp_attempt p
     \<and> approvals d' = approvals d @ [a]
     \<and> a_id a = arp_approval_id p \<and> a_jobId a = j_id job' \<and> a_decision a = None
     \<and> a_jobRevision a = j_revision job' \<and> a_attempt a = j_attempt job'
     \<and> a_actionFingerprint a = arp_action_fingerprint p"
proof -
  have "client_type (cm_payload message) \<notin> {''connector.hello'', ''job.sync'', ''ack''}"
    using assms(5) by (simp add: client_type_def)
  with assms(2-4) show ?thesis
  proof (rule accepted_business)
    fix found a durable co d2 res d3
    assume own: "\<And>job. found = Some job \<Longrightarrow> job \<in> set (jobs d) \<and> message_job (cm_payload message) = Some (j_id job)
         \<and> j_ownerId job = ci_ownerId identity \<and> j_connectorId job = Some (ci_connectorId identity)"
      and w: "work_frame d d2" "work_frame d3 d'"
      and biz: "applyBusiness dp e identity (ci_connectorId identity) message found a durable co (clock_ms e 0) d2
         = Inr (res, d3)"
    from biz assms(5) have "ingestApprovalRequested dp e message p found (clock_ms e 0) co d2 = Inr ((), d3)"
      by (auto simp: applyBusiness_def no_claim_def store_tx)
    then show ?thesis
    proof (rule ingestApprovalRequested_Inr)
      fix job
      let ?f = "\<lambda>j. j\<lparr>j_status := Waiting_approval, j_currentStage := ''waiting_approval'',
           j_revision := j_revision j + 1, j_updatedAt := pg_time (clock_ms e 0)\<rparr>"
      assume f: "found = Some job" "j_attempt job = arp_attempt p" "arp_job_revision p = j_revision job + 1"
        and upd: "\<exists>q. (\<forall>j. q j \<longrightarrow> j_id j = j_id job) \<and> jobs d3 = sql_update q ?f (jobs d2)
          \<and> (\<exists>x \<in> set (jobs d2). q x)"
        and app: "approvals d3 = approvals d2 @ [requested_approval e (j_id job) p
            (clean_text dp 400 (arp_action_summary p)) (clean_text dp 800 (arp_impact_summary p))
            (clean_text dp 64 (arp_risk_class p))]"
      from upd obtain q x where q: "jobs d3 = sql_update q ?f (jobs d2)" "x \<in> set (jobs d2)" "q x" "j_id x = j_id job"
        by blast
      have "x = job"
        using job_id_unique [OF assms(1), of x job] q(2,4) w(1) own [OF f(1)] by (simp add: work_frame_def)
      with q w(2) have "?f job \<in> set (jobs d')" by (auto simp: in_sql_update work_frame_def)
      then show ?thesis
        using own [OF f(1)] f w app assms(5)
        by (intro bexI [of _ "?f job"]) (auto simp: message_job_def work_frame_def requested_approval_def)
    qed
  qed
qed

theorem approval_request_binds_revision_witness:
  "\<exists>job' \<in> set (jobs (snd (sample_accept (Requested sample_request) sample_db))).
     j_id job' = ''r'' \<and> j_status job' = Waiting_approval \<and> j_revision job' = 4"
proof -
  from request_accepted obtain r d1 where run: "sample_accept (Requested sample_request) sample_db = (Inr r, d1)"
      "\<not> ac_duplicate r" "refused r = False"
    by (rule answeredE)
  from approval_request_binds_revision [OF sample_db_inv run(1,2), of sample_request] run show ?thesis
    by (fastforce simp: sample_message_def sample_request_def)
qed

subsection \<open>A connector reaches only its own jobs\<close>

text \<open>Every job but the one named \<open>k\<close> is as before, with its events and approvals.\<close>

definition only_job :: "string option \<Rightarrow> db \<Rightarrow> db \<Rightarrow> bool" where
  "only_job k d d' =
     (filter (\<lambda>j. Some (j_id j) \<noteq> k) (jobs d') = filter (\<lambda>j. Some (j_id j) \<noteq> k) (jobs d)
      \<and> filter (\<lambda>ev. Some (e_jobId ev) \<noteq> k) (jobEvents d') = filter (\<lambda>ev. Some (e_jobId ev) \<noteq> k) (jobEvents d)
      \<and> filter (\<lambda>a. Some (a_jobId a) \<noteq> k) (approvals d') = filter (\<lambda>a. Some (a_jobId a) \<noteq> k) (approvals d))"

interpretation oj: tx_relation "only_job k" for k
  by unfold_locales (auto simp: only_job_def)

lemmas only_trans [trans] = oj.rel_trans

lemma only_update_jobs:
  "(\<And>j. p j \<Longrightarrow> Some (j_id j) = k \<and> j_id (f j) = j_id j) \<Longrightarrow> oj.keeps k (on_db (update_jobs p f))"
  by (rule oj.keepsI) (auto simp: on_db_Inr update_jobs_Inr only_job_def intro!: filter_sql_update)

lemma only_of_frame: "wf.keeps m \<Longrightarrow> oj.keeps k m"
  by (rule oj.keepsI) (auto dest: wf.keepsD simp: work_frame_def only_job_def)

lemma only_append: "Some jobId = k \<Longrightarrow> oj.keeps k (appendJobEvent e u jobId input)"
  by (rule oj.keepsI)
    (auto simp: appendJobEvent_Inr only_job_def event_row_of_def Let_def)

lemma only_insert_approval: "Some (a_jobId row) = k \<Longrightarrow> oj.keeps k (insert_requested_approval row)"
  by (rule oj.keepsI) (auto simp: insert_requested_approval_Inr insert_approval_Inr only_job_def)

lemma only_store_error: "oj.keeps k (store_error code)"
  by (simp add: store_error_def oj.keeps_throw)

lemma only_deadlines: "oj.keeps k (assertDeadlinesAfterWrite e n ts)"
  by (rule oj.keepsI) (simp add: assertDeadlines_Inr oj.rel_refl)

lemma only_increment: "oj.keeps k (checkedJobIncrement n c code)"
  by (rule oj.keepsI) (auto simp: checkedJobIncrement_Inr oj.rel_refl)

lemmas only_rules = oj.keeps_bind oj.keeps_return oj.keeps_throw oj.keeps_check oj.keeps_read
  only_update_jobs only_append only_insert_approval only_store_error only_deadlines only_increment
  only_of_frame [OF wo.keeps_withdraw]

lemma only_claim: "oj.keeps (map_option j_id found) (claimOfferedJob dp e identity message p found now durable co)"
  unfolding claimOfferedJob_def Let_def
  by (cases found)
    (auto intro!: only_rules simp: offered_claim_where_def offered_claim_update_def split: option.split)

lemma only_ingestJobEvent: "oj.keeps (map_option j_id found) (ingestJobEvent dp e message v found now co)"
  unfolding ingestJobEvent_def Let_def
  by (cases found) (auto intro!: only_rules simp: apply_event_def Let_def split: option.split)

lemma only_ingestApproval: "oj.keeps (map_option j_id found) (ingestApprovalRequested dp e message p found now co)"
  unfolding ingestApprovalRequested_def Let_def
  by (cases found) (auto intro!: only_rules simp: requested_approval_def split: option.split)

lemma only_ingestCancelled: "oj.keeps (map_option j_id found) (ingestJobCancelled dp e message p found now co)"
  unfolding ingestJobCancelled_def Let_def
  by (cases found) (auto intro!: only_rules simp: mark_cancelled_def split: option.split)


lemma only_business:
  assumes "client_type (cm_payload message) \<noteq> ''ack''"
  shows "oj.keeps (map_option j_id found)
    (run_business dp e identity c message found a durable co now)"
proof -
  have "oj.keeps (map_option j_id found)
      (applyBusiness dp e identity c message found a durable co now)"
    unfolding applyBusiness_def no_claim_def using assms
    by (auto split: client_payload.split
        intro!: oj.keeps_bind oj.keeps_return oj.keeps_throw oj.keeps_read only_store_error
          only_claim only_ingestJobEvent only_ingestApproval only_ingestCancelled simp: client_type_def)
  then show ?thesis
    by (intro oj.keepsI) (auto simp: run_business_def oj.rel_refl dest: oj.keepsD split: sum.splits if_splits)
qed

lemma filter_other:
  assumes "filter (\<lambda>x. Some (f x) \<noteq> k) t' = filter (\<lambda>x. Some (f x) \<noteq> k) t" "k \<noteq> Some i"
  shows "filter (\<lambda>x. f x = i) t' = filter (\<lambda>x. f x = i) t"
proof -
  have "filter (\<lambda>x. f x = i) u = filter (\<lambda>x. f x = i) (filter (\<lambda>x. Some (f x) \<noteq> k) u)" for u
    using assms(2) by (auto intro!: filter_cong)
  then show ?thesis using assms(1) by metis
qed

lemma only_other:
  assumes "only_job k d d'" "k \<noteq> Some i"
  shows "filter (\<lambda>j. j_id j = i) (jobs d') = filter (\<lambda>j. j_id j = i) (jobs d)"
    "filter (\<lambda>ev. e_jobId ev = i) (jobEvents d') = filter (\<lambda>ev. e_jobId ev = i) (jobEvents d)"
    "filter (\<lambda>a. a_jobId a = i) (approvals d') = filter (\<lambda>a. a_jobId a = i) (approvals d)"
  using assms by (auto simp: only_job_def intro!: filter_other)

text \<open>
  C9. A connector reaches only its own jobs: whatever message other than an acknowledgement a connector
  sends, accepted or refused, a job that belongs to another owner or is not dispatched to this
  connector stays as it is, with its events and approvals. (An acknowledgement may resume the
  job that the acknowledged server message names.)
\<close>

theorem connector_reaches_only_its_jobs:
  assumes "db_inv d" and "client_type (cm_payload message) \<noteq> ''ack''"
    and "j \<in> set (jobs d)"
    and "j_ownerId j \<noteq> ci_ownerId identity \<or> j_connectorId j \<noteq> Some (ci_connectorId identity)"
    and "acceptClientMessage dp e identity message d = (r, d')"
  shows "filter (\<lambda>x. j_id x = j_id j) (jobs d') = [j]
     \<and> filter (\<lambda>ev. e_jobId ev = j_id j) (jobEvents d') = filter (\<lambda>ev. e_jobId ev = j_id j) (jobEvents d)
     \<and> filter (\<lambda>a. a_jobId a = j_id j) (approvals d') = filter (\<lambda>a. a_jobId a = j_id j) (approvals d)"
proof -
  have body: "\<exists>k. k \<noteq> Some (j_id j) \<and> only_job k d d''"
    if "accept_body dp e identity message d = Inr (a, d'')" for a d''
    using that
  proof (rule accept_body_Inr)
    fix connector existing
    assume "accept_duplicate dp e connector message existing (clock_ms e 0) d = Inr (a, d'')"
    then have "only_job None d d''" by (rule oj.keepsD [OF only_of_frame [OF wo.keeps_accept_duplicate]])
    then show ?thesis by blast
  next
    fix connector found durable co
    assume f1: "\<And>job. found = Some job \<Longrightarrow> job \<in> set (jobs d)"
      and f2: "\<And>job. found = Some job \<Longrightarrow> message_job (cm_payload message) = Some (j_id job)
         \<and> j_ownerId job = ci_ownerId identity \<and> j_connectorId job = Some (ci_connectorId identity)"
      and acc: "accept_new dp e identity connector message found durable co (clock_ms e 0) d = Inr (a, d'')"
    let ?k = "map_option j_id found"
    have "?k \<noteq> Some (j_id j)"
      using job_id_unique [OF assms(1) assms(3)] f1 f2 assms(4) by (cases found) (simp, metis option.inject option.simps(9))
    moreover from acc have "only_job ?k d d''"
    proof (rule accept_new_Inr)
      fix a' row d2 d3 d4 connector' outcome
      assume d2: "d2 = d\<lparr>connectorMessages := connectorMessages d @ [row]\<rparr>"
        and biz: "run_business dp e identity (c_id connector) message found a' durable co (clock_ms e 0) d2
          = Inr (outcome, d3)"
        and used: "consume_sequence dp connector message co (clock_ms e 0) d3 = Inr (connector', d4)"
        and resp: "(case (cm_payload message, outcome) of
         (Hello h, _) \<Rightarrow> respond_hello e connector' message h durable co (clock_ms e 0)
       | (Sync s, Applied x) \<Rightarrow> respond_sync dp e connector' message s found
       | _ \<Rightarrow> respond_other e connector' message outcome durable (clock_ms e 0)) d4 = Inr (a, d'')"
      have "only_job ?k d d2" by (simp add: d2 only_job_def)
      also note oj.keepsD [OF only_business [OF assms(2)] biz]
      also note oj.keepsD [OF only_of_frame [OF consume_work] used]
      also note oj.keepsD [OF only_of_frame [OF wo.keeps_respond] resp]
      finally show ?thesis .
    qed
    ultimately show ?thesis by blast
  qed
  have "\<exists>k. k \<noteq> Some (j_id j) \<and> only_job k d d'"
    using assms(5) body oj.rel_refl [of None d]
    by (auto simp: acceptClientMessage_def transaction_def split: sum.splits)
  then obtain k where k: "k \<noteq> Some (j_id j)" "only_job k d d'" by blast
  have "filter (\<lambda>x. j_id x = j_id j) (jobs d) = [j]"
    using filter_key_unique [of j_id "jobs d" j] assms(1,3) by (simp add: inv_defs)
  with only_other [OF k(2,1)] show ?thesis by simp
qed

theorem connector_reaches_only_its_jobs_witness:
  "filter (\<lambda>x. j_id x = ''z'') (jobs (snd (sample_accept (Claim sample_claim) shared_db)))
     = [(sample_job ''z'' ''QH-000H'' Running)\<lparr>j_ownerId := ''p''\<rparr>]"
proof -
  let ?j = "(sample_job ''z'' ''QH-000H'' Running)\<lparr>j_ownerId := ''p''\<rparr>"
  have "?j \<in> set (jobs shared_db)" by (simp add: shared_db_def)
  from connector_reaches_only_its_jobs [OF shared_db_inv _ this _ prod.collapse [symmetric],
      of "sample_message (Claim sample_claim)" sample_identity sample_deps sample_env]
  show ?thesis by (simp add: sample_message_def client_type_def sample_identity_def sample_job_def)
qed

end
