(* ===== verification/Speech_Fragmenter.thy ===== *)
theory Speech_Fragmenter
  imports Js_Unicode
begin

section \<open>Splitting speech into fragments\<close>

text \<open>
  \<open>apps/control-plane/src/rtc/output/speech-fragmenter.ts\<close>. A text is the list of its Unicode code
  points, which is what the patterns with the flag \<open>u\<close> see. The segmentation into graphemes
  (\<open>Intl.Segmenter\<close>) is an argument; \<open>Array_from\<close> is the fallback of the code. The loop is a
  partial function, shown to return for every segmentation into non-empty pieces.
\<close>

type_synonym speech = "int list"

definition SPEAK_FRAGMENT_MAX_CHARACTERS :: nat where
  "SPEAK_FRAGMENT_MAX_CHARACTERS = 120"

definition HIGHLIGHT_SUMMARY_MAX_CHARACTERS :: nat where
  "HIGHLIGHT_SUMMARY_MAX_CHARACTERS = 120"

text \<open>\<open>text.replace(/\s+/gu, " ")\<close>\<close>

function collapse :: "speech \<Rightarrow> speech" where
  "collapse [] = []"
| "collapse (c # cs) =
     (if is_space c then 32 # collapse (dropWhile is_space cs) else c # collapse cs)"
  by pat_completeness auto
termination
  by (relation "measure length") (auto simp: le_imp_less_Suc length_dropWhile_le)

definition sentence_end :: "int \<Rightarrow> bool" where
  "sentence_end c = (c \<in> {12290, 65281, 65311, 65307, 33, 63, 59})"

definition sentence_break :: "int \<Rightarrow> bool" where
  "sentence_break c = (sentence_end c \<or> c = 10)"

text \<open>All matches of \<open>SENTENCE_PATTERN\<close>, with fuel for the length of the text.\<close>

primrec sentence_matches :: "nat \<Rightarrow> speech \<Rightarrow> speech list" where
  "sentence_matches 0 s = []"
| "sentence_matches (Suc n) s =
     (let start = dropWhile sentence_break s;
          body = takeWhile (\<lambda>c. \<not> sentence_break c) start;
          rest = dropWhile (\<lambda>c. \<not> sentence_break c) start in
      if start = [] then []
      else case rest of
          [] \<Rightarrow> [body]
        | c # cs \<Rightarrow>
            if sentence_end c then (body @ [c]) # sentence_matches n cs
            else body # sentence_matches n rest)"

definition match_sentences :: "speech \<Rightarrow> speech list" where
  "match_sentences normalized =
     (let ms = sentence_matches (length normalized) normalized in
      if ms = [] then [normalized] else ms)"

definition task_char :: "int \<Rightarrow> bool" where
  "task_char c \<longleftrightarrow> 65 \<le> c \<and> c \<le> 90 \<or> 48 \<le> c \<and> c \<le> 57"

text \<open>The length of a match of \<open>TASK_ID_PATTERN\<close> at the start of a text.\<close>

definition task_id_at :: "speech \<Rightarrow> nat option" where
  "task_id_at s =
     (let n = length (takeWhile task_char (drop 3 s)) in
      if take 3 s = [81, 72, 45] \<and> 4 \<le> n then Some (3 + n) else None)"

text \<open>\<open>matchAll\<close>: the index and the length of each match; \<open>skip\<close> counts what the last match covers.\<close>

primrec task_id_matches :: "nat \<Rightarrow> nat \<Rightarrow> speech \<Rightarrow> (nat \<times> nat) list" where
  "task_id_matches i skip [] = []"
| "task_id_matches i skip (c # cs) =
     (if skip > 0 then task_id_matches (Suc i) (skip - 1) cs
      else case task_id_at (c # cs) of
          Some n \<Rightarrow> (i, n) # task_id_matches (Suc i) (n - 1) cs
        | None \<Rightarrow> task_id_matches (Suc i) 0 cs)"

definition Array_from :: "speech \<Rightarrow> speech list" where
  "Array_from = map (\<lambda>c. [c])"

definition clampCharacters :: "(speech \<Rightarrow> speech list) \<Rightarrow> speech \<Rightarrow> nat \<Rightarrow> speech" where
  "clampCharacters graphemes s max_characters = concat (take max_characters (graphemes s))"

definition taskIdRanges :: "(speech \<Rightarrow> speech list) \<Rightarrow> speech \<Rightarrow> (nat \<times> nat) list" where
  "taskIdRanges graphemes s =
     map (\<lambda>(i, n). let start = length (graphemes (take i s)) in
            (start, start + length (graphemes (take n (drop i s)))))
       (task_id_matches 0 0 s)"

definition safeCut :: "(speech \<Rightarrow> speech list) \<Rightarrow> speech \<Rightarrow> nat \<Rightarrow> nat" where
  "safeCut graphemes s preferred =
     (case find (\<lambda>(start, end). start < preferred \<and> preferred < end) (taskIdRanges graphemes s) of
        Some (start, end) \<Rightarrow> if start > 0 then start else end
      | None \<Rightarrow> preferred)"

text \<open>The loop on the rest of one sentence.\<close>

partial_function (option) split_rest ::
  "(speech \<Rightarrow> speech list) \<Rightarrow> nat \<Rightarrow> speech \<Rightarrow> speech list option" where
  "split_rest graphemes max_characters rest =
     (if length (graphemes rest) > max_characters then
        let characters = graphemes rest;
            cut = safeCut graphemes rest max_characters in
        Option.bind (split_rest graphemes max_characters (concat (drop cut characters)))
          (\<lambda>fs. Some (concat (take cut characters) # fs))
      else Some (if rest \<noteq> [] then [rest] else []))"

declare split_rest.simps [code]

primrec split_sentences ::
  "(speech \<Rightarrow> speech list) \<Rightarrow> nat \<Rightarrow> speech list \<Rightarrow> speech list option" where
  "split_sentences graphemes max_characters [] = Some []"
| "split_sentences graphemes max_characters (s # ss) =
     Option.bind (split_rest graphemes max_characters s) (\<lambda>fs.
     Option.bind (split_sentences graphemes max_characters ss) (\<lambda>gs. Some (fs @ gs)))"

definition normalized_text :: "speech \<Rightarrow> speech" where
  "normalized_text s = trim_text (collapse s)"

definition fragmentSpeech ::
  "(speech \<Rightarrow> speech list) \<Rightarrow> nat option \<Rightarrow> speech option \<Rightarrow> speech \<Rightarrow> (speech \<times> speech option) list option" where
  "fragmentSpeech graphemes maxCharacters highlight s =
     (let max_characters = max 1 (case maxCharacters of None \<Rightarrow> SPEAK_FRAGMENT_MAX_CHARACTERS | Some m \<Rightarrow> m);
          normalized = normalized_text s;
          shown = map_option (\<lambda>h. clampCharacters graphemes h HIGHLIGHT_SUMMARY_MAX_CHARACTERS) highlight in
      if normalized = [] then Some []
      else map_option (map (\<lambda>f. (f, shown)))
             (split_sentences graphemes max_characters (match_sentences normalized)))"

subsection \<open>The loop returns and loses only punctuation\<close>

text \<open>What \<open>Intl.Segmenter\<close> promises: the pieces are non-empty and make up the text.\<close>

locale segmenter =
  fixes graphemes :: "speech \<Rightarrow> speech list"
  assumes pieces: "concat (graphemes s) = s"
    and non_empty: "[] \<notin> set (graphemes s)"
begin

lemma concat_drop_shorter:
  assumes "0 < n" "graphemes s \<noteq> []"
  shows "length (concat (drop n (graphemes s))) < length s"
proof -
  obtain g gs where g: "graphemes s = g # gs" using assms(2) by (cases "graphemes s") auto
  obtain m where n: "n = Suc m" using assms(1) by (cases n) auto
  have "0 < length g" using non_empty [of s] g by auto
  moreover have "length (concat (drop m gs)) \<le> length (concat gs)"
    by (metis append_take_drop_id concat_append length_append le_add2)
  moreover have "length s = length g + length (concat gs)"
    using pieces [of s] g by (metis concat.simps(2) length_append)
  ultimately show ?thesis by (simp only: g n drop_Suc_Cons)
qed

end

lemma task_id_matches_found:
  "(i, n) \<in> set (task_id_matches k skip s) \<Longrightarrow>
     k \<le> i \<and> i - k < length s \<and> task_id_at (drop (i - k) s) = Some n"
proof (induction s arbitrary: k skip)
  case (Cons c cs)
  from Cons.prems consider
      "(i, n) \<in> set (task_id_matches (Suc k) (skip - 1) cs)"
    | m where "(i, n) \<in> set (task_id_matches (Suc k) (m - 1) cs)"
    | "(i, n) \<in> set (task_id_matches (Suc k) 0 cs)"
    | "i = k" "task_id_at (c # cs) = Some n"
    by (auto split: if_splits option.splits)
  then show ?case
  proof cases
    case 4
    then show ?thesis by simp
  qed (drule Cons.IH, force simp: Suc_diff_le drop_Cons' Suc_diff_Suc)+
qed simp

lemma task_id_at_length: "task_id_at s = Some n \<Longrightarrow> 7 \<le> n \<and> n \<le> length s"
proof -
  assume a: "task_id_at s = Some n"
  then have "take 3 s = [81, 72, 45]" "n = 3 + length (takeWhile task_char (drop 3 s))"
    "4 \<le> length (takeWhile task_char (drop 3 s))"
    by (auto simp: task_id_at_def Let_def split: if_splits)
  moreover have "length (takeWhile task_char (drop 3 s)) \<le> length s - 3"
    using length_takeWhile_le [of task_char "drop 3 s"] by simp
  ultimately show ?thesis by linarith
qed

context segmenter
begin

lemma safeCut_pos: "0 < preferred \<Longrightarrow> 0 < safeCut graphemes s preferred"
  by (auto simp: safeCut_def find_Some_iff split: option.splits if_splits)

lemma split_rest_returns:
  assumes "0 < m"
  shows "\<exists>fs. split_rest graphemes m s = Some fs \<and> concat fs = s \<and> [] \<notin> set fs"
proof (induction "length s" arbitrary: s rule: less_induct)
  case less
  show ?case
  proof (cases "length (graphemes s) > m")
    case False
    then show ?thesis by (subst split_rest.simps) auto
  next
    case True
    let ?n = "safeCut graphemes s m"
    have pos: "0 < ?n" by (rule safeCut_pos [OF assms])
    have "graphemes s \<noteq> []" using True by auto
    from less [OF concat_drop_shorter [OF pos this]] obtain fs where
      fs: "split_rest graphemes m (concat (drop ?n (graphemes s))) = Some fs"
      "concat fs = concat (drop ?n (graphemes s))" "[] \<notin> set fs" by blast
    have "concat (take ?n (graphemes s)) \<noteq> []"
      using pos True non_empty [of s] by (cases "graphemes s"; cases ?n) auto
    moreover have "concat (take ?n (graphemes s)) @ concat fs = s"
      unfolding fs(2) by (metis append_take_drop_id concat_append pieces)
    ultimately show ?thesis using fs True by (subst split_rest.simps) auto
  qed
qed

lemma split_sentences_returns:
  assumes "0 < m"
  shows "\<exists>fs. split_sentences graphemes m ss = Some fs \<and> concat fs = concat ss \<and> [] \<notin> set fs"
proof (induction ss)
  case (Cons s ss)
  with split_rest_returns [OF assms, of s] show ?case by fastforce
qed simp

end

interpretation af: segmenter Array_from
  by unfold_locales (auto simp: Array_from_def concat_map_singleton)


lemma sentence_matches_words:
  "length s \<le> n \<Longrightarrow>
     filter (\<lambda>c. \<not> sentence_break c) (concat (sentence_matches n s)) = filter (\<lambda>c. \<not> sentence_break c) s"
proof (induction n arbitrary: s)
  case (Suc n)
  define start where "start = dropWhile sentence_break s"
  define rest where "rest = dropWhile (\<lambda>c. \<not> sentence_break c) start"
  have s: "filter (\<lambda>c. \<not> sentence_break c) s = filter (\<lambda>c. \<not> sentence_break c) start"
    unfolding start_def by (induction s) auto
  have len: "length start \<le> Suc n"
    using Suc.prems length_dropWhile_le [of sentence_break s] by (simp add: start_def)
  have body: "filter (\<lambda>c. \<not> sentence_break c) (takeWhile (\<lambda>c. \<not> sentence_break c) start)
      = takeWhile (\<lambda>c. \<not> sentence_break c) start"
    by (auto simp: filter_id_conv dest: set_takeWhileD)
  have split: "filter (\<lambda>c. \<not> sentence_break c) start
      = takeWhile (\<lambda>c. \<not> sentence_break c) start @ filter (\<lambda>c. \<not> sentence_break c) rest"
    unfolding rest_def by (metis body filter_append takeWhile_dropWhile_id)
  show ?case
  proof (cases "start = []")
    case True
    then show ?thesis using s by (simp add: start_def)
  next
    case False
    then obtain c cs where start: "start = c # cs" by (cases start) auto
    have c: "\<not> sentence_break c" using hd_dropWhile [of sentence_break s] False start
      by (simp add: start_def)
    have "length rest \<le> n"
      using len length_dropWhile_le [of "\<lambda>c. \<not> sentence_break c" cs] c
      by (simp add: rest_def start)
    note IH = Suc.IH [OF this]
    show ?thesis
    proof (cases rest)
      case Nil
      then show ?thesis using False s split body
        by (simp add: Let_def start_def [symmetric] rest_def [symmetric])
    next
      case (Cons d ds)
      have ds: "length ds \<le> n" using \<open>length rest \<le> n\<close> Cons by simp
      have d: "sentence_break d" using Cons unfolding rest_def dropWhile_eq_Cons_conv by simp
      have "filter (\<lambda>c. \<not> sentence_break c) rest = filter (\<lambda>c. \<not> sentence_break c) ds"
        using d Cons by simp
      moreover have "sentence_matches (Suc n) s =
          (if sentence_end d then (takeWhile (\<lambda>c. \<not> sentence_break c) start @ [d]) # sentence_matches n ds
           else takeWhile (\<lambda>c. \<not> sentence_break c) start # sentence_matches n rest)"
        using False by (simp only: sentence_matches.simps Let_def start_def [symmetric]
            rest_def [symmetric] Cons list.case if_False)
      ultimately show ?thesis using s split body IH Suc.IH [OF ds] d by simp
    qed
  qed
qed simp

lemma match_sentences_words:
  "filter (\<lambda>c. \<not> sentence_break c) (concat (match_sentences s)) = filter (\<lambda>c. \<not> sentence_break c) s"
  using sentence_matches_words [of s "length s"] by (auto simp: match_sentences_def Let_def)

text \<open>
  C40. Fragmenting speech ends and loses no word. For every segmentation into non-empty pieces that
  make up the text, every text and every limit, the loop returns; no fragment is empty; and the
  fragments put together are the normalized text, except that sentence punctuation may be missing.
\<close>

theorem fragmenting_returns:
  assumes "\<And>s. concat (graphemes s) = s" "\<And>s. [] \<notin> set (graphemes s)"
  shows "\<exists>frags. fragmentSpeech graphemes maxCharacters highlight s = Some frags
     \<and> [] \<notin> fst ` set frags
     \<and> filter (\<lambda>c. \<not> sentence_break c) (concat (map fst frags))
         = filter (\<lambda>c. \<not> sentence_break c) (normalized_text s)"
proof -
  have g: "segmenter graphemes" using assms by unfold_locales
  define m where "m = max 1 (case maxCharacters of None \<Rightarrow> SPEAK_FRAGMENT_MAX_CHARACTERS | Some m \<Rightarrow> m)"
  have "0 < m" by (simp add: m_def)
  from segmenter.split_sentences_returns [OF g this, of "match_sentences (normalized_text s)"]
  obtain fs where fs: "split_sentences graphemes m (match_sentences (normalized_text s)) = Some fs"
    "concat fs = concat (match_sentences (normalized_text s))" "[] \<notin> set fs" by blast
  then have "fragmentSpeech graphemes maxCharacters highlight s
      = Some (if normalized_text s = [] then [] else
          map (\<lambda>f. (f, map_option (\<lambda>h. clampCharacters graphemes h HIGHLIGHT_SUMMARY_MAX_CHARACTERS) highlight)) fs)"
    by (simp only: fragmentSpeech_def Let_def m_def [symmetric] option.map split: if_split) simp
  with fs match_sentences_words [of "normalized_text s"] show ?thesis
    by (auto simp: comp_def image_image)
qed

theorem fragmenting_returns_witness:
  "\<exists>frags. fragmentSpeech Array_from (Some 2) None [97, 98, 99, 33] = Some frags
     \<and> filter (\<lambda>c. \<not> sentence_break c) (concat (map fst frags)) = [97, 98, 99]"
proof -
  have "filter (\<lambda>c. \<not> sentence_break c) (normalized_text [97, 98, 99, 33]) = [97, 98, 99]" by code_simp
  with fragmenting_returns [OF af.pieces af.non_empty, of "Some 2" None "[97, 98, 99, 33]"]
  show ?thesis by metis
qed


subsection \<open>Short ids stay whole\<close>

lemma matches_shift:
  "task_id_matches (i + k) skip s = map (\<lambda>(j, n). (j + k, n)) (task_id_matches i skip s)"
proof (induction s arbitrary: i skip)
  case (Cons c cs)
  from Cons [of "Suc i"] show ?case by (simp split: option.split)
qed simp

lemma matches_ordered:
  "sorted_wrt (\<lambda>(i, n) (j, m). i + n \<le> j) (task_id_matches k skip s)
   \<and> (\<forall>(i, n) \<in> set (task_id_matches k skip s). k + skip \<le> i)"
proof (induction s arbitrary: k skip)
  case (Cons c cs)
  show ?case
  proof (cases "0 < skip")
    case True
    with Cons.IH [of "Suc k" "skip - 1"] show ?thesis by fastforce
  next
    case False
    show ?thesis
    proof (cases "task_id_at (c # cs)")
      case None
      with False Cons.IH [of "Suc k" 0] show ?thesis by fastforce
    next
      case (Some n)
      with task_id_at_length [of "c # cs" n] have "7 \<le> n" by simp
      with False Some Cons.IH [of "Suc k" "n - 1"] show ?thesis by fastforce
    qed
  qed
qed simp

lemma matches_suffix:
  assumes "skip \<le> k" "k \<le> length s"
    and "\<And>j n. (j, n) \<in> set (task_id_matches i skip s) \<Longrightarrow> \<not> (j < i + k \<and> i + k < j + n)"
    and "(j, n) \<in> set (task_id_matches i skip s)" "i + k \<le> j"
  shows "(j, n) \<in> set (task_id_matches (i + k) 0 (drop k s))"
  using assms
proof (induction s arbitrary: i k skip)
  case (Cons c cs)
  show ?case
  proof (cases k)
    case 0
    with Cons.prems show ?thesis by simp
  next
    case (Suc k')
    let ?skip = "if 0 < skip then skip - 1 else case task_id_at (c # cs) of Some n \<Rightarrow> n - 1 | None \<Rightarrow> 0"
    have sub: "set (task_id_matches (Suc i) ?skip cs) \<subseteq> set (task_id_matches i skip (c # cs))"
      by (auto split: option.splits)
    have "?skip \<le> k'"
      using Cons.prems(1) Cons.prems(3) [of i] task_id_at_length [of "c # cs"] Suc
      by (fastforce split: option.splits)
    moreover have "(j, n) \<in> set (task_id_matches (Suc i) ?skip cs)"
      using Cons.prems(4,5) Suc by (auto split: option.splits if_splits)
    ultimately have "(j, n) \<in> set (task_id_matches (Suc i + k') 0 (drop k' cs))"
      using Cons.prems(2,3,5) Suc sub by (intro Cons.IH [of ?skip k' "Suc i"]) auto
    then show ?thesis using Suc by simp
  qed
qed simp

lemma matches_in: "(i, n) \<in> set (task_id_matches 0 0 s) \<Longrightarrow> task_id_at (drop i s) = Some n \<and> i + n \<le> length s"
  using task_id_matches_found [of i n 0 0 s] task_id_at_length [of "drop i s" n] by fastforce

lemma ranges_Array_from: "taskIdRanges Array_from s = map (\<lambda>(i, n). (i, i + n)) (task_id_matches 0 0 s)"
  using matches_in [of _ _ s] by (fastforce simp: taskIdRanges_def Array_from_def Let_def min_def)

lemma matches_disjoint:
  assumes "(i, n) \<in> set (task_id_matches 0 0 s)" "(j, m) \<in> set (task_id_matches 0 0 s)"
  shows "i + n \<le> j \<or> j + m \<le> i \<or> (i, n) = (j, m)"
proof -
  obtain a b where ab: "a < length (task_id_matches 0 0 s)" "b < length (task_id_matches 0 0 s)"
    "task_id_matches 0 0 s ! a = (i, n)" "task_id_matches 0 0 s ! b = (j, m)"
    using assms by (metis in_set_conv_nth)
  have "sorted_wrt (\<lambda>(i, n) (j, m). i + n \<le> j) (task_id_matches 0 0 s)" using matches_ordered by blast
  then have "a < b \<Longrightarrow> i + n \<le> j" "b < a \<Longrightarrow> j + m \<le> i"
    using ab sorted_wrt_nth_less by fastforce+
  then show ?thesis using ab by (metis linorder_neqE_nat)
qed

lemma safeCut_Array_from:
  assumes "m < length s"
  shows "(i, n) \<in> set (task_id_matches 0 0 s) \<Longrightarrow>
      \<not> (i < safeCut Array_from s m \<and> safeCut Array_from s m < i + n)"
    and "safeCut Array_from s m \<le> m \<or> task_id_at s = Some (safeCut Array_from s m)"
    and "safeCut Array_from s m \<le> length s"
proof -
  let ?P = "\<lambda>(a, b). a < m \<and> m < b"
  have c: "(\<forall>(i, n) \<in> set (task_id_matches 0 0 s). \<not> (i < m \<and> m < i + n)) \<and> safeCut Array_from s m = m
     \<or> (\<exists>a k. (a, k) \<in> set (task_id_matches 0 0 s) \<and> a < m \<and> m < a + k
          \<and> safeCut Array_from s m = (if 0 < a then a else k))"
  proof (cases "find ?P (taskIdRanges Array_from s)")
    case None
    then have "safeCut Array_from s m = m" by (simp add: safeCut_def)
    moreover have "\<not> (i < m \<and> m < i + n)" if "(i, n) \<in> set (task_id_matches 0 0 s)" for i n
    proof -
      have "(i, i + n) \<in> set (taskIdRanges Array_from s)"
        using that by (force simp: ranges_Array_from)
      with None show ?thesis by (auto simp: find_None_iff)
    qed
    ultimately show ?thesis by auto
  next
    case (Some x)
    obtain a b where x: "x = (a, b)" by force
    have "(a, b) \<in> set (taskIdRanges Array_from s)" "a < m" "m < b"
      using Some x by (auto simp: find_Some_iff in_set_conv_nth)
    then obtain k where "(a, k) \<in> set (task_id_matches 0 0 s)" "b = a + k"
      by (auto simp: ranges_Array_from)
    moreover from this have "safeCut Array_from s m = (if 0 < a then a else k)"
      using Some x by (simp add: safeCut_def)
    ultimately show ?thesis using \<open>a < m\<close> \<open>m < b\<close> by blast
  qed
  then show "safeCut Array_from s m \<le> m \<or> task_id_at s = Some (safeCut Array_from s m)"
    using matches_in [of 0 _ s] by (auto split: if_splits)
  have "a + k \<le> length s" if "(a, k) \<in> set (task_id_matches 0 0 s)" for a k
    using matches_in [OF that] by simp
  with c assms show "safeCut Array_from s m \<le> length s" by fastforce
  show "(i, n) \<in> set (task_id_matches 0 0 s) \<Longrightarrow>
      \<not> (i < safeCut Array_from s m \<and> safeCut Array_from s m < i + n)"
    using c matches_disjoint [of i n s] by (fastforce split: if_splits)
qed


lemma task_id_at_take:
  assumes "task_id_at s = Some n"
  shows "task_id_at (take n s) = Some n"
proof -
  let ?w = "takeWhile task_char (drop 3 s)"
  have s: "take 3 s = [81, 72, 45]" and n: "n = 3 + length ?w" and w: "4 \<le> length ?w"
    using assms by (auto simp: task_id_at_def Let_def split: if_splits)
  have "drop 3 (take n s) = ?w" by (simp add: n drop_take takeWhile_eq_take [symmetric])
  moreover have "takeWhile task_char ?w = ?w" by (simp add: takeWhile_takeWhile)
  ultimately show ?thesis using s n w by (simp add: task_id_at_def Let_def min_def)
qed

definition whole_in :: "nat \<Rightarrow> nat \<Rightarrow> speech list \<Rightarrow> bool" where
  "whole_in i n fs \<longleftrightarrow> (\<exists>before f later. fs = before @ f # later
     \<and> length (concat before) \<le> i \<and> i + n \<le> length (concat before) + length f)"

lemma whole_in_Cons:
  assumes "whole_in i n fs"
  shows "whole_in (i + length f) n (f # fs)"
proof -
  obtain before g later where "fs = before @ g # later" "length (concat before) \<le> i"
    "i + n \<le> length (concat before) + length g" using assms by (auto simp: whole_in_def)
  then show ?thesis unfolding whole_in_def by (intro exI [of _ "f # before"] exI [of _ g] exI [of _ later]) auto
qed

lemma length_Array_from: "length (Array_from s) = length s"
  by (simp add: Array_from_def)

lemma concat_singletons: "concat (take k (Array_from s)) = take k s" "concat (drop k (Array_from s)) = drop k s"
  by (simp_all add: Array_from_def take_map drop_map concat_map_singleton)

lemma split_rest_whole:
  assumes "0 < m" "split_rest Array_from m s = Some fs"
  shows "(\<forall>f \<in> set fs. length f \<le> m \<or> task_id_at f = Some (length f))
    \<and> (\<forall>(i, n) \<in> set (task_id_matches 0 0 s). whole_in i n fs)"
  using assms(2)
proof (induction "length s" arbitrary: s fs rule: less_induct)
  case less
  show ?case
  proof (cases "length s > m")
    case False
    then have fs: "fs = (if s \<noteq> [] then [s] else [])"
      using less.prems by (subst (asm) split_rest.simps) (simp add: Array_from_def)
    have "whole_in i n fs" if "(i, n) \<in> set (task_id_matches 0 0 s)" for i n
      using matches_in [OF that] that unfolding whole_in_def fs
      by (intro exI [of _ "[]"] exI [of _ s] exI [of _ "[]"]) auto
    then show ?thesis using False fs by auto
  next
    case True
    define k where "k = safeCut Array_from s m"
    have k: "0 < k" unfolding k_def by (rule af.safeCut_pos [OF assms(1)])
    obtain gs where gs: "split_rest Array_from m (drop k s) = Some gs" "fs = take k s # gs"
    proof (rule that)
      have "Option.bind (split_rest Array_from m (drop k s)) (\<lambda>gs. Some (take k s # gs)) = Some fs"
        using less.prems True split_rest.simps [of Array_from m s] length_Array_from [of s]
        by (simp add: Let_def k_def concat_singletons)
      then show "split_rest Array_from m (drop k s) = Some (tl fs)" "fs = take k s # tl fs"
        by (auto simp: bind_eq_Some_conv)
    qed
    have kl: "k \<le> length s" using safeCut_Array_from(3) [OF True] by (simp add: k_def)
    have IH: "\<forall>f \<in> set gs. length f \<le> m \<or> task_id_at f = Some (length f)"
      "\<forall>(i, n) \<in> set (task_id_matches 0 0 (drop k s)). whole_in i n gs"
      using less.hyps [of "drop k s", OF _ gs(1)] k True by auto
    have "length (take k s) \<le> m \<or> task_id_at (take k s) = Some (length (take k s))"
      using safeCut_Array_from(2) [OF True] task_id_at_take [of s k] kl by (auto simp: k_def min_def)
    moreover have "whole_in i n fs" if m: "(i, n) \<in> set (task_id_matches 0 0 s)" for i n
    proof (cases "k \<le> i")
      case True
      have "(i, n) \<in> set (task_id_matches (0 + k) 0 (drop k s))"
        using safeCut_Array_from(1) [OF \<open>m < length s\<close>, folded k_def] kl m True
        by (intro matches_suffix [of 0]) auto
      then obtain j where "(j, n) \<in> set (task_id_matches 0 0 (drop k s))" "i = j + k"
        unfolding matches_shift by auto
      then show ?thesis using IH(2) whole_in_Cons [of j n gs "take k s"] gs(2) kl by auto
    next
      case False
      then have "i + n \<le> k" using safeCut_Array_from(1) [OF \<open>m < length s\<close> m, folded k_def] by simp
      then show ?thesis unfolding gs(2) whole_in_def using kl
        by (intro exI [of _ "[]"] exI [of _ "take k s"] exI [of _ gs]) (auto simp: min_def)
    qed
    ultimately show ?thesis using IH(1) gs(2) by auto
  qed
qed

text \<open>
  Short ids are kept whole. When texts are cut at code points, the loop on a sentence returns
  fragments of at most the limit, or that are exactly one short id; and every short id the
  pattern finds in the sentence lies inside a single fragment.
\<close>

theorem short_ids_stay_whole:
  assumes "0 < m"
  shows "\<exists>fs. split_rest Array_from m s = Some fs \<and> concat fs = s
    \<and> (\<forall>f \<in> set fs. length f \<le> m \<or> task_id_at f = Some (length f))
    \<and> (\<forall>(i, n) \<in> set (task_id_matches 0 0 s). \<exists>before f later. fs = before @ f # later
         \<and> length (concat before) \<le> i \<and> i + n \<le> length (concat before) + length f)"
proof -
  obtain fs where "split_rest Array_from m s = Some fs" "concat fs = s"
    using af.split_rest_returns [OF assms] by blast
  with split_rest_whole [OF assms] show ?thesis unfolding whole_in_def by blast
qed

theorem short_ids_stay_whole_witness:
  "\<exists>before f later. [[97, 32], [81, 72, 45, 49, 50, 51, 52], [46, 98 :: int]] = before @ f # later
     \<and> length (concat before) \<le> 2 \<and> 9 \<le> length (concat before) + length f"
proof -
  have s: "split_rest Array_from 4 [97, 32, 81, 72, 45, 49, 50, 51, 52, 46, 98]
      = Some [[97, 32], [81, 72, 45, 49, 50, 51, 52], [46, 98]]"
    and m: "task_id_matches 0 0 [97, 32, 81, 72, 45, 49, 50, 51, 52, 46, 98] = [(2, 7)]"
    by code_simp+
  from short_ids_stay_whole [of 4 "[97, 32, 81, 72, 45, 49, 50, 51, 52, 46, 98]"]
  show ?thesis unfolding s m by auto
qed

end
