(* ===== verification/Client_Schema.thy ===== *)
theory Client_Schema
  imports Client_Messages
begin

section \<open>The schema of client messages\<close>

text \<open>
  \<open>ConnectorClientMessageSchema\<close> of \<open>packages/protocol/src/connector.ts\<close> on decoded JSON, with
  \<open>SafeEventPayloadSchema\<close>, the scan of the free-form payload of \<open>job.event\<close>. The scan carries its
  counters through the visit of the tree as the code does. Its checks for accessors, prototypes,
  symbols and cycles never fire on decoded JSON and have no counterpart.

  \<open>safe_payload_exact\<close> shows that the incremental scan accepts exactly the payloads whose tree is
  safe and whose JSON text is at most 16384 bytes.
\<close>

subsection \<open>Restricted keys and texts\<close>

definition plural :: "string \<Rightarrow> pat" where
  "plural w = PSeq (PLit w) (POpt (PLit ''s''))"

definition normalizeEventKey :: "int list \<Rightarrow> int list" where
  "normalizeEventKey key =
     map fold_ascii
       (rx_replace (PPlus (PChar (\<lambda>c. \<not> alnum_or ''_'' c))) (\<lambda>m st. units ''_'')
         (rx_replace
           (PSeq (PGroup 1 (PChar (\<lambda>c. between 97 122 c \<or> is_dec c))) (PGroup 2 (PChar (between 65 90))))
           (\<lambda>m st. group_text 1 st @ units ''_'' @ group_text 2 st) key))"

definition UNSAFE_EVENT_KEY_PATTERN :: pat where
  "UNSAFE_EVENT_KEY_PATTERN =
     PSeqs [PAlt PStart (PLit ''_''), PAlts
       [PLit ''__proto__'', PLit ''constructor'', PLit ''prototype'', PLit ''to_json'',
        plural ''access_token'', plural ''api_key'',
        PSeq (PLit ''auth'') (POpt (PAlt (PLit ''entication'') (PLit ''orization''))),
        PLit ''bearer'', plural ''client_secret'', plural ''cookie'', plural ''credential'',
        PSeqs [PLit ''env'', POpt (PLit ''ironment''),
          POpt (PSeq (PLit ''_'') (PAlts [PLit ''value'', plural ''variable'', plural ''var'']))],
        PLit ''home'', plural ''password'', PLit ''passwd'', plural ''private_key'', plural ''secret'',
        PSeq (PLit ''session_'') (PAlt (plural ''id'') (plural ''token'')),
        PSeq (PLit ''source_'') (PAlts (map PLit [''code'', ''content'', ''text''])),
        PSeq (POpt (PLit ''raw_'')) (PAlts
          [plural ''argument'', PLit ''command'', PLit ''content'', PLit ''diff'', PLit ''log'',
           PLit ''logs'', PLit ''output'', PLit ''patch'', PLit ''snippet'',
           PSeq (PLit ''stack'') (POpt (PLit ''_trace'')), PLit ''stderr'', PLit ''stdout'',
           PLit ''terminal'', PLit ''trace'']),
        plural ''token''],
       PAlt PEnd (PLit ''_'')]"

definition isUnsafeEventKey :: "int list \<Rightarrow> bool" where
  "isUnsafeEventKey key = rx_test UNSAFE_EVENT_KEY_PATTERN (normalizeEventKey key)"

definition upper_or_digit :: "int \<Rightarrow> bool" where
  "upper_or_digit c = (between 65 90 c \<or> is_dec c)"

definition ENVIRONMENT_KEY_PATTERN :: pat where
  "ENVIRONMENT_KEY_PATTERN =
     PSeqs [PStart, PAlts
       (map PLit [''CI'', ''HOME'', ''NODE_ENV'', ''PATH'', ''PWD'', ''SHELL'', ''TEMP'', ''TMP'',
          ''TMPDIR'', ''USER'']
        @ [PSeq (PPlus (PSeqs [PChar (between 65 90), PStar (PChar upper_or_digit), PLit ''_'']))
             (PPlus (PChar upper_or_digit))]),
       PEnd]"

definition REDACTED_VALUE_PATTERN :: pat where
  "REDACTED_VALUE_PATTERN = PSeqs [PStart, PLitA ''[redacted]'', PEnd]"

definition pluralA :: "string \<Rightarrow> pat" where
  "pluralA w = PSeq (PLitA w) (POpt (PLitA ''s''))"

definition some_value :: pat where
  "some_value = PPlus (PSolid [])"

definition UNSAFE_EVENT_VALUE_PATTERNS :: "pat list" where
  "UNSAFE_EVENT_VALUE_PATTERNS =
     [PSeqs [PAlt PStart (PChar (\<lambda>c. is_space c \<or> c \<in> set (units (double_quote @ single_quote @ ''`?&'')))),
        PAlts
          [PSeqs [PLitA ''access'', opt_dash, pluralA ''token''],
           PSeqs [PLitA ''api'', opt_dash, pluralA ''key''], PLitA ''authorization'',
           PSeqs [PLitA ''client'', opt_dash, pluralA ''secret''], pluralA ''cookie'',
           pluralA ''credential'',
           PSeqs [PLitA ''env'', POpt (PLitA ''ironment''), POpt (PSeq opt_dash (PLitA ''value''))],
           pluralA ''password'', PLitA ''passwd'', pluralA ''secret'', pluralA ''token''],
        PSpaces, POneOf '':='', PSpaces, some_value],
      PSeqs [PB, PChar (between 65 90), PPlus (PChar (\<lambda>c. upper_or_digit c \<or> c = 95)), PSpaces,
        PLit ''='', PSpaces, some_value],
      PSeqs [PB, PAlts (map PLitA [''home'', ''node_env'', ''path'', ''pwd'', ''shell'', ''temp'',
          ''tmp'', ''tmpdir'', ''user'']), PSpaces, PLit ''='', PSpaces, some_value],
      PSeqs [PB, PAlt (PLitA ''bearer'') (PLitA ''basic''), PSpaces1,
        PMin 8 (PChar (alnum_or ''._~+/=-''))],
      PSeqs [PB, PAlts
          [PSeq (PLit ''AKIA'') (PTimes 16 (PChar upper_or_digit)),
           PSeqs [PLit ''gh'', POneOf ''pousr'', PLit ''_'', PMin 12 (PChar (alnum_or ''_''))],
           PSeq (PLit ''sk-'') (PMin 12 (PChar is_alnum)),
           PSeqs [PLit ''xox'', POneOf ''baprs'', PLit ''-'', PMin 12 (PChar (alnum_or ''-''))]],
        PB],
      PSeqs [PLitA ''-----BEGIN '', PStar (PChar (alpha_or '' '')), PLitA ''PRIVATE KEY-----''],
      PSeqs [PB, PLit ''eyJ'', PPlus (PChar (alnum_or ''_-'')), PLit ''.'',
        PPlus (PChar (alnum_or ''_-'')), PLit ''.'', PPlus (PChar (alnum_or ''_-'')), PB]]"

definition RAW_EVENT_VALUE_PATTERN :: pat where
  "RAW_EVENT_VALUE_PATTERN =
     PAlt (PChar (\<lambda>c. c = 13 \<or> c = 10))
       (PSeqs [PAlt PStart (PChar (\<lambda>c. c = 10)), PSpaces, PAlts
          [PSeq (POneOf ''$>#'') PSpaces1, PLitA ''stdout:'', PLitA ''stderr:'',
           PSeq (PLitA ''traceback'') PB, PSeq (PLitA ''stack trace'') PB]])"

definition ABSOLUTE_LOCAL_PATH_PATTERN :: pat where
  "ABSOLUTE_LOCAL_PATH_PATTERN =
     PSeq
       (PAlt PStart (PChar (\<lambda>c. is_space c \<or> c \<in> set (units (double_quote @ single_quote @ ''(='')))))
       (PAlts
         [PLit ''file://'', PLit ''~/'',
          PSeqs [PChar is_alpha, PLit '':'', PChar (\<lambda>c. c = 92 \<or> c = 47)],
          PSeq (PChar (\<lambda>c. c = 92)) (PChar (\<lambda>c. c = 92)),
          PSeqs [PLit ''/'', PPlus (PSolid ''/''), PStar (PSeq (PLit ''/'') (PStar (PSolid ''/'')))]])"

definition redacted_text :: "int list \<Rightarrow> bool" where
  "redacted_text s = rx_test REDACTED_VALUE_PATTERN s"

definition restricted_text :: "int list \<Rightarrow> bool" where
  "restricted_text s =
     (\<not> redacted_text s
      \<and> (list_ex (\<lambda>p. rx_test p s) UNSAFE_EVENT_VALUE_PATTERNS
         \<or> rx_test RAW_EVENT_VALUE_PATTERN s \<or> rx_test ABSOLUTE_LOCAL_PATH_PATTERN s))"

definition restricted_field :: "int list \<Rightarrow> uval \<Rightarrow> bool" where
  "restricted_field key v =
     ((isUnsafeEventKey key \<or> rx_test ENVIRONMENT_KEY_PATTERN key)
      \<and> \<not> (case v of UStr s \<Rightarrow> redacted_text s | _ \<Rightarrow> False))"

lemma restricted_examples:
  "isUnsafeEventKey (units ''apiKeys'')" "\<not> isUnsafeEventKey (units ''stage'')"
  "isUnsafeEventKey (units ''my-secret'')" "rx_test ENVIRONMENT_KEY_PATTERN (units ''A1_B'')"
  "\<not> rx_test ENVIRONMENT_KEY_PATTERN (units ''A_b'')"
  "restricted_text (units ''/etc'')" "restricted_text (units ''key TOKEN: x'')"
  "\<not> restricted_text (units ''a/b ok'')" "\<not> restricted_text (units ''[Redacted]'')"
  by code_simp+

subsection \<open>The scan of an event's payload\<close>

definition MAX_EVENT_PAYLOAD_DEPTH :: int where "MAX_EVENT_PAYLOAD_DEPTH = 6"
definition MAX_EVENT_PAYLOAD_KEYS :: nat where "MAX_EVENT_PAYLOAD_KEYS = 32"
definition MAX_EVENT_PAYLOAD_ITEMS :: nat where "MAX_EVENT_PAYLOAD_ITEMS = 32"
definition MAX_EVENT_STRING_BYTES :: int where "MAX_EVENT_STRING_BYTES = 500"
definition MAX_EVENT_PAYLOAD_BYTES :: int where "MAX_EVENT_PAYLOAD_BYTES = 16 * 1024"

definition jsonByteLength :: "uval \<Rightarrow> int" where
  "jsonByteLength v = utf8_bytes (json_stringify v)"

record scan =
  sc_estimatedBytes :: int
  sc_payloadTooLarge :: bool
  sc_issue :: bool

definition addIssue :: "scan \<Rightarrow> scan" where
  "addIssue st = st\<lparr>sc_issue := True\<rparr>"

definition addStructuralBytes :: "int \<Rightarrow> scan \<Rightarrow> scan" where
  "addStructuralBytes n st =
     (let b = sc_estimatedBytes st + n in
      st\<lparr>sc_estimatedBytes := b,
         sc_payloadTooLarge := sc_payloadTooLarge st \<or> b > MAX_EVENT_PAYLOAD_BYTES\<rparr>)"

definition addJsonBytes :: "uval \<Rightarrow> scan \<Rightarrow> scan" where
  "addJsonBytes v st = addStructuralBytes (jsonByteLength v) st"

definition visit_key :: "int list \<Rightarrow> bool \<Rightarrow> uval \<Rightarrow> scan \<Rightarrow> scan" where
  "visit_key key hasSeparator v st =
     (let st1 = (if hasSeparator then addStructuralBytes 1 st else st);
          st2 = addStructuralBytes 1 (addJsonBytes (UStr key) st1) in
      if restricted_field key v then addIssue st2 else st2)"

definition visit_string :: "int list \<Rightarrow> scan \<Rightarrow> scan" where
  "visit_string s st =
     (let st1 = (if utf8_bytes s > MAX_EVENT_STRING_BYTES then addIssue st else st);
          st2 = (if restricted_text s then addIssue st1 else st1) in
      addJsonBytes (UStr s) st2)"

definition changed_files_key :: "int list" where
  "changed_files_key = units ''changed_files''"

fun is_array :: "uval \<Rightarrow> bool" where
  "is_array (UArr vs) = True"
| "is_array v = False"

fun is_string :: "uval \<Rightarrow> bool" where
  "is_string (UStr s) = True"
| "is_string v = False"

definition item_limit :: "bool \<Rightarrow> nat" where
  "item_limit rootChangedFiles = (if rootChangedFiles then 50 else MAX_EVENT_PAYLOAD_ITEMS)"

text \<open>
  The path of a visited value has as many elements as its depth, so the root's \<open>changed_files\<close> is
  the value at depth 1 under that key.
\<close>

fun visit :: "int \<Rightarrow> int list option \<Rightarrow> bool \<Rightarrow> uval \<Rightarrow> scan \<Rightarrow> scan"
  and visit_items :: "int \<Rightarrow> bool \<Rightarrow> nat \<Rightarrow> uval list \<Rightarrow> scan \<Rightarrow> scan"
  and visit_members :: "int \<Rightarrow> nat \<Rightarrow> (int list \<times> uval) list \<Rightarrow> scan \<Rightarrow> scan" where
  "visit depth key hasSeparator v st =
     (if sc_payloadTooLarge st then st
      else if depth > MAX_EVENT_PAYLOAD_DEPTH then addIssue st
      else
        let st1 = (case key of None \<Rightarrow> st | Some k \<Rightarrow> visit_key k hasSeparator v st);
            rootChangedFiles = (depth = 1 \<and> key = Some changed_files_key) in
        if rootChangedFiles \<and> \<not> is_array v then addIssue st1
        else case v of
            UStr s \<Rightarrow> visit_string s st1
          | UHuge \<Rightarrow> addIssue st1
          | UArr vs \<Rightarrow>
              let st2 = addStructuralBytes 1 st1;
                  st3 = (if length vs > item_limit rootChangedFiles then addIssue st2 else st2) in
              addStructuralBytes 1 (visit_items depth rootChangedFiles 0 vs st3)
          | UObj fs \<Rightarrow>
              let st2 = (if list_ex (\<lambda>f. fst f = units ''toJSON'') fs then addIssue st1 else st1) in
              addStructuralBytes 1 (visit_members depth 0 fs (addStructuralBytes 1 st2))
          | UNull \<Rightarrow> addJsonBytes UNull st1
          | UBool b \<Rightarrow> addJsonBytes (UBool b) st1
          | UNum q \<Rightarrow> addJsonBytes (UNum q) st1)"
| "visit_items depth rootChangedFiles index [] st = st"
| "visit_items depth rootChangedFiles index (v # vs) st =
     (if index \<ge> item_limit rootChangedFiles then st
      else
        let st1 = (if index > 0 then addStructuralBytes 1 st else st);
            st2 = (if rootChangedFiles \<and> \<not> is_string v then addIssue st1 else st1) in
        visit_items depth rootChangedFiles (index + 1) vs (visit (depth + 1) None False v st2))"
| "visit_members depth fieldCount [] st = st"
| "visit_members depth fieldCount ((k, v) # fs) st =
     (if fieldCount \<ge> MAX_EVENT_PAYLOAD_KEYS then addIssue st
      else visit_members depth (fieldCount + 1) fs
             (visit (depth + 1) (Some k) (fieldCount > 0) v st))"

declare visit.simps [simp del]

definition SafeEventPayloadSchema :: "(int list \<times> uval) list \<Rightarrow> bool" where
  "SafeEventPayloadSchema payload =
     (let st = visit 0 None False (UObj payload)
        \<lparr>sc_estimatedBytes = 0, sc_payloadTooLarge = False, sc_issue = False\<rparr> in
      \<not> sc_issue st \<and> \<not> (sc_payloadTooLarge st \<or> sc_estimatedBytes st > MAX_EVENT_PAYLOAD_BYTES))"

subsection \<open>Bytes of concatenated texts\<close>

lemma code_points_ascii_start: "c < 128 \<Longrightarrow> code_points (s @ c # t) = code_points s @ code_points (c # t)"
proof (induction s rule: code_points.induct)
  case (3 a b s)
  then show ?case by (cases s) (auto simp: is_low_def)
qed (auto simp: is_low_def)

lemma utf8_bytes_append: "t = [] \<or> hd t < 128 \<Longrightarrow> utf8_bytes (s @ t) = utf8_bytes s + utf8_bytes t"
  by (cases t) (auto simp: utf8_bytes_def code_points_ascii_start)

lemma utf8_bytes_Cons: "c < 128 \<Longrightarrow> utf8_bytes (c # t) = 1 + utf8_bytes t"
  by (cases t) (auto simp: utf8_bytes_def utf8_size_def is_high_def)

lemma utf8_bytes_nonneg: "0 \<le> utf8_bytes s"
  by (auto simp: utf8_bytes_def utf8_size_def intro!: sum_list_nonneg split: list.splits)

lemma utf8_bytes_Nil [simp]: "utf8_bytes [] = 0"
  by (simp add: utf8_bytes_def)

lemma bytes_comma_join:
  "utf8_bytes (comma_join xs) = sum_list (map utf8_bytes xs) + int (length xs - 1)"
  by (induction xs rule: comma_join.induct) (simp_all add: utf8_bytes_append utf8_bytes_Cons)

definition member_bytes :: "int list \<Rightarrow> uval \<Rightarrow> int" where
  "member_bytes k v = jsonByteLength (UStr k) + 1 + jsonByteLength v"

lemma member_text_bytes: "utf8_bytes (json_quote k @ [58] @ json_stringify v) = member_bytes k v"
  by (simp add: member_bytes_def jsonByteLength_def utf8_bytes_append utf8_bytes_Cons)

lemma array_bytes:
  "jsonByteLength (UArr vs) = 2 + sum_list (map jsonByteLength vs) + int (length vs - 1)"
  by (simp add: jsonByteLength_def [abs_def] utf8_bytes_append utf8_bytes_Cons bytes_comma_join comp_def)

lemma object_bytes:
  "jsonByteLength (UObj fs) = 2 + sum_list (map (\<lambda>(k, v). member_bytes k v) fs) + int (length fs - 1)"
proof -
  have "utf8_bytes \<circ> (\<lambda>(k, v). json_quote k @ [58] @ json_stringify v) = (\<lambda>(k, v). member_bytes k v)"
    by (auto simp: fun_eq_iff member_text_bytes [simplified])
  then show ?thesis
    by (simp add: jsonByteLength_def utf8_bytes_append utf8_bytes_Cons bytes_comma_join)
qed

lemma jsonByteLength_nonneg: "0 \<le> jsonByteLength v"
  by (simp add: jsonByteLength_def utf8_bytes_nonneg)

lemma member_bytes_nonneg: "0 \<le> member_bytes k v"
  using jsonByteLength_nonneg [of v] jsonByteLength_nonneg [of "UStr k"] by (simp add: member_bytes_def)

subsection \<open>Safe payloads\<close>

text \<open>What the scan looks for, without its counters.\<close>

fun safe_value :: "int \<Rightarrow> bool \<Rightarrow> uval \<Rightarrow> bool" where
  "safe_value depth files (UStr s) \<longleftrightarrow>
     depth \<le> MAX_EVENT_PAYLOAD_DEPTH \<and> \<not> files \<and> utf8_bytes s \<le> MAX_EVENT_STRING_BYTES
     \<and> \<not> restricted_text s"
| "safe_value depth files UHuge \<longleftrightarrow> False"
| "safe_value depth files (UArr vs) \<longleftrightarrow>
     depth \<le> MAX_EVENT_PAYLOAD_DEPTH \<and> length vs \<le> item_limit files
     \<and> list_all (\<lambda>v. (files \<longrightarrow> is_string v) \<and> safe_value (depth + 1) False v) vs"
| "safe_value depth files (UObj fs) \<longleftrightarrow>
     depth \<le> MAX_EVENT_PAYLOAD_DEPTH \<and> \<not> files \<and> length fs \<le> MAX_EVENT_PAYLOAD_KEYS
     \<and> list_all (\<lambda>(k, v). k \<noteq> units ''toJSON'' \<and> \<not> restricted_field k v
          \<and> safe_value (depth + 1) (depth = 0 \<and> k = changed_files_key) v) fs"
| "safe_value depth files v \<longleftrightarrow> depth \<le> MAX_EVENT_PAYLOAD_DEPTH \<and> \<not> files"

text \<open>A scan without an issue so far, and the scan \<open>st'\<close> that goes on from \<open>st\<close>.\<close>

definition counted :: "scan \<Rightarrow> bool" where
  "counted st \<longleftrightarrow> sc_payloadTooLarge st = (sc_estimatedBytes st > MAX_EVENT_PAYLOAD_BYTES)"

definition fine :: "scan \<Rightarrow> bool" where
  "fine st \<longleftrightarrow> \<not> sc_issue st \<and> \<not> sc_payloadTooLarge st"

definition goes_on :: "bool \<Rightarrow> int \<Rightarrow> scan \<Rightarrow> scan \<Rightarrow> bool" where
  "goes_on ok n st st' \<longleftrightarrow>
     counted st' \<and> sc_estimatedBytes st \<le> sc_estimatedBytes st'
     \<and> (fine st' \<longleftrightarrow> fine st \<and> ok \<and> sc_estimatedBytes st + n \<le> MAX_EVENT_PAYLOAD_BYTES)
     \<and> (fine st' \<longrightarrow> sc_estimatedBytes st' = sc_estimatedBytes st + n)"

lemma goes_on_trans:
  assumes "goes_on a m st st'" "goes_on b n st' st''" "0 \<le> n"
  shows "goes_on (a \<and> b) (m + n) st st''"
  using assms unfolding goes_on_def by auto

lemma goes_on_refl: "counted st \<Longrightarrow> goes_on True 0 st st"
  by (auto simp: goes_on_def counted_def fine_def)

lemma goes_on_bytes: "counted st \<Longrightarrow> 0 \<le> n \<Longrightarrow> goes_on True n st (addStructuralBytes n st)"
  by (auto simp: goes_on_def counted_def fine_def addStructuralBytes_def Let_def)

lemma goes_on_issue: "counted st \<Longrightarrow> goes_on (\<not> b) 0 st (if b then addIssue st else st)"
  by (auto simp: goes_on_def counted_def fine_def addIssue_def)

lemma goes_on_counted: "goes_on ok n st st' \<Longrightarrow> counted st'"
  by (simp add: goes_on_def)

text \<open>Only the cost of what is accepted matters.\<close>

lemma goes_on_cong:
  assumes "goes_on ok n st st'" "ok = ok'" "ok' \<Longrightarrow> n = n'"
  shows "goes_on ok' n' st st'"
  using assms unfolding goes_on_def by auto

lemma goes_on_then:
  assumes "goes_on a m st st'" "counted st' \<Longrightarrow> goes_on b n st' st''" "0 \<le> n"
    and "(a \<and> b) = ok" "ok \<Longrightarrow> m + n = c"
  shows "goes_on ok c st st''"
  by (rule goes_on_cong [OF goes_on_trans [OF assms(1) assms(2) [OF goes_on_counted [OF assms(1)]] assms(3)]])
    (use assms(4,5) in auto)

lemma visit_key_goes_on:
  assumes "counted st"
  shows "goes_on (\<not> restricted_field k v) ((if sep then 1 else 0) + jsonByteLength (UStr k) + 1) st
           (visit_key k sep v st)"
proof -
  define st1 where "st1 = (if sep then addStructuralBytes 1 st else st)"
  define st2 where "st2 = addStructuralBytes (jsonByteLength (UStr k)) st1"
  define st3 where "st3 = addStructuralBytes 1 st2"
  have 1: "goes_on True (if sep then 1 else 0) st st1"
    using assms goes_on_bytes [of st 1] goes_on_refl [of st] by (auto simp: st1_def)
  have 2: "goes_on True (jsonByteLength (UStr k)) st1 st2"
    unfolding st2_def by (rule goes_on_bytes [OF goes_on_counted [OF 1] jsonByteLength_nonneg])
  have 3: "goes_on True 1 st2 st3"
    unfolding st3_def by (rule goes_on_bytes [OF goes_on_counted [OF 2]]) simp
  have "visit_key k sep v st = (if restricted_field k v then addIssue st3 else st3)"
    by (simp only: visit_key_def addJsonBytes_def st1_def st2_def st3_def Let_def)
  then have 4: "goes_on (\<not> restricted_field k v) 0 st3 (visit_key k sep v st)"
    using goes_on_issue [OF goes_on_counted [OF 3]] by (simp only:)
  show ?thesis
    using goes_on_trans [OF goes_on_trans [OF goes_on_trans [OF 1 2 jsonByteLength_nonneg] 3] 4] by simp
qed

lemma visit_string_goes_on:
  assumes "counted st"
  shows "goes_on (utf8_bytes s \<le> MAX_EVENT_STRING_BYTES \<and> \<not> restricted_text s) (jsonByteLength (UStr s)) st
           (visit_string s st)"
proof -
  define st1 where "st1 = (if utf8_bytes s > MAX_EVENT_STRING_BYTES then addIssue st else st)"
  define st2 where "st2 = (if restricted_text s then addIssue st1 else st1)"
  have 1: "goes_on (utf8_bytes s \<le> MAX_EVENT_STRING_BYTES) 0 st st1"
    using goes_on_issue [OF assms, of "utf8_bytes s > MAX_EVENT_STRING_BYTES"] by (simp add: st1_def not_less)
  have 2: "goes_on (\<not> restricted_text s) 0 st1 st2"
    unfolding st2_def by (rule goes_on_issue [OF goes_on_counted [OF 1]])
  have "visit_string s st = addStructuralBytes (jsonByteLength (UStr s)) st2"
    by (simp only: visit_string_def addJsonBytes_def st1_def st2_def Let_def)
  then have 3: "goes_on True (jsonByteLength (UStr s)) st2 (visit_string s st)"
    using goes_on_bytes [OF goes_on_counted [OF 2] jsonByteLength_nonneg] by (simp only:)
  show ?thesis
    using goes_on_trans [OF goes_on_trans [OF 1 2] 3 jsonByteLength_nonneg] by simp
qed

text \<open>The cost of a member, with the comma before it, and of the rest of a list.\<close>

definition key_bytes :: "int list option \<Rightarrow> bool \<Rightarrow> int" where
  "key_bytes key sep =
     (case key of None \<Rightarrow> 0 | Some k \<Rightarrow> (if sep then 1 else 0) + jsonByteLength (UStr k) + 1)"

definition key_safe :: "int list option \<Rightarrow> uval \<Rightarrow> bool" where
  "key_safe key v = (case key of None \<Rightarrow> True | Some k \<Rightarrow> \<not> restricted_field k v)"

definition is_files :: "int \<Rightarrow> int list option \<Rightarrow> bool" where
  "is_files depth key = (depth = 1 \<and> key = Some changed_files_key)"

lemma stuck:
  assumes "counted st" "counted st'" "sc_estimatedBytes st \<le> sc_estimatedBytes st'" "\<not> fine st'"
    and "\<not> (fine st \<and> ok \<and> sc_estimatedBytes st + n \<le> MAX_EVENT_PAYLOAD_BYTES)"
  shows "goes_on ok n st st'"
  using assms by (auto simp: goes_on_def)

lemma items_bytes_nonneg: "0 \<le> sum_list (map jsonByteLength vs)"
  by (auto intro!: sum_list_nonneg simp: jsonByteLength_nonneg)

lemma members_bytes_nonneg: "0 \<le> sum_list (map (\<lambda>(k, v). member_bytes k v) fs)"
  by (auto intro!: sum_list_nonneg simp: member_bytes_nonneg)

lemma safe_value_depth: "safe_value depth files v \<Longrightarrow> depth \<le> MAX_EVENT_PAYLOAD_DEPTH"
  by (cases v) auto

lemma safe_value_files: "safe_value depth True v \<Longrightarrow> is_array v"
  by (cases v) auto

lemma goes_on_never: "counted st \<Longrightarrow> goes_on False n st (addIssue st)"
  by (simp add: goes_on_def counted_def fine_def addIssue_def)

lemma array_goes_on:
  assumes "counted st" "depth \<le> MAX_EVENT_PAYLOAD_DEPTH"
    and st2: "st2 = (if length vs > item_limit files then addIssue (addStructuralBytes 1 st)
      else addStructuralBytes 1 st)"
    and items: "counted st2 \<Longrightarrow>
      goes_on (list_all (\<lambda>v. (files \<longrightarrow> is_string v) \<and> safe_value (depth + 1) False v) (take (item_limit files) vs))
        (sum_list (map jsonByteLength (take (item_limit files) vs)) + int (length (take (item_limit files) vs) - 1))
        st2 st3"
  shows "goes_on (safe_value depth files (UArr vs)) (jsonByteLength (UArr vs)) st (addStructuralBytes 1 st3)"
proof -
  have 1: "goes_on True 1 st (addStructuralBytes 1 st)" by (rule goes_on_bytes) (simp_all add: assms(1))
  have 2: "goes_on (length vs \<le> item_limit files) 0 (addStructuralBytes 1 st) st2"
    using goes_on_issue [OF goes_on_counted [OF 1], of "length vs > item_limit files"] st2 by (simp add: not_less)
  note 3 = items [OF goes_on_counted [OF 2]]
  have 4: "goes_on True 1 st3 (addStructuralBytes 1 st3)"
    by (rule goes_on_bytes) (simp_all add: goes_on_counted [OF 3])
  have "0 \<le> sum_list (map jsonByteLength (take (item_limit files) vs)) + int (length (take (item_limit files) vs) - 1)"
    using items_bytes_nonneg [of "take (item_limit files) vs"] by linarith
  from goes_on_trans [OF goes_on_trans [OF goes_on_trans [OF 1 2] 3 this] 4]
  show ?thesis
    using assms(2) by (auto simp: array_bytes elim!: goes_on_cong)
qed

lemma object_goes_on:
  assumes "counted st" "depth \<le> MAX_EVENT_PAYLOAD_DEPTH"
    and st2: "st2 = (if list_ex (\<lambda>f. fst f = units ''toJSON'') fs then addIssue st else st)"
    and members: "counted (addStructuralBytes 1 st2) \<Longrightarrow>
      goes_on (length fs \<le> MAX_EVENT_PAYLOAD_KEYS
         \<and> list_all (\<lambda>(k, v). \<not> restricted_field k v
             \<and> safe_value (depth + 1) (depth = 0 \<and> k = changed_files_key) v) fs)
       (sum_list (map (\<lambda>(k, v). member_bytes k v) fs) + int (length fs - 1))
       (addStructuralBytes 1 st2) st3"
  shows "goes_on (safe_value depth False (UObj fs)) (jsonByteLength (UObj fs)) st (addStructuralBytes 1 st3)"
proof -
  have 1: "goes_on (\<not> list_ex (\<lambda>f. fst f = units ''toJSON'') fs) 0 st st2"
    unfolding st2 by (rule goes_on_issue [OF assms(1)])
  have 2: "goes_on True 1 st2 (addStructuralBytes 1 st2)"
    by (rule goes_on_bytes) (simp_all add: goes_on_counted [OF 1])
  note 3 = members [OF goes_on_counted [OF 2]]
  have 4: "goes_on True 1 st3 (addStructuralBytes 1 st3)"
    by (rule goes_on_bytes) (simp_all add: goes_on_counted [OF 3])
  have "0 \<le> sum_list (map (\<lambda>(k, v). member_bytes k v) fs) + int (length fs - 1)"
    using members_bytes_nonneg [of fs] by linarith
  from goes_on_trans [OF goes_on_trans [OF goes_on_trans [OF 1 2] 3 this] 4]
  show ?thesis
    using assms(2) by (auto simp: object_bytes list_all_iff list_ex_iff elim!: goes_on_cong)
qed

text \<open>What the three visits promise, from the state they start in.\<close>

abbreviation item_safe :: "int \<Rightarrow> bool \<Rightarrow> uval \<Rightarrow> bool" where
  "item_safe depth files \<equiv> \<lambda>v. (files \<longrightarrow> is_string v) \<and> safe_value (depth + 1) False v"

abbreviation member_safe :: "int \<Rightarrow> int list \<times> uval \<Rightarrow> bool" where
  "member_safe depth \<equiv> \<lambda>(k, v). \<not> restricted_field k v
     \<and> safe_value (depth + 1) (depth = 0 \<and> k = changed_files_key) v"

definition visit_exact :: "int \<Rightarrow> int list option \<Rightarrow> bool \<Rightarrow> uval \<Rightarrow> scan \<Rightarrow> bool" where
  "visit_exact depth key sep v st \<longleftrightarrow>
     (counted st \<longrightarrow> goes_on (key_safe key v \<and> safe_value depth (is_files depth key) v)
       (key_bytes key sep + jsonByteLength v) st (visit depth key sep v st))"

definition items_exact :: "int \<Rightarrow> bool \<Rightarrow> nat \<Rightarrow> uval list \<Rightarrow> scan \<Rightarrow> bool" where
  "items_exact depth files index vs st \<longleftrightarrow>
     (let ws = take (item_limit files - index) vs in
      counted st \<longrightarrow> goes_on (list_all (item_safe depth files) ws)
        (sum_list (map jsonByteLength ws) + int (length ws - (if index = 0 then 1 else 0)))
        st (visit_items depth files index vs st))"

definition members_exact :: "int \<Rightarrow> nat \<Rightarrow> (int list \<times> uval) list \<Rightarrow> scan \<Rightarrow> bool" where
  "members_exact depth index fs st \<longleftrightarrow>
     (counted st \<longrightarrow> goes_on
        (length fs \<le> MAX_EVENT_PAYLOAD_KEYS - index \<and> list_all (member_safe depth) fs)
        (sum_list (map (\<lambda>(k, v). member_bytes k v) fs) + int (length fs - (if index = 0 then 1 else 0)))
        st (visit_members depth index fs st))"

lemma items_step:
  assumes c: "counted st" and i: "\<not> index \<ge> item_limit files"
    and st1: "st1 = (if index > 0 then addStructuralBytes 1 st else st)"
    and st2: "st2 = (if files \<and> \<not> is_string v then addIssue st1 else st1)"
    and v: "visit_exact (depth + 1) None False v st2"
    and vs: "items_exact depth files (index + 1) vs (visit (depth + 1) None False v st2)"
  shows "items_exact depth files index (v # vs) st"
proof -
  let ?vs = "take (item_limit files - Suc index) vs"
  define st3 where "st3 = visit (depth + 1) None False v st2"
  have 1: "goes_on True (if index > 0 then 1 else 0) st st1"
    using c goes_on_bytes [of st 1] goes_on_refl [of st] by (auto simp: st1)
  have 2: "goes_on (files \<longrightarrow> is_string v) 0 st1 st2"
    using goes_on_issue [OF goes_on_counted [OF 1], of "files \<and> \<not> is_string v"] by (simp add: st2)
  have 3: "goes_on (safe_value (depth + 1) False v) (jsonByteLength v) st2 st3"
    using v goes_on_counted [OF 2] by (simp add: visit_exact_def st3_def key_safe_def key_bytes_def is_files_def)
  have 4: "goes_on (list_all (item_safe depth files) ?vs) (sum_list (map jsonByteLength ?vs) + int (length ?vs))
      st3 (visit_items depth files (index + 1) vs st3)"
    using vs goes_on_counted [OF 3] by (simp add: items_exact_def Let_def st3_def)
  have "0 \<le> sum_list (map jsonByteLength ?vs) + int (length ?vs)"
    using items_bytes_nonneg [of ?vs] by simp
  note all = goes_on_trans [OF goes_on_trans [OF goes_on_trans [OF 1 2] 3 jsonByteLength_nonneg] 4 this]
  have t: "take (item_limit files - index) (v # vs) = v # ?vs" using i by (simp add: take_Cons')
  have r: "visit_items depth files index (v # vs) st = visit_items depth files (index + 1) vs st3"
    using i by (simp only: visit_items.simps Let_def st1 st2 st3_def if_False)
  show ?thesis
    unfolding items_exact_def Let_def t r by (intro impI goes_on_cong [OF all]) auto
qed

lemma members_step:
  assumes c: "counted st" and i: "\<not> index \<ge> MAX_EVENT_PAYLOAD_KEYS"
    and v: "visit_exact (depth + 1) (Some k) (index > 0) v st"
    and fs: "members_exact depth (index + 1) fs (visit (depth + 1) (Some k) (index > 0) v st)"
  shows "members_exact depth index ((k, v) # fs) st"
proof -
  define st1 where "st1 = visit (depth + 1) (Some k) (index > 0) v st"
  have 1: "goes_on (member_safe depth (k, v)) ((if index > 0 then 1 else 0) + member_bytes k v) st st1"
    using v c by (simp add: visit_exact_def st1_def key_safe_def key_bytes_def is_files_def member_bytes_def
        algebra_simps)
  have 2: "goes_on (length fs \<le> MAX_EVENT_PAYLOAD_KEYS - (index + 1) \<and> list_all (member_safe depth) fs)
      (sum_list (map (\<lambda>(k, v). member_bytes k v) fs) + int (length fs)) st1
      (visit_members depth (index + 1) fs st1)"
    using fs goes_on_counted [OF 1] by (simp add: members_exact_def st1_def)
  have "0 \<le> sum_list (map (\<lambda>(k, v). member_bytes k v) fs) + int (length fs)"
    using members_bytes_nonneg [of fs] by simp
  note all = goes_on_trans [OF 1 2 this]
  have r: "visit_members depth index ((k, v) # fs) st = visit_members depth (index + 1) fs st1"
    using i by (simp only: visit_members.simps st1_def if_False)
  show ?thesis
    unfolding members_exact_def r by (intro impI goes_on_cong [OF all]) (use i in auto)
qed

text \<open>A value once its key is checked, as long as the scan goes on.\<close>

definition visit_content :: "int \<Rightarrow> bool \<Rightarrow> uval \<Rightarrow> scan \<Rightarrow> scan" where
  "visit_content depth files v st1 =
     (if files \<and> \<not> is_array v then addIssue st1
      else case v of
          UStr s \<Rightarrow> visit_string s st1
        | UHuge \<Rightarrow> addIssue st1
        | UArr vs \<Rightarrow>
            let st2 = addStructuralBytes 1 st1;
                st3 = (if length vs > item_limit files then addIssue st2 else st2) in
            addStructuralBytes 1 (visit_items depth files 0 vs st3)
        | UObj fs \<Rightarrow>
            let st2 = (if list_ex (\<lambda>f. fst f = units ''toJSON'') fs then addIssue st1 else st1) in
            addStructuralBytes 1 (visit_members depth 0 fs (addStructuralBytes 1 st2))
        | UNull \<Rightarrow> addJsonBytes UNull st1
        | UBool b \<Rightarrow> addJsonBytes (UBool b) st1
        | UNum q \<Rightarrow> addJsonBytes (UNum q) st1)"

lemma visit_content_exact:
  assumes c: "counted st1" and d: "depth \<le> MAX_EVENT_PAYLOAD_DEPTH"
    and items: "\<And>vs st2 st3. v = UArr vs \<Longrightarrow> st2 = addStructuralBytes 1 st1 \<Longrightarrow>
        st3 = (if length vs > item_limit files then addIssue st2 else st2) \<Longrightarrow>
        items_exact depth files 0 vs st3"
    and members: "\<And>fs st2. \<not> files \<Longrightarrow> v = UObj fs \<Longrightarrow>
        st2 = (if list_ex (\<lambda>f. fst f = units ''toJSON'') fs then addIssue st1 else st1) \<Longrightarrow>
        members_exact depth 0 fs (addStructuralBytes 1 st2)"
  shows "goes_on (safe_value depth files v) (jsonByteLength v) st1 (visit_content depth files v st1)"
proof (cases "files \<and> \<not> is_array v")
  case True
  then show ?thesis
    using safe_value_files [of depth v] c by (auto simp: visit_content_def intro!: goes_on_cong [OF goes_on_never])
next
  case other: False
  show ?thesis
  proof (cases v)
    case (UArr vs)
    note IH = items [OF UArr refl refl]
    have r: "visit_content depth files v st1 = addStructuralBytes 1 (visit_items depth files 0 vs
        (if length vs > item_limit files then addIssue (addStructuralBytes 1 st1) else addStructuralBytes 1 st1))"
      using other by (simp only: visit_content_def UArr Let_def uval.case if_False)
    show ?thesis
      unfolding r unfolding UArr by (rule array_goes_on [OF c d refl]) (use IH in \<open>simp add: items_exact_def Let_def split del: if_split\<close>)
  next
    case (UObj fs)
    have n: "\<not> files" using other UObj by simp
    note IH = members [OF n UObj refl]
    have r: "visit_content depth files v st1 = addStructuralBytes 1 (visit_members depth 0 fs
        (addStructuralBytes 1 (if list_ex (\<lambda>f. fst f = units ''toJSON'') fs then addIssue st1 else st1)))"
      using other by (simp only: visit_content_def UObj Let_def uval.case if_False)
    show ?thesis
      unfolding r unfolding UObj using n
      by (simp only: if_False, intro object_goes_on [OF c d refl]) (use IH in \<open>simp add: members_exact_def split del: if_split\<close>)
  qed (use other d c in \<open>auto simp: visit_content_def addJsonBytes_def visit_string_goes_on goes_on_never
       jsonByteLength_nonneg intro!: goes_on_bytes goes_on_cong [OF visit_string_goes_on]\<close>)
qed

lemma visit_step:
  assumes c: "counted st"
    and content: "\<And>st1. \<not> sc_payloadTooLarge st \<Longrightarrow> depth \<le> MAX_EVENT_PAYLOAD_DEPTH \<Longrightarrow> counted st1 \<Longrightarrow>
      st1 = (case key of None \<Rightarrow> st | Some k \<Rightarrow> visit_key k sep v st) \<Longrightarrow>
      goes_on (safe_value depth (is_files depth key) v) (jsonByteLength v) st1
        (visit_content depth (is_files depth key) v st1)"
  shows "visit_exact depth key sep v st"
proof (cases "sc_payloadTooLarge st \<or> depth > MAX_EVENT_PAYLOAD_DEPTH")
  case True
  then show ?thesis
    using c safe_value_depth [of depth _ v]
    by (auto simp: visit_exact_def visit.simps [of depth key sep v st] fine_def intro!: stuck
        goes_on_cong [OF goes_on_never])
next
  case False
  define st1 where "st1 = (case key of None \<Rightarrow> st | Some k \<Rightarrow> visit_key k sep v st)"
  have key: "goes_on (key_safe key v) (key_bytes key sep) st st1"
    using c visit_key_goes_on [OF c] by (cases key) (simp_all add: st1_def key_safe_def key_bytes_def goes_on_refl)
  have r: "visit depth key sep v st = visit_content depth (is_files depth key) v st1"
    using False unfolding visit.simps [of depth key sep v st] visit_content_def is_files_def
      st1_def [symmetric] Let_def by simp
  have "goes_on (safe_value depth (is_files depth key) v) (jsonByteLength v) st1
      (visit_content depth (is_files depth key) v st1)"
    using content [OF _ _ goes_on_counted [OF key] st1_def] False by simp
  from goes_on_trans [OF key this jsonByteLength_nonneg] show ?thesis
    by (simp add: visit_exact_def r)
qed

lemma scan_exact:
  "visit_exact depth key sep v st"
  "items_exact depth files index vs st"
  "members_exact depth index fs st"
proof (induction depth key sep v st and depth files index vs st and depth index fs st
    rule: visit_visit_items_visit_members.induct)
  case (1 depth key sep v st)
  show ?case
  proof (cases "counted st")
    case True
    then show ?thesis
    proof (rule visit_step)
      fix st1
      assume *: "\<not> sc_payloadTooLarge st" "depth \<le> MAX_EVENT_PAYLOAD_DEPTH" "counted st1"
        and st1: "st1 = (case key of None \<Rightarrow> st | Some k \<Rightarrow> visit_key k sep v st)"
      have d: "\<not> MAX_EVENT_PAYLOAD_DEPTH < depth" using * by simp
      show "goes_on (safe_value depth (is_files depth key) v) (jsonByteLength v) st1
          (visit_content depth (is_files depth key) v st1)"
        by (rule visit_content_exact [OF *(3,2)])
          (use 1(1) [OF *(1) d st1 is_files_def] 1(2) [OF *(1) d st1 is_files_def] in \<open>simp_all split del: if_split\<close>)
    qed
  qed (simp add: visit_exact_def)
next
  case (3 depth files index v vs st)
  show ?case
  proof (cases "counted st \<and> \<not> index \<ge> item_limit files")
    case True
    then show ?thesis using 3 by (intro items_step [OF _ _ refl refl]) auto
  qed (auto simp: items_exact_def goes_on_refl)
next
  case (5 depth index k v fs st)
  show ?case
  proof (cases "counted st \<and> \<not> index \<ge> MAX_EVENT_PAYLOAD_KEYS")
    case True
    then show ?thesis using 5 by (intro members_step) auto
  qed (auto simp: members_exact_def goes_on_never)
qed (simp_all add: items_exact_def members_exact_def goes_on_refl)

text \<open>
  C17. The scan of an event's payload, which counts bytes and looks for issues in one pass and stops
  early, accepts exactly the payloads whose tree is safe (at most seven levels, 32 fields and items, no
  restricted field or text, \<open>changed_files\<close> at the top an array of at most 50 texts) and whose JSON
  text has at most 16384 bytes in UTF-8.
\<close>

theorem event_payload_scan_is_exact:
  "SafeEventPayloadSchema payload \<longleftrightarrow>
     safe_value 0 False (UObj payload) \<and> jsonByteLength (UObj payload) \<le> 16384"
proof -
  define st where "st = \<lparr>sc_estimatedBytes = 0, sc_payloadTooLarge = False, sc_issue = False\<rparr>"
  have c: "counted st" by (simp add: st_def counted_def MAX_EVENT_PAYLOAD_BYTES_def)
  have "goes_on (safe_value 0 False (UObj payload)) (jsonByteLength (UObj payload)) st
      (visit 0 None False (UObj payload) st)"
    using scan_exact(1) [of 0 None False "UObj payload" st] c
    by (simp only: visit_exact_def key_safe_def key_bytes_def is_files_def option.case) simp
  then show ?thesis
    by (auto simp: SafeEventPayloadSchema_def st_def [symmetric] goes_on_def counted_def fine_def Let_def
        MAX_EVENT_PAYLOAD_BYTES_def) (simp_all add: st_def)
qed

subsection \<open>Payloads and the envelope on decoded JSON\<close>

text \<open>
  A decoded value as the schemas read it. No schema accepts a boolean, and none accepts a number
  beyond the doubles, which decodes to \<open>Infinity\<close>.
\<close>

fun wire_value :: "uval \<Rightarrow> jsval" where
  "wire_value UNull = JNull"
| "wire_value (UBool b) = JBool b"
| "wire_value (UNum q) = JNum q"
| "wire_value UHuge = JBool False"
| "wire_value (UStr s) = JStr (text_of s)"
| "wire_value (UArr vs) = JArr (map wire_value vs)"
| "wire_value (UObj fs) = JObj (map (\<lambda>(k, v). (text_of k, wire_value v)) fs)"

definition ConnectorHelloPayloadSchema ::
  "(string \<Rightarrow> bool) \<Rightarrow> jsval \<Rightarrow> ConnectorHelloPayload option" where
  "ConnectorHelloPayloadSchema is_uuid v =
     Option.bind (strict_object
       [''connector_id'', ''connector_version'', ''capabilities'', ''last_server_sequence'',
        ''last_client_sequence''] v) (\<lambda>fs.
     Option.bind (UuidSchema is_uuid (get_prop fs ''connector_id'')) (\<lambda>connector_id.
     Option.bind (optional_field (TextSchema 32) (get_prop fs ''connector_version'')) (\<lambda>version.
     Option.bind (optional_field capabilities_field (get_prop fs ''capabilities'')) (\<lambda>capabilities.
     Option.bind (NonNegativeIntegerSchema (get_prop fs ''last_server_sequence'')) (\<lambda>server.
     Option.bind (optional_field NonNegativeIntegerSchema (get_prop fs ''last_client_sequence'')) (\<lambda>client.
     Some \<lparr>he_connector_id = connector_id, he_connector_version = version,
       he_capabilities = capabilities, he_last_server_sequence = server,
       he_last_client_sequence = client\<rparr>))))))"

definition ConnectorHeartbeatPayloadSchema :: "jsval \<Rightarrow> unit option" where
  "ConnectorHeartbeatPayloadSchema v = map_option (\<lambda>fs. ()) (strict_object [] v)"

definition JobClaimPayloadSchema :: "(string \<Rightarrow> bool) \<Rightarrow> jsval \<Rightarrow> JobClaimPayload option" where
  "JobClaimPayloadSchema is_uuid v =
     Option.bind (strict_object [''job_id'', ''attempt'', ''lease_id''] v) (\<lambda>fs.
     Option.bind (UuidSchema is_uuid (get_prop fs ''job_id'')) (\<lambda>job_id.
     Option.bind (PositiveIntegerSchema (get_prop fs ''attempt'')) (\<lambda>attempt.
     Option.bind (UuidSchema is_uuid (get_prop fs ''lease_id'')) (\<lambda>lease_id.
     Some \<lparr>jl_job_id = job_id, jl_attempt = attempt, jl_lease_id = lease_id\<rparr>))))"

definition safe_payload_field :: "uval \<Rightarrow> (int list \<times> uval) list option" where
  "safe_payload_field v =
     (case v of
        UObj payload \<Rightarrow> if SafeEventPayloadSchema payload then Some payload else None
      | _ \<Rightarrow> None)"

definition JobEventPayloadSchema :: "(string \<Rightarrow> bool) \<Rightarrow> uval \<Rightarrow> JobEventPayload option" where
  "JobEventPayloadSchema is_uuid v =
     Option.bind (strict_object [''job_id'', ''attempt'', ''event_type'', ''payload'', ''source'']
       (wire_value v)) (\<lambda>fs.
     Option.bind (UuidSchema is_uuid (get_prop fs ''job_id'')) (\<lambda>job_id.
     Option.bind (PositiveIntegerSchema (get_prop fs ''attempt'')) (\<lambda>attempt.
     Option.bind (TextSchema 64 (get_prop fs ''event_type'')) (\<lambda>event_type.
     Option.bind (case v of UObj us \<Rightarrow> map_of us (units ''payload'') | _ \<Rightarrow> None) (\<lambda>u.
     Option.bind (safe_payload_field u) (\<lambda>payload.
     Option.bind (TextSchema 32 (get_prop fs ''source'')) (\<lambda>source.
     Some \<lparr>je_job_id = job_id, je_attempt = attempt, je_event_type = event_type,
       je_payload = payload, je_source = source\<rparr>)))))))"

definition JobCancelledPayloadSchema :: "(string \<Rightarrow> bool) \<Rightarrow> jsval \<Rightarrow> JobCancelledPayload option" where
  "JobCancelledPayloadSchema is_uuid v =
     Option.bind (strict_object [''job_id'', ''attempt'', ''reason''] v) (\<lambda>fs.
     Option.bind (UuidSchema is_uuid (get_prop fs ''job_id'')) (\<lambda>job_id.
     Option.bind (PositiveIntegerSchema (get_prop fs ''attempt'')) (\<lambda>attempt.
     Option.bind (TextSchema 400 (get_prop fs ''reason'')) (\<lambda>reason.
     Some \<lparr>jx_job_id = job_id, jx_attempt = attempt, jx_reason = reason\<rparr>))))"

definition client_payload_of :: "(string \<Rightarrow> bool) \<Rightarrow> jsval \<Rightarrow> uval \<Rightarrow> client_payload option" where
  "client_payload_of is_uuid type u =
     (let v = wire_value u in
      if type = JStr ''connector.hello'' then map_option Hello (ConnectorHelloPayloadSchema is_uuid v)
      else if type = JStr ''connector.heartbeat''
      then map_option (\<lambda>_. Heartbeat) (ConnectorHeartbeatPayloadSchema v)
      else if type = JStr ''job.claim'' then map_option Claim (JobClaimPayloadSchema is_uuid v)
      else if type = JStr ''job.sync'' then map_option Sync (JobSyncPayloadSchema is_uuid v)
      else if type = JStr ''job.event'' then map_option Event (JobEventPayloadSchema is_uuid u)
      else if type = JStr ''approval.requested''
      then map_option Requested (ApprovalRequestedPayloadSchema is_uuid v)
      else if type = JStr ''job.cancelled''
      then map_option WasCancelled (JobCancelledPayloadSchema is_uuid v)
      else if type = JStr ''ack'' then map_option Acknowledge (AckPayloadSchema v)
      else None)"

definition enforceApprovalPayloadExpiry :: "client_payload \<Rightarrow> string \<Rightarrow> bool" where
  "enforceApprovalPayloadExpiry payload sent_at =
     (case payload of
        Requested a \<Rightarrow> compareRfc3339Instants (arp_expires_at a) sent_at = Some 1
      | _ \<Rightarrow> True)"

definition ConnectorClientMessageSchema ::
  "(string \<Rightarrow> bool) \<Rightarrow> uval \<Rightarrow> ConnectorClientMessage option" where
  "ConnectorClientMessageSchema is_uuid u =
     Option.bind (strict_object
       [''protocol_version'', ''message_id'', ''sequence'', ''sent_at'', ''expires_at'',
        ''correlation_id'', ''type'', ''payload''] (wire_value u)) (\<lambda>fs.
     if get_prop fs ''protocol_version'' \<noteq> JStr ''1.0'' then None else
     Option.bind (UuidSchema is_uuid (get_prop fs ''message_id'')) (\<lambda>message_id.
     Option.bind (PositiveIntegerSchema (get_prop fs ''sequence'')) (\<lambda>sequence.
     Option.bind (TimestampSchema (get_prop fs ''sent_at'')) (\<lambda>sent_at.
     Option.bind (TimestampSchema (get_prop fs ''expires_at'')) (\<lambda>expires_at.
     Option.bind (UuidSchema is_uuid (get_prop fs ''correlation_id'')) (\<lambda>correlation_id.
     Option.bind (case u of UObj us \<Rightarrow> map_of us (units ''payload'') | _ \<Rightarrow> None) (\<lambda>p.
     Option.bind (client_payload_of is_uuid (get_prop fs ''type'') p) (\<lambda>payload.
     if enforceExpiry expires_at sent_at \<and> enforceApprovalPayloadExpiry payload sent_at
     then Some \<lparr>cm_message_id = message_id, cm_sequence = sequence, cm_sent_at = sent_at,
       cm_expires_at = expires_at, cm_correlation_id = correlation_id, cm_payload = payload\<rparr>
     else None))))))))"

end
