(* ===== verification/Owned_Intent.thy ===== *)
theory Owned_Intent
  imports Client_Schema
begin

section \<open>Owned intents\<close>

text \<open>
  \<open>packages/harness-plugin/src/store/owned-intent.ts\<close>: the record by which the plugin owns one attempt
  of a job, its schemas on decoded JSON, its canonical text and the keys it is stored under. The
  message id given by the harness may hold any text and is a list of code units; SHA-256 is a
  parameter.
\<close>

datatype owned_error =
    OWNED_INTENT_INVALID | OWNED_INTENT_CONFLICT | OWNED_INTENT_UNAVAILABLE | OWNED_INTENT_CORRUPT

record OwnedIntentOwner =
  ow_jobId :: string
  ow_attempt :: int
  ow_repositoryId :: string
  ow_sessionId :: string
  ow_ownerGeneration :: string

record owned_evidence =
  ev_sessionId :: string
  ev_messageId :: "int list"
  ev_requestDigest :: string
  ev_eventSequence :: int

record owned_offer =
  of_messageId :: string
  of_sequence :: int
  of_correlationId :: string
  of_sentAt :: string
  of_expiresAt :: string

datatype owned_phase = Prepared | Creating | Submitting | Started | Terminal

datatype owned_unavailable = HARNESS_SESSION_LOST | HARNESS_PERSISTENCE_UNAVAILABLE

record OwnedIntent =
  oi_owner :: OwnedIntentOwner
  oi_leaseId :: string
  oi_offer :: owned_offer
  oi_initialMessageId :: "int list"
  oi_requestDigest :: string
  oi_phase :: owned_phase
  oi_version :: int
  oi_mode :: "JobMode option"
  oi_startedEvidence :: "owned_evidence option"
  oi_unavailable :: "owned_unavailable option"

definition phase_string :: "owned_phase \<Rightarrow> string" where
  "phase_string p =
     (case p of Prepared \<Rightarrow> ''prepared'' | Creating \<Rightarrow> ''creating'' | Submitting \<Rightarrow> ''submitting''
      | Started \<Rightarrow> ''started'' | Terminal \<Rightarrow> ''terminal'')"

definition unavailable_string :: "owned_unavailable \<Rightarrow> string" where
  "unavailable_string u =
     (case u of HARNESS_SESSION_LOST \<Rightarrow> ''HARNESS_SESSION_LOST''
      | HARNESS_PERSISTENCE_UNAVAILABLE \<Rightarrow> ''HARNESS_PERSISTENCE_UNAVAILABLE'')"

subsection \<open>Field schemas\<close>

definition OwnedAttemptSchema :: "jsval \<Rightarrow> int option" where
  "OwnedAttemptSchema = bounded_int 1 2147483647"

definition OwnedVersionSchema :: "jsval \<Rightarrow> int option" where
  "OwnedVersionSchema = bounded_int 0 MAX_SAFE_INTEGER"

definition messageId_field :: "uval option \<Rightarrow> int list option" where
  "messageId_field v =
     (case v of
        Some (UStr s) \<Rightarrow>
          if 1 \<le> utf8_bytes s \<and> utf8_bytes s \<le> 256 \<and> \<not> list_ex (\<lambda>c. c < 32 \<or> c = 127) s
          then Some s else None
      | _ \<Rightarrow> None)"

definition digest_field :: "jsval \<Rightarrow> string option" where
  "digest_field v =
     (case the_str v of
        Some s \<Rightarrow> if length s = 64 \<and> list_all is_lower_hex s then Some s else None
      | None \<Rightarrow> None)"

definition unavailable_field :: "jsval \<Rightarrow> owned_unavailable option" where
  "unavailable_field v =
     (if v = JStr ''HARNESS_SESSION_LOST'' then Some HARNESS_SESSION_LOST
      else if v = JStr ''HARNESS_PERSISTENCE_UNAVAILABLE'' then Some HARNESS_PERSISTENCE_UNAVAILABLE
      else None)"

definition phase_field :: "jsval \<Rightarrow> owned_phase option" where
  "phase_field v =
     map_of (map (\<lambda>p. (JStr (phase_string p), p)) [Prepared, Creating, Submitting, Started, Terminal]) v"

definition member :: "uval \<Rightarrow> string \<Rightarrow> uval option" where
  "member v key = (case v of UObj fs \<Rightarrow> map_of fs (units key) | _ \<Rightarrow> None)"

definition OwnedIntentOwnerSchema :: "(string \<Rightarrow> bool) \<Rightarrow> jsval \<Rightarrow> OwnedIntentOwner option" where
  "OwnedIntentOwnerSchema is_uuid v =
     Option.bind (strict_object
       [''jobId'', ''attempt'', ''repositoryId'', ''sessionId'', ''ownerGeneration''] v) (\<lambda>fs.
     Option.bind (UuidSchema is_uuid (get_prop fs ''jobId'')) (\<lambda>jobId.
     Option.bind (OwnedAttemptSchema (get_prop fs ''attempt'')) (\<lambda>attempt.
     Option.bind (RepositoryId_field (get_prop fs ''repositoryId'')) (\<lambda>repositoryId.
     Option.bind (UuidSchema is_uuid (get_prop fs ''sessionId'')) (\<lambda>sessionId.
     Option.bind (UuidSchema is_uuid (get_prop fs ''ownerGeneration'')) (\<lambda>ownerGeneration.
     Some \<lparr>ow_jobId = jobId, ow_attempt = attempt, ow_repositoryId = repositoryId,
       ow_sessionId = sessionId, ow_ownerGeneration = ownerGeneration\<rparr>))))))"

definition evidence_schema :: "(string \<Rightarrow> bool) \<Rightarrow> uval \<Rightarrow> owned_evidence option" where
  "evidence_schema is_uuid u =
     Option.bind (strict_object [''sessionId'', ''messageId'', ''requestDigest'', ''eventSequence'']
       (wire_value u)) (\<lambda>fs.
     Option.bind (UuidSchema is_uuid (get_prop fs ''sessionId'')) (\<lambda>sessionId.
     Option.bind (messageId_field (member u ''messageId'')) (\<lambda>messageId.
     Option.bind (digest_field (get_prop fs ''requestDigest'')) (\<lambda>requestDigest.
     Option.bind (OwnedVersionSchema (get_prop fs ''eventSequence'')) (\<lambda>eventSequence.
     Some \<lparr>ev_sessionId = sessionId, ev_messageId = messageId, ev_requestDigest = requestDigest,
       ev_eventSequence = eventSequence\<rparr>)))))"

definition offer_fields :: "(string \<Rightarrow> bool) \<Rightarrow> jsval \<Rightarrow> owned_offer option" where
  "offer_fields is_uuid v =
     Option.bind (strict_object [''messageId'', ''sequence'', ''correlationId'', ''sentAt'', ''expiresAt''] v) (\<lambda>fs.
     Option.bind (UuidSchema is_uuid (get_prop fs ''messageId'')) (\<lambda>messageId.
     Option.bind (PositiveIntegerSchema (get_prop fs ''sequence'')) (\<lambda>sequence.
     Option.bind (UuidSchema is_uuid (get_prop fs ''correlationId'')) (\<lambda>correlationId.
     Option.bind (TimestampSchema (get_prop fs ''sentAt'')) (\<lambda>sentAt.
     Option.bind (TimestampSchema (get_prop fs ''expiresAt'')) (\<lambda>expiresAt.
     Some \<lparr>of_messageId = messageId, of_sequence = sequence, of_correlationId = correlationId,
       of_sentAt = sentAt, of_expiresAt = expiresAt\<rparr>))))))"

definition evidence_field :: "(string \<Rightarrow> bool) \<Rightarrow> uval option \<Rightarrow> owned_evidence option option" where
  "evidence_field is_uuid u =
     (case u of
        None \<Rightarrow> None
      | Some UNull \<Rightarrow> Some None
      | Some v \<Rightarrow> map_option Some (evidence_schema is_uuid v))"

definition intentFields :: "(string \<Rightarrow> bool) \<Rightarrow> uval \<Rightarrow> OwnedIntent option" where
  "intentFields is_uuid u =
     Option.bind (strict_object
       [''schemaVersion'', ''owner'', ''leaseId'', ''offer'', ''initialMessageId'', ''requestDigest'',
        ''phase'', ''version'', ''mode'', ''startedEvidence'', ''unavailable''] (wire_value u)) (\<lambda>fs.
     if get_prop fs ''schemaVersion'' \<noteq> JNum 1 then None else
     Option.bind (OwnedIntentOwnerSchema is_uuid (get_prop fs ''owner'')) (\<lambda>owner.
     Option.bind (UuidSchema is_uuid (get_prop fs ''leaseId'')) (\<lambda>leaseId.
     Option.bind (offer_fields is_uuid (get_prop fs ''offer'')) (\<lambda>offer.
     Option.bind (messageId_field (member u ''initialMessageId'')) (\<lambda>initialMessageId.
     Option.bind (digest_field (get_prop fs ''requestDigest'')) (\<lambda>requestDigest.
     Option.bind (phase_field (get_prop fs ''phase'')) (\<lambda>phase.
     Option.bind (OwnedVersionSchema (get_prop fs ''version'')) (\<lambda>version.
     Option.bind (nullable_field mode_enum (get_prop fs ''mode'')) (\<lambda>mode.
     Option.bind (evidence_field is_uuid (member u ''startedEvidence'')) (\<lambda>startedEvidence.
     Option.bind (nullable_field unavailable_field (get_prop fs ''unavailable'')) (\<lambda>unavailable.
     Some \<lparr>oi_owner = owner, oi_leaseId = leaseId, oi_offer = offer, oi_initialMessageId = initialMessageId,
       oi_requestDigest = requestDigest, oi_phase = phase, oi_version = version, oi_mode = mode,
       oi_startedEvidence = startedEvidence, oi_unavailable = unavailable\<rparr>)))))))))))"

subsection \<open>Relations between the fields\<close>

definition phase_relations :: "owned_phase \<Rightarrow> OwnedIntent \<Rightarrow> bool" where
  "phase_relations phase value =
     (if phase = Prepared then oi_mode value = None \<and> oi_startedEvidence value = None
      else oi_mode value \<noteq> None
        \<and> (if phase = Started
           then (case oi_startedEvidence value of
                   None \<Rightarrow> False
                 | Some e \<Rightarrow> ev_sessionId e = ow_sessionId (oi_owner value)
                     \<and> ev_messageId e = oi_initialMessageId value
                     \<and> ev_requestDigest e = oi_requestDigest value)
           else oi_startedEvidence value = None))"

text \<open>The offer's identity must pass the schema of the whole message, with a fixed request.\<close>

definition offer_identity :: "OwnedIntent \<Rightarrow> jsval" where
  "offer_identity value =
     JObj [(''protocol_version'', JStr ''1.0''), (''type'', JStr ''job.offer''),
       (''message_id'', JStr (of_messageId (oi_offer value))),
       (''sequence'', int_value (of_sequence (oi_offer value))),
       (''correlation_id'', JStr (of_correlationId (oi_offer value))),
       (''sent_at'', JStr (of_sentAt (oi_offer value))),
       (''expires_at'', JStr (of_expiresAt (oi_offer value))),
       (''payload'', JObj
         [(''job_id'', JStr (ow_jobId (oi_owner value))),
          (''attempt'', int_value (ow_attempt (oi_owner value))),
          (''repository_id'', JStr (ow_repositoryId (oi_owner value))),
          (''lease_id'', JStr (oi_leaseId value)),
          (''request'', JStr ''identity validation'')])]"

definition validateIntent :: "(string \<Rightarrow> bool) \<Rightarrow> owned_phase \<Rightarrow> OwnedIntent \<Rightarrow> bool" where
  "validateIntent is_uuid phase value =
     (phase_relations phase value
      \<and> ConnectorServerMessageSchema is_uuid (offer_identity value) \<noteq> None)"

definition NonterminalOwnedIntentSchema :: "(string \<Rightarrow> bool) \<Rightarrow> uval \<Rightarrow> OwnedIntent option" where
  "NonterminalOwnedIntentSchema is_uuid u =
     Option.bind (intentFields is_uuid u) (\<lambda>value.
     if oi_phase value \<noteq> Terminal \<and> validateIntent is_uuid (oi_phase value) value
     then Some value else None)"

definition terminal_shape :: "OwnedIntent \<Rightarrow> owned_phase" where
  "terminal_shape value =
     (if oi_startedEvidence value \<noteq> None then Started
      else if oi_mode value = None then Prepared else Creating)"

definition OwnedIntentSchema :: "(string \<Rightarrow> bool) \<Rightarrow> uval \<Rightarrow> OwnedIntent option" where
  "OwnedIntentSchema is_uuid u =
     (case NonterminalOwnedIntentSchema is_uuid u of
        Some value \<Rightarrow> Some value
      | None \<Rightarrow>
          Option.bind (intentFields is_uuid u) (\<lambda>value.
          if oi_phase value = Terminal \<and> validateIntent is_uuid (terminal_shape value) value
          then Some value else None))"

subsection \<open>Transitions and preparation\<close>

datatype OwnedIntentTransition =
    To_creating JobMode
  | To_submitting
  | To_started owned_evidence
  | To_unavailable owned_unavailable

definition OwnedTransitionSchema :: "(string \<Rightarrow> bool) \<Rightarrow> uval \<Rightarrow> OwnedIntentTransition option" where
  "OwnedTransitionSchema is_uuid u =
     (case wire_value u of
        JObj fs \<Rightarrow>
          let phase = get_prop fs ''phase'' in
          if list_all (\<lambda>f. fst f \<in> {''phase'', ''mode''}) fs \<and> phase = JStr ''creating''
          then map_option To_creating (mode_enum (get_prop fs ''mode''))
          else if list_all (\<lambda>f. fst f = ''phase'') fs \<and> phase = JStr ''submitting''
          then Some To_submitting
          else if list_all (\<lambda>f. fst f \<in> {''phase'', ''evidence''}) fs \<and> phase = JStr ''started''
          then Option.bind (member u ''evidence'') (\<lambda>e. map_option To_started (evidence_schema is_uuid e))
          else if list_all (\<lambda>f. fst f = ''unavailable'') fs
          then map_option To_unavailable (unavailable_field (get_prop fs ''unavailable''))
          else None
      | _ \<Rightarrow> None)"

record PrepareOwnedIntentInput =
  pi_offer :: ConnectorServerMessage
  pi_sessionId :: string
  pi_initialMessageId :: "int list"
  pi_ownerGeneration :: string

definition offer_of :: "ConnectorServerMessage \<Rightarrow> JobOfferPayload option" where
  "offer_of m = (case sm_payload m of Offer p \<Rightarrow> Some p | _ \<Rightarrow> None)"

definition PrepareOwnedIntentSchema :: "(string \<Rightarrow> bool) \<Rightarrow> uval \<Rightarrow> PrepareOwnedIntentInput option" where
  "PrepareOwnedIntentSchema is_uuid u =
     Option.bind (strict_object [''offer'', ''sessionId'', ''initialMessageId'', ''ownerGeneration'']
       (wire_value u)) (\<lambda>fs.
     Option.bind (ConnectorServerMessageSchema is_uuid (get_prop fs ''offer'')) (\<lambda>offer.
     if offer_of offer = None then None else
     Option.bind (UuidSchema is_uuid (get_prop fs ''sessionId'')) (\<lambda>sessionId.
     Option.bind (messageId_field (member u ''initialMessageId'')) (\<lambda>initialMessageId.
     Option.bind (UuidSchema is_uuid (get_prop fs ''ownerGeneration'')) (\<lambda>ownerGeneration.
     Some \<lparr>pi_offer = offer, pi_sessionId = sessionId, pi_initialMessageId = initialMessageId,
       pi_ownerGeneration = ownerGeneration\<rparr>)))))"

definition captureOwned :: "'a option \<Rightarrow> owned_error + 'a" where
  "captureOwned parsed = (case parsed of None \<Rightarrow> Inl OWNED_INTENT_INVALID | Some x \<Rightarrow> Inr x)"

definition ownedKey :: "string \<Rightarrow> int \<Rightarrow> string" where
  "ownedKey jobId attempt = ''owned-intent-v1:'' @ jobId @ '':'' @ show_int attempt"

definition activeOwnedKey :: "OwnedIntentOwner \<Rightarrow> string" where
  "activeOwnedKey owner = ''owned-active-v1:'' @ ow_jobId owner"

definition generationOwnedKey :: "OwnedIntentOwner \<Rightarrow> string" where
  "generationOwnedKey owner = ''owned-generation-v1:'' @ ow_ownerGeneration owner"

definition initialOwnedIntent ::
  "(string \<Rightarrow> string) \<Rightarrow> PrepareOwnedIntentInput \<Rightarrow> JobOfferPayload \<Rightarrow> OwnedIntent" where
  "initialOwnedIntent sha256_hex input p =
     (let offer = pi_offer input in
      \<lparr>oi_owner = \<lparr>ow_jobId = jo_job_id p, ow_attempt = jo_attempt p, ow_repositoryId = jo_repository_id p,
         ow_sessionId = pi_sessionId input, ow_ownerGeneration = pi_ownerGeneration input\<rparr>,
       oi_leaseId = jo_lease_id p,
       oi_offer = \<lparr>of_messageId = sm_message_id offer, of_sequence = sm_sequence offer,
         of_correlationId = sm_correlation_id offer, of_sentAt = sm_sent_at offer,
         of_expiresAt = sm_expires_at offer\<rparr>,
       oi_initialMessageId = pi_initialMessageId input,
       oi_requestDigest = sha256_hex (jo_request p),
       oi_phase = Prepared, oi_version = 0, oi_mode = None, oi_startedEvidence = None,
       oi_unavailable = None\<rparr>)"

subsection \<open>Canonical text\<close>

definition sval :: "string \<Rightarrow> uval" where
  "sval s = UStr (units s)"

definition nval :: "int \<Rightarrow> uval" where
  "nval n = UNum (of_int n)"

definition or_null :: "('a \<Rightarrow> uval) \<Rightarrow> 'a option \<Rightarrow> uval" where
  "or_null f v = (case v of None \<Rightarrow> UNull | Some x \<Rightarrow> f x)"

definition fields_value :: "(string \<times> uval) list \<Rightarrow> uval" where
  "fields_value fs = UObj (map (\<lambda>(k, v). (units k, v)) fs)"

definition owner_value :: "OwnedIntentOwner \<Rightarrow> uval" where
  "owner_value w =
     fields_value [(''jobId'', sval (ow_jobId w)), (''attempt'', nval (ow_attempt w)),
       (''repositoryId'', sval (ow_repositoryId w)), (''sessionId'', sval (ow_sessionId w)),
       (''ownerGeneration'', sval (ow_ownerGeneration w))]"

definition evidence_value :: "owned_evidence \<Rightarrow> uval" where
  "evidence_value e =
     fields_value [(''sessionId'', sval (ev_sessionId e)), (''messageId'', UStr (ev_messageId e)),
       (''requestDigest'', sval (ev_requestDigest e)), (''eventSequence'', nval (ev_eventSequence e))]"

definition intent_value :: "OwnedIntent \<Rightarrow> uval" where
  "intent_value v =
     fields_value [(''schemaVersion'', nval 1), (''owner'', owner_value (oi_owner v)),
       (''leaseId'', sval (oi_leaseId v)),
       (''offer'', fields_value
          [(''messageId'', sval (of_messageId (oi_offer v))), (''sequence'', nval (of_sequence (oi_offer v))),
           (''correlationId'', sval (of_correlationId (oi_offer v))),
           (''sentAt'', sval (of_sentAt (oi_offer v))), (''expiresAt'', sval (of_expiresAt (oi_offer v)))]),
       (''initialMessageId'', UStr (oi_initialMessageId v)), (''requestDigest'', sval (oi_requestDigest v)),
       (''phase'', sval (phase_string (oi_phase v))), (''version'', nval (oi_version v)),
       (''mode'', or_null (\<lambda>m. sval (mode_string m)) (oi_mode v)),
       (''startedEvidence'', or_null evidence_value (oi_startedEvidence v)),
       (''unavailable'', or_null (\<lambda>u. sval (unavailable_string u)) (oi_unavailable v))]"

text \<open>The replacer sorts the members of every object, so \<open>ownedJson\<close> is the canonical JSON.\<close>

definition ownedJson :: "uval \<Rightarrow> int list" where
  "ownedJson v = canonicalJson v"

definition parseOwnedRecord ::
  "(uval \<Rightarrow> 'a option) \<Rightarrow> ('a \<Rightarrow> uval) \<Rightarrow> int list \<Rightarrow> owned_error + 'a" where
  "parseOwnedRecord schema value_of s =
     (if utf8_bytes s > 16384 then Inl OWNED_INTENT_CORRUPT
      else case json_parse s of
          None \<Rightarrow> Inl OWNED_INTENT_CORRUPT
        | Some decoded \<Rightarrow>
            (case schema decoded of
               None \<Rightarrow> Inl OWNED_INTENT_CORRUPT
             | Some parsed \<Rightarrow>
                 if ownedJson decoded \<noteq> ownedJson (value_of parsed) then Inl OWNED_INTENT_CORRUPT
                 else Inr parsed))"

end
