(* ===== verification/Terminal_Authority.thy ===== *)
theory Terminal_Authority
  imports Owned_Intent Coordination_Deadlines
begin

section \<open>Authority over the end of a job\<close>

text \<open>
  \<open>packages/harness-plugin/src/runtime/terminal-authority.ts\<close>: a token that lets its holder end one
  owned attempt in one way. A token is a \<open>Capability\<close>; unknown tokens are \<open>None\<close>. What a check sees
  of the connector, the signals and the clock is its \<open>reading\<close>: the epoch and the signals are looked
  at before and after the clock. Issuing a token is modelled in its two halves around the \<open>await\<close>.

  A failed check revokes the token for ever, and the clock readings of successful checks never go
  back (\<open>authority_run_sound\<close>).
\<close>

datatype terminal_outcome = Outcome_succeeded | Outcome_failed

datatype TerminalOperation =
    Op_reconcile
  | Op_native terminal_outcome int
  | Op_cancel int
  | Op_unavailable owned_unavailable

record TerminalAuthorityBinding =
  tb_owner :: OwnedIntentOwner
  tb_expectedVersion :: int
  tb_operation :: TerminalOperation

datatype authority_error =
    TERMINAL_AUTHORITY_INVALID | TERMINAL_AUTHORITY_UNAVAILABLE | TERMINAL_AUTHORITY_REVOKED

subsection \<open>Bindings\<close>

definition outcome_field :: "jsval \<Rightarrow> terminal_outcome option" where
  "outcome_field v =
     (if v = JStr ''succeeded'' then Some Outcome_succeeded
      else if v = JStr ''failed'' then Some Outcome_failed else None)"

definition TerminalOperationSchema :: "jsval \<Rightarrow> TerminalOperation option" where
  "TerminalOperationSchema v =
     (case v of
        JObj fs \<Rightarrow>
          let kind = get_prop fs ''kind''; only = (\<lambda>keys. list_all (\<lambda>f. fst f \<in> set keys) fs) in
          if kind = JStr ''reconcile'' then if only [''kind''] then Some Op_reconcile else None
          else if kind = JStr ''native'' then
            if only [''kind'', ''outcome'', ''eventSequence''] then
              Option.bind (outcome_field (get_prop fs ''outcome'')) (\<lambda>outcome.
              map_option (Op_native outcome) (OwnedVersionSchema (get_prop fs ''eventSequence'')))
            else None
          else if kind = JStr ''cancel'' then
            if only [''kind'', ''cancelRevision'']
            then map_option Op_cancel (bounded_int 0 2147483647 (get_prop fs ''cancelRevision''))
            else None
          else if kind = JStr ''unavailable'' then
            if only [''kind'', ''reason'']
            then map_option Op_unavailable (unavailable_field (get_prop fs ''reason'')) else None
          else None
      | _ \<Rightarrow> None)"

text \<open>
  \<open>fields\<close> copies the declared members and refuses others, and so do the strict schemas; what is
  captured from decoded values is what the schemas accept.
\<close>

definition captureTerminalBinding :: "(string \<Rightarrow> bool) \<Rightarrow> uval \<Rightarrow> TerminalAuthorityBinding option" where
  "captureTerminalBinding is_uuid input =
     Option.bind (member input ''owner'') (\<lambda>owner.
     Option.bind (member input ''expectedVersion'') (\<lambda>version.
     Option.bind (member input ''operation'') (\<lambda>operation.
     Option.bind (OwnedIntentOwnerSchema is_uuid (wire_value owner)) (\<lambda>ow.
     Option.bind (OwnedVersionSchema (wire_value version)) (\<lambda>v.
     Option.bind (TerminalOperationSchema (wire_value operation)) (\<lambda>op.
     Some \<lparr>tb_owner = ow, tb_expectedVersion = v, tb_operation = op\<rparr>))))))"

definition outcome_string :: "terminal_outcome \<Rightarrow> string" where
  "outcome_string r = (case r of Outcome_succeeded \<Rightarrow> ''succeeded'' | Outcome_failed \<Rightarrow> ''failed'')"

definition operation_kind :: "TerminalOperation \<Rightarrow> string" where
  "operation_kind op =
     (case op of Op_reconcile \<Rightarrow> ''reconcile'' | Op_native _ _ \<Rightarrow> ''native'' | Op_cancel _ \<Rightarrow> ''cancel''
      | Op_unavailable _ \<Rightarrow> ''unavailable'')"

definition operation_value :: "TerminalOperation \<Rightarrow> uval" where
  "operation_value op =
     fields_value ((''kind'', sval (operation_kind op)) #
       (case op of
          Op_reconcile \<Rightarrow> []
        | Op_native r n \<Rightarrow> [(''outcome'', sval (outcome_string r)), (''eventSequence'', nval n)]
        | Op_cancel n \<Rightarrow> [(''cancelRevision'', nval n)]
        | Op_unavailable u \<Rightarrow> [(''reason'', sval (unavailable_string u))]))"

definition binding_value :: "TerminalAuthorityBinding \<Rightarrow> uval" where
  "binding_value b =
     fields_value [(''owner'', owner_value (tb_owner b)), (''expectedVersion'', nval (tb_expectedVersion b)),
       (''operation'', operation_value (tb_operation b))]"

definition state_value :: "JobStatePayload \<Rightarrow> uval" where
  "state_value p =
     fields_value
       [(''job_id'', sval (js_job_id p)), (''repository_id'', sval (js_repository_id p)),
        (''mode'', sval (mode_string (js_mode p))), (''requested_attempt'', nval (js_requested_attempt p)),
        (''current_attempt'', nval (js_current_attempt p)), (''status'', sval (status_string (js_status p))),
        (''job_revision'', nval (js_job_revision p)),
        (''cancel_revision'', or_null nval (js_cancel_revision p)),
        (''lease_id'', or_null sval (js_lease_id p)),
        (''lease_expires_at'', or_null sval (js_lease_expires_at p)),
        (''expires_at'', sval (js_expires_at p)), (''observed_at'', sval (js_observed_at p)),
        (''state_valid_until'', sval (js_state_valid_until p)),
        (''request_message_id'', sval (js_request_message_id p)),
        (''request_sequence'', nval (js_request_sequence p)), (''nonce'', sval (js_nonce p))]"

subsection \<open>Checking a token\<close>

record lifetime_view =
  lv_currentEpoch :: bool
  lv_sameSignal :: bool
  lv_isSignal :: bool
  lv_epochAborted :: bool
  lv_signalAborted :: bool
  lv_lifetimeAborted :: bool

record reading =
  rd_first :: lifetime_view
  rd_clock :: "CoordinationClockSample option"
  rd_second :: lifetime_view

record Capability =
  cap_binding :: TerminalAuthorityBinding
  cap_state :: JobStatePayload
  cap_bindingKey :: "int list"
  cap_timing :: CoordinationTiming
  cap_commandDeadline :: "int option"
  cap_lastMonotonic :: double
  cap_admitted :: bool
  cap_revoked :: bool

definition checkLifetime :: "lifetime_view \<Rightarrow> Capability \<Rightarrow> bool" where
  "checkLifetime view value =
     (\<not> (cap_revoked value \<or> \<not> lv_currentEpoch view \<or> \<not> lv_sameSignal view \<or> \<not> lv_isSignal view
         \<or> lv_epochAborted view \<or> lv_signalAborted view \<or> lv_lifetimeAborted view))"

text \<open>\<open>None\<close> stands for a clock that returns no object or a promise.\<close>

definition sampleClock :: "CoordinationClockSample option \<Rightarrow> CoordinationClockSample option" where
  "sampleClock clock =
     (case clock of Some now \<Rightarrow> if finite_sample now then Some now else None | None \<Rightarrow> None)"

definition checkCurrent :: "reading \<Rightarrow> bool \<Rightarrow> Capability \<Rightarrow> Capability option" where
  "checkCurrent rd snapshot value =
     (if \<not> checkLifetime (rd_first rd) value then None
      else case sampleClock (rd_clock rd) of
          None \<Rightarrow> None
        | Some now \<Rightarrow>
            let t = double_value (monotonicTimeMs now) in
            if t < double_value (cap_lastMonotonic value)
               \<or> \<not> (if tb_operation (cap_binding value) = Op_reconcile
                    then isReconciliationTimingCurrent (cap_timing value) now
                    else isCoordinationTimingCurrent (cap_timing value) now snapshot False)
               \<or> (case cap_commandDeadline value of None \<Rightarrow> False | Some d \<Rightarrow> t \<ge> of_int d)
            then None
            else if \<not> checkLifetime (rd_second rd) value then None
            else Some (value\<lparr>cap_lastMonotonic := monotonicTimeMs now\<rparr>))"

definition check_authority ::
  "(string \<Rightarrow> bool) \<Rightarrow> bool \<Rightarrow> reading \<Rightarrow> TerminalAuthorityBinding \<Rightarrow> Capability option
     \<Rightarrow> (authority_error + Capability) \<times> Capability option" where
  "check_authority is_uuid first_use rd binding authority =
     (case authority of
        None \<Rightarrow> (Inl TERMINAL_AUTHORITY_INVALID, None)
      | Some value \<Rightarrow>
          let refused = (Inl TERMINAL_AUTHORITY_REVOKED, Some (value\<lparr>cap_revoked := True\<rparr>)) in
          if cap_revoked value then refused
          else case captureTerminalBinding is_uuid (binding_value binding) of
              None \<Rightarrow> refused
            | Some b \<Rightarrow>
                if ownedJson (binding_value b) \<noteq> cap_bindingKey value then refused
                else if \<not> first_use \<and> \<not> cap_admitted value then refused
                else case checkCurrent rd (\<not> cap_admitted value) value of
                    None \<Rightarrow> refused
                  | Some value' \<Rightarrow>
                      (Inr (value'\<lparr>cap_admitted := True\<rparr>), Some (value'\<lparr>cap_admitted := True\<rparr>)))"

definition beginTerminalAuthority ::
  "(string \<Rightarrow> bool) \<Rightarrow> reading \<Rightarrow> TerminalAuthorityBinding \<Rightarrow> Capability option
     \<Rightarrow> (authority_error + Capability) \<times> Capability option" where
  "beginTerminalAuthority is_uuid = check_authority is_uuid True"

definition assertTerminalAuthority ::
  "(string \<Rightarrow> bool) \<Rightarrow> reading \<Rightarrow> TerminalAuthorityBinding \<Rightarrow> Capability option
     \<Rightarrow> (authority_error + Capability) \<times> Capability option" where
  "assertTerminalAuthority is_uuid = check_authority is_uuid False"

subsection \<open>Issuing a token\<close>

definition eligible :: "OwnedIntent \<Rightarrow> TerminalOperation \<Rightarrow> bool" where
  "eligible value operation =
     (case operation of
        Op_reconcile \<Rightarrow> oi_mode value \<noteq> None
      | Op_cancel _ \<Rightarrow> oi_phase value \<noteq> Terminal
      | Op_unavailable reason \<Rightarrow> oi_phase value \<noteq> Terminal \<and> oi_unavailable value = Some reason
      | Op_native _ eventSequence \<Rightarrow>
          oi_phase value = Started \<and> oi_unavailable value = None
          \<and> (case oi_startedEvidence value of None \<Rightarrow> False | Some e \<Rightarrow> eventSequence \<ge> ev_eventSequence e))"

definition stateEligible ::
  "JobStatePayload \<Rightarrow> OwnedIntent \<Rightarrow> TerminalOperation \<Rightarrow> JobCancelPayload option \<Rightarrow> bool" where
  "stateEligible state value operation command =
     (js_current_attempt state = ow_attempt (oi_owner value)
      \<and> (case oi_mode value of None \<Rightarrow> True | Some m \<Rightarrow> m = js_mode state)
      \<and> (case operation of
           Op_reconcile \<Rightarrow>
             oi_mode value \<noteq> None \<and> js_status state \<in> {Succeeded, Failed, Cancelled, Expired}
         | Op_cancel cancelRevision \<Rightarrow>
             js_status state = Cancelling \<and> js_cancel_revision state = Some cancelRevision
             \<and> (case command of
                  None \<Rightarrow> False
                | Some c \<Rightarrow> jc_job_revision c = cancelRevision \<and> jc_job_id c = ow_jobId (oi_owner value)
                    \<and> jc_attempt c = ow_attempt (oi_owner value))
         | Op_native outcome _ \<Rightarrow>
             js_status state \<in> {Running, Cancelling}
             \<or> js_status state = Waiting_approval \<and> outcome = Outcome_failed
         | Op_unavailable _ \<Rightarrow> js_status state \<in> {Running, Cancelling, Waiting_approval}))"

definition captureCommand ::
  "(string \<Rightarrow> bool) \<Rightarrow> uval \<Rightarrow> (ConnectorServerMessage \<times> JobCancelPayload) option" where
  "captureCommand is_uuid v =
     Option.bind (ConnectorServerMessageSchema is_uuid (wire_value v)) (\<lambda>m.
     case sm_payload m of Cancel p \<Rightarrow> Some (m, p) | _ \<Rightarrow> None)"

text \<open>The first half of \<open>issue\<close>: what it checks before it asks for the job's state.\<close>

record issue_input =
  ii_binding :: uval
  ii_command :: "uval option"
  ii_isSignal :: bool
  ii_aborted :: bool

record issue_pending =
  ip_binding :: TerminalAuthorityBinding
  ip_command :: "(ConnectorServerMessage \<times> JobCancelPayload) option"
  ip_before :: OwnedIntent

definition issue_begin ::
  "(string \<Rightarrow> bool) \<Rightarrow> issue_input \<Rightarrow> OwnedIntent option \<Rightarrow> authority_error + issue_pending" where
  "issue_begin is_uuid input stored =
     (case captureTerminalBinding is_uuid (ii_binding input) of
        None \<Rightarrow> Inl TERMINAL_AUTHORITY_INVALID
      | Some binding \<Rightarrow>
          let command = Option.bind (ii_command input) (captureCommand is_uuid) in
          if \<not> ii_isSignal input
             \<or> (case tb_operation binding of Op_cancel _ \<Rightarrow> True | _ \<Rightarrow> False) \<noteq> (ii_command input \<noteq> None)
             \<or> ii_command input \<noteq> None \<and> command = None
          then Inl TERMINAL_AUTHORITY_INVALID
          else if ii_aborted input then Inl TERMINAL_AUTHORITY_REVOKED
          else case Option.bind stored (\<lambda>r. OwnedIntentSchema is_uuid (intent_value r)) of
              None \<Rightarrow> Inl TERMINAL_AUTHORITY_UNAVAILABLE
            | Some before \<Rightarrow>
                if ownedJson (owner_value (oi_owner before)) \<noteq> ownedJson (owner_value (tb_owner binding))
                   \<or> oi_version before \<noteq> tb_expectedVersion binding
                   \<or> \<not> eligible before (tb_operation binding)
                then Inl TERMINAL_AUTHORITY_UNAVAILABLE
                else Inr \<lparr>ip_binding = binding, ip_command = command, ip_before = before\<rparr>)"

text \<open>What the exchange of a state request returned, and what holds then.\<close>

record state_exchange =
  se_state :: uval
  se_messageId :: string
  se_sequence :: int
  se_nonce :: string
  se_correlationId :: string
  se_jobId :: string
  se_attempt :: int
  se_sameEpoch :: bool
  se_currentEpoch :: bool
  se_epochSignal :: bool
  se_epochAborted :: bool
  se_sent :: CoordinationClockSample
  se_received :: CoordinationClockSample

definition exchange_matches ::
  "(string \<Rightarrow> bool) \<Rightarrow> state_exchange \<Rightarrow> issue_pending \<Rightarrow> ConnectorServerMessage \<Rightarrow> JobStatePayload \<Rightarrow> bool" where
  "exchange_matches is_uuid ex pending envelope state =
     (let owner = tb_owner (ip_binding pending) in
      se_epochSignal ex \<and> \<not> se_epochAborted ex \<and> se_sameEpoch ex \<and> se_currentEpoch ex
      \<and> is_uuid (se_messageId ex) \<and> isSafeInteger (se_sequence ex) \<and> se_sequence ex \<ge> 1
      \<and> se_messageId ex = js_request_message_id state \<and> se_sequence ex = js_request_sequence state
      \<and> se_nonce ex = js_nonce state \<and> se_correlationId ex = sm_correlation_id envelope
      \<and> se_jobId ex = ow_jobId owner \<and> se_attempt ex = ow_attempt owner
      \<and> js_job_id state = ow_jobId owner \<and> js_repository_id state = ow_repositoryId owner
      \<and> js_requested_attempt state = ow_attempt owner
      \<and> stateEligible state (ip_before pending) (tb_operation (ip_binding pending))
          (map_option snd (ip_command pending)))"

definition issue_finish ::
  "(string \<Rightarrow> bool) \<Rightarrow> issue_pending \<Rightarrow> state_exchange \<Rightarrow> reading \<Rightarrow> OwnedIntent option \<Rightarrow> lifetime_view
     \<Rightarrow> Capability option" where
  "issue_finish is_uuid pending ex rd stored view =
     Option.bind (ConnectorServerMessageSchema is_uuid (wire_value (se_state ex))) (\<lambda>envelope.
     case sm_payload envelope of
       State state \<Rightarrow>
         if \<not> exchange_matches is_uuid ex pending envelope state then None else
         Option.bind
           ((if tb_operation (ip_binding pending) = Op_reconcile then admitReconciliationTiming
             else admitCoordinationTiming) is_uuid (wire_value (state_value state)) (se_sent ex) (se_received ex)) (\<lambda>timing.
         let commandDeadline = (case ip_command pending of None \<Rightarrow> None
               | Some (m, p) \<Rightarrow> cancellationCoordinationDeadline timing (sm_expires_at m)) in
         if ip_command pending \<noteq> None \<and> commandDeadline = None then None else
         Option.bind (checkCurrent rd True
             \<lparr>cap_binding = ip_binding pending, cap_state = state,
              cap_bindingKey = ownedJson (binding_value (ip_binding pending)), cap_timing = timing,
              cap_commandDeadline = commandDeadline, cap_lastMonotonic = monotonicTimeMs (ct_received timing),
              cap_admitted = False, cap_revoked = False\<rparr>) (\<lambda>value.
         Option.bind (Option.bind stored (\<lambda>r. OwnedIntentSchema is_uuid (intent_value r))) (\<lambda>after.
         if ownedJson (intent_value after) \<noteq> ownedJson (intent_value (ip_before pending))
            \<or> \<not> checkLifetime view value
         then None else Some value)))
     | _ \<Rightarrow> None)"

text \<open>A failure after the first half is reported as unavailable, or as revoked once aborted.\<close>

definition issue ::
  "(string \<Rightarrow> bool) \<Rightarrow> issue_input \<Rightarrow> OwnedIntent option \<Rightarrow> state_exchange option \<Rightarrow> reading
     \<Rightarrow> OwnedIntent option \<Rightarrow> lifetime_view \<Rightarrow> bool \<Rightarrow> authority_error + Capability" where
  "issue is_uuid input stored exchange rd stored' view aborted =
     (case issue_begin is_uuid input stored of
        Inl e \<Rightarrow> Inl (if aborted then TERMINAL_AUTHORITY_REVOKED else e)
      | Inr pending \<Rightarrow>
          (case Option.bind exchange (\<lambda>ex. issue_finish is_uuid pending ex rd stored' view) of
             Some value \<Rightarrow> Inr value
           | None \<Rightarrow>
               Inl (if aborted then TERMINAL_AUTHORITY_REVOKED else TERMINAL_AUTHORITY_UNAVAILABLE)))"

subsection \<open>What a token allows\<close>

text \<open>A sequence of checks with their readings, and the clock readings of those that passed.\<close>

record authority_use =
  au_first :: bool
  au_reading :: reading
  au_binding :: TerminalAuthorityBinding

fun authority_run ::
  "(string \<Rightarrow> bool) \<Rightarrow> authority_use list \<Rightarrow> Capability option
     \<Rightarrow> (authority_error + Capability) list \<times> Capability option" where
  "authority_run is_uuid [] cap = ([], cap)"
| "authority_run is_uuid (u # us) cap =
     (case check_authority is_uuid (au_first u) (au_reading u) (au_binding u) cap of
        (r, cap') \<Rightarrow> (case authority_run is_uuid us cap' of (rs, cap'') \<Rightarrow> (r # rs, cap'')))"

definition before_deadline :: "Capability \<Rightarrow> rat \<Rightarrow> bool" where
  "before_deadline cap t = (case cap_commandDeadline cap of None \<Rightarrow> True | Some d \<Rightarrow> t < of_int d)"

text \<open>
  \<open>justified\<close> is what a check needs of the use of a token: its binding, under its canonical text; the
  first use or an admission before; a finite clock at which its timing is current and the command's
  deadline is ahead; and a living epoch with no aborted signal, before and after the clock is read.
\<close>

definition living :: "lifetime_view \<Rightarrow> bool" where
  "living view \<longleftrightarrow> lv_currentEpoch view \<and> lv_sameSignal view \<and> lv_isSignal view \<and> \<not> lv_epochAborted view
     \<and> \<not> lv_signalAborted view \<and> \<not> lv_lifetimeAborted view"

definition timing_current :: "Capability \<Rightarrow> CoordinationClockSample \<Rightarrow> bool \<Rightarrow> bool" where
  "timing_current cap now snapshot \<longleftrightarrow>
     (if tb_operation (cap_binding cap) = Op_reconcile then isReconciliationTimingCurrent (cap_timing cap) now
      else isCoordinationTimingCurrent (cap_timing cap) now snapshot False)"

definition justified :: "(string \<Rightarrow> bool) \<Rightarrow> Capability \<Rightarrow> bool \<Rightarrow> authority_use \<Rightarrow> bool" where
  "justified is_uuid cap admitted u \<longleftrightarrow>
     (\<exists>b now. captureTerminalBinding is_uuid (binding_value (au_binding u)) = Some b
        \<and> ownedJson (binding_value b) = cap_bindingKey cap \<and> (au_first u \<or> admitted)
        \<and> living (rd_first (au_reading u)) \<and> rd_clock (au_reading u) = Some now \<and> finite_sample now
        \<and> timing_current cap now (\<not> admitted) \<and> before_deadline cap (double_value (monotonicTimeMs now))
        \<and> living (rd_second (au_reading u)))"

definition use_time :: "authority_use \<Rightarrow> rat" where
  "use_time u = (case rd_clock (au_reading u) of Some now \<Rightarrow> double_value (monotonicTimeMs now) | None \<Rightarrow> 0)"

definition passed_token :: "authority_use \<Rightarrow> Capability \<Rightarrow> Capability" where
  "passed_token u cap =
     (case rd_clock (au_reading u) of
        Some now \<Rightarrow> cap\<lparr>cap_lastMonotonic := monotonicTimeMs now, cap_admitted := True\<rparr>
      | None \<Rightarrow> cap)"

lemma no_clock_refused:
  "rd_clock rd = None \<Longrightarrow> check_authority is_uuid first rd b (Some c)
     = (Inl TERMINAL_AUTHORITY_REVOKED, Some (c\<lparr>cap_revoked := True\<rparr>))"
  by (simp add: check_authority_def checkCurrent_def sampleClock_def Let_def split: option.split)

lemma check_revoked:
  "cap_revoked old \<Longrightarrow> check_authority is_uuid first rd b (Some old)
     = (Inl TERMINAL_AUTHORITY_REVOKED, Some (old\<lparr>cap_revoked := True\<rparr>))"
  by (simp add: check_authority_def)

lemma checkLifetime_living: "checkLifetime view cap \<longleftrightarrow> \<not> cap_revoked cap \<and> living view"
  by (auto simp: checkLifetime_def living_def)

lemma checkCurrent_exact:
  assumes "rd_clock rd = Some now" "\<not> cap_revoked cap"
  shows "checkCurrent rd snapshot cap =
    (if living (rd_first rd) \<and> finite_sample now \<and> timing_current cap now snapshot
        \<and> double_value (cap_lastMonotonic cap) \<le> double_value (monotonicTimeMs now)
        \<and> before_deadline cap (double_value (monotonicTimeMs now)) \<and> living (rd_second rd)
     then Some (cap\<lparr>cap_lastMonotonic := monotonicTimeMs now\<rparr>) else None)"
  unfolding checkCurrent_def sampleClock_def assms(1) Let_def checkLifetime_living
  using assms(2)
  by (cases "cap_commandDeadline cap") (auto simp: timing_current_def before_deadline_def not_less not_le)

text \<open>A check passes exactly when the use is justified and its clock has not gone back.\<close>

lemma check_exact:
  "check_authority is_uuid (au_first u) (au_reading u) (au_binding u) (Some cap) =
     (if \<not> cap_revoked cap \<and> justified is_uuid cap (cap_admitted cap) u
         \<and> double_value (cap_lastMonotonic cap) \<le> use_time u
      then (Inr (passed_token u cap), Some (passed_token u cap))
      else (Inl TERMINAL_AUTHORITY_REVOKED, Some (cap\<lparr>cap_revoked := True\<rparr>)))"
proof (cases "rd_clock (au_reading u)")
  case None
  then show ?thesis
    by (auto simp: no_clock_refused justified_def)
next
  case (Some now)
  show ?thesis
  proof (cases "cap_revoked cap")
    case True
    then show ?thesis by (simp add: check_revoked)
  next
    case False
    show ?thesis
      unfolding check_authority_def Let_def option.case checkCurrent_exact [OF Some False]
      using Some False
      by (cases "captureTerminalBinding is_uuid (binding_value (au_binding u))")
        (auto simp: justified_def use_time_def passed_token_def)
  qed
qed

lemma passed_token_keeps [simp]:
  "cap_binding (passed_token u cap) = cap_binding cap" "cap_state (passed_token u cap) = cap_state cap"
  "cap_revoked (passed_token u cap) = cap_revoked cap"
  "justified is_uuid (passed_token u cap) a v = justified is_uuid cap a v"
  by (auto simp: passed_token_def justified_def timing_current_def before_deadline_def split: option.split)

lemma passed_token_time:
  "justified is_uuid cap a u \<Longrightarrow>
     double_value (cap_lastMonotonic (passed_token u cap)) = use_time u \<and> cap_admitted (passed_token u cap)"
  by (auto simp: passed_token_def justified_def use_time_def)

lemma revoked_results:
  assumes "cap_revoked cap" "authority_run is_uuid us (Some cap) = (rs, final)"
  shows "rs = replicate (length us) (Inl TERMINAL_AUTHORITY_REVOKED)"
  using assms
proof (induction us arbitrary: cap rs)
  case (Cons u us)
  obtain rs' where r: "authority_run is_uuid us (Some (cap\<lparr>cap_revoked := True\<rparr>)) = (rs', final)"
    "rs = Inl TERMINAL_AUTHORITY_REVOKED # rs'"
    using Cons.prems by (auto simp: check_revoked split: prod.splits)
  with Cons.IH [OF _ r(1)] show ?case by simp
qed simp

text \<open>
  C16. The checks of a token are exact. Whatever checks are run on a token, with any bindings and any
  readings of clock, epoch and signals: the checks that pass come first and hand out the token's own
  state; each was asked with a binding whose canonical text is the token's, by the first use or after
  an admission, read a finite clock at which the token's timing is current and the command's deadline
  is ahead, and saw a living epoch and no aborted signal before and after; the readings never go
  back. The first check for which this is not so fails, and from then on every check is refused as
  revoked.
\<close>

theorem authority_checks_are_exact:
  assumes "authority_run is_uuid us (Some cap) = (rs, final)" and "\<not> cap_revoked cap"
  shows "\<exists>oks n. rs = map Inr oks @ replicate n (Inl TERMINAL_AUTHORITY_REVOKED)
     \<and> length oks + n = length us
     \<and> (\<forall>i < length oks. justified is_uuid cap (0 < i \<or> cap_admitted cap) (us ! i)
          \<and> cap_binding (oks ! i) = cap_binding cap \<and> cap_state (oks ! i) = cap_state cap)
     \<and> sorted (double_value (cap_lastMonotonic cap) # map use_time (take (length oks) us))
     \<and> (0 < n \<longrightarrow> \<not> (justified is_uuid cap (oks \<noteq> [] \<or> cap_admitted cap) (us ! length oks)
          \<and> last (double_value (cap_lastMonotonic cap) # map use_time (take (length oks) us))
              \<le> use_time (us ! length oks)))"
  using assms
proof (induction us arbitrary: cap rs)
  case Nil
  then show ?case by auto
next
  case (Cons u us)
  let ?ok = "justified is_uuid cap (cap_admitted cap) u \<and> double_value (cap_lastMonotonic cap) \<le> use_time u"
  show ?case
  proof (cases ?ok)
    case False
    then obtain rs' where "authority_run is_uuid us (Some (cap\<lparr>cap_revoked := True\<rparr>)) = (rs', final)"
      "rs = Inl TERMINAL_AUTHORITY_REVOKED # rs'"
      using Cons.prems by (auto simp: check_exact split: prod.splits)
    with revoked_results [of "cap\<lparr>cap_revoked := True\<rparr>"] False show ?thesis
      by (intro exI [of _ "[]"] exI [of _ "Suc (length us)"]) auto
  next
    case True
    define v where "v = passed_token u cap"
    have v: "double_value (cap_lastMonotonic v) = use_time u" "cap_admitted v" "\<not> cap_revoked v"
      using passed_token_time [of is_uuid cap "cap_admitted cap" u] True Cons.prems(2) by (auto simp: v_def)
    obtain rs' where run: "authority_run is_uuid us (Some v) = (rs', final)" and rs: "rs = Inr v # rs'"
      using Cons.prems True by (auto simp: check_exact v_def split: prod.splits)
    have keeps: "cap_binding v = cap_binding cap" "cap_state v = cap_state cap"
      "\<And>a x. justified is_uuid v a x = justified is_uuid cap a x" "cap_admitted v = True"
      using v(2) by (simp_all add: v_def)
    obtain oks n where IH:
      "rs' = map Inr oks @ replicate n (Inl TERMINAL_AUTHORITY_REVOKED)" "length oks + n = length us"
      "\<forall>i < length oks. justified is_uuid cap True (us ! i) \<and> cap_binding (oks ! i) = cap_binding cap
          \<and> cap_state (oks ! i) = cap_state cap"
      "sorted (use_time u # map use_time (take (length oks) us))"
      "0 < n \<longrightarrow> \<not> (justified is_uuid cap True (us ! length oks)
          \<and> last (use_time u # map use_time (take (length oks) us)) \<le> use_time (us ! length oks))"
      using Cons.IH [OF run v(3)] unfolding keeps v(1) simp_thms by blast
    have "\<forall>i < length (v # oks). justified is_uuid cap (0 < i \<or> cap_admitted cap) ((u # us) ! i)
          \<and> cap_binding ((v # oks) ! i) = cap_binding cap \<and> cap_state ((v # oks) ! i) = cap_state cap"
      using IH(3) True by (auto simp: nth_Cons v_def split: nat.split)
    moreover have "sorted (double_value (cap_lastMonotonic cap) # map use_time (take (length (v # oks)) (u # us)))"
      using IH(4) True by auto
    ultimately show ?thesis
      using IH(1,2,5) rs by (intro exI [of _ "v # oks"] exI [of _ n]) simp
  qed
qed

definition sample_owner :: OwnedIntentOwner where
  "sample_owner = \<lparr>ow_jobId = ''j'', ow_attempt = 1, ow_repositoryId = ''repo'', ow_sessionId = ''s'',
     ow_ownerGeneration = ''g''\<rparr>"

definition sample_binding :: TerminalAuthorityBinding where
  "sample_binding = \<lparr>tb_owner = sample_owner, tb_expectedVersion = 3,
     tb_operation = Op_native Outcome_succeeded 4\<rparr>"

definition alive :: lifetime_view where
  "alive = \<lparr>lv_currentEpoch = True, lv_sameSignal = True, lv_isSignal = True, lv_epochAborted = False,
     lv_signalAborted = False, lv_lifetimeAborted = False\<rparr>"

definition sample_use :: "CoordinationClockSample option \<Rightarrow> authority_use" where
  "sample_use clock = \<lparr>au_first = True,
     au_reading = \<lparr>rd_first = alive, rd_clock = clock, rd_second = alive\<rparr>, au_binding = sample_binding\<rparr>"

definition sample_token :: "CoordinationTiming \<Rightarrow> Capability" where
  "sample_token timing = \<lparr>cap_binding = sample_binding, cap_state = sample_payload,
     cap_bindingKey = ownedJson (binding_value sample_binding), cap_timing = timing,
     cap_commandDeadline = None, cap_lastMonotonic = 0, cap_admitted = False, cap_revoked = False\<rparr>"

lemma sample_captured:
  "captureTerminalBinding (\<lambda>_. True) (binding_value sample_binding) = Some sample_binding"
  by code_simp

lemma sample_use_passes:
  assumes "admitTiming (\<lambda>_. True) sample_state zero_sample zero_sample Effect = Some t"
  shows "check_authority (\<lambda>_. True) True (au_reading (sample_use (Some zero_sample))) sample_binding
      (Some (sample_token t))
    = (Inr ((sample_token t)\<lparr>cap_admitted := True\<rparr>), Some ((sample_token t)\<lparr>cap_admitted := True\<rparr>))"
proof -
  have "isCoordinationTimingCurrent t zero_sample True False"
    using sample_current [OF assms] by (simp add: isCoordinationTimingCurrent_def)
  then show ?thesis
    by (simp add: check_authority_def sample_captured checkCurrent_def checkLifetime_def sampleClock_def
        sample_use_def sample_token_def alive_def Let_def)
      (simp add: sample_binding_def zero_sample_def)
qed

theorem authority_checks_are_exact_witness:
  "\<exists>t v. fst (authority_run (\<lambda>_. True) [sample_use (Some zero_sample), sample_use None,
       sample_use (Some zero_sample)] (Some (sample_token t)))
     = [Inr v, Inl TERMINAL_AUTHORITY_REVOKED, Inl TERMINAL_AUTHORITY_REVOKED]
     \<and> cap_state v = sample_payload
     \<and> justified (\<lambda>_. True) (sample_token t) False (sample_use (Some zero_sample))"
proof -
  obtain t where t: "admitTiming (\<lambda>_. True) sample_state zero_sample zero_sample Effect = Some t"
    using sample_admitted by blast
  let ?us = "[sample_use (Some zero_sample), sample_use None, sample_use (Some zero_sample)]"
  obtain rs final where run: "authority_run (\<lambda>_. True) ?us (Some (sample_token t)) = (rs, final)" by force
  have fresh: "\<not> cap_revoked (sample_token t)" "\<not> cap_admitted (sample_token t)" by (simp_all add: sample_token_def)
  obtain oks n where
    rs: "rs = map Inr oks @ replicate n (Inl TERMINAL_AUTHORITY_REVOKED)" "length oks + n = length ?us"
    and ok: "\<forall>i < length oks. justified (\<lambda>_. True) (sample_token t) (0 < i \<or> cap_admitted (sample_token t)) (?us ! i)
      \<and> cap_state (oks ! i) = cap_state (sample_token t)"
    using authority_checks_are_exact [OF run fresh(1)] by blast
  have "au_first (sample_use c)" "au_binding (sample_use c) = sample_binding" for c
    by (simp_all add: sample_use_def)
  then obtain v w rs' where "rs = Inr v # Inl w # rs'"
    using run sample_use_passes [OF t]
    by (auto simp: no_clock_refused sample_use_def split: prod.splits)
  then obtain v' where v': "oks = [v']"
    using rs(1) by (cases oks; cases "tl oks"; cases n) auto
  with rs(2) have "n = 2" by simp
  with rs(1) v' have "rs = [Inr v', Inl TERMINAL_AUTHORITY_REVOKED, Inl TERMINAL_AUTHORITY_REVOKED]"
    by (simp add: numeral_2_eq_2)
  with run ok v' fresh(2) show ?thesis
    by (intro exI [of _ t] exI [of _ v']) (auto simp: sample_token_def)
qed

end
