(* ===== verification/Owned_Terminal.thy ===== *)
theory Owned_Terminal
  imports Terminal_Authority
begin

section \<open>Terminal records\<close>

text \<open>
  \<open>packages/harness-plugin/src/store/owned-terminal.ts\<close>: the record by which an owned attempt ends,
  the proposal it comes from, and what both must satisfy. SHA-256 and the parser of URLs are
  parameters, gathered in \<open>terminal_env\<close>; \<open>decodeURIComponent\<close> is modelled.
\<close>

record url_parts =
  url_username :: "int list"
  url_password :: "int list"
  url_search :: "int list"
  url_hash :: "int list"
  url_protocol :: "int list"
  url_cleared_href :: "int list"

record terminal_env =
  te_is_uuid :: "string \<Rightarrow> bool"
  te_sha256 :: "int list \<Rightarrow> int list"
  te_new_URL :: "int list \<Rightarrow> url_parts option"

definition terminalKey :: "OwnedIntentOwner \<Rightarrow> string" where
  "terminalKey owner = ''owned-terminal-v1:'' @ ow_jobId owner @ '':'' @ show_int (ow_attempt owner)"

definition generic_event_types :: "string list" where
  "generic_event_types = [''stage.changed'', ''progress.updated'', ''tool.started'', ''tool.finished'']"

definition forbiddenOwnedGeneric :: "ConnectorClientMessage \<Rightarrow> uval option \<Rightarrow> bool" where
  "forbiddenOwnedGeneric message originalPayload =
     (case cm_payload message of
        WasCancelled _ \<Rightarrow> True
      | Event _ \<Rightarrow>
          let raw = (\<lambda>key. Option.bind originalPayload (\<lambda>u. member u key)) in
          (case raw ''event_type'' of Some (UStr s) \<Rightarrow> s \<notin> set (map units generic_event_types) | _ \<Rightarrow> True)
          \<or> (case raw ''payload'' of Some u \<Rightarrow> member u ''status'' \<noteq> None | None \<Rightarrow> False)
      | _ \<Rightarrow> False)"

subsection \<open>Percent decoding\<close>

definition read_pct :: "int list \<Rightarrow> (int \<times> int list) option" where
  "read_pct s =
     (case s of
        p # h # l # t \<Rightarrow>
          if p = 37 then
            (case (hex_digit_value h, hex_digit_value l) of
               (Some a, Some b) \<Rightarrow> Some (16 * a + b, t) | _ \<Rightarrow> None)
          else None
      | _ \<Rightarrow> None)"

fun read_continuations :: "nat \<Rightarrow> int \<Rightarrow> int list \<Rightarrow> (int \<times> int list) option" where
  "read_continuations 0 acc s = Some (acc, s)"
| "read_continuations (Suc n) acc s =
     (case read_pct s of
        Some (b, t) \<Rightarrow>
          if between 128 191 b then read_continuations n (64 * acc + (b - 128)) t else None
      | None \<Rightarrow> None)"

definition utf16 :: "int \<Rightarrow> int list" where
  "utf16 c = (if c < 65536 then [c] else [55296 + (c - 65536) div 1024, 56320 + (c - 65536) mod 1024])"

definition read_encoded :: "int list \<Rightarrow> (int list \<times> int list) option" where
  "read_encoded s =
     Option.bind (read_pct s) (\<lambda>(b, t).
     if b < 128 then Some ([b], t)
     else
       Option.bind
         (if between 192 223 b then Some (1, b - 192, 128) else if between 224 239 b then Some (2, b - 224, 2048)
          else if between 240 247 b then Some (3, b - 240, 65536) else None) (\<lambda>(n, start, least).
       Option.bind (read_continuations n start t) (\<lambda>(c, t').
       if c < least \<or> c > 1114111 \<or> between 55296 57343 c then None else Some (utf16 c, t'))))"

lemma read_pct_length: "read_pct s = Some (b, t) \<Longrightarrow> length t < length s"
  by (auto simp: read_pct_def split: list.splits if_splits option.splits)

lemma read_continuations_length: "read_continuations n acc s = Some (c, t) \<Longrightarrow> length t \<le> length s"
proof (induction n acc s rule: read_continuations.induct)
  case (2 n acc s)
  then show ?case
    by (auto split: option.splits if_splits dest!: read_pct_length) (meson le_trans less_imp_le_nat)
qed simp

lemma read_encoded_length: "read_encoded s = Some (u, t) \<Longrightarrow> length t < length s"
  by (auto simp: read_encoded_def Option.bind_eq_Some_conv simp del: read_continuations.simps
      split: if_splits dest!: read_pct_length read_continuations_length)

function decodeURIComponent :: "int list \<Rightarrow> int list option" where
  "decodeURIComponent s =
     (case s of
        [] \<Rightarrow> Some []
      | c # t \<Rightarrow>
          if c = 37 then
            (case read_encoded s of
               Some (u, t') \<Rightarrow> map_option ((@) u) (decodeURIComponent t')
             | None \<Rightarrow> None)
          else map_option ((#) c) (decodeURIComponent t))"
  by pat_completeness auto
termination
  by (relation "measure length") (auto dest: read_encoded_length)

declare decodeURIComponent.simps [simp del]

lemma decode_examples:
  "decodeURIComponent (units ''a%2Fb%C3%A9'') = Some (units ''a/b'' @ [233])"
  "decodeURIComponent (units ''%C0%80'') = None" "decodeURIComponent (units ''%E2%82%AC'') = Some [8364]"
  by code_simp+

subsection \<open>The result of a job, minimized\<close>

definition is_control :: "int \<Rightarrow> bool" where
  "is_control c = (c < 32 \<or> between 127 159 c \<or> c = 8232 \<or> c = 8233)"

fun the_units :: "uval \<Rightarrow> int list option" where
  "the_units (UStr s) = Some s"
| "the_units v = None"

definition text_ok :: "(int list \<Rightarrow> bool) \<Rightarrow> uval \<Rightarrow> bool" where
  "text_ok ok v = (case v of UStr s \<Rightarrow> ok s | _ \<Rightarrow> False)"

definition humanText :: "int list \<Rightarrow> bool" where
  "humanText s = (s \<noteq> [] \<and> utf8_bytes s \<le> 500 \<and> trim_text s = s \<and> \<not> list_ex is_control s)"

definition stage_pattern :: "int list \<Rightarrow> bool" where
  "stage_pattern s =
     (case s of
        [] \<Rightarrow> False
      | c # t \<Rightarrow> between 97 122 c \<and> length t \<le> 63
          \<and> list_all (\<lambda>d. between 97 122 d \<or> is_dec d \<or> d = 46 \<or> d = 95 \<or> d = 45) t)"

definition starts_with_drive :: "int list \<Rightarrow> bool" where
  "starts_with_drive s = (case s of c # d # _ \<Rightarrow> is_alpha c \<and> d = 58 | _ \<Rightarrow> False)"

definition relative_file :: "int list \<Rightarrow> bool" where
  "relative_file s =
     (s \<noteq> [] \<and> utf8_bytes s \<le> 500
      \<and> \<not> (list_ex (\<lambda>c. is_control c \<or> c = 92) s \<or> starts_with_drive s \<or> take 1 s = [126]
           \<or> take 5 s = units ''file:'')
      \<and> list_all (\<lambda>part. part \<noteq> [] \<and> part \<noteq> [46] \<and> part \<noteq> [46, 46]) (split_slash s))"

definition media_pattern :: pat where
  "media_pattern =
     (let part = PSeq (PChar is_alnum) (PStar (PChar (alnum_or ''!#$&^_.+-''))) in
      PSeqs [PStart, part, PLit ''/'', part, PEnd])"

definition safe_url :: "(int list \<Rightarrow> url_parts option) \<Rightarrow> int list \<Rightarrow> bool" where
  "safe_url new_URL s =
     (case new_URL s of
        None \<Rightarrow> False
      | Some url \<Rightarrow>
          url_username url = [] \<and> url_password url = [] \<and> url_search url = [] \<and> url_hash url = []
          \<and> utf8_bytes s \<le> 500 \<and> url_protocol url \<in> {units ''http:'', units ''https:''}
          \<and> url_cleared_href url = s
          \<and> (case decodeURIComponent s of None \<Rightarrow> False | Some d \<Rightarrow> \<not> list_ex is_control d))"

definition only_keys :: "string list \<Rightarrow> (int list \<times> uval) list \<Rightarrow> bool" where
  "only_keys keys fs = list_all (\<lambda>f. fst f \<in> set (map units keys)) fs"

definition required :: "(uval \<Rightarrow> bool) \<Rightarrow> (int list \<times> uval) list \<Rightarrow> string \<Rightarrow> bool" where
  "required ok fs key = (case map_of fs (units key) of None \<Rightarrow> False | Some v \<Rightarrow> ok v)"

definition optionally :: "(uval \<Rightarrow> bool) \<Rightarrow> (int list \<times> uval) list \<Rightarrow> string \<Rightarrow> bool" where
  "optionally ok fs key = (case map_of fs (units key) of None \<Rightarrow> True | Some v \<Rightarrow> ok v)"

definition count_field :: "uval \<Rightarrow> int option" where
  "count_field v = bounded_int 0 MAX_SAFE_INTEGER (wire_value v)"

definition tests_ok :: "uval \<Rightarrow> bool" where
  "tests_ok v =
     (case v of
        UObj fs \<Rightarrow>
          only_keys [''passed'', ''failed'', ''total''] fs
          \<and> (case (Option.bind (map_of fs (units ''passed'')) count_field,
                   Option.bind (map_of fs (units ''failed'')) count_field) of
               (Some passed, Some failed) \<Rightarrow>
                 isSafeInteger (passed + failed)
                 \<and> optionally (\<lambda>t. case count_field t of None \<Rightarrow> False | Some n \<Rightarrow> n \<ge> passed + failed)
                     fs ''total''
             | _ \<Rightarrow> False)
      | _ \<Rightarrow> False)"

definition artifact_ok :: "(int list \<Rightarrow> url_parts option) \<Rightarrow> uval \<Rightarrow> bool" where
  "artifact_ok new_URL v =
     (case v of
        UObj fs \<Rightarrow>
          only_keys [''name'', ''media_type'', ''url''] fs
          \<and> required (text_ok humanText) fs ''name''
          \<and> required (text_ok (\<lambda>s. length s \<le> 127 \<and> rx_test media_pattern s)) fs ''media_type''
          \<and> required (text_ok (safe_url new_URL)) fs ''url''
      | _ \<Rightarrow> False)"

definition array_of :: "nat \<Rightarrow> (uval \<Rightarrow> bool) \<Rightarrow> uval \<Rightarrow> bool" where
  "array_of most ok v = (case v of UArr vs \<Rightarrow> length vs \<le> most \<and> list_all ok vs | _ \<Rightarrow> False)"

definition minimizedProjection :: "(int list \<Rightarrow> url_parts option) \<Rightarrow> (int list \<times> uval) list \<Rightarrow> bool" where
  "minimizedProjection new_URL fs =
     (only_keys [''summary'', ''stage'', ''changed_files'', ''tests'', ''artifacts''] fs
      \<and> required (text_ok humanText) fs ''summary''
      \<and> optionally (text_ok stage_pattern) fs ''stage''
      \<and> optionally (array_of 50 (text_ok relative_file)) fs ''changed_files''
      \<and> optionally tests_ok fs ''tests''
      \<and> optionally (array_of 32 (artifact_ok new_URL)) fs ''artifacts''
      \<and> SafeEventPayloadSchema fs)"

subsection \<open>Correlation ids\<close>

definition hex_byte :: "int \<Rightarrow> string" where
  "hex_byte b = [hex_digit (nat (b div 16)), hex_digit (nat (b mod 16))]"

definition operation_identity :: "TerminalOperation \<Rightarrow> uval" where
  "operation_identity op =
     (case op of Op_native _ n \<Rightarrow> nval n | Op_cancel n \<Rightarrow> nval n | _ \<Rightarrow> UNull)"

definition correlation_text :: "TerminalAuthorityBinding \<Rightarrow> int list" where
  "correlation_text b =
     (let w = tb_owner b in
      json_stringify (UArr
        [sval ''qhb-owned-terminal-v1'', sval (ow_jobId w), nval (ow_attempt w), sval (ow_repositoryId w),
         sval (ow_sessionId w), sval (ow_ownerGeneration w), sval (operation_kind (tb_operation b)),
         operation_identity (tb_operation b)]))"

definition terminalCorrelation :: "terminal_env \<Rightarrow> TerminalAuthorityBinding \<Rightarrow> string option" where
  "terminalCorrelation env input =
     (case captureTerminalBinding (te_is_uuid env) (binding_value input) of
        None \<Rightarrow> None
      | Some b \<Rightarrow>
          if tb_operation b = Op_reconcile then None
          else
            let digest = take 16 (te_sha256 env (correlation_text b));
                digest1 = digest[6 := (digest ! 6) mod 16 + 128];
                digest2 = digest1[8 := (digest1 ! 8) mod 64 + 128];
                hex = concat (map hex_byte digest2) in
            Some (take 8 hex @ ''-'' @ take 4 (drop 8 hex) @ ''-'' @ take 4 (drop 12 hex) @ ''-''
              @ take 4 (drop 16 hex) @ ''-'' @ drop 20 hex))"

subsection \<open>Proposals\<close>

record TerminalProposal =
  tp_binding :: TerminalAuthorityBinding
  tp_correlationId :: string
  tp_type :: string
  tp_payload :: uval

fun capturable :: "nat \<Rightarrow> uval \<Rightarrow> bool" where
  "capturable depth (UArr vs) = (depth \<le> 32 \<and> list_all (capturable (depth + 1)) vs)"
| "capturable depth (UObj fs) =
     (depth \<le> 32
      \<and> list_all (\<lambda>(k, v). k \<noteq> units ''toJSON'' \<and> k \<noteq> units ''__proto__'' \<and> capturable (depth + 1) v) fs)"
| "capturable depth v = (depth \<le> 32)"

definition proposal_message :: "TerminalProposal \<Rightarrow> uval" where
  "proposal_message p =
     fields_value [(''protocol_version'', sval ''1.0''), (''message_id'', sval (tp_correlationId p)),
       (''correlation_id'', sval (tp_correlationId p)), (''sequence'', nval 1),
       (''sent_at'', sval ''2026-09-01T00:00:00Z''), (''expires_at'', sval ''2026-09-01T00:01:00Z''),
       (''type'', sval (tp_type p)), (''payload'', tp_payload p)]"

definition job_of_payload :: "client_payload \<Rightarrow> (string \<times> int) option" where
  "job_of_payload p =
     (case p of
        Event e \<Rightarrow> Some (je_job_id e, je_attempt e)
      | WasCancelled c \<Rightarrow> Some (jx_job_id c, jx_attempt c)
      | _ \<Rightarrow> None)"

definition validateTerminalProposal :: "terminal_env \<Rightarrow> TerminalProposal \<Rightarrow> JobStatus option" where
  "validateTerminalProposal env p =
     (let b = tp_binding p; owner = tb_owner b in
      if terminalCorrelation env b \<noteq> Some (tp_correlationId p) then None
      else
        Option.bind (ConnectorClientMessageSchema (te_is_uuid env) (proposal_message p)) (\<lambda>message.
        if job_of_payload (cm_payload message) \<noteq> Some (ow_jobId owner, ow_attempt owner)
           \<or> ownedJson (client_value (cm_payload message)) \<noteq> ownedJson (tp_payload p) then None
        else case tb_operation b of
            Op_cancel _ \<Rightarrow>
              (case cm_payload message of
                 WasCancelled c \<Rightarrow> if jx_reason c = ''Cancelled by owner'' then Some Cancelled else None
               | _ \<Rightarrow> None)
          | operation \<Rightarrow>
              let outcome = (case operation of Op_native r _ \<Rightarrow> r | _ \<Rightarrow> Outcome_failed) in
              (case cm_payload message of
                 Event e \<Rightarrow>
                   if je_event_type e \<noteq> ''job.'' @ outcome_string outcome \<or> je_source e \<noteq> ''harness''
                      \<or> (case operation of
                           Op_native _ _ \<Rightarrow> \<not> minimizedProjection (te_new_URL env) (je_payload e)
                         | Op_unavailable reason \<Rightarrow>
                             ownedJson (UObj (je_payload e)) \<noteq> ownedJson (fields_value
                               [(''stage'', sval ''failed''), (''summary'', sval (unavailable_string reason))])
                         | _ \<Rightarrow> False)
                   then None
                   else Some (case outcome of Outcome_succeeded \<Rightarrow> Succeeded | Outcome_failed \<Rightarrow> Failed)
               | _ \<Rightarrow> None)))"

definition captureTerminalProposal :: "terminal_env \<Rightarrow> uval \<Rightarrow> owned_error + TerminalProposal" where
  "captureTerminalProposal env input =
     (case input of
        UObj fs \<Rightarrow>
          if \<not> capturable 0 input \<or> set (map fst fs) \<noteq> set (map units [''binding'', ''correlationId'', ''payload'', ''type''])
          then Inl OWNED_INTENT_INVALID
          else (case (Option.bind (member input ''binding'') (captureTerminalBinding (te_is_uuid env)),
                      Option.bind (member input ''correlationId'') the_units,
                      Option.bind (member input ''type'') the_units, member input ''payload'') of
              (Some b, Some correlationId, Some type, Some payload) \<Rightarrow>
                let p = \<lparr>tp_binding = b, tp_correlationId = text_of correlationId, tp_type = text_of type,
                  tp_payload = payload\<rparr> in
                if tb_operation b = Op_reconcile \<or> validateTerminalProposal env p = None
                then Inl OWNED_INTENT_INVALID else Inr p
            | _ \<Rightarrow> Inl OWNED_INTENT_INVALID)
      | _ \<Rightarrow> Inl OWNED_INTENT_INVALID)"

subsection \<open>Records\<close>

record terminal_outbound =
  to_messageId :: string
  to_sequence :: int
  to_sentAt :: string

record LocalTerminalRecord =
  lt_predecessor :: OwnedIntent
  lt_committedVersion :: int
  lt_operation :: TerminalOperation
  lt_correlationId :: string
  lt_type :: string
  lt_payload :: uval
  lt_status :: JobStatus
  lt_outbound :: terminal_outbound

record RemoteTerminalRecord =
  rt_predecessor :: OwnedIntent
  rt_committedVersion :: int
  rt_status :: JobStatus
  rt_state :: JobStatePayload

datatype TerminalRecord = LocalTerminal LocalTerminalRecord | RemoteTerminal RemoteTerminalRecord

definition record_predecessor :: "TerminalRecord \<Rightarrow> OwnedIntent" where
  "record_predecessor r = (case r of LocalTerminal t \<Rightarrow> lt_predecessor t | RemoteTerminal t \<Rightarrow> rt_predecessor t)"

definition record_version :: "TerminalRecord \<Rightarrow> int" where
  "record_version r =
     (case r of LocalTerminal t \<Rightarrow> lt_committedVersion t | RemoteTerminal t \<Rightarrow> rt_committedVersion t)"

definition record_status :: "TerminalRecord \<Rightarrow> JobStatus" where
  "record_status r = (case r of LocalTerminal t \<Rightarrow> lt_status t | RemoteTerminal t \<Rightarrow> rt_status t)"

definition status_among :: "JobStatus list \<Rightarrow> jsval \<Rightarrow> JobStatus option" where
  "status_among allowed v =
     (case status_of v of Some s \<Rightarrow> if s \<in> set allowed then Some s else None | None \<Rightarrow> None)"

definition outbound_fields :: "(string \<Rightarrow> bool) \<Rightarrow> jsval \<Rightarrow> terminal_outbound option" where
  "outbound_fields is_uuid v =
     Option.bind (strict_object [''messageId'', ''sequence'', ''sentAt''] v) (\<lambda>fs.
     Option.bind (UuidSchema is_uuid (get_prop fs ''messageId'')) (\<lambda>messageId.
     Option.bind (PositiveIntegerSchema (get_prop fs ''sequence'')) (\<lambda>sequence.
     Option.bind (TimestampSchema (get_prop fs ''sentAt'')) (\<lambda>sentAt.
     Some \<lparr>to_messageId = messageId, to_sequence = sequence, to_sentAt = sentAt\<rparr>))))"

definition local_schema :: "(string \<Rightarrow> bool) \<Rightarrow> uval \<Rightarrow> LocalTerminalRecord option" where
  "local_schema is_uuid u =
     Option.bind (strict_object
       [''schemaVersion'', ''predecessor'', ''committedVersion'', ''kind'', ''operation'',
        ''correlationId'', ''type'', ''payload'', ''status'', ''outbound''] (wire_value u)) (\<lambda>fs.
     if get_prop fs ''schemaVersion'' \<noteq> JNum 1
        \<or> get_prop fs ''type'' \<notin> {JStr ''job.event'', JStr ''job.cancelled''} then None else
     Option.bind (Option.bind (member u ''predecessor'') (NonterminalOwnedIntentSchema is_uuid)) (\<lambda>predecessor.
     Option.bind (OwnedVersionSchema (get_prop fs ''committedVersion'')) (\<lambda>committedVersion.
     Option.bind (TerminalOperationSchema (get_prop fs ''operation'')) (\<lambda>operation.
     if operation = Op_reconcile then None else
     Option.bind (UuidSchema is_uuid (get_prop fs ''correlationId'')) (\<lambda>correlationId.
     Option.bind (the_str (get_prop fs ''type'')) (\<lambda>type.
     Option.bind (member u ''payload'') (\<lambda>payload.
     Option.bind (status_among [Succeeded, Failed, Cancelled] (get_prop fs ''status'')) (\<lambda>status.
     Option.bind (outbound_fields is_uuid (get_prop fs ''outbound'')) (\<lambda>outbound.
     Some \<lparr>lt_predecessor = predecessor, lt_committedVersion = committedVersion, lt_operation = operation,
       lt_correlationId = correlationId, lt_type = type, lt_payload = payload, lt_status = status,
       lt_outbound = outbound\<rparr>)))))))))"

definition remote_schema :: "(string \<Rightarrow> bool) \<Rightarrow> uval \<Rightarrow> RemoteTerminalRecord option" where
  "remote_schema is_uuid u =
     Option.bind (strict_object
       [''schemaVersion'', ''predecessor'', ''committedVersion'', ''kind'', ''status'', ''state'']
       (wire_value u)) (\<lambda>fs.
     if get_prop fs ''schemaVersion'' \<noteq> JNum 1 then None else
     Option.bind (Option.bind (member u ''predecessor'') (NonterminalOwnedIntentSchema is_uuid)) (\<lambda>predecessor.
     Option.bind (OwnedVersionSchema (get_prop fs ''committedVersion'')) (\<lambda>committedVersion.
     Option.bind (status_among [Succeeded, Failed, Cancelled, Expired] (get_prop fs ''status'')) (\<lambda>status.
     Option.bind (JobStatePayloadSchema is_uuid (get_prop fs ''state'')) (\<lambda>state.
     Some \<lparr>rt_predecessor = predecessor, rt_committedVersion = committedVersion, rt_status = status,
       rt_state = state\<rparr>)))))"

definition TerminalRecordSchema :: "(string \<Rightarrow> bool) \<Rightarrow> uval \<Rightarrow> TerminalRecord option" where
  "TerminalRecordSchema is_uuid u =
     (case map_option wire_value (member u ''kind'') of
        Some (JStr kind) \<Rightarrow>
          if kind = ''local'' then map_option LocalTerminal (local_schema is_uuid u)
          else if kind = ''remote'' then map_option RemoteTerminal (remote_schema is_uuid u)
          else None
      | _ \<Rightarrow> None)"

definition record_value :: "TerminalRecord \<Rightarrow> uval" where
  "record_value r =
     fields_value ([(''schemaVersion'', nval 1), (''predecessor'', intent_value (record_predecessor r)),
         (''committedVersion'', nval (record_version r)), (''status'', sval (status_string (record_status r)))]
       @ (case r of
            LocalTerminal t \<Rightarrow>
              [(''kind'', sval ''local''), (''operation'', operation_value (lt_operation t)),
               (''correlationId'', sval (lt_correlationId t)), (''type'', sval (lt_type t)),
               (''payload'', lt_payload t),
               (''outbound'', fields_value
                  [(''messageId'', sval (to_messageId (lt_outbound t))),
                   (''sequence'', nval (to_sequence (lt_outbound t))),
                   (''sentAt'', sval (to_sentAt (lt_outbound t)))])]
          | RemoteTerminal t \<Rightarrow> [(''kind'', sval ''remote''), (''state'', state_value (rt_state t))]))"

definition native_possible :: "OwnedIntent \<Rightarrow> TerminalOperation \<Rightarrow> bool" where
  "native_possible predecessor operation =
     (case operation of
        Op_native _ eventSequence \<Rightarrow>
          oi_phase predecessor = Started \<and> oi_unavailable predecessor = None
          \<and> (case oi_startedEvidence predecessor of
               None \<Rightarrow> False | Some e \<Rightarrow> eventSequence \<ge> ev_eventSequence e)
      | Op_unavailable reason \<Rightarrow> oi_unavailable predecessor = Some reason
      | _ \<Rightarrow> True)"

definition record_consistent :: "terminal_env \<Rightarrow> TerminalRecord \<Rightarrow> bool" where
  "record_consistent env r =
     (case r of
        LocalTerminal t \<Rightarrow>
          native_possible (lt_predecessor t) (lt_operation t)
          \<and> validateTerminalProposal env
              \<lparr>tp_binding = \<lparr>tb_owner = oi_owner (lt_predecessor t),
                 tb_expectedVersion = oi_version (lt_predecessor t), tb_operation = lt_operation t\<rparr>,
               tp_correlationId = lt_correlationId t, tp_type = lt_type t, tp_payload = lt_payload t\<rparr>
             = Some (lt_status t)
      | RemoteTerminal t \<Rightarrow>
          let owner = oi_owner (rt_predecessor t); state = rt_state t in
          oi_mode (rt_predecessor t) = Some (js_mode state) \<and> js_job_id state = ow_jobId owner
          \<and> js_repository_id state = ow_repositoryId owner \<and> js_current_attempt state = ow_attempt owner
          \<and> js_requested_attempt state = ow_attempt owner \<and> js_status state = rt_status t)"

definition parseTerminalRecord :: "terminal_env \<Rightarrow> int list \<Rightarrow> owned_error + TerminalRecord" where
  "parseTerminalRecord env s =
     (if utf8_bytes s > 65536 then Inl OWNED_INTENT_CORRUPT
      else case json_parse s of
          None \<Rightarrow> Inl OWNED_INTENT_CORRUPT
        | Some decoded \<Rightarrow>
            (case TerminalRecordSchema (te_is_uuid env) decoded of
               None \<Rightarrow> Inl OWNED_INTENT_CORRUPT
             | Some r \<Rightarrow>
                 if ownedJson decoded \<noteq> ownedJson (record_value r)
                    \<or> oi_version (record_predecessor r) \<ge> MAX_SAFE_INTEGER
                    \<or> record_version r \<noteq> oi_version (record_predecessor r) + 1
                    \<or> \<not> record_consistent env r
                 then Inl OWNED_INTENT_CORRUPT else Inr r))"

end
