(* ===== verification/Plugin_Store.thy ===== *)
theory Plugin_Store
  imports Owned_Terminal
begin

section \<open>The store of the plugin\<close>

text \<open>
  \<open>packages/harness-plugin/src/store/plugin-store.ts\<close> over the four tables of \<open>schema.sql\<close>: the journal
  of inbound frames, the queue of outbound events, the mapping of jobs to sessions, and metadata
  under text keys, which hold delivery marks, receipts of coordination, the transport's prefix and
  the owned intents. Bodies, payloads and values are lists of code units; identifiers are strings.

  A method is a function from its arguments and the store to a result or the thrown error with the
  next store. Its guards come first, in the order of the code; its transaction runs on the tables
  and leaves them unchanged when it throws. The time of a write is an argument. \<open>store_env\<close> holds
  the parameters: zod's test for UUIDs, SHA-256, the URL parser, \<open>Date.parse\<close>, and \<open>json_extract\<close> of SQLite
  for the correlation id of a stored text.
\<close>

datatype plugin_error =
    StoreError string
  | StoreSequenceError
  | StoreInboundConflictError
  | OwnedIntentError owned_error
  | TerminalAuthorityError authority_error
  | OtherError

record store_env =
  en_terminal :: terminal_env
  en_sha256_hex :: "string \<Rightarrow> string"
  en_date_parse :: "uval option \<Rightarrow> int option"
  en_json_correlation :: "int list \<Rightarrow> string option"

abbreviation en_is_uuid :: "store_env \<Rightarrow> string \<Rightarrow> bool" where
  "en_is_uuid env \<equiv> te_is_uuid (en_terminal env)"

subsection \<open>Tables\<close>

record inbound_row =
  in_message_id :: string
  in_sequence :: int
  in_body :: "int list"
  in_received_at :: string

record mapping_row =
  mp_job_id :: string
  mp_attempt :: int
  mp_session_id :: string
  mp_status :: string
  mp_updated_at :: string

record outbound_row =
  ob_message_id :: string
  ob_sequence :: int
  ob_payload_json :: "int list"
  ob_attempts :: int
  ob_acknowledged_at :: "string option"
  ob_created_at :: string

record plugin_db =
  pl_inbound :: "inbound_row list"
  pl_mappings :: "mapping_row list"
  pl_outbound :: "outbound_row list"
  pl_metadata :: "(string \<times> int list) list"

type_synonym 'a plugin_tx = "(plugin_error, plugin_db, 'a) tx"

record plugin_store =
  pst_db :: plugin_db
  pst_closed :: bool
  pst_terminalBusy :: bool

definition empty_store :: plugin_store where
  "empty_store =
     \<lparr>pst_db = \<lparr>pl_inbound = [], pl_mappings = [], pl_outbound = [], pl_metadata = []\<rparr>,
      pst_closed = False, pst_terminalBusy = False\<rparr>"

text \<open>A query that may throw, and a body whose errors are replaced.\<close>

definition tx_query :: "(plugin_db \<Rightarrow> plugin_error + 'a) \<Rightarrow> 'a plugin_tx" where
  "tx_query f db = (case f db of Inl e \<Rightarrow> Inl e | Inr a \<Rightarrow> Inr (a, db))"

definition tx_rethrow :: "(plugin_error \<Rightarrow> plugin_error) \<Rightarrow> 'a plugin_tx \<Rightarrow> 'a plugin_tx" where
  "tx_rethrow f m db = (case m db of Inl e \<Rightarrow> Inl (f e) | Inr r \<Rightarrow> Inr r)"

definition meta_get :: "string \<Rightarrow> plugin_db \<Rightarrow> int list option" where
  "meta_get key db = map_of (pl_metadata db) key"

definition meta_insert :: "string \<Rightarrow> int list \<Rightarrow> unit plugin_tx" where
  "meta_insert key v db =
     (if key \<in> fst ` set (pl_metadata db) then Inl OtherError
      else Inr ((), db\<lparr>pl_metadata := pl_metadata db @ [(key, v)]\<rparr>))"

definition meta_put :: "string \<Rightarrow> int list \<Rightarrow> unit plugin_tx" where
  "meta_put key v db = Inr ((), db\<lparr>pl_metadata := put_key key v (pl_metadata db)\<rparr>)"

definition meta_delete :: "string list \<Rightarrow> unit plugin_tx" where
  "meta_delete keys db =
     Inr ((), db\<lparr>pl_metadata := filter (\<lambda>(k, v). k \<notin> set keys) (pl_metadata db)\<rparr>)"

definition insert_inbound :: "inbound_row \<Rightarrow> unit plugin_tx" where
  "insert_inbound r db =
     (if in_sequence r < 1 \<or> in_message_id r \<in> in_message_id ` set (pl_inbound db)
         \<or> in_sequence r \<in> in_sequence ` set (pl_inbound db)
      then Inl OtherError else Inr ((), db\<lparr>pl_inbound := pl_inbound db @ [r]\<rparr>))"

definition insert_outbound :: "outbound_row \<Rightarrow> unit plugin_tx" where
  "insert_outbound r db =
     (if ob_sequence r < 1 \<or> ob_message_id r \<in> ob_message_id ` set (pl_outbound db)
         \<or> ob_sequence r \<in> ob_sequence ` set (pl_outbound db)
      then Inl OtherError else Inr ((), db\<lparr>pl_outbound := pl_outbound db @ [r]\<rparr>))"

definition insert_mapping :: "mapping_row \<Rightarrow> unit plugin_tx" where
  "insert_mapping r db =
     (if mp_attempt r < 1 \<or> mp_session_id r \<in> mp_session_id ` set (pl_mappings db)
         \<or> (mp_job_id r, mp_attempt r) \<in> (\<lambda>m. (mp_job_id m, mp_attempt m)) ` set (pl_mappings db)
      then Inl OtherError else Inr ((), db\<lparr>pl_mappings := pl_mappings db @ [r]\<rparr>))"

text \<open>\<open>UPDATE\<close> of the mappings; the result is the number of changed rows.\<close>

definition update_mappings :: "(mapping_row \<Rightarrow> bool) \<Rightarrow> (mapping_row \<Rightarrow> mapping_row) \<Rightarrow> nat plugin_tx" where
  "update_mappings p f db =
     Inr (length (filter p (pl_mappings db)), db\<lparr>pl_mappings := sql_update p f (pl_mappings db)\<rparr>)"

definition update_outbound :: "(outbound_row \<Rightarrow> bool) \<Rightarrow> (outbound_row \<Rightarrow> outbound_row) \<Rightarrow> unit plugin_tx" where
  "update_outbound p f db = Inr ((), db\<lparr>pl_outbound := sql_update p f (pl_outbound db)\<rparr>)"

definition max_of :: "int list \<Rightarrow> int option" where
  "max_of xs = (case xs of [] \<Rightarrow> None | _ \<Rightarrow> Some (foldr max xs (hd xs)))"

subsection \<open>Guards\<close>

definition assertNonEmpty :: "'a list \<Rightarrow> string \<Rightarrow> plugin_error option" where
  "assertNonEmpty v code = (if v = [] then Some (StoreError code) else None)"

definition assertPositiveInteger :: "int \<Rightarrow> string \<Rightarrow> plugin_error option" where
  "assertPositiveInteger v code = (if \<not> isSafeInteger v \<or> v < 1 then Some (StoreError code) else None)"

definition assertNonNegativeInteger :: "int \<Rightarrow> string \<Rightarrow> plugin_error option" where
  "assertNonNegativeInteger v code = (if \<not> isSafeInteger v \<or> v < 0 then Some (StoreError code) else None)"

definition assertNotTerminalMutation :: "plugin_store \<Rightarrow> plugin_error option" where
  "assertNotTerminalMutation st =
     (if pst_terminalBusy st then Some (OwnedIntentError OWNED_INTENT_UNAVAILABLE) else None)"

definition assertOpen :: "plugin_store \<Rightarrow> plugin_error option" where
  "assertOpen st = (if pst_closed st then Some (StoreError ''STORE_CLOSED'') else None)"

fun first_failure :: "plugin_error option list \<Rightarrow> plugin_error option" where
  "first_failure [] = None"
| "first_failure (None # gs) = first_failure gs"
| "first_failure (Some e # gs) = Some e"

definition plugin_write :: "plugin_error option list \<Rightarrow> 'a plugin_tx \<Rightarrow> plugin_store \<Rightarrow> (plugin_error + 'a) \<times> plugin_store" where
  "plugin_write guards body st =
     (case first_failure guards of
        Some e \<Rightarrow> (Inl e, st)
      | None \<Rightarrow> (case transaction body (pst_db st) of (r, db) \<Rightarrow> (r, st\<lparr>pst_db := db\<rparr>)))"

definition plugin_read :: "plugin_error option list \<Rightarrow> (plugin_db \<Rightarrow> plugin_error + 'a) \<Rightarrow> plugin_store \<Rightarrow> plugin_error + 'a" where
  "plugin_read guards f st = (case first_failure guards of Some e \<Rightarrow> Inl e | None \<Rightarrow> f (pst_db st))"

definition res_bind :: "'e + 'a \<Rightarrow> ('a \<Rightarrow> 'e + 'b) \<Rightarrow> 'e + 'b" where
  "res_bind r f = (case r of Inl e \<Rightarrow> Inl e | Inr a \<Rightarrow> f a)"

definition res_option :: "'e \<Rightarrow> 'a option \<Rightarrow> 'e + 'a" where
  "res_option e v = (case v of None \<Rightarrow> Inl e | Some a \<Rightarrow> Inr a)"

definition res_check :: "bool \<Rightarrow> 'e \<Rightarrow> 'e + unit" where
  "res_check ok e = (if ok then Inr () else Inl e)"

definition res_guard :: "'e option \<Rightarrow> 'e + 'a \<Rightarrow> 'e + 'a" where
  "res_guard g r = (case g of Some e \<Rightarrow> Inl e | None \<Rightarrow> r)"

subsection \<open>Values of server messages\<close>

definition server_type :: "server_payload \<Rightarrow> string" where
  "server_type p =
     (case p of
        Welcome _ \<Rightarrow> ''connector.welcome'' | State _ \<Rightarrow> ''job.state'' | Offer _ \<Rightarrow> ''job.offer''
      | Cancel _ \<Rightarrow> ''job.cancel'' | Decision _ \<Rightarrow> ''approval.decision'' | Ack _ \<Rightarrow> ''ack''
      | ProtocolError _ _ \<Rightarrow> ''protocol.error'')"

definition server_payload_value :: "server_payload \<Rightarrow> uval" where
  "server_payload_value p =
     (case p of
        Welcome w \<Rightarrow> fields_value
          ([(''connector_id'', sval (cw_connector_id w))]
           @ (case cw_capabilities w of None \<Rightarrow> [] | Some cs \<Rightarrow> [(''capabilities'', UArr (map sval cs))])
           @ [(''server_sequence'', nval (cw_server_sequence w)), (''replay_from'', nval (cw_replay_from w))])
      | State s \<Rightarrow> state_value s
      | Offer f \<Rightarrow> fields_value
          [(''job_id'', sval (jo_job_id f)), (''attempt'', nval (jo_attempt f)),
           (''lease_id'', sval (jo_lease_id f)), (''repository_id'', sval (jo_repository_id f)),
           (''request'', sval (jo_request f))]
      | Cancel c \<Rightarrow> fields_value
          [(''job_id'', sval (jc_job_id c)), (''attempt'', nval (jc_attempt c)),
           (''job_revision'', nval (jc_job_revision c)), (''reason'', sval (jc_reason c)),
           (''nonce'', sval (jc_nonce c))]
      | Decision d \<Rightarrow> fields_value
          [(''approval_id'', sval (adp_approval_id d)), (''job_id'', sval (adp_job_id d)),
           (''attempt'', nval (adp_attempt d)), (''job_revision'', nval (adp_job_revision d)),
           (''action_fingerprint'', sval (adp_action_fingerprint d)),
           (''decision'', sval (case adp_decision d of
              Connector_Protocol.Approve \<Rightarrow> ''approve'' | Connector_Protocol.Reject \<Rightarrow> ''reject''))]
      | Ack n \<Rightarrow> fields_value [(''sequence'', nval n)]
      | ProtocolError code message \<Rightarrow>
          fields_value [(''code'', sval code), (''message'', sval message)])"

definition envelope_value :: "ConnectorServerMessage \<Rightarrow> string \<Rightarrow> uval \<Rightarrow> uval" where
  "envelope_value m type payload =
     fields_value [(''protocol_version'', sval ''1.0''), (''message_id'', sval (sm_message_id m)),
       (''sequence'', nval (sm_sequence m)), (''sent_at'', sval (sm_sent_at m)),
       (''expires_at'', sval (sm_expires_at m)), (''correlation_id'', sval (sm_correlation_id m)),
       (''type'', sval type), (''payload'', payload)]"

definition server_value :: "ConnectorServerMessage \<Rightarrow> uval" where
  "server_value m = envelope_value m (server_type (sm_payload m)) (server_payload_value (sm_payload m))"

definition canonicalPayload :: "uval \<Rightarrow> int list" where
  "canonicalPayload v =
     json_stringify (case v of UObj fs \<Rightarrow> UObj (js_object (sort_key fst fs)) | _ \<Rightarrow> v)"

subsection \<open>Reading stored texts\<close>

definition parseResponse ::
  "(string \<Rightarrow> bool) \<Rightarrow> string \<Rightarrow> int \<Rightarrow> int list \<Rightarrow> plugin_error + ConnectorServerMessage" where
  "parseResponse is_uuid messageId sequence body =
     res_bind (res_option OtherError (json_parse body)) (\<lambda>decoded.
     res_bind (res_option OtherError (ConnectorServerMessageSchema is_uuid (wire_value decoded))) (\<lambda>parsed.
     res_bind (res_check
       ((case sm_payload parsed of
           ProtocolError code message \<Rightarrow>
             (let raw = (\<lambda>key. Option.bind (member decoded ''payload'') (\<lambda>p. map_option wire_value (member p key))) in
              raw ''code'' = Some (JStr code) \<and> raw ''message'' = Some (JStr message))
         | _ \<Rightarrow> True)
        \<and> sm_message_id parsed = messageId \<and> sm_sequence parsed = sequence) OtherError) (\<lambda>_.
     Inr parsed)))"

definition isExpiryPlaceholder :: "ConnectorServerMessage \<Rightarrow> bool" where
  "isExpiryPlaceholder m =
     (sm_payload m = ProtocolError ''MESSAGE_EXPIRED'' ''A Connector message expired before delivery.'')"

definition parseRequest ::
  "(string \<Rightarrow> bool) \<Rightarrow> string \<Rightarrow> int \<Rightarrow> int list \<Rightarrow> plugin_error + ConnectorClientMessage" where
  "parseRequest is_uuid messageId sequence payload =
     res_bind (res_option OtherError (json_parse payload)) (\<lambda>decoded.
     res_bind (res_option OtherError (ConnectorClientMessageSchema is_uuid decoded)) (\<lambda>parsed.
     if cm_message_id parsed \<noteq> messageId \<or> cm_sequence parsed \<noteq> sequence
     then Inl (StoreError ''STORE_COORDINATION_INVALID'') else Inr parsed))"

text \<open>A member of a decoded value: \<open>null\<close> has none and throws, other values have at most their own.\<close>

definition js_member :: "uval \<Rightarrow> string \<Rightarrow> plugin_error + uval option" where
  "js_member v key = (if v = UNull then Inl OtherError else Inr (member v key))"

text \<open>\<open>Number\<close> of the decimal texts that the store writes; any other text is \<open>NaN\<close> here.\<close>

definition number_of_text :: "int list \<Rightarrow> int option" where
  "number_of_text s =
     (if s \<noteq> [] \<and> list_all is_dec s then Some (dec_value s) else None)"

definition INBOUND_DELIVERED_METADATA_PREFIX :: string where
  "INBOUND_DELIVERED_METADATA_PREFIX = ''inbound-delivered:''"

definition OUTBOUND_PROFILE_PREFIX :: string where
  "OUTBOUND_PROFILE_PREFIX = ''outbound-receipt-profile:''"

definition COORDINATION_PROFILE :: string where
  "COORDINATION_PROFILE = ''job-coordination-v1''"

definition INBOUND_RECEIPT_PREFIX :: string where
  "INBOUND_RECEIPT_PREFIX = ''inbound-coordination-receipt:''"

definition number_units :: "int \<Rightarrow> int list" where
  "number_units n = units (show_int n)"

subsection \<open>Outbound events\<close>

record OutboundEventInput =
  oe_messageId :: string
  oe_sequence :: int
  oe_payload :: "int list"
  oe_expectedReceiptProfile :: "string option"

record StoredOutboundEvent =
  so_messageId :: string
  so_sequence :: int
  so_payload :: "int list"
  so_attempts :: int
  so_acknowledgedAt :: "string option"
  so_expectedReceiptProfile :: "string option"

definition profile_key :: "int \<Rightarrow> string" where
  "profile_key sequence = OUTBOUND_PROFILE_PREFIX @ show_int sequence"

definition storedEvent :: "store_env \<Rightarrow> outbound_row \<Rightarrow> plugin_db \<Rightarrow> plugin_error + StoredOutboundEvent" where
  "storedEvent env row db =
     (let metadata = meta_get (profile_key (ob_sequence row)) db;
          stored = \<lparr>so_messageId = ob_message_id row, so_sequence = ob_sequence row,
            so_payload = ob_payload_json row, so_attempts = ob_attempts row,
            so_acknowledgedAt = ob_acknowledged_at row,
            so_expectedReceiptProfile =
              (if metadata = None then None else Some COORDINATION_PROFILE)\<rparr> in
      case metadata of
        None \<Rightarrow> Inr stored
      | Some v \<Rightarrow>
          if v \<noteq> units COORDINATION_PROFILE
             \<or> isl (parseRequest (en_is_uuid env) (so_messageId stored) (so_sequence stored) (so_payload stored))
          then Inl (StoreError ''STORE_COORDINATION_INVALID'') else Inr stored)"

definition outboundEvent :: "store_env \<Rightarrow> int \<Rightarrow> plugin_db \<Rightarrow> plugin_error + StoredOutboundEvent option" where
  "outboundEvent env sequence db =
     res_guard (assertPositiveInteger sequence ''STORE_SEQUENCE_INVALID'')
       (case first_row (filter (\<lambda>r. ob_sequence r = sequence) (pl_outbound db)) of
          None \<Rightarrow> Inr None
        | Some row \<Rightarrow> res_bind (storedEvent env row db) (\<lambda>e. Inr (Some e)))"

definition maxOutboundSequence :: "plugin_db \<Rightarrow> plugin_error + int" where
  "maxOutboundSequence db =
     (let sequence = (case max_of (map ob_sequence (pl_outbound db)) of None \<Rightarrow> 0 | Some n \<Rightarrow> n) in
      res_guard (assertNonNegativeInteger sequence ''STORE_SEQUENCE_INVALID'') (Inr sequence))"

definition activeHello :: "store_env \<Rightarrow> plugin_db \<Rightarrow> plugin_error + StoredOutboundEvent option" where
  "activeHello env db =
     (case meta_get ''transport-hello'' db of
        None \<Rightarrow> Inr None
      | Some v \<Rightarrow>
          (case number_of_text v of
             None \<Rightarrow> Inl (StoreError ''STORE_SEQUENCE_INVALID'')
           | Some n \<Rightarrow>
               res_bind (outboundEvent env n db) (\<lambda>hello.
               case hello of
                 None \<Rightarrow> Inl (StoreError ''STORE_HELLO_INVALID'')
               | Some h \<Rightarrow>
                   res_bind (res_option OtherError (json_parse (so_payload h))) (\<lambda>decoded.
                   res_bind (js_member decoded ''type'') (\<lambda>type.
                   if type \<noteq> Some (sval ''connector.hello'')
                   then Inl (StoreError ''STORE_HELLO_INVALID'') else Inr (Some h))))))"

definition provenClientSequence :: "plugin_db \<Rightarrow> plugin_error + int" where
  "provenClientSequence db =
     (case (case meta_get ''transport-proven-prefix'' db of None \<Rightarrow> Some 0 | Some v \<Rightarrow> number_of_text v) of
        None \<Rightarrow> Inl (StoreError ''STORE_SEQUENCE_INVALID'')
      | Some n \<Rightarrow>
          res_guard (assertNonNegativeInteger n ''STORE_SEQUENCE_INVALID'')
            (res_bind (maxOutboundSequence db) (\<lambda>latest.
             if n > latest then Inl (StoreError ''STORE_RECEIPT_INVALID'') else Inr n)))"

subsection \<open>Inbound frames\<close>

record StoredInboundMessage =
  si_messageId :: string
  si_sequence :: int
  si_body :: "int list"
  si_delivered :: bool

definition delivered_key :: "string \<Rightarrow> string" where
  "delivered_key messageId = INBOUND_DELIVERED_METADATA_PREFIX @ messageId"

definition is_delivered :: "plugin_db \<Rightarrow> inbound_row \<Rightarrow> bool" where
  "is_delivered db row = (meta_get (delivered_key (in_message_id row)) db = Some (number_units (in_sequence row)))"

definition inbound_value :: "plugin_db \<Rightarrow> inbound_row \<Rightarrow> StoredInboundMessage" where
  "inbound_value db row =
     \<lparr>si_messageId = in_message_id row, si_sequence = in_sequence row, si_body = in_body row,
      si_delivered = is_delivered db row\<rparr>"

definition inboundMessage :: "string \<Rightarrow> plugin_db \<Rightarrow> plugin_error + StoredInboundMessage option" where
  "inboundMessage messageId db =
     res_guard (assertNonEmpty messageId ''STORE_MESSAGE_ID_REQUIRED'')
       (Inr (map_option (inbound_value db)
         (first_row (filter (\<lambda>r. in_message_id r = messageId) (pl_inbound db)))))"

definition inboundMessageBySequence :: "int \<Rightarrow> plugin_db \<Rightarrow> plugin_error + StoredInboundMessage option" where
  "inboundMessageBySequence sequence db =
     res_guard (assertPositiveInteger sequence ''STORE_SEQUENCE_INVALID'')
       (case first_row (filter (\<lambda>r. in_sequence r = sequence) (pl_inbound db)) of
          None \<Rightarrow> Inr None
        | Some row \<Rightarrow> inboundMessage (in_message_id row) db)"

definition maxInboundSequence :: "plugin_store \<Rightarrow> plugin_error + int" where
  "maxInboundSequence st =
     plugin_read [assertOpen st]
       (\<lambda>db. Inr (case max_of (map in_sequence (pl_inbound db)) of None \<Rightarrow> 0 | Some n \<Rightarrow> n)) st"

fun frontier_from :: "int \<Rightarrow> int list \<Rightarrow> int" where
  "frontier_from frontier [] = frontier"
| "frontier_from frontier (s # ss) = (if s \<noteq> frontier + 1 then frontier else frontier_from s ss)"

definition contiguousInboundSequence :: "plugin_store \<Rightarrow> plugin_error + int" where
  "contiguousInboundSequence st =
     plugin_read [assertOpen st] (\<lambda>db. Inr (frontier_from 0 (sort (map in_sequence (pl_inbound db))))) st"

definition pendingInboundMessages :: "plugin_store \<Rightarrow> plugin_error + StoredInboundMessage list" where
  "pendingInboundMessages st =
     plugin_read [assertOpen st]
       (\<lambda>db. Inr (map (inbound_value db) (sort_key in_sequence
          (filter (\<lambda>r. \<not> is_delivered db r) (pl_inbound db))))) st"

subsection \<open>Receipts of coordination\<close>

record StoredCoordinationReceipt =
  rc_requestSequence :: int
  rc_requestMessageId :: "int list"
  rc_requestCorrelationId :: "int list"
  rc_requestType :: string
  rc_responseSequence :: int
  rc_responseCorrelationId :: "int list"
  rc_responseType :: string
  rc_responsePayloadJson :: "int list"

definition one_of_texts :: "string list \<Rightarrow> jsval \<Rightarrow> string option" where
  "one_of_texts allowed v = (case the_str v of Some s \<Rightarrow> if s \<in> set allowed then Some s else None | None \<Rightarrow> None)"

definition request_types :: "string list" where
  "request_types = [''job.sync'', ''job.claim'', ''job.event'', ''approval.requested'', ''job.cancelled'']"

definition CoordinationReceiptSchema :: "uval \<Rightarrow> StoredCoordinationReceipt option" where
  "CoordinationReceiptSchema u =
     Option.bind (strict_object
       [''expectedReceiptProfile'', ''requestSequence'', ''requestMessageId'', ''requestCorrelationId'',
        ''requestType'', ''responseSequence'', ''responseCorrelationId'', ''responseType'',
        ''responsePayloadJson''] (wire_value u)) (\<lambda>fs.
     if get_prop fs ''expectedReceiptProfile'' \<noteq> JStr COORDINATION_PROFILE then None else
     let str = (\<lambda>key. Option.bind (member u key) the_units) in
     Option.bind (PositiveIntegerSchema (get_prop fs ''requestSequence'')) (\<lambda>requestSequence.
     Option.bind (str ''requestMessageId'') (\<lambda>requestMessageId.
     Option.bind (str ''requestCorrelationId'') (\<lambda>requestCorrelationId.
     Option.bind (one_of_texts request_types (get_prop fs ''requestType'')) (\<lambda>requestType.
     Option.bind (PositiveIntegerSchema (get_prop fs ''responseSequence'')) (\<lambda>responseSequence.
     Option.bind (str ''responseCorrelationId'') (\<lambda>responseCorrelationId.
     Option.bind (one_of_texts [''job.state'', ''protocol.error''] (get_prop fs ''responseType'')) (\<lambda>responseType.
     Option.bind (str ''responsePayloadJson'') (\<lambda>responsePayloadJson.
     Some \<lparr>rc_requestSequence = requestSequence, rc_requestMessageId = requestMessageId,
       rc_requestCorrelationId = requestCorrelationId, rc_requestType = requestType,
       rc_responseSequence = responseSequence, rc_responseCorrelationId = responseCorrelationId,
       rc_responseType = responseType, rc_responsePayloadJson = responsePayloadJson\<rparr>)))))))))"

definition receipt_value :: "StoredCoordinationReceipt \<Rightarrow> uval" where
  "receipt_value r =
     fields_value [(''expectedReceiptProfile'', sval COORDINATION_PROFILE),
       (''requestSequence'', nval (rc_requestSequence r)), (''requestMessageId'', UStr (rc_requestMessageId r)),
       (''requestCorrelationId'', UStr (rc_requestCorrelationId r)),
       (''requestType'', sval (rc_requestType r)), (''responseSequence'', nval (rc_responseSequence r)),
       (''responseCorrelationId'', UStr (rc_responseCorrelationId r)),
       (''responseType'', sval (rc_responseType r)), (''responsePayloadJson'', UStr (rc_responsePayloadJson r))]"

text \<open>Whether a response answers a request: a state for a synchronization, or a fixed error.\<close>

definition answers :: "ConnectorClientMessage \<Rightarrow> ConnectorServerMessage \<Rightarrow> bool" where
  "answers req response =
     (cm_correlation_id req = sm_correlation_id response
      \<and> (case sm_payload response of
           State s \<Rightarrow>
             (case cm_payload req of
                Sync y \<Rightarrow> js_job_id s = sy_job_id y \<and> js_requested_attempt s = sy_attempt y
                  \<and> js_request_message_id s = cm_message_id req
                  \<and> js_request_sequence s = cm_sequence req \<and> js_nonce s = sy_nonce y
              | _ \<Rightarrow> False)
         | ProtocolError code message \<Rightarrow>
             let conflict = message = ''The job authority has changed.''
                   \<or> message = ''The job business limit has been reached.'' in
             (case cm_payload req of
                Sync _ \<Rightarrow> code = ''JOB_AUTHORITY_UNAVAILABLE'' \<and> message = ''The job authority is unavailable.''
              | Claim _ \<Rightarrow> code = ''CLAIM_REJECTED'' \<and> conflict
              | Event _ \<Rightarrow> code = ''EVENT_REJECTED'' \<and> conflict
              | Requested _ \<Rightarrow> code = ''EVENT_REJECTED'' \<and> conflict
              | WasCancelled _ \<Rightarrow> code = ''EVENT_REJECTED'' \<and> conflict
              | _ \<Rightarrow> False)
         | _ \<Rightarrow> False))"

definition createCoordinationReceipt ::
  "store_env \<Rightarrow> int \<Rightarrow> ConnectorServerMessage \<Rightarrow> plugin_db \<Rightarrow> plugin_error + StoredCoordinationReceipt" where
  "createCoordinationReceipt env requestSequence response db =
     res_guard (assertPositiveInteger requestSequence ''STORE_COORDINATION_INVALID'')
       (res_bind (outboundEvent env requestSequence db) (\<lambda>found.
        case found of
          None \<Rightarrow> Inl OtherError
        | Some stored \<Rightarrow>
            if so_expectedReceiptProfile stored \<noteq> Some COORDINATION_PROFILE then Inl OtherError
            else
              res_bind (parseRequest (en_is_uuid env) (so_messageId stored) (so_sequence stored)
                  (so_payload stored)) (\<lambda>request.
              if \<not> answers request response then Inl OtherError
              else Inr \<lparr>rc_requestSequence = cm_sequence request,
                rc_requestMessageId = units (cm_message_id request),
                rc_requestCorrelationId = units (cm_correlation_id request),
                rc_requestType = client_type (cm_payload request),
                rc_responseSequence = sm_sequence response,
                rc_responseCorrelationId = units (sm_correlation_id response),
                rc_responseType = server_type (sm_payload response),
                rc_responsePayloadJson = canonicalPayload (server_payload_value (sm_payload response))\<rparr>)))"

definition receipt_key :: "int \<Rightarrow> string" where
  "receipt_key sequence = INBOUND_RECEIPT_PREFIX @ show_int sequence"

definition stored_receipt ::
  "store_env \<Rightarrow> int \<Rightarrow> int list \<Rightarrow> plugin_db \<Rightarrow> plugin_error + StoredCoordinationReceipt" where
  "stored_receipt env sequence v db =
     res_bind (res_option OtherError (Option.bind (json_parse v) CoordinationReceiptSchema)) (\<lambda>receipt.
     res_bind (inboundMessageBySequence sequence db) (\<lambda>found.
     case found of
       None \<Rightarrow> Inl OtherError
     | Some inbound \<Rightarrow>
         if rc_responseSequence receipt \<noteq> sequence then Inl OtherError
         else
           res_bind (parseResponse (en_is_uuid env) (si_messageId inbound) sequence (si_body inbound)) (\<lambda>current.
           res_bind (res_option OtherError (json_parse (rc_responsePayloadJson receipt))) (\<lambda>payload.
           res_bind (res_option OtherError (ConnectorServerMessageSchema (en_is_uuid env)
               (wire_value (envelope_value current (rc_responseType receipt) payload)))) (\<lambda>original.
           res_bind (createCoordinationReceipt env (rc_requestSequence receipt) original db) (\<lambda>validated.
           if json_stringify (receipt_value validated) \<noteq> json_stringify (receipt_value receipt)
              \<or> \<not> isExpiryPlaceholder current
                \<and> (server_type (sm_payload current) \<noteq> rc_responseType receipt
                   \<or> canonicalPayload (server_payload_value (sm_payload current)) \<noteq> rc_responsePayloadJson receipt)
           then Inl OtherError else Inr receipt))))))"

definition coordinationReceipt ::
  "store_env \<Rightarrow> int \<Rightarrow> plugin_db \<Rightarrow> plugin_error + StoredCoordinationReceipt option" where
  "coordinationReceipt env sequence db =
     res_guard (assertPositiveInteger sequence ''STORE_SEQUENCE_INVALID'')
       (case meta_get (receipt_key sequence) db of
          None \<Rightarrow> Inr None
        | Some v \<Rightarrow>
            (case stored_receipt env sequence v db of
               Inl _ \<Rightarrow> Inl (StoreError ''STORE_COORDINATION_INVALID'')
             | Inr receipt \<Rightarrow> Inr (Some receipt)))"

definition fresh_receipt ::
  "store_env \<Rightarrow> int \<Rightarrow> ConnectorServerMessage \<Rightarrow> StoredCoordinationReceipt \<Rightarrow> bool \<Rightarrow> plugin_db
     \<Rightarrow> plugin_error + StoredCoordinationReceipt option" where
  "fresh_receipt env sequence response candidate replacing db =
     res_bind (inboundMessageBySequence sequence db) (\<lambda>found.
     case found of
       None \<Rightarrow> Inr (Some candidate)
     | Some current \<Rightarrow>
         res_bind (parseResponse (en_is_uuid env) (si_messageId current) sequence (si_body current)) (\<lambda>previous.
         if \<not> replacing \<or> \<not> isExpiryPlaceholder previous
            \<or> sm_correlation_id previous \<noteq> sm_correlation_id response
         then Inl OtherError else Inr (Some candidate)))"

definition prepareCoordinationReceipt ::
  "store_env \<Rightarrow> string \<Rightarrow> int \<Rightarrow> int list \<Rightarrow> int option \<Rightarrow> bool \<Rightarrow> plugin_db
     \<Rightarrow> plugin_error + StoredCoordinationReceipt option" where
  "prepareCoordinationReceipt env messageId sequence body requestSequence replacing db =
     res_bind (coordinationReceipt env sequence db) (\<lambda>original.
     if original = None \<and> requestSequence = None then Inr None
     else
       res_bind (parseResponse (en_is_uuid env) messageId sequence body) (\<lambda>response.
       case requestSequence of
         None \<Rightarrow>
           if \<not> isExpiryPlaceholder response
              \<or> Some (units (sm_correlation_id response)) \<noteq> map_option rc_responseCorrelationId original
           then Inl OtherError else Inr None
       | Some n \<Rightarrow>
           res_bind (createCoordinationReceipt env n response db) (\<lambda>candidate.
           case original of
             Some r \<Rightarrow>
               if json_stringify (receipt_value candidate) \<noteq> json_stringify (receipt_value r)
               then Inl OtherError else Inr None
           | None \<Rightarrow> fresh_receipt env sequence response candidate replacing db)))"

definition insertCoordinationReceipt :: "StoredCoordinationReceipt option \<Rightarrow> unit plugin_tx" where
  "insertCoordinationReceipt receipt =
     (case receipt of
        None \<Rightarrow> tx_return ()
      | Some r \<Rightarrow> meta_insert (receipt_key (rc_responseSequence r)) (json_stringify (receipt_value r)))"

subsection \<open>Recording and replacing frames\<close>

datatype recorded = New | Known

definition inbound_failure :: "plugin_error \<Rightarrow> plugin_error" where
  "inbound_failure e =
     (if e = StoreInboundConflictError then e else StoreError ''STORE_INBOUND_WRITE_FAILED'')"

definition record_body ::
  "store_env \<Rightarrow> string \<Rightarrow> string \<Rightarrow> int \<Rightarrow> int list \<Rightarrow> int option \<Rightarrow> recorded plugin_tx" where
  "record_body env now messageId sequence body evidence =
     tx_bind (tx_check (case evidence of None \<Rightarrow> True | Some n \<Rightarrow> isSafeInteger n \<and> n \<ge> 1) OtherError) (\<lambda>_.
     tx_bind (tx_query (prepareCoordinationReceipt env messageId sequence body evidence False)) (\<lambda>receipt.
     tx_bind (tx_read (\<lambda>db. first_row (filter (\<lambda>r. in_message_id r = messageId) (pl_inbound db)))) (\<lambda>byMessage.
     case byMessage of
       Some r \<Rightarrow>
         if in_sequence r = sequence \<and> in_body r = body then tx_return Known
         else tx_throw StoreInboundConflictError
     | None \<Rightarrow>
         tx_bind (tx_read (\<lambda>db. filter (\<lambda>r. in_sequence r = sequence) (pl_inbound db))) (\<lambda>bySequence.
         tx_bind (tx_check (bySequence = []) StoreInboundConflictError) (\<lambda>_.
         tx_bind (insert_inbound \<lparr>in_message_id = messageId, in_sequence = sequence, in_body = body,
             in_received_at = now\<rparr>) (\<lambda>_.
         tx_bind (insertCoordinationReceipt receipt) (\<lambda>_.
         tx_return New)))))))"

definition recordInbound ::
  "store_env \<Rightarrow> string \<Rightarrow> string \<Rightarrow> int \<Rightarrow> int list \<Rightarrow> int option \<Rightarrow> plugin_store
     \<Rightarrow> (plugin_error + recorded) \<times> plugin_store" where
  "recordInbound env now messageId sequence body evidence st =
     plugin_write
       [assertNotTerminalMutation st, assertOpen st, assertNonEmpty messageId ''STORE_MESSAGE_ID_REQUIRED'',
        assertPositiveInteger sequence ''STORE_SEQUENCE_INVALID'',
        assertNonEmpty body ''STORE_MESSAGE_BODY_REQUIRED'']
       (tx_rethrow inbound_failure (record_body env now messageId sequence body evidence)) st"

record InboundReplacement =
  ir_coordinationRequestSequence :: "int option"
  ir_previousMessageId :: string
  ir_previousBody :: "int list"
  ir_messageId :: string
  ir_sequence :: int
  ir_body :: "int list"

definition replaceable :: "InboundReplacement \<Rightarrow> plugin_db \<Rightarrow> bool" where
  "replaceable p db =
     ((case first_row (filter (\<lambda>r. in_sequence r = ir_sequence p) (pl_inbound db)) of
         None \<Rightarrow> False
       | Some r \<Rightarrow> in_message_id r = ir_previousMessageId p \<and> in_body r = ir_previousBody p)
      \<and> ir_messageId p \<notin> in_message_id ` set (pl_inbound db))"

text \<open>The delivery of a state belongs to its sequence and moves to the frame that replaces it.\<close>

definition preserve_completion ::
  "store_env \<Rightarrow> InboundReplacement \<Rightarrow> StoredCoordinationReceipt option \<Rightarrow> plugin_db \<Rightarrow> plugin_error + bool" where
  "preserve_completion env p receipt db =
     res_bind (case receipt of Some r \<Rightarrow> Inr (Some r) | None \<Rightarrow> coordinationReceipt env (ir_sequence p) db) (\<lambda>original.
     if map_option rc_responseType original \<noteq> Some ''job.state'' then Inr False
     else res_bind (inboundMessage (ir_previousMessageId p) db) (\<lambda>m.
       Inr (case m of None \<Rightarrow> False | Some i \<Rightarrow> si_delivered i)))"

definition swap_inbound :: "string \<Rightarrow> InboundReplacement \<Rightarrow> unit plugin_tx" where
  "swap_inbound now p db =
     (let hit = (\<lambda>r. in_sequence r = ir_sequence p \<and> in_message_id r = ir_previousMessageId p
            \<and> in_body r = ir_previousBody p) in
      if ir_messageId p \<in> in_message_id ` set (filter (\<lambda>r. \<not> hit r) (pl_inbound db)) then Inl OtherError
      else if length (filter hit (pl_inbound db)) \<noteq> 1 then Inl StoreInboundConflictError
      else Inr ((), db\<lparr>pl_inbound := sql_update hit
        (\<lambda>r. r\<lparr>in_message_id := ir_messageId p, in_body := ir_body p, in_received_at := now\<rparr>) (pl_inbound db)\<rparr>))"

definition replace_body :: "store_env \<Rightarrow> string \<Rightarrow> InboundReplacement \<Rightarrow> unit plugin_tx" where
  "replace_body env now p =
     tx_bind (tx_read (replaceable p)) (\<lambda>ok.
     tx_bind (tx_check ok StoreInboundConflictError) (\<lambda>_.
     tx_bind (tx_query (prepareCoordinationReceipt env (ir_messageId p) (ir_sequence p) (ir_body p)
         (ir_coordinationRequestSequence p) True)) (\<lambda>receipt.
     tx_bind (tx_query (preserve_completion env p receipt)) (\<lambda>preserve.
     tx_bind (swap_inbound now p) (\<lambda>_.
     tx_bind (meta_delete [delivered_key (ir_previousMessageId p), delivered_key (ir_messageId p)]) (\<lambda>_.
     tx_bind (insertCoordinationReceipt receipt) (\<lambda>_.
     if preserve then meta_insert (delivered_key (ir_messageId p)) (number_units (ir_sequence p))
     else tx_return ())))))))"

definition replaceInbound ::
  "store_env \<Rightarrow> string \<Rightarrow> InboundReplacement \<Rightarrow> plugin_store \<Rightarrow> (plugin_error + unit) \<times> plugin_store" where
  "replaceInbound env now p st =
     plugin_write
       [assertNotTerminalMutation st, assertOpen st,
        assertNonEmpty (ir_previousMessageId p) ''STORE_MESSAGE_ID_REQUIRED'',
        assertNonEmpty (ir_previousBody p) ''STORE_MESSAGE_BODY_REQUIRED'',
        assertNonEmpty (ir_messageId p) ''STORE_MESSAGE_ID_REQUIRED'',
        assertPositiveInteger (ir_sequence p) ''STORE_SEQUENCE_INVALID'',
        assertNonEmpty (ir_body p) ''STORE_MESSAGE_BODY_REQUIRED'']
       (tx_rethrow inbound_failure (replace_body env now p)) st"

definition deliver_body :: "string \<Rightarrow> unit plugin_tx" where
  "deliver_body messageId =
     tx_bind (tx_read (\<lambda>db. first_row (filter (\<lambda>r. in_message_id r = messageId) (pl_inbound db)))) (\<lambda>row.
     case row of
       None \<Rightarrow> tx_throw (StoreError ''STORE_INBOUND_MISSING'')
     | Some r \<Rightarrow> meta_put (delivered_key messageId) (number_units (in_sequence r)))"

definition markInboundDelivered :: "string \<Rightarrow> plugin_store \<Rightarrow> (plugin_error + unit) \<times> plugin_store" where
  "markInboundDelivered messageId st =
     plugin_write [assertNotTerminalMutation st, assertOpen st,
       assertNonEmpty messageId ''STORE_MESSAGE_ID_REQUIRED''] (deliver_body messageId) st"

definition markInboundExpired :: "string \<Rightarrow> plugin_store \<Rightarrow> (plugin_error + unit) \<times> plugin_store" where
  "markInboundExpired messageId st =
     plugin_write [assertNotTerminalMutation st, assertOpen st]
       (tx_bind (meta_put (''inbound-disposition:'' @ messageId) (units ''expired'')) (\<lambda>_.
        tx_bind (tx_query (\<lambda>db. res_guard (assertNonEmpty messageId ''STORE_MESSAGE_ID_REQUIRED'') (Inr ()))) (\<lambda>_.
        deliver_body messageId))) st"

end
