(* ===== verification/Plugin_Intents.thy ===== *)
theory Plugin_Intents
  imports Plugin_Store
begin

section \<open>Owned attempts, mappings and the outbound queue\<close>

text \<open>
  The rest of \<open>plugin-store.ts\<close>: reading and checking the journal of owned intents, which guards the
  mappings of jobs and the outbound queue; the queue itself; preparing, advancing and ending an
  owned attempt. The checks of the caller's authority are an argument, the results of the
  successive checks of one token (see \<open>Terminal_Authority\<close>).
\<close>

subsection \<open>Reading the owned intents\<close>

definition owned_row :: "string \<Rightarrow> bool" where
  "owned_row key =
     list_ex (startsWith key) [''owned-intent-'', ''owned-active-'', ''owned-generation-'', ''owned-terminal-'']"

abbreviation corrupt :: plugin_error where
  "corrupt \<equiv> OwnedIntentError OWNED_INTENT_CORRUPT"

definition owned_result :: "owned_error + 'a \<Rightarrow> plugin_error + 'a" where
  "owned_result r = (case r of Inl e \<Rightarrow> Inl (OwnedIntentError e) | Inr a \<Rightarrow> Inr a)"

definition parse_intent :: "store_env \<Rightarrow> int list \<Rightarrow> plugin_error + OwnedIntent" where
  "parse_intent env v = owned_result (parseOwnedRecord (OwnedIntentSchema (en_is_uuid env)) intent_value v)"

definition parse_owner :: "store_env \<Rightarrow> int list \<Rightarrow> plugin_error + OwnedIntentOwner" where
  "parse_owner env v =
     owned_result (parseOwnedRecord (\<lambda>u. OwnedIntentOwnerSchema (en_is_uuid env) (wire_value u)) owner_value v)"

definition intent_key :: "OwnedIntent \<Rightarrow> string" where
  "intent_key r = ownedKey (ow_jobId (oi_owner r)) (ow_attempt (oi_owner r))"

definition same_owner :: "OwnedIntentOwner \<Rightarrow> OwnedIntentOwner \<Rightarrow> bool" where
  "same_owner a b = (ownedJson (owner_value a) = ownedJson (owner_value b))"

definition check_index ::
  "store_env \<Rightarrow> (string \<times> int list) list \<Rightarrow> OwnedIntentOwner \<Rightarrow> string list \<Rightarrow> string \<Rightarrow> plugin_error + string list" where
  "check_index env rows owner used index =
     (case map_of rows index of
        None \<Rightarrow> Inl corrupt
      | Some body \<Rightarrow>
          if index \<in> set used then Inl corrupt
          else
            res_bind (parse_owner env body) (\<lambda>w.
            if same_owner w owner then Inr (index # used) else Inl corrupt))"

definition check_outbound :: "store_env \<Rightarrow> LocalTerminalRecord \<Rightarrow> plugin_db \<Rightarrow> plugin_error + unit" where
  "check_outbound env t db =
     (let out = lt_outbound t in
      if meta_get (profile_key (to_sequence out)) db \<noteq> Some (units COORDINATION_PROFILE) then Inl corrupt
      else
        res_bind (outboundEvent env (to_sequence out) db) (\<lambda>found.
        case found of
          None \<Rightarrow> Inl corrupt
        | Some event \<Rightarrow>
            if so_expectedReceiptProfile event \<noteq> Some COORDINATION_PROFILE
               \<or> so_messageId event \<noteq> to_messageId out then Inl corrupt
            else
              res_bind (res_option OtherError (Option.bind (json_parse (so_payload event))
                  (ConnectorClientMessageSchema (en_is_uuid env)))) (\<lambda>message.
              if cm_sent_at message \<noteq> to_sentAt out \<or> client_type (cm_payload message) \<noteq> lt_type t
                 \<or> cm_correlation_id message \<noteq> lt_correlationId t
                 \<or> ownedJson (client_value (cm_payload message)) \<noteq> ownedJson (lt_payload t)
              then Inl corrupt else Inr ())))"

text \<open>The terminal marker of an intent: there exactly when its phase is terminal.\<close>

definition check_marker ::
  "store_env \<Rightarrow> (string \<times> int list) list \<Rightarrow> OwnedIntent \<Rightarrow> plugin_db \<Rightarrow> plugin_error + TerminalRecord option" where
  "check_marker env rows r db =
     (case (oi_phase r = Terminal, map_of rows (terminalKey (oi_owner r))) of
        (False, None) \<Rightarrow> Inr None
      | (True, Some marker) \<Rightarrow>
          res_bind (owned_result (parseTerminalRecord (en_terminal env) marker)) (\<lambda>terminal.
          if ownedJson (intent_value r) \<noteq> ownedJson (intent_value
               ((record_predecessor terminal)\<lparr>oi_phase := Terminal, oi_version := record_version terminal\<rparr>))
          then Inl corrupt
          else
            res_bind (case terminal of LocalTerminal t \<Rightarrow> check_outbound env t db | _ \<Rightarrow> Inr ()) (\<lambda>_.
            Inr (Some terminal)))
      | _ \<Rightarrow> Inl corrupt)"

definition check_mapping :: "OwnedIntent \<Rightarrow> TerminalRecord option \<Rightarrow> plugin_db \<Rightarrow> bool" where
  "check_mapping r terminal db =
     (let owner = oi_owner r;
          matching = filter (\<lambda>m. toLowerCase (mp_job_id m) = ow_jobId owner
            \<or> toLowerCase (mp_session_id m) = ow_sessionId owner) (pl_mappings db) in
      case matching of
        [m] \<Rightarrow>
          mp_job_id m = ow_jobId owner \<and> mp_attempt m = ow_attempt owner
          \<and> mp_session_id m = ow_sessionId owner
          \<and> mp_status m = (case terminal of None \<Rightarrow> phase_string (oi_phase r)
              | Some t \<Rightarrow> status_string (record_status t))
      | _ \<Rightarrow> False)"

definition read_intent ::
  "store_env \<Rightarrow> (string \<times> int list) list \<Rightarrow> plugin_db \<Rightarrow> string list \<Rightarrow> string \<times> int list
     \<Rightarrow> plugin_error + OwnedIntent \<times> string list" where
  "read_intent env rows db used row =
     res_bind (parse_intent env (snd row)) (\<lambda>r.
     if fst row \<noteq> intent_key r then Inl corrupt
     else
       res_bind (check_index env rows (oi_owner r) used (activeOwnedKey (oi_owner r))) (\<lambda>used1.
       res_bind (check_index env rows (oi_owner r) used1 (generationOwnedKey (oi_owner r))) (\<lambda>used2.
       res_bind (check_marker env rows r db) (\<lambda>terminal.
       if \<not> check_mapping r terminal db then Inl corrupt
       else Inr (r, fst row # (if terminal = None then [] else [terminalKey (oi_owner r)]) @ used2)))))"

fun read_intents ::
  "store_env \<Rightarrow> (string \<times> int list) list \<Rightarrow> plugin_db \<Rightarrow> string list \<Rightarrow> (string \<times> int list) list
     \<Rightarrow> plugin_error + OwnedIntent list \<times> string list" where
  "read_intents env rows db used [] = Inr ([], used)"
| "read_intents env rows db used (row # rest) =
     (if \<not> startsWith (fst row) ''owned-intent-v1:'' then read_intents env rows db used rest
      else
        res_bind (read_intent env rows db used row) (\<lambda>(r, used1).
        res_bind (read_intents env rows db used1 rest) (\<lambda>(rs, used2).
        Inr (r # rs, used2))))"

definition nonterminal_phases :: "string list" where
  "nonterminal_phases = [''prepared'', ''creating'', ''submitting'', ''started'']"

definition mapping_owned :: "OwnedIntent list \<Rightarrow> mapping_row \<Rightarrow> bool" where
  "mapping_owned rs m =
     list_ex (\<lambda>r. ow_jobId (oi_owner r) = mp_job_id m \<and> ow_attempt (oi_owner r) = mp_attempt m) rs"

definition readOwnedIntents :: "store_env \<Rightarrow> plugin_db \<Rightarrow> plugin_error + OwnedIntent list" where
  "readOwnedIntents env db =
     (let rows = sort_key fst (filter (\<lambda>row. owned_row (fst row)) (pl_metadata db)) in
      if list_ex (\<lambda>m. mp_job_id m = [] \<or> mp_attempt m < 1 \<or> \<not> isSafeInteger (mp_attempt m)
           \<or> mp_session_id m = [] \<or> mp_status m = []) (pl_mappings db)
      then Inl corrupt
      else
        res_bind (read_intents env rows db [] rows) (\<lambda>(rs, used).
        if card (set used) \<noteq> length rows
           \<or> list_ex (\<lambda>m. mp_status m \<in> set nonterminal_phases \<and> \<not> mapping_owned rs m) (pl_mappings db)
        then Inl corrupt
        else Inr (sort_key (\<lambda>r. ow_jobId (oi_owner r)) (sort_key (\<lambda>r. ow_attempt (oi_owner r)) rs))))"

definition owned_failure :: "plugin_error \<Rightarrow> plugin_error" where
  "owned_failure e =
     (case e of
        OwnedIntentError _ \<Rightarrow> e
      | StoreSequenceError \<Rightarrow> e
      | _ \<Rightarrow> OwnedIntentError OWNED_INTENT_UNAVAILABLE)"

text \<open>A closed store fails inside the \<open>try\<close> of \<open>ownedTransaction\<close>.\<close>

definition ownedTransaction :: "'a plugin_tx \<Rightarrow> plugin_store \<Rightarrow> (plugin_error + 'a) \<times> plugin_store" where
  "ownedTransaction operation st =
     plugin_write [map_option owned_failure (assertOpen st)] (tx_rethrow owned_failure operation) st"

subsection \<open>Mappings of jobs\<close>

record LocalJobMapping =
  lj_jobId :: string
  lj_attempt :: int
  lj_sessionId :: string
  lj_status :: string

definition mapping_value :: "mapping_row \<Rightarrow> LocalJobMapping" where
  "mapping_value r =
     \<lparr>lj_jobId = mp_job_id r, lj_attempt = mp_attempt r, lj_sessionId = mp_session_id r,
      lj_status = mp_status r\<rparr>"

definition mapping_conflict :: "LocalJobMapping \<Rightarrow> plugin_db \<Rightarrow> bool" where
  "mapping_conflict c db =
     (list_ex (\<lambda>r. mp_job_id r = lj_jobId c \<and> mp_attempt r = lj_attempt c \<and> mp_session_id r \<noteq> lj_sessionId c)
        (pl_mappings db)
      \<or> list_ex (\<lambda>r. mp_session_id r = lj_sessionId c
           \<and> (mp_job_id r \<noteq> lj_jobId c \<or> mp_attempt r \<noteq> lj_attempt c)) (pl_mappings db))"

definition map_body :: "store_env \<Rightarrow> string \<Rightarrow> LocalJobMapping \<Rightarrow> unit plugin_tx" where
  "map_body env now c =
     tx_bind (tx_query (\<lambda>db. case readOwnedIntents env db of
         Inl (OwnedIntentError e) \<Rightarrow> Inl (OwnedIntentError e)
       | Inl _ \<Rightarrow> Inl (OwnedIntentError OWNED_INTENT_UNAVAILABLE)
       | Inr rs \<Rightarrow> Inr rs)) (\<lambda>owned.
     tx_bind (tx_check (\<not> list_ex (\<lambda>r. ow_jobId (oi_owner r) = toLowerCase (lj_jobId c)
         \<or> ow_sessionId (oi_owner r) = toLowerCase (lj_sessionId c)) owned)
       (OwnedIntentError OWNED_INTENT_CONFLICT)) (\<lambda>_.
     tx_bind (tx_read (mapping_conflict c)) (\<lambda>conflict.
     tx_bind (tx_check (\<not> conflict) (StoreError ''STORE_MAPPING_CONFLICT'')) (\<lambda>_.
     tx_bind (update_mappings (\<lambda>r. mp_job_id r = lj_jobId c \<and> mp_attempt r = lj_attempt c)
         (\<lambda>r. r\<lparr>mp_status := lj_status c, mp_updated_at := now\<rparr>)) (\<lambda>changed.
     if changed \<noteq> 0 then tx_return ()
     else insert_mapping \<lparr>mp_job_id = lj_jobId c, mp_attempt = lj_attempt c, mp_session_id = lj_sessionId c,
       mp_status = lj_status c, mp_updated_at = now\<rparr>)))))"

definition mapJob :: "store_env \<Rightarrow> string \<Rightarrow> LocalJobMapping \<Rightarrow> plugin_store \<Rightarrow> (plugin_error + unit) \<times> plugin_store" where
  "mapJob env now c st =
     plugin_write
       [assertNotTerminalMutation st, assertOpen st, assertNonEmpty (lj_jobId c) ''STORE_JOB_ID_REQUIRED'',
        assertPositiveInteger (lj_attempt c) ''STORE_ATTEMPT_INVALID'',
        assertNonEmpty (lj_sessionId c) ''STORE_SESSION_ID_REQUIRED'',
        assertNonEmpty (lj_status c) ''STORE_STATUS_REQUIRED''] (map_body env now c) st"

definition findJob :: "string \<Rightarrow> plugin_store \<Rightarrow> plugin_error + LocalJobMapping option" where
  "findJob jobId st =
     plugin_read [assertOpen st, assertNonEmpty jobId ''STORE_JOB_ID_REQUIRED'']
       (\<lambda>db. Inr (map_option mapping_value (first_row
          (sort_key (\<lambda>r. - mp_attempt r) (filter (\<lambda>r. mp_job_id r = jobId) (pl_mappings db)))))) st"

definition listNonterminalJobs :: "plugin_store \<Rightarrow> plugin_error + LocalJobMapping list" where
  "listNonterminalJobs st =
     plugin_read [assertOpen st]
       (\<lambda>db. Inr (map mapping_value (sort_key mp_job_id (sort_key mp_attempt
          (filter (\<lambda>r. mp_status r \<notin> {''succeeded'', ''failed'', ''cancelled'', ''expired''})
            (pl_mappings db)))))) st"

subsection \<open>The outbound queue\<close>

definition owns_message_job :: "OwnedIntent list \<Rightarrow> ConnectorClientMessage \<Rightarrow> bool" where
  "owns_message_job rs message =
     (case job_of_payload (cm_payload message) of
        None \<Rightarrow> False
      | Some (jobId, attempt) \<Rightarrow>
          list_ex (\<lambda>r. ow_jobId (oi_owner r) = jobId \<and> ow_attempt (oi_owner r) = attempt) rs)"

definition assertGenericPublication ::
  "store_env \<Rightarrow> ConnectorClientMessage \<Rightarrow> uval option \<Rightarrow> plugin_db \<Rightarrow> plugin_error + unit" where
  "assertGenericPublication env message originalPayload db =
     (if forbiddenOwnedGeneric message originalPayload then
        res_bind (readOwnedIntents env db) (\<lambda>rs.
        if owns_message_job rs message then Inl (OwnedIntentError OWNED_INTENT_CONFLICT) else Inr ())
      else Inr ())"

definition outbound_failure :: "plugin_error \<Rightarrow> plugin_error" where
  "outbound_failure e =
     (case e of StoreError _ \<Rightarrow> e | StoreSequenceError \<Rightarrow> e | _ \<Rightarrow> StoreError ''STORE_OUTBOUND_WRITE_FAILED'')"

definition known_event :: "store_env \<Rightarrow> OutboundEventInput \<Rightarrow> outbound_row \<Rightarrow> plugin_db \<Rightarrow> plugin_error + unit" where
  "known_event env event row db =
     (if ob_sequence row \<noteq> oe_sequence event \<or> ob_payload_json row \<noteq> oe_payload event
      then Inl StoreSequenceError
      else
        res_bind (storedEvent env row db) (\<lambda>stored.
        if so_expectedReceiptProfile stored = oe_expectedReceiptProfile event then Inr ()
        else Inl StoreSequenceError))"

definition pin_hello :: "store_env \<Rightarrow> OutboundEventInput \<Rightarrow> uval \<Rightarrow> unit plugin_tx" where
  "pin_hello env event decoded =
     tx_bind (tx_query (activeHello env)) (\<lambda>previous.
     tx_bind (tx_query (\<lambda>db. js_member decoded ''type'')) (\<lambda>type.
     tx_bind (tx_check (type = Some (sval ''connector.hello'')) (StoreError ''STORE_HELLO_NOT_PROVEN'')) (\<lambda>_.
     tx_bind (if previous = None then tx_return () else
         tx_bind (tx_query provenClientSequence) (\<lambda>proven.
         tx_check (proven = oe_sequence event - 1) (StoreError ''STORE_HELLO_NOT_PROVEN''))) (\<lambda>_.
     meta_put ''transport-hello'' (number_units (oe_sequence event))))))"

definition enqueue_new :: "store_env \<Rightarrow> string \<Rightarrow> OutboundEventInput \<Rightarrow> bool \<Rightarrow> uval \<Rightarrow> unit plugin_tx" where
  "enqueue_new env now event pinHello decoded =
     tx_bind (tx_read (\<lambda>db. max_of (map ob_sequence (pl_outbound db)))) (\<lambda>latest.
     tx_bind (tx_check (case latest of None \<Rightarrow> True | Some n \<Rightarrow> oe_sequence event > n) StoreSequenceError) (\<lambda>_.
     tx_bind (insert_outbound \<lparr>ob_message_id = oe_messageId event, ob_sequence = oe_sequence event,
         ob_payload_json = oe_payload event, ob_attempts = 0, ob_acknowledged_at = None,
         ob_created_at = now\<rparr>) (\<lambda>_.
     tx_bind (if pinHello then pin_hello env event decoded else tx_return ()) (\<lambda>_.
     case oe_expectedReceiptProfile event of
       None \<Rightarrow> tx_return ()
     | Some profile \<Rightarrow> meta_insert (profile_key (oe_sequence event)) (units profile)))))"

definition enqueue_event_body :: "store_env \<Rightarrow> string \<Rightarrow> OutboundEventInput \<Rightarrow> bool \<Rightarrow> uval \<Rightarrow> unit plugin_tx" where
  "enqueue_event_body env now event pinHello decoded =
     tx_bind (tx_query (\<lambda>db. case ConnectorClientMessageSchema (en_is_uuid env) decoded of
         None \<Rightarrow> Inr ()
       | Some message \<Rightarrow> assertGenericPublication env message (member decoded ''payload'') db)) (\<lambda>_.
     tx_bind (tx_read (\<lambda>db. first_row (filter (\<lambda>r. ob_message_id r = oe_messageId event) (pl_outbound db)))) (\<lambda>byMessage.
     case byMessage of
       Some row \<Rightarrow> tx_query (known_event env event row)
     | None \<Rightarrow> enqueue_new env now event pinHello decoded))"

definition profile_error :: "store_env \<Rightarrow> OutboundEventInput \<Rightarrow> plugin_error option" where
  "profile_error env event =
     (case oe_expectedReceiptProfile event of
        None \<Rightarrow> None
      | Some profile \<Rightarrow>
          if profile \<noteq> COORDINATION_PROFILE
             \<or> isl (parseRequest (en_is_uuid env) (oe_messageId event) (oe_sequence event) (oe_payload event))
          then Some (StoreError ''STORE_COORDINATION_INVALID'') else None)"

definition enqueueEvent ::
  "store_env \<Rightarrow> string \<Rightarrow> OutboundEventInput \<Rightarrow> bool \<Rightarrow> plugin_store \<Rightarrow> (plugin_error + unit) \<times> plugin_store" where
  "enqueueEvent env now event pinHello st =
     plugin_write
       [assertNotTerminalMutation st, assertOpen st,
        assertNonEmpty (oe_messageId event) ''STORE_MESSAGE_ID_REQUIRED'',
        assertPositiveInteger (oe_sequence event) ''STORE_SEQUENCE_INVALID'',
        (if json_parse (oe_payload event) = None then Some (StoreError ''STORE_PAYLOAD_INVALID'') else None),
        profile_error env event]
       (tx_rethrow outbound_failure
         (enqueue_event_body env now event pinHello (case json_parse (oe_payload event) of Some v \<Rightarrow> v | None \<Rightarrow> UNull))) st"

definition coordinationRequest :: "store_env \<Rightarrow> string \<Rightarrow> plugin_store \<Rightarrow> plugin_error + StoredOutboundEvent option" where
  "coordinationRequest env correlationId st =
     plugin_read [assertOpen st, assertNonEmpty correlationId ''STORE_COORDINATION_INVALID'']
       (\<lambda>db.
          case filter (\<lambda>r. en_json_correlation env (ob_payload_json r) = Some correlationId) (pl_outbound db) of
            [] \<Rightarrow> Inr None
          | [row] \<Rightarrow>
              (case storedEvent env row db of
                 Inl _ \<Rightarrow> Inl (StoreError ''STORE_COORDINATION_INVALID'')
               | Inr stored \<Rightarrow>
                   if isl (parseRequest (en_is_uuid env) (so_messageId stored) (so_sequence stored) (so_payload stored))
                   then Inl (StoreError ''STORE_COORDINATION_INVALID'')
                   else Inr (if so_expectedReceiptProfile stored = None then None else Some stored))
          | _ \<Rightarrow> Inl (StoreError ''STORE_COORDINATION_INVALID'')) st"

definition acknowledge_through_body :: "store_env \<Rightarrow> string \<Rightarrow> int \<Rightarrow> string \<Rightarrow> unit plugin_tx" where
  "acknowledge_through_body env now sequence correlationId =
     tx_bind (tx_query (outboundEvent env sequence)) (\<lambda>found.
     tx_bind (tx_query (\<lambda>db. res_option (StoreError ''STORE_RECEIPT_INVALID'') found)) (\<lambda>stored.
     tx_bind (tx_query (\<lambda>db. res_option OtherError (json_parse (so_payload stored)))) (\<lambda>message.
     tx_bind (tx_query (\<lambda>db. js_member message ''sequence'')) (\<lambda>s.
     tx_bind (tx_query (\<lambda>db. js_member message ''correlation_id'')) (\<lambda>c.
     tx_bind (tx_check (s = Some (nval sequence) \<and> c = Some (sval correlationId))
       (StoreError ''STORE_RECEIPT_INVALID'')) (\<lambda>_.
     tx_bind (tx_query provenClientSequence) (\<lambda>proven.
     let prefix = max sequence proven in
     tx_bind (meta_put ''transport-proven-prefix'' (number_units prefix)) (\<lambda>_.
     update_outbound (\<lambda>r. ob_sequence r \<le> prefix)
       (\<lambda>r. r\<lparr>ob_acknowledged_at := (case ob_acknowledged_at r of None \<Rightarrow> Some now | Some t \<Rightarrow> Some t)\<rparr>)))))))))"

definition acknowledgeThrough ::
  "store_env \<Rightarrow> string \<Rightarrow> int \<Rightarrow> string \<Rightarrow> plugin_store \<Rightarrow> (plugin_error + unit) \<times> plugin_store" where
  "acknowledgeThrough env now sequence correlationId st =
     plugin_write [assertNotTerminalMutation st, assertOpen st]
       (acknowledge_through_body env now sequence correlationId) st"

text \<open>The members an object spread copies: those of an object, or the indices of a text or an array.\<close>

definition spread_members :: "uval \<Rightarrow> (int list \<times> uval) list" where
  "spread_members v =
     (let indexed = (\<lambda>vs. zip (map (\<lambda>i. units (show_nat i)) [0..<length vs]) vs) in
      case v of
        UObj fs \<Rightarrow> fs
      | UArr vs \<Rightarrow> indexed vs
      | UStr s \<Rightarrow> indexed (map (\<lambda>c. UStr [c]) s)
      | _ \<Rightarrow> [])"

definition renew_body :: "store_env \<Rightarrow> int \<Rightarrow> string \<Rightarrow> StoredOutboundEvent plugin_tx" where
  "renew_body env sequence expiresAt =
     tx_bind (tx_query (outboundEvent env sequence)) (\<lambda>found.
     tx_bind (tx_query (\<lambda>db. res_option (StoreError ''STORE_DELIVERY_MISSING'') found)) (\<lambda>stored.
     tx_bind (tx_query (\<lambda>db. res_option OtherError (json_parse (so_payload stored)))) (\<lambda>message.
     tx_bind (tx_query (\<lambda>db. case en_date_parse env (Some (sval expiresAt)) of
         None \<Rightarrow> Inl (StoreError ''STORE_DELIVERY_INVALID'')
       | Some expires \<Rightarrow>
           res_bind (js_member message ''sent_at'') (\<lambda>sent.
           case en_date_parse env sent of
             Some t \<Rightarrow> if expires \<le> t then Inl (StoreError ''STORE_DELIVERY_INVALID'') else Inr ()
           | None \<Rightarrow> Inr ()))) (\<lambda>_.
     let payload = json_stringify (UObj (put_key (units ''expires_at'') (sval expiresAt) (spread_members message))) in
     tx_bind (tx_check (so_expectedReceiptProfile stored = None
         \<or> \<not> isl (parseRequest (en_is_uuid env) (so_messageId stored) (so_sequence stored) payload))
       (StoreError ''STORE_DELIVERY_INVALID'')) (\<lambda>_.
     tx_bind (update_outbound (\<lambda>r. ob_sequence r = sequence) (\<lambda>r. r\<lparr>ob_payload_json := payload\<rparr>)) (\<lambda>_.
     tx_return (stored\<lparr>so_payload := payload\<rparr>)))))))"

definition renewDelivery ::
  "store_env \<Rightarrow> int \<Rightarrow> string \<Rightarrow> plugin_store \<Rightarrow> (plugin_error + StoredOutboundEvent) \<times> plugin_store" where
  "renewDelivery env sequence expiresAt st =
     plugin_write [assertNotTerminalMutation st, assertOpen st] (renew_body env sequence expiresAt) st"

fun stored_events :: "store_env \<Rightarrow> plugin_db \<Rightarrow> outbound_row list \<Rightarrow> plugin_error + StoredOutboundEvent list" where
  "stored_events env db [] = Inr []"
| "stored_events env db (row # rows) =
     res_bind (storedEvent env (row\<lparr>ob_attempts := ob_attempts row + 1\<rparr>) db) (\<lambda>e.
     res_bind (stored_events env db rows) (\<lambda>es. Inr (e # es)))"

definition pending_event_rows :: "int \<Rightarrow> plugin_db \<Rightarrow> outbound_row list" where
  "pending_event_rows afterSequence db =
     sort_key ob_sequence
       (filter (\<lambda>r. ob_acknowledged_at r = None \<and> ob_sequence r > afterSequence) (pl_outbound db))"

definition pending_events_body :: "store_env \<Rightarrow> int \<Rightarrow> StoredOutboundEvent list plugin_tx" where
  "pending_events_body env afterSequence =
     tx_bind (tx_read (pending_event_rows afterSequence)) (\<lambda>rows.
     tx_bind (update_outbound
         (\<lambda>r. ob_message_id r \<in> ob_message_id ` set rows \<and> ob_acknowledged_at r = None)
         (\<lambda>r. r\<lparr>ob_attempts := ob_attempts r + 1\<rparr>)) (\<lambda>_.
     tx_query (\<lambda>db. stored_events env db rows)))"

definition pendingEvents ::
  "store_env \<Rightarrow> int \<Rightarrow> plugin_store \<Rightarrow> (plugin_error + StoredOutboundEvent list) \<times> plugin_store" where
  "pendingEvents env afterSequence st =
     plugin_write
       [assertNotTerminalMutation st, assertOpen st,
        assertNonNegativeInteger afterSequence ''STORE_SEQUENCE_INVALID''] (pending_events_body env afterSequence) st"

definition acknowledgeEvent :: "string \<Rightarrow> string \<Rightarrow> plugin_store \<Rightarrow> (plugin_error + unit) \<times> plugin_store" where
  "acknowledgeEvent now messageId st =
     plugin_write
       [assertNotTerminalMutation st, assertOpen st, assertNonEmpty messageId ''STORE_MESSAGE_ID_REQUIRED'']
       (update_outbound (\<lambda>r. ob_message_id r = messageId)
         (\<lambda>r. r\<lparr>ob_acknowledged_at := (case ob_acknowledged_at r of None \<Rightarrow> Some now | Some t \<Rightarrow> Some t)\<rparr>)) st"

definition close_store :: "plugin_store \<Rightarrow> (plugin_error + unit) \<times> plugin_store" where
  "close_store st =
     (case assertNotTerminalMutation st of
        Some e \<Rightarrow> (Inl e, st)
      | None \<Rightarrow> (Inr (), st\<lparr>pst_closed := True\<rparr>))"

subsection \<open>Writing owned intents\<close>

definition ascii_lower :: "string \<Rightarrow> string" where
  "ascii_lower s = map (\<lambda>c. if is_upper c then char_of ((of_char c :: nat) + 32) else c) s"

definition find_intent :: "string \<Rightarrow> OwnedIntent list \<Rightarrow> OwnedIntent option" where
  "find_intent key rs = find (\<lambda>r. intent_key r = key) rs"

definition as_prepared :: "OwnedIntent \<Rightarrow> OwnedIntent" where
  "as_prepared r =
     r\<lparr>oi_phase := Prepared, oi_version := 0, oi_mode := None, oi_startedEvidence := None,
       oi_unavailable := None\<rparr>"

definition same_intent :: "OwnedIntent \<Rightarrow> OwnedIntent \<Rightarrow> bool" where
  "same_intent a b = (ownedJson (intent_value a) = ownedJson (intent_value b))"

text \<open>The offer as it was recorded, which must be the one that is prepared.\<close>

definition recorded_offer :: "store_env \<Rightarrow> ConnectorServerMessage \<Rightarrow> plugin_db \<Rightarrow> plugin_error + ConnectorServerMessage" where
  "recorded_offer env offer db =
     (case first_row (filter (\<lambda>r. in_message_id r = sm_message_id offer \<and> in_sequence r = sm_sequence offer)
        (pl_inbound db)) of
        None \<Rightarrow> Inl (OwnedIntentError OWNED_INTENT_CONFLICT)
      | Some row \<Rightarrow>
          res_bind (res_option corrupt (Option.bind (json_parse (in_body row))
            (\<lambda>u. ConnectorServerMessageSchema (en_is_uuid env) (wire_value u)))) (\<lambda>stored.
          if offer_of stored = None \<or> ownedJson (server_value stored) \<noteq> ownedJson (server_value offer)
          then Inl (OwnedIntentError OWNED_INTENT_CONFLICT) else Inr stored))"

definition job_taken :: "OwnedIntentOwner \<Rightarrow> OwnedIntent list \<Rightarrow> plugin_db \<Rightarrow> bool" where
  "job_taken owner rs db =
     (list_ex (\<lambda>r. ow_jobId (oi_owner r) = ow_jobId owner
         \<or> ow_ownerGeneration (oi_owner r) = ow_ownerGeneration owner) rs
      \<or> list_ex (\<lambda>m. ascii_lower (mp_job_id m) = ow_jobId owner
           \<or> ascii_lower (mp_session_id m) = ow_sessionId owner) (pl_mappings db))"

definition insert_intent :: "string \<Rightarrow> OwnedIntent \<Rightarrow> unit plugin_tx" where
  "insert_intent now r =
     (let owner = oi_owner r; serialized = ownedJson (intent_value r) in
      tx_bind (tx_check (utf8_bytes serialized \<le> 16384) (OwnedIntentError OWNED_INTENT_INVALID)) (\<lambda>_.
      tx_bind (insert_mapping \<lparr>mp_job_id = ow_jobId owner, mp_attempt = ow_attempt owner,
          mp_session_id = ow_sessionId owner, mp_status = phase_string (oi_phase r), mp_updated_at = now\<rparr>) (\<lambda>_.
      tx_bind (meta_insert (intent_key r) serialized) (\<lambda>_.
      tx_bind (meta_insert (activeOwnedKey owner) (ownedJson (owner_value owner))) (\<lambda>_.
      meta_insert (generationOwnedKey owner) (ownedJson (owner_value owner)))))))"

definition prepare_body ::
  "store_env \<Rightarrow> string \<Rightarrow> PrepareOwnedIntentInput \<Rightarrow> JobOfferPayload \<Rightarrow> OwnedIntent plugin_tx" where
  "prepare_body env now input p =
     (let candidate = initialOwnedIntent (en_sha256_hex env) input p in
      tx_bind (tx_query (readOwnedIntents env)) (\<lambda>rs.
      case find_intent (intent_key candidate) rs of
        Some existing \<Rightarrow>
          if same_intent (as_prepared existing) candidate then tx_return existing
          else tx_throw (OwnedIntentError OWNED_INTENT_CONFLICT)
      | None \<Rightarrow>
          tx_bind (tx_query (recorded_offer env (pi_offer input))) (\<lambda>stored.
          tx_bind (tx_query (\<lambda>db. res_option OtherError (offer_of stored))) (\<lambda>q.
          let r = initialOwnedIntent (en_sha256_hex env) (input\<lparr>pi_offer := stored\<rparr>) q in
          tx_bind (tx_read (job_taken (oi_owner r) rs)) (\<lambda>taken.
          tx_bind (tx_check (\<not> taken) (OwnedIntentError OWNED_INTENT_CONFLICT)) (\<lambda>_.
          tx_bind (insert_intent now r) (\<lambda>_. tx_return r)))))))"

definition prepareOwnedIntent ::
  "store_env \<Rightarrow> string \<Rightarrow> uval \<Rightarrow> plugin_store \<Rightarrow> (plugin_error + OwnedIntent) \<times> plugin_store" where
  "prepareOwnedIntent env now input st =
     (case assertNotTerminalMutation st of
        Some e \<Rightarrow> (Inl e, st)
      | None \<Rightarrow>
          (case res_bind (captureOwned (PrepareOwnedIntentSchema (en_is_uuid env) input)) (\<lambda>c.
             res_bind (captureOwned (offer_of (pi_offer c))) (\<lambda>p.
             res_bind (captureOwned (OwnedAttemptSchema (int_value (jo_attempt p)))) (\<lambda>_. Inr (c, p)))) of
             Inl e \<Rightarrow> (Inl (OwnedIntentError e), st)
           | Inr (c, p) \<Rightarrow> ownedTransaction (prepare_body env now c p) st))"

definition ownedIntent ::
  "store_env \<Rightarrow> jsval \<Rightarrow> jsval \<Rightarrow> plugin_store \<Rightarrow> (plugin_error + OwnedIntent option) \<times> plugin_store" where
  "ownedIntent env jobId attempt st =
     (case (UuidSchema (en_is_uuid env) jobId, OwnedAttemptSchema attempt) of
        (Some j, Some n) \<Rightarrow>
          ownedTransaction (tx_query (\<lambda>db. res_bind (readOwnedIntents env db) (\<lambda>rs.
            Inr (find (\<lambda>r. ow_jobId (oi_owner r) = j \<and> ow_attempt (oi_owner r) = n) rs)))) st
      | _ \<Rightarrow> (Inl (OwnedIntentError OWNED_INTENT_INVALID), st))"

definition listOwnedIntents :: "store_env \<Rightarrow> plugin_store \<Rightarrow> (plugin_error + OwnedIntent list) \<times> plugin_store" where
  "listOwnedIntents env st = ownedTransaction (tx_query (readOwnedIntents env)) st"

text \<open>What a transition makes of the current intent; \<open>None\<close> is a repetition without effect.\<close>

definition advanced :: "OwnedIntent \<Rightarrow> OwnedIntentTransition \<Rightarrow> plugin_error + OwnedIntent option" where
  "advanced current nxt =
     (let conflict = Inl (OwnedIntentError OWNED_INTENT_CONFLICT) in
      case nxt of
        To_unavailable u \<Rightarrow>
          (case oi_unavailable current of
             Some v \<Rightarrow> if v = u then Inr None else conflict
           | None \<Rightarrow> Inr (Some (current\<lparr>oi_unavailable := Some u\<rparr>)))
      | _ \<Rightarrow>
          if oi_unavailable current \<noteq> None then conflict
          else case nxt of
              To_creating m \<Rightarrow>
                if oi_phase current = Prepared
                then Inr (Some (current\<lparr>oi_phase := Creating, oi_mode := Some m\<rparr>)) else conflict
            | To_submitting \<Rightarrow>
                if oi_phase current = Creating then Inr (Some (current\<lparr>oi_phase := Submitting\<rparr>)) else conflict
            | To_started e \<Rightarrow>
                if oi_phase current = Submitting \<and> ev_sessionId e = ow_sessionId (oi_owner current)
                   \<and> ev_messageId e = oi_initialMessageId current
                   \<and> ev_requestDigest e = oi_requestDigest current
                then Inr (Some (current\<lparr>oi_phase := Started, oi_startedEvidence := Some e\<rparr>)) else conflict
            | _ \<Rightarrow> conflict)"

definition current_intent :: "store_env \<Rightarrow> OwnedIntentOwner \<Rightarrow> plugin_db \<Rightarrow> plugin_error + OwnedIntent" where
  "current_intent env owner db =
     res_bind (readOwnedIntents env db) (\<lambda>rs.
     case find_intent (ownedKey (ow_jobId owner) (ow_attempt owner)) rs of
       None \<Rightarrow> Inl (OwnedIntentError OWNED_INTENT_CONFLICT)
     | Some r \<Rightarrow>
         if same_owner (oi_owner r) owner then Inr r else Inl (OwnedIntentError OWNED_INTENT_CONFLICT))"

text \<open>The journal row and the mapping change together, each from the value that was read.\<close>

definition write_intent :: "string \<Rightarrow> OwnedIntent \<Rightarrow> OwnedIntent \<Rightarrow> string \<Rightarrow> unit plugin_tx" where
  "write_intent now current updated status =
     (let owner = oi_owner current; serialized = ownedJson (intent_value updated) in
      tx_bind (tx_check (utf8_bytes serialized \<le> 16384) (OwnedIntentError OWNED_INTENT_INVALID)) (\<lambda>_.
      tx_bind (tx_read (meta_get (intent_key current))) (\<lambda>old.
      tx_bind (tx_check (old \<noteq> None) (OwnedIntentError OWNED_INTENT_UNAVAILABLE)) (\<lambda>_.
      tx_bind (meta_put (intent_key current) serialized) (\<lambda>_.
      tx_bind (update_mappings (\<lambda>m. mp_job_id m = ow_jobId owner \<and> mp_attempt m = ow_attempt owner
            \<and> mp_session_id m = ow_sessionId owner \<and> mp_status m = phase_string (oi_phase current))
          (\<lambda>m. m\<lparr>mp_status := status, mp_updated_at := now\<rparr>)) (\<lambda>changed.
      tx_check (changed = 1) (OwnedIntentError OWNED_INTENT_UNAVAILABLE)))))))"

definition advance_body ::
  "store_env \<Rightarrow> string \<Rightarrow> OwnedIntentOwner \<Rightarrow> int \<Rightarrow> OwnedIntentTransition \<Rightarrow> OwnedIntent plugin_tx" where
  "advance_body env now owner version nxt =
     tx_bind (tx_query (current_intent env owner)) (\<lambda>current.
     tx_bind (tx_check (oi_phase current \<noteq> Terminal \<and> oi_version current = version)
       (OwnedIntentError OWNED_INTENT_CONFLICT)) (\<lambda>_.
     tx_bind (tx_query (\<lambda>db. advanced current nxt)) (\<lambda>changed.
     case changed of
       None \<Rightarrow> tx_return current
     | Some r \<Rightarrow>
         tx_bind (tx_check (version \<noteq> MAX_SAFE_INTEGER) (OwnedIntentError OWNED_INTENT_CONFLICT)) (\<lambda>_.
         let updated = r\<lparr>oi_version := version + 1\<rparr> in
         tx_bind (write_intent now current updated (phase_string (oi_phase updated))) (\<lambda>_.
         tx_return updated)))))"

definition advanceOwnedIntent ::
  "store_env \<Rightarrow> string \<Rightarrow> jsval \<Rightarrow> jsval \<Rightarrow> uval \<Rightarrow> plugin_store \<Rightarrow> (plugin_error + OwnedIntent) \<times> plugin_store" where
  "advanceOwnedIntent env now owner expectedVersion transition st =
     (case assertNotTerminalMutation st of
        Some e \<Rightarrow> (Inl e, st)
      | None \<Rightarrow>
          (case (OwnedIntentOwnerSchema (en_is_uuid env) owner, OwnedVersionSchema expectedVersion,
                 OwnedTransitionSchema (en_is_uuid env) transition) of
             (Some w, Some version, Some nxt) \<Rightarrow> ownedTransaction (advance_body env now w version nxt) st
           | _ \<Rightarrow> (Inl (OwnedIntentError OWNED_INTENT_INVALID), st)))"

subsection \<open>Ending an attempt\<close>

definition terminalMarker :: "store_env \<Rightarrow> OwnedIntent \<Rightarrow> plugin_db \<Rightarrow> plugin_error + TerminalRecord option" where
  "terminalMarker env current db =
     (if oi_phase current \<noteq> Terminal then Inr None
      else
        res_bind (res_option OtherError (meta_get (terminalKey (oi_owner current)) db)) (\<lambda>v.
        res_bind (owned_result (parseTerminalRecord (en_terminal env) v)) (\<lambda>r. Inr (Some r))))"

definition readTerminal ::
  "store_env \<Rightarrow> jsval \<Rightarrow> plugin_store \<Rightarrow> (plugin_error + TerminalRecord option) \<times> plugin_store" where
  "readTerminal env owner st =
     (case OwnedIntentOwnerSchema (en_is_uuid env) owner of
        None \<Rightarrow> (Inl (OwnedIntentError OWNED_INTENT_INVALID), st)
      | Some w \<Rightarrow>
          ownedTransaction (tx_query (\<lambda>db.
            res_bind (current_intent env w db) (\<lambda>current. terminalMarker env current db))) st)"

definition terminalOperation ::
  "(plugin_store \<Rightarrow> (plugin_error + 'a) \<times> plugin_store) \<Rightarrow> plugin_store \<Rightarrow> (plugin_error + 'a) \<times> plugin_store" where
  "terminalOperation operation st =
     (case first_failure [assertOpen st, assertNotTerminalMutation st] of
        Some e \<Rightarrow> (Inl e, st)
      | None \<Rightarrow>
          (case operation (st\<lparr>pst_terminalBusy := True\<rparr>) of
             (r, st') \<Rightarrow> (r, st'\<lparr>pst_terminalBusy := False\<rparr>)))"

definition writeTerminal :: "store_env \<Rightarrow> string \<Rightarrow> OwnedIntent \<Rightarrow> TerminalRecord \<Rightarrow> unit plugin_tx" where
  "writeTerminal env now current r =
     (let serialized = ownedJson (record_value r);
          successor = current\<lparr>oi_phase := Terminal, oi_version := record_version r\<rparr> in
      tx_bind (tx_query (\<lambda>db. owned_result (parseTerminalRecord (en_terminal env) serialized))) (\<lambda>_.
      tx_bind (tx_check (utf8_bytes (ownedJson (intent_value successor)) \<le> 16384)
        (OwnedIntentError OWNED_INTENT_INVALID)) (\<lambda>_.
      tx_bind (tx_query (\<lambda>db. res_option (OwnedIntentError OWNED_INTENT_CONFLICT) (meta_get (intent_key current) db))) (\<lambda>old.
      tx_bind (tx_query (\<lambda>db. parse_intent env old)) (\<lambda>stored.
      tx_bind (tx_check (same_intent stored current) (OwnedIntentError OWNED_INTENT_CONFLICT)) (\<lambda>_.
      tx_bind (write_intent now current successor (status_string (record_status r))) (\<lambda>_.
      meta_insert (terminalKey (oi_owner current)) serialized)))))))"

text \<open>
  The results of the successive checks of the caller's token, as \<open>authority_run\<close> gives them. A check
  past the end of the list is one of an unknown token.
\<close>

definition check_result :: "(authority_error + Capability) list \<Rightarrow> nat \<Rightarrow> plugin_error + Capability" where
  "check_result checks i =
     (case (if i < length checks then checks ! i else Inl TERMINAL_AUTHORITY_INVALID) of
        Inl e \<Rightarrow> Inl (TerminalAuthorityError e)
      | Inr c \<Rightarrow> Inr c)"

datatype TerminalCommitResult =
    Committed LocalTerminalRecord
  | Existing bool LocalTerminalRecord
  | Remote RemoteTerminalRecord

definition commit_allowed :: "OwnedIntent \<Rightarrow> TerminalAuthorityBinding \<Rightarrow> JobStatePayload \<Rightarrow> bool" where
  "commit_allowed predecessor binding state =
     (native_possible predecessor (tb_operation binding)
      \<and> js_current_attempt state = ow_attempt (oi_owner predecessor)
      \<and> (case oi_mode predecessor of None \<Rightarrow> True | Some m \<Rightarrow> m = js_mode state))"

definition existing_result ::
  "TerminalProposal \<Rightarrow> TerminalRecord \<Rightarrow> plugin_error + TerminalCommitResult" where
  "existing_result proposal existing =
     (case existing of
        RemoteTerminal t \<Rightarrow> Inr (Remote t)
      | LocalTerminal t \<Rightarrow>
          let same = lt_correlationId t = tp_correlationId proposal in
          if same \<and> (ownedJson (operation_value (lt_operation t))
                 \<noteq> ownedJson (operation_value (tb_operation (tp_binding proposal)))
               \<or> lt_type t \<noteq> tp_type proposal
               \<or> ownedJson (lt_payload t) \<noteq> ownedJson (tp_payload proposal))
          then Inl (OwnedIntentError OWNED_INTENT_CONFLICT)
          else Inr (Existing same t))"

definition publish_terminal :: "string \<Rightarrow> OutboundEventInput \<Rightarrow> unit plugin_tx" where
  "publish_terminal now event =
     tx_bind (insert_outbound \<lparr>ob_message_id = oe_messageId event, ob_sequence = oe_sequence event,
         ob_payload_json = oe_payload event, ob_attempts = 0, ob_acknowledged_at = None,
         ob_created_at = now\<rparr>) (\<lambda>_.
     meta_insert (profile_key (oe_sequence event)) (units COORDINATION_PROFILE))"

definition local_record ::
  "store_env \<Rightarrow> OwnedIntent \<Rightarrow> TerminalProposal \<Rightarrow> OutboundEventInput \<Rightarrow> string \<Rightarrow> plugin_error + LocalTerminalRecord" where
  "local_record env current proposal event sent_at =
     res_bind (res_option OtherError (validateTerminalProposal (en_terminal env) proposal)) (\<lambda>status.
     res_bind (owned_result (parseTerminalRecord (en_terminal env) (ownedJson (record_value (LocalTerminal
       \<lparr>lt_predecessor = current, lt_committedVersion = oi_version current + 1,
        lt_operation = tb_operation (tp_binding proposal), lt_correlationId = tp_correlationId proposal,
        lt_type = tp_type proposal, lt_payload = tp_payload proposal, lt_status = status,
        lt_outbound = \<lparr>to_messageId = oe_messageId event, to_sequence = oe_sequence event,
          to_sentAt = sent_at\<rparr>\<rparr>))))) (\<lambda>r.
     case r of LocalTerminal t \<Rightarrow> Inr t | _ \<Rightarrow> Inl (OwnedIntentError OWNED_INTENT_INVALID)))"

text \<open>\<open>factory\<close> is what the caller's factory returned; \<open>Inr None\<close> is not a plain object.\<close>

definition commit_new ::
  "store_env \<Rightarrow> string \<Rightarrow> TerminalProposal \<Rightarrow> OwnedIntent \<Rightarrow> (plugin_error + OutboundEventInput option)
     \<Rightarrow> (authority_error + Capability) list \<Rightarrow> TerminalCommitResult plugin_tx" where
  "commit_new env now proposal current factory checks =
     tx_bind (tx_check (oi_version current < MAX_SAFE_INTEGER \<and> oi_phase current \<noteq> Terminal)
       (OwnedIntentError OWNED_INTENT_CONFLICT)) (\<lambda>_.
     tx_bind (tx_query (\<lambda>db. factory)) (\<lambda>candidate.
     tx_bind (tx_query (\<lambda>db. res_option (OwnedIntentError OWNED_INTENT_INVALID) candidate)) (\<lambda>event.
     tx_bind (tx_query (\<lambda>db. parseRequest (en_is_uuid env) (oe_messageId event) (oe_sequence event) (oe_payload event))) (\<lambda>message.
     tx_bind (tx_check (oe_expectedReceiptProfile event = Some COORDINATION_PROFILE
         \<and> client_type (cm_payload message) = tp_type proposal
         \<and> cm_correlation_id message = tp_correlationId proposal
         \<and> ownedJson (client_value (cm_payload message)) = ownedJson (tp_payload proposal))
       (OwnedIntentError OWNED_INTENT_INVALID)) (\<lambda>_.
     tx_bind (tx_query maxOutboundSequence) (\<lambda>latest.
     tx_bind (tx_check (oe_sequence event > latest) StoreSequenceError) (\<lambda>_.
     tx_bind (tx_query (\<lambda>db. local_record env current proposal event (cm_sent_at message))) (\<lambda>t.
     tx_bind (writeTerminal env now current (LocalTerminal t)) (\<lambda>_.
     tx_bind (publish_terminal now event) (\<lambda>_.
     tx_bind (tx_query (readOwnedIntents env)) (\<lambda>_.
     tx_bind (tx_query (\<lambda>db. check_result checks 2)) (\<lambda>_.
     tx_return (Committed t)))))))))))))"

definition commit_body ::
  "store_env \<Rightarrow> string \<Rightarrow> TerminalProposal \<Rightarrow> Capability \<Rightarrow> (plugin_error + OutboundEventInput option)
     \<Rightarrow> (authority_error + Capability) list \<Rightarrow> TerminalCommitResult plugin_tx" where
  "commit_body env now proposal checked factory checks =
     (let binding = tp_binding proposal in
      tx_bind (tx_query (\<lambda>db. check_result checks 1)) (\<lambda>_.
      tx_bind (tx_query (current_intent env (tb_owner binding))) (\<lambda>current.
      tx_bind (tx_query (terminalMarker env current)) (\<lambda>existing.
      let predecessor = (case existing of None \<Rightarrow> current | Some r \<Rightarrow> record_predecessor r) in
      tx_bind (tx_check (oi_version predecessor = tb_expectedVersion binding
          \<and> commit_allowed predecessor binding (cap_state checked)) (OwnedIntentError OWNED_INTENT_CONFLICT)) (\<lambda>_.
      case existing of
        Some r \<Rightarrow>
          tx_bind (tx_query (\<lambda>db. check_result checks 2)) (\<lambda>_. tx_query (\<lambda>db. existing_result proposal r))
      | None \<Rightarrow> commit_new env now proposal current factory checks)))))"

definition commitTerminal ::
  "store_env \<Rightarrow> string \<Rightarrow> uval \<Rightarrow> (authority_error + Capability) list
     \<Rightarrow> (plugin_error + OutboundEventInput option) \<Rightarrow> plugin_store
     \<Rightarrow> (plugin_error + TerminalCommitResult) \<times> plugin_store" where
  "commitTerminal env now input checks factory =
     terminalOperation (\<lambda>st.
       case res_bind (owned_result (captureTerminalProposal (en_terminal env) input)) (\<lambda>p.
         res_bind (check_result checks 0) (\<lambda>checked. Inr (p, checked))) of
         Inl e \<Rightarrow> (Inl e, st)
       | Inr (p, checked) \<Rightarrow> ownedTransaction (commit_body env now p checked factory checks) st)"

datatype TerminalReconcileResult =
    Reconciled RemoteTerminalRecord
  | AlreadyEnded TerminalRecord JobStatePayload

definition reconcile_body ::
  "store_env \<Rightarrow> string \<Rightarrow> TerminalAuthorityBinding \<Rightarrow> JobStatePayload
     \<Rightarrow> (authority_error + Capability) list \<Rightarrow> TerminalReconcileResult plugin_tx" where
  "reconcile_body env now binding state checks =
     tx_bind (tx_query (\<lambda>db. check_result checks 1)) (\<lambda>_.
     tx_bind (tx_query (current_intent env (tb_owner binding))) (\<lambda>current.
     tx_bind (tx_check (oi_version current = tb_expectedVersion binding
         \<and> oi_mode current = Some (js_mode state)
         \<and> js_current_attempt state = ow_attempt (oi_owner current)
         \<and> js_status state \<in> {Succeeded, Failed, Cancelled, Expired}) (OwnedIntentError OWNED_INTENT_CONFLICT)) (\<lambda>_.
     tx_bind (tx_query (terminalMarker env current)) (\<lambda>existing.
     case existing of
       Some r \<Rightarrow>
         tx_bind (tx_check (case r of RemoteTerminal t \<Rightarrow> rt_status t = js_status state | _ \<Rightarrow> True)
           (OwnedIntentError OWNED_INTENT_CONFLICT)) (\<lambda>_.
         tx_bind (tx_query (\<lambda>db. check_result checks 2)) (\<lambda>_. tx_return (AlreadyEnded r state)))
     | None \<Rightarrow>
         tx_bind (tx_query (\<lambda>db. owned_result (parseTerminalRecord (en_terminal env)
             (ownedJson (record_value (RemoteTerminal \<lparr>rt_predecessor = current,
                rt_committedVersion = oi_version current + 1, rt_status = js_status state,
                rt_state = state\<rparr>)))))) (\<lambda>r.
         case r of
           LocalTerminal _ \<Rightarrow> tx_throw (OwnedIntentError OWNED_INTENT_INVALID)
         | RemoteTerminal t \<Rightarrow>
             tx_bind (writeTerminal env now current (RemoteTerminal t)) (\<lambda>_.
             tx_bind (tx_query (readOwnedIntents env)) (\<lambda>_.
             tx_bind (tx_query (\<lambda>db. check_result checks 2)) (\<lambda>_.
             tx_return (Reconciled t)))))))))"

definition reconcileTerminal ::
  "store_env \<Rightarrow> string \<Rightarrow> uval \<Rightarrow> (authority_error + Capability) list \<Rightarrow> plugin_store
     \<Rightarrow> (plugin_error + TerminalReconcileResult) \<times> plugin_store" where
  "reconcileTerminal env now input checks =
     terminalOperation (\<lambda>st.
       case captureTerminalBinding (en_is_uuid env) input of
         None \<Rightarrow> (Inl (TerminalAuthorityError TERMINAL_AUTHORITY_INVALID), st)
       | Some binding \<Rightarrow>
           if tb_operation binding \<noteq> Op_reconcile then (Inl (OwnedIntentError OWNED_INTENT_INVALID), st)
           else case check_result checks 0 of
               Inl e \<Rightarrow> (Inl e, st)
             | Inr checked \<Rightarrow> ownedTransaction (reconcile_body env now binding (cap_state checked) checks) st)"

end
