(* ===== verification/Plugin_Journal.thy ===== *)
theory Plugin_Journal
  imports Plugin_Intents
begin

section \<open>What the store of the plugin keeps\<close>

text \<open>
  The invariant of the tables and the relation \<open>journal_step\<close> between the tables before and after any
  method: the invariant is kept; outbound events and inbound sequences are only appended;
  acknowledgements, terminal markers, receipts and the owners of jobs stay. The locale
  \<open>plugin_relation\<close> states what a relation needs of the statements of the store, so that every
  method keeps it. \<open>plugin_run\<close> is any sequence of method calls.
\<close>

subsection \<open>Keys of the metadata\<close>

text \<open>Rows under these prefixes are written once.\<close>

definition permanent_prefixes :: "string list" where
  "permanent_prefixes =
     [''owned-terminal-v1:'', ''owned-active-v1:'', ''owned-generation-v1:'', ''outbound-receipt-profile:'',
      ''inbound-coordination-receipt:'']"

definition permanent :: "string \<Rightarrow> bool" where
  "permanent key = list_ex (startsWith key) permanent_prefixes"

definition proven_key :: string where
  "proven_key = ''transport-proven-prefix''"

lemmas key_defs = terminalKey_def activeOwnedKey_def generationOwnedKey_def profile_key_def
  receipt_key_def OUTBOUND_PROFILE_PREFIX_def INBOUND_RECEIPT_PREFIX_def delivered_key_def ownedKey_def
  intent_key_def INBOUND_DELIVERED_METADATA_PREFIX_def proven_key_def

lemma permanent_keys [simp]:
  "permanent (terminalKey owner)" "permanent (activeOwnedKey owner)" "permanent (generationOwnedKey owner)"
  "permanent (profile_key n)" "permanent (receipt_key n)"
  by (simp_all add: permanent_def permanent_prefixes_def key_defs startsWith_def)

lemma mutable_keys [simp]:
  "\<not> permanent (delivered_key m)" "\<not> permanent (''inbound-disposition:'' @ m)"
  "\<not> permanent ''transport-hello''" "\<not> permanent proven_key"
  "\<not> permanent (ownedKey j n)" "\<not> permanent (intent_key r)"
  by (simp_all add: permanent_def permanent_prefixes_def key_defs startsWith_def)

lemma not_proven_key [simp]:
  "permanent key \<Longrightarrow> key \<noteq> proven_key"
  "delivered_key m \<noteq> proven_key" "''inbound-disposition:'' @ m \<noteq> proven_key"
  "''transport-hello'' \<noteq> proven_key" "ownedKey j n \<noteq> proven_key" "intent_key r \<noteq> proven_key"
  by (auto simp: key_defs) (simp add: permanent_def permanent_prefixes_def startsWith_def)

subsection \<open>Tables that grow\<close>

definition grown :: "('r \<Rightarrow> 'r \<Rightarrow> bool) \<Rightarrow> 'r list \<Rightarrow> 'r list \<Rightarrow> bool" where
  "grown P xs xs' \<longleftrightarrow> (\<exists>ys zs. xs' = ys @ zs \<and> list_all2 P xs ys)"

lemma grown_refl: "(\<And>r. P r r) \<Longrightarrow> grown P xs xs"
  unfolding grown_def by (metis append_Nil2 list_all2_refl)

lemma grown_append: "(\<And>r. P r r) \<Longrightarrow> grown P xs (xs @ zs)"
  unfolding grown_def by (metis list_all2_refl)

lemma grown_trans:
  assumes "grown P xs ys" "grown P ys zs" "\<And>a b c. P a b \<Longrightarrow> P b c \<Longrightarrow> P a c"
  shows "grown P xs zs"
proof -
  obtain y y' where y: "ys = y @ y'" "list_all2 P xs y" using assms(1) by (auto simp: grown_def)
  obtain z z' where z: "zs = z @ z'" "list_all2 P ys z" using assms(2) by (auto simp: grown_def)
  then obtain z1 z2 where "z = z1 @ z2" "list_all2 P y z1"
    using y(1) by (auto simp: list_all2_append1)
  moreover from this y(2) assms(3) have "list_all2 P xs z1" by (blast intro: list_all2_trans)
  ultimately show ?thesis using z(1) by (auto simp: grown_def)
qed

lemma grown_update: "(\<And>r. p r \<Longrightarrow> P r (f r)) \<Longrightarrow> (\<And>r. P r r) \<Longrightarrow> grown P xs (sql_update p f xs)"
  unfolding grown_def sql_update_def
  by (rule exI [of _ "map (\<lambda>r. if p r then f r else r) xs"])
    (auto simp: list_all2_conv_all_nth)

lemma grown_in: "grown P xs xs' \<Longrightarrow> r \<in> set xs \<Longrightarrow> \<exists>r' \<in> set xs'. P r r'"
  by (fastforce simp: grown_def list_all2_conv_all_nth in_set_conv_nth)

definition outbound_moves :: "outbound_row \<Rightarrow> outbound_row \<Rightarrow> bool" where
  "outbound_moves r r' \<longleftrightarrow>
     ob_message_id r' = ob_message_id r \<and> ob_sequence r' = ob_sequence r \<and> ob_created_at r' = ob_created_at r
     \<and> ob_attempts r \<le> ob_attempts r'
     \<and> (ob_acknowledged_at r = None \<or> ob_acknowledged_at r' = ob_acknowledged_at r)"

definition mapping_moves :: "mapping_row \<Rightarrow> mapping_row \<Rightarrow> bool" where
  "mapping_moves r r' \<longleftrightarrow>
     mp_job_id r' = mp_job_id r \<and> mp_attempt r' = mp_attempt r \<and> mp_session_id r' = mp_session_id r"

definition inbound_moves :: "inbound_row \<Rightarrow> inbound_row \<Rightarrow> bool" where
  "inbound_moves r r' \<longleftrightarrow> in_sequence r' = in_sequence r"

lemmas moves_defs = outbound_moves_def mapping_moves_def inbound_moves_def

lemma moves_refl [simp]: "outbound_moves r r" "mapping_moves m m" "inbound_moves i i"
  by (simp_all add: moves_defs)

subsection \<open>The invariant\<close>

definition proven :: "plugin_db \<Rightarrow> int" where
  "proven db = (case meta_get proven_key db of
     None \<Rightarrow> 0 | Some v \<Rightarrow> (case number_of_text v of None \<Rightarrow> 0 | Some n \<Rightarrow> n))"

definition inbound_ok :: "inbound_row list \<Rightarrow> bool" where
  "inbound_ok rows \<longleftrightarrow>
     distinct (map in_message_id rows) \<and> distinct (map in_sequence rows) \<and> (\<forall>r \<in> set rows. 1 \<le> in_sequence r)"

definition outbound_ok :: "outbound_row list \<Rightarrow> bool" where
  "outbound_ok rows \<longleftrightarrow>
     distinct (map ob_message_id rows) \<and> sorted_wrt (<) (map ob_sequence rows)
     \<and> (\<forall>r \<in> set rows. 1 \<le> ob_sequence r \<and> 0 \<le> ob_attempts r)"

definition mappings_ok :: "mapping_row list \<Rightarrow> bool" where
  "mappings_ok rows \<longleftrightarrow>
     distinct (map mp_session_id rows) \<and> distinct (map (\<lambda>m. (mp_job_id m, mp_attempt m)) rows)
     \<and> (\<forall>m \<in> set rows. 1 \<le> mp_attempt m)"

definition proven_ok :: "int \<Rightarrow> outbound_row list \<Rightarrow> bool" where
  "proven_ok n rows \<longleftrightarrow>
     (n = 0 \<or> (\<exists>r \<in> set rows. n \<le> ob_sequence r))
     \<and> (\<forall>r \<in> set rows. ob_sequence r \<le> n \<longrightarrow> ob_acknowledged_at r \<noteq> None)"

definition journal_inv :: "plugin_db \<Rightarrow> bool" where
  "journal_inv db \<longleftrightarrow>
     inbound_ok (pl_inbound db) \<and> outbound_ok (pl_outbound db) \<and> mappings_ok (pl_mappings db)
     \<and> distinct (map fst (pl_metadata db)) \<and> proven_ok (proven db) (pl_outbound db)"

definition journal_step :: "plugin_db \<Rightarrow> plugin_db \<Rightarrow> bool" where
  "journal_step db db' \<longleftrightarrow>
     (journal_inv db \<longrightarrow> journal_inv db' \<and> proven db \<le> proven db')
     \<and> grown outbound_moves (pl_outbound db) (pl_outbound db')
     \<and> grown inbound_moves (pl_inbound db) (pl_inbound db')
     \<and> grown mapping_moves (pl_mappings db) (pl_mappings db')
     \<and> (\<forall>key v. permanent key \<longrightarrow> meta_get key db = Some v \<longrightarrow> meta_get key db' = Some v)"

interpretation js: tx_relation journal_step
proof unfold_locales
  show "journal_step db db" for db
    by (simp add: journal_step_def grown_refl)
  show "journal_step a b \<Longrightarrow> journal_step b c \<Longrightarrow> journal_step a c" for a b c
    unfolding journal_step_def
    by (auto elim!: grown_trans simp: moves_defs)
qed

subsection \<open>The statements\<close>

lemma put_key_get: "map_of (put_key k v xs) j = (if j = k then Some v else map_of xs j)"
  by (induction k v xs rule: put_key.induct) auto

lemma put_key_fst: "map fst (put_key k v xs) = (if k \<in> set (map fst xs) then map fst xs else map fst xs @ [k])"
  by (induction k v xs rule: put_key.induct) auto

lemma map_of_append_new: "k \<notin> fst ` set xs \<Longrightarrow> map_of (xs @ [(k, v)]) j = (if j = k then Some v else map_of xs j)"
  by (induction xs) auto

lemma map_of_filter_keys: "j \<notin> set ks \<Longrightarrow> map_of (filter (\<lambda>(k, v). k \<notin> set ks) xs) j = map_of xs j"
  by (induction xs) auto

lemma distinct_filter_keys: "distinct (map fst xs) \<Longrightarrow> distinct (map fst (filter P xs))"
  by (induction xs) auto

text \<open>A change of the metadata that leaves the permanent rows and the proven prefix alone.\<close>

lemma metadata_step:
  assumes "\<And>k v. permanent k \<Longrightarrow> map_of (pl_metadata db) k = Some v \<Longrightarrow> map_of xs k = Some v"
    and "map_of xs proven_key = map_of (pl_metadata db) proven_key"
    and "distinct (map fst (pl_metadata db)) \<Longrightarrow> distinct (map fst xs)"
  shows "journal_step db (db\<lparr>pl_metadata := xs\<rparr>)"
proof -
  have "proven (db\<lparr>pl_metadata := xs\<rparr>) = proven db" using assms(2) by (simp add: proven_def meta_get_def)
  then show ?thesis
    using assms by (auto simp: journal_step_def journal_inv_def grown_refl meta_get_def)
qed

lemma step_meta_insert:
  "meta_insert key v db = Inr (u, db') \<Longrightarrow> key \<noteq> proven_key \<Longrightarrow> journal_step db db'"
  by (auto simp: meta_insert_def map_of_append_new simp del: map_of_append split: if_splits
      intro!: metadata_step) (metis fst_conv image_iff map_of_SomeD)

lemma step_meta_put:
  "meta_put key v db = Inr (u, db') \<Longrightarrow> \<not> permanent key \<Longrightarrow> key \<noteq> proven_key \<Longrightarrow> journal_step db db'"
  by (auto simp: meta_put_def put_key_get put_key_fst intro!: metadata_step)

lemma step_meta_delete:
  "meta_delete keys db = Inr (u, db') \<Longrightarrow> \<forall>k \<in> set keys. \<not> permanent k \<and> k \<noteq> proven_key \<Longrightarrow> journal_step db db'"
  by (auto simp: meta_delete_def map_of_filter_keys distinct_filter_keys intro!: metadata_step)

lemma step_insert_inbound: "insert_inbound r db = Inr (u, db') \<Longrightarrow> journal_step db db'"
  by (auto simp: insert_inbound_def journal_step_def journal_inv_def inbound_ok_def proven_def meta_get_def
      grown_refl grown_append split: if_splits)

lemma step_insert_mapping: "insert_mapping m db = Inr (u, db') \<Longrightarrow> journal_step db db'"
  by (auto simp: insert_mapping_def journal_step_def journal_inv_def mappings_ok_def proven_def meta_get_def
      grown_refl grown_append split: if_splits)

lemma step_update_mappings:
  assumes "update_mappings p f db = Inr (n, db')" "\<And>m. mapping_moves m (f m)"
  shows "journal_step db db'"
proof -
  have "mappings_ok (sql_update p f rows)" if "mappings_ok rows" for rows
    using that assms(2)
    by (auto simp: mappings_ok_def mapping_moves_def map_sql_update in_sql_update)
  with assms show ?thesis
    by (auto simp: update_mappings_def journal_step_def journal_inv_def proven_def meta_get_def
        grown_refl intro!: grown_update)
qed

text \<open>Updates of the queue that keep every acknowledgement.\<close>

lemma outbound_ok_update:
  assumes "outbound_ok rows" "\<And>r. outbound_moves r (f r)"
  shows "outbound_ok (sql_update p f rows)"
proof -
  have m: "ob_message_id (f r) = ob_message_id r" "ob_sequence (f r) = ob_sequence r"
    "ob_attempts r \<le> ob_attempts (f r)" for r
    using assms(2) [of r] by (simp_all add: outbound_moves_def)
  have "0 \<le> ob_attempts (f r)" if "r \<in> set rows" for r
    using that assms(1) m(3) [of r] by (force simp: outbound_ok_def)
  then show ?thesis
    using assms(1) by (auto simp: outbound_ok_def map_sql_update in_sql_update m)
qed

lemma proven_ok_update:
  assumes "proven_ok n rows" "\<And>r. outbound_moves r (f r)"
  shows "proven_ok n (sql_update p f rows)"
proof -
  have m: "ob_sequence (f r) = ob_sequence r"
    "ob_acknowledged_at r = None \<or> ob_acknowledged_at (f r) = ob_acknowledged_at r" for r
    using assms(2) [of r] by (simp_all add: outbound_moves_def)
  have "\<exists>r \<in> set (sql_update p f rows). n \<le> ob_sequence r" if "r \<in> set rows" "n \<le> ob_sequence r" for r
    using that m(1) by (intro bexI [of _ "if p r then f r else r"]) (auto simp: in_sql_update)
  moreover have "ob_acknowledged_at (f r) \<noteq> None" if "ob_acknowledged_at r \<noteq> None" for r
    using m(2) [of r] that by auto
  ultimately show ?thesis
    using assms(1) unfolding proven_ok_def by (auto simp: in_sql_update m(1))
qed

lemma step_update_outbound:
  assumes "update_outbound p f db = Inr (u, db')" "\<And>r. outbound_moves r (f r)"
  shows "journal_step db db'"
  using assms outbound_ok_update proven_ok_update
  by (auto simp: update_outbound_def journal_step_def journal_inv_def proven_def meta_get_def
      grown_refl intro!: grown_update)

lemma step_insert_outbound:
  assumes "insert_outbound r db = Inr (u, db')" "\<forall>q \<in> set (pl_outbound db). ob_sequence q < ob_sequence r"
    and "0 \<le> ob_attempts r"
  shows "journal_step db db'"
proof -
  have d: "db' = db\<lparr>pl_outbound := pl_outbound db @ [r]\<rparr>" and new: "1 \<le> ob_sequence r"
    "ob_message_id r \<notin> ob_message_id ` set (pl_outbound db)"
    using assms(1) by (auto simp: insert_outbound_def split: if_splits)
  have "outbound_ok (pl_outbound db @ [r])" if "outbound_ok (pl_outbound db)"
    using that assms(2,3) new by (auto simp: outbound_ok_def sorted_wrt_append)
  moreover have "proven_ok n (pl_outbound db @ [r])" if "proven_ok n (pl_outbound db)" for n
    using that assms(2) new by (fastforce simp: proven_ok_def)
  ultimately show ?thesis
    by (auto simp: d journal_step_def journal_inv_def proven_def meta_get_def grown_refl grown_append)
qed

lemma inbound_ok_swap:
  assumes "inbound_ok rows" "\<And>r. in_sequence (f r) = in_sequence r" "\<And>r. in_message_id (f r) = m"
    and "m \<notin> in_message_id ` set (filter (\<lambda>r. \<not> p r) rows)" "length (filter p rows) = 1"
  shows "inbound_ok (sql_update p f rows)"
proof -
  have "distinct (map in_message_id (sql_update p f rows))"
    using assms(1,3-5) unfolding inbound_ok_def
  proof (induction rows)
    case (Cons r rows)
    show ?case
    proof (cases "p r")
      case True
      then have none: "filter p rows = []" using Cons.prems by simp
      then have "sql_update p f rows = rows" by (intro sql_update_none) (auto simp: filter_empty_conv)
      moreover have "m \<notin> in_message_id ` set rows" using Cons.prems none by (auto simp: filter_empty_conv)
      ultimately show ?thesis using True Cons.prems by simp
    next
      case False
      have "in_message_id r \<notin> in_message_id ` set (sql_update p f rows)"
        using Cons.prems False by (force simp: in_sql_update)
      with False Cons show ?thesis by simp
    qed
  qed simp
  with assms(1,2) show ?thesis by (auto simp: inbound_ok_def map_sql_update in_sql_update)
qed

lemma step_swap_inbound:
  assumes "swap_inbound now p db = Inr (u, db')"
  shows "journal_step db db'"
proof -
  define hit where "hit = (\<lambda>r :: inbound_row. in_sequence r = ir_sequence p \<and> in_message_id r = ir_previousMessageId p
      \<and> in_body r = ir_previousBody p)"
  define f where "f = (\<lambda>r :: inbound_row. r\<lparr>in_message_id := ir_messageId p, in_body := ir_body p, in_received_at := now\<rparr>)"
  have d: "db' = db\<lparr>pl_inbound := sql_update hit f (pl_inbound db)\<rparr>"
    and *: "ir_messageId p \<notin> in_message_id ` set (filter (\<lambda>r. \<not> hit r) (pl_inbound db))"
      "length (filter hit (pl_inbound db)) = 1"
    using assms by (auto simp: swap_inbound_def Let_def hit_def [symmetric] f_def [symmetric] split: if_splits)
  have "inbound_ok (sql_update hit f (pl_inbound db))" if "inbound_ok (pl_inbound db)"
    using that * by (intro inbound_ok_swap [where m = "ir_messageId p"]) (auto simp: f_def)
  then show ?thesis
    by (auto simp: d journal_step_def journal_inv_def proven_def meta_get_def grown_refl f_def
        inbound_moves_def intro!: grown_update)
qed

lemma show_nat_decimal: "list_all is_dec (units (show_nat n)) \<and> dec_value (units (show_nat n)) = int n"
proof (induction n rule: show_nat.induct)
  case (1 n)
  have d: "of_char (char_of (48 + k) :: char) = 48 + int k" if "k < 10" for k :: nat
    using that of_nat_of_char [of "char_of (48 + k)", where 'a = int, symmetric] by simp
  show ?case
  proof (cases "n < 10")
    case True
    then show ?thesis by (simp add: show_nat.simps [of n] units_def dec_value_def is_dec_def between_def d)
  next
    case False
    have "units (show_nat n) = units (show_nat (n div 10)) @ [48 + int (n mod 10)]"
      using False by (simp add: show_nat.simps [of n] units_def d)
    with 1 False show ?thesis
      by (simp add: dec_value_def is_dec_def between_def) (simp add: zdiv_int zmod_int)
  qed
qed

lemma show_nat_nonempty: "show_nat n \<noteq> []"
  by (subst show_nat.simps) simp

lemma number_of_units [simp]: "0 \<le> n \<Longrightarrow> number_of_text (number_units n) = Some n"
  using show_nat_decimal [of "nat n"] show_nat_nonempty [of "nat n"]
  by (simp add: number_of_text_def number_units_def show_int_def units_def)

lemma number_of_text_nonneg: "number_of_text s = Some n \<Longrightarrow> 0 \<le> n"
proof -
  have "0 \<le> acc \<Longrightarrow> list_all is_dec s \<Longrightarrow> 0 \<le> fold (\<lambda>d acc. 10 * acc + (d - 48)) s acc" for acc :: int
    by (induction s arbitrary: acc) (auto simp: is_dec_def between_def)
  then show "number_of_text s = Some n \<Longrightarrow> 0 \<le> n"
    by (auto simp: number_of_text_def dec_value_def split: if_splits)
qed

lemma proven_nonneg: "0 \<le> proven db"
  by (auto simp: proven_def number_of_text_nonneg split: option.split)

text \<open>The prefix moves up together with the acknowledgement of everything below it.\<close>

lemma step_prove:
  assumes "tx_bind (meta_put proven_key (number_units n)) (\<lambda>_.
      update_outbound (\<lambda>r. ob_sequence r \<le> n)
       (\<lambda>r. r\<lparr>ob_acknowledged_at := (case ob_acknowledged_at r of None \<Rightarrow> Some now | Some t \<Rightarrow> Some t)\<rparr>)) db
     = Inr (u, db')"
    and n: "proven db \<le> n" "\<exists>r \<in> set (pl_outbound db). n \<le> ob_sequence r"
  shows "journal_step db db'"
proof -
  define f where "f = (\<lambda>r :: outbound_row. r\<lparr>ob_acknowledged_at :=
      (case ob_acknowledged_at r of None \<Rightarrow> Some now | Some t \<Rightarrow> Some t)\<rparr>)"
  let ?rows = "sql_update (\<lambda>r. ob_sequence r \<le> n) f (pl_outbound db)"
  have f: "outbound_moves r (f r)" "ob_sequence (f r) = ob_sequence r" "ob_acknowledged_at (f r) \<noteq> None" for r
    by (auto simp: f_def outbound_moves_def split: option.split)
  have d: "db' = db\<lparr>pl_metadata := put_key proven_key (number_units n) (pl_metadata db), pl_outbound := ?rows\<rparr>"
    using assms(1) by (auto simp: tx_simps meta_put_def update_outbound_def f_def)
  have p: "proven db' = n"
    using n(1) proven_nonneg [of db] by (simp add: d proven_def meta_get_def put_key_get)
  obtain r where r: "r \<in> set (pl_outbound db)" "n \<le> ob_sequence r" using n(2) by blast
  have "(if ob_sequence r \<le> n then f r else r) \<in> set ?rows" using r(1) by (auto simp only: in_sql_update)
  moreover have "n \<le> ob_sequence (if ob_sequence r \<le> n then f r else r)" using r(2) f(2) by simp
  ultimately have "\<exists>r \<in> set ?rows. n \<le> ob_sequence r" by blast
  moreover have "ob_acknowledged_at r \<noteq> None" if "r \<in> set ?rows" "ob_sequence r \<le> n" for r
    using that f(2,3) by (auto simp: in_sql_update)
  ultimately have "proven_ok n ?rows" by (simp add: proven_ok_def)
  moreover have "outbound_ok ?rows" if "outbound_ok (pl_outbound db)"
    using outbound_ok_update [OF that f(1)] .
  moreover have "meta_get key db' = meta_get key db" if "permanent key" for key
    using that not_proven_key(1) [OF that] by (simp add: d meta_get_def put_key_get)
  ultimately show ?thesis
    using n(1) f(1) p by (auto simp: journal_step_def journal_inv_def d put_key_fst grown_refl intro!: grown_update)
qed

lemma max_of_ge: "max_of xs = Some n \<Longrightarrow> x \<in> set xs \<Longrightarrow> x \<le> n"
proof -
  have "x \<in> set xs \<Longrightarrow> x \<le> foldr max xs m" for m by (induction xs) auto
  then show "max_of xs = Some n \<Longrightarrow> x \<in> set xs \<Longrightarrow> x \<le> n"
    by (auto simp: max_of_def split: list.splits)
qed

lemma max_of_in: "max_of xs = Some n \<Longrightarrow> n \<in> set xs"
proof -
  have "foldr max xs m \<in> insert m (set xs)" for m :: int by (induction xs) (auto simp: max_def)
  then show "max_of xs = Some n \<Longrightarrow> n \<in> set xs"
    by (auto simp: max_of_def split: list.splits)
qed

lemma max_of_None: "max_of xs = None \<longleftrightarrow> xs = []"
  by (simp add: max_of_def split: list.split)

lemma max_of_greater:
  "case max_of (map ob_sequence rows) of None \<Rightarrow> True | Some n \<Rightarrow> s > n \<Longrightarrow> q \<in> set rows \<Longrightarrow> ob_sequence q < s"
  by (cases "max_of (map ob_sequence rows)") (auto simp: max_of_None dest: max_of_ge [of _ _ "ob_sequence q"])

lemma res_bind_Inr [tx_simps]: "res_bind r f = Inr b \<longleftrightarrow> (\<exists>a. r = Inr a \<and> f a = Inr b)"
  by (auto simp: res_bind_def split: sum.splits)

lemma res_option_Inr [tx_simps]: "res_option e v = Inr a \<longleftrightarrow> v = Some a"
  by (auto simp: res_option_def split: option.splits)

lemma res_guard_Inr [tx_simps]: "res_guard g r = Inr a \<longleftrightarrow> g = None \<and> r = Inr a"
  by (auto simp: res_guard_def split: option.splits)

lemma tx_query_Inr [tx_simps]: "tx_query f db = Inr (a, db') \<longleftrightarrow> f db = Inr a \<and> db' = db"
  by (auto simp: tx_query_def split: sum.splits)

lemma assertions_None [tx_simps]:
  "assertPositiveInteger n c = None \<longleftrightarrow> isSafeInteger n \<and> 1 \<le> n"
  "assertNonNegativeInteger n c = None \<longleftrightarrow> isSafeInteger n \<and> 0 \<le> n"
  "assertNonEmpty v c = None \<longleftrightarrow> v \<noteq> []"
  by (auto simp: assertPositiveInteger_def assertNonNegativeInteger_def assertNonEmpty_def)

lemma storedEvent_Inr:
  "storedEvent env row db = Inr s \<Longrightarrow> so_messageId s = ob_message_id row \<and> so_sequence s = ob_sequence row
     \<and> so_payload s = ob_payload_json row \<and> so_attempts s = ob_attempts row
     \<and> so_acknowledgedAt s = ob_acknowledged_at row"
  by (auto simp: storedEvent_def Let_def split: option.splits if_splits)

lemma outboundEvent_Some:
  "outboundEvent env n db = Inr (Some s) \<Longrightarrow> \<exists>r \<in> set (pl_outbound db). ob_sequence r = n \<and> so_sequence s = n
     \<and> so_messageId s = ob_message_id r \<and> so_payload s = ob_payload_json r"
  by (auto simp: outboundEvent_def tx_simps split: option.splits dest!: first_row_filter_Some storedEvent_Inr)

lemma outboundEvent_positive: "outboundEvent env n db = Inr a \<Longrightarrow> 1 \<le> n"
  by (auto simp: outboundEvent_def tx_simps)

lemma provenClientSequence_Inr:
  assumes "provenClientSequence db = Inr n"
  shows "n = proven db" "0 \<le> n" "n = 0 \<or> (\<exists>r \<in> set (pl_outbound db). n \<le> ob_sequence r)"
proof -
  show n: "n = proven db" "0 \<le> n"
    using assms
    by (auto simp: provenClientSequence_def proven_def proven_key_def maxOutboundSequence_def tx_simps Let_def
        split: option.splits if_splits)
  show "n = 0 \<or> (\<exists>r \<in> set (pl_outbound db). n \<le> ob_sequence r)"
  proof (rule ccontr)
    assume no: "\<not> ?thesis"
    then have "m < n" if "max_of (map ob_sequence (pl_outbound db)) = Some m" for m
      using max_of_in [OF that] by auto
    with assms no n(2) show False
      by (auto simp: provenClientSequence_def maxOutboundSequence_def tx_simps Let_def
          split: option.splits if_splits)
  qed
qed

lemma maxOutboundSequence_Inr:
  "maxOutboundSequence db = Inr n \<Longrightarrow> r \<in> set (pl_outbound db) \<Longrightarrow> ob_sequence r \<le> n"
  by (auto simp: maxOutboundSequence_def tx_simps Let_def max_of_None split: option.splits
      dest: max_of_ge [of _ _ "ob_sequence r"])

lemma writeTerminal_outbound:
  "writeTerminal env now c r db = Inr (u, db') \<Longrightarrow> pl_outbound db' = pl_outbound db"
  unfolding writeTerminal_def write_intent_def Let_def
  by (auto simp: tx_bind_Inr tx_query_Inr tx_check_Inr tx_read_eq meta_put_def meta_insert_def
      update_mappings_def split: if_splits)

subsection \<open>The methods\<close>

text \<open>What a relation on the tables needs of the statements to be kept by every method.\<close>

locale plugin_relation = tx_relation R for R :: "plugin_db \<Rightarrow> plugin_db \<Rightarrow> bool" +
  assumes keeps_insert_inbound: "keeps (insert_inbound r :: unit plugin_tx)"
    and keeps_swap_inbound: "keeps (swap_inbound now p)"
    and keeps_insert_mapping: "keeps (insert_mapping m)"
    and keeps_update_mappings: "(\<And>m. mapping_moves m (f m)) \<Longrightarrow> keeps (update_mappings q f)"
    and keeps_meta_insert: "key \<noteq> proven_key \<Longrightarrow> keeps (meta_insert key v)"
    and keeps_meta_put: "\<not> permanent key \<Longrightarrow> key \<noteq> proven_key \<Longrightarrow> keeps (meta_put key v)"
    and keeps_meta_delete:
      "(\<And>k. k \<in> set keys \<Longrightarrow> \<not> permanent k \<and> k \<noteq> proven_key) \<Longrightarrow> keeps (meta_delete keys)"
    and keeps_update_outbound: "(\<And>o'. outbound_moves o' (g o')) \<Longrightarrow> keeps (update_outbound t g)"
    and rel_insert_outbound: "insert_outbound b db = Inr (u, db') \<Longrightarrow>
      (\<And>q. q \<in> set (pl_outbound db) \<Longrightarrow> ob_sequence q < ob_sequence b) \<Longrightarrow> 0 \<le> ob_attempts b \<Longrightarrow> R db db'"
    and rel_prove: "tx_bind (meta_put proven_key (number_units n)) (\<lambda>_.
        update_outbound (\<lambda>r. ob_sequence r \<le> n)
         (\<lambda>r. r\<lparr>ob_acknowledged_at := (case ob_acknowledged_at r of None \<Rightarrow> Some at' | Some t \<Rightarrow> Some t)\<rparr>)) db
       = Inr (u, db') \<Longrightarrow> proven db \<le> n \<Longrightarrow> (\<exists>r \<in> set (pl_outbound db). n \<le> ob_sequence r) \<Longrightarrow> R db db'"
begin

lemma keeps_query: "keeps (tx_query f)"
  by (rule keepsI) (auto simp: tx_query_def rel_refl split: sum.splits)

lemma keeps_rethrow: "keeps m \<Longrightarrow> keeps (tx_rethrow f m)"
  by (auto simp: keeps_def tx_rethrow_def split: sum.splits)

lemmas keeps_plugin = keeps_bind keeps_return keeps_throw keeps_check keeps_read keeps_query keeps_rethrow
  keeps_insert_inbound keeps_swap_inbound keeps_insert_mapping keeps_meta_insert keeps_meta_put keeps_meta_delete

lemma keeps_receipt: "keeps (insertCoordinationReceipt r)"
  by (auto simp: insertCoordinationReceipt_def intro!: keeps_plugin split: option.split)

lemma keeps_record: "keeps (record_body env now m s b e)"
  unfolding record_body_def by (auto intro!: keeps_plugin keeps_receipt split: option.split)

lemma keeps_replace: "keeps (replace_body env now p)"
  unfolding replace_body_def
  by (auto intro!: keeps_plugin keeps_receipt simp: not_proven_key [symmetric] split: option.split)

lemma keeps_deliver: "keeps (deliver_body m)"
  unfolding deliver_body_def by (auto intro!: keeps_plugin split: option.split)

lemma keeps_map: "keeps (map_body env now c)"
  unfolding map_body_def
  by (auto intro!: keeps_plugin keeps_update_mappings simp: mapping_moves_def)

lemma keeps_pending: "keeps (pending_events_body env n)"
  unfolding pending_events_body_def by (auto intro!: keeps_plugin keeps_update_outbound simp: outbound_moves_def)

lemma keeps_renew: "keeps (renew_body env n x)"
  unfolding renew_body_def Let_def
  by (auto intro!: keeps_plugin keeps_update_outbound simp: outbound_moves_def)

lemma keeps_pin: "keeps (pin_hello env e d)"
  unfolding pin_hello_def by (auto intro!: keeps_plugin)

lemma keeps_enqueue: "keeps (enqueue_event_body env now e pin d)"
proof -
  have rest: "keeps (tx_bind (if pin then pin_hello env e d else tx_return ()) (\<lambda>_.
      case oe_expectedReceiptProfile e of
        None \<Rightarrow> tx_return ()
      | Some profile \<Rightarrow> meta_insert (profile_key (oe_sequence e)) (units profile)))"
    by (auto intro!: keeps_plugin keeps_pin split: option.split)
  have "keeps (enqueue_new env now e pin d)"
  proof (rule keepsI)
    fix db a db'
    assume "enqueue_new env now e pin d db = Inr (a, db')"
    then obtain u db1 where 1: "case max_of (map ob_sequence (pl_outbound db)) of None \<Rightarrow> True | Some n \<Rightarrow> oe_sequence e > n"
        "insert_outbound \<lparr>ob_message_id = oe_messageId e, ob_sequence = oe_sequence e,
           ob_payload_json = oe_payload e, ob_attempts = 0, ob_acknowledged_at = None, ob_created_at = now\<rparr> db
         = Inr (u, db1)"
      and 2: "tx_bind (if pin then pin_hello env e d else tx_return ()) (\<lambda>_.
          case oe_expectedReceiptProfile e of
            None \<Rightarrow> tx_return ()
          | Some profile \<Rightarrow> meta_insert (profile_key (oe_sequence e)) (units profile)) db1 = Inr (a, db')"
      unfolding enqueue_new_def
      by (subst (asm) tx_bind_Inr, elim exE conjE, subst (asm) tx_bind_Inr, elim exE conjE,
          subst (asm) tx_bind_Inr, elim exE conjE) (auto simp: tx_read_eq tx_check_Inr)
    have "R db db1"
      by (rule rel_insert_outbound [OF 1(2)]) (use max_of_greater [OF 1(1)] in simp_all)
    then show "R db db'" using keepsD [OF rest 2] by (rule rel_trans)
  qed
  then show ?thesis
    unfolding enqueue_event_body_def by (auto intro!: keeps_plugin split: option.split)
qed

lemma keeps_insert_intent: "keeps (insert_intent now r)"
  unfolding insert_intent_def Let_def by (intro keeps_plugin) simp_all

lemma keeps_prepare: "keeps (prepare_body env now i p)"
  unfolding prepare_body_def Let_def
  by (auto intro!: keeps_plugin keeps_insert_intent split: option.split)

lemma keeps_write_intent: "keeps (write_intent now c r s)"
  unfolding write_intent_def Let_def
  by (auto intro!: keeps_plugin keeps_update_mappings simp: mapping_moves_def)

lemma keeps_advance: "keeps (advance_body env now w v n)"
  unfolding advance_body_def Let_def
  by (auto intro!: keeps_plugin keeps_write_intent split: option.split)

lemma keeps_writeTerminal: "keeps (writeTerminal env now c r)"
  unfolding writeTerminal_def Let_def by (auto intro!: keeps_plugin keeps_write_intent)

lemma keeps_reconcile: "keeps (reconcile_body env now b s checks)"
  unfolding reconcile_body_def
  by (auto intro!: keeps_plugin keeps_writeTerminal split: option.split TerminalRecord.split)

lemma keeps_acknowledge: "keeps (acknowledge_through_body env now s c)"
proof (rule keepsI)
  fix db a db'
  assume "acknowledge_through_body env now s c db = Inr (a, db')"
  then obtain stored p where found: "outboundEvent env s db = Inr (Some stored)"
    and p: "provenClientSequence db = Inr p"
    and w: "tx_bind (meta_put proven_key (number_units (max s p))) (\<lambda>_.
        update_outbound (\<lambda>r. ob_sequence r \<le> max s p)
         (\<lambda>r. r\<lparr>ob_acknowledged_at := (case ob_acknowledged_at r of None \<Rightarrow> Some now | Some t \<Rightarrow> Some t)\<rparr>)) db
       = Inr (a, db')"
    unfolding acknowledge_through_body_def Let_def
    by (auto simp: tx_bind_Inr tx_query_Inr tx_check_Inr res_option_Inr proven_key_def)
  have "\<exists>r \<in> set (pl_outbound db). max s p \<le> ob_sequence r"
  proof -
    obtain r where r: "r \<in> set (pl_outbound db)" "ob_sequence r = s" using outboundEvent_Some [OF found] by blast
    show ?thesis
    proof (cases "p \<le> s")
      case True
      then show ?thesis using r by (intro bexI [of _ r]) simp_all
    next
      case False
      moreover from this have "p \<noteq> 0" using outboundEvent_positive [OF found] by linarith
      ultimately show ?thesis using provenClientSequence_Inr(3) [OF p] by (simp add: max_def)
    qed
  qed
  then show "R db db'"
    by (intro rel_prove [OF w]) (use provenClientSequence_Inr(1) [OF p] in simp_all)
qed

lemma keeps_commit_new: "keeps (commit_new env now pr c f checks)"
proof (rule keepsI)
  fix db a db'
  assume "commit_new env now pr c f checks db = Inr (a, db')"
  then obtain e n t db1 db2 where n: "maxOutboundSequence db = Inr n" "n < oe_sequence e"
    and w: "writeTerminal env now c (LocalTerminal t) db = Inr ((), db1)"
    and b: "publish_terminal now e db1 = Inr ((), db2)" and d: "db' = db2"
    unfolding commit_new_def by (auto simp: tx_bind_Inr tx_query_Inr tx_check_Inr res_option_Inr tx_return_eq)
  have out: "pl_outbound db1 = pl_outbound db" by (rule writeTerminal_outbound [OF w])
  obtain u db3 where 3: "insert_outbound \<lparr>ob_message_id = oe_messageId e, ob_sequence = oe_sequence e,
       ob_payload_json = oe_payload e, ob_attempts = 0, ob_acknowledged_at = None, ob_created_at = now\<rparr> db1
      = Inr (u, db3)" "meta_insert (profile_key (oe_sequence e)) (units COORDINATION_PROFILE) db3 = Inr ((), db2)"
    using b by (auto simp: publish_terminal_def tx_bind_Inr)
  have "R db1 db3"
    by (rule rel_insert_outbound [OF 3(1)]) (use maxOutboundSequence_Inr [OF n(1)] n(2) out in force)+
  moreover have "R db3 db2" using 3(2) keeps_meta_insert [of "profile_key (oe_sequence e)"] by (auto dest: keepsD)
  ultimately show "R db db'"
    using keepsD [OF keeps_writeTerminal w] d by (blast intro: rel_trans)
qed

lemma keeps_commit: "keeps (commit_body env now pr c f checks)"
  unfolding commit_body_def Let_def by (auto intro!: keeps_plugin keeps_commit_new split: option.split)

end

interpretation pj: plugin_relation journal_step
proof unfold_locales
qed (auto intro!: js.keepsI intro: step_insert_inbound step_swap_inbound step_insert_mapping step_update_mappings
    step_meta_insert step_meta_put step_meta_delete step_update_outbound step_insert_outbound step_prove)

end
