(* ===== verification/Plugin_Runs.thy ===== *)
theory Plugin_Runs
  imports Plugin_Journal
begin

section \<open>Runs of the store of the plugin\<close>

text \<open>
  \<open>plugin_run\<close> is any sequence of calls of the methods of the store that write, with any arguments and
  any answers of the caller's factory and authority. A failed call is a step that keeps the tables.
  The theorems hold of every store such a run reaches from the empty one: the order of the journals,
  what an acknowledgement settles, what is sent again, and that an attempt ends once.
\<close>

inductive plugin_step :: "store_env \<Rightarrow> plugin_store \<Rightarrow> plugin_store \<Rightarrow> bool" for env where
  by_record: "plugin_step env st (snd (recordInbound env now m s body e st))"
| by_replace: "plugin_step env st (snd (replaceInbound env now r st))"
| by_delivered: "plugin_step env st (snd (markInboundDelivered m st))"
| by_expired: "plugin_step env st (snd (markInboundExpired m st))"
| by_map: "plugin_step env st (snd (mapJob env now c st))"
| by_enqueue: "plugin_step env st (snd (enqueueEvent env now event pin st))"
| by_acknowledge: "plugin_step env st (snd (acknowledgeThrough env now s correlation st))"
| by_renew: "plugin_step env st (snd (renewDelivery env s expires st))"
| by_pending: "plugin_step env st (snd (pendingEvents env s st))"
| by_acknowledge_event: "plugin_step env st (snd (acknowledgeEvent now m st))"
| by_prepare: "plugin_step env st (snd (prepareOwnedIntent env now input st))"
| by_advance: "plugin_step env st (snd (advanceOwnedIntent env now owner version transition st))"
| by_commit: "plugin_step env st (snd (commitTerminal env now input checks factory st))"
| by_reconcile: "plugin_step env st (snd (reconcileTerminal env now input checks st))"
| by_close: "plugin_step env st (snd (close_store st))"

definition plugin_run :: "store_env \<Rightarrow> plugin_store \<Rightarrow> plugin_store \<Rightarrow> bool" where
  "plugin_run env = (plugin_step env)\<^sup>*\<^sup>*"

subsection \<open>Every method keeps the journal\<close>

abbreviation db_step :: "plugin_store \<Rightarrow> plugin_store \<Rightarrow> bool" where
  "db_step st st' \<equiv> journal_step (pst_db st) (pst_db st')"

lemma plugin_write_keeps: "js.keeps body \<Longrightarrow> db_step st (snd (plugin_write guards body st))"
  using js.keeps_transaction [of body "pst_db st"]
  by (auto simp: plugin_write_def js.rel_refl split: option.split prod.split)

lemma owned_keeps: "js.keeps body \<Longrightarrow> db_step st (snd (ownedTransaction body st))"
  unfolding ownedTransaction_def by (intro plugin_write_keeps pj.keeps_rethrow)

lemma terminal_keeps:
  "(\<And>st'. db_step st' (snd (operation st'))) \<Longrightarrow> db_step st (snd (terminalOperation operation st))"
proof -
  assume keeps: "\<And>st'. db_step st' (snd (operation st'))"
  have "db_step st (snd (operation (st\<lparr>pst_terminalBusy := True\<rparr>)))"
    using keeps [of "st\<lparr>pst_terminalBusy := True\<rparr>"] by simp
  then show ?thesis
    by (auto simp: terminalOperation_def js.rel_refl split: option.split prod.split)
qed

lemma step_keeps_journal: "plugin_step env st st' \<Longrightarrow> db_step st st'"
proof (induction rule: plugin_step.induct)
  case (by_expired st m)
  show ?case unfolding markInboundExpired_def
    by (intro plugin_write_keeps js.keeps_bind pj.keeps_meta_put pj.keeps_query pj.keeps_deliver
        mutable_keys not_proven_key)
next
  case (by_acknowledge_event st now m)
  show ?case unfolding acknowledgeEvent_def
    by (intro plugin_write_keeps pj.keeps_update_outbound) (simp add: outbound_moves_def split: option.split)
next
  case (by_prepare st now input)
  show ?case by (auto simp: prepareOwnedIntent_def js.rel_refl intro!: owned_keeps pj.keeps_prepare
        split: option.split sum.split)
next
  case (by_advance st now owner version transition)
  show ?case by (auto simp: advanceOwnedIntent_def js.rel_refl intro!: owned_keeps pj.keeps_advance
        split: option.split)
next
  case (by_commit st now input checks factory)
  show ?case unfolding commitTerminal_def
    by (rule terminal_keeps) (auto simp: js.rel_refl intro!: owned_keeps pj.keeps_commit split: sum.split)
next
  case (by_reconcile st now input checks)
  show ?case unfolding reconcileTerminal_def
    by (rule terminal_keeps)
      (auto simp: js.rel_refl intro!: owned_keeps pj.keeps_reconcile split: option.split sum.split)
next
  case (by_close st)
  show ?case by (simp add: close_store_def js.rel_refl split: option.split)
qed (simp_all add: recordInbound_def replaceInbound_def markInboundDelivered_def mapJob_def enqueueEvent_def
    acknowledgeThrough_def renewDelivery_def pendingEvents_def plugin_write_keeps pj.keeps_rethrow
    pj.keeps_record pj.keeps_replace pj.keeps_deliver pj.keeps_map pj.keeps_enqueue pj.keeps_acknowledge
    pj.keeps_renew pj.keeps_pending)

lemma run_step: "plugin_run env st st' \<Longrightarrow> db_step st st'"
  unfolding plugin_run_def
  by (induction rule: rtranclp_induct) (auto intro: js.rel_refl js.rel_trans step_keeps_journal)

lemma run_refl: "plugin_run env st st"
  by (simp add: plugin_run_def)

lemma run_trans: "plugin_run env a b \<Longrightarrow> plugin_run env b c \<Longrightarrow> plugin_run env a c"
  by (simp add: plugin_run_def)

lemma run_one: "plugin_step env st st' \<Longrightarrow> plugin_run env st st'"
  by (simp add: plugin_run_def r_into_rtranclp)

lemma empty_journal: "journal_inv (pst_db empty_store)"
  by (simp add: empty_store_def journal_inv_def inbound_ok_def outbound_ok_def mappings_ok_def proven_ok_def
      proven_def meta_get_def)

lemma reached_journal: "plugin_run env empty_store st \<Longrightarrow> journal_inv (pst_db st)"
  using run_step empty_journal by (auto simp: journal_step_def)

text \<open>A store with two events, of which the first is acknowledged, and one inbound frame.\<close>

definition sample_store_env :: store_env where
  "sample_store_env =
     \<lparr>en_terminal = \<lparr>te_is_uuid = (\<lambda>s. s \<noteq> []), te_sha256 = (\<lambda>s. replicate 32 0), te_new_URL = (\<lambda>s. None)\<rparr>,
      en_sha256_hex = (\<lambda>s. replicate 64 (CHR ''0'')), en_date_parse = (\<lambda>v. None),
      en_json_correlation = (\<lambda>s. None)\<rparr>"

definition sample_outbound_event :: "int \<Rightarrow> OutboundEventInput" where
  "sample_outbound_event n =
     \<lparr>oe_messageId = show_int n, oe_sequence = n,
      oe_payload = json_stringify (fields_value [(''sequence'', nval n), (''correlation_id'', sval ''c'')]),
      oe_expectedReceiptProfile = None\<rparr>"

definition sample_queue :: plugin_store where
  "sample_queue = snd (enqueueEvent sample_store_env ''t'' (sample_outbound_event 2) False
     (snd (enqueueEvent sample_store_env ''t'' (sample_outbound_event 1) False empty_store)))"

definition sample_received :: plugin_store where
  "sample_received = snd (recordInbound sample_store_env ''t'' ''m'' 1 (units ''x'') None sample_queue)"

definition sample_proven :: plugin_store where
  "sample_proven = snd (acknowledgeThrough sample_store_env ''t'' 1 ''c'' sample_received)"

lemma sample_queue_run: "plugin_run sample_store_env empty_store sample_queue"
  unfolding sample_queue_def by (rule run_trans [OF run_one run_one, OF by_enqueue by_enqueue])

lemma sample_received_run: "plugin_run sample_store_env sample_queue sample_received"
  unfolding sample_received_def by (intro run_one by_record)

lemma sample_proven_run: "plugin_run sample_store_env sample_received sample_proven"
  unfolding sample_proven_def by (intro run_one by_acknowledge)

lemmas sample_runs = sample_queue_run run_trans [OF sample_queue_run sample_received_run]
  run_trans [OF sample_queue_run run_trans [OF sample_received_run sample_proven_run]]

lemma sample_received_result:
  "recordInbound sample_store_env ''t'' ''m'' 1 (units ''x'') None sample_queue = (Inr New, sample_received)"
proof -
  have "fst (recordInbound sample_store_env ''t'' ''m'' 1 (units ''x'') None sample_queue) = Inr New" by code_simp
  then show ?thesis by (simp add: sample_received_def prod_eq_iff)
qed

lemma sample_proven_result:
  "acknowledgeThrough sample_store_env ''t'' 1 ''c'' sample_received = (Inr (), sample_proven)"
proof -
  have "fst (acknowledgeThrough sample_store_env ''t'' 1 ''c'' sample_received) = Inr ()" by code_simp
  then show ?thesis by (simp add: sample_proven_def prod_eq_iff)
qed

lemma sample_pending:
  "\<exists>e st. pendingEvents sample_store_env 0 sample_proven = (Inr [e], st) \<and> so_sequence e = 2"
proof -
  have "(case fst (pendingEvents sample_store_env 0 sample_proven) of Inr [e] \<Rightarrow> so_sequence e = 2 | _ \<Rightarrow> False)"
    by code_simp
  then show ?thesis
    by (cases "pendingEvents sample_store_env 0 sample_proven") (auto split: sum.splits list.splits)
qed

subsection \<open>The order of the journals\<close>

text \<open>
  C15. In every store a run reaches, message ids and sequences of inbound frames are unique and
  positive, outbound events stand in increasing sequence under unique ids, no session and no attempt is
  mapped twice, a metadata key has one row, and every event up to the proven prefix is acknowledged.
\<close>

theorem plugin_store_invariant:
  assumes "plugin_run env empty_store st"
  shows "journal_inv (pst_db st)"
  using assms by (rule reached_journal)

theorem plugin_store_invariant_witness: "journal_inv (pst_db sample_proven)"
  using plugin_store_invariant [OF sample_runs(3)] .

text \<open>A row of the queue after a run.\<close>

lemma run_outbound:
  assumes "plugin_run env st st'"
  obtains old fresh where "pl_outbound (pst_db st') = old @ fresh"
    "list_all2 outbound_moves (pl_outbound (pst_db st)) old"
  using run_step [OF assms] by (auto simp: journal_step_def grown_def)

lemma moves_sequences: "list_all2 outbound_moves xs ys \<Longrightarrow> map ob_sequence ys = map ob_sequence xs"
  by (induction rule: list_all2_induct) (auto simp: outbound_moves_def)

text \<open>
  C12. The outbound queue is a log. Whatever is done to the store later, an event keeps its id, its
  sequence and its time of creation, its number of attempts does not fall, its acknowledgement is never
  changed or withdrawn, and every event that is added later has a sequence above all earlier ones.
\<close>

theorem outbound_queue_is_a_log:
  assumes reached: "plugin_run env empty_store st" and run: "plugin_run env st st'"
    and r: "r \<in> set (pl_outbound (pst_db st))"
  shows "(\<exists>r' \<in> set (pl_outbound (pst_db st')).
      ob_message_id r' = ob_message_id r \<and> ob_sequence r' = ob_sequence r \<and> ob_created_at r' = ob_created_at r
      \<and> ob_attempts r \<le> ob_attempts r'
      \<and> (ob_acknowledged_at r \<noteq> None \<longrightarrow> ob_acknowledged_at r' = ob_acknowledged_at r))
    \<and> (\<forall>q \<in> set (pl_outbound (pst_db st')).
      ob_sequence q \<in> ob_sequence ` set (pl_outbound (pst_db st)) \<or> ob_sequence r < ob_sequence q)"
proof (intro conjI)
  have "grown outbound_moves (pl_outbound (pst_db st)) (pl_outbound (pst_db st'))"
    using run_step [OF run] by (simp add: journal_step_def)
  from grown_in [OF this r] obtain r' where "r' \<in> set (pl_outbound (pst_db st'))" "outbound_moves r r'"
    by blast
  then show "\<exists>r' \<in> set (pl_outbound (pst_db st')).
      ob_message_id r' = ob_message_id r \<and> ob_sequence r' = ob_sequence r \<and> ob_created_at r' = ob_created_at r
      \<and> ob_attempts r \<le> ob_attempts r'
      \<and> (ob_acknowledged_at r \<noteq> None \<longrightarrow> ob_acknowledged_at r' = ob_acknowledged_at r)"
    by (intro bexI [of _ r']) (auto simp: outbound_moves_def)
  obtain old fresh where d: "pl_outbound (pst_db st') = old @ fresh"
    "list_all2 outbound_moves (pl_outbound (pst_db st)) old"
    using run_outbound [OF run] .
  have "sorted_wrt (<) (map ob_sequence (old @ fresh))"
    using reached_journal [OF run_trans [OF reached run]] d(1) by (simp add: journal_inv_def outbound_ok_def)
  then have later: "s < ob_sequence q" if "s \<in> set (map ob_sequence old)" "q \<in> set fresh" for s q
    using that by (auto simp: sorted_wrt_append)
  have seqs: "map ob_sequence old = map ob_sequence (pl_outbound (pst_db st))"
    by (rule moves_sequences [OF d(2)])
  show "\<forall>q \<in> set (pl_outbound (pst_db st')).
      ob_sequence q \<in> ob_sequence ` set (pl_outbound (pst_db st)) \<or> ob_sequence r < ob_sequence q"
  proof
    fix q assume "q \<in> set (pl_outbound (pst_db st'))"
    then consider "q \<in> set old" | "q \<in> set fresh" by (auto simp: d(1))
    then show "ob_sequence q \<in> ob_sequence ` set (pl_outbound (pst_db st)) \<or> ob_sequence r < ob_sequence q"
    proof cases
      case 1
      then have "ob_sequence q \<in> set (map ob_sequence old)" by simp
      then show ?thesis by (simp only: seqs set_map simp_thms)
    next
      case 2
      have "ob_sequence r \<in> set (map ob_sequence old)" using r by (simp add: seqs del: list.set_map)
      then show ?thesis using later 2 by blast
    qed
  qed
qed

theorem outbound_queue_is_a_log_witness:
  "\<exists>r \<in> set (pl_outbound (pst_db sample_queue)). \<exists>r' \<in> set (pl_outbound (pst_db sample_proven)).
     ob_sequence r' = ob_sequence r \<and> ob_sequence r = 1"
proof -
  have "list_ex (\<lambda>r. ob_sequence r = 1) (pl_outbound (pst_db sample_queue))" by code_simp
  then obtain r where r: "r \<in> set (pl_outbound (pst_db sample_queue))" "ob_sequence r = 1"
    by (auto simp: list_ex_iff)
  from outbound_queue_is_a_log [OF sample_runs(1) run_trans [OF sample_received_run sample_proven_run] r(1)] r
  show ?thesis by blast
qed

subsection \<open>Sending again\<close>

lemma plugin_write_Inr:
  "plugin_write guards body st = (Inr a, st') \<Longrightarrow>
     first_failure guards = None \<and> (\<exists>db. body (pst_db st) = Inr (a, db) \<and> st' = st\<lparr>pst_db := db\<rparr>)"
  by (auto simp: plugin_write_def transaction_def split: option.splits prod.splits sum.splits)

lemma stored_events_Inr:
  "stored_events env db rows = Inr es \<Longrightarrow>
     list_all2 (\<lambda>r e. so_messageId e = ob_message_id r \<and> so_sequence e = ob_sequence r
        \<and> so_payload e = ob_payload_json r \<and> so_attempts e = ob_attempts r + 1) rows es"
proof (induction rows arbitrary: es)
  case (Cons r rows)
  then obtain e fs where "storedEvent env (r\<lparr>ob_attempts := ob_attempts r + 1\<rparr>) db = Inr e"
    "stored_events env db rows = Inr fs" "es = e # fs" by (auto simp: res_bind_Inr)
  with Cons.IH show ?case by (auto dest: storedEvent_Inr)
qed simp

lemma list_all2_right: "list_all2 P xs ys \<Longrightarrow> y \<in> set ys \<Longrightarrow> \<exists>x \<in> set xs. P x y"
  by (induction rule: list_all2_induct) auto

lemma pendingEvents_Inr:
  assumes "pendingEvents env a st = (Inr es, st')"
  shows "list_all2 (\<lambda>r e. so_messageId e = ob_message_id r \<and> so_sequence e = ob_sequence r
        \<and> so_payload e = ob_payload_json r \<and> so_attempts e = ob_attempts r + 1) (pending_event_rows a (pst_db st)) es"
    and "pl_outbound (pst_db st') = sql_update (\<lambda>r. ob_message_id r \<in> ob_message_id ` set (pending_event_rows a (pst_db st))
        \<and> ob_acknowledged_at r = None) (\<lambda>r. r\<lparr>ob_attempts := ob_attempts r + 1\<rparr>) (pl_outbound (pst_db st))"
proof -
  obtain db where b: "pending_events_body env a (pst_db st) = Inr (es, db)" and st': "st' = st\<lparr>pst_db := db\<rparr>"
    using plugin_write_Inr [OF assms [unfolded pendingEvents_def]] by blast
  then show "pl_outbound (pst_db st') = sql_update (\<lambda>r. ob_message_id r \<in> ob_message_id ` set (pending_event_rows a (pst_db st))
        \<and> ob_acknowledged_at r = None) (\<lambda>r. r\<lparr>ob_attempts := ob_attempts r + 1\<rparr>) (pl_outbound (pst_db st))"
    by (auto simp: pending_events_body_def tx_bind_Inr tx_read_eq update_outbound_def tx_query_Inr)
  show "list_all2 (\<lambda>r e. so_messageId e = ob_message_id r \<and> so_sequence e = ob_sequence r
        \<and> so_payload e = ob_payload_json r \<and> so_attempts e = ob_attempts r + 1) (pending_event_rows a (pst_db st)) es"
    using b by (intro stored_events_Inr) (auto simp: pending_events_body_def tx_bind_Inr tx_read_eq tx_query_Inr)
qed

lemma pending_sequences:
  assumes "pendingEvents env a st = (Inr es, st')"
  shows "map so_sequence es = map ob_sequence (pending_event_rows a (pst_db st))"
  using pendingEvents_Inr(1) [OF assms] by (induction rule: list_all2_induct) auto

text \<open>
  C14. In every reached store the pending events are exactly the events after the given sequence that
  are not acknowledged, in increasing order and each once; each is the stored message with its number
  of attempts raised by one, and that number is what the store then holds.
\<close>

theorem pending_events_are_exact:
  assumes reached: "plugin_run env empty_store st" and pending: "pendingEvents env a st = (Inr es, st')"
  shows "sorted_wrt (<) (map so_sequence es)
    \<and> so_sequence ` set es
      = {ob_sequence r | r. r \<in> set (pl_outbound (pst_db st)) \<and> ob_acknowledged_at r = None \<and> a < ob_sequence r}
    \<and> (\<forall>e \<in> set es. \<exists>r \<in> set (pl_outbound (pst_db st)). \<exists>r' \<in> set (pl_outbound (pst_db st')).
      ob_message_id r = so_messageId e \<and> ob_payload_json r = so_payload e \<and> so_attempts e = ob_attempts r + 1
      \<and> r' = r\<lparr>ob_attempts := so_attempts e\<rparr>)"
proof (intro conjI)
  let ?rows = "pl_outbound (pst_db st)" and ?pending = "pending_event_rows a (pst_db st)"
  have "outbound_ok ?rows" using reached_journal [OF reached] by (simp add: journal_inv_def)
  then have "sorted_wrt (<) (map ob_sequence ?rows)" by (simp add: outbound_ok_def)
  then have "sorted_wrt (\<lambda>x y. ob_sequence x < ob_sequence y) ?rows" by (simp add: sorted_wrt_map)
  then have s: "sorted_wrt (\<lambda>x y. ob_sequence x < ob_sequence y)
      (filter (\<lambda>r. ob_acknowledged_at r = None \<and> a < ob_sequence r) ?rows)" by (rule sorted_wrt_filter)
  then have "sorted (map ob_sequence (filter (\<lambda>r. ob_acknowledged_at r = None \<and> a < ob_sequence r) ?rows))"
    unfolding sorted_map by (rule sorted_wrt_mono_rel [rotated]) simp
  then have p: "?pending = filter (\<lambda>r. ob_acknowledged_at r = None \<and> a < ob_sequence r) ?rows"
    unfolding pending_event_rows_def by (simp add: sorted_sort_id sort_key_id_if_sorted)
  show "sorted_wrt (<) (map so_sequence es)"
    using s by (simp add: pending_sequences [OF pending] p sorted_wrt_map)
  have "set (map so_sequence es) = set (map ob_sequence ?pending)"
    by (simp only: pending_sequences [OF pending])
  then show "so_sequence ` set es
      = {ob_sequence r | r. r \<in> set ?rows \<and> ob_acknowledged_at r = None \<and> a < ob_sequence r}"
    by (auto simp: p)
  show "\<forall>e \<in> set es. \<exists>r \<in> set ?rows. \<exists>r' \<in> set (pl_outbound (pst_db st')).
      ob_message_id r = so_messageId e \<and> ob_payload_json r = so_payload e \<and> so_attempts e = ob_attempts r + 1
      \<and> r' = r\<lparr>ob_attempts := so_attempts e\<rparr>"
  proof
    fix e assume "e \<in> set es"
    then obtain r where r: "r \<in> set ?pending" "so_messageId e = ob_message_id r"
      "so_payload e = ob_payload_json r" "so_attempts e = ob_attempts r + 1"
      using list_all2_right [OF pendingEvents_Inr(1) [OF pending]] by blast
    have "r\<lparr>ob_attempts := so_attempts e\<rparr> \<in> set (pl_outbound (pst_db st'))"
      using r by (auto simp: pendingEvents_Inr(2) [OF pending] in_sql_update p r(4) intro!: bexI [of _ r])
    then have "\<exists>r' \<in> set (pl_outbound (pst_db st')). ob_message_id r = so_messageId e
      \<and> ob_payload_json r = so_payload e \<and> so_attempts e = ob_attempts r + 1 \<and> r' = r\<lparr>ob_attempts := so_attempts e\<rparr>"
      using r(2-4) by simp
    moreover have "r \<in> set ?rows" using r(1) by (simp add: p)
    ultimately show "\<exists>r \<in> set ?rows. \<exists>r' \<in> set (pl_outbound (pst_db st')).
      ob_message_id r = so_messageId e \<and> ob_payload_json r = so_payload e \<and> so_attempts e = ob_attempts r + 1
      \<and> r' = r\<lparr>ob_attempts := so_attempts e\<rparr>" by blast
  qed
qed


theorem pending_events_are_exact_witness:
  "\<exists>e r. r \<in> set (pl_outbound (pst_db sample_proven)) \<and> ob_acknowledged_at r = None \<and> ob_sequence r = 2
     \<and> fst (pendingEvents sample_store_env 0 sample_proven) = Inr [e]"
proof -
  obtain e st where e: "pendingEvents sample_store_env 0 sample_proven = (Inr [e], st)" "so_sequence e = 2"
    using sample_pending by blast
  from pending_events_are_exact [OF sample_runs(3) e(1)] have "so_sequence e \<in> {ob_sequence r | r.
      r \<in> set (pl_outbound (pst_db sample_proven)) \<and> ob_acknowledged_at r = None \<and> 0 < ob_sequence r}" by auto
  with e show ?thesis by auto
qed

lemma acknowledge_proven:
  assumes "acknowledgeThrough env now n correlation st = (Inr (), st')"
  shows "n \<le> proven (pst_db st')"
proof -
  obtain db where b: "acknowledge_through_body env now n correlation (pst_db st) = Inr ((), db)"
    and st': "st' = st\<lparr>pst_db := db\<rparr>"
    using plugin_write_Inr [OF assms [unfolded acknowledgeThrough_def]] by blast
  then obtain p where p: "provenClientSequence (pst_db st) = Inr p"
    and "meta_get proven_key db = Some (number_units (max n p))"
    unfolding acknowledge_through_body_def Let_def
    by (auto simp: tx_bind_Inr tx_query_Inr tx_check_Inr res_option_Inr proven_key_def meta_put_def
        update_outbound_def meta_get_def put_key_get)
  then show ?thesis using provenClientSequence_Inr(2) [OF p] by (simp add: proven_def st')
qed

text \<open>
  C13. What the control plane has proven to hold is never sent again: once the store has taken the
  receipt of a sequence, no later call returns a pending event at or below it, whatever is done to the
  store in between.
\<close>

theorem proven_prefix_is_never_resent:
  assumes reached: "plugin_run env empty_store st"
    and receipt: "acknowledgeThrough env now n correlation st = (Inr (), st1)"
    and run: "plugin_run env st1 st2"
    and pending: "pendingEvents env a st2 = (Inr es, st3)"
  shows "\<forall>e \<in> set es. n < so_sequence e"
proof -
  have "plugin_step env st st1" using by_acknowledge [of env st now n correlation] receipt by simp
  then have all: "plugin_run env empty_store st1" "plugin_run env empty_store st2"
    using reached run run_one run_trans by blast+
  have "n \<le> proven (pst_db st1)" using acknowledge_proven [OF receipt] .
  also have "\<dots> \<le> proven (pst_db st2)"
    using run_step [OF run] reached_journal [OF all(1)] by (simp add: journal_step_def)
  finally have le: "n \<le> proven (pst_db st2)" .
  have "proven_ok (proven (pst_db st2)) (pl_outbound (pst_db st2))"
    using reached_journal [OF all(2)] by (simp add: journal_inv_def)
  then have "n < ob_sequence r" if "r \<in> set (pending_event_rows a (pst_db st2))" for r
    using that le by (force simp: proven_ok_def pending_event_rows_def)
  then have "\<forall>s \<in> set (map so_sequence es). n < s"
    by (simp add: pending_sequences [OF pending])
  then show ?thesis by simp
qed

theorem proven_prefix_is_never_resent_witness:
  "\<exists>e. fst (pendingEvents sample_store_env 0 sample_proven) = Inr [e] \<and> 1 < so_sequence e"
proof -
  obtain e st where e: "pendingEvents sample_store_env 0 sample_proven = (Inr [e], st)"
    using sample_pending by blast
  from proven_prefix_is_never_resent [OF sample_runs(2) sample_proven_result run_refl e] e show ?thesis
    by simp
qed

subsection \<open>Inbound frames\<close>

lemma recordInbound_Inr:
  assumes "recordInbound env now m s body e st = (Inr r, st')"
  shows "s \<in> in_sequence ` set (pl_inbound (pst_db st'))"
    and "r = New \<Longrightarrow> s \<notin> in_sequence ` set (pl_inbound (pst_db st))"
proof -
  obtain db where "tx_rethrow inbound_failure (record_body env now m s body e) (pst_db st) = Inr (r, db)"
    and st': "st' = st\<lparr>pst_db := db\<rparr>"
    using plugin_write_Inr [OF assms [unfolded recordInbound_def]] by blast
  then have b: "record_body env now m s body e (pst_db st) = Inr (r, db)"
    by (simp add: tx_rethrow_def split: sum.splits)
  have receipt: "pl_inbound d' = pl_inbound d" if "insertCoordinationReceipt x d = Inr (u, d')" for x u d d'
    using that by (auto simp: insertCoordinationReceipt_def meta_insert_def tx_return_eq split: option.splits if_splits)
  have "s \<in> in_sequence ` set (pl_inbound db) \<and> (r = New \<longrightarrow> s \<notin> in_sequence ` set (pl_inbound (pst_db st)))"
  proof (cases "first_row (filter (\<lambda>r. in_message_id r = m) (pl_inbound (pst_db st)))")
    case None
    with b show ?thesis unfolding record_body_def
      by (auto simp: tx_bind_Inr tx_check_Inr tx_read_eq tx_query_Inr tx_return_eq insert_inbound_def
          dest!: receipt split: if_splits)
  next
    case (Some i)
    with b first_row_filter_Some [OF Some] show ?thesis unfolding record_body_def
      by (auto simp: tx_bind_Inr tx_check_Inr tx_read_eq tx_query_Inr tx_return_eq tx_throw_eq split: if_splits)
  qed
  then show "s \<in> in_sequence ` set (pl_inbound (pst_db st'))"
    and "r = New \<Longrightarrow> s \<notin> in_sequence ` set (pl_inbound (pst_db st))"
    by (simp_all add: st')
qed

text \<open>
  A sequence is new once. After the store has taken a frame under a sequence, recording any frame
  under that sequence is a repetition or fails, whatever is done to the store in between.
\<close>

theorem inbound_sequence_is_new_once:
  assumes first: "recordInbound env now m s body e st = (Inr r, st1)"
    and run: "plugin_run env st1 st2"
    and again: "recordInbound env now' m' s body' e' st2 = (Inr r', st3)"
  shows "r' = Known"
proof -
  obtain i where i: "i \<in> set (pl_inbound (pst_db st1))" "in_sequence i = s"
    using recordInbound_Inr(1) [OF first] by blast
  have "grown inbound_moves (pl_inbound (pst_db st1)) (pl_inbound (pst_db st2))"
    using run_step [OF run] by (simp add: journal_step_def)
  from grown_in [OF this i(1)] i(2) have "s \<in> in_sequence ` set (pl_inbound (pst_db st2))"
    by (metis image_eqI inbound_moves_def)
  then have "r' \<noteq> New" using recordInbound_Inr(2) [OF again] by blast
  then show ?thesis by (cases r') simp_all
qed

theorem inbound_sequence_is_new_once_witness:
  "fst (recordInbound sample_store_env ''t'' ''m'' 1 (units ''x'') None sample_proven) = Inr Known"
proof -
  have "\<not> isl (fst (recordInbound sample_store_env ''t'' ''m'' 1 (units ''x'') None sample_proven))" by code_simp
  then obtain r st where
    r: "recordInbound sample_store_env ''t'' ''m'' 1 (units ''x'') None sample_proven = (Inr r, st)"
    by (cases "recordInbound sample_store_env ''t'' ''m'' 1 (units ''x'') None sample_proven")
      (auto simp: isl_def, metis sum.exhaust)
  from inbound_sequence_is_new_once [OF sample_received_result sample_proven_run r] r show ?thesis by simp
qed

lemma frontier_exact:
  "sorted_wrt (<) ss \<Longrightarrow> \<forall>s \<in> set ss. f < s \<Longrightarrow>
     f \<le> frontier_from f ss \<and> frontier_from f ss + 1 \<notin> set ss
     \<and> (\<forall>k. f < k \<and> k \<le> frontier_from f ss \<longrightarrow> k \<in> set ss)"
proof (induction f ss rule: frontier_from.induct)
  case (2 f s ss)
  show ?case
  proof (cases "s = f + 1")
    case True
    have "sorted_wrt (<) ss" "\<forall>x \<in> set ss. s < x" using 2(2) by simp_all
    with 2(1) True have *: "s \<le> frontier_from s ss" "frontier_from s ss + 1 \<notin> set ss"
      "\<forall>k. s < k \<and> k \<le> frontier_from s ss \<longrightarrow> k \<in> set ss" by blast+
    have "k \<in> set (s # ss)" if "f < k" "k \<le> frontier_from s ss" for k
      using that *(3) True by (cases "k = s") auto
    then show ?thesis using * True by auto
  next
    case False
    with 2(2,3) show ?thesis by force
  qed
qed simp

text \<open>
  The frontier is exact: in every open store a run reaches, the contiguous inbound sequence is the
  number \<open>n\<close> for which every sequence from 1 to \<open>n\<close> has been recorded and \<open>n + 1\<close> has not.
\<close>

theorem inbound_frontier_is_exact:
  assumes reached: "plugin_run env empty_store st" and op: "\<not> pst_closed st"
  shows "\<exists>n \<ge> 0. contiguousInboundSequence st = Inr n
    \<and> (\<forall>k. 1 \<le> k \<and> k \<le> n \<longrightarrow> k \<in> in_sequence ` set (pl_inbound (pst_db st)))
    \<and> n + 1 \<notin> in_sequence ` set (pl_inbound (pst_db st))"
proof -
  let ?ss = "sort (map in_sequence (pl_inbound (pst_db st)))"
  have ok: "inbound_ok (pl_inbound (pst_db st))" using reached_journal [OF reached] by (simp add: journal_inv_def)
  then have "sorted_wrt (<) ?ss" by (simp add: inbound_ok_def strict_sorted_iff)
  moreover have "\<forall>s \<in> set ?ss. 0 < s" using ok by (force simp: inbound_ok_def)
  ultimately have "0 \<le> frontier_from 0 ?ss \<and> frontier_from 0 ?ss + 1 \<notin> set ?ss
     \<and> (\<forall>k. 0 < k \<and> k \<le> frontier_from 0 ?ss \<longrightarrow> k \<in> set ?ss)" by (rule frontier_exact)
  moreover have "contiguousInboundSequence st = Inr (frontier_from 0 ?ss)"
    using op by (simp add: contiguousInboundSequence_def plugin_read_def assertOpen_def)
  ultimately show ?thesis by (intro exI [of _ "frontier_from 0 ?ss"]) auto
qed

theorem inbound_frontier_is_exact_witness:
  "\<exists>n \<ge> 0. contiguousInboundSequence sample_proven = Inr n
     \<and> n + 1 \<notin> in_sequence ` set (pl_inbound (pst_db sample_proven))"
proof -
  have "\<not> pst_closed sample_proven" by code_simp
  from inbound_frontier_is_exact [OF sample_runs(3) this] show ?thesis by blast
qed

subsection \<open>The end of an attempt\<close>

text \<open>A call that ends an attempt of a job: a commit of the plugin or a reconciled state.\<close>

inductive attempt_ended :: "store_env \<Rightarrow> string \<Rightarrow> int \<Rightarrow> plugin_store \<Rightarrow> plugin_store \<Rightarrow> bool" for env where
  committed:
    "captureTerminalProposal (en_terminal env) input = Inr p \<Longrightarrow>
     commitTerminal env now input checks factory st = (Inr (Committed t), st') \<Longrightarrow>
     attempt_ended env (ow_jobId (tb_owner (tp_binding p))) (ow_attempt (tb_owner (tp_binding p))) st st'"
| reconciled:
    "captureTerminalBinding (en_is_uuid env) input = Some b \<Longrightarrow>
     reconcileTerminal env now input checks st = (Inr (Reconciled t), st') \<Longrightarrow>
     attempt_ended env (ow_jobId (tb_owner b)) (ow_attempt (tb_owner b)) st st'"

definition terminal_row :: "string \<Rightarrow> int \<Rightarrow> plugin_store \<Rightarrow> int list option" where
  "terminal_row jobId attempt st =
     meta_get (''owned-terminal-v1:'' @ jobId @ '':'' @ show_int attempt) (pst_db st)"

lemma terminal_row_key: "terminal_row (ow_jobId w) (ow_attempt w) st = meta_get (terminalKey w) (pst_db st)"
  by (simp add: terminal_row_def terminalKey_def)

lemma current_key:
  assumes "current_intent env w db = Inr r"
  shows "terminalKey (oi_owner r) = terminalKey w"
proof -
  obtain rs where "find_intent (ownedKey (ow_jobId w) (ow_attempt w)) rs = Some r"
    using assms by (auto simp: current_intent_def res_bind_Inr split: option.splits if_splits)
  then have "intent_key r = ownedKey (ow_jobId w) (ow_attempt w)"
    by (auto simp: find_intent_def find_Some_iff)
  then show ?thesis by (simp add: intent_key_def ownedKey_def terminalKey_def)
qed

lemma terminalKey_not_intent: "terminalKey w \<noteq> intent_key r"
  using permanent_keys(1) [of w] mutable_keys(6) [of r] by metis

lemma write_intent_metadata:
  assumes "write_intent now c r s db = Inr (u, db')" "key \<noteq> intent_key c"
  shows "meta_get key db' = meta_get key db"
  using assms unfolding write_intent_def Let_def
  by (auto simp: tx_bind_Inr tx_check_Inr tx_read_eq meta_put_def update_mappings_def meta_get_def put_key_get)

lemma meta_insert_get:
  "meta_insert key v db = Inr (u, db') \<Longrightarrow> meta_get key db = None \<and> meta_get key db' = Some v"
  by (auto simp: meta_insert_def meta_get_def map_of_append_new map_of_eq_None_iff simp del: map_of_append split: if_splits)

lemma writeTerminal_row:
  assumes "writeTerminal env now c r db = Inr (u, db')"
  shows "meta_get (terminalKey (oi_owner c)) db = None
     \<and> meta_get (terminalKey (oi_owner c)) db' = Some (ownedJson (record_value r))"
proof -
  obtain v db1 where "write_intent now c (c\<lparr>oi_phase := Terminal, oi_version := record_version r\<rparr>)
      (status_string (record_status r)) db = Inr (v, db1)"
    and i: "meta_insert (terminalKey (oi_owner c)) (ownedJson (record_value r)) db1 = Inr (u, db')"
    using assms unfolding writeTerminal_def Let_def
    by (auto simp: tx_bind_Inr tx_query_Inr tx_check_Inr)
  then have "meta_get (terminalKey (oi_owner c)) db1 = meta_get (terminalKey (oi_owner c)) db"
    by (intro write_intent_metadata terminalKey_not_intent)
  then show ?thesis using meta_insert_get [OF i] by simp
qed

lemma publish_metadata:
  assumes "publish_terminal now e db = Inr (u, db')" "meta_get key db = Some v"
  shows "meta_get key db' = Some v"
  using assms unfolding publish_terminal_def
  by (auto simp: tx_bind_Inr insert_outbound_def meta_insert_def meta_get_def split: if_splits)

lemma commit_body_row:
  assumes "commit_body env now p cap f checks db = Inr (Committed t, db')"
  shows "meta_get (terminalKey (tb_owner (tp_binding p))) db = None
     \<and> meta_get (terminalKey (tb_owner (tp_binding p))) db' \<noteq> None"
proof -
  obtain c where c: "current_intent env (tb_owner (tp_binding p)) db = Inr c"
    and n: "commit_new env now p c f checks db = Inr (Committed t, db')"
    using assms unfolding commit_body_def Let_def
    by (auto simp: tx_bind_Inr tx_query_Inr tx_check_Inr existing_result_def Let_def
        split: option.splits TerminalRecord.splits if_splits)
  then obtain u e db1 where w: "writeTerminal env now c (LocalTerminal t) db = Inr (u, db1)"
    and e: "publish_terminal now e db1 = Inr (u, db')"
    unfolding commit_new_def by (auto simp: tx_bind_Inr tx_query_Inr tx_check_Inr tx_return_eq)
  show ?thesis using writeTerminal_row [OF w] publish_metadata [OF e] current_key [OF c] by simp
qed

lemma reconcile_writes:
  assumes "reconcile_body env now b s checks db = Inr (Reconciled t, db')"
  obtains c r where "current_intent env (tb_owner b) db = Inr c" "writeTerminal env now c r db = Inr ((), db')"
proof -
  obtain c e where c: "current_intent env (tb_owner b) db = Inr c"
    and cont: "(case e of
       Some r \<Rightarrow>
         tx_bind (tx_check (case r of RemoteTerminal t \<Rightarrow> rt_status t = js_status s | _ \<Rightarrow> True)
           (OwnedIntentError OWNED_INTENT_CONFLICT)) (\<lambda>_.
         tx_bind (tx_query (\<lambda>db. check_result checks 2)) (\<lambda>_. tx_return (AlreadyEnded r s)))
     | None \<Rightarrow>
         tx_bind (tx_query (\<lambda>db. owned_result (parseTerminalRecord (en_terminal env)
             (ownedJson (record_value (RemoteTerminal \<lparr>rt_predecessor = c,
                rt_committedVersion = oi_version c + 1, rt_status = js_status s,
                rt_state = s\<rparr>)))))) (\<lambda>r.
         case r of
           LocalTerminal _ \<Rightarrow> tx_throw (OwnedIntentError OWNED_INTENT_INVALID)
         | RemoteTerminal t \<Rightarrow>
             tx_bind (writeTerminal env now c (RemoteTerminal t)) (\<lambda>_.
             tx_bind (tx_query (readOwnedIntents env)) (\<lambda>_.
             tx_bind (tx_query (\<lambda>db. check_result checks 2)) (\<lambda>_.
             tx_return (Reconciled t)))))) db = Inr (Reconciled t, db')"
    using assms unfolding reconcile_body_def
    by (simp only: tx_bind_Inr [of "tx_query _"] tx_bind_Inr [of "tx_check _ _"] tx_query_Inr tx_check_Inr) blast
  show thesis
  proof (cases e)
    case None
    from cont [unfolded None option.case] obtain r where "(case r of
           LocalTerminal _ \<Rightarrow> tx_throw (OwnedIntentError OWNED_INTENT_INVALID)
         | RemoteTerminal t \<Rightarrow>
             tx_bind (writeTerminal env now c (RemoteTerminal t)) (\<lambda>_.
             tx_bind (tx_query (readOwnedIntents env)) (\<lambda>_.
             tx_bind (tx_query (\<lambda>db. check_result checks 2)) (\<lambda>_.
             tx_return (Reconciled t))))) db = Inr (Reconciled t, db')"
      by (subst (asm) tx_bind_Inr) (auto simp only: tx_query_Inr)
    then show thesis using that [OF c]
      by (cases r) (auto simp: tx_bind_Inr tx_query_Inr tx_throw_eq tx_return_eq)
  next
    case (Some r)
    with cont show thesis by (auto simp: tx_bind_Inr tx_query_Inr tx_check_Inr tx_return_eq)
  qed
qed

lemma reconcile_body_row:
  assumes "reconcile_body env now b s checks db = Inr (Reconciled t, db')"
  shows "meta_get (terminalKey (tb_owner b)) db = None \<and> meta_get (terminalKey (tb_owner b)) db' \<noteq> None"
proof -
  obtain c r where c: "current_intent env (tb_owner b) db = Inr c"
    and w: "writeTerminal env now c r db = Inr ((), db')"
    by (rule reconcile_writes [OF assms])
  then show ?thesis using writeTerminal_row [OF w] current_key [OF c] by simp
qed

lemma owned_Inr:
  "ownedTransaction body st = (Inr a, st') \<Longrightarrow> \<exists>db. body (pst_db st) = Inr (a, db) \<and> st' = st\<lparr>pst_db := db\<rparr>"
  unfolding ownedTransaction_def
  by (auto simp: tx_rethrow_def dest!: plugin_write_Inr split: sum.splits)

lemma terminal_Inr:
  assumes "terminalOperation operation st = (Inr a, st')"
  shows "\<exists>st0 st1. pst_db st0 = pst_db st \<and> operation st0 = (Inr a, st1) \<and> pst_db st' = pst_db st1"
proof -
  obtain st1 where "operation (st\<lparr>pst_terminalBusy := True\<rparr>) = (Inr a, st1)" "st' = st1\<lparr>pst_terminalBusy := False\<rparr>"
    using assms by (auto simp: terminalOperation_def split: option.splits prod.splits)
  then show ?thesis by (intro exI [of _ "st\<lparr>pst_terminalBusy := True\<rparr>"] exI [of _ st1]) simp
qed

lemma attempt_ended_row:
  assumes "attempt_ended env j n st st'"
  shows "terminal_row j n st = None \<and> terminal_row j n st' \<noteq> None"
  using assms
proof cases
  case (committed input p now checks factory t)
  obtain st0 st1 cap where "pst_db st0 = pst_db st" "pst_db st' = pst_db st1"
    "ownedTransaction (commit_body env now p cap factory checks) st0 = (Inr (Committed t), st1)"
    using terminal_Inr [OF committed(4) [unfolded commitTerminal_def]] committed(3)
    by (auto simp: owned_result_def res_bind_def split: sum.splits)
  then show ?thesis using commit_body_row unfolding committed(1,2) terminal_row_key
    by (fastforce dest: owned_Inr)
next
  case (reconciled input b now checks t)
  obtain st0 st1 s where "pst_db st0 = pst_db st" "pst_db st' = pst_db st1"
    "ownedTransaction (reconcile_body env now b s checks) st0 = (Inr (Reconciled t), st1)"
    using terminal_Inr [OF reconciled(4) [unfolded reconcileTerminal_def]] reconciled(3)
    by (cases "check_result checks 0"; cases "tb_operation b = Op_reconcile") auto
  then show ?thesis using reconcile_body_row unfolding reconciled(1,2) terminal_row_key
    by (fastforce dest: owned_Inr)
qed

lemma terminal_row_stays:
  assumes v: "terminal_row j n st1 = Some v" and run: "plugin_run env st1 st2"
  shows "terminal_row j n st2 = Some v"
proof -
  have "permanent (''owned-terminal-v1:'' @ j @ '':'' @ show_int n)"
    using permanent_keys(1) [of "\<lparr>ow_jobId = j, ow_attempt = n, ow_repositoryId = [], ow_sessionId = [],
      ow_ownerGeneration = []\<rparr>"] by (simp add: terminalKey_def)
  then show ?thesis using run_step [OF run] v by (simp add: journal_step_def terminal_row_def)
qed

text \<open>
  C11. The terminal record of an attempt is final: once there is one, no sequence of calls changes or
  loses it, and no call of a commit or a reconciliation ends that attempt again.
\<close>

theorem terminal_record_is_final:
  assumes "terminal_row j n st = Some v" and "plugin_run env st st'"
  shows "terminal_row j n st' = Some v \<and> \<not> attempt_ended env j n st' st''"
  using terminal_row_stays [OF assms] attempt_ended_row by fastforce

theorem terminal_record_is_final_witness:
  "terminal_row ''j'' 1 (snd (close_store (empty_store\<lparr>pst_db := (pst_db empty_store)\<lparr>pl_metadata :=
     [(terminalKey sample_owner, units ''x'')]\<rparr>\<rparr>))) = Some (units ''x'')"
proof -
  let ?st = "empty_store\<lparr>pst_db := (pst_db empty_store)\<lparr>pl_metadata := [(terminalKey sample_owner, units ''x'')]\<rparr>\<rparr>"
  have "terminal_row ''j'' 1 ?st = Some (units ''x'')" by code_simp
  from terminal_record_is_final [OF this run_one [OF by_close [of sample_store_env ?st]]] show ?thesis by simp
qed

text \<open>
  An attempt of a job ends once: there is no run of the store in which a commit or a reconciliation
  ends an attempt and a later one ends the same attempt again, whoever calls and whatever is done to
  the store in between.
\<close>

theorem attempt_ends_once:
  "\<not> (\<exists>st st1 st2 st3. attempt_ended env j n st st1 \<and> plugin_run env st1 st2 \<and> attempt_ended env j n st2 st3)"
  using attempt_ended_row terminal_row_stays by (metis not_None_eq)

end
