(* ===== verification/Spec2Isabelle.thy ===== *)
theory Spec2Isabelle
  imports Job_Coordinator Policy_Guard Approval_Broker Outbox_Properties Speech_Fragmenter Plugin_Runs
begin

text \<open>
  \<^bold>\<open>A verification library for qwen-harness-bridge.\<close>

  The program lets a voice assistant run coding jobs on a developer's machine. A control plane
  (\<open>apps/control-plane\<close>) keeps jobs, their events, approvals and the messages to connectors in a
  PostgreSQL database and serves the assistant's tools. A plugin of the local coding harness
  (\<open>packages/harness-plugin\<close>) receives the commands, runs them under a local policy and reports
  back. \<open>packages/protocol\<close> holds the wire types both sides share.

  \<^bold>\<open>The job life cycle.\<close>
  \<^item> \<open>Job_Types\<close>: \<open>protocol/src/job.ts\<close> (statuses, identifiers, RFC 3339 time stamps, bounded
    text, submit input), \<open>domain/job-state.ts\<close> (the transition table and its step relation) and
    \<open>domain/errors.ts\<close>.
  \<^item> \<open>Db_Schema\<close>: \<open>db/schema.ts\<close>, a record per table; its checks, unique keys and references are
    functions that return the violated constraint. A transaction is a function from the
    database to an error or a result with the new database; an error restores the database.
  \<^item> \<open>Job_Repository\<close>: every method of \<open>JobRepository\<close> in \<open>db/job-repository.ts\<close>. The clock and
    the random bytes of an attempt are arguments. A short id is tried 32 times, as in the code.
  \<^item> \<open>Repository_Invariants\<close>, \<open>Repository_Steps\<close>: the schema invariant, the locale
    \<open>tx_relation\<close> of relations every statement of a transaction keeps, and the steps of a run.
  \<^item> \<open>Repository_Properties\<close>, \<open>Decision_Properties\<close>, \<open>Owner_Isolation\<close>, \<open>Repository_Reads\<close>: runs
    of the repository and of the connector store keep the invariant, jobs follow the transition
    table, event logs are gapless, idempotent creation, optimistic revisions, cancellation,
    exclusive claims, approval decisions, isolation of owners, listings and acknowledgement.

  \<^bold>\<open>The connector store\<close> (\<open>connector/outbox.ts\<close>).
  \<^item> \<open>Client_Messages\<close>: the messages of a connector as typed records, canonical JSON and the
    conversions between time stamps and milliseconds the store uses.
  \<^item> \<open>Outbox\<close>: every method of \<open>PostgresConnectorStore\<close> over the same tables. Accepting a client
    message is split into its stages: the duplicate, the admission, the receipt, the business in
    its savepoint, the consumed sequence, the answer. A transaction takes its readings of the
    database clock and its random ids from an \<open>env\<close> by position; \<open>dispatchNext\<close> also takes the ids of the
    jobs that other transactions have locked.
  \<^item> \<open>Outbox_Invariants\<close>, \<open>Outbox_Steps\<close>: the locale \<open>outbox_relation\<close> extends \<open>tx_relation\<close> by the
    promises of the outbox's statements; \<open>store_run\<close> interleaves the methods of the store with those of
    the repository, and all of them keep the schema invariant.
  \<^item> \<open>Outbox_Properties\<close>: a client message takes effect once and in order, a rejection leaves the
    work untouched, claims need the current lease, approval requests bind the revision they
    create, connectors reach their own jobs only, offers respect the concurrency of a repository.

  \<^bold>\<open>The local policy\<close> (\<open>packages/harness-plugin/src/policy\<close>).
  \<^item> \<open>Js_Text\<close>, \<open>Node_Path\<close>: what the policy uses of JavaScript strings, regular expressions,
    JSON and \<open>node:path\<close> on a POSIX host. Patterns are matched by derivatives, shown to decide
    their language; \<open>relative\<close> is shown to decide containment segment by segment.
  \<^item> \<open>Canonical_Path\<close>, \<open>Protected_Paths\<close>: \<open>canonical-path.ts\<close> and \<open>protected-paths.ts\<close> over a
    record \<open>host\<close> of the file system, which does not change during one classification. The walk
    before a content search has the code's budget of 10000 entries.
  \<^item> \<open>Argv_Policy\<close>: the option grammars and the argument parser of \<open>argv-policy.ts\<close>; the locale
    \<open>path_resolver\<close> states what the parser needs of the function that resolves a path.
  \<^item> \<open>Action_Classifier\<close>: \<open>types.ts\<close>, \<open>action-classifier.ts\<close> and \<open>search-domain.ts\<close>.
  \<^item> \<open>Policy_Properties\<close>: allowed actions and their arguments are confined to the repository,
    the policy fails closed, automatic actions are searches, reads, bounded edits or runs of
    registered executables, the fingerprint's text determines the action, the search walk is complete.
  \<^item> \<open>Policy_Guard\<close>: \<open>trusted-execution-adapter.ts\<close> and the handlers of \<open>register-guard.ts\<close>; runs of
    a guard interleave any executions while the file system changes between events. A call of an
    undeclared tool passes only under a name inherited from \<open>Object.prototype\<close>, as a search.

  \<^bold>\<open>The connector protocol and approvals.\<close>
  \<^item> \<open>Connector_Time\<close>, \<open>Connector_Protocol\<close>: \<open>protocol/src/connector.ts\<close>. RFC 3339 instants with
    fractions of any length, shown to follow the calendar and to compare as instants; the sequence
    cursor, which accepts increasing numbers only; the schemas of all messages of the server.
  \<^item> \<open>Client_Schema\<close>: the schemas of all messages of the client on decoded JSON, with the scan of an
    event's payload. The scan counts bytes as it goes and stops early; it is shown to accept exactly
    the payloads whose members are safe and whose JSON text has at most 16384 bytes.
  \<^item> \<open>Coordination_Deadlines\<close>: \<open>runtime/coordination-deadlines.ts\<close>. A clock reading is the 64 bits of
    a double; the code's scaled integers are shown to be exact rational arithmetic, so an admitted
    timing is fresh in elapsed time and a cancellation never extends a job.
  \<^item> \<open>Approval_Broker\<close>: \<open>approvals/approval-broker.ts\<close>. A request runs in two halves around its
    \<open>await\<close>; runs interleave requests, decisions, aborts, time-outs, disposal and returns freely.
    The locale \<open>broker_invariant\<close> carries invariants through settling and disposal. A grant needs
    a matching approval in time; admissions are the suspended requests; disposal releases them.

  \<^bold>\<open>The store of the plugin\<close> (\<open>packages/harness-plugin/src/store\<close>).
  \<^item> \<open>Owned_Intent\<close>: \<open>owned-intent.ts\<close>, the record by which the plugin owns an attempt of a job, its
    schemas and its canonical text.
  \<^item> \<open>Terminal_Authority\<close>: \<open>runtime/terminal-authority.ts\<close>. A token is issued in two halves around the
    \<open>await\<close> of a job's state; every check reads the clock and the signals. A check passes exactly
    for the token's binding, in time, under a living epoch; the first failure revokes it for good.
  \<^item> \<open>Owned_Terminal\<close>: \<open>owned-terminal.ts\<close>, the proposal and the record by which an attempt ends, with the
    minimized projection of its result and percent decoding.
  \<^item> \<open>Plugin_Store\<close>, \<open>Plugin_Intents\<close>: every method of \<open>SqlitePluginStore\<close> in \<open>plugin-store.ts\<close> over the four
    tables of \<open>schema.sql\<close>. Stored texts are parsed and printed as in the code. The results of the
    caller's authority checks and of its factory are arguments of the terminal operations.
  \<^item> \<open>Plugin_Journal\<close>, \<open>Plugin_Runs\<close>: the locale \<open>plugin_relation\<close> extends \<open>tx_relation\<close> by what the statements
    of the store promise; \<open>plugin_run\<close> is any sequence of calls. Runs keep the order of the journals,
    the queue is a log, a proven prefix is never sent again, and an attempt ends once.

  \<^bold>\<open>The task interface.\<close>
  \<^item> \<open>Job_Coordinator\<close>: \<open>domain/job-coordinator.ts\<close> over the repository. Each call of the
    repository sees its own database, so that anything may happen in between. The locale
    \<open>owner_lookup\<close> says what the coordinator relies on when it looks a row up for an owner.
    Submission is idempotent from the payload down to the job.
  \<^item> \<open>Js_Unicode\<close>, \<open>Public_Text\<close>: truncation and path redaction of \<open>domain/presenters.ts\<close> on UTF-16
    code units; what is shown starts no absolute path.
  \<^item> \<open>Js_Regex\<close>, \<open>Js_Json\<close>, \<open>Redaction\<close>: ECMAScript's backtracking matcher with captures and back
    references, shown to agree with a declarative relation; \<open>JSON.parse\<close> and \<open>JSON.stringify\<close> with the
    numbers of doubles, where the fuel of the parser, the length of the text, is shown to be enough;
    the redaction of secrets in \<open>presenters.ts\<close> and the sanitizers of \<open>outbox.ts\<close>, whose results
    match none of the unsafe patterns they test last. Keys and tokens are replaced before JSON is
    decoded: what is stored does not depend on those found in the text as received, and one that
    is written with a JSON escape survives.
  \<^item> \<open>Speech_Fragmenter\<close>: \<open>rtc/output/speech-fragmenter.ts\<close>. The loop is a partial function without
    fuel; the locale \<open>segmenter\<close> states what it needs of the segmentation into graphemes, and then it
    returns, loses no word and cuts no short id. The fuel of \<open>sentence_matches\<close> is the length of the
    text, and every match consumes a character.

  \<^bold>\<open>Assumptions.\<close> Characters are code units up to 255, except where texts are lists of UTF-16 code
  units: public text, patterns, JSON and what the stores keep as text. Where such a text becomes a
  string, a greater unit counts as 255. Objects used as dictionaries hold own properties, except for
  the adapter's role table, where the inherited names matter. \<open>host_ok\<close> says that \<open>realpath\<close> returns
  normalized absolute paths. SHA-256, encryption, zod's test for UUIDs, the parser of URLs, SQLite's
  \<open>json_extract\<close>, \<open>Date.parse\<close> in the plugin store, the ripgrep process, grapheme segmentation, the Unicode
  categories and the operating system are parameters. Databases run their transactions one after
  another; text may hold the character 0. Numbers given to the plugin store are integers, and the
  texts it reads as numbers are the decimal texts it writes.

  \<^bold>\<open>Not modelled.\<close> The gateway of the connectors (\<open>connector/gateway.ts\<close>), the client of the plugin
  (\<open>transport\<close>) and its registries (\<open>runtime\<close>, but for the deadlines and the terminal authority) are sockets,
  timers and promises around the modelled logic. Opening and migrating the plugin's database file and
  the loading of SQLite are input and output, as are process start-up, HTTP serving, metrics, health
  endpoints and audio. The scripts under \<open>scripts\<close> maintain the repository and are not part of
  the program.
\<close>

section \<open>The guard and the policy together\<close>

text \<open>
  C23. Whatever the guard lets through touches only its own repository. In any run of a guard
  whose actions come from the adapter: if an execution passes on a host whose real paths are
  normalized, the repository of the adapter's composition is registered, its root is a
  canonical directory, and every path the call touches, with the files a search would read, is
  inside that root and not protected, on the file system at that moment.
\<close>

theorem guarded_call_is_confined:
  assumes run: "guard_run source (createTrustedExecutionAdapter opts)
      (before @ Guarded x H None # later) st"
    and ok: "host_ok H"
  shows "\<exists>t r configured. createTrustedExecutionAdapter opts x = Some t
     \<and> repositoryFor source (tea_repositoryId opts) = Some r
     \<and> resolveProtectedPaths H (rpol_canonicalPath r) (configured_paths source (rpol_id r))
         = Inr configured
     \<and> host_stat H (rpol_canonicalPath r) = Inr Directory
     \<and> (\<forall>p \<in> set (ac_touchedPaths (car_action (canonicalizeAction H source (tp_action t)))).
          normal_path p \<and> prefix (segs (rpol_canonicalPath r)) (segs p)
          \<and> \<not> isProtectedPath H (rpol_canonicalPath r) p configured)"
proof -
  obtain st0 st1 trusted where
    "guard H source (createTrustedExecutionAdapter opts) trusted x st0 = (None, st1)"
    using guard_run_prefix [OF run, of "before @ [Guarded x H None]" later]
    by (auto elim: guard_run.cases)
  then obtain d where "classify H source (createTrustedExecutionAdapter opts) x = Some d"
    "pd_classification d \<noteq> Denied"
    by (rule guard_passes)
  then obtain t where t: "createTrustedExecutionAdapter opts x = Some t"
    and nd: "pd_classification (classifyAction H source (tp_action t) (Some (tp_provenance t))) \<noteq> Denied"
    by (auto elim: classify_Some)
  have "ac_repositoryId (car_action (canonicalizeAction H source (tp_action t))) = tea_repositoryId opts"
    by (simp add: canonical_repositoryId adapter_repository [OF t])
  with clean_action_confined [OF ok not_denied(2) [OF nd]] t show ?thesis by metis
qed

theorem guarded_call_is_confined_witness:
  "\<exists>t. createTrustedExecutionAdapter sample_adapter sample_execution = Some t
     \<and> repositoryFor sample_source ''repo'' \<noteq> None"
proof -
  obtain st where "guard_run sample_source (createTrustedExecutionAdapter sample_adapter)
     ([guard_event.Started sample_execution sample_host Next] @ Guarded sample_execution sample_host None # []) st"
    using sample_guard_run by blast
  from guarded_call_is_confined [OF this sample_host_ok] show ?thesis
    by (auto simp: sample_adapter_def)
qed

end
